(* ===== verification/Prelude.thy ===== *)
theory Prelude
  imports Complex_Main "HOL-Library.Char_ord" "HOL-Library.List_Lexorder"
    "HOL-Library.Product_Lexorder"
begin

text \<open>
  Shared vocabulary of the development: the named theorem collections, the string
  helpers of Go's packages strings and path/filepath that the components use, keyed
  lists (a database table or a Go map that is iterated over), and 64-bit wrap-around.
  Strings are byte strings (\<open>char list\<close>), as Go's strings are; the order on them is the
  lexicographic byte order of Go's \<open><\<close> and of SQLite's BINARY collation.
\<close>

named_theorems opdefs "definitions of the store and engine operations, to be unfolded together"

type_synonym path = string

subsection \<open>Strings\<close>

definition is_space :: "char \<Rightarrow> bool" where
  "is_space c \<longleftrightarrow> c \<in> set [CHR '' '', CHR 0x09, CHR 0x0A, CHR 0x0B, CHR 0x0C, CHR 0x0D]"

definition trim_left :: "(char \<Rightarrow> bool) \<Rightarrow> string \<Rightarrow> string" where
  "trim_left p s = dropWhile p s"

definition trim_right :: "(char \<Rightarrow> bool) \<Rightarrow> string \<Rightarrow> string" where
  "trim_right p s = rev (dropWhile p (rev s))"

definition trim_space :: "string \<Rightarrow> string" where
  "trim_space s = trim_right is_space (trim_left is_space s)"

definition has_prefix :: "string \<Rightarrow> string \<Rightarrow> bool" where
  "has_prefix s p \<longleftrightarrow> take (length p) s = p"

definition has_suffix :: "string \<Rightarrow> string \<Rightarrow> bool" where
  "has_suffix s p \<longleftrightarrow> length p \<le> length s \<and> drop (length s - length p) s = p"

definition to_lower_char :: "char \<Rightarrow> char" where
  "to_lower_char c = (let n = of_char c :: nat in if 65 \<le> n \<and> n \<le> 90 then char_of (n + 32) else c)"

definition to_lower :: "string \<Rightarrow> string" where
  "to_lower s = map to_lower_char s"

fun join_with :: "string \<Rightarrow> string list \<Rightarrow> string" where
  "join_with sep [] = []"
| "join_with sep [x] = x"
| "join_with sep (x # y # zs) = x @ sep @ join_with sep (y # zs)"

fun digits_of :: "nat \<Rightarrow> string" where
  "digits_of n = (if n < 10 then [char_of (n + 48)] else digits_of (n div 10) @ [char_of (n mod 10 + 48)])"

declare digits_of.simps [simp del]

definition itoa :: "int \<Rightarrow> string" where
  "itoa i = (if i < 0 then CHR ''-'' # digits_of (nat (- i)) else digits_of (nat i))"

lemma has_prefixD: "has_prefix s p \<Longrightarrow> \<exists>r. s = p @ r"
  unfolding has_prefix_def by (metis append_take_drop_id)

lemma has_prefix_append [simp]: "has_prefix (p @ r) p"
  by (simp add: has_prefix_def)

lemma trim_left_nil [simp]: "trim_left p [] = []"
  by (simp add: trim_left_def)

lemma trim_space_nil [simp]: "trim_space [] = []"
  by (simp add: trim_space_def trim_right_def)

lemma digits_of_nonempty [simp]: "digits_of n \<noteq> []"
  by (subst digits_of.simps) simp

subsection \<open>Keyed lists\<close>

text \<open>
  A table with a primary key, or the key/value content of a Go map that the code
  iterates over: a list with a key function. \<open>kfind\<close> is the lookup, \<open>kreplace\<close> the
  in-place update, \<open>kremove\<close> the deletion and \<open>kput\<close> the insert-or-replace of a Go map
  assignment.
\<close>

definition kfind :: "('a \<Rightarrow> 'k) \<Rightarrow> 'k \<Rightarrow> 'a list \<Rightarrow> 'a option" where
  "kfind key k xs = find (\<lambda>x. key x = k) xs"

definition kreplace :: "('a \<Rightarrow> 'k) \<Rightarrow> 'k \<Rightarrow> 'a \<Rightarrow> 'a list \<Rightarrow> 'a list" where
  "kreplace key k y xs = map (\<lambda>x. if key x = k then y else x) xs"

definition kremove :: "('a \<Rightarrow> 'k) \<Rightarrow> 'k \<Rightarrow> 'a list \<Rightarrow> 'a list" where
  "kremove key k xs = filter (\<lambda>x. key x \<noteq> k) xs"

definition kput :: "('a \<Rightarrow> 'k) \<Rightarrow> 'a \<Rightarrow> 'a list \<Rightarrow> 'a list" where
  "kput key y xs = kremove key (key y) xs @ [y]"

definition kdistinct :: "('a \<Rightarrow> 'k) \<Rightarrow> 'a list \<Rightarrow> bool" where
  "kdistinct key xs \<longleftrightarrow> distinct (map key xs)"

lemma kfind_nil [simp]: "kfind key k [] = None"
  by (simp add: kfind_def)

lemma kfind_cons [simp]: "kfind key k (x # xs) = (if key x = k then Some x else kfind key k xs)"
  by (simp add: kfind_def)

lemma kfind_SomeD: "kfind key k xs = Some x \<Longrightarrow> x \<in> set xs \<and> key x = k"
  by (induction xs) (auto split: if_splits)

lemma kfind_key: "kfind key k xs = Some x \<Longrightarrow> key x = k"
  by (drule kfind_SomeD) (erule conjunct2)

lemma kfind_mem: "kfind key k xs = Some x \<Longrightarrow> x \<in> set xs"
  by (drule kfind_SomeD) (erule conjunct1)

lemma kfind_None_iff: "kfind key k xs = None \<longleftrightarrow> k \<notin> key ` set xs"
  by (induction xs) auto

lemma kfind_append: "kfind key k (xs @ ys) = (case kfind key k xs of None \<Rightarrow> kfind key k ys | Some x \<Rightarrow> Some x)"
  by (induction xs) auto

lemma kfind_append_notin: "k \<notin> key ` set xs \<Longrightarrow> kfind key k (xs @ ys) = kfind key k ys"
  by (simp add: kfind_append kfind_None_iff [THEN iffD2])

lemma kfind_in_distinct: "kdistinct key xs \<Longrightarrow> x \<in> set xs \<Longrightarrow> kfind key (key x) xs = Some x"
  by (induction xs) (auto simp: kdistinct_def)

lemma kfind_kreplace: "key y = k \<Longrightarrow>
    kfind key j (kreplace key k y xs) = (if j = k \<and> kfind key k xs \<noteq> None then Some y else kfind key j xs)"
  by (induction xs) (auto simp: kreplace_def)

lemma kfind_kremove: "kfind key j (kremove key k xs) = (if j = k then None else kfind key j xs)"
  by (induction xs) (auto simp: kremove_def)

lemma kfind_kput: "kfind key j (kput key y xs) = (if j = key y then Some y else kfind key j xs)"
  by (auto simp: kput_def kfind_append kfind_kremove split: option.splits)

lemma keys_kreplace: "key y = k \<Longrightarrow> map key (kreplace key k y xs) = map key xs"
  by (induction xs) (auto simp: kreplace_def)

lemma kdistinct_kreplace [simp]: "key y = k \<Longrightarrow> kdistinct key (kreplace key k y xs) = kdistinct key xs"
  by (simp add: kdistinct_def keys_kreplace)

lemma kdistinct_kremove: "kdistinct key xs \<Longrightarrow> kdistinct key (kremove key k xs)"
  by (simp add: kdistinct_def kremove_def distinct_map_filter)

lemma kdistinct_kput: "kdistinct key xs \<Longrightarrow> kdistinct key (kput key y xs)"
  by (auto simp: kput_def kdistinct_def kremove_def distinct_map_filter)

lemma set_kreplace_subset: "set (kreplace key k y xs) \<subseteq> insert y (set xs)"
  by (auto simp: kreplace_def)

lemma set_kreplace_distinct:
  "kdistinct key xs \<Longrightarrow> kfind key k xs = Some r \<Longrightarrow> key y = k \<Longrightarrow>
    set (kreplace key k y xs) = insert y (set xs - {r})"
proof (induction xs)
  case Nil
  then show ?case by simp
next
  case (Cons x xs)
  show ?case
  proof (cases "key x = k")
    case True
    with Cons.prems have "k \<notin> key ` set xs" "r = x"
      by (auto simp: kdistinct_def)
    then have "\<forall>z\<in>set xs. key z \<noteq> k" by (auto simp: image_iff)
    with True have "kreplace key k y xs = xs" "x \<notin> set xs"
      by (auto simp: kreplace_def intro!: map_idI)
    with True \<open>r = x\<close> show ?thesis by (simp add: kreplace_def)
  next
    case False
    with Cons have IH: "set (kreplace key k y xs) = insert y (set xs - {r})"
      by (auto simp: kdistinct_def)
    from Cons.prems False have "r \<noteq> x" by (auto dest: kfind_SomeD)
    with False IH show ?thesis by (auto simp: kreplace_def)
  qed
qed

subsection \<open>Operations that may fail\<close>

text \<open>
  A fallible operation on a state: it returns the state as it leaves it beside either
  an error (\<open>Inl\<close>) or a result (\<open>Inr\<close>).  \<open>bindE\<close> is the code's
  \<open>if err != nil { return err }\<close>: the state the failing call left is kept.
\<close>

type_synonym ('s, 'e, 'a) op = "'s \<Rightarrow> ('e + 'a) \<times> 's"

definition ret :: "'a \<Rightarrow> ('s, 'e, 'a) op" where
  "ret x s = (Inr x, s)"

definition throw :: "'e \<Rightarrow> ('s, 'e, 'a) op" where
  "throw e s = (Inl e, s)"

definition bindE :: "('s, 'e, 'a) op \<Rightarrow> ('a \<Rightarrow> ('s, 'e, 'b) op) \<Rightarrow> ('s, 'e, 'b) op" where
  "bindE m f s = (case m s of (Inl e, s') \<Rightarrow> (Inl e, s') | (Inr x, s') \<Rightarrow> f x s')"

lemma ret_run [simp]: "ret x s = (Inr x, s)"
  by (simp add: ret_def)

lemma throw_run [simp]: "throw e s = (Inl e, s)"
  by (simp add: throw_def)

lemma bindE_Inr: "m s = (Inr x, s') \<Longrightarrow> bindE m f s = f x s'"
  by (simp add: bindE_def)

lemma bindE_Inl: "m s = (Inl e, s') \<Longrightarrow> bindE m f s = (Inl e, s')"
  by (simp add: bindE_def)

lemma bindE_InrE:
  assumes "bindE m f s = (Inr y, s'')"
  obtains x s' where "m s = (Inr x, s')" "f x s' = (Inr y, s'')"
  using assms by (auto simp: bindE_def split: prod.splits sum.splits)

lemma bindE_preserves:
  "P s \<Longrightarrow> (\<And>s. P s \<Longrightarrow> P (snd (m s))) \<Longrightarrow> (\<And>x s. P s \<Longrightarrow> P (snd (f x s))) \<Longrightarrow> P (snd (bindE m f s))"
  by (auto simp: bindE_def split: prod.splits sum.splits) (metis snd_conv)+

subsection \<open>64-bit integers\<close>

text \<open>Go's \<open>int\<close> and \<open>int64\<close> are 64-bit two's complement; sums wrap.\<close>

definition wrap64 :: "int \<Rightarrow> int" where
  "wrap64 x = (x + 2 ^ 63) mod 2 ^ 64 - 2 ^ 63"

lemma wrap64_range: "- (2 ^ 63) \<le> wrap64 x \<and> wrap64 x < 2 ^ 63"
  by (simp add: wrap64_def)

lemma wrap64_id: "- (2 ^ 63) \<le> x \<Longrightarrow> x < 2 ^ 63 \<Longrightarrow> wrap64 x = x"
  by (simp add: wrap64_def)

end
