(* ===== verification/Status.thy ===== *)
theory Status
  imports Prelude
begin

text \<open>
  The vocabulary of src/internal/state/statuses.go: the ten archive lifecycle statuses, the
  archive-level hooks status, the per-hook row status, the directed graph of allowed
  transitions and its check.  A status is a constructor here and a string in the code and in
  the database; \<open>status_str\<close> and \<open>parse_status\<close> convert, and the CHECK constraint of
  migration 004 is what lets a database row carry the constructor.
\<close>

subsection \<open>Statuses\<close>

datatype status =
    StatusDiscovered | StatusConverting | StatusIndexing | StatusIndexFailed | StatusMounting
  | StatusMountFailed | StatusMounted | StatusHooksRunning | StatusUnmounting | StatusAbsent

fun status_str :: "status \<Rightarrow> string" where
  "status_str StatusDiscovered = ''discovered''"
| "status_str StatusConverting = ''converting''"
| "status_str StatusIndexing = ''indexing''"
| "status_str StatusIndexFailed = ''index_failed''"
| "status_str StatusMounting = ''mounting''"
| "status_str StatusMountFailed = ''mount_failed''"
| "status_str StatusMounted = ''mounted''"
| "status_str StatusHooksRunning = ''hooks_running''"
| "status_str StatusUnmounting = ''unmounting''"
| "status_str StatusAbsent = ''absent''"

definition ARCHIVE_STATUSES :: "status list" where
  "ARCHIVE_STATUSES =
    [StatusDiscovered, StatusConverting, StatusIndexing, StatusIndexFailed, StatusMounting,
     StatusMountFailed, StatusMounted, StatusHooksRunning, StatusUnmounting, StatusAbsent]"

definition parse_status :: "string \<Rightarrow> status option" where
  "parse_status s = find (\<lambda>x. status_str x = s) ARCHIVE_STATUSES"

definition IsArchiveStatus :: "string \<Rightarrow> bool" where
  "IsArchiveStatus s \<longleftrightarrow> parse_status s \<noteq> None"

datatype hooks_status = HooksNone | HooksPending | HooksRunning | HooksSuccess | HooksFailed | HooksRetry

fun hooks_status_str :: "hooks_status \<Rightarrow> string" where
  "hooks_status_str HooksNone = ''none''"
| "hooks_status_str HooksPending = ''pending''"
| "hooks_status_str HooksRunning = ''running''"
| "hooks_status_str HooksSuccess = ''success''"
| "hooks_status_str HooksFailed = ''failed''"
| "hooks_status_str HooksRetry = ''retry''"

definition HOOKS_STATUSES :: "hooks_status list" where
  "HOOKS_STATUSES = [HooksNone, HooksPending, HooksRunning, HooksSuccess, HooksFailed, HooksRetry]"

definition parse_hooks_status :: "string \<Rightarrow> hooks_status option" where
  "parse_hooks_status s = find (\<lambda>x. hooks_status_str x = s) HOOKS_STATUSES"

datatype hook_row_status = HookPending | HookRunning | HookSuccess | HookFailed | HookRetry | HookSkipped

fun hook_row_status_str :: "hook_row_status \<Rightarrow> string" where
  "hook_row_status_str HookPending = ''pending''"
| "hook_row_status_str HookRunning = ''running''"
| "hook_row_status_str HookSuccess = ''success''"
| "hook_row_status_str HookFailed = ''failed''"
| "hook_row_status_str HookRetry = ''retry''"
| "hook_row_status_str HookSkipped = ''skipped''"

definition HOOK_ROW_STATUSES :: "hook_row_status list" where
  "HOOK_ROW_STATUSES = [HookPending, HookRunning, HookSuccess, HookFailed, HookRetry, HookSkipped]"

definition parse_hook_row_status :: "string \<Rightarrow> hook_row_status option" where
  "parse_hook_row_status s = find (\<lambda>x. hook_row_status_str x = s) HOOK_ROW_STATUSES"

text \<open>Go sorts statuses by their strings, so that is their order.\<close>

lemma status_str_inject [simp]: "status_str a = status_str b \<longleftrightarrow> a = b"
  by (cases a; cases b) simp_all

instantiation status :: linorder
begin

definition less_eq_status :: "status \<Rightarrow> status \<Rightarrow> bool" where
  "less_eq_status a b \<longleftrightarrow> status_str a \<le> status_str b"

definition less_status :: "status \<Rightarrow> status \<Rightarrow> bool" where
  "less_status a b \<longleftrightarrow> status_str a < status_str b"

instance
  by standard (auto simp: less_eq_status_def less_status_def less_le)

end

subsection \<open>The transition graph\<close>

fun ALLOWED_TRANSITIONS :: "status \<Rightarrow> status list" where
  "ALLOWED_TRANSITIONS StatusDiscovered =
    [StatusConverting, StatusIndexing, StatusMounting, StatusUnmounting, StatusAbsent]"
| "ALLOWED_TRANSITIONS StatusConverting =
    [StatusDiscovered, StatusIndexing, StatusMounting, StatusMountFailed,
     StatusIndexFailed, StatusUnmounting, StatusAbsent]"
| "ALLOWED_TRANSITIONS StatusIndexing =
    [StatusIndexFailed, StatusMounted, StatusHooksRunning, StatusUnmounting,
     StatusDiscovered, StatusMounting, StatusMountFailed]"
| "ALLOWED_TRANSITIONS StatusIndexFailed = [StatusDiscovered, StatusUnmounting, StatusAbsent]"
| "ALLOWED_TRANSITIONS StatusMounting =
    [StatusMounted, StatusMountFailed, StatusHooksRunning, StatusUnmounting, StatusIndexing]"
| "ALLOWED_TRANSITIONS StatusMountFailed =
    [StatusConverting, StatusMounting, StatusDiscovered, StatusUnmounting, StatusAbsent, StatusIndexing]"
| "ALLOWED_TRANSITIONS StatusMounted =
    [StatusHooksRunning, StatusUnmounting, StatusMounting, StatusMountFailed]"
| "ALLOWED_TRANSITIONS StatusHooksRunning = [StatusMounted, StatusUnmounting, StatusMountFailed]"
| "ALLOWED_TRANSITIONS StatusUnmounting =
    [StatusAbsent, StatusMounted, StatusDiscovered, StatusConverting, StatusMounting, StatusMountFailed]"
| "ALLOWED_TRANSITIONS StatusAbsent = [StatusDiscovered]"

definition ACTIVE_STATUSES :: "status list" where
  "ACTIVE_STATUSES =
    [StatusDiscovered, StatusConverting, StatusIndexing, StatusIndexFailed, StatusMounting,
     StatusMountFailed, StatusMounted, StatusHooksRunning, StatusUnmounting]"

definition PID_STATUSES :: "status list" where
  "PID_STATUSES = [StatusIndexing, StatusMounting, StatusMounted, StatusHooksRunning]"

definition sortedKeys :: "status list \<Rightarrow> status list" where
  "sortedKeys ks = sort (remdups ks)"

definition ActiveStatusesList :: "status list" where
  "ActiveStatusesList = sortedKeys ACTIVE_STATUSES"

subsection \<open>Errors of the store\<close>

text \<open>
  One constructor per error the store returns.  The four error types of errors.go are the
  value of \<open>err_type\<close>; \<open>err_is\<close> is what \<open>errors.Is\<close> answers through the types' \<open>Is\<close> methods.
\<close>

datatype store_error =
    UnknownFromStatus string
  | UnknownToStatus string
  | IllegalTransition status status "status list"
  | OptimisticLock string status "status list"
  | UpdateFailed string
  | UnknownFields "string list"
  | InvalidHooksStatus string
  | InvalidHookStatus string
  | CannotInsert string
  | UpdateArchiveError string
  | InsertHookError string
  | UpdateHookError string
  | HookUpsertFailed
  | BadStatusFilter
  | ArchiveNotFound string
  | SchemaTooNew int int
  | SchemaMigrationError string
  | SchemaUnversioned

datatype err_kind = StateError | SchemaError | TransitionError | NotFoundError

fun err_type :: "store_error \<Rightarrow> err_kind" where
  "err_type (UnknownFromStatus _) = TransitionError"
| "err_type (UnknownToStatus _) = TransitionError"
| "err_type (IllegalTransition _ _ _) = TransitionError"
| "err_type (OptimisticLock _ _ _) = TransitionError"
| "err_type (UpdateFailed _) = TransitionError"
| "err_type (ArchiveNotFound _) = NotFoundError"
| "err_type (SchemaTooNew _ _) = SchemaError"
| "err_type (SchemaMigrationError _) = SchemaError"
| "err_type SchemaUnversioned = SchemaError"
| "err_type _ = StateError"

definition err_is :: "store_error \<Rightarrow> err_kind \<Rightarrow> bool" where
  "err_is e t \<longleftrightarrow> t = StateError \<or> err_type e = t"

subsection \<open>The transition check\<close>

definition validate_transition :: "status \<Rightarrow> status \<Rightarrow> store_error option" where
  "validate_transition from to =
    (if from = to then None
     else if to \<in> set (ALLOWED_TRANSITIONS from) then None
     else Some (IllegalTransition from to (sortedKeys (ALLOWED_TRANSITIONS from))))"

definition ValidateTransition :: "string \<Rightarrow> string \<Rightarrow> store_error option" where
  "ValidateTransition from to =
    (case parse_status from of
       None \<Rightarrow> Some (UnknownFromStatus from)
     | Some f \<Rightarrow>
         (case parse_status to of
            None \<Rightarrow> Some (UnknownToStatus to)
          | Some t \<Rightarrow> validate_transition f t))"

lemma parse_status_str [simp]: "parse_status (status_str s) = Some s"
  by (cases s) (simp_all add: parse_status_def ARCHIVE_STATUSES_def)

lemma parse_status_Some_iff: "parse_status s = Some x \<longleftrightarrow> s = status_str x"
  by (auto simp: parse_status_def find_Some_iff)
    (metis parse_status_def parse_status_str find_Some_iff)

lemma parse_hooks_status_str [simp]: "parse_hooks_status (hooks_status_str s) = Some s"
  by (cases s) (simp_all add: parse_hooks_status_def HOOKS_STATUSES_def)

lemma parse_hook_row_status_str [simp]: "parse_hook_row_status (hook_row_status_str s) = Some s"
  by (cases s) (simp_all add: parse_hook_row_status_def HOOK_ROW_STATUSES_def)

lemma validate_transition_None: "validate_transition a b = None \<longleftrightarrow> a = b \<or> b \<in> set (ALLOWED_TRANSITIONS a)"
  by (simp add: validate_transition_def)

lemma validate_transition_type: "validate_transition a b = Some e \<Longrightarrow> err_type e = TransitionError"
  by (auto simp: validate_transition_def split: if_splits)

lemma not_allowed_self: "s \<notin> set (ALLOWED_TRANSITIONS s)"
  by (cases s) simp_all

lemma absent_leaves_to_discovered: "validate_transition StatusAbsent s = None \<longleftrightarrow> s \<in> {StatusAbsent, StatusDiscovered}"
  by (auto simp: validate_transition_None)

lemma to_unmounting: "s \<noteq> StatusAbsent \<Longrightarrow> validate_transition s StatusUnmounting = None"
  by (cases s) (simp_all add: validate_transition_def)

lemma sortedKeys_set [simp]: "set (sortedKeys ks) = set ks"
  by (simp add: sortedKeys_def)

lemma status_UNIV: "set ARCHIVE_STATUSES = UNIV"
proof -
  have "s \<in> set ARCHIVE_STATUSES" for s by (cases s) (simp_all add: ARCHIVE_STATUSES_def)
  then show ?thesis by blast
qed

text \<open>ValidateTransition accepts a pair of strings exactly when both name statuses and they are
  equal or an edge of ALLOWED_TRANSITIONS.  Every refusal is a TransitionError, and the refusal of a
  pair of known statuses lists the source's outgoing edges, sorted by name.\<close>

theorem ValidateTransition_iff:
  "(ValidateTransition f t = None \<longleftrightarrow>
      (\<exists>a b. f = status_str a \<and> t = status_str b \<and> (a = b \<or> b \<in> set (ALLOWED_TRANSITIONS a))))
   \<and> (\<forall>e. ValidateTransition f t = Some e \<longrightarrow> err_is e TransitionError)
   \<and> (\<forall>a b. f = status_str a \<and> t = status_str b \<and> ValidateTransition f t \<noteq> None \<longrightarrow>
        (\<exists>l. ValidateTransition f t = Some (IllegalTransition a b l) \<and> sorted l
             \<and> set l = set (ALLOWED_TRANSITIONS a)))"
  by (auto simp: ValidateTransition_def parse_status_Some_iff err_is_def validate_transition_def
      sortedKeys_def split: option.splits if_splits)

lemma ValidateTransition_iff_witness:
  "err_is (IllegalTransition StatusAbsent StatusMounted [StatusDiscovered]) TransitionError"
proof -
  have "ValidateTransition ''absent'' ''mounted'' =
      Some (IllegalTransition StatusAbsent StatusMounted [StatusDiscovered])"
    by (simp add: ValidateTransition_def parse_status_def ARCHIVE_STATUSES_def validate_transition_def
        sortedKeys_def)
  then show ?thesis
    using ValidateTransition_iff [of "''absent''" "''mounted''"] by simp
qed

end
