(* ===== verification/Store.thy ===== *)
theory Store
  imports Status "HOL-Library.Multiset"
begin

text \<open>
  The archive store of src/internal/state (store.go, types.go): the tables \<open>archives\<close>, \<open>hooks\<close>
  and \<open>meta\<close> as keyed lists, every operation of the single writer API, and the constraints the
  schema enforces (primary keys, the unique archive_path, the non-negative counters, the
  cascade of hook rows).  SQL statements that are well formed succeed on a healthy database;
  what can fail here is what the code or the schema's constraints refuse.  Durations in seconds
  are kept in milliseconds.  An operation takes the reading \<open>utc\<close> of UTCNowISO() it would make;
  \<open>now\<close> is the caller's timestamp and \<open>''''\<close> asks for the clock.
\<close>

subsection \<open>Rows\<close>

record archive =
  a_archive_id :: string
  a_source_dir :: string
  a_archive_path :: string
  a_archive_basename :: string
  a_size_bytes :: int
  a_mtime_ns :: int
  a_fingerprint :: string
  a_index_path :: "string option"
  a_overlay_path :: "string option"
  a_mount_path :: "string option"
  a_status :: status
  a_mount_retryable :: bool
  a_mount_attempts :: int
  a_last_seen_at :: string
  a_removed_at :: "string option"
  a_first_mounted_at :: "string option"
  a_hooks_status :: hooks_status
  a_hooks_completed_at :: "string option"
  a_last_error :: "string option"
  a_mount_pid :: "int option"
  a_index_started_at :: "string option"
  a_index_duration_ms :: "int option"
  a_mount_duration_ms :: "int option"
  a_convert_source_size_bytes :: "int option"
  a_convert_duration_ms :: "int option"
  a_created_at :: string
  a_updated_at :: string

record hook_row =
  h_archive_id :: string
  h_hook_name :: string
  h_status :: hook_row_status
  h_attempts :: int
  h_last_exit_code :: "int option"
  h_last_run_at :: "string option"
  h_last_error :: "string option"

definition hook_key :: "hook_row \<Rightarrow> string \<times> string" where
  "hook_key h = (h_archive_id h, h_hook_name h)"

record store =
  s_archives :: "archive list"
  s_hooks :: "hook_row list"
  s_meta :: "(string \<times> string) list"

type_synonym 'a store_op = "(store, store_error, 'a) op"

text \<open>The time an operation stamps: the caller's, or the clock when that is empty.\<close>

definition ts_of :: "string \<Rightarrow> string \<Rightarrow> string" where
  "ts_of utc now = (if now = '''' then utc else now)"

subsection \<open>Field patches\<close>

text \<open>
  The \<open>map[string]any\<close> of Transition: a component is \<open>Some\<close> when its key is present, so a
  nullable column has an option inside.  \<open>p_unknown\<close> lists the keys outside updatableFields and
  \<open>p_hooks_status\<close> is the raw string, both checked when the patch is used.
\<close>

record patch =
  p_source_dir :: "string option"
  p_archive_path :: "string option"
  p_archive_basename :: "string option"
  p_size_bytes :: "int option"
  p_mtime_ns :: "int option"
  p_fingerprint :: "string option"
  p_index_path :: "string option option"
  p_overlay_path :: "string option option"
  p_mount_path :: "string option option"
  p_mount_retryable :: "bool option"
  p_mount_attempts :: "int option"
  p_last_seen_at :: "string option"
  p_removed_at :: "string option option"
  p_first_mounted_at :: "string option option"
  p_hooks_status :: "string option"
  p_hooks_completed_at :: "string option option"
  p_last_error :: "string option option"
  p_mount_pid :: "int option option"
  p_index_started_at :: "string option option"
  p_index_duration_ms :: "int option option"
  p_mount_duration_ms :: "int option option"
  p_convert_source_size_bytes :: "int option option"
  p_convert_duration_ms :: "int option option"
  p_unknown :: "string list"

definition no_fields :: patch where
  "no_fields = \<lparr> p_source_dir = None, p_archive_path = None, p_archive_basename = None,
     p_size_bytes = None, p_mtime_ns = None, p_fingerprint = None, p_index_path = None,
     p_overlay_path = None, p_mount_path = None, p_mount_retryable = None,
     p_mount_attempts = None, p_last_seen_at = None, p_removed_at = None,
     p_first_mounted_at = None, p_hooks_status = None, p_hooks_completed_at = None,
     p_last_error = None, p_mount_pid = None, p_index_started_at = None,
     p_index_duration_ms = None, p_mount_duration_ms = None,
     p_convert_source_size_bytes = None, p_convert_duration_ms = None, p_unknown = [] \<rparr>"

fun patched :: "'a option \<Rightarrow> 'a \<Rightarrow> 'a" where
  "patched None old = old"
| "patched (Some new) old = new"

definition patched_hooks_status :: "string option \<Rightarrow> hooks_status \<Rightarrow> hooks_status" where
  "patched_hooks_status p old = patched (Option.bind p parse_hooks_status) old"

definition apply_patch :: "patch \<Rightarrow> archive \<Rightarrow> archive" where
  "apply_patch p r = r \<lparr>
     a_source_dir := patched (p_source_dir p) (a_source_dir r),
     a_archive_path := patched (p_archive_path p) (a_archive_path r),
     a_archive_basename := patched (p_archive_basename p) (a_archive_basename r),
     a_size_bytes := patched (p_size_bytes p) (a_size_bytes r),
     a_mtime_ns := patched (p_mtime_ns p) (a_mtime_ns r),
     a_fingerprint := patched (p_fingerprint p) (a_fingerprint r),
     a_index_path := patched (p_index_path p) (a_index_path r),
     a_overlay_path := patched (p_overlay_path p) (a_overlay_path r),
     a_mount_path := patched (p_mount_path p) (a_mount_path r),
     a_mount_retryable := patched (p_mount_retryable p) (a_mount_retryable r),
     a_mount_attempts := patched (p_mount_attempts p) (a_mount_attempts r),
     a_last_seen_at := patched (p_last_seen_at p) (a_last_seen_at r),
     a_removed_at := patched (p_removed_at p) (a_removed_at r),
     a_first_mounted_at := patched (p_first_mounted_at p) (a_first_mounted_at r),
     a_hooks_status := patched_hooks_status (p_hooks_status p) (a_hooks_status r),
     a_hooks_completed_at := patched (p_hooks_completed_at p) (a_hooks_completed_at r),
     a_last_error := patched (p_last_error p) (a_last_error r),
     a_mount_pid := patched (p_mount_pid p) (a_mount_pid r),
     a_index_started_at := patched (p_index_started_at p) (a_index_started_at r),
     a_index_duration_ms := patched (p_index_duration_ms p) (a_index_duration_ms r),
     a_mount_duration_ms := patched (p_mount_duration_ms p) (a_mount_duration_ms r),
     a_convert_source_size_bytes :=
       patched (p_convert_source_size_bytes p) (a_convert_source_size_bytes r),
     a_convert_duration_ms := patched (p_convert_duration_ms p) (a_convert_duration_ms r) \<rparr>"

text \<open>Checks on a patch before the transaction opens.\<close>

definition check_fields :: "patch \<Rightarrow> store_error option" where
  "check_fields p =
    (if p_unknown p \<noteq> [] then Some (UnknownFields (sort (p_unknown p)))
     else (case p_hooks_status p of
             None \<Rightarrow> None
           | Some hs \<Rightarrow> (case parse_hooks_status hs of
                 None \<Rightarrow> Some (InvalidHooksStatus hs)
               | Some _ \<Rightarrow> None)))"

subsection \<open>Transactions and reads\<close>

definition Transaction :: "'a store_op \<Rightarrow> 'a store_op" where
  "Transaction fn s = (case fn s of
      (Inl e, s') \<Rightarrow> (Inl e, s)
    | (Inr x, s') \<Rightarrow> (Inr x, s'))"

definition GetMeta :: "store \<Rightarrow> string \<Rightarrow> string option" where
  "GetMeta s key = map_option snd (kfind fst key (s_meta s))"

definition SetMeta :: "string \<Rightarrow> string \<Rightarrow> unit store_op" where
  "SetMeta key val = Transaction (\<lambda>s. ret () (s\<lparr>s_meta := kput fst (key, val) (s_meta s)\<rparr>))"

definition GetArchive :: "store \<Rightarrow> string \<Rightarrow> archive option" where
  "GetArchive s aid = kfind a_archive_id aid (s_archives s)"

definition GetArchiveByPath :: "store \<Rightarrow> string \<Rightarrow> archive option" where
  "GetArchiveByPath s p = kfind a_archive_path p (s_archives s)"

datatype status_filter = AnyStatus | OneStatus string | StatusIn "string list" | OtherFilter

definition by_created :: "archive \<Rightarrow> string \<times> string" where
  "by_created r = (a_created_at r, a_archive_id r)"

fun ListArchives :: "store \<Rightarrow> status_filter \<Rightarrow> store_error + archive list" where
  "ListArchives s AnyStatus = Inr (sort_key by_created (s_archives s))"
| "ListArchives s (OneStatus v) =
    Inr (sort_key by_created (filter (\<lambda>r. status_str (a_status r) = v) (s_archives s)))"
| "ListArchives s (StatusIn vs) =
    (if vs = [] then Inr []
     else Inr (sort_key by_created (filter (\<lambda>r. status_str (a_status r) \<in> set vs) (s_archives s))))"
| "ListArchives s OtherFilter = Inl BadStatusFilter"

definition by_removed :: "archive \<Rightarrow> string \<times> string" where
  "by_removed r = (case a_removed_at r of None \<Rightarrow> '''' | Some t \<Rightarrow> t, a_archive_id r)"

definition ListAbsentPastGrace :: "store \<Rightarrow> string \<Rightarrow> archive list" where
  "ListAbsentPastGrace s beforeISO =
    sort_key by_removed (filter (\<lambda>r. a_status r = StatusAbsent \<and>
      (case a_removed_at r of None \<Rightarrow> False | Some t \<Rightarrow> t \<le> beforeISO)) (s_archives s))"

subsection \<open>Insert\<close>

record insert_params =
  i_source_dir :: string
  i_archive_path :: string
  i_archive_basename :: string
  i_size_bytes :: int
  i_mtime_ns :: int
  i_fingerprint :: string
  i_archive_id :: string
  i_index_path :: "string option"
  i_overlay_path :: "string option"
  i_mount_path :: "string option"
  i_now :: string

definition discovered_row :: "string \<Rightarrow> string \<Rightarrow> insert_params \<Rightarrow> archive" where
  "discovered_row aid ts p = \<lparr>
     a_archive_id = aid, a_source_dir = i_source_dir p, a_archive_path = i_archive_path p,
     a_archive_basename = i_archive_basename p, a_size_bytes = i_size_bytes p,
     a_mtime_ns = i_mtime_ns p, a_fingerprint = i_fingerprint p,
     a_index_path = i_index_path p, a_overlay_path = i_overlay_path p,
     a_mount_path = i_mount_path p, a_status = StatusDiscovered, a_mount_retryable = True,
     a_mount_attempts = 0, a_last_seen_at = ts, a_removed_at = None, a_first_mounted_at = None,
     a_hooks_status = HooksNone, a_hooks_completed_at = None, a_last_error = None,
     a_mount_pid = None, a_index_started_at = None, a_index_duration_ms = None,
     a_mount_duration_ms = None, a_convert_source_size_bytes = None,
     a_convert_duration_ms = None, a_created_at = ts, a_updated_at = ts \<rparr>"

text \<open>\<open>uuid\<close> is the identifier NewArchiveID() would return.\<close>

definition InsertDiscovered :: "string \<Rightarrow> string \<Rightarrow> insert_params \<Rightarrow> archive option store_op" where
  "InsertDiscovered utc uuid p =
    (let aid = (if i_archive_id p = '''' then uuid else i_archive_id p);
         ts = ts_of utc (i_now p) in
     bindE
       (Transaction (\<lambda>s.
          if aid \<in> a_archive_id ` set (s_archives s) \<or> i_archive_path p \<in> a_archive_path ` set (s_archives s)
          then throw (CannotInsert (i_archive_path p)) s
          else ret () (s\<lparr>s_archives := s_archives s @ [discovered_row aid ts p]\<rparr>)))
       (\<lambda>_ s. ret (GetArchive s aid) s))"

subsection \<open>Transition\<close>

datatype expected = NoExpected | Expect "status list"

definition check_expected :: "string \<Rightarrow> expected \<Rightarrow> status \<Rightarrow> store_error option" where
  "check_expected aid ex current = (case ex of
      NoExpected \<Rightarrow> None
    | Expect l \<Rightarrow> (if current \<in> set l then None else Some (OptimisticLock aid current (sortedKeys l))))"

text \<open>
  The fields Transition adds to the caller's, each only when the caller does not set it.
\<close>

definition auto_fields :: "archive \<Rightarrow> status \<Rightarrow> string \<Rightarrow> patch \<Rightarrow> patch" where
  "auto_fields rec to ts p = (let current = a_status rec in p \<lparr>
     p_removed_at :=
       (if p_removed_at p \<noteq> None then p_removed_at p
        else if to = StatusAbsent then Some (Some ts)
        else if to = StatusDiscovered \<and> current = StatusAbsent then Some None
        else None),
     p_index_started_at :=
       (if p_index_started_at p \<noteq> None then p_index_started_at p
        else if to = StatusIndexing \<or> to = StatusMounting then Some (Some ts)
        else None),
     p_index_duration_ms :=
       (if p_index_duration_ms p \<noteq> None then p_index_duration_ms p
        else if to = StatusIndexing \<and> current \<noteq> StatusIndexing then Some None
        else None),
     p_first_mounted_at :=
       (if p_first_mounted_at p \<noteq> None then p_first_mounted_at p
        else if (to = StatusMounted \<or> to = StatusHooksRunning)
             \<and> (current = StatusIndexing \<or> current = StatusMounting)
             \<and> a_first_mounted_at rec = None
        then Some (Some ts)
        else None) \<rparr>)"

definition transition_row :: "archive \<Rightarrow> status \<Rightarrow> string \<Rightarrow> patch \<Rightarrow> archive" where
  "transition_row rec to ts p =
    (apply_patch (auto_fields rec to ts p) rec)\<lparr>a_status := to, a_updated_at := ts\<rparr>"

text \<open>The UPDATE of one row, with the constraints it may violate.\<close>

definition update_archive :: "string \<Rightarrow> archive \<Rightarrow> unit store_op" where
  "update_archive aid row s =
    (if a_mount_attempts row < 0
        \<or> (\<exists>r \<in> set (s_archives s). a_archive_id r \<noteq> aid \<and> a_archive_path r = a_archive_path row)
     then throw (UpdateArchiveError aid) s
     else ret () (s\<lparr>s_archives := kreplace a_archive_id aid row (s_archives s)\<rparr>))"

definition transition_txn :: "string \<Rightarrow> status \<Rightarrow> expected \<Rightarrow> patch \<Rightarrow> string \<Rightarrow> unit store_op" where
  "transition_txn aid to ex p ts s =
    (case GetArchive s aid of
       None \<Rightarrow> throw (ArchiveNotFound aid) s
     | Some rec \<Rightarrow>
         (case check_expected aid ex (a_status rec) of
            Some e \<Rightarrow> throw e s
          | None \<Rightarrow>
              (case validate_transition (a_status rec) to of
                 Some e \<Rightarrow> throw e s
               | None \<Rightarrow> update_archive aid (transition_row rec to ts p) s)))"

definition Transition ::
  "string \<Rightarrow> string \<Rightarrow> status \<Rightarrow> expected \<Rightarrow> patch \<Rightarrow> string \<Rightarrow> archive option store_op" where
  "Transition utc aid to ex p now =
    (case check_fields p of
       Some e \<Rightarrow> throw e
     | None \<Rightarrow>
         bindE (Transaction (transition_txn aid to ex p (ts_of utc now)))
           (\<lambda>_ s. ret (GetArchive s aid) s))"

text \<open>The entry with the raw strings of the code: an unknown target is refused first.\<close>

definition Transition_str ::
  "string \<Rightarrow> string \<Rightarrow> string \<Rightarrow> expected \<Rightarrow> patch \<Rightarrow> string \<Rightarrow> archive option store_op" where
  "Transition_str utc aid to ex p now =
    (case parse_status to of
       None \<Rightarrow> throw (UnknownToStatus to)
     | Some t \<Rightarrow> Transition utc aid t ex p now)"

definition ClaimIndexing :: "string \<Rightarrow> string \<Rightarrow> patch \<Rightarrow> string \<Rightarrow> archive option store_op" where
  "ClaimIndexing utc aid p now = Transition utc aid StatusIndexing (Expect [StatusDiscovered]) p now"

definition ClaimConverting :: "string \<Rightarrow> string \<Rightarrow> patch \<Rightarrow> string \<Rightarrow> archive option store_op" where
  "ClaimConverting utc aid p now = Transition utc aid StatusConverting (Expect [StatusDiscovered]) p now"

definition ClaimMounting :: "string \<Rightarrow> string \<Rightarrow> expected \<Rightarrow> patch \<Rightarrow> string \<Rightarrow> archive option store_op" where
  "ClaimMounting utc aid ex p now =
    Transition utc aid StatusMounting
      (case ex of NoExpected \<Rightarrow> Expect [StatusMountFailed, StatusMounted, StatusUnmounting] | Expect l \<Rightarrow> Expect l)
      p now"

subsection \<open>Operations built on Transition\<close>

definition TouchSeen ::
  "string \<Rightarrow> string \<Rightarrow> int option \<Rightarrow> int option \<Rightarrow> string option \<Rightarrow> string \<Rightarrow> archive option store_op" where
  "TouchSeen utc aid sz mtime fp now s =
    (case GetArchive s aid of
       None \<Rightarrow> throw (ArchiveNotFound aid) s
     | Some rec \<Rightarrow>
         Transition utc aid (a_status rec) (Expect [a_status rec])
           (no_fields\<lparr>p_last_seen_at := Some (ts_of utc now), p_size_bytes := sz,
                      p_mtime_ns := mtime, p_fingerprint := fp\<rparr>) now s)"

definition MarkAbsent :: "string \<Rightarrow> string \<Rightarrow> string \<Rightarrow> string option \<Rightarrow> archive option store_op" where
  "MarkAbsent utc aid now lastError s =
    (case GetArchive s aid of
       None \<Rightarrow> throw (ArchiveNotFound aid) s
     | Some rec \<Rightarrow>
         (let ts = ts_of utc now;
              fields = no_fields\<lparr>p_removed_at := Some (Some ts), p_mount_pid := Some None,
                                 p_last_error := map_option Some lastError\<rparr> in
          if a_status rec = StatusAbsent
          then Transition utc aid StatusAbsent (Expect [StatusAbsent]) fields ts s
          else if a_status rec = StatusUnmounting
          then Transition utc aid StatusAbsent (Expect [StatusUnmounting]) fields ts s
          else bindE
            (Transition utc aid StatusUnmounting (Expect [a_status rec])
               (no_fields\<lparr>p_mount_pid := Some None\<rparr>) ts)
            (\<lambda>_. Transition utc aid StatusAbsent (Expect [StatusUnmounting]) fields ts) s))"

definition Reappear ::
  "string \<Rightarrow> string \<Rightarrow> int \<Rightarrow> int \<Rightarrow> string \<Rightarrow> string \<Rightarrow> archive option store_op" where
  "Reappear utc aid sz mtime fp now =
    (let ts = ts_of utc now in
     Transition utc aid StatusDiscovered (Expect [StatusAbsent])
       (no_fields\<lparr>p_size_bytes := Some sz, p_mtime_ns := Some mtime, p_fingerprint := Some fp,
                  p_last_seen_at := Some ts, p_removed_at := Some None, p_mount_attempts := Some 0,
                  p_mount_retryable := Some True, p_last_error := Some None\<rparr>) ts)"

definition reset_fields :: patch where
  "reset_fields = no_fields\<lparr>p_mount_attempts := Some 0, p_mount_retryable := Some True,
                            p_last_error := Some None\<rparr>"

definition ResetMountAttempts :: "string \<Rightarrow> string \<Rightarrow> bool \<Rightarrow> string \<Rightarrow> archive option store_op" where
  "ResetMountAttempts utc aid requeue now s =
    (case GetArchive s aid of
       None \<Rightarrow> throw (ArchiveNotFound aid) s
     | Some rec \<Rightarrow>
         (if \<not> requeue
          then Transition utc aid (a_status rec) (Expect [a_status rec]) reset_fields now s
          else if a_status rec = StatusIndexFailed
          then Transition utc aid StatusDiscovered (Expect [StatusIndexFailed]) reset_fields now s
          else if a_status rec = StatusMountFailed
          then Transition utc aid StatusMounting (Expect [StatusMountFailed]) reset_fields now s
          else Transition utc aid (a_status rec) (Expect [a_status rec]) reset_fields now s))"

definition reset_row :: "string \<Rightarrow> archive \<Rightarrow> archive" where
  "reset_row ts r =
    (if a_status r \<noteq> StatusAbsent
     then r\<lparr>a_mount_attempts := 0, a_mount_retryable := True, a_updated_at := ts\<rparr> else r)"

definition ResetAllPresentAttempts :: "string \<Rightarrow> string \<Rightarrow> int store_op" where
  "ResetAllPresentAttempts utc now =
    Transaction (\<lambda>s. ret (int (length (filter (\<lambda>r. a_status r \<noteq> StatusAbsent) (s_archives s))))
      (s\<lparr>s_archives := map (reset_row (ts_of utc now)) (s_archives s)\<rparr>))"

definition content_fields :: "archive \<Rightarrow> int \<Rightarrow> int \<Rightarrow> string \<Rightarrow> bool \<Rightarrow> string \<Rightarrow> patch" where
  "content_fields rec sz mtime fp resetHooks ts =
    (let fields = no_fields\<lparr>p_size_bytes := Some sz, p_mtime_ns := Some mtime,
           p_fingerprint := Some fp, p_last_seen_at := Some ts, p_mount_attempts := Some 0,
           p_mount_retryable := Some True, p_mount_pid := Some None,
           p_index_started_at := Some None, p_index_duration_ms := Some None,
           p_mount_duration_ms := Some None, p_last_error := Some None\<rparr> in
     if resetHooks
     then fields\<lparr>p_first_mounted_at := Some None, p_hooks_status := Some (hooks_status_str HooksNone),
                 p_hooks_completed_at := Some None\<rparr>
     else fields\<lparr>p_first_mounted_at := Some (a_first_mounted_at rec)\<rparr>)"

definition delete_hooks_of :: "string \<Rightarrow> store \<Rightarrow> store" where
  "delete_hooks_of aid s = s\<lparr>s_hooks := filter (\<lambda>h. h_archive_id h \<noteq> aid) (s_hooks s)\<rparr>"

definition RecordContentChange ::
  "string \<Rightarrow> string \<Rightarrow> int \<Rightarrow> int \<Rightarrow> string \<Rightarrow> bool \<Rightarrow> string \<Rightarrow> archive option store_op" where
  "RecordContentChange utc aid sz mtime fp resetHooks now s =
    (case GetArchive s aid of
       None \<Rightarrow> throw (ArchiveNotFound aid) s
     | Some rec \<Rightarrow>
         (let ts = ts_of utc now;
              fields = content_fields rec sz mtime fp resetHooks ts;
              st = a_status rec;
              direct = (\<lambda>from. Transition utc aid StatusDiscovered (Expect [from]) fields ts);
              via_unmounting = bindE
                (Transition utc aid StatusUnmounting (Expect [st]) (no_fields\<lparr>p_mount_pid := Some None\<rparr>) ts)
                (\<lambda>_. direct StatusUnmounting);
              move =
                (if st = StatusDiscovered then direct StatusDiscovered
                 else if st \<in> {StatusUnmounting, StatusAbsent, StatusIndexFailed, StatusMountFailed,
                               StatusIndexing, StatusMounting}
                 then (if StatusDiscovered \<in> set (ALLOWED_TRANSITIONS st) then direct st else via_unmounting)
                 else via_unmounting) in
          bindE move (\<lambda>updated.
            bindE (if resetHooks then Transaction (\<lambda>s. ret () (delete_hooks_of aid s)) else ret ())
              (\<lambda>_ s. case GetArchive s aid of
                       Some rec2 \<Rightarrow> ret (Some rec2) s
                     | None \<Rightarrow> ret updated s)) s))"

definition PurgeArchive :: "string \<Rightarrow> unit store_op" where
  "PurgeArchive aid = Transaction (\<lambda>s.
     if GetArchive s aid = None then throw (ArchiveNotFound aid) s
     else ret () (delete_hooks_of aid (s\<lparr>s_archives := kremove a_archive_id aid (s_archives s)\<rparr>)))"

subsection \<open>Hook rows\<close>

definition ListHooks :: "store \<Rightarrow> string \<Rightarrow> hook_row list" where
  "ListHooks s aid = sort_key h_hook_name (filter (\<lambda>h. h_archive_id h = aid) (s_hooks s))"

record upsert_params =
  u_status :: string
  u_attempts :: "int option"
  u_last_exit_code :: "int option"
  u_last_run_at :: "string option"
  u_last_error :: "string option"

fun keep_existing :: "'a option \<Rightarrow> 'a option \<Rightarrow> 'a option" where
  "keep_existing None old = old"
| "keep_existing (Some x) old = Some x"

definition upsert_hook_txn :: "string \<Rightarrow> string \<Rightarrow> hook_row_status \<Rightarrow> upsert_params \<Rightarrow> unit store_op" where
  "upsert_hook_txn aid name st p s =
    (case kfind hook_key (aid, name) (s_hooks s) of
       None \<Rightarrow>
         (let attempts = (case u_attempts p of None \<Rightarrow> 0 | Some n \<Rightarrow> n) in
          if attempts < 0 then throw (InsertHookError name) s
          else ret () (s\<lparr>s_hooks := s_hooks s @ [\<lparr>h_archive_id = aid, h_hook_name = name, h_status = st,
                 h_attempts = attempts, h_last_exit_code = u_last_exit_code p,
                 h_last_run_at = u_last_run_at p, h_last_error = u_last_error p\<rparr>]\<rparr>))
     | Some h \<Rightarrow>
         (let attempts = (case u_attempts p of None \<Rightarrow> h_attempts h | Some n \<Rightarrow> n) in
          if attempts < 0 then throw (UpdateHookError name) s
          else ret () (s\<lparr>s_hooks := kreplace hook_key (aid, name)
                 (h\<lparr>h_status := st, h_attempts := attempts,
                    h_last_exit_code := keep_existing (u_last_exit_code p) (h_last_exit_code h),
                    h_last_run_at := keep_existing (u_last_run_at p) (h_last_run_at h),
                    h_last_error := keep_existing (u_last_error p) (h_last_error h)\<rparr>) (s_hooks s)\<rparr>)))"

definition UpsertHook :: "string \<Rightarrow> string \<Rightarrow> upsert_params \<Rightarrow> hook_row store_op" where
  "UpsertHook aid name p s =
    (let raw = (if u_status p = '''' then ''pending'' else u_status p) in
     case parse_hook_row_status raw of
       None \<Rightarrow> throw (InvalidHookStatus raw) s
     | Some st \<Rightarrow>
         (if GetArchive s aid = None then throw (ArchiveNotFound aid) s
          else bindE (Transaction (upsert_hook_txn aid name st p))
            (\<lambda>_ s. case find (\<lambda>h. h_hook_name h = name) (ListHooks s aid) of
                      Some h \<Rightarrow> ret h s
                    | None \<Rightarrow> throw HookUpsertFailed s) s))"

definition status_only :: "string \<Rightarrow> upsert_params" where
  "status_only st = \<lparr>u_status = st, u_attempts = None, u_last_exit_code = None,
     u_last_run_at = None, u_last_error = None\<rparr>"

fun seed_loop :: "string \<Rightarrow> string \<Rightarrow> string list \<Rightarrow> unit store_op" where
  "seed_loop aid st [] s = ret () s"
| "seed_loop aid st (name # names) s =
    (case kfind hook_key (aid, name) (s_hooks s) of
       None \<Rightarrow> bindE (UpsertHook aid name (status_only st)) (\<lambda>_. seed_loop aid st names) s
     | Some _ \<Rightarrow> seed_loop aid st names s)"

definition SeedHooks :: "string \<Rightarrow> string list \<Rightarrow> string \<Rightarrow> hook_row list store_op" where
  "SeedHooks aid names st =
    bindE (seed_loop aid (if st = '''' then ''pending'' else st) names)
      (\<lambda>_ s. ret (ListHooks s aid) s)"

definition DeleteHooks :: "string \<Rightarrow> int store_op" where
  "DeleteHooks aid = Transaction (\<lambda>s.
     ret (int (length (filter (\<lambda>h. h_archive_id h = aid) (s_hooks s)))) (delete_hooks_of aid s))"

end
