(* ===== verification/Paths.thy ===== *)
theory Paths
  imports Prelude
begin

text \<open>
  Path text of the program: the lexical part of Go's path/filepath that the code uses (Clean,
  Join, Abs against a working directory), src/internal/paths (mount names, Windows and WSL path
  mapping, the DrvFs test) and the containment test of src/internal/cleaner/paths.go.  The
  regular expressions of the code are written out as the tests they make; the case-insensitive
  ones fold ASCII letters.  wslpath is an external program and a parameter.
\<close>

subsection \<open>path/filepath\<close>

fun split_on :: "char \<Rightarrow> string \<Rightarrow> string list" where
  "split_on c [] = [[]]"
| "split_on c (x # xs) =
    (if x = c then [] # split_on c xs
     else (case split_on c xs of [] \<Rightarrow> [[x]] | y # ys \<Rightarrow> (x # y) # ys))"

fun is_rooted :: "path \<Rightarrow> bool" where
  "is_rooted [] = False"
| "is_rooted (c # _) = (c = CHR ''/'')"

text \<open>The components a cleaned path keeps, most recent first.\<close>

fun clean_comps :: "bool \<Rightarrow> string list \<Rightarrow> string list \<Rightarrow> string list" where
  "clean_comps rooted acc [] = acc"
| "clean_comps rooted acc (c # cs) =
    (if c = '''' \<or> c = ''.'' then clean_comps rooted acc cs
     else if c = ''..'' then
       (case acc of
          [] \<Rightarrow> clean_comps rooted (if rooted then [] else [''..'']) cs
        | a # as \<Rightarrow> (if a = ''..'' then clean_comps rooted (''..'' # acc) cs else clean_comps rooted as cs))
     else clean_comps rooted (c # acc) cs)"

definition path_clean :: "path \<Rightarrow> path" where
  "path_clean p =
    (let rooted = is_rooted p; comps = rev (clean_comps rooted [] (split_on CHR ''/'' p)) in
     if rooted then CHR ''/'' # join_with ''/'' comps
     else if comps = [] then ''.'' else join_with ''/'' comps)"

definition path_join :: "path \<Rightarrow> path \<Rightarrow> path" where
  "path_join a b =
    (if a = '''' then (if b = '''' then '''' else path_clean b)
     else if b = '''' then path_clean a
     else path_clean (a @ ''/'' @ b))"

text \<open>filepath.Abs with the process's working directory, which is absolute.\<close>

definition path_abs :: "path \<Rightarrow> path \<Rightarrow> path" where
  "path_abs cwd p = (if is_rooted p then path_clean p else path_join cwd p)"

definition path_base :: "path \<Rightarrow> string" where
  "path_base p =
    (if p = '''' then ''.''
     else (let p' = trim_right (\<lambda>c. c = CHR ''/'') p in
           if p' = '''' then ''/'' else last (split_on CHR ''/'' p')))"

definition path_dir :: "path \<Rightarrow> path" where
  "path_dir p = path_clean (rev (dropWhile (\<lambda>c. c \<noteq> CHR ''/'') (rev p)))"

definition path_ext :: "path \<Rightarrow> string" where
  "path_ext p =
    (let b = last (split_on CHR ''/'' p) in
     if CHR ''.'' \<in> set b then CHR ''.'' # last (split_on CHR ''.'' b) else '''')"

definition trim_suffix :: "string \<Rightarrow> string \<Rightarrow> string" where
  "trim_suffix s suf = (if has_suffix s suf then take (length s - length suf) s else s)"

subsection \<open>Containment\<close>

definition PathUnderRoot :: "path \<Rightarrow> path \<Rightarrow> path \<Rightarrow> bool" where
  "PathUnderRoot cwd p r =
    (let p = trim_space p; r = trim_space r in
     if p = '''' \<or> r = '''' then False
     else (let absPath = path_clean (path_abs cwd p); absRoot = path_clean (path_abs cwd r) in
       absPath = absRoot \<or> has_prefix absPath (absRoot @ ''/'')))"

definition QuarantineDir :: "path \<Rightarrow> path" where
  "QuarantineDir overlayDir = path_join overlayDir ''.quarantine''"

subsection \<open>Mount names\<close>

definition is_alnum :: "char \<Rightarrow> bool" where
  "is_alnum c \<longleftrightarrow> (CHR ''A'' \<le> c \<and> c \<le> CHR ''Z'') \<or> (CHR ''a'' \<le> c \<and> c \<le> CHR ''z'') \<or> (CHR ''0'' \<le> c \<and> c \<le> CHR ''9'')"

definition safe_mount_char :: "char \<Rightarrow> bool" where
  "safe_mount_char c \<longleftrightarrow> is_alnum c \<or> c \<in> set ''._+@-''"

text \<open>ReplaceAllString of a one-class repetition: every maximal run becomes one underscore.\<close>

fun squeeze :: "(char \<Rightarrow> bool) \<Rightarrow> bool \<Rightarrow> string \<Rightarrow> string" where
  "squeeze bad in_run [] = []"
| "squeeze bad in_run (c # cs) =
    (if bad c then (if in_run then squeeze bad True cs else CHR ''_'' # squeeze bad True cs)
     else c # squeeze bad False cs)"

definition is_dot_us :: "char \<Rightarrow> bool" where
  "is_dot_us c \<longleftrightarrow> c = CHR ''.'' \<or> c = CHR ''_''"

definition sanitized_base :: "string \<Rightarrow> string" where
  "sanitized_base basename =
    (if basename = '''' then ''archive''
     else (let n1 = squeeze (\<lambda>c. \<not> safe_mount_char c) False basename;
               n2 = squeeze (\<lambda>c. c = CHR ''_'') False n1;
               n3 = trim_right is_dot_us (trim_left is_dot_us n2);
               n4 = (if n3 = '''' then ''archive'' else n3) in
           take 120 n4))"

definition collideCandidate :: "string \<Rightarrow> string \<Rightarrow> string" where
  "collideCandidate nm suffix =
    (let baseMax = max 1 (120 - int (length suffix) - 2);
         base = trim_right is_dot_us (take (nat baseMax) nm) in
     (if base = '''' then ''archive'' else base) @ ''--'' @ suffix)"

fun try_id_prefixes :: "string list \<Rightarrow> string \<Rightarrow> string \<Rightarrow> nat list \<Rightarrow> string option" where
  "try_id_prefixes taken nm aid [] = None"
| "try_id_prefixes taken nm aid (n # ns) =
    (let candidate = collideCandidate nm (take n aid) in
     if candidate \<notin> set taken then Some candidate else try_id_prefixes taken nm aid ns)"

definition numbered :: "string \<Rightarrow> string \<Rightarrow> nat \<Rightarrow> string" where
  "numbered nm aid i = collideCandidate nm (take 8 aid @ ''-'' @ digits_of i)"

text \<open>The last loop of the code has no bound; not returning is \<open>None\<close>.\<close>

partial_function (option) numeric_loop :: "string list \<Rightarrow> string \<Rightarrow> string \<Rightarrow> nat \<Rightarrow> string option" where
  "numeric_loop taken nm aid i =
    (if numbered nm aid i \<notin> set taken then Some (numbered nm aid i)
     else numeric_loop taken nm aid (i + 1))"

definition SanitizeMountName :: "string \<Rightarrow> string \<Rightarrow> string list \<Rightarrow> string option" where
  "SanitizeMountName basename archiveID taken =
    (let nm = sanitized_base basename in
     if nm \<notin> set taken then Some nm
     else (let aid = (if archiveID = '''' then ''unknown'' else archiveID);
               candidate = collideCandidate nm (take 8 aid) in
       if candidate \<notin> set taken then Some candidate
       else (case try_id_prefixes taken nm aid [8..<Suc (length aid)] of
               Some c \<Rightarrow> Some c
             | None \<Rightarrow> numeric_loop taken nm aid 2)))"

subsection \<open>Windows and WSL paths\<close>

definition is_alpha :: "char \<Rightarrow> bool" where
  "is_alpha c \<longleftrightarrow> (CHR ''A'' \<le> c \<and> c \<le> CHR ''Z'') \<or> (CHR ''a'' \<le> c \<and> c \<le> CHR ''z'')"

definition is_quote :: "char \<Rightarrow> bool" where
  "is_quote c \<longleftrightarrow> c = CHR 0x22 \<or> c = CHR 0x27"

definition cleanPathInput :: "string \<Rightarrow> string" where
  "cleanPathInput p = trim_right is_quote (trim_left is_quote (trim_space p))"

definition to_slashes :: "string \<Rightarrow> string" where
  "to_slashes p = map (\<lambda>c. if c = CHR 0x5C then CHR ''/'' else c) p"

definition no_newline :: "string \<Rightarrow> bool" where
  "no_newline s \<longleftrightarrow> CHR 0x0A \<notin> set s"

definition IsWSLUNCPath :: "string \<Rightarrow> bool" where
  "IsWSLUNCPath p =
    (let cleaned = cleanPathInput p in
     if cleaned = '''' then False
     else (let lower = to_lower (to_slashes cleaned) in
       has_prefix lower ''//wsl.localhost'' \<or> has_prefix lower ''//wsl$''))"

text \<open>The pattern of a UNC share: two slashes, a non-empty server name, a slash.\<close>

definition IsUNCPath :: "string \<Rightarrow> bool" where
  "IsUNCPath p =
    (let cleaned = cleanPathInput p in
     if cleaned = '''' then False
     else (let n = to_slashes cleaned; server = takeWhile (\<lambda>c. c \<noteq> CHR ''/'') (drop 2 n) in
       has_prefix n ''//'' \<and> server \<noteq> [] \<and> drop (2 + length server) n \<noteq> []))"

fun squeeze_slashes :: "string \<Rightarrow> string" where
  "squeeze_slashes (a # b # cs) =
    (if a = CHR ''/'' \<and> b = CHR ''/'' then squeeze_slashes (b # cs) else a # squeeze_slashes (b # cs))"
| "squeeze_slashes cs = cs"

definition IsDrvFsPath :: "path \<Rightarrow> bool" where
  "IsDrvFsPath p =
    (if \<not> has_prefix p ''/'' then False
     else (let text = squeeze_slashes p; rest = drop 6 text in
       to_lower (take 5 text) = ''/mnt/'' \<and> 6 \<le> length text \<and> is_alpha (text ! 5)
       \<and> (rest = [] \<or> has_prefix rest ''/'' \<and> no_newline rest)))"

datatype path_error = EmptyPath | WSLUNC string | UNCUnmapped string | CannotMap string | SourceDir nat path_error

text \<open>\<open>wslpath\<close> is the runner's answer, \<open>None\<close> when the tool is missing or fails.\<close>

definition tryWSLPath :: "(string \<Rightarrow> string option) \<Rightarrow> string \<Rightarrow> string option" where
  "tryWSLPath wslpath p =
    (case wslpath p of
       None \<Rightarrow> None
     | Some r \<Rightarrow> (let r = trim_space r in if r = '''' \<or> \<not> has_prefix r ''/'' then None else Some r))"

definition is_slash :: "char \<Rightarrow> bool" where
  "is_slash c \<longleftrightarrow> c = CHR ''/''"

definition drop_sep :: "string \<Rightarrow> string" where
  "drop_sep s = (case s of c # cs \<Rightarrow> if c = CHR ''/'' \<or> c = CHR 0x5C then cs else s | [] \<Rightarrow> [])"

definition win_drive :: "string \<Rightarrow> (string \<times> string) option" where
  "win_drive s =
    (case s of
       d # c # rest \<Rightarrow>
         (if is_alpha d \<and> c = CHR '':'' \<and> no_newline rest then Some ([d], drop_sep rest) else None)
     | _ \<Rightarrow> None)"

definition ToWSLPath :: "(string \<Rightarrow> string option) \<Rightarrow> string \<Rightarrow> path_error + string" where
  "ToWSLPath wslpath p =
    (let cleaned = cleanPathInput p in
     if cleaned = '''' then Inl EmptyPath
     else if IsWSLUNCPath cleaned then Inl (WSLUNC p)
     else if has_prefix cleaned ''/'' then Inr cleaned
     else (case win_drive cleaned of
       Some (d, r) \<Rightarrow>
         (let drive = to_lower d; rest = trim_right is_slash (trim_left is_slash (to_slashes r)) in
          if rest \<noteq> '''' then Inr (''/mnt/'' @ drive @ ''/'' @ rest) else Inr (''/mnt/'' @ drive))
     | None \<Rightarrow>
         (case tryWSLPath wslpath cleaned of
            Some mapped \<Rightarrow> Inr mapped
          | None \<Rightarrow> (if IsUNCPath cleaned then Inl (UNCUnmapped p) else Inl (CannotMap p)))))"

fun map_source_dirs :: "(string \<Rightarrow> string option) \<Rightarrow> nat \<Rightarrow> string list \<Rightarrow> path_error + (string \<times> string) list" where
  "map_source_dirs wslpath i [] = Inr []"
| "map_source_dirs wslpath i (e # es) =
    (case ToWSLPath wslpath e of
       Inl err \<Rightarrow> Inl (SourceDir i err)
     | Inr m \<Rightarrow> (case map_source_dirs wslpath (i + 1) es of Inl err \<Rightarrow> Inl err | Inr ms \<Rightarrow> Inr ((e, m) # ms)))"

definition MapSourceDirs :: "(string \<Rightarrow> string option) \<Rightarrow> string list \<Rightarrow> path_error + (string \<times> string) list" where
  "MapSourceDirs wslpath sourceDirs = map_source_dirs wslpath 0 sourceDirs"

subsection \<open>Facts about path text\<close>

lemma split_on_nonempty [simp]: "split_on c s \<noteq> []"
  by (induction s) (auto split: list.splits)

lemma split_on_notin: "c \<notin> set s \<Longrightarrow> split_on c s = [s]"
  by (induction s) auto

lemma split_on_append: "split_on c (xs @ c # ys) = split_on c xs @ split_on c ys"
proof (induction xs)
  case (Cons x xs)
  then show ?case by (cases "split_on c xs") auto
qed simp

lemma split_on_parts: "p \<in> set (split_on c s) \<Longrightarrow> c \<notin> set p"
proof (induction s arbitrary: p)
  case (Cons x s)
  then show ?case by (cases "split_on c s") (auto split: if_splits)
qed simp

lemma split_join: "xs \<noteq> [] \<Longrightarrow> (\<forall>x \<in> set xs. CHR ''/'' \<notin> set x) \<Longrightarrow> split_on CHR ''/'' (join_with ''/'' xs) = xs"
proof (induction "''/''" xs rule: join_with.induct)
  case (3 x y zs)
  then show ?case using split_on_append [of "CHR ''/''" x] by (simp add: split_on_notin)
qed (simp_all add: split_on_notin)

lemma clean_comps_parts:
  "x \<in> set (clean_comps r acc cs) \<Longrightarrow> x \<in> set acc \<or> x \<in> set cs \<or> x = ''..''"
proof (induction cs arbitrary: acc)
  case (Cons c cs)
  then show ?case
    using Cons.IH [of "[]"] Cons.IH [of "[''..'']"] Cons.IH [of "c # acc"] Cons.IH [of "''..'' # acc"] Cons.IH [of "tl acc"]
      Cons.IH [of acc]
    by (cases acc) (auto split: if_splits)
qed simp

lemma clean_comps_nonempty:
  "x \<in> set (clean_comps r acc cs) \<Longrightarrow> '''' \<notin> set acc \<Longrightarrow> x \<noteq> ''''"
proof (induction cs arbitrary: acc)
  case (Cons c cs)
  then show ?case by (cases acc) (auto split: if_splits)
qed auto

lemma clean_comps_no_dotdot:
  "''..'' \<notin> set acc \<Longrightarrow> ''..'' \<notin> set (clean_comps True acc cs)"
proof (induction cs arbitrary: acc)
  case (Cons c cs)
  then show ?case by (cases acc) auto
qed simp

text \<open>The directory names on the way from the root to an absolute path.\<close>

definition comps :: "path \<Rightarrow> string list" where
  "comps p = rev (clean_comps True [] (split_on CHR ''/'' p))"

lemma comps_parts: "x \<in> set (comps p) \<Longrightarrow> CHR ''/'' \<notin> set x \<and> x \<noteq> '''' \<and> x \<noteq> ''..''"
  using clean_comps_parts [of x True "[]"] split_on_parts [of x "CHR ''/''" p] clean_comps_nonempty [of x True "[]"]
    clean_comps_no_dotdot [of "[]"]
  by (fastforce simp: comps_def)

lemma path_clean_rooted: "is_rooted p \<Longrightarrow> path_clean p = CHR ''/'' # join_with ''/'' (comps p)"
  by (simp add: path_clean_def comps_def Let_def)

lemma clean_comps_append: "clean_comps r acc (xs @ ys) = clean_comps r (clean_comps r acc xs) ys"
proof (induction xs arbitrary: acc)
  case (Cons c xs)
  then show ?case by (cases acc) simp_all
qed simp

lemma clean_comps_plain:
  "(\<forall>c \<in> set cs. c \<noteq> '''' \<and> c \<noteq> ''.'' \<and> c \<noteq> ''..'') \<Longrightarrow> clean_comps r acc cs = rev cs @ acc"
  by (induction cs arbitrary: acc) auto

lemma comps_no_dot: "x \<in> set (comps p) \<Longrightarrow> x \<noteq> ''.''"
proof -
  have "x \<in> set (clean_comps r acc cs) \<Longrightarrow> ''.'' \<notin> set acc \<Longrightarrow> x \<noteq> ''.''" for r acc cs
  proof (induction cs arbitrary: acc)
    case (Cons c cs)
    then show ?case by (cases acc) (auto split: if_splits)
  qed auto
  then show "x \<in> set (comps p) \<Longrightarrow> x \<noteq> ''.''" by (auto simp: comps_def)
qed

lemma comps_clean: "is_rooted p \<Longrightarrow> comps (path_clean p) = comps p"
proof -
  assume r: "is_rooted p"
  have plain: "\<forall>c \<in> set (comps p). c \<noteq> '''' \<and> c \<noteq> ''.'' \<and> c \<noteq> ''..''"
    using comps_parts comps_no_dot by blast
  have "split_on CHR ''/'' (path_clean p) = '''' # (if comps p = [] then [''''] else comps p)"
    using comps_parts by (auto simp: path_clean_rooted [OF r] split_join)
  then show ?thesis
    using clean_comps_plain [OF plain, of True "[]"] by (simp add: comps_def [of "path_clean p"])
qed

lemma is_rooted_clean: "is_rooted p \<Longrightarrow> is_rooted (path_clean p)"
  by (simp add: path_clean_rooted)

lemma is_rooted_append: "is_rooted a \<Longrightarrow> is_rooted (a @ b)"
  by (cases a) auto

lemma is_rooted_abs: "is_rooted cwd \<Longrightarrow> is_rooted (path_abs cwd p)"
  by (auto simp: path_abs_def path_join_def is_rooted_clean is_rooted_append)

lemma path_clean_idem: "is_rooted p \<Longrightarrow> path_clean (path_clean p) = path_clean p"
  by (simp add: path_clean_rooted [of "path_clean p"] is_rooted_clean comps_clean)
    (simp add: path_clean_rooted)

lemma join_inj:
  "(\<forall>x \<in> set xs \<union> set ys. CHR ''/'' \<notin> set x \<and> x \<noteq> '''') \<Longrightarrow> join_with ''/'' xs = join_with ''/'' ys \<Longrightarrow> xs = ys"
proof -
  assume h: "\<forall>x \<in> set xs \<union> set ys. CHR ''/'' \<notin> set x \<and> x \<noteq> ''''" and eq: "join_with ''/'' xs = join_with ''/'' ys"
  have empty: "join_with ''/'' zs = [] \<longleftrightarrow> zs = []" if "\<forall>x \<in> set zs. x \<noteq> ''''" for zs
    using that by (cases zs rule: remdups_adj.cases) auto
  show ?thesis
  proof (cases "xs = [] \<or> ys = []")
    case True
    with empty [of xs] empty [of ys] eq h show ?thesis by auto
  next
    case False
    with h have "split_on CHR ''/'' (join_with ''/'' xs) = xs" "split_on CHR ''/'' (join_with ''/'' ys) = ys"
      by (simp_all add: split_join)
    with eq show ?thesis by metis
  qed
qed

text \<open>Being a text prefix up to a separator is being a prefix of the components.\<close>

lemma join_prefix:
  assumes "\<forall>x \<in> set xs \<union> set ys. CHR ''/'' \<notin> set x \<and> x \<noteq> ''''" "ys \<noteq> []"
  shows "has_prefix (join_with ''/'' xs) (join_with ''/'' ys @ ''/'') \<longleftrightarrow> (\<exists>zs. zs \<noteq> [] \<and> xs = ys @ zs)"
proof
  assume "has_prefix (join_with ''/'' xs) (join_with ''/'' ys @ ''/'')"
  then obtain r where r: "join_with ''/'' xs = join_with ''/'' ys @ CHR ''/'' # r" by (auto dest: has_prefixD)
  then have "xs \<noteq> []" by auto
  with assms(1) have "xs = split_on CHR ''/'' (join_with ''/'' xs)" by (intro split_join [symmetric]) auto
  also have "\<dots> = split_on CHR ''/'' (join_with ''/'' ys) @ split_on CHR ''/'' r"
    unfolding r by (rule split_on_append)
  also have "split_on CHR ''/'' (join_with ''/'' ys) = ys" using assms by (intro split_join) auto
  finally have "xs = ys @ split_on CHR ''/'' r" .
  then show "\<exists>zs. zs \<noteq> [] \<and> xs = ys @ zs" by auto
next
  assume "\<exists>zs. zs \<noteq> [] \<and> xs = ys @ zs"
  then obtain z zs where xs: "xs = ys @ z # zs" by (metis list.exhaust)
  have "join_with ''/'' (ys @ z # zs) = join_with ''/'' ys @ ''/'' @ join_with ''/'' (z # zs)" if "ys \<noteq> []" for ys
    using that
  proof (induction ys)
    case (Cons y ys)
    then show ?case by (cases ys) simp_all
  qed simp
  from this [OF assms(2)] show "has_prefix (join_with ''/'' xs) (join_with ''/'' ys @ ''/'')"
    using has_prefix_append [of "join_with ''/'' ys @ ''/''" "join_with ''/'' (z # zs)"] xs
    by (simp only: append_assoc)
qed

subsection \<open>Containment is containment of directory names\<close>

text \<open>The textual test the code makes on two cleaned absolute paths, in terms of components.\<close>

lemma clean_under:
  assumes rooted: "is_rooted ap" "is_rooted ar"
  shows "path_clean ap = path_clean ar \<or> has_prefix (path_clean ap) (path_clean ar @ ''/'') \<longleftrightarrow>
    comps ap = comps ar \<or> (comps ar \<noteq> [] \<and> (\<exists>more. comps ap = comps ar @ more))"
proof -
  have parts: "\<forall>x \<in> set (comps ap) \<union> set (comps ar). CHR ''/'' \<notin> set x \<and> x \<noteq> ''''"
    using comps_parts by blast
  have eq: "path_clean ap = path_clean ar \<longleftrightarrow> comps ap = comps ar"
    using join_inj [OF parts] rooted by (auto simp: path_clean_rooted)
  have pre: "has_prefix (path_clean ap) (path_clean ar @ ''/'') \<longleftrightarrow> comps ar \<noteq> [] \<and> (\<exists>z. z \<noteq> [] \<and> comps ap = comps ar @ z)"
  proof (cases "comps ar = []")
    case True
    have "\<not> has_prefix (join_with ''/'' (comps ap)) ''/''"
    proof (cases "comps ap")
      case (Cons x xs)
      with parts have "x \<noteq> ''''" "CHR ''/'' \<notin> set x" by auto
      with Cons show ?thesis by (cases x; cases xs) (auto simp: has_prefix_def)
    qed (simp add: has_prefix_def)
    with True rooted show ?thesis by (simp add: path_clean_rooted has_prefix_def)
  next
    case False
    with join_prefix [OF parts False] rooted show ?thesis by (simp add: path_clean_rooted has_prefix_def)
  qed
  from eq pre show ?thesis by auto
qed

lemma path_clean_abs: "is_rooted cwd \<Longrightarrow> path_clean (path_abs cwd p) = path_abs cwd p"
  by (auto simp: path_abs_def path_join_def path_clean_idem is_rooted_append)

text \<open>A plain file name below a directory adds one component.\<close>

lemma comps_join:
  assumes "is_rooted r" "CHR ''/'' \<notin> set b" "b \<notin> {'''', ''.'', ''..''}"
  shows "comps (path_join r b) = comps r @ [b]" "is_rooted (path_join r b)"
proof -
  have r: "r \<noteq> ''''" "is_rooted (r @ ''/'' @ b)" using assms(1) by (auto simp: is_rooted_append)
  have "path_join r b = path_clean (r @ ''/'' @ b)" using r assms(3) by (simp add: path_join_def)
  moreover have "comps (r @ ''/'' @ b) = comps r @ [b]"
    using assms(2,3) split_on_append [of "CHR ''/''" r b] by (simp add: comps_def clean_comps_append split_on_notin)
  ultimately show "comps (path_join r b) = comps r @ [b]" "is_rooted (path_join r b)"
    using r(2) by (simp_all add: comps_clean is_rooted_clean)
qed

text \<open>PathUnderRoot answers whether the directory names of the absolute, cleaned path extend those
  of the root, so neither a dot-dot segment, nor a doubled slash, nor a sibling whose name starts
  with the root's name is accepted; empty arguments are refused, and the file system root itself
  contains nothing but itself.\<close>

theorem PathUnderRoot_iff:
  assumes "is_rooted cwd"
  shows "PathUnderRoot cwd p r \<longleftrightarrow>
    trim_space p \<noteq> '''' \<and> trim_space r \<noteq> '''' \<and>
    (let cp = comps (path_abs cwd (trim_space p)); cr = comps (path_abs cwd (trim_space r)) in
       cp = cr \<or> (cr \<noteq> [] \<and> (\<exists>more. cp = cr @ more)))"
  using clean_under [OF is_rooted_abs is_rooted_abs, of cwd cwd "trim_space p" "trim_space r"] assms
  by (simp add: PathUnderRoot_def Let_def path_clean_idem is_rooted_abs)

theorem PathUnderRoot_iff_witness:
  "\<not> PathUnderRoot ''/'' ''/var/idx/../etc/x'' ''/var/idx'' \<and> PathUnderRoot ''/'' ''/var//idx/a'' ''/var/idx''"
  using PathUnderRoot_iff [of "''/''" "''/var/idx/../etc/x''" "''/var/idx''"]
    PathUnderRoot_iff [of "''/''" "''/var//idx/a''" "''/var/idx''"]
  by (simp add: trim_space_def trim_left_def trim_right_def is_space_def path_abs_def path_clean_def comps_def Let_def)

subsection \<open>Mapped source directories are absolute\<close>

lemma rooted_prefix: "has_prefix s ''/'' \<longleftrightarrow> is_rooted s"
  by (cases s) (auto simp: has_prefix_def)

lemma dropWhile_snoc_keep: "\<not> p x \<Longrightarrow> dropWhile p (xs @ [x]) = dropWhile p xs @ [x]"
  by (induction xs) auto

lemma trim_right_Cons: "\<not> p x \<Longrightarrow> trim_right p (x # xs) = x # trim_right p xs"
  by (simp add: trim_right_def dropWhile_snoc_keep)

lemma trim_left_Cons: "\<not> p x \<Longrightarrow> trim_left p (x # xs) = x # xs"
  by (simp add: trim_left_def)

lemma cleanPathInput_alpha: "is_alpha x \<Longrightarrow> \<exists>ys. cleanPathInput (x # xs) = x # ys"
proof -
  assume "is_alpha x"
  then have "\<not> is_space x" "\<not> is_quote x" by (auto simp: is_alpha_def is_space_def is_quote_def)
  then show ?thesis by (simp add: cleanPathInput_def trim_space_def trim_right_Cons trim_left_Cons)
qed

lemma win_drive_SomeE:
  assumes "win_drive s = Some dr"
  obtains x xs where "s = x # CHR '':'' # xs" "is_alpha x" "dr = ([x], drop_sep xs)"
  using assms by (auto simp: win_drive_def split: list.splits if_splits)

lemma to_lower_alpha: "is_alpha x \<Longrightarrow> to_lower_char x \<noteq> CHR ''/'' \<and> x \<noteq> CHR ''/'' \<and> x \<noteq> CHR 0x5C"
proof -
  assume a: "is_alpha x"
  then have x: "x \<noteq> CHR ''/''" "x \<noteq> CHR 0x5C" by (auto simp: is_alpha_def)
  have "to_lower_char x \<noteq> CHR ''/''"
  proof
    assume "to_lower_char x = CHR ''/''"
    then have *: "of_char (to_lower_char x) = (47 :: nat)" by simp
    show False
    proof (cases "65 \<le> (of_char x :: nat) \<and> of_char x \<le> (90 :: nat)")
      case True
      with * show False by (simp add: to_lower_char_def Let_def)
    next
      case False
      then have "to_lower_char x = x" by (auto simp: to_lower_char_def Let_def)
      with \<open>to_lower_char x = CHR ''/''\<close> x(1) show False by simp
    qed
  qed
  with x show ?thesis by simp
qed

lemma drive_not_wsl_unc: "win_drive s = Some dr \<Longrightarrow> \<not> IsWSLUNCPath s"
proof (erule win_drive_SomeE)
  fix x xs assume s: "s = x # CHR '':'' # xs" and x: "is_alpha x"
  then obtain ys where "cleanPathInput s = x # ys" using cleanPathInput_alpha by blast
  then show "\<not> IsWSLUNCPath s"
    using to_lower_alpha [OF x] by (simp add: IsWSLUNCPath_def Let_def has_prefix_def to_slashes_def to_lower_def)
qed

text \<open>Whatever the external wslpath answers, a successful mapping of a configured source directory
  is an absolute Linux path; a Windows drive-letter path always maps, to its lower-case drive
  under /mnt, without consulting wslpath.\<close>

theorem ToWSLPath_absolute:
  "(\<forall>m. ToWSLPath wslpath p = Inr m \<longrightarrow> is_rooted m)
   \<and> (\<forall>d rest. win_drive (cleanPathInput p) = Some (d, rest)
        \<longrightarrow> (\<exists>m. ToWSLPath wslpath p = Inr m \<and> has_prefix m (''/mnt/'' @ to_lower d)))"
proof (intro conjI allI impI)
  fix m assume "ToWSLPath wslpath p = Inr m"
  then show "is_rooted m"
    by (auto simp: ToWSLPath_def tryWSLPath_def Let_def rooted_prefix split: if_splits option.splits)
next
  fix d rest assume w: "win_drive (cleanPathInput p) = Some (d, rest)"
  then obtain x xs where c: "cleanPathInput p = x # CHR '':'' # xs" "is_alpha x" "d = [x]"
    by (elim win_drive_SomeE) auto
  then have "\<not> has_prefix (cleanPathInput p) ''/''" using to_lower_alpha by (simp add: has_prefix_def)
  then have "\<exists>r. ToWSLPath wslpath p = Inr ((''/mnt/'' @ to_lower d) @ r)"
    using w c drive_not_wsl_unc [OF w] by (simp add: ToWSLPath_def Let_def)
  then show "\<exists>m. ToWSLPath wslpath p = Inr m \<and> has_prefix m (''/mnt/'' @ to_lower d)"
    using has_prefix_append by blast
qed

theorem ToWSLPath_absolute_witness: "ToWSLPath (\<lambda>_. None) ''D:/Arc'' = Inr ''/mnt/d/Arc''  \<and> is_rooted ''/mnt/d/Arc''"
proof -
  have "ToWSLPath (\<lambda>_. None) ''D:/Arc'' = Inr ''/mnt/d/Arc''"
    by code_simp
  then show ?thesis using ToWSLPath_absolute [of "\<lambda>_. None" "''D:/Arc''"] by blast
qed

subsection \<open>Mount names\<close>

definition digit_val :: "string \<Rightarrow> nat" where
  "digit_val s = foldl (\<lambda>a c. a * 10 + (of_char c - 48)) 0 s"

lemma digit_val_digits_of [simp]: "digit_val (digits_of n) = n"
proof (induction n rule: digits_of.induct)
  case (1 n)
  then show ?case by (subst digits_of.simps) (simp add: digit_val_def)
qed

lemma digits_of_inj: "digits_of n = digits_of m \<Longrightarrow> n = m"
  by (metis digit_val_digits_of)

lemma digits_of_range: "c \<in> set (digits_of n) \<Longrightarrow> 48 \<le> (of_char c :: nat) \<and> (of_char c :: nat) \<le> 57"
proof (induction n rule: digits_of.induct)
  case (1 n)
  then show ?case by (subst (asm) (2) digits_of.simps) (auto split: if_splits)
qed

lemma digits_of_no_dash: "CHR ''-'' \<notin> set (digits_of n)"
  using digits_of_range [of "CHR ''-''" n] by auto

lemma numbered_tail: "\<exists>pre. numbered nm aid k = pre @ CHR ''-'' # digits_of k"
  unfolding numbered_def collideCandidate_def Let_def
  by (metis append.assoc append_Cons append_Nil)

lemma numbered_inj: "numbered nm aid i = numbered nm aid j \<Longrightarrow> i = j"
proof -
  assume eq: "numbered nm aid i = numbered nm aid j"
  have tail: "takeWhile (\<lambda>c. c \<noteq> CHR ''-'') (rev (numbered nm aid k)) = rev (digits_of k)" for k
  proof -
    obtain pre where n: "numbered nm aid k = pre @ CHR ''-'' # digits_of k" using numbered_tail by blast
    have "\<And>c. c \<in> set (rev (digits_of k)) \<Longrightarrow> c \<noteq> CHR ''-''" using digits_of_no_dash [of k] by auto
    then have "takeWhile (\<lambda>c. c \<noteq> CHR ''-'') (rev (digits_of k) @ CHR ''-'' # rev pre) =
        rev (digits_of k) @ takeWhile (\<lambda>c. c \<noteq> CHR ''-'') (CHR ''-'' # rev pre)"
      by (rule takeWhile_append2)
    then show ?thesis unfolding n by simp
  qed
  show "i = j" using tail [of i] tail [of j] eq digits_of_inj by simp
qed

text \<open>Some number is free, since only finitely many names are taken.\<close>

lemma numbered_free: "\<exists>d. numbered nm aid (i + d) \<notin> set taken"
proof (rule ccontr)
  assume "\<nexists>d. numbered nm aid (i + d) \<notin> set taken"
  then have "range (\<lambda>d. numbered nm aid (i + d)) \<subseteq> set taken" by auto
  moreover have "inj (\<lambda>d. numbered nm aid (i + d))" by (rule injI) (auto dest: numbered_inj)
  ultimately show False
    using finite_imageD [of "\<lambda>d. numbered nm aid (i + d)" UNIV] finite_subset by blast
qed

lemma numeric_loop_step:
  "numbered nm aid (i + d) \<notin> set taken \<Longrightarrow>
   \<exists>j \<ge> i. numeric_loop taken nm aid i = Some (numbered nm aid j) \<and> numbered nm aid j \<notin> set taken"
proof (induction d arbitrary: i)
  case 0
  then show ?case by (subst numeric_loop.simps) auto
next
  case (Suc d)
  show ?case
  proof (cases "numbered nm aid i \<notin> set taken")
    case True
    then show ?thesis by (subst numeric_loop.simps) auto
  next
    case False
    from Suc.IH [of "i + 1"] Suc.prems obtain j where "i + 1 \<le> j"
      "numeric_loop taken nm aid (i + 1) = Some (numbered nm aid j)" "numbered nm aid j \<notin> set taken" by auto
    with False have "i \<le> j" "numeric_loop taken nm aid i = Some (numbered nm aid j)"
      by (simp_all add: numeric_loop.simps [of taken nm aid i])
    with \<open>numbered nm aid j \<notin> set taken\<close> show ?thesis by blast
  qed
qed

lemma numeric_loop_returns:
  "\<exists>j \<ge> i. numeric_loop taken nm aid i = Some (numbered nm aid j) \<and> numbered nm aid j \<notin> set taken"
  using numbered_free numeric_loop_step by meson

text \<open>A name that is one harmless path component.\<close>

definition good_name :: "string \<Rightarrow> bool" where
  "good_name s \<longleftrightarrow> s \<noteq> [] \<and> hd s \<noteq> CHR ''.'' \<and> (\<forall>c \<in> set s. safe_mount_char c)"

lemma safe_chars: "safe_mount_char CHR ''-''" "safe_mount_char CHR ''_''" "\<not> safe_mount_char CHR ''/''"
  "\<forall>c \<in> set ''archive''. safe_mount_char c"
  by (simp_all add: safe_mount_char_def is_alnum_def)

lemma digits_safe: "c \<in> set (digits_of n) \<Longrightarrow> safe_mount_char c"
proof -
  assume "c \<in> set (digits_of n)"
  then have "48 \<le> (of_char c :: nat)" "(of_char c :: nat) \<le> 57" using digits_of_range by blast+
  then have "CHR ''0'' \<le> c \<and> c \<le> CHR ''9''" by (simp add: less_eq_char_def)
  then show ?thesis by (simp add: safe_mount_char_def is_alnum_def)
qed

lemma squeeze_safe: "\<forall>c \<in> set s. bad c \<or> safe_mount_char c \<Longrightarrow> \<forall>c \<in> set (squeeze bad r s). safe_mount_char c"
  by (induction s arbitrary: r) (auto simp: safe_chars)

lemma set_trim: "set (trim_left p s) \<subseteq> set s" "set (trim_right p s) \<subseteq> set s"
  by (auto simp: trim_left_def trim_right_def dest: set_dropWhileD)

lemma trim_right_prefix: "\<exists>r. s = trim_right p s @ r"
  unfolding trim_right_def by (metis rev_append rev_rev_ident takeWhile_dropWhile_id)

lemma hd_trim_right: "trim_right p s \<noteq> [] \<Longrightarrow> hd (trim_right p s) = hd s"
proof -
  assume "trim_right p s \<noteq> []"
  moreover obtain r where "s = trim_right p s @ r" using trim_right_prefix by blast
  ultimately show ?thesis by (metis hd_append2)
qed

lemma hd_trim_left: "trim_left p s \<noteq> [] \<Longrightarrow> \<not> p (hd (trim_left p s))"
  by (simp add: trim_left_def hd_dropWhile)

lemma good_base: "good_name (sanitized_base b)"
proof -
  let ?n2 = "squeeze (\<lambda>c. c = CHR ''_'') False (squeeze (\<lambda>c. \<not> safe_mount_char c) False b)"
  let ?l = "trim_left is_dot_us ?n2" let ?n3 = "trim_right is_dot_us ?l"
  let ?n1 = "squeeze (\<lambda>c. \<not> safe_mount_char c) False b"
  have "\<forall>c \<in> set ?n1. safe_mount_char c"
    by (rule squeeze_safe) blast
  then have "\<forall>c \<in> set ?n2. safe_mount_char c"
    by (intro squeeze_safe) blast
  then have safe: "\<forall>c \<in> set ?n3. safe_mount_char c" using set_trim by blast
  have hd: "hd ?n3 \<noteq> CHR ''.''" if "?n3 \<noteq> []"
  proof -
    from that have "?l \<noteq> []" by (auto simp: trim_right_def)
    from hd_trim_left [OF this] hd_trim_right [OF that] show ?thesis by (auto simp: is_dot_us_def)
  qed
  have cut: "good_name (take 120 s)" if "good_name s" for s
    using that by (auto simp: good_name_def dest: in_set_takeD)
  have arch: "good_name ''archive''" using safe_chars(4) by (simp add: good_name_def)
  have "good_name (if ?n3 = '''' then ''archive'' else ?n3)"
  proof (cases "?n3 = ''''")
    case False
    with safe hd have "good_name ?n3" by (simp only: good_name_def) blast
    with False show ?thesis by (simp only: if_False)
  qed (simp add: arch)
  from cut [OF this] arch show ?thesis
    unfolding sanitized_base_def Let_def by (cases "b = ''''") (simp_all only: if_True if_False simp_thms)
qed

lemma good_candidate:
  assumes "good_name nm" "\<forall>c \<in> set suffix. safe_mount_char c"
  shows "good_name (collideCandidate nm suffix)"
proof -
  define k where "k = nat (max 1 (120 - int (length suffix) - 2))"
  define base where "base = trim_right is_dot_us (take k nm)"
  have "good_name (if base = '''' then ''archive'' else base)"
  proof (cases "base = ''''")
    case False

    have "0 < k" by (simp add: k_def)
    then have "hd base = hd nm" using False by (simp add: base_def hd_trim_right hd_take)
    moreover have "set base \<subseteq> set nm" unfolding base_def using set_trim(2) set_take_subset by fast
    ultimately show ?thesis using False assms(1) by (auto simp: good_name_def)
  qed (use safe_chars(4) in \<open>simp add: good_name_def\<close>)
  moreover have "collideCandidate nm suffix = (if base = '''' then ''archive'' else base) @ ''--'' @ suffix"
    by (simp add: collideCandidate_def Let_def base_def k_def)
  ultimately show ?thesis using assms(2) safe_chars(1) by (auto simp: good_name_def)
qed

lemma try_id_prefixes_SomeD:
  "try_id_prefixes taken nm aid ns = Some c \<Longrightarrow> c \<notin> set taken \<and> (\<exists>n. c = collideCandidate nm (take n aid))"
  by (induction ns) (auto simp: Let_def split: if_splits)



subsection \<open>The way up to the root\<close>

text \<open>The size of a list of components with a separator after each.\<close>

definition comps_size :: "string list \<Rightarrow> nat" where
  "comps_size cs = sum_list (map (\<lambda>c. length c + 1) cs)"

lemma comps_size_simps [simp]: "comps_size [] = 0" "comps_size (c # cs) = length c + 1 + comps_size cs"
  "comps_size (xs @ ys) = comps_size xs + comps_size ys" "comps_size (rev xs) = comps_size xs"
  by (simp_all add: comps_size_def sum_list_rev flip: rev_map)

lemma comps_size_split: "comps_size (split_on c s) = length s + 1"
proof (induction s)
  case (Cons x s)
  show ?case by (cases "split_on c s") (use Cons.IH in auto)
qed simp

lemma length_join: "cs \<noteq> [] \<Longrightarrow> length (join_with ''/'' cs) + 1 = comps_size cs"
  by (induction "''/''" cs rule: join_with.induct) auto

lemma comps_size_clean: "comps_size (clean_comps r acc cs) \<le> comps_size acc + comps_size cs"
proof (induction cs arbitrary: acc)
  case (Cons c cs)
  have "comps_size (clean_comps r acc' cs) \<le> m" if "comps_size acc' + comps_size cs \<le> m" for acc' m
    using Cons.IH [of acc'] that by simp
  then show ?case by (cases acc) (auto simp del: One_nat_def)
qed simp

lemma length_clean:
  "length (path_clean (q @ ''/'')) \<le> max 1 (length q)"
proof -
  have split: "split_on CHR ''/'' (q @ ''/'') = split_on CHR ''/'' q @ ['''']" using split_on_append [of "CHR ''/''" q "''''"] by simp
  show ?thesis
  proof (cases "is_rooted (q @ ''/'')")
    case True
    obtain cs where cs: "split_on CHR ''/'' q = '''' # cs"
      using True by (cases q) (auto split: list.split)
    let ?cs = "rev (clean_comps True [] cs)"
    have "comps_size ?cs \<le> length q" using comps_size_clean [of True "[]" cs] comps_size_split [of "CHR ''/''" q] by (simp add: cs)
    moreover have "path_clean (q @ ''/'') = CHR ''/'' # join_with ''/'' ?cs"
      using True by (simp add: path_clean_def split cs clean_comps_append)
    ultimately show ?thesis using length_join [of ?cs] by (cases "?cs = []") auto
  next
    case False
    let ?cs = "rev (clean_comps False [] (split_on CHR ''/'' q))"
    have "comps_size ?cs \<le> length q + 1"
      using comps_size_clean [of False "[]" "split_on CHR ''/'' q"] by (simp add: comps_size_split)
    moreover have "path_clean (q @ ''/'') = (if ?cs = [] then ''.'' else join_with ''/'' ?cs)"
      using False by (simp add: path_clean_def split clean_comps_append)
    ultimately show ?thesis using length_join [of ?cs] by (cases "?cs = []") auto
  qed
qed

text \<open>The way up ends: a parent is shorter, or the current directory, or the root, which is its own parent.\<close>

lemma path_dir_shorter: "path_dir p = p \<or> path_dir p = ''.'' \<or> length (path_dir p) < length p"
proof -
  define q where "q = rev (dropWhile (\<lambda>c. c \<noteq> CHR ''/'') (rev p))"
  have dir: "path_dir p = path_clean q" by (simp add: path_dir_def q_def)
  have p: "p = q @ rev (takeWhile (\<lambda>c. c \<noteq> CHR ''/'') (rev p))"
    unfolding q_def by (metis rev_append rev_rev_ident takeWhile_dropWhile_id)
  show ?thesis
  proof (cases q rule: rev_cases)
    case Nil
    then have "path_dir p = ''.''" by (simp add: dir path_clean_def)
    then show ?thesis by simp
  next
    case (snoc q' x)
    then have "dropWhile (\<lambda>c. c \<noteq> CHR ''/'') (rev p) = x # rev q'" by (simp add: q_def rev_swap)
    then have "x = CHR ''/''" by (simp add: dropWhile_eq_Cons_conv)
    then have q: "q = q' @ ''/''" using snoc by simp
    then have le: "length (path_dir p) \<le> max 1 (length q')" using length_clean [of q'] by (simp add: dir)
    show ?thesis
    proof (cases q')
      case Nil
      then have "path_dir p = ''/''" by (simp add: dir q path_clean_def)
      then show ?thesis using p q Nil by (cases "takeWhile (\<lambda>c. c \<noteq> CHR ''/'') (rev p)") auto
    next
      case (Cons y ys)
      then have "length q' < length p" using arg_cong [OF p, of length] q by simp
      then show ?thesis using le Cons by simp
    qed
  qed
qed

lemma path_dir_dot: "path_dir ''.'' = ''.''"
  by (simp add: path_dir_def path_clean_def)

lemma path_clean_nonempty: "path_clean q \<noteq> ''''"
proof -
  have "join_with ''/'' cs \<noteq> ''''" if cs: "cs = rev (clean_comps False [] (split_on CHR ''/'' q))" "cs \<noteq> []" for cs
  proof -
    obtain x xs where "cs = x # xs" using cs(2) by (cases cs) auto
    moreover from this have "x \<noteq> ''''" using cs(1) clean_comps_nonempty [of x False "[]"] by (metis empty_iff list.set(1) list.set_intros(1) set_rev)
    ultimately show ?thesis using length_join [OF cs(2)] by (cases x) auto
  qed
  then show ?thesis by (auto simp: path_clean_def Let_def)
qed

lemma path_dir_nonempty: "path_dir p \<noteq> ''''"
  by (simp add: path_dir_def path_clean_nonempty)

end
