(* ===== verification/Config.thy ===== *)
theory Config
  imports Paths
begin

text \<open>
  The part of the configuration (src/internal/config) that the modelled components read, the
  normalisation of the backend name (backend.go), the choice of the engine binary (config.go,
  defaults.go) and the duration syntax (duration.go).  Seconds are exact rationals where the code
  has float64; the two agree on the values the round trip below is stated for.
\<close>

record convert_config =
  c_converter_enabled :: bool
  c_converter_bin :: path
  c_converter_output_dir :: path
  c_converter_mode :: string
  c_converter_backend :: string
  c_converter_level :: int
  c_converter_threads :: "int option"
  c_converter_verify :: bool
  c_converter_temp_dir :: path
  c_native_pipeline :: string
  c_native_codec :: string
  c_native_large_threshold :: int
  c_nested_concurrency :: "int option"
  c_nested_size_budget :: string
  c_basename_match :: bool
  c_exclude_inner :: "string list"
  c_exclude_outer :: "string list"
  c_rename :: "string list"
  c_converter_extra_args :: "string list"
  c_converter_overhead :: int
  c_converter_timeout :: rat
  c_7z_nonsolid :: bool
  c_7z_scope :: string
  c_7z_bin :: path
  c_7z_cache_dir :: path
  c_7z_overhead :: int
  c_7z_flatten_buffer :: int
  c_7z_prefix_strip :: string
  c_7z_flatten_exclude :: "string list"
  c_zip_to_7z :: bool

record config = convert_config +
  c_source_dirs :: "path list"
  c_mount_root :: path
  c_index_dir :: path
  c_overlay_dir :: path
  c_archives_dir :: path
  c_move_archives :: bool
  c_relocate_overhead :: int
  c_recursive :: bool
  c_recursive_mount :: bool
  c_recursive_exts :: "string list"
  c_index_smallest_first :: bool
  c_poll_interval :: rat
  c_reconcile_interval :: rat
  c_name_regex :: string
  c_stable_file_mode :: string
  c_min_file_age :: rat
  c_content_fingerprint :: bool
  c_on_content_change :: string
  c_write_overlay :: bool
  c_windows_visible :: bool
  c_allow_drvfs :: bool
  c_cleanup_after :: rat
  c_overlay_cleanup :: string
  c_quarantine_retain :: rat
  c_quarantine_max_bytes :: int
  c_min_free_bytes :: int
  c_max_archive_bytes :: int
  c_max_concurrent_index :: int
  c_max_concurrent_convert :: int
  c_max_concurrent_mount :: int
  c_max_mount_attempts :: int
  c_mount_ready_timeout :: rat
  c_unmount_timeout :: rat
  c_mount_backend :: string
  c_ratarmount_bin :: string
  c_index_workers :: int
  c_ratarmount_debug :: int
  c_ratarmount_log_dir :: path
  c_ratarmount_7z_debug :: bool
  c_ratarmount_rust_log :: string
  c_extra_args :: "string list"
  c_hooks_dir :: path
  c_hooks_parallel :: bool
  c_hooks_stop_on_hard_fail :: bool
  c_hook_timeout :: rat
  c_hook_max_retries :: int
  c_hook_rerun_on_failure :: bool
  c_hooks_cwd :: string

text \<open>A configuration for the concrete checks of the development.\<close>

definition sample_config :: config where
  "sample_config = \<lparr>
    c_converter_enabled = False, c_converter_bin = '''', c_converter_output_dir =
    ''/srv/converted'', c_converter_mode = ''convert'', c_converter_backend = ''native'',
    c_converter_level = 1, c_converter_threads = None, c_converter_verify = False,
    c_converter_temp_dir = '''', c_native_pipeline = '''', c_native_codec = '''',
    c_native_large_threshold = 0, c_nested_concurrency = None, c_nested_size_budget = '''',
    c_basename_match = False, c_exclude_inner = [], c_exclude_outer = [], c_rename = [],
    c_converter_extra_args = [], c_converter_overhead = 67108864, c_converter_timeout = 0,
    c_7z_nonsolid = False, c_7z_scope = ''nested'', c_7z_bin = '''', c_7z_cache_dir = '''',
    c_7z_overhead = 67108864, c_7z_flatten_buffer = 0, c_7z_prefix_strip = '''',
    c_7z_flatten_exclude = [], c_zip_to_7z = False,
    c_source_dirs = [''/in''], c_mount_root = ''/srv/mounts'', c_index_dir = ''/srv/indexes'',
    c_overlay_dir = ''/srv/overlays'', c_archives_dir = ''/srv/archives'',
    c_move_archives = True, c_relocate_overhead = 0,
    c_recursive = False, c_recursive_mount = False, c_recursive_exts = [],
    c_index_smallest_first = False, c_poll_interval = 60, c_reconcile_interval = 30,
    c_name_regex = '''', c_stable_file_mode = ''both'', c_min_file_age = 30, c_content_fingerprint = False,
    c_on_content_change = ''remount_reset_hooks'', c_write_overlay = True,
    c_windows_visible = False, c_allow_drvfs = False, c_cleanup_after = 3600,
    c_overlay_cleanup = ''quarantine'', c_quarantine_retain = 7200, c_quarantine_max_bytes = 0,
    c_min_free_bytes = 0, c_max_archive_bytes = 0, c_max_concurrent_index = 1,
    c_max_concurrent_convert = 1, c_max_concurrent_mount = 4, c_max_mount_attempts = 3,
    c_mount_ready_timeout = 60, c_unmount_timeout = 30, c_mount_backend = ''rust'',
    c_ratarmount_bin = '''', c_index_workers = 1, c_ratarmount_debug = 0,
    c_ratarmount_log_dir = '''', c_ratarmount_7z_debug = False, c_ratarmount_rust_log = '''', c_extra_args = [], c_hooks_dir = ''/etc/hooks.d'',
    c_hooks_parallel = False, c_hooks_stop_on_hard_fail = True, c_hook_timeout = 60,
    c_hook_max_retries = 2, c_hook_rerun_on_failure = False, c_hooks_cwd = ''mount'' \<rparr>"

subsection \<open>Backend and binary\<close>

datatype config_error = BackendUnsupported string | BackendUnknown string | BadDuration string | NegativeDuration

definition replace_char :: "char \<Rightarrow> char \<Rightarrow> string \<Rightarrow> string" where
  "replace_char a b s = map (\<lambda>c. if c = a then b else c) s"

definition NormalizeMountBackend :: "string \<Rightarrow> config_error + string" where
  "NormalizeMountBackend val =
    (let key = replace_char CHR ''_'' CHR ''-'' (to_lower (trim_space val)) in
     if key \<in> set ['''', ''rust'', ''ratarmount-rs'', ''rs'', ''native''] then Inr ''rust''
     else if key \<in> set [''python'', ''ratarmount'', ''py'', ''cpython''] then Inl (BackendUnsupported val)
     else Inl (BackendUnknown val))"

definition DefaultRatarmountBin :: "string \<Rightarrow> string" where
  "DefaultRatarmountBin backend = ''ratarmount-rs''"

definition EffectiveRatarmountBin :: "config \<Rightarrow> string" where
  "EffectiveRatarmountBin c =
    (let configured = trim_space (c_ratarmount_bin c) in
     if configured = '''' then DefaultRatarmountBin (c_mount_backend c) else configured)"

subsection \<open>Durations\<close>

datatype duration_value = DBool bool | DInt int | DFloat rat | DString string | DOther

definition is_digit :: "char \<Rightarrow> bool" where
  "is_digit c \<longleftrightarrow> 48 \<le> (of_char c :: nat) \<and> (of_char c :: nat) \<le> 57"

text \<open>The white space class of the duration pattern.\<close>

definition re_space :: "char \<Rightarrow> bool" where
  "re_space c \<longleftrightarrow> c \<in> set [CHR '' '', CHR 0x09, CHR 0x0A, CHR 0x0C, CHR 0x0D]"

text \<open>The value and the unit the pattern captures, if the whole string matches.\<close>

definition match_duration :: "string \<Rightarrow> (string \<times> string \<times> string) option" where
  "match_duration s =
    (let s1 = dropWhile re_space s; whole = takeWhile is_digit s1; r1 = dropWhile is_digit s1;
         fr = (case r1 of c # cs \<Rightarrow> if c = CHR ''.'' then takeWhile is_digit cs else [] | [] \<Rightarrow> []);
         r2 = (if fr = [] then r1 else drop (Suc (length fr)) r1);
         unit = trim_right re_space (dropWhile re_space r2) in
     if whole = [] then None
     else if to_lower unit \<in> set ['''', ''ms'', ''s'', ''m'', ''h'', ''d''] then Some (whole, fr, unit)
     else None)"

definition decimal :: "string \<Rightarrow> string \<Rightarrow> rat" where
  "decimal whole fr = of_nat (digit_val whole) + of_nat (digit_val fr) / 10 ^ length fr"

definition unit_mult :: "string \<Rightarrow> rat" where
  "unit_mult u =
    (if u = ''ms'' then 1 / 1000 else if u = ''m'' then 60 else if u = ''h'' then 3600
     else if u = ''d'' then 86400 else 1)"

fun ParseDuration :: "duration_value \<Rightarrow> config_error + rat" where
  "ParseDuration (DBool b) = Inl (BadDuration ''boolean'')"
| "ParseDuration (DInt v) = (if v < 0 then Inl NegativeDuration else Inr (of_int v))"
| "ParseDuration (DFloat v) = (if v < 0 then Inl NegativeDuration else Inr v)"
| "ParseDuration (DString s) =
    (case match_duration s of
       None \<Rightarrow> Inl (BadDuration s)
     | Some (whole, fr, unit) \<Rightarrow>
         (let seconds = decimal whole fr * unit_mult (to_lower unit) in
          if seconds < 0 then Inl NegativeDuration else Inr seconds))"
| "ParseDuration DOther = Inl (BadDuration ''type'')"

definition is_whole :: "rat \<Rightarrow> bool" where
  "is_whole x \<longleftrightarrow> of_int \<lfloor>x\<rfloor> = x"

text \<open>\<open>shortest\<close> is strconv's shortest decimal of a float64, used for fractional seconds only.\<close>

definition FormatDuration :: "(rat \<Rightarrow> string) \<Rightarrow> rat \<Rightarrow> string" where
  "FormatDuration shortest seconds =
    (if seconds = 0 then ''0s''
     else if seconds < 1 then itoa \<lfloor>seconds * 1000 + 1 / 2\<rfloor> @ ''ms''
     else if is_whole (seconds / 86400) then itoa \<lfloor>seconds / 86400\<rfloor> @ ''d''
     else if is_whole (seconds / 3600) then itoa \<lfloor>seconds / 3600\<rfloor> @ ''h''
     else if is_whole (seconds / 60) then itoa \<lfloor>seconds / 60\<rfloor> @ ''m''
     else if is_whole (seconds) then itoa \<lfloor>seconds\<rfloor> @ ''s''
     else shortest seconds @ ''s'')"

subsection \<open>Formatting and parsing again\<close>

lemma is_digit_digits: "c \<in> set (digits_of n) \<Longrightarrow> is_digit c"
  using digits_of_range by (auto simp: is_digit_def)

lemma digits_of_run:
  "\<not> is_digit u \<Longrightarrow> takeWhile is_digit (digits_of n @ u # us) = digits_of n
     \<and> dropWhile is_digit (digits_of n @ u # us) = u # us"
  using is_digit_digits [of _ n] by (simp add: takeWhile_append2 dropWhile_append2)

lemma digits_of_no_space: "dropWhile re_space (digits_of n @ xs) = digits_of n @ xs"
proof -
  obtain c cs where d: "digits_of n = c # cs" by (cases "digits_of n") auto
  then have "is_digit c" using is_digit_digits [of c n] by simp
  then have "\<not> re_space c" by (auto simp: is_digit_def re_space_def)
  with d show ?thesis by simp
qed

lemma match_formatted:
  assumes "u # us \<in> {''ms'', ''s'', ''m'', ''h'', ''d''}"
  shows "match_duration (digits_of n @ u # us) = Some (digits_of n, [], u # us)"
proof -
  have u: "\<not> is_digit u" "u \<noteq> CHR ''.''" "\<not> re_space u" "\<forall>c \<in> set us. \<not> re_space c"
    using assms by (auto simp: is_digit_def re_space_def)
  have "trim_right re_space (u # us) = u # us"
  proof -
    have "\<not> re_space (last (u # us))" using u last_in_set [of us] by (cases "us = []") auto
    then show ?thesis
      by (metis dropWhile_eq_self_iff hd_rev rev_rev_ident trim_right_def)
  qed
  moreover have "to_lower (u # us) \<in> set ['''', ''ms'', ''s'', ''m'', ''h'', ''d'']"
    using assms by (auto simp: to_lower_def to_lower_char_def)
  ultimately show ?thesis
    using u digits_of_run [OF u(1), of n us]
    by (simp add: match_duration_def digits_of_no_space Let_def)
qed

lemma to_lower_units: "to_lower ''ms'' = ''ms''" "to_lower ''s'' = ''s''" "to_lower ''m'' = ''m''"
  "to_lower ''h'' = ''h''" "to_lower ''d'' = ''d''"
  by (simp_all add: to_lower_def to_lower_char_def)

lemma parse_formatted:
  assumes "u \<in> {''ms'', ''s'', ''m'', ''h'', ''d''}"
  shows "ParseDuration (DString (digits_of n @ u)) = Inr (of_nat n * unit_mult u)"
proof -
  from assms obtain c cs where u: "u = c # cs" by auto
  have "digit_val [] = 0" by (simp add: digit_val_def)
  moreover have "0 \<le> unit_mult u" by (simp add: unit_mult_def)
  moreover have "to_lower u = u" using assms to_lower_units by auto
  ultimately show ?thesis
    using match_formatted [of c cs n] assms unfolding u
    by (simp add: decimal_def Let_def not_less)
qed

lemma zero_seconds: "digits_of 0 @ ''s'' = ''0s''"
  by code_simp

lemma itoa_nat: "itoa (int n) = digits_of n"
  by (simp add: itoa_def)

lemma whole_quotient:
  assumes "is_whole (of_nat n / of_nat k)" "0 < k"
  shows "\<exists>m. \<lfloor>of_nat n / of_nat k :: rat\<rfloor> = int m \<and> of_nat n = (of_nat m * of_nat k :: rat)"
proof -
  let ?q = "of_nat n / of_nat k :: rat"
  have "0 \<le> ?q" by simp
  then obtain m where m: "\<lfloor>?q\<rfloor> = int m" using zero_le_floor [of ?q] nonneg_int_cases by blast
  then have "of_nat m = ?q" using assms(1) by (metis is_whole_def of_int_of_nat_eq)
  with assms(2) have "of_nat n = (of_nat m * of_nat k :: rat)" by simp
  with m show ?thesis by blast
qed

text \<open>What FormatDuration prints for a whole number of seconds, and for a whole number of
  milliseconds below one second, ParseDuration reads back exactly; so a duration shown by the
  settings API and written back unchanged keeps its value.\<close>

theorem duration_roundtrip:
  "ParseDuration (DString (FormatDuration shortest (of_nat n))) = Inr (of_nat n)
   \<and> (k < 1000 \<longrightarrow> ParseDuration (DString (FormatDuration shortest (of_nat k / 1000))) = Inr (of_nat k / 1000))"
proof (intro conjI impI)
  consider "n = 0" | "n > 0" "is_whole (of_nat n / 86400)"
    | "n > 0" "\<not> is_whole (of_nat n / 86400)" "is_whole (of_nat n / 3600)"
    | "n > 0" "\<not> is_whole (of_nat n / 86400)" "\<not> is_whole (of_nat n / 3600)" "is_whole (of_nat n / 60)"
    | "n > 0" "\<not> is_whole (of_nat n / 86400)" "\<not> is_whole (of_nat n / 3600)" "\<not> is_whole (of_nat n / 60)" by blast
  then show "ParseDuration (DString (FormatDuration shortest (of_nat n))) = Inr (of_nat n)"
  proof cases
    case 1
    with 1 parse_formatted [of "''s''" 0] zero_seconds show ?thesis by (simp add: FormatDuration_def unit_mult_def)
  next
    case 2
    with whole_quotient [of n 86400] obtain m where
      "\<lfloor>of_nat n / 86400 :: rat\<rfloor> = int m" "of_nat n = (of_nat m * 86400 :: rat)" by auto
    with 2 parse_formatted [of "''d''" m] show ?thesis
      by (simp add: FormatDuration_def itoa_nat unit_mult_def)
  next
    case 3
    with whole_quotient [of n 3600] obtain m where
      "\<lfloor>of_nat n / 3600 :: rat\<rfloor> = int m" "of_nat n = (of_nat m * 3600 :: rat)" by auto
    with 3 parse_formatted [of "''h''" m] show ?thesis
      by (simp add: FormatDuration_def itoa_nat unit_mult_def)
  next
    case 4
    with whole_quotient [of n 60] obtain m where
      "\<lfloor>of_nat n / 60 :: rat\<rfloor> = int m" "of_nat n = (of_nat m * 60 :: rat)" by auto
    with 4 parse_formatted [of "''m''" m] show ?thesis
      by (simp add: FormatDuration_def itoa_nat unit_mult_def)
  next
    case 5
    have "is_whole (of_nat n)" "\<lfloor>of_nat n :: rat\<rfloor> = int n" by (simp_all add: is_whole_def)
    with 5 parse_formatted [of "''s''" n] show ?thesis
      by (simp add: FormatDuration_def itoa_nat unit_mult_def)
  qed
  assume k: "k < 1000"
  show "ParseDuration (DString (FormatDuration shortest (of_nat k / 1000))) = Inr (of_nat k / 1000)"
  proof (cases "k = 0")
    case True
    with True parse_formatted [of "''s''" 0] zero_seconds show ?thesis by (simp add: FormatDuration_def unit_mult_def)
  next
    case False
    have "\<lfloor>of_nat k / 1000 * 1000 + 1 / 2 :: rat\<rfloor> = int k" by (simp add: floor_unique)
    moreover have "(of_nat k / 1000 :: rat) < 1" using k by simp
    ultimately show ?thesis
      using False parse_formatted [of "''ms''" k]
      by (simp add: FormatDuration_def itoa_nat unit_mult_def)
  qed
qed

theorem duration_roundtrip_witness:
  "ParseDuration (DString (FormatDuration (\<lambda>_. '''') (of_nat 5400))) = Inr (of_nat 5400)
   \<and> ParseDuration (DString (FormatDuration (\<lambda>_. '''') (of_nat 250 / 1000))) = Inr (of_nat 250 / 1000)"
  using duration_roundtrip [of "\<lambda>_. ''''" 5400 250] by simp

end
