(* ===== verification/MountPolicy.thy ===== *)
theory MountPolicy
  imports Status Config
begin

text \<open>
  The pure rules of src/internal/mounter that the engine and the reconciler share: attempt
  counting (attempts.go), concurrency limits (limits.go), the partial-index rule (index.go), the
  ratarmount command line and child environment (cmd.go), the request built from the
  configuration (request.go), the choice of the binary (backend.go), the DrvFs guard (drvfs.go)
  and the nested-mount advisories kept in last_error (nested.go).  \<open>world\<close> is the part of the host
  the program reads and changes: regular files with their sizes, directories, mountpoints, live
  processes and the files os.Remove refuses.
\<close>

subsection \<open>The host\<close>

record world =
  w_files :: "(path \<times> int) list"
  w_dirs :: "path list"
  w_mounts :: "path list"
  w_alive :: "int list"
  w_locked :: "path list"

definition file_size :: "world \<Rightarrow> path \<Rightarrow> int option" where
  "file_size w p = map_option snd (kfind fst p (w_files w))"

definition is_file :: "world \<Rightarrow> path \<Rightarrow> bool" where
  "is_file w p \<longleftrightarrow> file_size w p \<noteq> None"

definition is_mount :: "world \<Rightarrow> path \<Rightarrow> bool" where
  "is_mount w p \<longleftrightarrow> p \<in> set (w_mounts w)"

definition pid_alive :: "world \<Rightarrow> int \<Rightarrow> bool" where
  "pid_alive w pid \<longleftrightarrow> pid \<in> set (w_alive w)"

text \<open>os.Remove on a regular file.\<close>

definition remove_file :: "path \<Rightarrow> world \<Rightarrow> bool \<times> world" where
  "remove_file p w =
    (if is_file w p \<and> p \<notin> set (w_locked w) then (True, w\<lparr>w_files := kremove fst p (w_files w)\<rparr>)
     else (False, w))"

subsection \<open>Attempts and limits\<close>

definition NextMountAttempt :: "int \<Rightarrow> int \<Rightarrow> int \<times> bool" where
  "NextMountAttempt currentAttempts maxMountAttempts =
    (let attempts = currentAttempts + 1 in
     if maxMountAttempts < 1 then (attempts, False) else (attempts, attempts < maxMountAttempts))"

definition MountRetryable :: "int \<Rightarrow> int \<Rightarrow> bool" where
  "MountRetryable attempts maxMountAttempts \<longleftrightarrow> \<not> maxMountAttempts < 1 \<and> attempts < maxMountAttempts"

definition ShouldResetAttempts :: "int \<times> bool" where
  "ShouldResetAttempts = (0, True)"

definition LimitReached :: "int \<Rightarrow> int \<Rightarrow> bool" where
  "LimitReached active limit = (if limit \<le> 0 then False else active \<ge> limit)"

definition SlotsAvailable :: "int \<Rightarrow> int \<Rightarrow> int" where
  "SlotsAvailable active limit =
    (if limit \<le> 0 then 1000000000 else (let left = limit - active in if left < 0 then 0 else left))"

definition CountActive :: "bool list \<Rightarrow> int" where
  "CountActive flags = int (length (filter (\<lambda>b. b) flags))"

subsection \<open>Indexes\<close>

definition partialIndexStatuses :: "status list" where
  "partialIndexStatuses = [StatusIndexing, StatusIndexFailed, StatusDiscovered, StatusMountFailed]"

definition IndexFileReady :: "world \<Rightarrow> path \<Rightarrow> bool" where
  "IndexFileReady w indexPath =
    (if trim_space indexPath = '''' then False
     else (case file_size w indexPath of None \<Rightarrow> False | Some sz \<Rightarrow> sz > 0))"

definition ArchiveUsesInMemoryIndex :: "path \<Rightarrow> string \<Rightarrow> bool" where
  "ArchiveUsesInMemoryIndex archivePath mountBackend = False"

definition IndexBuildVerified :: "world \<Rightarrow> path \<Rightarrow> path \<Rightarrow> int option \<Rightarrow> string \<Rightarrow> bool" where
  "IndexBuildVerified w indexPath archivePath exitCode mountBackend =
    (if IndexFileReady w indexPath then True
     else ArchiveUsesInMemoryIndex archivePath mountBackend \<and> exitCode = Some 0)"

definition MountIndexRequirementMet :: "world \<Rightarrow> path \<Rightarrow> path \<Rightarrow> string \<Rightarrow> bool" where
  "MountIndexRequirementMet w indexPath archivePath mountBackend =
    (if IndexFileReady w indexPath then True else ArchiveUsesInMemoryIndex archivePath mountBackend)"

definition NeedsFreshIndex :: "world \<Rightarrow> path \<Rightarrow> bool" where
  "NeedsFreshIndex w indexPath \<longleftrightarrow> \<not> IndexFileReady w indexPath"

fun ForcedBackend :: "string list \<Rightarrow> string" where
  "ForcedBackend [] = ''''"
| "ForcedBackend (arg # rest) =
    (if (arg = ''--use-backend'' \<or> arg = ''-B'') \<and> rest \<noteq> [] then to_lower (hd rest)
     else if has_prefix arg ''--use-backend='' then to_lower (drop 14 arg)
     else ForcedBackend rest)"

definition UsesSinglePhaseMount :: "path \<Rightarrow> string list \<Rightarrow> string \<Rightarrow> bool \<Rightarrow> bool" where
  "UsesSinglePhaseMount archivePath extraArgs mountBackend sevenzipAvailable = False"

definition ResolveNeedsIndex :: "world \<Rightarrow> path \<Rightarrow> bool option \<Rightarrow> bool" where
  "ResolveNeedsIndex w indexPath firstIndex =
    (if NeedsFreshIndex w indexPath then True else if firstIndex = Some True then True else False)"

definition ptr_set :: "string option \<Rightarrow> bool" where
  "ptr_set p = (case p of None \<Rightarrow> False | Some s \<Rightarrow> s \<noteq> '''')"

definition strPtr :: "string option \<Rightarrow> string" where
  "strPtr p = (case p of None \<Rightarrow> '''' | Some s \<Rightarrow> s)"

definition ShouldDeletePartialIndex :: "status \<Rightarrow> string option \<Rightarrow> path \<Rightarrow> bool" where
  "ShouldDeletePartialIndex st firstMountedAt indexPath =
    (if ptr_set firstMountedAt then False
     else if trim_space indexPath = '''' then False
     else st \<in> set partialIndexStatuses)"

definition ShouldDeletePartialIndexFile :: "status \<Rightarrow> string option \<Rightarrow> path \<Rightarrow> bool \<Rightarrow> bool" where
  "ShouldDeletePartialIndexFile st firstMountedAt indexPath indexIsFile \<longleftrightarrow>
    indexIsFile \<and> ShouldDeletePartialIndex st firstMountedAt indexPath"

definition DeleteIndexFile :: "path \<Rightarrow> world \<Rightarrow> bool \<times> world" where
  "DeleteIndexFile indexPath w =
    (if trim_space indexPath = '''' then (False, w) else remove_file indexPath w)"

definition ApplyPartialIndexCleanup :: "status \<Rightarrow> string option \<Rightarrow> path \<Rightarrow> world \<Rightarrow> bool \<times> world" where
  "ApplyPartialIndexCleanup st firstMountedAt indexPath w =
    (if \<not> ShouldDeletePartialIndex st firstMountedAt indexPath then (False, w)
     else DeleteIndexFile indexPath w)"

subsection \<open>DrvFs guard\<close>

definition IndexPathAllowed :: "path \<Rightarrow> bool \<Rightarrow> bool" where
  "IndexPathAllowed indexPath allow =
    (if allow then True
     else (let p = trim_space indexPath in if p = '''' then True else \<not> IsDrvFsPath p))"

datatype drvfs_error = IndexOnDrvFs path | OverlayOnDrvFs path | MountOnDrvFs path

definition EnginePathsAllowed :: "path \<Rightarrow> path \<Rightarrow> path \<Rightarrow> bool \<Rightarrow> drvfs_error option" where
  "EnginePathsAllowed indexPath overlayPath mountPath allow =
    (if \<not> IndexPathAllowed indexPath allow then Some (IndexOnDrvFs (trim_space indexPath))
     else if \<not> IndexPathAllowed overlayPath allow then
       (if IsDrvFsPath overlayPath then Some (OverlayOnDrvFs overlayPath) else Some (IndexOnDrvFs (trim_space overlayPath)))
     else if \<not> IndexPathAllowed mountPath allow then
       (if IsDrvFsPath mountPath then Some (MountOnDrvFs mountPath) else Some (IndexOnDrvFs (trim_space mountPath)))
     else None)"

subsection \<open>The ratarmount command line\<close>

record mount_request =
  mr_archive_id :: string
  mr_archive_path :: path
  mr_index_path :: path
  mr_overlay_path :: path
  mr_mount_path :: path
  mr_allow_other :: bool
  mr_index_workers :: int
  mr_recursive :: bool
  mr_recursive_exts :: "string list"
  mr_extra_args :: "string list"
  mr_bin :: string
  mr_backend :: string
  mr_debug :: int
  mr_log_dir :: path
  mr_index_only :: bool

definition FormatRecursiveMountExtensions :: "string list \<Rightarrow> string" where
  "FormatRecursiveMountExtensions exts = join_with '','' exts"

definition EffectiveRatarmountExtraArgs :: "string list \<Rightarrow> string list" where
  "EffectiveRatarmountExtraArgs extraArgs = extraArgs"

fun filter_recursive :: "bool \<Rightarrow> string list \<Rightarrow> string list" where
  "filter_recursive skipNext [] = []"
| "filter_recursive skipNext (a # as) =
    (if skipNext then filter_recursive False as
     else if a = ''--recursive'' \<or> a = ''-r'' then filter_recursive False as
     else if a = ''--recursive-extensions'' then filter_recursive True as
     else if has_prefix a ''--recursive-extensions='' then filter_recursive False as
     else a # filter_recursive False as)"

definition filterRecursiveFromExtras :: "string list \<Rightarrow> string list" where
  "filterRecursiveFromExtras extras = filter_recursive False extras"

definition filterMountModeFromExtras :: "string list \<Rightarrow> string list" where
  "filterMountModeFromExtras extras = filter (\<lambda>a. \<not> (a = ''--no-mount'' \<or> a = ''--mount'')) extras"

definition BuildRatarmountCmd :: "mount_request \<Rightarrow> string list" where
  "BuildRatarmountCmd req =
    [mr_bin req, ''-f'', ''--index-file'', mr_index_path req, ''-P'', itoa (mr_index_workers req)]
    @ (if mr_debug req > 0 then [''-d'', itoa (if mr_debug req > 3 then 3 else mr_debug req)] else [])
    @ (let dir = trim_space (mr_log_dir req) in
       if dir \<noteq> '''' then [''--log-file'', path_join dir (mr_archive_id req @ ''.ratarmount.log'')] else [])
    @ (if mr_recursive req then [''--recursive''] else [])
    @ (if mr_overlay_path req \<noteq> '''' then [''--write-overlay'', mr_overlay_path req] else [])
    @ (if mr_allow_other req then [''-o'', ''allow_other''] else [])
    @ filterMountModeFromExtras
        (let extras = EffectiveRatarmountExtraArgs (mr_extra_args req) in
         if mr_recursive req then filterRecursiveFromExtras extras else extras)
    @ (if mr_recursive req \<and> mr_recursive_exts req \<noteq> []
       then [''--recursive-extensions'', FormatRecursiveMountExtensions (mr_recursive_exts req)] else [])
    @ (if mr_index_only req then [''--no-mount''] else [])
    @ [mr_archive_path req, mr_mount_path req]"

fun setEnv :: "string list \<Rightarrow> string \<Rightarrow> string \<Rightarrow> string list" where
  "setEnv [] key val = [key @ ''='' @ val]"
| "setEnv (e # es) key val =
    (if has_prefix e (key @ ''='') then (key @ ''='' @ val) # es else e # setEnv es key val)"

definition BuildChildEnv :: "string list \<Rightarrow> bool \<Rightarrow> string \<Rightarrow> string list" where
  "BuildChildEnv base sevenzDebug rustLog =
    (let env = (if sevenzDebug then setEnv base ''RATARMOUNT_7Z_DEBUG'' ''1'' else base);
         v = trim_space rustLog in
     if v \<noteq> '''' then setEnv env ''RUST_LOG'' v else env)"

text \<open>RequestFromConfig; \<open>None\<close> only if the mount name search does not return.\<close>

definition RequestFromConfig ::
  "config \<Rightarrow> string \<Rightarrow> path \<Rightarrow> string \<Rightarrow> string list \<Rightarrow> string \<Rightarrow> string \<Rightarrow> mount_request option" where
  "RequestFromConfig cfg archiveID archivePath archiveBasename taken mountName ratarmountBin =
    (case (if mountName = '''' then SanitizeMountName archiveBasename archiveID taken else Some mountName) of
       None \<Rightarrow> None
     | Some nm \<Rightarrow>
         (let bin = trim_space ratarmountBin in
          Some \<lparr>mr_archive_id = archiveID, mr_archive_path = archivePath,
            mr_index_path = path_join (c_index_dir cfg) (archiveID @ ''.index.sqlite''),
            mr_overlay_path = (if c_write_overlay cfg then path_join (c_overlay_dir cfg) archiveID else ''''),
            mr_mount_path = path_join (c_mount_root cfg) nm,
            mr_allow_other = c_windows_visible cfg, mr_index_workers = c_index_workers cfg,
            mr_recursive = c_recursive_mount cfg, mr_recursive_exts = c_recursive_exts cfg,
            mr_extra_args = c_extra_args cfg,
            mr_bin = (if bin = '''' then EffectiveRatarmountBin cfg else bin),
            mr_backend = (if c_mount_backend cfg = '''' then ''rust'' else c_mount_backend cfg),
            mr_debug = c_ratarmount_debug cfg, mr_log_dir = c_ratarmount_log_dir cfg,
            mr_index_only = False\<rparr>))"

subsection \<open>The engine binary\<close>

definition IsRustBackend :: "string \<Rightarrow> bool" where
  "IsRustBackend backend \<longleftrightarrow> NormalizeMountBackend backend = Inr ''rust''"

definition BackendLabel :: "string \<Rightarrow> string" where
  "BackendLabel backend =
    (case NormalizeMountBackend backend of
       Inl _ \<Rightarrow> backend
     | Inr b \<Rightarrow> if b = ''rust'' then ''ratarmount-rs (Rust)'' else backend)"

text \<open>\<open>which\<close> is the PATH lookup (empty when not found), \<open>isExec\<close> the executable test.\<close>

definition resolve_if_executable :: "string \<Rightarrow> (string \<Rightarrow> string) \<Rightarrow> (path \<Rightarrow> bool) \<Rightarrow> string" where
  "resolve_if_executable bin which isExec =
    (if bin = '''' then ''''
     else if CHR ''/'' \<in> set bin \<or> has_prefix bin ''.'' then (if isExec bin then bin else '''')
     else if which bin \<noteq> '''' \<and> isExec (which bin) then which bin
     else if isExec bin then bin else '''')"

fun first_executable :: "string list \<Rightarrow> (string \<Rightarrow> string) \<Rightarrow> (path \<Rightarrow> bool) \<Rightarrow> string" where
  "first_executable [] which isExec = ''''"
| "first_executable (c # cs) which isExec =
    (let c' = trim_space c; r = resolve_if_executable c' which isExec in
     if c' = '''' then first_executable cs which isExec
     else if r \<noteq> '''' then r else first_executable cs which isExec)"

definition ResolveRatarmountBin ::
  "string \<Rightarrow> string \<Rightarrow> (string \<Rightarrow> string) \<Rightarrow> (path \<Rightarrow> bool) \<Rightarrow> string list \<Rightarrow> path \<Rightarrow> bool \<Rightarrow> config_error + string" where
  "ResolveRatarmountBin backend configured which isExec extras sibling searchDisabled =
    (case NormalizeMountBackend backend of
       Inl e \<Rightarrow> Inl e
     | Inr b \<Rightarrow>
         (if trim_space configured \<noteq> '''' then Inr (trim_space configured)
          else (let defaultBin = DefaultRatarmountBin b;
                    r1 = resolve_if_executable defaultBin which isExec;
                    r2 = first_executable extras which isExec;
                    sib = trim_space sibling in
            if r1 \<noteq> '''' then Inr r1
            else if r2 \<noteq> '''' then Inr r2
            else if sib \<noteq> '''' \<and> isExec sib then Inr sib
            else if \<not> searchDisabled \<and> which ''ratarmount-rs'' \<noteq> '''' then Inr (which ''ratarmount-rs'')
            else Inr defaultBin)))"

subsection \<open>Nested-mount advisories\<close>

definition quote :: string where
  "quote = [CHR 0x27]"

definition parse_nested_at :: "string \<Rightarrow> (string \<times> string) option" where
  "parse_nested_at s =
    (let pre = ''Mounting of '' @ quote; mid = quote @ '' failed because of: '' in
     if \<not> has_prefix s pre then None
     else (let r = drop (length pre) s; p = takeWhile (\<lambda>c. c \<noteq> CHR 0x27) r; t = drop (length p) r;
               reason = drop (length mid) t in
       if p \<noteq> [] \<and> has_prefix t mid \<and> reason \<noteq> [] \<and> no_newline reason then Some (p, reason) else None))"

fun parse_nested_from :: "string \<Rightarrow> (string \<times> string) option" where
  "parse_nested_from [] = None"
| "parse_nested_from (c # cs) =
    (case parse_nested_at (c # cs) of Some x \<Rightarrow> Some x | None \<Rightarrow> parse_nested_from cs)"

definition ParseNestedMountFailure :: "string \<Rightarrow> (string \<times> string) option" where
  "ParseNestedMountFailure line = parse_nested_from (trim_space line)"

definition FormatNestedSkipSummary :: "string list \<Rightarrow> int \<Rightarrow> string" where
  "FormatNestedSkipSummary ps maxSamples =
    (if ps = [] then ''''
     else (let k = nat (if maxSamples \<le> 0 then 3 else maxSamples); n = length ps;
               unit = (if n \<noteq> 1 then ''nested mounts'' else ''nested mount'');
               msg = ''skipped '' @ digits_of n @ '' '' @ unit @ '': '' @ join_with '', '' (take k ps) in
       if n > k then msg @ '' (+'' @ digits_of (n - k) @ '' more)'' else msg))"

definition EnrichReasonWithNestedSkips :: "string \<Rightarrow> string list \<Rightarrow> string" where
  "EnrichReasonWithNestedSkips reason ps =
    (let sm = FormatNestedSkipSummary ps 3; r = trim_space reason in
     if sm = '''' then reason else if r = '''' then sm else r @ ''; '' @ sm)"

text \<open>The digits of a text that is one summary, as the anchored pattern of the code matches it.\<close>

definition match_skip_summary :: "string \<Rightarrow> string option" where
  "match_skip_summary s =
    (if \<not> has_prefix s ''skipped '' then None
     else (let r = drop 8 s; ds = takeWhile is_digit r; t = dropWhile is_digit r in
       if ds = [] \<or> \<not> has_prefix t '' nested mount'' then None
       else (let u = drop 13 t; v = (if has_prefix u ''s'' then drop 1 u else u) in
         if v = [] \<or> (has_prefix v '': '' \<and> drop 2 v \<noteq> [] \<and> no_newline (drop 2 v)) then Some ds else None)))"

fun last_suffix :: "string \<Rightarrow> string \<Rightarrow> string option" where
  "last_suffix pat [] = None"
| "last_suffix pat (c # cs) =
    (case last_suffix pat cs of
       Some r \<Rightarrow> Some r
     | None \<Rightarrow> if has_prefix (c # cs) pat then Some (c # cs) else None)"

definition ExtractNestedSkipSummary :: "string \<Rightarrow> string \<times> nat" where
  "ExtractNestedSkipSummary lastError =
    (case last_suffix ''skipped '' (trim_space lastError) of
       None \<Rightarrow> ('''', 0)
     | Some tail \<Rightarrow>
         (let candidate = trim_space tail in
          case match_skip_summary candidate of
            None \<Rightarrow> ('''', 0)
          | Some ds \<Rightarrow>
              (let n = digit_val ds in if n \<ge> 2 ^ 63 \<or> n = 0 then ('''', 0) else (candidate, n))))"

definition str_contains :: "string \<Rightarrow> string \<Rightarrow> bool" where
  "str_contains s sub \<longleftrightarrow> sub = '''' \<or> last_suffix sub s \<noteq> None"

definition PreserveNestedSkipInReason :: "string \<Rightarrow> string \<Rightarrow> string" where
  "PreserveNestedSkipInReason reason prior =
    (case ExtractNestedSkipSummary prior of (sm, n) \<Rightarrow>
      if n = 0 \<or> sm = '''' then reason
      else (let r = trim_space reason in
        if r = '''' then sm else if str_contains r sm then r else r @ ''; '' @ sm))"

definition IsNestedSkipOnlyLastError :: "string \<Rightarrow> bool" where
  "IsNestedSkipOnlyLastError lastError =
    (let text = trim_space lastError in text \<noteq> '''' \<and> match_skip_summary text \<noteq> None)"

text \<open>The paths the drain of a child's stderr notes, in order.\<close>

fun drain_stderr :: "string list \<Rightarrow> string list" where
  "drain_stderr [] = []"
| "drain_stderr (line # ls) =
    (case ParseNestedMountFailure line of
       Some (p, reason) \<Rightarrow> (if p = '''' then drain_stderr ls else p # drain_stderr ls)
     | None \<Rightarrow> drain_stderr ls)"

definition shouldLogRatarmountStderr :: "int \<Rightarrow> bool \<Rightarrow> string \<Rightarrow> string \<Rightarrow> bool" where
  "shouldLogRatarmountStderr debug sevenz logDir rustLog \<longleftrightarrow>
    debug \<ge> 2 \<or> sevenz \<or> trim_space logDir \<noteq> '''' \<or> trim_space rustLog \<noteq> ''''"

subsection \<open>Properties\<close>

lemma NextMountAttempt_valid: "1 \<le> m \<Longrightarrow> NextMountAttempt a m = (a + 1, a + 1 < m)"
  by (simp add: NextMountAttempt_def Let_def)

text \<open>Counting failures from a fresh row with a budget of m attempts (m at least 1, as the
  configuration requires): after n failures the counter is n, and the row is still retryable exactly
  while n is below m, so a failing archive is tried m times and no more.\<close>

theorem attempts_budget:
  assumes "1 \<le> m"
  shows "((\<lambda>s. NextMountAttempt (fst s) m) ^^ n) (0, True) = (int n, n = 0 \<or> int n < m)"
  using assms by (induction n) (auto simp: NextMountAttempt_valid)

theorem attempts_budget_witness:
  "((\<lambda>s. NextMountAttempt (fst s) 3) ^^ 3) (0, True) = (3, False)"
  using attempts_budget [of 3 3] by simp

lemma count_filter_out: "\<not> P x \<Longrightarrow> count_list (filter P xs) x = 0"
  by (induction xs) auto

lemma filter_recursive_out: "x \<in> {''--recursive'', ''-r'', ''--recursive-extensions''} \<Longrightarrow>
    count_list (filter_recursive b xs) x = 0"
  by (induction b xs rule: filter_recursive.induct) auto

lemma count_filter_zero: "count_list xs x = 0 \<Longrightarrow> count_list (filter P xs) x = 0"
  by (induction xs) (auto split: if_splits)

lemma itoa_not_flag: "itoa i \<noteq> CHR ''-'' # CHR ''-'' # s" "itoa i \<noteq> ''-r''"
proof -
  have d: "digits_of n \<noteq> CHR ''-'' # s'" for n s' using digits_of_no_dash [of n] by auto
  then show "itoa i \<noteq> CHR ''-'' # CHR ''-'' # s" by (auto simp: itoa_def)
  have "digits_of n \<noteq> ''r''" for n using digits_of_range [of "CHR ''r''" n] by auto
  with d show "itoa i \<noteq> ''-r''" by (auto simp: itoa_def)
qed

text \<open>Text that no flag of the command line can be mistaken for.\<close>

definition not_flag :: "string \<Rightarrow> bool" where
  "not_flag s \<longleftrightarrow> s \<noteq> '''' \<and> hd s \<noteq> CHR ''-''"

lemma not_flag_ne [simp]: "not_flag s \<Longrightarrow> s \<noteq> CHR ''-'' # t"
  by (auto simp: not_flag_def)

lemma not_flag_dash [simp]: "\<not> not_flag (CHR ''-'' # t)" "\<not> not_flag []"
  by (simp_all add: not_flag_def)

lemma rooted_not_flag: "is_rooted s \<Longrightarrow> not_flag s"
  by (cases s) (auto simp: not_flag_def)

text \<open>Whatever extra arguments the operator configures, the command line ends with the archive and
  the mount path, selects the index-only pass exactly when the request asks for it (one --no-mount,
  never --mount), and asks for recursion at most once, exactly when the request does.\<close>

theorem BuildRatarmountCmd_modes:
  assumes "not_flag (mr_bin req)" "not_flag (mr_index_path req)" "not_flag (mr_archive_path req)"
    "not_flag (mr_mount_path req)" "mr_overlay_path req = '''' \<or> not_flag (mr_overlay_path req)"
    "trim_space (mr_log_dir req) = '''' \<or> is_rooted (trim_space (mr_log_dir req))"
    "not_flag (FormatRecursiveMountExtensions (mr_recursive_exts req)) \<or> mr_recursive_exts req = []"
  shows "(\<exists>opts. BuildRatarmountCmd req = mr_bin req # opts @ [mr_archive_path req, mr_mount_path req])
     \<and> count_list (BuildRatarmountCmd req) ''--no-mount'' = (if mr_index_only req then 1 else 0)
     \<and> count_list (BuildRatarmountCmd req) ''--mount'' = 0
     \<and> (mr_recursive req \<longrightarrow> count_list (BuildRatarmountCmd req) ''--recursive'' = 1
          \<and> count_list (BuildRatarmountCmd req) ''-r'' = 0)"
proof -
  let ?dir = "trim_space (mr_log_dir req)"
  let ?log = "path_join ?dir (mr_archive_id req @ ''.ratarmount.log'')"
  let ?exts = "FormatRecursiveMountExtensions (mr_recursive_exts req)"
  let ?extras = "filterMountModeFromExtras
        (let extras = EffectiveRatarmountExtraArgs (mr_extra_args req) in
         if mr_recursive req then filterRecursiveFromExtras extras else extras)"
  have log: "?dir = '''' \<or> not_flag ?log"
    using assms(6) by (auto simp: path_join_def is_rooted_clean is_rooted_append intro!: rooted_not_flag)
  have count:"count_list (BuildRatarmountCmd req) f =
      (if mr_recursive req \<and> f = ''--recursive'' then 1 else 0) + count_list ?extras f
      + (if mr_index_only req \<and> f = ''--no-mount'' then 1 else 0)"
    if f: "f \<in> {''--no-mount'', ''--mount'', ''--recursive'', ''-r''}" for f
  proof -
    have "count_list [mr_bin req, ''-f'', ''--index-file'', mr_index_path req, ''-P'', itoa (mr_index_workers req)] f = 0"
      using f assms(1,2) itoa_not_flag by (elim insertE emptyE) auto
    moreover have "count_list (if mr_debug req > 0 then [''-d'', itoa (if mr_debug req > 3 then 3 else mr_debug req)] else []) f = 0"
      using f itoa_not_flag by (elim insertE emptyE) simp_all
    moreover have "count_list (if ?dir \<noteq> '''' then [''--log-file'', ?log] else []) f = 0"
      using f log by auto
    moreover have "count_list (if mr_overlay_path req \<noteq> '''' then [''--write-overlay'', mr_overlay_path req] else []) f = 0"
      using f assms(5) by auto
    moreover have "count_list (if mr_allow_other req then [''-o'', ''allow_other''] else []) f = 0"
      using f by auto
    moreover have "count_list (if mr_recursive req \<and> mr_recursive_exts req \<noteq> [] then [''--recursive-extensions'', ?exts] else []) f = 0"
      using f assms(7) by auto
    moreover have "count_list [mr_archive_path req, mr_mount_path req] f = 0"
      using f assms(3,4) by auto
    moreover have "count_list (if mr_recursive req then [''--recursive''] else []) f =
        (if mr_recursive req \<and> f = ''--recursive'' then 1 else 0)" by simp
    moreover have "count_list (if mr_index_only req then [''--no-mount''] else []) f =
        (if mr_index_only req \<and> f = ''--no-mount'' then 1 else 0)" by simp
    ultimately show ?thesis
      unfolding BuildRatarmountCmd_def Let_def count_list_append by (simp only: add_0 add_0_right add.assoc)
  qed
  have ex: "count_list ?extras ''--no-mount'' = 0" "count_list ?extras ''--mount'' = 0"
    by (simp_all add: filterMountModeFromExtras_def count_filter_out)
  have exr: "mr_recursive req \<Longrightarrow> count_list ?extras ''--recursive'' = 0 \<and> count_list ?extras ''-r'' = 0"
    by (simp add: filterMountModeFromExtras_def filterRecursiveFromExtras_def count_filter_zero
        filter_recursive_out Let_def)
  have nm: "count_list (BuildRatarmountCmd req) ''--no-mount'' = (if mr_index_only req then 1 else 0)"
    and m: "count_list (BuildRatarmountCmd req) ''--mount'' = 0"
    using count [of "''--no-mount''"] count [of "''--mount''"] ex by simp_all
  have r: "mr_recursive req \<Longrightarrow> count_list (BuildRatarmountCmd req) ''--recursive'' = 1
      \<and> count_list (BuildRatarmountCmd req) ''-r'' = 0"
    using count [of "''--recursive''"] count [of "''-r''"] exr by simp
  have "\<exists>opts. BuildRatarmountCmd req = mr_bin req # opts @ [mr_archive_path req, mr_mount_path req]"
    by (simp add: BuildRatarmountCmd_def)
  with nm m r show ?thesis by blast
qed

definition sample_request :: mount_request where
  "sample_request = \<lparr>mr_archive_id = ''x'', mr_archive_path = ''/in/a.tar'', mr_index_path = ''/idx/x.index.sqlite'',
     mr_overlay_path = '''', mr_mount_path = ''/mnt/a'', mr_allow_other = True, mr_index_workers = 2,
     mr_recursive = True, mr_recursive_exts = [''/archive''], mr_extra_args = [''--no-mount'', ''-r'', ''-v''],
     mr_bin = ''ratarmount-rs'', mr_backend = ''rust'', mr_debug = 5, mr_log_dir = '''', mr_index_only = True\<rparr>"

theorem BuildRatarmountCmd_modes_witness:
  "count_list (BuildRatarmountCmd sample_request) ''--no-mount'' = 1
   \<and> count_list (BuildRatarmountCmd sample_request) ''-r'' = 0"
  using BuildRatarmountCmd_modes [of sample_request]
  by (simp add: sample_request_def not_flag_def FormatRecursiveMountExtensions_def)

lemma file_size_remove: "file_size (w\<lparr>w_files := kremove fst p (w_files w)\<rparr>) q = (if q = p then None else file_size w q)"
  by (simp add: file_size_def kfind_kremove)

text \<open>Partial-index cleanup removes at most the index file it is given, and removes it exactly when
  the archive never completed a mount, its status is one of the partial set, and the file is there
  and removable; an index that has served a mount is never deleted by it.\<close>

theorem partial_index_cleanup:
  "(fst (ApplyPartialIndexCleanup st fma ip w) \<longleftrightarrow>
      \<not> ptr_set fma \<and> trim_space ip \<noteq> '''' \<and> st \<in> {StatusIndexing, StatusIndexFailed, StatusDiscovered, StatusMountFailed}
      \<and> is_file w ip \<and> ip \<notin> set (w_locked w))
   \<and> file_size (snd (ApplyPartialIndexCleanup st fma ip w)) q =
      (if fst (ApplyPartialIndexCleanup st fma ip w) \<and> q = ip then None else file_size w q)"
  by (auto simp: ApplyPartialIndexCleanup_def DeleteIndexFile_def remove_file_def
      ShouldDeletePartialIndex_def partialIndexStatuses_def file_size_remove)

theorem partial_index_cleanup_witness:
  "fst (ApplyPartialIndexCleanup StatusIndexFailed None ''/i'' \<lparr>w_files = [(''/i'', 0)], w_dirs = [], w_mounts = [], w_alive = [], w_locked = []\<rparr>)
   \<and> \<not> fst (ApplyPartialIndexCleanup StatusIndexFailed (Some ''t'') ''/i'' \<lparr>w_files = [(''/i'', 0)], w_dirs = [], w_mounts = [], w_alive = [], w_locked = []\<rparr>)"
  using partial_index_cleanup [of StatusIndexFailed None "''/i''" "\<lparr>w_files = [(''/i'', 0)], w_dirs = [], w_mounts = [], w_alive = [], w_locked = []\<rparr>" "''/i''"]
    partial_index_cleanup [of StatusIndexFailed "Some ''t''" "''/i''" "\<lparr>w_files = [(''/i'', 0)], w_dirs = [], w_mounts = [], w_alive = [], w_locked = []\<rparr>" "''/i''"]
  by (simp add: ptr_set_def is_file_def file_size_def trim_space_def trim_left_def trim_right_def is_space_def)

lemma match_skip_summary_shape:
  assumes "n \<noteq> 0" "body \<noteq> []" "no_newline body" "unit \<in> {''nested mount'', ''nested mounts''}"
  shows "match_skip_summary (''skipped '' @ digits_of n @ '' '' @ unit @ '': '' @ body) = Some (digits_of n)"
proof -
  have run: "takeWhile is_digit (digits_of n @ CHR '' '' # t) = digits_of n"
    "dropWhile is_digit (digits_of n @ CHR '' '' # t) = CHR '' '' # t" for t
    using digits_of_run [of "CHR '' ''" n t] by (simp_all add: is_digit_def)
  show ?thesis
    using assms run by (auto simp: match_skip_summary_def has_prefix_def Let_def)
qed

lemma join_with_nonempty: "xs \<noteq> [] \<Longrightarrow> (\<forall>x \<in> set xs. x \<noteq> []) \<Longrightarrow> join_with sep xs \<noteq> []"
  by (cases xs rule: remdups_adj.cases) auto

lemma join_with_newline: "no_newline sep \<Longrightarrow> (\<forall>x \<in> set xs. no_newline x) \<Longrightarrow> no_newline (join_with sep xs)"
  by (induction sep xs rule: join_with.induct) (auto simp: no_newline_def)

lemma join_with_last_nonempty: "xs \<noteq> [] \<Longrightarrow> last xs \<noteq> [] \<Longrightarrow> join_with sep xs \<noteq> []"
  by (induction sep xs rule: join_with.induct) (auto split: if_splits)

lemma last_join_with: "xs \<noteq> [] \<Longrightarrow> last xs \<noteq> [] \<Longrightarrow> last (join_with sep xs) = last (last xs)"
proof (induction sep xs rule: join_with.induct)
  case (3 sep x y zs)
  then have "join_with sep (y # zs) \<noteq> []" by (intro join_with_last_nonempty) simp_all
  with 3 show ?case by simp
qed simp_all

lemma trim_space_id: "s \<noteq> [] \<Longrightarrow> \<not> is_space (hd s) \<Longrightarrow> \<not> is_space (last s) \<Longrightarrow> trim_space s = s"
proof -
  assume s: "s \<noteq> []" "\<not> is_space (hd s)" "\<not> is_space (last s)"
  have "dropWhile is_space s = s" using s(1,2) by (cases s) auto
  moreover have "dropWhile is_space (rev s) = rev s" using s(1,3) by (cases s rule: rev_cases) auto
  ultimately show ?thesis by (simp add: trim_space_def trim_left_def trim_right_def)
qed

lemma digits_of_newline: "no_newline (digits_of n)"
  using digits_of_range [of "CHR 0x0A" n] by (auto simp: no_newline_def)

text \<open>The advisory that records n skipped nested mounts is always recognised as an advisory, with
  count n, when last_error is inspected later (so a successful mount keeps it and a failure reason
  is told apart from it), for any paths without line breaks or trailing blanks.\<close>

theorem nested_summary_recognised:
  assumes "ps \<noteq> []" and "\<forall>p \<in> set ps. p \<noteq> '''' \<and> no_newline p \<and> \<not> is_space (last p)"
  shows "IsNestedSkipOnlyLastError (FormatNestedSkipSummary ps maxSamples)
     \<and> match_skip_summary (trim_space (FormatNestedSkipSummary ps maxSamples)) = Some (digits_of (length ps))
     \<and> digit_val (digits_of (length ps)) = length ps"
proof -
  define k where "k = nat (if maxSamples \<le> 0 then 3 else maxSamples)"
  define unit where "unit = (if length ps \<noteq> 1 then ''nested mounts'' else ''nested mount'')"
  define body where "body = join_with '', '' (take k ps) @ (if length ps > k then '' (+'' @ digits_of (length ps - k) @ '' more)'' else '''')"
  have k: "0 < k" by (simp add: k_def)
  have sub: "set (take k ps) \<subseteq> set ps" by (rule set_take_subset)
  have eqn: "FormatNestedSkipSummary ps maxSamples =
      ''skipped '' @ digits_of (length ps) @ '' '' @ unit @ '': '' @ body" (is "_ = ?t")
    using assms(1) by (simp add: FormatNestedSkipSummary_def k_def unit_def body_def Let_def)
  have ne: "join_with '', '' (take k ps) \<noteq> []"
    using assms k sub by (intro join_with_nonempty) auto
  have nl: "no_newline (join_with '', '' (take k ps))"
    using assms(2) sub by (intro join_with_newline) (auto simp: no_newline_def)
  have "no_newline body" using nl digits_of_newline by (simp add: body_def no_newline_def)
  moreover have "body \<noteq> []" using ne by (simp add: body_def)
  moreover have "\<not> is_space (last ?t)"
  proof (cases "length ps > k")
    case True
    then show ?thesis by (simp add: body_def is_space_def)
  next
    case False
    then have all: "take k ps = ps" by simp
    have "last ps \<in> set ps" using assms(1) by simp
    with assms(2) have l: "last ps \<noteq> []" "\<not> is_space (last (last ps))" by auto
    have "last ?t = last (join_with '', '' ps)" using False ne by (simp add: body_def all)
    with last_join_with [OF assms(1) l(1), of "'', ''"] l(2) show ?thesis by simp
  qed
  then have "trim_space ?t = ?t" by (intro trim_space_id) (simp_all add: is_space_def)
  moreover have "match_skip_summary ?t = Some (digits_of (length ps))"
    using calculation(1,2) assms(1) by (intro match_skip_summary_shape) (simp_all add: unit_def)
  ultimately show ?thesis
    using assms(1) by (simp add: IsNestedSkipOnlyLastError_def eqn Let_def)
qed

theorem nested_summary_recognised_witness:
  "IsNestedSkipOnlyLastError (FormatNestedSkipSummary [''/a.7z'', ''/b.7z'', ''/c.7z'', ''/d.7z''] 0)"
  using nested_summary_recognised [of "[''/a.7z'', ''/b.7z'', ''/c.7z'', ''/d.7z'']" 0]
  by (simp add: no_newline_def is_space_def)

text \<open>
  Extracting it again is not as robust: the search for the last occurrence of the word is fooled
  by a sampled path that contains it.
\<close>

lemma nested_summary_lost:
  "ExtractNestedSkipSummary (FormatNestedSkipSummary [''/a'', ''/b'', ''/skipped'', ''/d''] 3) = ('''', 0)"
  by code_simp

end
