(* ===== verification/Archives.thy ===== *)
theory Archives
  imports Store MountPolicy
begin

text \<open>
  src/internal/archives: which paths belong to the directories the program owns (paths.go), and
  the relocation of an archive into archives_dir before its first index (relocate.go).  A regular
  file is a cleaned path with a size in \<open>world\<close>.  os.SameFile, the free-space probe and the
  success of os.MkdirAll, os.Rename and the copy that replaces a failed rename are given by
  \<open>move_io\<close>; os.Remove refuses the locked files of \<open>world\<close> and directories that are not empty.
\<close>

subsection \<open>Owned directories\<close>

definition ArchivesDirPath :: "config \<Rightarrow> path" where
  "ArchivesDirPath cfg = (if trim_space (c_archives_dir cfg) = '''' then '''' else c_archives_dir cfg)"

definition under_resolved :: "path \<Rightarrow> path \<Rightarrow> path \<Rightarrow> bool" where
  "under_resolved cwd p r =
    (let resolved = path_clean (path_abs cwd p); rootResolved = path_clean (path_abs cwd r) in
     resolved = rootResolved \<or> has_prefix resolved (rootResolved @ ''/''))"

definition IsArchivesPath :: "path \<Rightarrow> config \<Rightarrow> path \<Rightarrow> bool" where
  "IsArchivesPath cwd cfg p =
    (let r = ArchivesDirPath cfg in
     if r = '''' \<or> p = '''' then False else under_resolved cwd p r)"

definition IsConvertedOutputPath :: "path \<Rightarrow> config \<Rightarrow> path \<Rightarrow> bool" where
  "IsConvertedOutputPath cwd cfg p =
    (let raw = trim_space (c_converter_output_dir cfg) in
     if raw = '''' \<or> p = '''' then False else under_resolved cwd p raw)"

definition MetadataPath :: "path \<Rightarrow> path" where
  "MetadataPath p = (if p = '''' then '''' else p @ ''.tarmount-convert.json'')"

subsection \<open>File operations\<close>

datatype copy_outcome = CopyOk | CopyNoDest | CopyPartial int

record move_io =
  io_same :: "path \<Rightarrow> path \<Rightarrow> bool"
  io_free :: "path \<Rightarrow> int option"
  io_mkdir :: "path \<Rightarrow> bool"
  io_rename :: "path \<Rightarrow> path \<Rightarrow> bool"
  io_copy :: "path \<Rightarrow> path \<Rightarrow> copy_outcome"

definition path_exists :: "world \<Rightarrow> path \<Rightarrow> bool" where
  "path_exists w p \<longleftrightarrow> is_file w p \<or> p \<in> set (w_dirs w)"

definition below :: "path \<Rightarrow> path \<Rightarrow> bool" where
  "below d q \<longleftrightarrow> has_prefix q (d @ ''/'')"

text \<open>os.Remove on any path: a file, or an empty directory.\<close>

definition remove_path :: "path \<Rightarrow> world \<Rightarrow> bool \<times> world" where
  "remove_path p w =
    (if is_file w p then remove_file p w
     else if p \<in> set (w_dirs w) \<and> \<not> (\<exists>q \<in> fst ` set (w_files w) \<union> set (w_dirs w). below p q)
     then (True, w\<lparr>w_dirs := removeAll p (w_dirs w)\<rparr>)
     else (False, w))"

definition put_file :: "path \<Rightarrow> int \<Rightarrow> world \<Rightarrow> world" where
  "put_file p n w = w\<lparr>w_files := kput fst (p, n) (w_files w)\<rparr>"

definition mkdir_all :: "move_io \<Rightarrow> path \<Rightarrow> world \<Rightarrow> bool \<times> world" where
  "mkdir_all io d w =
    (if io_mkdir io d then (True, w\<lparr>w_dirs := List.insert d (w_dirs w)\<rparr>) else (False, w))"

definition copyFileContents :: "move_io \<Rightarrow> path \<Rightarrow> path \<Rightarrow> world \<Rightarrow> bool \<times> world" where
  "copyFileContents io src dest w =
    (case file_size w src of
       None \<Rightarrow> (False, w)
     | Some n \<Rightarrow>
         (if dest \<in> set (w_dirs w) then (False, w)
          else (case io_copy io src dest of
                  CopyOk \<Rightarrow> (True, put_file dest n w)
                | CopyNoDest \<Rightarrow> (False, w)
                | CopyPartial k \<Rightarrow> (False, put_file dest k w))))"

definition moveFile :: "move_io \<Rightarrow> path \<Rightarrow> path \<Rightarrow> world \<Rightarrow> bool \<times> world" where
  "moveFile io src dest w =
    (case file_size w src of
       Some n \<Rightarrow>
         (if io_rename io src dest \<and> dest \<notin> set (w_dirs w)
          then (True, put_file dest n (w\<lparr>w_files := kremove fst src (w_files w)\<rparr>))
          else
            (let (ok, w1) = copyFileContents io src dest w in
             if \<not> ok then (False, w1)
             else (let (removed, w2) = remove_path src w1 in
                   if removed then (True, w2) else (False, snd (remove_path dest w2)))))
     | None \<Rightarrow> (False, w))"

subsection \<open>Relocation\<close>

datatype relocate_error =
    NoArchivesDir | NoSuchArchive path | DestinationExists path | CannotCreateDir path
  | InsufficientSpace int int | MoveFailed path path

definition short_id :: "string \<Rightarrow> string" where
  "short_id aid = take 8 aid"

definition samePath :: "path \<Rightarrow> path \<Rightarrow> path \<Rightarrow> bool" where
  "samePath cwd a b = (path_clean (path_abs cwd a) = path_clean (path_abs cwd b))"

definition disambiguatedPath :: "path \<Rightarrow> string \<Rightarrow> string \<Rightarrow> path" where
  "disambiguatedPath r base aid =
    (let ext = path_ext base; stem = trim_suffix base ext in
     path_join r (stem @ ''--'' @ short_id aid @ ext))"

definition target_name :: "archive \<Rightarrow> string" where
  "target_name rec =
    (let b = path_base (trim_space (a_archive_basename rec)) in
     if b \<in> set ['''', ''.'', ''..''] then ''archive-'' @ short_id (a_archive_id rec) @ ''.bin'' else b)"

definition ArchiveFilePath ::
  "path \<Rightarrow> move_io \<Rightarrow> config \<Rightarrow> world \<Rightarrow> archive \<Rightarrow> path \<Rightarrow> relocate_error + path" where
  "ArchiveFilePath cwd io cfg w rec source =
    (let r = ArchivesDirPath cfg in
     if r = '''' then Inl NoArchivesDir
     else
      (let base = target_name rec;
           src = (if source = '''' then a_archive_path rec else source);
           primary = path_join r base in
       if \<not> is_file w primary then Inr primary
       else if \<not> is_file w src then Inr primary
       else if io_same io primary src \<or> samePath cwd primary src then Inr primary
       else Inr (disambiguatedPath r base (a_archive_id rec))))"

definition ShouldRelocate :: "path \<Rightarrow> move_io \<Rightarrow> config \<Rightarrow> world \<Rightarrow> archive \<Rightarrow> bool" where
  "ShouldRelocate cwd io cfg w rec =
    (if \<not> c_move_archives cfg then False
     else if ArchivesDirPath cfg = '''' then False
     else if IsArchivesPath cwd cfg (a_archive_path rec) then False
     else (case ArchiveFilePath cwd io cfg w rec '''' of
             Inl _ \<Rightarrow> False
           | Inr dest \<Rightarrow> \<not> is_file w dest))"

definition CheckRelocateSpace ::
  "move_io \<Rightarrow> config \<Rightarrow> int \<Rightarrow> world \<Rightarrow> relocate_error option \<times> world" where
  "CheckRelocateSpace io cfg archiveBytes w =
    (let r = ArchivesDirPath cfg in
     if r = '''' then (Some NoArchivesDir, w)
     else
      (let (made, w1) = mkdir_all io r w in
       if \<not> made then (Some (CannotCreateDir r), w1)
       else
        (case io_free io r of
           None \<Rightarrow> (None, w1)
         | Some free \<Rightarrow>
             (let required = wrap64 (archiveBytes + c_min_free_bytes cfg + c_relocate_overhead cfg) in
              if free < required then (Some (InsufficientSpace required free), w1) else (None, w1)))))"

definition move_sidecar :: "move_io \<Rightarrow> path \<Rightarrow> path \<Rightarrow> world \<Rightarrow> world" where
  "move_sidecar io src dest w =
    (if is_file w (MetadataPath src)
     then (let w1 = (if path_exists w (MetadataPath dest) then snd (remove_path (MetadataPath dest) w) else w) in
           snd (moveFile io (MetadataPath src) (MetadataPath dest) w1))
     else w)"

definition RelocateArchive ::
  "path \<Rightarrow> move_io \<Rightarrow> config \<Rightarrow> archive \<Rightarrow> path \<Rightarrow> world \<Rightarrow> (relocate_error + path) \<times> world" where
  "RelocateArchive cwd io cfg rec source w =
    (let src = (if source = '''' then a_archive_path rec else source) in
     case file_size w src of
       None \<Rightarrow> (Inl (NoSuchArchive src), w)
     | Some sz \<Rightarrow>
         (case ArchiveFilePath cwd io cfg w rec src of
            Inl e \<Rightarrow> (Inl e, w)
          | Inr dest \<Rightarrow>
              (let (made, w1) = mkdir_all io (path_dir dest) w in
               if \<not> made then (Inl (CannotCreateDir (path_dir dest)), w1)
               else if is_file w1 dest
               then (if io_same io dest src \<or> samePath cwd dest src then (Inr dest, w1)
                     else (Inl (DestinationExists dest), w1))
               else
                (case CheckRelocateSpace io cfg sz w1 of
                   (Some e, w2) \<Rightarrow> (Inl e, w2)
                 | (None, w2) \<Rightarrow>
                     (let (moved, w3) = moveFile io src dest w2 in
                      if \<not> moved
                      then (Inl (MoveFailed src dest),
                            if path_exists w3 dest then snd (remove_path dest w3) else w3)
                      else (Inr dest, move_sidecar io src dest w3))))))"

definition RemoveSupersededSource ::
  "path \<Rightarrow> move_io \<Rightarrow> config \<Rightarrow> path \<Rightarrow> path \<Rightarrow> world \<Rightarrow> bool \<times> world" where
  "RemoveSupersededSource cwd io cfg originalPath activePath w =
    (if \<not> c_move_archives cfg then (False, w)
     else if originalPath = '''' \<or> activePath = '''' then (False, w)
     else if \<not> is_file w originalPath then (False, w)
     else if is_file w activePath \<and> io_same io originalPath activePath then (False, w)
     else if samePath cwd originalPath activePath then (False, w)
     else if IsArchivesPath cwd cfg originalPath \<or> IsConvertedOutputPath cwd cfg originalPath then (False, w)
     else
      (let (ok, w1) = remove_path originalPath w in
       if \<not> ok then (False, w1)
       else (True, if is_file w1 (MetadataPath originalPath)
                   then snd (remove_path (MetadataPath originalPath) w1) else w1)))"

end
