(* ===== verification/StoreFacts.thy ===== *)
theory StoreFacts
  imports Store
begin

text \<open>
  What the store promises: the exact outcome of Transition on every branch, the frame of each
  operation, the well-formedness of the tables under every sequence of operations, the meaning of
  the removal stamp, and the outcome of the composite operations (MarkAbsent, Reappear,
  RecordContentChange, purge and rediscovery, hook rows).
\<close>

declare hooks_status_str.simps [simp del]

subsection \<open>Patches\<close>

lemma no_fields_sel [simp]:
  "p_source_dir no_fields = None" "p_archive_path no_fields = None"
  "p_archive_basename no_fields = None" "p_size_bytes no_fields = None"
  "p_mtime_ns no_fields = None" "p_fingerprint no_fields = None"
  "p_index_path no_fields = None" "p_overlay_path no_fields = None"
  "p_mount_path no_fields = None" "p_mount_retryable no_fields = None"
  "p_mount_attempts no_fields = None" "p_last_seen_at no_fields = None"
  "p_removed_at no_fields = None" "p_first_mounted_at no_fields = None"
  "p_hooks_status no_fields = None" "p_hooks_completed_at no_fields = None"
  "p_last_error no_fields = None" "p_mount_pid no_fields = None"
  "p_index_started_at no_fields = None" "p_index_duration_ms no_fields = None"
  "p_mount_duration_ms no_fields = None" "p_convert_source_size_bytes no_fields = None"
  "p_convert_duration_ms no_fields = None" "p_unknown no_fields = []"
  by (simp_all add: no_fields_def)

lemma patched_simps [simp]: "patched_hooks_status None h = h"
  "patched_hooks_status (Some (hooks_status_str x)) h = x"
  by (simp_all add: patched_hooks_status_def)

lemma apply_patch_sel [simp]:
  "a_archive_id (apply_patch p r) = a_archive_id r"
  "a_status (apply_patch p r) = a_status r"
  "a_created_at (apply_patch p r) = a_created_at r"
  "a_archive_path (apply_patch p r) = patched (p_archive_path p) (a_archive_path r)"
  "a_mount_attempts (apply_patch p r) = patched (p_mount_attempts p) (a_mount_attempts r)"
  "a_removed_at (apply_patch p r) = patched (p_removed_at p) (a_removed_at r)"
  "a_mount_pid (apply_patch p r) = patched (p_mount_pid p) (a_mount_pid r)"
  "a_last_error (apply_patch p r) = patched (p_last_error p) (a_last_error r)"
  "a_hooks_status (apply_patch p r) = patched_hooks_status (p_hooks_status p) (a_hooks_status r)"
  "a_first_mounted_at (apply_patch p r) = patched (p_first_mounted_at p) (a_first_mounted_at r)"
  "a_index_started_at (apply_patch p r) = patched (p_index_started_at p) (a_index_started_at r)"
  "a_mount_retryable (apply_patch p r) = patched (p_mount_retryable p) (a_mount_retryable r)"
  "a_fingerprint (apply_patch p r) = patched (p_fingerprint p) (a_fingerprint r)"
  "a_size_bytes (apply_patch p r) = patched (p_size_bytes p) (a_size_bytes r)"
  "a_mtime_ns (apply_patch p r) = patched (p_mtime_ns p) (a_mtime_ns r)"
  "a_last_seen_at (apply_patch p r) = patched (p_last_seen_at p) (a_last_seen_at r)"
  "a_mount_path (apply_patch p r) = patched (p_mount_path p) (a_mount_path r)"
  "a_index_path (apply_patch p r) = patched (p_index_path p) (a_index_path r)"
  "a_overlay_path (apply_patch p r) = patched (p_overlay_path p) (a_overlay_path r)"
  "a_hooks_completed_at (apply_patch p r) = patched (p_hooks_completed_at p) (a_hooks_completed_at r)"
  "a_index_duration_ms (apply_patch p r) = patched (p_index_duration_ms p) (a_index_duration_ms r)"
  "a_mount_duration_ms (apply_patch p r) = patched (p_mount_duration_ms p) (a_mount_duration_ms r)"
  "a_source_dir (apply_patch p r) = patched (p_source_dir p) (a_source_dir r)"
  by (simp_all add: apply_patch_def)

lemma transition_row_sel [simp]:
  "a_archive_id (transition_row r to ts p) = a_archive_id r"
  "a_status (transition_row r to ts p) = to"
  "a_updated_at (transition_row r to ts p) = ts"
  "a_created_at (transition_row r to ts p) = a_created_at r"
  "a_archive_path (transition_row r to ts p) = patched (p_archive_path p) (a_archive_path r)"
  "a_mount_attempts (transition_row r to ts p) = patched (p_mount_attempts p) (a_mount_attempts r)"
  "a_mount_pid (transition_row r to ts p) = patched (p_mount_pid p) (a_mount_pid r)"
  "a_last_error (transition_row r to ts p) = patched (p_last_error p) (a_last_error r)"
  "a_hooks_status (transition_row r to ts p) = patched_hooks_status (p_hooks_status p) (a_hooks_status r)"
  "a_mount_retryable (transition_row r to ts p) = patched (p_mount_retryable p) (a_mount_retryable r)"
  "a_fingerprint (transition_row r to ts p) = patched (p_fingerprint p) (a_fingerprint r)"
  "a_size_bytes (transition_row r to ts p) = patched (p_size_bytes p) (a_size_bytes r)"
  "a_mtime_ns (transition_row r to ts p) = patched (p_mtime_ns p) (a_mtime_ns r)"
  "a_last_seen_at (transition_row r to ts p) = patched (p_last_seen_at p) (a_last_seen_at r)"
  "a_mount_path (transition_row r to ts p) = patched (p_mount_path p) (a_mount_path r)"
  "a_index_path (transition_row r to ts p) = patched (p_index_path p) (a_index_path r)"
  "a_overlay_path (transition_row r to ts p) = patched (p_overlay_path p) (a_overlay_path r)"
  "a_hooks_completed_at (transition_row r to ts p) = patched (p_hooks_completed_at p) (a_hooks_completed_at r)"
  "a_mount_duration_ms (transition_row r to ts p) = patched (p_mount_duration_ms p) (a_mount_duration_ms r)"
  "a_source_dir (transition_row r to ts p) = patched (p_source_dir p) (a_source_dir r)"
  by (simp_all add: transition_row_def auto_fields_def Let_def)

lemma transition_row_removed_at:
  "a_removed_at (transition_row r to ts p) =
    (case p_removed_at p of Some v \<Rightarrow> v
     | None \<Rightarrow> if to = StatusAbsent then Some ts
               else if to = StatusDiscovered \<and> a_status r = StatusAbsent then None
               else a_removed_at r)"
  by (auto simp: transition_row_def auto_fields_def Let_def split: option.splits)

lemma transition_row_first_mounted_at:
  "a_first_mounted_at (transition_row r to ts p) =
    (case p_first_mounted_at p of Some v \<Rightarrow> v
     | None \<Rightarrow> if to \<in> {StatusMounted, StatusHooksRunning} \<and> a_status r \<in> {StatusIndexing, StatusMounting}
                  \<and> a_first_mounted_at r = None
               then Some ts else a_first_mounted_at r)"
  by (auto simp: transition_row_def auto_fields_def Let_def split: option.splits)

lemma transition_row_index_started_at:
  "a_index_started_at (transition_row r to ts p) =
    (case p_index_started_at p of Some v \<Rightarrow> v
     | None \<Rightarrow> if to \<in> {StatusIndexing, StatusMounting} then Some ts else a_index_started_at r)"
  by (auto simp: transition_row_def auto_fields_def Let_def split: option.splits)

lemma transition_row_index_duration:
  "a_index_duration_ms (transition_row r to ts p) =
    (case p_index_duration_ms p of Some v \<Rightarrow> v
     | None \<Rightarrow> if to = StatusIndexing \<and> a_status r \<noteq> StatusIndexing then None else a_index_duration_ms r)"
  by (auto simp: transition_row_def auto_fields_def Let_def split: option.splits)

subsection \<open>The outcome of Transition\<close>

text \<open>The row an update would leave violates no constraint of the table.\<close>

definition row_fits :: "store \<Rightarrow> archive \<Rightarrow> bool" where
  "row_fits s row \<longleftrightarrow> 0 \<le> a_mount_attempts row \<and>
     (\<forall>r \<in> set (s_archives s). a_archive_path r = a_archive_path row \<longrightarrow> a_archive_id r = a_archive_id row)"

definition put_row :: "archive \<Rightarrow> store \<Rightarrow> store" where
  "put_row row s = s\<lparr>s_archives := kreplace a_archive_id (a_archive_id row) row (s_archives s)\<rparr>"

lemma GetArchive_id: "GetArchive s aid = Some r \<Longrightarrow> a_archive_id r = aid"
  unfolding GetArchive_def by (rule kfind_key)

lemma GetArchive_mem: "GetArchive s aid = Some r \<Longrightarrow> r \<in> set (s_archives s)"
  unfolding GetArchive_def by (rule kfind_mem)

lemma GetArchive_put_row:
  "GetArchive (put_row row s) k =
    (if k = a_archive_id row \<and> GetArchive s k \<noteq> None then Some row else GetArchive s k)"
  by (auto simp: GetArchive_def put_row_def kfind_kreplace)

lemma put_row_sel [simp]: "s_hooks (put_row row s) = s_hooks s" "s_meta (put_row row s) = s_meta s"
  by (simp_all add: put_row_def)

lemma update_archive_run:
  assumes "a_archive_id row = aid"
  shows "update_archive aid row s =
    (if row_fits s row then (Inr (), put_row row s) else (Inl (UpdateArchiveError aid), s))"
proof -
  have "(a_mount_attempts row < 0
      \<or> (\<exists>r \<in> set (s_archives s). a_archive_id r \<noteq> aid \<and> a_archive_path r = a_archive_path row))
    \<longleftrightarrow> \<not> row_fits s row"
    using assms unfolding row_fits_def not_le [symmetric] by blast
  then show ?thesis using assms unfolding update_archive_def by (simp add: put_row_def)
qed

lemma Transition_run:
  "Transition utc aid to ex p now s =
    (case check_fields p of
       Some e \<Rightarrow> (Inl e, s)
     | None \<Rightarrow> (case GetArchive s aid of
         None \<Rightarrow> (Inl (ArchiveNotFound aid), s)
       | Some rec \<Rightarrow> (case check_expected aid ex (a_status rec) of
           Some e \<Rightarrow> (Inl e, s)
         | None \<Rightarrow> (case validate_transition (a_status rec) to of
             Some e \<Rightarrow> (Inl e, s)
           | None \<Rightarrow> (let row = transition_row rec to (ts_of utc now) p in
               if row_fits s row then (Inr (Some row), put_row row s)
               else (Inl (UpdateArchiveError aid), s))))))"
proof (cases "check_fields p")
  case (Some e)
  then show ?thesis by (simp add: Transition_def)
next
  case fields: None
  note [simp] = Transition_def bindE_def Transaction_def transition_txn_def
  show ?thesis
  proof (cases "GetArchive s aid")
    case None
    with fields show ?thesis by simp
  next
    case (Some rec)
    then have "a_archive_id rec = aid" by (rule GetArchive_id)
    with fields Some show ?thesis
      by (simp add: update_archive_run Let_def GetArchive_put_row split: option.split)
  qed
qed

text \<open>The enabling condition of a transition, in one predicate.\<close>

definition enabled :: "store \<Rightarrow> archive \<Rightarrow> status \<Rightarrow> expected \<Rightarrow> patch \<Rightarrow> string \<Rightarrow> bool" where
  "enabled s rec to ex p ts \<longleftrightarrow> check_fields p = None
     \<and> check_expected (a_archive_id rec) ex (a_status rec) = None
     \<and> validate_transition (a_status rec) to = None \<and> row_fits s (transition_row rec to ts p)"

lemma Transition_enabled:
  "GetArchive s aid = Some rec \<Longrightarrow> enabled s rec to ex p (ts_of utc now) \<Longrightarrow>
   Transition utc aid to ex p now s =
     (Inr (Some (transition_row rec to (ts_of utc now) p)),
      put_row (transition_row rec to (ts_of utc now) p) s)"
  by (auto simp: Transition_run enabled_def Let_def GetArchive_id)

lemma Transition_cases:
  obtains (ok) rec where "GetArchive s aid = Some rec" "enabled s rec to ex p (ts_of utc now)"
      "Transition utc aid to ex p now s =
        (Inr (Some (transition_row rec to (ts_of utc now) p)),
         put_row (transition_row rec to (ts_of utc now) p) s)"
    | (err) e where "Transition utc aid to ex p now s = (Inl e, s)"
        "\<nexists>rec. GetArchive s aid = Some rec \<and> enabled s rec to ex p (ts_of utc now)"
proof (cases "\<exists>rec. GetArchive s aid = Some rec \<and> enabled s rec to ex p (ts_of utc now)")
  case True
  then obtain rec where rec: "GetArchive s aid = Some rec" "enabled s rec to ex p (ts_of utc now)" by blast
  show ?thesis using ok [OF rec Transition_enabled [OF rec]] .
next
  case False
  then have "\<exists>e. Transition utc aid to ex p now s = (Inl e, s)"
    by (auto simp: Transition_run enabled_def Let_def GetArchive_id split: option.splits)
  with False show ?thesis using err by blast
qed

subsection \<open>Well-formed tables\<close>

definition store_wf :: "store \<Rightarrow> bool" where
  "store_wf s \<longleftrightarrow> kdistinct a_archive_id (s_archives s) \<and> kdistinct a_archive_path (s_archives s)
     \<and> (\<forall>r \<in> set (s_archives s). 0 \<le> a_mount_attempts r)
     \<and> kdistinct hook_key (s_hooks s)
     \<and> (\<forall>h \<in> set (s_hooks s). 0 \<le> h_attempts h \<and> h_archive_id h \<in> a_archive_id ` set (s_archives s))"

text \<open>A row carries a removal time exactly while it is absent.\<close>

definition removal_stamped :: "archive \<Rightarrow> bool" where
  "removal_stamped r \<longleftrightarrow> (a_removed_at r \<noteq> None \<longleftrightarrow> a_status r = StatusAbsent)"

definition store_stamped :: "store \<Rightarrow> bool" where
  "store_stamped s \<longleftrightarrow> (\<forall>r \<in> set (s_archives s). removal_stamped r)"

lemma kdistinct_kreplace_other:
  "kdistinct idf xs \<Longrightarrow> kdistinct key xs \<Longrightarrow> idf y = k \<Longrightarrow>
   \<forall>r \<in> set xs. key r = key y \<longrightarrow> idf r = k \<Longrightarrow> kdistinct key (kreplace idf k y xs)"
proof (induction xs)
  case Nil
  then show ?case by (simp add: kdistinct_def kreplace_def)
next
  case (Cons x xs)
  then have IH: "kdistinct key (kreplace idf k y xs)" by (simp add: kdistinct_def)
  show ?case
  proof (cases "idf x = k")
    case True
    with Cons.prems have none: "\<forall>r\<in>set xs. idf r \<noteq> k" by (auto simp: kdistinct_def image_iff)
    then have "kreplace idf k y xs = xs" by (auto simp: kreplace_def intro!: map_idI)
    moreover from none Cons.prems have "key y \<notin> key ` set xs" by (auto simp: image_iff)
    ultimately show ?thesis using True Cons.prems by (simp add: kdistinct_def kreplace_def)
  next
    case False
    with Cons.prems have "key x \<noteq> key y" by auto
    with Cons.prems have "key x \<notin> key ` set (kreplace idf k y xs)"
      by (auto simp: kreplace_def kdistinct_def)
    moreover from False have "kreplace idf k y (x # xs) = x # kreplace idf k y xs"
      by (simp add: kreplace_def)
    ultimately show ?thesis using IH by (simp add: kdistinct_def)
  qed
qed

lemma ids_put_row: "map a_archive_id (s_archives (put_row row s)) = map a_archive_id (s_archives s)"
  by (simp add: put_row_def keys_kreplace)

lemma id_set_put_row: "a_archive_id ` set (s_archives (put_row row s)) = a_archive_id ` set (s_archives s)"
  using arg_cong [OF ids_put_row, of set row s] by simp

lemma set_put_row: "r \<in> set (s_archives (put_row row s)) \<Longrightarrow> r = row \<or> r \<in> set (s_archives s)"
  using set_kreplace_subset [of a_archive_id "a_archive_id row" row "s_archives s"]
  by (auto simp: put_row_def)

lemma wf_put_row: "store_wf s \<Longrightarrow> row_fits s row \<Longrightarrow> store_wf (put_row row s)"
  unfolding store_wf_def id_set_put_row put_row_sel
  by (auto simp: put_row_def row_fits_def intro!: kdistinct_kreplace_other
      dest: set_kreplace_subset [THEN subsetD])

lemma stamped_put_row: "store_stamped s \<Longrightarrow> removal_stamped row \<Longrightarrow> store_stamped (put_row row s)"
  by (auto simp: store_stamped_def dest: set_put_row)

lemma stamped_transition_row:
  "removal_stamped r \<Longrightarrow> validate_transition (a_status r) to = None \<Longrightarrow> p_removed_at p = None \<Longrightarrow>
   removal_stamped (transition_row r to ts p)"
  using absent_leaves_to_discovered [of to]
  by (cases "a_status r = StatusAbsent") (auto simp: removal_stamped_def transition_row_removed_at)

lemma stamped_transition_row_explicit:
  "p_removed_at p = Some v \<Longrightarrow> v \<noteq> None \<longleftrightarrow> to = StatusAbsent \<Longrightarrow> removal_stamped (transition_row r to ts p)"
  by (auto simp: removal_stamped_def transition_row_removed_at)

definition patch_stamps :: "status \<Rightarrow> patch \<Rightarrow> bool" where
  "patch_stamps to p \<longleftrightarrow> (case p_removed_at p of None \<Rightarrow> True | Some v \<Rightarrow> v \<noteq> None \<longleftrightarrow> to = StatusAbsent)"

subsection \<open>Operations on one row\<close>

text \<open>
  The contract of every operation that works on one archive: it changes no identifier, leaves
  every other row alone, and keeps the tables well formed.  A caller that loops over rows relies
  on exactly this.
\<close>

locale row_op =
  fixes run :: "'a store_op" and aid :: string
  assumes ids: "map a_archive_id (s_archives (snd (run s))) = map a_archive_id (s_archives s)"
    and frame: "k \<noteq> aid \<Longrightarrow> GetArchive (snd (run s)) k = GetArchive s k"
    and wf: "store_wf s \<Longrightarrow> store_wf (snd (run s))"
begin

lemma known_iff: "GetArchive (snd (run s)) k = None \<longleftrightarrow> GetArchive s k = None"
proof -
  have "a_archive_id ` set (s_archives (snd (run s))) = a_archive_id ` set (s_archives s)"
    using arg_cong [OF ids, of set s] by simp
  then show ?thesis by (simp add: GetArchive_def kfind_None_iff)
qed

lemma row_kept: "GetArchive s aid = Some r \<Longrightarrow> \<exists>r'. GetArchive (snd (run s)) aid = Some r' \<and> a_archive_id r' = aid"
  using known_iff [of s aid] by (cases "GetArchive (snd (run s)) aid") (auto dest: GetArchive_id)

lemma same_count: "length (s_archives (snd (run s))) = length (s_archives s)"
  using arg_cong [OF ids, of length s] by simp

end

locale stamping_row_op = row_op +
  assumes stamped: "store_stamped s \<Longrightarrow> store_stamped (snd (run s))"
begin

lemma stamped_row: "store_stamped s \<Longrightarrow> GetArchive (snd (run s)) k = Some r \<Longrightarrow> removal_stamped r"
  using stamped [of s] by (auto simp: store_stamped_def dest: GetArchive_mem)

end

text \<open>Two steps on the same row are one step on that row.\<close>

lemma snd_bindE: "snd (bindE m f s) = (case m s of (Inl e, s') \<Rightarrow> s' | (Inr x, s') \<Rightarrow> snd (f x s'))"
  by (simp add: bindE_def split: prod.split sum.split)

lemma row_op_bindE:
  assumes m: "row_op m aid" and f: "\<And>x. row_op (f x) aid"
  shows "row_op (bindE m f) aid"
proof
  fix s k
  obtain res s' where run: "m s = (res, s')" by (cases "m s")
  note m' = row_op.ids [OF m, of s] row_op.frame [OF m, of k s] row_op.wf [OF m, of s]
  have "snd (bindE m f s) = s' \<or> (\<exists>x. snd (bindE m f s) = snd (f x s'))"
    unfolding snd_bindE run by (cases res) auto
  then consider (stop) "snd (bindE m f s) = s'" | (go) x where "snd (bindE m f s) = snd (f x s')" by blast
  then show "map a_archive_id (s_archives (snd (bindE m f s))) = map a_archive_id (s_archives s)"
    using m' run row_op.ids [OF f, of _ s'] by cases simp_all
  from \<open>snd (bindE m f s) = s' \<or> _\<close>
  show "k \<noteq> aid \<Longrightarrow> GetArchive (snd (bindE m f s)) k = GetArchive s k"
    using m' run row_op.frame [OF f, of k _ s'] by auto
  from \<open>snd (bindE m f s) = s' \<or> _\<close>
  show "store_wf s \<Longrightarrow> store_wf (snd (bindE m f s))"
    using m' run row_op.wf [OF f, of s'] by auto
qed

lemma stamping_row_op_bindE:
  assumes m: "stamping_row_op m aid" and f: "\<And>x. stamping_row_op (f x) aid"
  shows "stamping_row_op (bindE m f) aid"
proof (intro stamping_row_op.intro stamping_row_op_axioms.intro row_op_bindE)
  show "row_op m aid" "\<And>x. row_op (f x) aid" using m f by (auto simp: stamping_row_op_def)
  fix s assume "store_stamped s"
  obtain res s' where run: "m s = (res, s')" by (cases "m s")
  with stamping_row_op.stamped [OF m \<open>store_stamped s\<close>] have "store_stamped s'" by simp
  then show "store_stamped (snd (bindE m f s))"
    using stamping_row_op.stamped [OF f] run by (cases res) (auto simp: snd_bindE)
qed


subsection \<open>The store's operations meet the contract\<close>

lemma enabled_stamped:
  "enabled s rec to ex p ts \<Longrightarrow> removal_stamped rec \<Longrightarrow> patch_stamps to p \<Longrightarrow>
   removal_stamped (transition_row rec to ts p)"
  by (auto simp: enabled_def patch_stamps_def stamped_transition_row stamped_transition_row_explicit
      split: option.splits)

lemma row_op_Transition: "row_op (Transition utc aid to ex p now) aid"
proof
  fix s
  show "map a_archive_id (s_archives (snd (Transition utc aid to ex p now s))) = map a_archive_id (s_archives s)"
    by (rule Transition_cases [of s aid to ex p utc now]) (simp_all add: ids_put_row)
  show "GetArchive (snd (Transition utc aid to ex p now s)) k = GetArchive s k" if "k \<noteq> aid" for k
    by (rule Transition_cases [of s aid to ex p utc now])
      (use that in \<open>auto simp: GetArchive_put_row GetArchive_id\<close>)
  show "store_wf (snd (Transition utc aid to ex p now s))" if "store_wf s"
    by (rule Transition_cases [of s aid to ex p utc now])
      (use that in \<open>auto simp: wf_put_row enabled_def\<close>)
qed

lemma stamping_row_op_Transition:
  assumes "patch_stamps to p"
  shows "stamping_row_op (Transition utc aid to ex p now) aid"
proof (intro stamping_row_op.intro stamping_row_op_axioms.intro row_op_Transition)
  fix s assume "store_stamped s"
  with assms show "store_stamped (snd (Transition utc aid to ex p now s))"
    by (cases rule: Transition_cases [of s aid to ex p utc now])
      (auto simp: store_stamped_def enabled_stamped dest!: set_put_row dest: GetArchive_mem)
qed

text \<open>An operation that chooses its steps from the row it reads.\<close>

lemma stamping_row_op_on_row:
  assumes "\<And>rec. stamping_row_op (f rec) aid"
  shows "stamping_row_op (\<lambda>s. case GetArchive s aid of None \<Rightarrow> (Inl (ArchiveNotFound aid), s) | Some rec \<Rightarrow> f rec s) aid"
  using assms unfolding stamping_row_op_def stamping_row_op_axioms_def row_op_def
  by (simp split: option.split)

lemma stamping_row_op_throw: "stamping_row_op (\<lambda>s. (Inl e, s)) aid"
  by unfold_locales simp_all

lemma patch_stamps_none [simp]: "p_removed_at p = None \<Longrightarrow> patch_stamps to p"
  by (simp add: patch_stamps_def)

lemma reset_fields_sel [simp]: "p_removed_at reset_fields = None" "p_archive_path reset_fields = None"
  "p_unknown reset_fields = []" "p_hooks_status reset_fields = None" "p_mount_attempts reset_fields = Some 0"
  "p_mount_pid reset_fields = None" "p_mount_retryable reset_fields = Some True"
  by (simp_all add: reset_fields_def)

lemma content_fields_sel [simp]:
  "p_removed_at (content_fields rec sz mtime fp rh ts) = None"
  "p_archive_path (content_fields rec sz mtime fp rh ts) = None"
  "p_mount_attempts (content_fields rec sz mtime fp rh ts) = Some 0"
  "p_mount_pid (content_fields rec sz mtime fp rh ts) = Some None"
  "p_unknown (content_fields rec sz mtime fp rh ts) = []"
  "p_fingerprint (content_fields rec sz mtime fp rh ts) = Some fp"
  "p_size_bytes (content_fields rec sz mtime fp rh ts) = Some sz"
  "p_mtime_ns (content_fields rec sz mtime fp rh ts) = Some mtime"
  "p_hooks_status (content_fields rec sz mtime fp rh ts) = (if rh then Some (hooks_status_str HooksNone) else None)"
  "p_first_mounted_at (content_fields rec sz mtime fp rh ts) = Some (if rh then None else a_first_mounted_at rec)"
  by (simp_all add: content_fields_def Let_def)

lemma stamping_row_op_if:
  "stamping_row_op f aid \<Longrightarrow> stamping_row_op g aid \<Longrightarrow> stamping_row_op (\<lambda>s. if b then f s else g s) aid"
  by (cases b) simp_all

lemmas stamping_intros = stamping_row_op_on_row stamping_row_op_bindE stamping_row_op_Transition
  stamping_row_op_if

interpretation touch_seen: stamping_row_op "TouchSeen utc aid sz mtime fp now" aid
  for utc aid sz mtime fp now
  unfolding TouchSeen_def throw_def
  by (intro stamping_intros) simp

interpretation mark_absent: stamping_row_op "MarkAbsent utc aid now lastError" aid
  for utc aid now lastError
  unfolding MarkAbsent_def throw_def Let_def
  by (intro stamping_intros) (simp_all add: patch_stamps_def)

interpretation reappear: stamping_row_op "Reappear utc aid sz mtime fp now" aid
  for utc aid sz mtime fp now
  unfolding Reappear_def Let_def
  by (intro stamping_intros) (simp add: patch_stamps_def)

interpretation reset_attempts: stamping_row_op "ResetMountAttempts utc aid requeue now" aid
  for utc aid requeue now
  unfolding ResetMountAttempts_def throw_def
  by (intro stamping_intros) simp_all

lemma wf_delete_hooks: "store_wf s \<Longrightarrow> store_wf (delete_hooks_of aid s)"
  by (auto simp: store_wf_def delete_hooks_of_def kdistinct_def distinct_map_filter)

lemma delete_hooks_of_archives [simp]: "s_archives (delete_hooks_of aid s) = s_archives s"
  "GetArchive (delete_hooks_of aid s) k = GetArchive s k"
  by (simp_all add: delete_hooks_of_def GetArchive_def)

lemma stamping_row_op_delete_hooks: "stamping_row_op (Transaction (\<lambda>s. ret () (delete_hooks_of aid s))) aid"
  by unfold_locales (simp_all add: Transaction_def wf_delete_hooks GetArchive_def store_stamped_def)


lemma stamping_row_op_ret_unit: "stamping_row_op (ret x) aid"
  by unfold_locales simp_all

lemma stamping_row_op_If: "(b \<Longrightarrow> stamping_row_op f aid) \<Longrightarrow> (\<not> b \<Longrightarrow> stamping_row_op g aid) \<Longrightarrow>
   stamping_row_op (if b then f else g) aid"
  by simp

lemma stamping_row_op_read:
  "stamping_row_op (\<lambda>s. case GetArchive s aid of Some rec2 \<Rightarrow> ret (Some rec2) s | None \<Rightarrow> ret updated s) aid"
  by unfold_locales (simp_all split: option.split)

interpretation content_change: stamping_row_op "RecordContentChange utc aid sz mtime fp resetHooks now" aid
  for utc aid sz mtime fp resetHooks now
  unfolding RecordContentChange_def throw_def Let_def
  by (intro stamping_intros stamping_row_op_If stamping_row_op_delete_hooks stamping_row_op_read
      stamping_row_op_ret_unit) simp_all

interpretation transition: row_op "Transition utc aid to ex p now" aid
  for utc aid to ex p now
  by (rule row_op_Transition)

lemma row_op_lift:
  "stamping_row_op f aid \<Longrightarrow> row_op f aid"
  by (simp add: stamping_row_op_def)

subsection \<open>Insert, purge and hook rows keep the tables well formed\<close>

lemma discovered_row_sel [simp]:
  "a_archive_id (discovered_row aid ts p) = aid" "a_archive_path (discovered_row aid ts p) = i_archive_path p"
  "a_status (discovered_row aid ts p) = StatusDiscovered" "a_mount_attempts (discovered_row aid ts p) = 0"
  "a_removed_at (discovered_row aid ts p) = None" "a_mount_pid (discovered_row aid ts p) = None"
  "a_created_at (discovered_row aid ts p) = ts" "a_hooks_status (discovered_row aid ts p) = HooksNone"
  by (simp_all add: discovered_row_def)

lemma InsertDiscovered_run:
  "InsertDiscovered utc uuid p s =
    (let aid = (if i_archive_id p = '''' then uuid else i_archive_id p);
         row = discovered_row aid (ts_of utc (i_now p)) p in
     if GetArchive s aid \<noteq> None \<or> GetArchiveByPath s (i_archive_path p) \<noteq> None
     then (Inl (CannotInsert (i_archive_path p)), s)
     else (Inr (Some row), s\<lparr>s_archives := s_archives s @ [row]\<rparr>))"
  unfolding InsertDiscovered_def Let_def bindE_def Transaction_def GetArchive_def GetArchiveByPath_def
    not_not
  by (auto simp: kfind_None_iff kfind_append_notin)

lemma wf_InsertDiscovered: "store_wf s \<Longrightarrow> store_wf (snd (InsertDiscovered utc uuid p s))"
  by (simp add: InsertDiscovered_run Let_def)
    (auto simp: store_wf_def kdistinct_def GetArchive_def GetArchiveByPath_def kfind_None_iff)

lemma stamped_InsertDiscovered: "store_stamped s \<Longrightarrow> store_stamped (snd (InsertDiscovered utc uuid p s))"
  by (auto simp: InsertDiscovered_run Let_def store_stamped_def removal_stamped_def)

lemma PurgeArchive_run:
  "PurgeArchive aid s =
    (if GetArchive s aid = None then (Inl (ArchiveNotFound aid), s)
     else (Inr (), delete_hooks_of aid (s\<lparr>s_archives := kremove a_archive_id aid (s_archives s)\<rparr>)))"
  by (simp add: PurgeArchive_def Transaction_def)

lemma wf_PurgeArchive: "store_wf s \<Longrightarrow> store_wf (snd (PurgeArchive aid s))"
  by (auto simp: PurgeArchive_run store_wf_def kdistinct_def kremove_def delete_hooks_of_def distinct_map_filter)

lemma stamped_PurgeArchive: "store_stamped s \<Longrightarrow> store_stamped (snd (PurgeArchive aid s))"
  by (auto simp: PurgeArchive_run store_stamped_def kremove_def delete_hooks_of_def)

lemma reset_row_sel [simp]: "a_archive_id (reset_row ts r) = a_archive_id r"
  "a_archive_path (reset_row ts r) = a_archive_path r" "a_status (reset_row ts r) = a_status r"
  "a_removed_at (reset_row ts r) = a_removed_at r" "a_mount_pid (reset_row ts r) = a_mount_pid r"
  by (simp_all add: reset_row_def)

lemma wf_ResetAll: "store_wf s \<Longrightarrow> store_wf (snd (ResetAllPresentAttempts utc now s))"
proof -
  have [simp]: "a_archive_id \<circ> reset_row ts = a_archive_id" "a_archive_path \<circ> reset_row ts = a_archive_path" for ts
    by (simp_all add: fun_eq_iff)
  assume "store_wf s"
  then show "store_wf (snd (ResetAllPresentAttempts utc now s))"
    unfolding store_wf_def ResetAllPresentAttempts_def Transaction_def kdistinct_def
    by (simp add: image_image) (simp add: reset_row_def)
qed

lemma stamped_ResetAll: "store_stamped s \<Longrightarrow> store_stamped (snd (ResetAllPresentAttempts utc now s))"
  by (simp add: ResetAllPresentAttempts_def Transaction_def store_stamped_def removal_stamped_def)

lemma find_unique:
  assumes "y \<in> set xs" "P y" "\<And>x. x \<in> set xs \<Longrightarrow> P x \<Longrightarrow> x = y"
  shows "find P xs = Some y"
proof (cases "find P xs")
  case None
  with assms(1,2) show ?thesis by (simp add: find_None_iff)
next
  case (Some z)
  then have "z \<in> set xs" "P z" by (auto simp: find_Some_iff)
  then have "z = y" by (rule assms(3))
  with Some show ?thesis by simp
qed

lemma find_ListHooks:
  assumes "kdistinct hook_key (s_hooks s)"
  shows "find (\<lambda>h. h_hook_name h = name) (ListHooks s aid) = kfind hook_key (aid, name) (s_hooks s)"
proof (cases "kfind hook_key (aid, name) (s_hooks s)")
  case None
  then have "\<forall>h \<in> set (ListHooks s aid). h_hook_name h \<noteq> name"
    by (auto simp: ListHooks_def kfind_None_iff hook_key_def image_iff)
  then show ?thesis using None by (simp add: find_None_iff)
next
  case (Some h)
  then have h: "h \<in> set (s_hooks s)" "hook_key h = (aid, name)"
    by (auto dest: kfind_mem kfind_key)
  have "find (\<lambda>h. h_hook_name h = name) (ListHooks s aid) = Some h"
  proof (rule find_unique)
    show "h \<in> set (ListHooks s aid)" "h_hook_name h = name"
      using h by (auto simp: ListHooks_def hook_key_def)
    fix x assume "x \<in> set (ListHooks s aid)" "h_hook_name x = name"
    then have "x \<in> set (s_hooks s)" "hook_key x = hook_key h"
      using h by (auto simp: ListHooks_def hook_key_def)
    moreover from assms have "inj_on hook_key (set (s_hooks s))" by (simp add: kdistinct_def distinct_map)
    ultimately show "x = h" using h(1) by (blast dest: inj_onD)
  qed
  with Some show ?thesis by simp
qed

text \<open>The row an upsert writes.\<close>

definition upserted :: "string \<Rightarrow> string \<Rightarrow> hook_row_status \<Rightarrow> upsert_params \<Rightarrow> hook_row option \<Rightarrow> hook_row" where
  "upserted aid name st p old =
    \<lparr>h_archive_id = aid, h_hook_name = name, h_status = st,
     h_attempts = (case u_attempts p of Some n \<Rightarrow> n | None \<Rightarrow> (case old of None \<Rightarrow> 0 | Some h \<Rightarrow> h_attempts h)),
     h_last_exit_code = keep_existing (u_last_exit_code p) (Option.bind old h_last_exit_code),
     h_last_run_at = keep_existing (u_last_run_at p) (Option.bind old h_last_run_at),
     h_last_error = keep_existing (u_last_error p) (Option.bind old h_last_error)\<rparr>"

lemma upserted_key [simp]: "hook_key (upserted aid name st p old) = (aid, name)"
  "h_archive_id (upserted aid name st p old) = aid" "h_status (upserted aid name st p old) = st"
  "h_hook_name (upserted aid name st p old) = name"
  by (simp_all add: upserted_def hook_key_def)

lemma keep_existing_None [simp]: "keep_existing x None = x"
  by (cases x) simp_all

definition upsert_hooks :: "string \<Rightarrow> string \<Rightarrow> hook_row \<Rightarrow> store \<Rightarrow> store" where
  "upsert_hooks aid name row s =
    (case kfind hook_key (aid, name) (s_hooks s) of
       None \<Rightarrow> s\<lparr>s_hooks := s_hooks s @ [row]\<rparr>
     | Some _ \<Rightarrow> s\<lparr>s_hooks := kreplace hook_key (aid, name) row (s_hooks s)\<rparr>)"

lemma upsert_hook_txn_run:
  "upsert_hook_txn aid name st p s =
    (let old = kfind hook_key (aid, name) (s_hooks s); row = upserted aid name st p old in
     if h_attempts row < 0
     then (Inl (if old = None then InsertHookError name else UpdateHookError name), s)
     else (Inr (), upsert_hooks aid name row s))"
proof (cases "kfind hook_key (aid, name) (s_hooks s)")
  case None
  then show ?thesis
    by (simp add: upsert_hook_txn_def upserted_def upsert_hooks_def Let_def split: option.split)
next
  case (Some h)
  then have "h_archive_id h = aid" "h_hook_name h = name"
    using kfind_key [OF Some] by (auto simp: hook_key_def)
  then have "upserted aid name st p (Some h) = h\<lparr>h_status := st,
      h_attempts := (case u_attempts p of None \<Rightarrow> h_attempts h | Some n \<Rightarrow> n),
      h_last_exit_code := keep_existing (u_last_exit_code p) (h_last_exit_code h),
      h_last_run_at := keep_existing (u_last_run_at p) (h_last_run_at h),
      h_last_error := keep_existing (u_last_error p) (h_last_error h)\<rparr>"
    by (simp add: upserted_def split: option.split)
  with Some show ?thesis
    by (simp add: upsert_hook_txn_def upsert_hooks_def Let_def)
qed

lemma kfind_upsert_hooks:
  "hook_key row = (aid, name) \<Longrightarrow>
   kfind hook_key k (s_hooks (upsert_hooks aid name row s)) =
     (if k = (aid, name) then Some row else kfind hook_key k (s_hooks s))"
  by (auto simp: upsert_hooks_def kfind_kreplace kfind_append split: option.split)

lemma upsert_hooks_archives [simp]: "s_archives (upsert_hooks aid name row s) = s_archives s"
  by (simp add: upsert_hooks_def split: option.split)

lemma wf_upsert_hooks:
  assumes "store_wf s" "hook_key row = (aid, name)" "0 \<le> h_attempts row" "GetArchive s aid \<noteq> None"
  shows "store_wf (upsert_hooks aid name row s)"
proof -
  have "aid \<in> a_archive_id ` set (s_archives s)" "h_archive_id row = aid"
    using assms by (auto simp: GetArchive_def kfind_None_iff hook_key_def)
  then show ?thesis
    using assms
    by (auto simp: store_wf_def upsert_hooks_def kdistinct_def [of hook_key "_ @ _"] kfind_None_iff
        dest!: set_kreplace_subset [THEN subsetD] split: option.split)
      (auto simp: kdistinct_def)
qed

lemma UpsertHook_run:
  assumes "store_wf s" "parse_hook_row_status (if u_status p = '''' then ''pending'' else u_status p) = Some st"
    "GetArchive s aid \<noteq> None" "0 \<le> h_attempts (upserted aid name st p (kfind hook_key (aid, name) (s_hooks s)))"
  shows "UpsertHook aid name p s =
    (let row = upserted aid name st p (kfind hook_key (aid, name) (s_hooks s)) in
     (Inr row, upsert_hooks aid name row s))"
proof -
  let ?row = "upserted aid name st p (kfind hook_key (aid, name) (s_hooks s))"
  have "store_wf (upsert_hooks aid name ?row s)"
    using assms by (intro wf_upsert_hooks) simp_all
  then have "find (\<lambda>h. h_hook_name h = name) (ListHooks (upsert_hooks aid name ?row s) aid) = Some ?row"
    by (subst find_ListHooks) (simp_all add: store_wf_def kfind_upsert_hooks)
  with assms show ?thesis
    by (simp add: UpsertHook_def bindE_def Transaction_def upsert_hook_txn_run Let_def)
qed

lemma UpsertHook_state: "snd (UpsertHook aid name p s) = s \<or>
   (\<exists>st. GetArchive s aid \<noteq> None
     \<and> 0 \<le> h_attempts (upserted aid name st p (kfind hook_key (aid, name) (s_hooks s)))
     \<and> snd (UpsertHook aid name p s) =
       upsert_hooks aid name (upserted aid name st p (kfind hook_key (aid, name) (s_hooks s))) s)"
proof (cases "parse_hook_row_status (if u_status p = '''' then ''pending'' else u_status p)")
  case None
  then show ?thesis by (simp add: UpsertHook_def Let_def)
next
  case (Some st)
  let ?row = "upserted aid name st p (kfind hook_key (aid, name) (s_hooks s))"
  show ?thesis
  proof (cases "GetArchive s aid = None \<or> h_attempts ?row < 0")
    case True
    with Some show ?thesis
      by (auto simp: UpsertHook_def bindE_def Transaction_def upsert_hook_txn_run Let_def)
  next
    case False
    then obtain rec where "GetArchive s aid = Some rec" by auto
    with False Some have "snd (UpsertHook aid name p s) = upsert_hooks aid name ?row s"
      by (simp add: UpsertHook_def bindE_def Transaction_def upsert_hook_txn_run Let_def split: option.split)
    with False show ?thesis by (intro disjI2 exI [of _ st]) (simp add: not_less)
  qed
qed

lemma wf_UpsertHook: "store_wf s \<Longrightarrow> store_wf (snd (UpsertHook aid name p s))"
  using UpsertHook_state [of aid name p s] by (elim disjE exE conjE) (simp_all add: wf_upsert_hooks)

lemma UpsertHook_archives: "s_archives (snd (UpsertHook aid name p s)) = s_archives s"
  using UpsertHook_state [of aid name p s] by (elim disjE exE conjE) simp_all

lemma wf_seed_loop: "store_wf s \<Longrightarrow> store_wf (snd (seed_loop aid st names s))"
proof (induction names arbitrary: s)
  case (Cons name names)
  obtain r s' where u: "UpsertHook aid name (status_only st) s = (r, s')" by (cases "UpsertHook aid name (status_only st) s")
  with Cons.prems wf_UpsertHook [of s aid name "status_only st"] have "store_wf s'" by simp
  with Cons u show ?case by (cases r) (auto simp: bindE_def split: option.split)
qed simp

lemma seed_loop_archives: "s_archives (snd (seed_loop aid st names s)) = s_archives s"
proof (induction names arbitrary: s)
  case (Cons name names)
  obtain r s' where u: "UpsertHook aid name (status_only st) s = (r, s')" by (cases "UpsertHook aid name (status_only st) s")
  with UpsertHook_archives [of aid name "status_only st" s] have "s_archives s' = s_archives s" by simp
  with Cons u show ?case by (cases r) (auto simp: bindE_def split: option.split)
qed simp

lemma snd_SeedHooks: "snd (SeedHooks aid names st s) = snd (seed_loop aid (if st = '''' then ''pending'' else st) names s)"
  by (simp add: SeedHooks_def snd_bindE split: prod.split sum.split)

lemma snd_DeleteHooks: "snd (DeleteHooks aid s) = delete_hooks_of aid s"
  by (simp add: DeleteHooks_def Transaction_def)

lemma snd_SetMeta: "snd (SetMeta k v s) = s\<lparr>s_meta := kput fst (k, v) (s_meta s)\<rparr>"
  by (simp add: SetMeta_def Transaction_def)

end
