(* ===== verification/StoreProps.thy ===== *)
theory StoreProps
  imports StoreFacts
begin

text \<open>
  The store under arbitrary sequences of its operations, and the properties of the store that
  the rest of the development, and a reader, rely on.
\<close>

subsection \<open>Reachable stores\<close>

text \<open>
  One call of the writer API.  Callers of Transition outside the store never patch removed_at
  (a search of the repository shows MarkAbsent and Reappear as the only writers of it), which
  is the side condition of the first rule.
\<close>

inductive store_step :: "store \<Rightarrow> store \<Rightarrow> bool" where
  step_transition: "p_removed_at p = None \<Longrightarrow> store_step s (snd (Transition utc aid to ex p now s))"
| step_insert: "store_step s (snd (InsertDiscovered utc uuid ip s))"
| step_touch: "store_step s (snd (TouchSeen utc aid sz mtime fp now s))"
| step_absent: "store_step s (snd (MarkAbsent utc aid now lastError s))"
| step_reappear: "store_step s (snd (Reappear utc aid rsz rmtime rfp now s))"
| step_reset: "store_step s (snd (ResetMountAttempts utc aid requeue now s))"
| step_reset_all: "store_step s (snd (ResetAllPresentAttempts utc now s))"
| step_content: "store_step s (snd (RecordContentChange utc aid rsz rmtime rfp resetHooks now s))"
| step_purge: "store_step s (snd (PurgeArchive aid s))"
| step_upsert_hook: "store_step s (snd (UpsertHook aid name up s))"
| step_seed_hooks: "store_step s (snd (SeedHooks aid names st s))"
| step_delete_hooks: "store_step s (snd (DeleteHooks aid s))"
| step_set_meta: "store_step s (snd (SetMeta k v s))"

inductive reachable :: "store \<Rightarrow> bool" where
  reach_empty: "reachable \<lparr>s_archives = [], s_hooks = [], s_meta = []\<rparr>"
| reach_step: "reachable s \<Longrightarrow> store_step s s' \<Longrightarrow> reachable s'"

inductive_cases store_stepE: "store_step s s'"

lemma store_step_wf: "store_step s s' \<Longrightarrow> store_wf s \<Longrightarrow> store_wf s'"
proof (induction rule: store_step.induct)
  case (step_set_meta s k v)
  then show ?case by (simp add: snd_SetMeta store_wf_def)
qed (simp_all only: transition.wf wf_InsertDiscovered touch_seen.wf mark_absent.wf reappear.wf
    reset_attempts.wf wf_ResetAll content_change.wf wf_PurgeArchive wf_UpsertHook snd_SeedHooks
    wf_seed_loop snd_DeleteHooks wf_delete_hooks)

lemma store_step_stamped: "store_step s s' \<Longrightarrow> store_stamped s \<Longrightarrow> store_stamped s'"
proof (induction rule: store_step.induct)
  case (step_transition p s utc aid to ex now)
  then show ?case by (intro stamping_row_op.stamped [OF stamping_row_op_Transition]) simp_all
next
  case (step_upsert_hook s aid name up)
  then show ?case by (simp add: store_stamped_def UpsertHook_archives)
next
  case (step_seed_hooks s aid names st)
  then show ?case by (simp add: store_stamped_def snd_SeedHooks seed_loop_archives)
next
  case (step_delete_hooks s aid)
  then show ?case by (simp add: store_stamped_def snd_DeleteHooks)
next
  case (step_set_meta s k v)
  then show ?case by (simp add: store_stamped_def snd_SetMeta)
qed (simp_all only: stamped_InsertDiscovered touch_seen.stamped mark_absent.stamped reappear.stamped
    reset_attempts.stamped stamped_ResetAll content_change.stamped stamped_PurgeArchive)

lemma reachable_wf_stamped: "reachable s \<Longrightarrow> store_wf s \<and> store_stamped s"
proof (induction rule: reachable.induct)
  case reach_empty
  then show ?case by (simp add: store_wf_def store_stamped_def kdistinct_def)
next
  case (reach_step s s')
  then show ?case using store_step_wf store_step_stamped by blast
qed

subsection \<open>Fitting rows\<close>

text \<open>A patch that no well-formed table refuses: known fields, no new path, no negative counter.\<close>

definition safe_patch :: "patch \<Rightarrow> bool" where
  "safe_patch p \<longleftrightarrow> check_fields p = None \<and> p_archive_path p = None
     \<and> (case p_mount_attempts p of None \<Rightarrow> True | Some n \<Rightarrow> 0 \<le> n)"

lemma row_fits_safe:
  assumes "store_wf s" "GetArchive s aid = Some rec" "safe_patch p"
  shows "row_fits s (transition_row rec to ts p)"
proof -
  have rec: "rec \<in> set (s_archives s)" "0 \<le> a_mount_attempts rec"
    using assms by (auto simp: store_wf_def dest: GetArchive_mem)
  have "inj_on a_archive_path (set (s_archives s))"
    using assms by (simp add: store_wf_def kdistinct_def distinct_map)
  with rec assms(3) show ?thesis
    by (auto simp: row_fits_def safe_patch_def split: option.splits dest: inj_onD)
qed

lemma wf_GetArchive: "store_wf s \<Longrightarrow> r \<in> set (s_archives s) \<Longrightarrow> GetArchive s (a_archive_id r) = Some r"
  by (simp add: store_wf_def GetArchive_def kfind_in_distinct)

lemma Transition_safe:
  assumes "store_wf s" "GetArchive s aid = Some rec" "safe_patch p"
    "check_expected aid ex (a_status rec) = None" "validate_transition (a_status rec) to = None"
  shows "Transition utc aid to ex p now s =
     (Inr (Some (transition_row rec to (ts_of utc now) p)),
      put_row (transition_row rec to (ts_of utc now) p) s)"
  using assms row_fits_safe [OF assms(1-3)]
  by (intro Transition_enabled) (simp_all add: enabled_def safe_patch_def GetArchive_id)

lemma Transition_stays:
  assumes "Transition utc aid to ex p now s = (Inl e, s')"
  shows "s' = s"
  by (rule Transition_cases [of s aid to ex p utc now]) (use assms in simp_all)

lemma ts_of_idem [simp]: "ts_of utc (ts_of utc now) = ts_of utc now"
  by (simp add: ts_of_def)

lemma check_expected_self [simp]: "check_expected aid (Expect [st]) st = None" "check_expected aid NoExpected st = None"
  by (simp_all add: check_expected_def)

lemma safe_no_fields [simp]: "safe_patch no_fields"
  by (simp add: safe_patch_def check_fields_def)

lemma put_row_put_row [simp]:
  "a_archive_id r1 = a_archive_id r2 \<Longrightarrow> put_row r1 (put_row r2 s) = put_row r1 s"
  by (simp add: put_row_def kreplace_def)

lemma GetArchive_put_same: "GetArchive s aid = Some r0 \<Longrightarrow> a_archive_id row = aid \<Longrightarrow>
   GetArchive (put_row row s) aid = Some row"
  by (simp add: GetArchive_put_row)

text \<open>Two transitions in a row, the first to unmounting with the PID cleared.\<close>

definition unmounting_row :: "archive \<Rightarrow> string \<Rightarrow> archive" where
  "unmounting_row rec ts = transition_row rec StatusUnmounting ts (no_fields\<lparr>p_mount_pid := Some None\<rparr>)"

lemma unmounting_row_sel [simp]:
  "a_status (unmounting_row rec ts) = StatusUnmounting" "a_archive_id (unmounting_row rec ts) = a_archive_id rec"
  "a_mount_pid (unmounting_row rec ts) = None" "a_last_error (unmounting_row rec ts) = a_last_error rec"
  "a_archive_path (unmounting_row rec ts) = a_archive_path rec"
  "a_hooks_status (unmounting_row rec ts) = a_hooks_status rec"
  by (simp_all add: unmounting_row_def)

lemma via_unmounting:
  assumes wf: "store_wf s" and rec: "GetArchive s aid = Some rec" and "a_status rec \<noteq> StatusAbsent"
    and p: "safe_patch p" and to: "validate_transition StatusUnmounting to = None" and ts: "ts_of utc ts = ts"
  shows "bindE (Transition utc aid StatusUnmounting (Expect [a_status rec]) (no_fields\<lparr>p_mount_pid := Some None\<rparr>) ts)
     (\<lambda>_. Transition utc aid to (Expect [StatusUnmounting]) p ts) s =
    (Inr (Some (transition_row (unmounting_row rec ts) to ts p)),
     put_row (transition_row (unmounting_row rec ts) to ts p) s)"
proof -
  let ?u = "unmounting_row rec ts" and ?s = "put_row (unmounting_row rec ts) s"
  have [simp]: "ts_of utc ts = ts" "a_archive_id rec = aid" using ts rec by (simp_all add: GetArchive_id)
  have "safe_patch (no_fields\<lparr>p_mount_pid := Some None\<rparr>)" by (simp add: safe_patch_def check_fields_def)
  note first = Transition_safe [OF wf rec this, of "Expect [a_status rec]" StatusUnmounting utc ts]
  have one: "Transition utc aid StatusUnmounting (Expect [a_status rec]) (no_fields\<lparr>p_mount_pid := Some None\<rparr>) ts s
      = (Inr (Some ?u), ?s)"
    using first to_unmounting assms(3) by (simp add: unmounting_row_def)
  have "store_wf ?s" using transition.wf [OF wf] one by (metis snd_conv)
  moreover have "GetArchive ?s aid = Some ?u" using rec by (simp add: GetArchive_put_row)
  ultimately have "Transition utc aid to (Expect [StatusUnmounting]) p ts ?s =
      (Inr (Some (transition_row ?u to ts p)), put_row (transition_row ?u to ts p) ?s)"
    using Transition_safe [of ?s aid ?u p "Expect [StatusUnmounting]" to utc ts] p to by simp
  then show ?thesis using one by (simp add: bindE_Inr)
qed

subsection \<open>Rows by path\<close>

lemma kfind_map_key: "(\<forall>x \<in> set xs. key (f x) = key x) \<Longrightarrow> kfind key k (map f xs) = map_option f (kfind key k xs)"
  by (induction xs) auto

lemma GetArchiveByPath_mem: "GetArchiveByPath s p = Some r \<Longrightarrow> r \<in> set (s_archives s) \<and> a_archive_path r = p"
  unfolding GetArchiveByPath_def by (rule kfind_SomeD)

lemma byPath_wf: "store_wf s \<Longrightarrow> r \<in> set (s_archives s) \<Longrightarrow> GetArchiveByPath s (a_archive_path r) = Some r"
  by (simp add: store_wf_def GetArchiveByPath_def kfind_in_distinct)

lemma byPath_id: "store_wf s \<Longrightarrow> GetArchiveByPath s p = Some r \<Longrightarrow> GetArchive s (a_archive_id r) = Some r"
  by (simp add: wf_GetArchive GetArchiveByPath_mem)

lemma byPath_put_row:
  assumes wf: "store_wf s" and rec: "GetArchive s (a_archive_id row) = Some rec"
    and same: "a_archive_path row = a_archive_path rec"
  shows "GetArchiveByPath (put_row row s) q = (if q = a_archive_path rec then Some row else GetArchiveByPath s q)"
proof -
  let ?f = "\<lambda>x. if a_archive_id x = a_archive_id row then row else x"
  have only: "x = rec" if "x \<in> set (s_archives s)" "a_archive_id x = a_archive_id row" for x
    using wf_GetArchive [OF wf that(1)] that(2) rec by simp
  then have "\<forall>x \<in> set (s_archives s). a_archive_path (?f x) = a_archive_path x" using same by auto
  then have eq: "GetArchiveByPath (put_row row s) q = map_option ?f (GetArchiveByPath s q)"
    by (simp add: GetArchiveByPath_def put_row_def kreplace_def kfind_map_key)
  show ?thesis
  proof (cases "q = a_archive_path rec")
    case True
    with byPath_wf [OF wf GetArchive_mem [OF rec]] GetArchive_id [OF rec] show ?thesis unfolding eq by simp
  next
    case False
    have "map_option ?f (GetArchiveByPath s q) = GetArchiveByPath s q"
      using only GetArchiveByPath_mem [of s q] False by (cases "GetArchiveByPath s q") auto
    with False show ?thesis unfolding eq by simp
  qed
qed

lemma byPath_delete_hooks [simp]: "GetArchiveByPath (delete_hooks_of aid s) q = GetArchiveByPath s q"
  by (simp add: GetArchiveByPath_def)

lemma TouchSeen_run:
  assumes "store_wf s" "GetArchive s aid = Some rec"
  shows "\<exists>row. TouchSeen utc aid sz mt fp now s = (Inr (Some row), put_row row s)
     \<and> a_archive_id row = aid \<and> a_archive_path row = a_archive_path rec \<and> a_status row = a_status rec
     \<and> a_last_seen_at row = ts_of utc now \<and> a_fingerprint row = patched fp (a_fingerprint rec)
     \<and> a_size_bytes row = patched sz (a_size_bytes rec) \<and> a_mtime_ns row = patched mt (a_mtime_ns rec)"
proof -
  let ?p = "no_fields\<lparr>p_last_seen_at := Some (ts_of utc now), p_size_bytes := sz, p_mtime_ns := mt, p_fingerprint := fp\<rparr>"
  have "safe_patch ?p" by (simp add: safe_patch_def check_fields_def)
  from Transition_safe [OF assms this, of "Expect [a_status rec]" "a_status rec" utc now] show ?thesis
    by (simp add: TouchSeen_def assms(2) validate_transition_def GetArchive_id [OF assms(2)])
qed

lemma Reappear_run:
  assumes "store_wf s" "GetArchive s aid = Some rec" "a_status rec = StatusAbsent"
  shows "\<exists>row. Reappear utc aid sz mt fp now s = (Inr (Some row), put_row row s)
     \<and> a_archive_id row = aid \<and> a_archive_path row = a_archive_path rec \<and> a_status row = StatusDiscovered
     \<and> a_last_seen_at row = ts_of utc now \<and> a_fingerprint row = fp \<and> a_size_bytes row = sz \<and> a_mtime_ns row = mt"
proof -
  let ?p = "no_fields\<lparr>p_size_bytes := Some sz, p_mtime_ns := Some mt, p_fingerprint := Some fp,
      p_last_seen_at := Some (ts_of utc now), p_removed_at := Some None, p_mount_attempts := Some 0,
      p_mount_retryable := Some True, p_last_error := Some None\<rparr>"
  have "safe_patch ?p" by (simp add: safe_patch_def check_fields_def)
  from Transition_safe [OF assms(1,2) this, of "Expect [StatusAbsent]" StatusDiscovered utc "ts_of utc now"] show ?thesis
    by (simp add: Reappear_def Let_def assms(3) validate_transition_def GetArchive_id [OF assms(2)])
qed

subsection \<open>Properties\<close>

definition empty_store :: store where
  "empty_store = \<lparr>s_archives = [], s_hooks = [], s_meta = []\<rparr>"

definition sample_insert :: "string \<Rightarrow> string \<Rightarrow> insert_params" where
  "sample_insert aid p = \<lparr>i_source_dir = ''/in'', i_archive_path = p, i_archive_basename = ''a.tar'',
     i_size_bytes = 10, i_mtime_ns = 5, i_fingerprint = ''10:5'', i_archive_id = aid,
     i_index_path = None, i_overlay_path = None, i_mount_path = None, i_now = ''t0''\<rparr>"

definition sample_row :: archive where
  "sample_row = discovered_row ''x'' ''t0'' (sample_insert ''x'' ''/in/a.tar'')"

definition sample_store :: store where
  "sample_store = \<lparr>s_archives = [sample_row], s_hooks = [], s_meta = []\<rparr>"

lemma sample_wf: "store_wf sample_store" "store_stamped sample_store"
  by (simp_all add: sample_store_def store_wf_def store_stamped_def kdistinct_def sample_row_def
      removal_stamped_def)

lemma sample_get: "GetArchive sample_store ''x'' = Some sample_row"
  by (simp add: GetArchive_def sample_store_def sample_row_def)





lemma MarkAbsent_run:
  assumes "store_wf s" and "GetArchive s aid = Some rec"
  shows "\<exists>row. MarkAbsent utc aid now lastError s = (Inr (Some row), put_row row s)
     \<and> a_archive_id row = aid \<and> a_archive_path row = a_archive_path rec \<and> a_status row = StatusAbsent \<and> a_mount_pid row = None
     \<and> a_removed_at row = Some (ts_of utc now)
     \<and> a_last_error row = (case lastError of None \<Rightarrow> a_last_error rec | Some e \<Rightarrow> Some e)
     \<and> a_hooks_status row = a_hooks_status rec"
proof -
  let ?ts = "ts_of utc now"
  let ?p = "no_fields\<lparr>p_removed_at := Some (Some ?ts), p_mount_pid := Some None, p_last_error := map_option Some lastError\<rparr>"
  have p: "safe_patch ?p" by (simp add: safe_patch_def check_fields_def)
  have err: "patched (map_option Some lastError) old = (case lastError of None \<Rightarrow> old | Some e \<Rightarrow> Some e)" for old
    by (cases lastError) simp_all
  have id: "a_archive_id rec = aid" using assms(2) by (rule GetArchive_id)
  consider "a_status rec = StatusAbsent" | "a_status rec = StatusUnmounting"
    | "a_status rec \<noteq> StatusAbsent" "a_status rec \<noteq> StatusUnmounting" by blast
  then show ?thesis
  proof cases
    case 1
    then show ?thesis
      using Transition_safe [OF assms p, of "Expect [StatusAbsent]" StatusAbsent utc ?ts] id err
      by (simp add: MarkAbsent_def Let_def assms(2) validate_transition_def transition_row_removed_at)
  next
    case 2
    then show ?thesis
      using Transition_safe [OF assms p, of "Expect [StatusUnmounting]" StatusAbsent utc ?ts] id err
      by (simp add: MarkAbsent_def Let_def assms(2) validate_transition_def transition_row_removed_at)
  next
    case 3
    then show ?thesis
      using via_unmounting [OF assms 3(1) p, of StatusAbsent utc ?ts] id err
      by (simp add: MarkAbsent_def Let_def assms(2) validate_transition_def transition_row_removed_at)
  qed
qed

text \<open>MarkAbsent succeeds from every one of the ten statuses: the row ends absent, without a
  mount PID, stamped with the time of the call, and nothing else changes.\<close>

theorem MarkAbsent_total:
  assumes "store_wf s" and "GetArchive s aid = Some rec"
  shows "\<exists>row. MarkAbsent utc aid now lastError s = (Inr (Some row), put_row row s)
     \<and> a_archive_id row = aid \<and> a_status row = StatusAbsent \<and> a_mount_pid row = None
     \<and> a_removed_at row = Some (ts_of utc now)
     \<and> a_last_error row = (case lastError of None \<Rightarrow> a_last_error rec | Some e \<Rightarrow> Some e)
     \<and> a_hooks_status row = a_hooks_status rec"
  using MarkAbsent_run [OF assms, of utc now lastError] by blast

theorem MarkAbsent_total_witness:
  "\<exists>row. MarkAbsent ''t1'' ''x'' '''' (Some ''gone'') sample_store = (Inr (Some row), put_row row sample_store)
     \<and> a_status row = StatusAbsent \<and> a_last_error row = Some ''gone''"
  using MarkAbsent_total [OF sample_wf(1) sample_get, of "''t1''" "''''" "Some ''gone''"] by auto

lemma content_fields_safe: "safe_patch (content_fields rec sz mtime fp rh ts)"
  by (simp add: safe_patch_def check_fields_def)

lemma direct_discovered:
  assumes "store_wf s" "GetArchive s aid = Some rec" "safe_patch p" "ts_of utc ts = ts"
    "validate_transition (a_status rec) StatusDiscovered = None"
  shows "Transition utc aid StatusDiscovered (Expect [a_status rec]) p ts s =
    (Inr (Some (transition_row rec StatusDiscovered ts p)), put_row (transition_row rec StatusDiscovered ts p) s)"
  using Transition_safe [OF assms(1-3), of "Expect [a_status rec]" StatusDiscovered utc ts] assms by simp

text \<open>The row from which a content change re-enters discovered: itself, or its unmounting row.\<close>

definition content_from :: "archive \<Rightarrow> string \<Rightarrow> archive" where
  "content_from rec ts =
    (if a_status rec \<in> {StatusMounting, StatusMounted, StatusHooksRunning, StatusConverting}
     then unmounting_row rec ts else rec)"

lemma content_from_sel [simp]: "a_archive_id (content_from rec ts) = a_archive_id rec"
  "a_hooks_status (content_from rec ts) = a_hooks_status rec"
  by (simp_all add: content_from_def)

lemma RecordContentChange_run:
  assumes wf: "store_wf s" and rec: "GetArchive s aid = Some rec"
  shows "RecordContentChange utc aid sz mtime fp rh now s =
    (let ts = ts_of utc now;
         row = transition_row (content_from rec ts) StatusDiscovered ts (content_fields rec sz mtime fp rh ts) in
     (Inr (Some row), (if rh then delete_hooks_of aid (put_row row s) else put_row row s)))"
proof -
  let ?ts = "ts_of utc now"
  let ?p = "content_fields rec sz mtime fp rh ?ts"
  let ?row = "transition_row (content_from rec ?ts) StatusDiscovered ?ts ?p"
  have id: "a_archive_id ?row = aid" using rec by (simp add: GetArchive_id)
  note direct = direct_discovered [OF wf rec, of ?p utc ?ts]
  note indirect = via_unmounting [OF wf rec, of ?p StatusDiscovered utc ?ts]
  have tail: "GetArchive (if rh then delete_hooks_of aid (put_row ?row s) else put_row ?row s) aid = Some ?row"
    using rec id by (simp add: GetArchive_put_row)
  have move: "RecordContentChange utc aid sz mtime fp rh now s =
      bindE (\<lambda>_. (Inr (Some ?row), put_row ?row s))
        (\<lambda>updated. bindE (if rh then Transaction (\<lambda>s. ret () (delete_hooks_of aid s)) else ret ())
              (\<lambda>_ s. case GetArchive s aid of Some rec2 \<Rightarrow> ret (Some rec2) s | None \<Rightarrow> ret updated s)) s"
    by (cases "a_status rec")
      (use direct indirect in \<open>simp_all add: RecordContentChange_def rec Let_def bindE_def content_from_def
        validate_transition_def content_fields_safe\<close>)
  show ?thesis
    using tail unfolding move by (cases rh) (simp_all add: bindE_def Transaction_def Let_def)
qed

text \<open>RecordContentChange succeeds from every status and always re-enters discovered with the new
  size, time and fingerprint, no PID and a clean retry budget.  With resetHooks the hook rows of the
  archive (and only those) are deleted and its hooks status returns to none; without it they and the
  first mount time are kept.\<close>

theorem RecordContentChange_total:
  assumes "store_wf s" and "GetArchive s aid = Some rec"
  shows "\<exists>row s'. RecordContentChange utc aid sz mtime fp resetHooks now s = (Inr (Some row), s')
     \<and> GetArchive s' aid = Some row \<and> a_status row = StatusDiscovered \<and> a_mount_pid row = None
     \<and> a_mount_attempts row = 0 \<and> a_mount_retryable row \<and> a_last_error row = None
     \<and> (a_size_bytes row, a_mtime_ns row, a_fingerprint row) = (sz, mtime, fp)
     \<and> a_first_mounted_at row = (if resetHooks then None else a_first_mounted_at rec)
     \<and> a_hooks_status row = (if resetHooks then HooksNone else a_hooks_status rec)
     \<and> s_hooks s' = (if resetHooks then filter (\<lambda>h. h_archive_id h \<noteq> aid) (s_hooks s) else s_hooks s)
     \<and> (\<forall>k. k \<noteq> aid \<longrightarrow> GetArchive s' k = GetArchive s k)"
proof -
  let ?ts = "ts_of utc now"
  let ?row = "transition_row (content_from rec ?ts) StatusDiscovered ?ts (content_fields rec sz mtime fp resetHooks ?ts)"
  have "p_mount_retryable (content_fields rec sz mtime fp resetHooks ?ts) = Some True"
    "p_last_error (content_fields rec sz mtime fp resetHooks ?ts) = Some None"
    by (simp_all add: content_fields_def Let_def)
  then show ?thesis
    using RecordContentChange_run [OF assms, of utc sz mtime fp resetHooks now]
      content_change.frame [of _ aid utc sz mtime fp resetHooks now s] assms(2) GetArchive_id [OF assms(2)]
    by (auto simp: Let_def GetArchive_put_row transition_row_first_mounted_at)
      (simp_all add: delete_hooks_of_def)
qed

theorem RecordContentChange_total_witness:
  "\<exists>row s'. RecordContentChange ''t1'' ''x'' 11 6 ''11:6'' True '''' sample_store = (Inr (Some row), s')
     \<and> a_status row = StatusDiscovered \<and> a_fingerprint row = ''11:6''"
  using RecordContentChange_total [OF sample_wf(1) sample_get, of "''t1''" 11 6 "''11:6''" True "''''"] by auto

text \<open>Purge removes the row and, by cascade, exactly its hook rows; afterwards the same path may be
  inserted again under a fresh id, as a discovered row without history.\<close>

theorem purge_then_rediscover:
  assumes "store_wf s" and "GetArchive s aid = Some rec"
    and "i_archive_path ip = a_archive_path rec" and "i_archive_id ip \<noteq> ''''"
    and "GetArchive s (i_archive_id ip) = None \<or> i_archive_id ip = aid"
  shows "\<exists>s1 row s2. PurgeArchive aid s = (Inr (), s1)
     \<and> GetArchive s1 aid = None \<and> ListHooks s1 aid = []
     \<and> (\<forall>k. k \<noteq> aid \<longrightarrow> GetArchive s1 k = GetArchive s k \<and> ListHooks s1 k = ListHooks s k)
     \<and> InsertDiscovered utc uuid ip s1 = (Inr (Some row), s2)
     \<and> GetArchive s2 (i_archive_id ip) = Some row \<and> a_status row = StatusDiscovered
     \<and> a_archive_path row = a_archive_path rec \<and> a_mount_attempts row = 0 \<and> a_removed_at row = None
     \<and> ListHooks s2 aid = []"
proof -
  define s1 where "s1 = delete_hooks_of aid (s\<lparr>s_archives := kremove a_archive_id aid (s_archives s)\<rparr>)"
  have purge: "PurgeArchive aid s = (Inr (), s1)" using assms(2) by (simp add: PurgeArchive_run s1_def)
  have get: "GetArchive s1 k = (if k = aid then None else GetArchive s k)" for k
    by (simp add: s1_def GetArchive_def kfind_kremove)
  have hooks: "ListHooks s1 k = (if k = aid then [] else ListHooks s k)" for k
    by (auto simp: s1_def ListHooks_def delete_hooks_of_def filter_empty_conv intro!: arg_cong [of _ _ "sort_key h_hook_name"] filter_cong)
  have "a_archive_path rec \<notin> a_archive_path ` set (s_archives s1)"
  proof
    assume "a_archive_path rec \<in> a_archive_path ` set (s_archives s1)"
    then obtain r where r: "r \<in> set (s_archives s)" "a_archive_id r \<noteq> aid" "a_archive_path r = a_archive_path rec"
      by (auto simp: s1_def kremove_def)
    have "inj_on a_archive_path (set (s_archives s))" using assms(1) by (simp add: store_wf_def kdistinct_def distinct_map)
    with r assms(2) have "r = rec" by (meson GetArchive_mem inj_onD)
    with r assms(2) show False by (simp add: GetArchive_id)
  qed
  then have ins: "InsertDiscovered utc uuid ip s1 =
      (Inr (Some (discovered_row (i_archive_id ip) (ts_of utc (i_now ip)) ip)),
       s1\<lparr>s_archives := s_archives s1 @ [discovered_row (i_archive_id ip) (ts_of utc (i_now ip)) ip]\<rparr>)"
    using assms(3-5) get by (auto simp: InsertDiscovered_run GetArchiveByPath_def kfind_None_iff Let_def)
  have "GetArchive s1 (i_archive_id ip) = None" using assms(5) get by auto
  then show ?thesis
    using purge get hooks ins assms(3)
    by (simp add: GetArchive_def kfind_append ListHooks_def)
qed

theorem purge_then_rediscover_witness:
  "\<exists>s1 row s2. PurgeArchive ''x'' sample_store = (Inr (), s1)
     \<and> InsertDiscovered ''t9'' ''u'' (sample_insert ''y'' ''/in/a.tar'') s1 = (Inr (Some row), s2)
     \<and> a_archive_path row = ''/in/a.tar''"
  using purge_then_rediscover [OF sample_wf(1) sample_get, of "sample_insert ''y'' ''/in/a.tar''" "''t9''" "''u''"]
  by (auto simp: sample_insert_def sample_row_def GetArchive_def sample_store_def)

lemma kfind_seed_loop:
  assumes "store_wf s" "GetArchive s aid \<noteq> None" "parse_hook_row_status st = Some row_st" "st \<noteq> ''''"
  shows "\<exists>s'. seed_loop aid st names s = (Inr (), s') \<and> store_wf s' \<and> s_archives s' = s_archives s
     \<and> (\<forall>k. kfind hook_key k (s_hooks s') =
          (case kfind hook_key k (s_hooks s) of
             Some h \<Rightarrow> Some h
           | None \<Rightarrow> if fst k = aid \<and> snd k \<in> set names
                     then Some (upserted aid (snd k) row_st (status_only st) None) else None))"
  using assms(1,2)
proof (induction names arbitrary: s)
  case Nil
  then show ?case by (auto split: option.split)
next
  case (Cons name names)
  show ?case
  proof (cases "kfind hook_key (aid, name) (s_hooks s)")
    case (Some h)
    with Cons.IH [OF Cons.prems] show ?thesis
      by (auto split: option.split)
  next
    case None
    let ?row = "upserted aid name row_st (status_only st) None"
    let ?s = "upsert_hooks aid name ?row s"
    have att: "0 \<le> h_attempts ?row" by (simp add: upserted_def status_only_def)
    have run: "UpsertHook aid name (status_only st) s = (Inr ?row, ?s)"
      using UpsertHook_run [OF Cons.prems(1), of "status_only st" row_st aid name] assms(3,4) Cons.prems(2) None att
      by (simp add: status_only_def Let_def)
    have wf: "store_wf ?s" using Cons.prems att by (intro wf_upsert_hooks) simp_all
    moreover have "GetArchive ?s aid \<noteq> None" using Cons.prems by (simp add: GetArchive_def)
    ultimately obtain s' where s': "seed_loop aid st names ?s = (Inr (), s')" "store_wf s'"
      "s_archives s' = s_archives s"
      "\<And>k. kfind hook_key k (s_hooks s') =
          (case kfind hook_key k (s_hooks ?s) of
             Some h \<Rightarrow> Some h
           | None \<Rightarrow> if fst k = aid \<and> snd k \<in> set names
                     then Some (upserted aid (snd k) row_st (status_only st) None) else None)"
      using Cons.IH [of ?s] by auto
    have "kfind hook_key k (s_hooks s') =
          (case kfind hook_key k (s_hooks s) of
             Some h \<Rightarrow> Some h
           | None \<Rightarrow> if fst k = aid \<and> snd k \<in> set (name # names)
                     then Some (upserted aid (snd k) row_st (status_only st) None) else None)" for k
      using s'(4) [of k] None by (cases k) (auto simp: kfind_upsert_hooks split: option.splits if_splits)
    with s' run None show ?thesis by (simp add: bindE_Inr)
  qed
qed

text \<open>SeedHooks on an existing archive adds a row for every named hook that has none, with the
  requested status and no attempts, leaves every existing row as it was (a hook that already
  succeeded is not reset), touches no other archive, and returns the archive's rows.\<close>

theorem SeedHooks_keeps_existing:
  assumes "store_wf s" and "GetArchive s aid \<noteq> None"
    and "parse_hook_row_status (if st = '''' then ''pending'' else st) = Some row_st"
  shows "\<exists>s'. SeedHooks aid names st s = (Inr (ListHooks s' aid), s') \<and> s_archives s' = s_archives s
     \<and> (\<forall>a n. kfind hook_key (a, n) (s_hooks s') =
          (case kfind hook_key (a, n) (s_hooks s) of
             Some h \<Rightarrow> Some h
           | None \<Rightarrow> if a = aid \<and> n \<in> set names
                     then Some \<lparr>h_archive_id = aid, h_hook_name = n, h_status = row_st, h_attempts = 0,
                                h_last_exit_code = None, h_last_run_at = None, h_last_error = None\<rparr>
                     else None))"
proof -
  have "(if st = '''' then ''pending'' else st) \<noteq> ''''" by simp
  moreover have "upserted aid n row_st (status_only x) None =
      \<lparr>h_archive_id = aid, h_hook_name = n, h_status = row_st, h_attempts = 0,
       h_last_exit_code = None, h_last_run_at = None, h_last_error = None\<rparr>" for n x
    by (simp add: upserted_def status_only_def)
  ultimately show ?thesis
    using kfind_seed_loop [OF assms(1-3), of names]
    by (auto simp: SeedHooks_def bindE_def split: option.split)
qed

theorem SeedHooks_keeps_existing_witness:
  "\<exists>s'. SeedHooks ''x'' [''h1'', ''h2''] '''' sample_store = (Inr (ListHooks s' ''x''), s')
     \<and> s_archives s' = s_archives sample_store"
  using SeedHooks_keeps_existing [OF sample_wf(1), of "''x''" "''''" HookPending "[''h1'', ''h2'']"] sample_get
  by (auto simp: parse_hook_row_status_def HOOK_ROW_STATUSES_def)

end
