(* ===== verification/ArchiveProps.thy ===== *)
theory ArchiveProps
  imports Archives StoreProps
begin

text \<open>
  What relocation guarantees: no archive is ever lost by a move that fails halfway, every
  destination lies under archives_dir, and the removal of a superseded source stays away from the
  directories the program owns.
\<close>

subsection \<open>File operations\<close>

lemma file_size_put [simp]: "file_size (put_file p n w) q = (if q = p then Some n else file_size w q)"
  by (simp add: file_size_def put_file_def kfind_kput)

lemma file_size_dirs [simp]: "file_size (w\<lparr>w_dirs := ds\<rparr>) q = file_size w q"
  by (simp add: file_size_def)

lemma file_size_mkdir [simp]: "file_size (snd (mkdir_all io d w)) q = file_size w q"
  by (simp add: mkdir_all_def)

lemma remove_path_frame: "q \<noteq> p \<Longrightarrow> file_size (snd (remove_path p w)) q = file_size w q"
  by (simp add: remove_path_def remove_file_def file_size_remove)

lemma remove_path_gone: "fst (remove_path p w) \<Longrightarrow> file_size (snd (remove_path p w)) p = None"
  by (auto simp: remove_path_def remove_file_def file_size_remove is_file_def split: if_splits)

lemma copy_frame: "q \<noteq> dest \<Longrightarrow> file_size (snd (copyFileContents io src dest w)) q = file_size w q"
  by (simp add: copyFileContents_def split: option.split copy_outcome.split)

lemma copy_ok: "fst (copyFileContents io src dest w) \<Longrightarrow>
   file_size w src = Some n \<Longrightarrow> file_size (snd (copyFileContents io src dest w)) dest = Some n"
  by (simp add: copyFileContents_def split: option.splits copy_outcome.splits if_splits)

lemma moveFile_frame: "q \<noteq> src \<Longrightarrow> q \<noteq> dest \<Longrightarrow> file_size (snd (moveFile io src dest w)) q = file_size w q"
  using copy_frame [of q dest io src w] remove_path_frame [of q src "snd (copyFileContents io src dest w)"]
    remove_path_frame [of q dest "snd (remove_path src (snd (copyFileContents io src dest w)))"]
  by (auto simp: moveFile_def Let_def case_prod_beta file_size_remove split: option.split)

lemma moveFile_ok:
  assumes "file_size w src = Some n" "src \<noteq> dest" "fst (moveFile io src dest w)"
  shows "file_size (snd (moveFile io src dest w)) dest = Some n"
    "file_size (snd (moveFile io src dest w)) src = None"
proof -
  let ?c = "copyFileContents io src dest w"
  have "file_size (snd ?c) src = Some n" using copy_frame [OF assms(2)] assms(1) by simp
  then show "file_size (snd (moveFile io src dest w)) dest = Some n"
    using assms copy_ok [of io src dest w n] remove_path_frame [of dest src "snd ?c"]
    by (auto simp: moveFile_def Let_def case_prod_beta split: if_splits)
  show "file_size (snd (moveFile io src dest w)) src = None"
    using assms remove_path_gone [of src "snd ?c"]
    by (auto simp: moveFile_def Let_def case_prod_beta file_size_remove split: if_splits)
qed

lemma moveFile_failed:
  assumes "file_size w src = Some n" "src \<noteq> dest" "\<not> fst (moveFile io src dest w)"
  shows "file_size (snd (moveFile io src dest w)) src = Some n"
proof -
  let ?c = "copyFileContents io src dest w"
  have c: "file_size (snd ?c) src = Some n" using copy_frame [OF assms(2)] assms(1) by simp
  have "file_size (snd (remove_path src (snd ?c))) src = Some n" if "\<not> fst (remove_path src (snd ?c))"
    using that c by (simp add: remove_path_def remove_file_def is_file_def split: if_splits)
  then show ?thesis
    using assms c remove_path_frame [OF assms(2), of "snd (remove_path src (snd ?c))"]
    by (auto simp: moveFile_def Let_def case_prod_beta split: if_splits)
qed

lemma space_check_files [simp]: "file_size (snd (CheckRelocateSpace io cfg n w)) q = file_size w q"
  by (simp add: CheckRelocateSpace_def Let_def case_prod_beta split: option.split)

lemma move_sidecar_frame:
  "q \<noteq> MetadataPath src \<Longrightarrow> q \<noteq> MetadataPath dest \<Longrightarrow> file_size (move_sidecar io src dest w) q = file_size w q"
  by (simp add: move_sidecar_def Let_def moveFile_frame remove_path_frame)

subsection \<open>Destinations\<close>

lemma split_on_subset: "p \<in> set (split_on c s) \<Longrightarrow> set p \<subseteq> set s"
proof (induction s arbitrary: p)
  case (Cons x s)
  obtain a l where al: "split_on c s = a # l" by (cases "split_on c s") auto
  have "set q \<subseteq> set s" if "q = a \<or> q \<in> set l" for q using Cons.IH [of q] that al by auto
  then show ?case using Cons.prems al by (fastforce split: if_splits)
qed simp

lemma path_base_shape: "path_base p = ''/'' \<or> CHR ''/'' \<notin> set (path_base p)"
  using split_on_parts [OF last_in_set, of "CHR ''/''"] by (auto simp: path_base_def Let_def)

lemma clean_comps_no_up:
  "''..'' \<notin> set cs \<Longrightarrow> clean_comps r acc cs = rev (filter (\<lambda>c. c \<noteq> '''' \<and> c \<noteq> ''.'') cs) @ acc"
  by (induction cs arbitrary: acc) auto

lemma comps_join_below:
  assumes "is_rooted r" "''..'' \<notin> set (split_on CHR ''/'' b)"
  shows "\<exists>more. comps (path_join r b) = comps r @ more" "is_rooted (path_join r b)"
proof -
  have r: "r \<noteq> ''''" "is_rooted (r @ ''/'' @ b)" using assms(1) by (auto simp: is_rooted_append)
  have "comps (r @ ''/'' @ b) = comps r @ filter (\<lambda>c. c \<noteq> '''' \<and> c \<noteq> ''.'') (split_on CHR ''/'' b)"
    using split_on_append [of "CHR ''/''" r b] by (simp add: comps_def clean_comps_append clean_comps_no_up [OF assms(2)])
  then show "\<exists>more. comps (path_join r b) = comps r @ more" "is_rooted (path_join r b)"
    using r assms(1) by (auto simp: path_join_def comps_clean is_rooted_clean)
qed

lemma no_up: "CHR ''/'' \<notin> set b \<Longrightarrow> b \<noteq> ''..'' \<Longrightarrow> ''..'' \<notin> set (split_on CHR ''/'' b)"
  by (simp add: split_on_notin)

lemma target_name_no_up:
  assumes "CHR ''/'' \<notin> set (a_archive_id rec)"
  shows "''..'' \<notin> set (split_on CHR ''/'' (target_name rec))"
proof -
  have "CHR ''/'' \<notin> set (take 8 (a_archive_id rec))" using assms by (auto dest: in_set_takeD)
  then show ?thesis
    using path_base_shape [of "trim_space (a_archive_basename rec)"]
    by (auto simp: target_name_def Let_def short_id_def split_on_notin)
qed

lemma target_name_shape:
  assumes "CHR ''/'' \<notin> set (a_archive_id rec)"
  shows "target_name rec = ''/'' \<or> CHR ''/'' \<notin> set (target_name rec)"
  using path_base_shape [of "trim_space (a_archive_basename rec)"] assms
  by (auto simp: target_name_def Let_def short_id_def dest: in_set_takeD)

lemma disambiguated_no_up:
  assumes base: "base = ''/'' \<or> CHR ''/'' \<notin> set base" and aid: "CHR ''/'' \<notin> set aid"
  shows "''..'' \<notin> set (split_on CHR ''/'' (trim_suffix base (path_ext base) @ ''--'' @ short_id aid @ path_ext base))"
proof -
  have aid': "CHR ''/'' \<notin> set (take 8 aid)" using aid by (auto dest: in_set_takeD)
  show ?thesis
  proof (cases "base = ''/''")
    case True
    then show ?thesis
      using aid' by (simp add: path_ext_def trim_suffix_def has_suffix_def short_id_def split_on_notin)
  next
    case False
    with base have b: "CHR ''/'' \<notin> set base" by simp
    have "set (last (split_on CHR ''.'' base)) \<subseteq> set base"
      by (rule split_on_subset [OF last_in_set]) simp
    then have "CHR ''/'' \<notin> set (path_ext base)" using b by (auto simp: path_ext_def split_on_notin)
    moreover have "CHR ''/'' \<notin> set (trim_suffix base (path_ext base))"
      using b by (auto simp: trim_suffix_def dest: in_set_takeD)
    moreover have up: "xs @ ''--'' @ ys \<noteq> ''..''" for xs ys :: string
    proof
      assume "xs @ ''--'' @ ys = ''..''"
      then have "CHR ''-'' \<in> set ''..''" by (metis in_set_conv_decomp append_Cons append_Nil)
      then show False by simp
    qed
    ultimately show ?thesis using aid' unfolding short_id_def by (intro no_up up) simp
  qed
qed

lemma under_resolved_comps:
  "is_rooted cwd \<Longrightarrow> under_resolved cwd p r \<longleftrightarrow>
     (let cp = comps (path_abs cwd p); cr = comps (path_abs cwd r) in
       cp = cr \<or> (cr \<noteq> [] \<and> (\<exists>more. cp = cr @ more)))"
  using clean_under [OF is_rooted_abs is_rooted_abs, of cwd cwd p r] by (simp add: under_resolved_def Let_def)

lemma comps_abs: "is_rooted p \<Longrightarrow> comps (path_abs cwd p) = comps p"
  by (simp add: path_abs_def comps_clean)

lemma ArchiveFilePath_below:
  assumes "ArchiveFilePath cwd io cfg w rec source = Inr dest" "is_rooted (c_archives_dir cfg)"
    "CHR ''/'' \<notin> set (a_archive_id rec)"
  shows "is_rooted dest \<and> (\<exists>more. comps dest = comps (c_archives_dir cfg) @ more)"
proof -
  have r: "ArchivesDirPath cfg = c_archives_dir cfg"
    using assms(1) by (auto simp: ArchiveFilePath_def ArchivesDirPath_def Let_def split: if_splits)
  obtain b where "dest = path_join (c_archives_dir cfg) b" "''..'' \<notin> set (split_on CHR ''/'' b)"
    using assms(1) target_name_no_up [OF assms(3)] disambiguated_no_up [OF target_name_shape assms(3), OF assms(3)]
    by (auto simp: ArchiveFilePath_def disambiguatedPath_def r Let_def split: if_splits)
  then show ?thesis using comps_join_below [OF assms(2)] by simp
qed

subsection \<open>Properties\<close>

lemma is_file_mkdir [simp]: "is_file (snd (mkdir_all io d w)) q = is_file w q"
  by (simp add: is_file_def)

text \<open>Every run of RelocateArchive ends in one of three ways.\<close>

lemma RelocateArchive_cases:
  assumes "file_size w src = Some n" "src = (if source = '''' then a_archive_path rec else source)"
  obtains
    (failed) e w' where "RelocateArchive cwd io cfg rec source w = (Inl e, w')"
      "\<forall>q. is_file w q \<longrightarrow> file_size w' q = file_size w q"
  | (there) dest w' where "RelocateArchive cwd io cfg rec source w = (Inr dest, w')"
      "ArchiveFilePath cwd io cfg w rec src = Inr dest"
      "is_file w dest" "io_same io dest src \<or> samePath cwd dest src" "\<forall>q. file_size w' q = file_size w q"
  | (moved) dest w3 where "RelocateArchive cwd io cfg rec source w = (Inr dest, move_sidecar io src dest w3)"
      "ArchiveFilePath cwd io cfg w rec src = Inr dest"
      "\<not> is_file w dest" "src \<noteq> dest" "file_size w3 dest = Some n" "file_size w3 src = None"
      "\<forall>q. q \<noteq> src \<and> q \<noteq> dest \<longrightarrow> file_size w3 q = file_size w q"
proof (cases "ArchiveFilePath cwd io cfg w rec src")
  case (Inl e)
  with assms failed show thesis by (simp add: RelocateArchive_def Let_def)
next
  case (Inr dest)
  define w1 where "w1 = snd (mkdir_all io (path_dir dest) w)"
  define w2 where "w2 = snd (CheckRelocateSpace io cfg n w1)"
  have keep: "file_size w1 q = file_size w q" "file_size w2 q = file_size w q" for q
    by (simp_all add: w1_def w2_def)
  have isf: "is_file w1 q = is_file w q" for q by (simp add: is_file_def keep)
  have run: "RelocateArchive cwd io cfg rec source w =
    (if \<not> fst (mkdir_all io (path_dir dest) w) then (Inl (CannotCreateDir (path_dir dest)), w1)
     else if is_file w dest
     then (if io_same io dest src \<or> samePath cwd dest src then (Inr dest, w1) else (Inl (DestinationExists dest), w1))
     else (case fst (CheckRelocateSpace io cfg n w1) of
         Some e \<Rightarrow> (Inl e, w2)
       | None \<Rightarrow>
          (let (moved, w3) = moveFile io src dest w2 in
           if \<not> moved then (Inl (MoveFailed src dest), if path_exists w3 dest then snd (remove_path dest w3) else w3)
           else (Inr dest, move_sidecar io src dest w3))))"
    unfolding RelocateArchive_def assms(2) [symmetric] Let_def
    by (simp add: assms(1) Inr isf case_prod_beta w1_def [symmetric] w2_def [symmetric] split: option.split)
  consider "\<not> fst (mkdir_all io (path_dir dest) w)"
    | "fst (mkdir_all io (path_dir dest) w)" "is_file w dest"
    | e where "fst (mkdir_all io (path_dir dest) w)" "\<not> is_file w dest" "fst (CheckRelocateSpace io cfg n w1) = Some e"
    | "fst (mkdir_all io (path_dir dest) w)" "\<not> is_file w dest" "fst (CheckRelocateSpace io cfg n w1) = None"
    by blast
  then show thesis
  proof cases
    case 1
    then show thesis using failed [of "CannotCreateDir (path_dir dest)" w1] keep by (simp add: run)
  next
    case 2
    then show thesis
      using failed [of "DestinationExists dest" w1] there [of dest w1] Inr keep
      by (cases "io_same io dest src \<or> samePath cwd dest src") (auto simp: run)
  next
    case (3 e)
    then show thesis using failed [of e w2] keep by (simp add: run)
  next
    case 4
    from 4(2) assms(1) have ne: "src \<noteq> dest" by (auto simp: is_file_def)
    have run4: "RelocateArchive cwd io cfg rec source w =
      (let (moved, w3) = moveFile io src dest w2 in
        if \<not> moved then (Inl (MoveFailed src dest), if path_exists w3 dest then snd (remove_path dest w3) else w3)
        else (Inr dest, move_sidecar io src dest w3))"
      using 4 by (simp add: run)
    have src: "file_size w2 src = Some n" using assms(1) keep by simp
    show thesis
    proof (cases "fst (moveFile io src dest w2)")
      case True
      from moveFile_ok [OF src ne True] show thesis
        using True 4(2) ne Inr moveFile_frame [of _ src dest io w2] keep
        by (intro moved [of dest "snd (moveFile io src dest w2)"]) (auto simp: run4 case_prod_beta)
    next
      case False
      let ?w3 = "snd (moveFile io src dest w2)"
      have "file_size ?w3 q = file_size w q" if "is_file w q" for q
        using that moveFile_failed [OF src ne False] moveFile_frame [of q src dest io w2] keep 4(2) assms(1)
        by (cases "q = src"; cases "q = dest") auto
      moreover have "q \<noteq> dest" if "is_file w q" for q using that 4(2) by auto
      ultimately show thesis
        using False by (intro failed [of "MoveFailed src dest"])
          (simp add: run4 case_prod_beta, auto simp: remove_path_frame)
    qed
  qed
qed

text \<open>C8. RelocateArchive never loses an archive.  When it fails, at whatever step (a rename that
  fails across devices, a copy that breaks off, a source that cannot be removed), every file that
  existed is still there with its size.  When it succeeds, either the archive was already in place
  and no file changed, or the destination was free and now holds the archive at its full size; only
  the source, the destination and their two metadata sidecars are touched.\<close>

theorem RelocateArchive_safe:
  assumes "file_size w src = Some n" "src = (if source = '''' then a_archive_path rec else source)"
  shows "(\<forall>e w'. RelocateArchive cwd io cfg rec source w = (Inl e, w') \<longrightarrow>
       (\<forall>q. is_file w q \<longrightarrow> file_size w' q = file_size w q)) \<and>
    (\<forall>dest w'. RelocateArchive cwd io cfg rec source w = (Inr dest, w') \<longrightarrow>
       (is_file w dest \<and> (\<forall>q. file_size w' q = file_size w q)) \<or>
       (\<not> is_file w dest
         \<and> (dest \<notin> {MetadataPath src, MetadataPath dest} \<longrightarrow> file_size w' dest = Some n)
         \<and> (src \<notin> {MetadataPath src, MetadataPath dest} \<longrightarrow> \<not> is_file w' src)
         \<and> (\<forall>q. q \<notin> {src, dest, MetadataPath src, MetadataPath dest} \<longrightarrow> file_size w' q = file_size w q)))"
proof (rule RelocateArchive_cases [OF assms, of cwd io cfg])
  fix e w'
  assume "RelocateArchive cwd io cfg rec source w = (Inl e, w')" "\<forall>q. is_file w q \<longrightarrow> file_size w' q = file_size w q"
  then show ?thesis by simp
next
  fix dest w'
  assume "RelocateArchive cwd io cfg rec source w = (Inr dest, w')" "is_file w dest" "\<forall>q. file_size w' q = file_size w q"
  then show ?thesis by simp
next
  fix dest w3
  assume "RelocateArchive cwd io cfg rec source w = (Inr dest, move_sidecar io src dest w3)"
    "\<not> is_file w dest" "file_size w3 dest = Some n" "file_size w3 src = None"
    "\<forall>q. q \<noteq> src \<and> q \<noteq> dest \<longrightarrow> file_size w3 q = file_size w q"
  then show ?thesis using move_sidecar_frame [of _ src dest io w3] by (auto simp: is_file_def)
qed

definition sample_io :: move_io where
  "sample_io = \<lparr>io_same = (=), io_free = (\<lambda>_. None), io_mkdir = (\<lambda>_. True),
     io_rename = (\<lambda>_ _. False), io_copy = (\<lambda>_ _. CopyPartial 3)\<rparr>"

definition one_file :: "path \<Rightarrow> world" where
  "one_file p = \<lparr>w_files = [(p, 10)], w_dirs = [], w_mounts = [], w_alive = [], w_locked = []\<rparr>"

lemma sample_archives [simp]: "c_archives_dir sample_config = ''/srv/archives''" "ArchivesDirPath sample_config = ''/srv/archives''"
  by code_simp+

theorem RelocateArchive_safe_witness:
  "(case RelocateArchive ''/'' sample_io sample_config sample_row ''/in/a.tar'' (one_file ''/in/a.tar'') of
      (Inl e, w') \<Rightarrow> file_size w' ''/in/a.tar'' = Some 10
    | (Inr dest, w') \<Rightarrow> dest \<noteq> ''/in/a.tar'' \<longrightarrow> \<not> is_file (one_file ''/in/a.tar'') dest)"
proof -
  have f: "file_size (one_file ''/in/a.tar'') q = (if q = ''/in/a.tar'' then Some 10 else None)" for q
    by (simp add: file_size_def one_file_def)
  from RelocateArchive_safe [of "one_file ''/in/a.tar''" "''/in/a.tar''" 10 "''/in/a.tar''" sample_row "''/''" sample_io sample_config]
  show ?thesis by (auto simp: is_file_def f split: prod.split sum.split)
qed

text \<open>The destination computed for an archive lies under archives_dir, whatever its basename says
  (dot-dot, slashes, blanks), so a relocated row is recognised by IsArchivesPath: it is not
  relocated a second time, and the scanner does not mark it absent for being outside the source
  directories.\<close>

theorem relocated_is_archives:
  assumes "is_rooted cwd" "is_rooted (c_archives_dir cfg)" "comps (c_archives_dir cfg) \<noteq> []"
    "CHR ''/'' \<notin> set (a_archive_id rec)"
    "ArchiveFilePath cwd io cfg w rec source = Inr dest"
  shows "IsArchivesPath cwd cfg dest \<and> \<not> ShouldRelocate cwd io cfg w' (rec'\<lparr>a_archive_path := dest\<rparr>)"
proof -
  from ArchiveFilePath_below [OF assms(5,2,4)] obtain more where
    d: "is_rooted dest" "comps dest = comps (c_archives_dir cfg) @ more" by blast
  have r: "ArchivesDirPath cfg = c_archives_dir cfg" "c_archives_dir cfg \<noteq> ''''"
    using assms(2,5) by (auto simp: ArchiveFilePath_def ArchivesDirPath_def Let_def split: if_splits)
  have "IsArchivesPath cwd cfg dest"
    using d r assms(2,3) by (auto simp: IsArchivesPath_def under_resolved_comps [OF assms(1)] comps_abs Let_def)
  then show ?thesis by (simp add: ShouldRelocate_def)
qed

theorem relocated_is_archives_witness:
  "\<exists>dest. ArchiveFilePath ''/'' sample_io sample_config
       (one_file ''/in/a.tar'') sample_row '''' = Inr dest
     \<and> IsArchivesPath ''/'' sample_config dest"
proof -
  have "\<not> isl (ArchiveFilePath ''/'' sample_io sample_config (one_file ''/in/a.tar'') sample_row '''')"
    by (simp add: ArchiveFilePath_def Let_def)
  then obtain dest where "ArchiveFilePath ''/'' sample_io sample_config (one_file ''/in/a.tar'') sample_row '''' = Inr dest"
    by (cases "ArchiveFilePath ''/'' sample_io sample_config (one_file ''/in/a.tar'') sample_row ''''") auto
  with relocated_is_archives [of "''/''" sample_config sample_row sample_io "one_file ''/in/a.tar''" "''''" dest]
  show ?thesis by (simp add: comps_def sample_row_def)
qed

text \<open>RemoveSupersededSource deletes nothing but a source that is not the active copy and lies
  outside the directories the program owns, with its sidecar; in every other case it reports False
  and removes no file at all.\<close>

theorem RemoveSupersededSource_safe:
  assumes "RemoveSupersededSource cwd io cfg orig active w = (b, w')"
  shows "(\<not> b \<longrightarrow> (\<forall>q. file_size w' q = file_size w q)) \<and>
    (b \<longrightarrow> \<not> is_file w' orig \<and> c_move_archives cfg
       \<and> \<not> IsArchivesPath cwd cfg orig \<and> \<not> IsConvertedOutputPath cwd cfg orig
       \<and> \<not> samePath cwd orig active \<and> (is_file w active \<longrightarrow> \<not> io_same io orig active)
       \<and> (\<forall>q. q \<noteq> orig \<and> q \<noteq> MetadataPath orig \<longrightarrow> file_size w' q = file_size w q))"
proof -
  let ?w1 = "snd (remove_path orig w)" and ?may = "c_move_archives cfg \<and> orig \<noteq> '''' \<and> active \<noteq> '''' \<and> is_file w orig
    \<and> \<not> (is_file w active \<and> io_same io orig active) \<and> \<not> samePath cwd orig active
    \<and> \<not> IsArchivesPath cwd cfg orig \<and> \<not> IsConvertedOutputPath cwd cfg orig"
  let ?w2 = "if is_file ?w1 (MetadataPath orig) then snd (remove_path (MetadataPath orig) ?w1) else ?w1"
  have run: "RemoveSupersededSource cwd io cfg orig active w =
      (if ?may then (if fst (remove_path orig w) then (True, ?w2) else (False, ?w1)) else (False, w))"
    by (simp add: RemoveSupersededSource_def Let_def case_prod_beta)
  have failed: "file_size ?w1 q = file_size w q" if "\<not> fst (remove_path orig w)" for q
    using that by (simp add: remove_path_def remove_file_def split: if_splits)
  show ?thesis
  proof (cases "?may \<and> fst (remove_path orig w)")
    case True
    then have b: "b" "w' = ?w2" using assms run by simp_all
    have w2: "file_size ?w2 q = file_size ?w1 q" if "q \<noteq> MetadataPath orig" for q
      using remove_path_frame [OF that] by simp
    have "file_size ?w2 orig = None"
      using remove_path_gone [of orig w] remove_path_gone [of "MetadataPath orig" ?w1] True w2 [of orig]
        remove_path_frame [of orig "MetadataPath orig" ?w1]
      by (cases "orig = MetadataPath orig") (auto simp: is_file_def)
    with b True w2 remove_path_frame [of _ orig w] show ?thesis by (auto simp: is_file_def)
  next
    case False
    then have "\<not> b" "w' = w \<or> (w' = ?w1 \<and> \<not> fst (remove_path orig w))"
      using assms unfolding run by (simp_all split: if_splits)
    with failed show ?thesis by auto
  qed
qed

theorem RemoveSupersededSource_safe_witness:
  "\<forall>w w'. RemoveSupersededSource ''/'' sample_io sample_config
      ''/srv/archives/x.tar'' ''/srv/archives/y.tar'' w \<noteq> (True, w')"
proof (intro allI)
  fix w w'
  have "under_resolved ''/'' ''/srv/archives/x.tar'' ''/srv/archives''" by code_simp
  then have "IsArchivesPath ''/'' sample_config ''/srv/archives/x.tar''"
    by (simp add: IsArchivesPath_def Let_def)
  with RemoveSupersededSource_safe [of "''/''" sample_io sample_config "''/srv/archives/x.tar''" "''/srv/archives/y.tar''" w True w']
  show "RemoveSupersededSource ''/'' sample_io sample_config ''/srv/archives/x.tar'' ''/srv/archives/y.tar'' w \<noteq> (True, w')" by auto
qed

end
