(* ===== verification/Convert.thy ===== *)
theory Convert
  imports Archives
begin

text \<open>
  The pure half of src/internal/convert: when an archive is converted before it is indexed
  (archiveconverter.go, ziprepack.go, nonsolid.go), with which command lines, how much disk space
  that takes (free.go, flatten_run.go), what the listing of 7z says about an archive
  (solid_probe.go), and the metadata sidecar (metadata.go).  A sidecar or a zip directory is what
  the standard library decodes it to: \<open>js\<close> gives the JSON object of a readable file, \<open>zips\<close> the
  members of a readable zip.  Case folding is ASCII.
\<close>

subsection \<open>Locating binaries\<close>

record resolve_opts =
  ro_which :: "string \<Rightarrow> string"
  ro_exec :: "path \<Rightarrow> bool"
  ro_search_disabled :: bool
  ro_sibling :: path
  ro_extra :: "string list"
  ro_default_bin :: path

definition resolveIfExecutable :: "string \<Rightarrow> resolve_opts \<Rightarrow> string" where
  "resolveIfExecutable bin opts =
    (if bin = '''' then ''''
     else if CHR ''/'' \<in> set bin \<or> has_prefix bin ''.'' then (if ro_exec opts bin then bin else '''')
     else if ro_which opts bin \<noteq> '''' \<and> ro_exec opts (ro_which opts bin) then ro_which opts bin
     else if ro_exec opts bin then bin else '''')"

fun first_candidate :: "string list \<Rightarrow> resolve_opts \<Rightarrow> string" where
  "first_candidate [] opts = ''''"
| "first_candidate (c # cs) opts =
    (let c' = trim_space c; found = (if c' = '''' then '''' else resolveIfExecutable c' opts) in
     if found \<noteq> '''' then found else first_candidate cs opts)"

definition ResolveArchiveconverterBin :: "string \<Rightarrow> resolve_opts \<Rightarrow> string" where
  "ResolveArchiveconverterBin configured opts =
    (let conf = trim_space configured; sib = trim_space (ro_sibling opts) in
     if conf \<noteq> '''' then
       (if resolveIfExecutable conf opts \<noteq> '''' then resolveIfExecutable conf opts else conf)
     else if resolveIfExecutable (ro_default_bin opts) opts \<noteq> '''' then resolveIfExecutable (ro_default_bin opts) opts
     else if first_candidate (ro_extra opts) opts \<noteq> '''' then first_candidate (ro_extra opts) opts
     else if sib \<noteq> '''' \<and> ro_exec opts sib then sib
     else if \<not> ro_search_disabled opts then ro_which opts ''archiveconverter''
     else '''')"

definition EffectiveArchiveconverterBin :: "config \<Rightarrow> resolve_opts \<Rightarrow> string" where
  "EffectiveArchiveconverterBin cfg opts =
    (let conf = trim_space (c_converter_bin cfg) in
     if conf = '''' \<or> conf = ro_default_bin opts then ResolveArchiveconverterBin '''' opts
     else ResolveArchiveconverterBin conf opts)"

definition ArchiveconverterAvailable :: "config \<Rightarrow> resolve_opts \<Rightarrow> bool" where
  "ArchiveconverterAvailable cfg opts \<longleftrightarrow> c_converter_enabled cfg
     \<and> EffectiveArchiveconverterBin cfg opts \<noteq> '''' \<and> ro_exec opts (EffectiveArchiveconverterBin cfg opts)"

definition ResolveSevenZipBin :: "string \<Rightarrow> resolve_opts \<Rightarrow> string" where
  "ResolveSevenZipBin configured opts =
    (let conf = trim_space configured in
     if conf \<noteq> '''' then
       (if resolveIfExecutable conf opts \<noteq> '''' then resolveIfExecutable conf opts
        else if CHR ''/'' \<notin> set conf \<and> ro_which opts conf \<noteq> '''' then ro_which opts conf
        else conf)
     else if \<not> ro_search_disabled opts \<and> ro_which opts ''7z'' \<noteq> '''' then ro_which opts ''7z''
     else ''7z'')"

definition EffectiveSevenZipBin :: "config \<Rightarrow> resolve_opts \<Rightarrow> string" where
  "EffectiveSevenZipBin cfg opts = ResolveSevenZipBin (c_7z_bin cfg) opts"

definition SevenZipAvailable :: "config \<Rightarrow> resolve_opts \<Rightarrow> bool" where
  "SevenZipAvailable cfg opts \<longleftrightarrow>
    EffectiveSevenZipBin cfg opts \<noteq> '''' \<and> ro_exec opts (EffectiveSevenZipBin cfg opts)"

subsection \<open>Paths of conversion products\<close>

definition equal_fold :: "string \<Rightarrow> string \<Rightarrow> bool" where
  "equal_fold a b \<longleftrightarrow> to_lower a = to_lower b"

definition IsSevenzPath :: "path \<Rightarrow> bool" where
  "IsSevenzPath p \<longleftrightarrow> equal_fold (path_ext p) ''.7z''"

definition IsZipPath :: "path \<Rightarrow> bool" where
  "IsZipPath p \<longleftrightarrow> equal_fold (path_ext p) ''.zip''"

definition ConvertedDirPath :: "config \<Rightarrow> path" where
  "ConvertedDirPath cfg =
    (if trim_space (c_converter_output_dir cfg) \<noteq> '''' then trim_space (c_converter_output_dir cfg)
     else ''/var/lib/mount-wrapper/converted'')"

definition ConvertedFilePath :: "config \<Rightarrow> string \<Rightarrow> path" where
  "ConvertedFilePath cfg aid = path_join (ConvertedDirPath cfg) (aid @ ''.7z'')"

definition IsConvertedPath :: "path \<Rightarrow> config \<Rightarrow> path \<Rightarrow> bool" where
  "IsConvertedPath cwd cfg p =
    (let r = trim_space (c_converter_output_dir cfg) in
     if p = '''' \<or> r = '''' then False else under_resolved cwd p r)"

definition ExistingConvertedPath :: "config \<Rightarrow> world \<Rightarrow> string \<Rightarrow> path" where
  "ExistingConvertedPath cfg w aid =
    (if aid = '''' then ''''
     else (case file_size w (ConvertedFilePath cfg aid) of
             Some n \<Rightarrow> if n \<le> 0 then '''' else ConvertedFilePath cfg aid
           | None \<Rightarrow> ''''))"

definition ZipRepackDestPath :: "path \<Rightarrow> path" where
  "ZipRepackDestPath zip_path = trim_suffix zip_path (path_ext zip_path) @ ''.7z''"

definition ZipRepackPartialPath :: "path \<Rightarrow> path" where
  "ZipRepackPartialPath dest = dest @ ''.partial''"

definition ZipRepackWorkDir :: "path \<Rightarrow> path" where
  "ZipRepackWorkDir zip_path = zip_path @ ''.repack.work''"

definition ZipRepackBackupPath :: "path \<Rightarrow> path" where
  "ZipRepackBackupPath zip_path = zip_path @ ''.pre-repack.bak''"

definition FlattenPartialPath :: "path \<Rightarrow> path" where
  "FlattenPartialPath source = source @ ''.flatten.partial''"

definition FlattenWorkDir :: "path \<Rightarrow> path" where
  "FlattenWorkDir dest = dest @ ''.work''"

subsection \<open>Metadata sidecars\<close>

datatype jval = JNum rat | JStr string | JNull | JOther

type_synonym jobject = "(string \<times> jval) list"

record metadata =
  cm_original :: int
  cm_converted :: int
  cm_at :: string
  cm_method :: string
  cm_duration :: "rat option"
  cm_delta :: int

definition BuildConvertMetadata :: "string \<Rightarrow> int \<Rightarrow> int \<Rightarrow> string \<Rightarrow> rat option \<Rightarrow> metadata" where
  "BuildConvertMetadata now orig conv meth dur =
    \<lparr>cm_original = orig, cm_converted = conv, cm_at = now,
     cm_method = (if meth = '''' then ''flatten'' else meth), cm_duration = dur, cm_delta = wrap64 (conv - orig)\<rparr>"

text \<open>The object WriteConvertMetadata marshals.\<close>

definition metadata_object :: "metadata \<Rightarrow> jobject" where
  "metadata_object m =
    [(''original_size_bytes'', JNum (of_int (cm_original m))), (''converted_size_bytes'', JNum (of_int (cm_converted m))),
     (''converted_at'', JStr (cm_at m)), (''method'', JStr (if cm_method m = '''' then ''flatten'' else cm_method m))]
    @ (case cm_duration m of None \<Rightarrow> [] | Some d \<Rightarrow> [(''convert_duration_seconds'', JNum d)])
    @ [(''size_delta_bytes'', JNum (of_int (wrap64 (cm_converted m - cm_original m))))]"

fun asInt64 :: "jval option \<Rightarrow> int option" where
  "asInt64 (Some (JNum q)) = Some (if q < 0 then - \<lfloor>- q\<rfloor> else \<lfloor>q\<rfloor>)"
| "asInt64 _ = None"

definition jfield :: "string \<Rightarrow> jobject \<Rightarrow> jval option" where
  "jfield k obj = map_option snd (kfind fst k obj)"

definition decode_metadata :: "jobject \<Rightarrow> metadata option" where
  "decode_metadata obj =
    (case (asInt64 (jfield ''original_size_bytes'' obj), asInt64 (jfield ''converted_size_bytes'' obj),
           jfield ''converted_at'' obj) of
       (Some orig, Some conv, Some (JStr stamp)) \<Rightarrow>
         (if stamp = '''' then None
          else Some \<lparr>cm_original = orig, cm_converted = conv, cm_at = stamp,
            cm_method = (case jfield ''method'' obj of Some (JStr m) \<Rightarrow> if m = '''' then ''flatten'' else m | _ \<Rightarrow> ''flatten''),
            cm_duration = (case jfield ''convert_duration_seconds'' obj of Some (JNum d) \<Rightarrow> Some d | _ \<Rightarrow> None),
            cm_delta = (case asInt64 (jfield ''size_delta_bytes'' obj) of Some d \<Rightarrow> d | None \<Rightarrow> wrap64 (conv - orig))\<rparr>)
     | _ \<Rightarrow> None)"

definition ReadConvertMetadata :: "(path \<Rightarrow> jobject option) \<Rightarrow> path \<Rightarrow> metadata option" where
  "ReadConvertMetadata js p =
    (if p = '''' then None else Option.bind (js (MetadataPath p)) decode_metadata)"

definition HasConvertMetadata :: "(path \<Rightarrow> jobject option) \<Rightarrow> path \<Rightarrow> bool" where
  "HasConvertMetadata js p \<longleftrightarrow> ReadConvertMetadata js p \<noteq> None"

subsection \<open>What is converted\<close>

definition ScopeIsFlatten :: "string \<Rightarrow> bool" where
  "ScopeIsFlatten scope \<longleftrightarrow> scope = ''flatten''"

definition ScopeUsesChildEnv :: "string \<Rightarrow> bool" where
  "ScopeUsesChildEnv scope \<longleftrightarrow> scope = ''nested'' \<or> scope = ''outer'' \<or> scope = ''all''"

definition ScopeUsesOuterCache :: "string \<Rightarrow> bool" where
  "ScopeUsesOuterCache scope \<longleftrightarrow> scope = ''outer'' \<or> scope = ''all''"

definition ShouldConvert :: "path \<Rightarrow> config \<Rightarrow> path \<Rightarrow> bool \<Rightarrow> resolve_opts \<Rightarrow> bool" where
  "ShouldConvert cwd cfg p needsIndex opts \<longleftrightarrow> c_converter_enabled cfg \<and> needsIndex \<and> IsSevenzPath p
     \<and> \<not> IsConvertedPath cwd cfg p \<and> ArchiveconverterAvailable cfg opts"

definition EmbeddedArchiveSuffixes :: "string list" where
  "EmbeddedArchiveSuffixes =
    [''.tar.gz'', ''.tgz'', ''.tar.bz2'', ''.tbz2'', ''.tbz'', ''.tar.xz'', ''.txz'', ''.tar.zst'',
     ''.tar.zstd'', ''.tzst'', ''.tar'', ''.zip'', ''.jar'', ''.7z'', ''.rar'', ''.cab'', ''.ar'', ''.a'',
     ''.cpio'', ''.sqlar'', ''.squashfs'', ''.asar'', ''.xar'', ''.warc'']"

definition MemberLooksLikeEmbeddedArchive :: "string \<Rightarrow> bool" where
  "MemberLooksLikeEmbeddedArchive nm =
    (let base = path_base (to_slashes nm) in
     if base = '''' \<or> base = ''.'' \<or> base = ''..'' then False
     else list_ex (has_suffix (to_lower base)) EmbeddedArchiveSuffixes)"

record zip_member =
  zm_name :: string
  zm_is_dir :: bool
  zm_uncompressed :: int

definition ZipHasEmbeddedArchives :: "(path \<Rightarrow> zip_member list option) \<Rightarrow> world \<Rightarrow> path \<Rightarrow> bool" where
  "ZipHasEmbeddedArchives zips w p \<longleftrightarrow> IsZipPath p \<and> is_file w p
     \<and> (case zips p of None \<Rightarrow> False
        | Some ms \<Rightarrow> list_ex (\<lambda>m. \<not> zm_is_dir m \<and> MemberLooksLikeEmbeddedArchive (zm_name m)) ms)"

record convert_env =
  ce_cwd :: path
  ce_opts :: resolve_opts
  ce_js :: "path \<Rightarrow> jobject option"
  ce_zips :: "path \<Rightarrow> zip_member list option"
  ce_needs_flatten :: "(path \<Rightarrow> bool) option"

definition ShouldFlattenConvert :: "convert_env \<Rightarrow> config \<Rightarrow> world \<Rightarrow> path \<Rightarrow> bool" where
  "ShouldFlattenConvert ce cfg w p \<longleftrightarrow> c_7z_nonsolid cfg \<and> ScopeIsFlatten (c_7z_scope cfg)
     \<and> IsSevenzPath p \<and> is_file w p \<and> \<not> HasConvertMetadata (ce_js ce) p
     \<and> (case ce_needs_flatten ce of None \<Rightarrow> False | Some f \<Rightarrow> f p)"

definition ShouldRepackZip :: "convert_env \<Rightarrow> config \<Rightarrow> world \<Rightarrow> path \<Rightarrow> bool" where
  "ShouldRepackZip ce cfg w p \<longleftrightarrow> c_7z_nonsolid cfg \<and> c_zip_to_7z cfg \<and> IsZipPath p \<and> is_file w p
     \<and> \<not> HasConvertMetadata (ce_js ce) (ZipRepackDestPath p) \<and> \<not> is_file w (ZipRepackDestPath p)
     \<and> ZipHasEmbeddedArchives (ce_zips ce) w p"

definition ShouldPreconvert :: "convert_env \<Rightarrow> config \<Rightarrow> world \<Rightarrow> path \<Rightarrow> bool" where
  "ShouldPreconvert ce cfg w p =
    (if ShouldFlattenConvert ce cfg w p then True
     else if ShouldRepackZip ce cfg w p then True
     else if \<not> ArchiveconverterAvailable cfg (ce_opts ce) then False
     else if \<not> IsSevenzPath p then False
     else if IsConvertedPath (ce_cwd ce) cfg p then False
     else if HasConvertMetadata (ce_js ce) p then False
     else True)"

subsection \<open>Command lines\<close>

fun flag_each :: "string \<Rightarrow> string list \<Rightarrow> string list" where
  "flag_each flag [] = []"
| "flag_each flag (x # xs) = flag # x # flag_each flag xs"

definition flag_value :: "string \<Rightarrow> string \<Rightarrow> string list" where
  "flag_value flag v = (if trim_space v \<noteq> '''' then [flag, trim_space v] else [])"

definition flag_int :: "string \<Rightarrow> int option \<Rightarrow> string list" where
  "flag_int flag v = (case v of None \<Rightarrow> [] | Some n \<Rightarrow> [flag, itoa n])"

definition BuildConvertCmd :: "config \<Rightarrow> string \<Rightarrow> path \<Rightarrow> path \<Rightarrow> string list option" where
  "BuildConvertCmd cfg bin inputPath outputPath =
    (if trim_space bin = '''' then None
     else
      (let mode = (if trim_space (c_converter_mode cfg) = '''' then ''convert'' else trim_space (c_converter_mode cfg));
           backend = (if trim_space (c_converter_backend cfg) = '''' then ''native'' else trim_space (c_converter_backend cfg)) in
       Some ([bin, mode, inputPath, ''-o'', outputPath]
         @ (if mode = ''convert''
            then flag_each ''--exclude-inner'' (c_exclude_inner cfg) @ flag_each ''--exclude-outer'' (c_exclude_outer cfg)
                 @ flag_each ''--rename'' (c_rename cfg) @ (if c_basename_match cfg then [''--basename-match''] else [])
            else flag_each ''--exclude'' (c_exclude_inner cfg))
         @ [''--backend'', backend, ''--level'', itoa (c_converter_level cfg)]
         @ flag_int ''--threads'' (c_converter_threads cfg)
         @ (if c_converter_verify cfg then [''--verify''] else [])
         @ flag_value ''--temp-dir'' (c_converter_temp_dir cfg)
         @ (if mode = ''convert''
            then flag_int ''--nested-concurrency'' (c_nested_concurrency cfg)
                 @ flag_value ''--nested-size-budget'' (c_nested_size_budget cfg)
            else [])
         @ (if backend = ''native''
            then flag_value ''--native-pipeline'' (c_native_pipeline cfg) @ flag_value ''--native-codec'' (c_native_codec cfg)
                 @ (if c_native_large_threshold cfg > 0
                    then [''--native-large-threshold'', itoa (c_native_large_threshold cfg)] else [])
            else [])
         @ c_converter_extra_args cfg)))"

definition ArchiveconverterTimeout :: "config \<Rightarrow> rat" where
  "ArchiveconverterTimeout cfg = (if c_converter_timeout cfg < 0 then 0 else c_converter_timeout cfg)"

definition bin_or_7z :: "string \<Rightarrow> string" where
  "bin_or_7z bin = (if trim_space bin = '''' then ''7z'' else trim_space bin)"

definition BuildZipExtractCmd :: "string \<Rightarrow> path \<Rightarrow> path \<Rightarrow> string list" where
  "BuildZipExtractCmd bin source workDir = [bin_or_7z bin, ''x'', ''-y'', ''-o'' @ workDir @ ''/'', source]"

definition BuildZipCreate7zCmd :: "string \<Rightarrow> path \<Rightarrow> string list" where
  "BuildZipCreate7zCmd bin partialDest = [bin_or_7z bin, ''a'', ''-t7z'', ''-ms=off'', ''-mx=0'', ''-y'', partialDest, ''*'']"

definition SevenZipExcludeArgs :: "string list \<Rightarrow> string list" where
  "SevenZipExcludeArgs pats = map (\<lambda>p. ''-xr!'' @ p) (filter (\<lambda>p. p \<noteq> '''') (map trim_space pats))"

definition BuildFlattenExtractCmd :: "string \<Rightarrow> path \<Rightarrow> path \<Rightarrow> string list \<Rightarrow> string list" where
  "BuildFlattenExtractCmd bin source workDir pats =
    [bin_or_7z bin, ''x'', ''-y'', ''-o'' @ workDir @ ''/''] @ SevenZipExcludeArgs pats @ [source]"

definition BuildFlattenCreateCmd :: "string \<Rightarrow> path \<Rightarrow> string list" where
  "BuildFlattenCreateCmd bin dest = [bin_or_7z bin, ''a'', ''-t7z'', ''-ms=off'', ''-y'', dest, ''*'']"

definition BuildFlattenTestCmd :: "string \<Rightarrow> path \<Rightarrow> string list" where
  "BuildFlattenTestCmd bin arch = [bin_or_7z bin, ''t'', ''-y'', arch]"

definition StripInnerNamePrefix :: "string \<Rightarrow> string \<Rightarrow> string" where
  "StripInnerNamePrefix nm stripPrefix =
    (let normalized = trim_left (\<lambda>c. c = CHR ''/'') (to_slashes nm); pre = trim_space stripPrefix in
     if pre \<noteq> '''' \<and> has_prefix normalized pre then drop (length pre) normalized else normalized)"

definition NestedFlattenPrefix :: "string \<Rightarrow> string \<Rightarrow> string" where
  "NestedFlattenPrefix memberRel stripPrefix =
    (let arcname = trim_left (\<lambda>c. c = CHR ''/'') (to_slashes memberRel) in
     StripInnerNamePrefix (if has_suffix (to_lower arcname) ''.7z'' then take (length arcname - 3) arcname else arcname)
       stripPrefix)"

subsection \<open>Disk space\<close>

definition clamp0 :: "int \<Rightarrow> int" where
  "clamp0 n = (if n < 0 then 0 else n)"

definition ConvertSpaceRequired :: "int \<Rightarrow> int \<Rightarrow> int \<Rightarrow> int" where
  "ConvertSpaceRequired archiveBytes minFree overhead =
    wrap64 (clamp0 archiveBytes * 2 + clamp0 minFree + clamp0 overhead)"

definition ZipRepackSpaceRequired :: "int \<Rightarrow> int \<Rightarrow> int \<Rightarrow> int" where
  "ZipRepackSpaceRequired peak overhead minFree = wrap64 (clamp0 peak + clamp0 overhead + clamp0 minFree)"

definition FlattenSpaceRequired :: "int \<Rightarrow> int \<Rightarrow> int \<Rightarrow> int" where
  "FlattenSpaceRequired peak overhead minFree = wrap64 (clamp0 peak + clamp0 overhead + clamp0 minFree)"

datatype space_error = NoSpaceDir | CannotMakeDir path | NotEnoughSpace int int

definition check_free :: "(path \<Rightarrow> int option) \<Rightarrow> path \<Rightarrow> int \<Rightarrow> space_error option" where
  "check_free free dir required =
    (case free dir of None \<Rightarrow> None | Some f \<Rightarrow> if f < required then Some (NotEnoughSpace required f) else None)"

definition CheckConvertSpace ::
  "move_io \<Rightarrow> path \<Rightarrow> int \<Rightarrow> int \<Rightarrow> int \<Rightarrow> world \<Rightarrow> space_error option \<times> world" where
  "CheckConvertSpace io destDir archiveBytes minFree overhead w =
    (if destDir = '''' then (Some NoSpaceDir, w)
     else (let (made, w1) = mkdir_all io destDir w in
       if \<not> made then (Some (CannotMakeDir destDir), w1)
       else (check_free (io_free io) destDir (ConvertSpaceRequired archiveBytes minFree overhead), w1)))"

definition CheckZipRepackSpace :: "(path \<Rightarrow> int option) \<Rightarrow> path \<Rightarrow> int \<Rightarrow> int \<Rightarrow> int \<Rightarrow> space_error option" where
  "CheckZipRepackSpace free destDir peak overhead minFree =
    (if destDir = '''' then Some NoSpaceDir
     else check_free free destDir (ZipRepackSpaceRequired peak overhead minFree))"

definition CheckFlattenSpace :: "(path \<Rightarrow> int option) \<Rightarrow> path \<Rightarrow> int \<Rightarrow> int \<Rightarrow> int \<Rightarrow> space_error option" where
  "CheckFlattenSpace free destDir peak overhead minFree =
    (if destDir = '''' then Some NoSpaceDir
     else check_free free destDir (FlattenSpaceRequired peak overhead minFree))"

definition EstimateFlattenPeakDiskBytes :: "int \<Rightarrow> int" where
  "EstimateFlattenPeakDiskBytes sourceSize = wrap64 (clamp0 sourceSize + clamp0 sourceSize + clamp0 sourceSize)"

definition FlattenMinOKSize :: "int \<Rightarrow> int" where
  "FlattenMinOKSize sourceSize =
    (if sourceSize \<ge> 104857600
     then (let minOK = sourceSize div 20 in if minOK < 67108864 then 67108864 else minOK)
     else (let minOK = (if sourceSize < 0 then - ((- sourceSize) div 2) else sourceSize div 2) in
           if minOK < 200 then 200 else minOK))"

definition ZipRepackMinOKSize :: "int \<Rightarrow> int" where
  "ZipRepackMinOKSize sourceSize =
    (let minOK = (if sourceSize < 0 then - ((- sourceSize) div 4) else sourceSize div 4) in
     if minOK < 1024 then 1024 else minOK)"

record zip_estimate =
  ze_source :: int
  ze_uncompressed :: int
  ze_peak :: int

text \<open>\<open>zm_uncompressed\<close> is the 64-bit unsigned size of the zip directory.\<close>

definition EstimateZipRepackPeakDiskBytes ::
  "(path \<Rightarrow> zip_member list option) \<Rightarrow> world \<Rightarrow> path \<Rightarrow> zip_estimate option" where
  "EstimateZipRepackPeakDiskBytes zips w source =
    (case (file_size w source, zips source) of
       (Some sz, Some ms) \<Rightarrow>
         (let unc = wrap64 (sum_list (map (\<lambda>m. wrap64 (zm_uncompressed m)) (filter (\<lambda>m. \<not> zm_is_dir m) ms))) in
          Some \<lparr>ze_source = sz, ze_uncompressed = unc, ze_peak = wrap64 (sz + unc + unc)\<rparr>)
     | _ \<Rightarrow> None)"

subsection \<open>Listings of 7z\<close>

fun drop_cr :: "string \<Rightarrow> string" where
  "drop_cr [] = []"
| "drop_cr (c # cs) =
    (if c = CHR 0x0D then (case cs of d # ds \<Rightarrow> if d = CHR 0x0A then drop_cr cs else c # drop_cr cs | [] \<Rightarrow> [c])
     else c # drop_cr cs)"

definition list_lines :: "string \<Rightarrow> string list" where
  "list_lines text_out = filter (\<lambda>l. l \<noteq> '''') (map trim_space (split_on CHR 0x0A (drop_cr text_out)))"

definition keyVal :: "string \<Rightarrow> string \<Rightarrow> string option" where
  "keyVal line key =
    (if CHR ''='' \<notin> set line then None
     else (let k = trim_space (takeWhile (\<lambda>c. c \<noteq> CHR ''='') line);
               v = trim_space (drop 1 (dropWhile (\<lambda>c. c \<noteq> CHR ''='') line)) in
       if equal_fold k key then Some v else None))"

definition isKeyValFold :: "string \<Rightarrow> string \<Rightarrow> string \<Rightarrow> bool" where
  "isKeyValFold line key want \<longleftrightarrow> keyVal line key = Some want"

definition encryptedListPhrases :: "string list" where
  "encryptedListPhrases =
    [''wrong password'', ''enter password'', ''encrypted archive'', ''can not open encrypted'',
     ''cannot open encrypted'', ''data error in encrypted file'', ''encrypted header'', ''headers encrypted'']"

definition Parse7zListEncrypted :: "string \<Rightarrow> bool" where
  "Parse7zListEncrypted out =
    (if trim_space out = '''' then False
     else list_ex (str_contains (to_lower (drop_cr out))) encryptedListPhrases
       \<or> list_ex (\<lambda>l. isKeyValFold l ''Encrypted'' ''+'') (list_lines out))"

definition Parse7zListIsSolid :: "string \<Rightarrow> bool" where
  "Parse7zListIsSolid out =
    (if trim_space out = '''' then False else list_ex (\<lambda>l. isKeyValFold l ''Solid'' ''+'') (list_lines out))"

definition isNested7zMember :: "string \<Rightarrow> bool" where
  "isNested7zMember memberPath =
    (let p = trim_space memberPath in
     if p = '''' \<or> has_suffix p ''/'' \<or> has_suffix p [CHR 0x5C] then False
     else has_suffix (to_lower (last (split_on CHR ''/'' (to_slashes p)))) ''.7z'')"

fun flatten_signal :: "bool \<Rightarrow> string list \<Rightarrow> bool" where
  "flatten_signal inFiles [] = False"
| "flatten_signal inFiles (l # ls) =
    (if has_prefix l ''----------'' then flatten_signal True ls
     else if isKeyValFold l ''Solid'' ''+'' then True
     else if inFiles \<and> (case keyVal l ''Path'' of Some p \<Rightarrow> isNested7zMember p | None \<Rightarrow> False) then True
     else flatten_signal inFiles ls)"

definition Parse7zListNeedsFlatten :: "string \<Rightarrow> bool" where
  "Parse7zListNeedsFlatten out =
    (if trim_space out = '''' then False
     else if Parse7zListEncrypted out then False
     else flatten_signal False (list_lines out))"

text \<open>\<open>lister\<close> runs 7z and gives its combined output and whether it failed.\<close>

type_synonym lister = "string \<Rightarrow> string list \<Rightarrow> string \<times> string option"

definition Probe7zNeedsFlatten :: "lister \<Rightarrow> string \<Rightarrow> path \<Rightarrow> bool" where
  "Probe7zNeedsFlatten lister bin p =
    (let p' = trim_space p in
     if p' = '''' \<or> \<not> IsSevenzPath p' then False
     else (let out = fst (lister (if trim_space bin = '''' then ''7z'' else bin) [''l'', ''-slt'', p']) in
       if trim_space out = '''' then False else Parse7zListNeedsFlatten out))"

definition Probe7zEncrypted :: "lister \<Rightarrow> string \<Rightarrow> path \<Rightarrow> bool" where
  "Probe7zEncrypted lister bin p =
    (let p' = trim_space p in
     if p' = '''' \<or> \<not> IsSevenzPath p' then False
     else Parse7zListEncrypted (fst (lister (if trim_space bin = '''' then ''7z'' else bin) [''l'', ''-slt'', p'])))"

definition RefuseIfEncrypted7z :: "lister \<Rightarrow> string \<Rightarrow> path \<Rightarrow> bool" where
  "RefuseIfEncrypted7z lister bin p =
    (let p' = trim_space p in
     if p' = '''' then False
     else Parse7zListEncrypted (fst (lister (if trim_space bin = '''' then ''7z'' else bin) [''l'', ''-slt'', p'])))"

definition CLIFlattenNeeded :: "lister \<Rightarrow> config \<Rightarrow> resolve_opts \<Rightarrow> path \<Rightarrow> bool" where
  "CLIFlattenNeeded lister cfg opts p =
    (if \<not> SevenZipAvailable cfg opts then False
     else Probe7zNeedsFlatten lister (EffectiveSevenZipBin cfg opts) p)"

definition DefaultFlattenNeeded :: "lister \<Rightarrow> config \<Rightarrow> resolve_opts \<Rightarrow> (path \<Rightarrow> bool) option" where
  "DefaultFlattenNeeded lister cfg opts =
    (if \<not> c_7z_nonsolid cfg \<or> \<not> ScopeIsFlatten (c_7z_scope cfg) then None
     else Some (CLIFlattenNeeded lister cfg opts))"

subsection \<open>Child environment\<close>

fun env_to_map :: "string list \<Rightarrow> (string \<times> string) list \<Rightarrow> (string \<times> string) list" where
  "env_to_map [] m = m"
| "env_to_map (e # es) m =
    env_to_map es
      (if CHR ''='' \<in> set e
       then kput fst (takeWhile (\<lambda>c. c \<noteq> CHR ''='') e, drop 1 (dropWhile (\<lambda>c. c \<noteq> CHR ''='') e)) m
       else if e \<noteq> '''' then kput fst (e, '''') m else m)"

definition ApplyNonsolidEnv :: "(string \<times> string) list \<Rightarrow> config \<Rightarrow> (string \<times> string) list" where
  "ApplyNonsolidEnv m cfg =
    (if \<not> c_7z_nonsolid cfg \<or> ScopeIsFlatten (c_7z_scope cfg) then m
     else kput fst (''TARMOUNT_7Z_NONSOLID_OVERHEAD_BYTES'', itoa (c_7z_overhead cfg))
       (kput fst (''TARMOUNT_7Z_NONSOLID'', ''1'') m))"

text \<open>The order of the resulting slice is that of a Go map iteration: any; here, insertion order.\<close>

definition ApplyNonsolidEnvSlice :: "string list \<Rightarrow> config \<Rightarrow> string list" where
  "ApplyNonsolidEnvSlice base cfg =
    (if \<not> c_7z_nonsolid cfg \<or> ScopeIsFlatten (c_7z_scope cfg) then base
     else map (\<lambda>kv. fst kv @ ''='' @ snd kv) (ApplyNonsolidEnv (env_to_map base []) cfg))"

subsection \<open>Status labels\<close>

definition ConvertProgressLabel :: "string \<Rightarrow> string" where
  "ConvertProgressLabel st = (if st = ''converting'' then ''converting to non-solid'' else '''')"

definition CanEnterConverting :: "string \<Rightarrow> bool" where
  "CanEnterConverting st = (case parse_status st of None \<Rightarrow> False | Some f \<Rightarrow> StatusConverting \<in> set (ALLOWED_TRANSITIONS f))"

definition CanLeaveConverting :: "string \<Rightarrow> bool" where
  "CanLeaveConverting st = (case parse_status st of None \<Rightarrow> False | Some t \<Rightarrow> t \<in> set (ALLOWED_TRANSITIONS StatusConverting))"

end
