(* ===== verification/ConvertRun.thy ===== *)
theory ConvertRun
  imports Convert "HOL-Library.Char_ord" "HOL-Library.List_Lexorder"
begin

text \<open>
  The conversions themselves, run with the 7z command line: a zip repacked beside itself
  (ziprepack_run.go), a 7z flattened in place (flatten_run.go), and the non-solid copy in the
  cache of scope outer/all (outer_cache.go).  7z is the field \<open>tl_run\<close> of the tools: an argument
  vector and a working directory transform the world, with the error text of a failed run.
  \<open>tl_list\<close> gives the output of a listing, \<open>tl_write\<close> the size of a sidecar that could be written.
  The content of the sidecars is threaded beside the sizes of the files.
\<close>

subsection \<open>Tools and files\<close>

record tools =
  tl_cwd :: path
  tl_io :: move_io
  tl_zips :: "path \<Rightarrow> zip_member list option"
  tl_run :: "string list \<Rightarrow> path \<Rightarrow> world \<Rightarrow> string option \<times> world"
  tl_list :: "world \<Rightarrow> lister"
  tl_write :: "path \<Rightarrow> int option"
  tl_now :: string
  tl_seconds :: rat

datatype convert_error =
    NotAZip path | NotASevenz path | ArchiveNotFound path | NoEmbeddedArchives path
  | EstimateFailed path | SpaceRefused space_error | MkdirFailed path | Run7zFailed string
  | NoOutput path | OutputTooSmall int int | BackupFailed path | RemoveSourceFailed path
  | RenamePartialFailed path | StatResultFailed path | WalkFailed path | EncryptedArchive path
  | ListFailed path | ListEmpty path | StillSolid path | LockFailed path | MetadataFailed path

record convert_state =
  cs_world :: world
  cs_json :: "path \<Rightarrow> jobject option"

definition sidecars :: "convert_state \<Rightarrow> path \<Rightarrow> jobject option" where
  "sidecars s p = (if is_file (cs_world s) p then cs_json s p else None)"

definition remove_tree :: "path \<Rightarrow> world \<Rightarrow> world" where
  "remove_tree d w =
    (let inside = (\<lambda>q. q = d \<or> below d q);
         fs = filter (\<lambda>f. \<not> inside (fst f) \<or> fst f \<in> set (w_locked w)) (w_files w) in
     w\<lparr>w_files := fs, w_dirs := filter (\<lambda>q. \<not> inside q \<or> list_ex (\<lambda>f. below q (fst f)) fs) (w_dirs w)\<rparr>)"

definition rename_file :: "move_io \<Rightarrow> path \<Rightarrow> path \<Rightarrow> world \<Rightarrow> bool \<times> world" where
  "rename_file io src dest w =
    (case file_size w src of
       Some n \<Rightarrow>
         (if io_rename io src dest \<and> dest \<notin> set (w_dirs w)
          then (True, put_file dest n (w\<lparr>w_files := kremove fst src (w_files w)\<rparr>)) else (False, w))
     | None \<Rightarrow> (False, w))"

definition WriteConvertMetadata :: "tools \<Rightarrow> path \<Rightarrow> metadata \<Rightarrow> convert_state \<Rightarrow> bool \<times> convert_state" where
  "WriteConvertMetadata t p m s =
    (if p = '''' then (False, s)
     else (case tl_write t (MetadataPath p) of
             None \<Rightarrow> (False, s)
           | Some n \<Rightarrow>
               (True, s\<lparr>cs_world := put_file (MetadataPath p) n (cs_world s),
                        cs_json := (cs_json s)(MetadataPath p \<mapsto> metadata_object m)\<rparr>)))"

text \<open>Seconds since the start, truncated to milliseconds.\<close>

definition duration_ms :: "rat \<Rightarrow> rat" where
  "duration_ms secs = of_int \<lfloor>(if secs < 0 then 0 else secs) * 1000\<rfloor> / 1000"

subsection \<open>Zip repack\<close>

record zip_params =
  zp_bin :: string
  zp_overhead :: int
  zp_min_free :: int
  zp_keep :: bool

definition ZipRepackParamsFromConfig :: "config \<Rightarrow> resolve_opts \<Rightarrow> zip_params" where
  "ZipRepackParamsFromConfig cfg opts =
    \<lparr>zp_bin = EffectiveSevenZipBin cfg opts, zp_overhead = c_7z_overhead cfg,
     zp_min_free = c_min_free_bytes cfg, zp_keep = True\<rparr>"

text \<open>The steps from the created partial on: size floor, backup or removal of the source, rename.\<close>

definition repack_replace :: "tools \<Rightarrow> bool \<Rightarrow> path \<Rightarrow> int \<Rightarrow> path \<Rightarrow> path \<Rightarrow> world \<Rightarrow> (convert_error + path) \<times> world" where
  "repack_replace t keep source sz partial dest w =
    (case file_size w partial of
       None \<Rightarrow> (Inl (NoOutput partial), snd (remove_path partial w))
     | Some n \<Rightarrow>
        (if n < ZipRepackMinOKSize sz
         then (Inl (OutputTooSmall n (ZipRepackMinOKSize sz)), snd (remove_path partial w))
         else
          (let (ok, w1) =
             (if keep
              then rename_file (tl_io t) source (ZipRepackBackupPath source)
                     (snd (remove_path (ZipRepackBackupPath source) w))
              else remove_path source w) in
           if \<not> ok
           then (Inl (if keep then BackupFailed source else RemoveSourceFailed source), snd (remove_path partial w1))
           else
            (let w2 = (if path_exists w1 dest then snd (remove_path dest w1) else w1);
                 (renamed, w3) = rename_file (tl_io t) partial dest w2 in
             if \<not> renamed then (Inl (RenamePartialFailed partial), w3) else (Inr dest, w3)))))"

definition RepackZipTo7zInplace :: "tools \<Rightarrow> zip_params \<Rightarrow> path \<Rightarrow> world \<Rightarrow> (convert_error + path) \<times> world" where
  "RepackZipTo7zInplace t p source0 w =
    (let source = path_clean source0; bin = bin_or_7z (zp_bin p);
         dest = ZipRepackDestPath source; partial = ZipRepackPartialPath dest; work = ZipRepackWorkDir source in
     if \<not> IsZipPath source then (Inl (NotAZip source), w)
     else (case file_size w source of
       None \<Rightarrow> (Inl (NotAZip source), w)
     | Some sz \<Rightarrow>
        (if \<not> ZipHasEmbeddedArchives (tl_zips t) w source then (Inl (NoEmbeddedArchives source), w)
         else (case EstimateZipRepackPeakDiskBytes (tl_zips t) w source of
           None \<Rightarrow> (Inl (EstimateFailed source), w)
         | Some est \<Rightarrow>
            (case CheckZipRepackSpace (io_free (tl_io t)) (path_dir dest) (ze_peak est) (zp_overhead p) (zp_min_free p) of
               Some e \<Rightarrow> (Inl (SpaceRefused e), w)
             | None \<Rightarrow>
                (let (made, w1) = mkdir_all (tl_io t) work (remove_tree work w) in
                 if \<not> made then (Inl (MkdirFailed work), w1)
                 else
                  (let w2 = snd (remove_path partial w1);
                       (e1, w3) = tl_run t (BuildZipExtractCmd bin (path_abs (tl_cwd t) source) (path_abs (tl_cwd t) work)) '''' w2 in
                   case e1 of
                     Some msg \<Rightarrow> (Inl (Run7zFailed msg), remove_tree work w3)
                   | None \<Rightarrow>
                      (let (e2, w4) = tl_run t (BuildZipCreate7zCmd bin (path_abs (tl_cwd t) partial))
                                        (path_abs (tl_cwd t) work) w3 in
                       case e2 of
                         Some msg \<Rightarrow> (Inl (Run7zFailed msg), remove_tree work (snd (remove_path partial w4)))
                       | None \<Rightarrow>
                          (let (res, w5) = repack_replace t (zp_keep p) source sz partial dest w4 in
                           (res, remove_tree work w5))))))))))"

definition RunZipRepack ::
  "tools \<Rightarrow> zip_params \<Rightarrow> path \<Rightarrow> convert_state \<Rightarrow> (convert_error + path \<times> metadata) \<times> convert_state" where
  "RunZipRepack t p source0 s =
    (let source = path_clean source0; dest = ZipRepackDestPath source in
     case file_size (cs_world s) source of
       None \<Rightarrow> (Inl (ArchiveNotFound source), s)
     | Some sz \<Rightarrow>
        (case (ReadConvertMetadata (sidecars s) dest, is_file (cs_world s) dest) of
           (Some m, True) \<Rightarrow> (Inr (dest, m), s)
         | _ \<Rightarrow>
          (case RepackZipTo7zInplace t p source (cs_world s) of
             (Inl e, w1) \<Rightarrow> (Inl e, s\<lparr>cs_world := w1\<rparr>)
           | (Inr result, w1) \<Rightarrow>
              (case file_size w1 result of
                 None \<Rightarrow> (Inl (StatResultFailed result), s\<lparr>cs_world := w1\<rparr>)
               | Some n \<Rightarrow>
                  (let m = BuildConvertMetadata (tl_now t) sz n ''zip-repack-7z'' (Some (duration_ms (tl_seconds t)));
                       (written, s1) = WriteConvertMetadata t result m (s\<lparr>cs_world := w1\<rparr>) in
                   if written then (Inr (result, m), s1) else (Inl (MetadataFailed result), s1))))))"

subsection \<open>Flatten\<close>

record flatten_params =
  fp_bin :: string
  fp_overhead :: int
  fp_min_free :: int
  fp_strip :: string
  fp_exclude :: "string list"

definition FlattenParamsFromConfig :: "config \<Rightarrow> resolve_opts \<Rightarrow> flatten_params" where
  "FlattenParamsFromConfig cfg opts =
    \<lparr>fp_bin = EffectiveSevenZipBin cfg opts, fp_overhead = c_7z_overhead cfg,
     fp_min_free = c_min_free_bytes cfg, fp_strip = c_7z_prefix_strip cfg, fp_exclude = c_7z_flatten_exclude cfg\<rparr>"

text \<open>filepath.Rel on two absolute paths.\<close>

fun rel_comps :: "string list \<Rightarrow> string list \<Rightarrow> string list" where
  "rel_comps [] cs = cs"
| "rel_comps (b # bs) [] = replicate (length (b # bs)) ''..''"
| "rel_comps (b # bs) (c # cs) = (if b = c then rel_comps bs cs else replicate (length (b # bs)) ''..'' @ c # cs)"

definition path_rel :: "path \<Rightarrow> path \<Rightarrow> path" where
  "path_rel base targ =
    (let cs = rel_comps (rev (clean_comps True [] (split_on CHR ''/'' base))) (rev (clean_comps True [] (split_on CHR ''/'' targ))) in
     if cs = [] then ''.'' else join_with ''/'' cs)"

text \<open>The regular files below a directory in the order of filepath.Walk.\<close>

definition walk_files :: "path \<Rightarrow> world \<Rightarrow> path list" where
  "walk_files d w = sort_key (split_on CHR ''/'') (filter (below d) (map fst (w_files w)))"

text \<open>The exchange sort that puts the longest paths first.\<close>

fun exchange_pass :: "path \<Rightarrow> path list \<Rightarrow> path \<times> path list" where
  "exchange_pass x [] = (x, [])"
| "exchange_pass x (y # ys) =
    (if length y > length x
     then (let (m, r) = exchange_pass y ys in (m, x # r))
     else (let (m, r) = exchange_pass x ys in (m, y # r)))"

lemma exchange_pass_length [simp]: "length (snd (exchange_pass x ys)) = length ys"
  by (induction x ys rule: exchange_pass.induct) (simp_all add: case_prod_beta)

function longest_first :: "path list \<Rightarrow> path list" where
  "longest_first [] = []"
| "longest_first (x # xs) = fst (exchange_pass x xs) # longest_first (snd (exchange_pass x xs))"
  by pat_completeness auto
termination by (relation "measure length") auto

definition escapes :: "path \<Rightarrow> path \<Rightarrow> bool" where
  "escapes work outDir = (let r = path_rel work outDir in r = ''..'' \<or> has_prefix r ''../'')"

definition expand_one ::
  "tools \<Rightarrow> string \<Rightarrow> string \<Rightarrow> string list \<Rightarrow> path \<Rightarrow> path \<Rightarrow> world \<Rightarrow> convert_error option \<times> world" where
  "expand_one t bin strip excludes work p w =
    (if \<not> is_file w p then (None, w)
     else
      (let (e1, w1) = tl_run t (BuildFlattenTestCmd bin p) '''' w in
       if e1 \<noteq> None then (None, snd (remove_path p w1))
       else
        (let outDir = path_join work (NestedFlattenPrefix (path_rel work p) strip) in
         if escapes work outDir then (None, snd (remove_path p w1))
         else
          (let (made, w2) = mkdir_all (tl_io t) outDir w1 in
           if \<not> made then (Some (MkdirFailed outDir), w2)
           else
            (let (e2, w3) = tl_run t
                 (BuildFlattenExtractCmd bin (path_abs (tl_cwd t) p) (path_abs (tl_cwd t) outDir) excludes) '''' w2 in
             if e2 \<noteq> None then (None, snd (remove_path p (remove_tree outDir w3)))
             else (None, snd (remove_path p w3)))))))"

fun expand_all ::
  "tools \<Rightarrow> string \<Rightarrow> string \<Rightarrow> string list \<Rightarrow> path \<Rightarrow> path list \<Rightarrow> world \<Rightarrow> convert_error option \<times> world" where
  "expand_all t bin strip excludes work [] w = (None, w)"
| "expand_all t bin strip excludes work (p # ps) w =
    (case expand_one t bin strip excludes work p w of
       (Some e, w1) \<Rightarrow> (Some e, w1)
     | (None, w1) \<Rightarrow> expand_all t bin strip excludes work ps w1)"

definition expandNestedSevenZ ::
  "tools \<Rightarrow> string \<Rightarrow> string \<Rightarrow> string list \<Rightarrow> path \<Rightarrow> world \<Rightarrow> convert_error option \<times> world" where
  "expandNestedSevenZ t bin strip excludes work w =
    (if \<not> path_exists w work then (Some (WalkFailed work), w)
     else expand_all t bin strip excludes work (longest_first (filter IsSevenzPath (walk_files work w))) w)"

definition flatten_replace :: "path \<Rightarrow> int \<Rightarrow> path \<Rightarrow> tools \<Rightarrow> world \<Rightarrow> convert_error option \<times> world" where
  "flatten_replace source sz partial t w =
    (case file_size w partial of
       None \<Rightarrow> (Some (NoOutput partial), snd (remove_path partial w))
     | Some n \<Rightarrow>
        (if n < FlattenMinOKSize sz
         then (Some (OutputTooSmall n (FlattenMinOKSize sz)), snd (remove_path partial w))
         else
          (let (gone, w1) = remove_path source w in
           if \<not> gone then (Some (RemoveSourceFailed source), snd (remove_path partial w1))
           else
            (let (renamed, w2) = rename_file (tl_io t) partial source w1 in
             (if renamed then None else Some (RenamePartialFailed partial), w2)))))"

definition flatten7zInplace :: "tools \<Rightarrow> flatten_params \<Rightarrow> path \<Rightarrow> world \<Rightarrow> convert_error option \<times> world" where
  "flatten7zInplace t p source w0 =
    (let bin = bin_or_7z (fp_bin p); partial = FlattenPartialPath source; work = FlattenWorkDir partial;
         srcAbs = path_abs (tl_cwd t) source; workAbs = path_abs (tl_cwd t) work; partialAbs = path_abs (tl_cwd t) partial;
         w = remove_tree work (snd (remove_path partial w0)) in
     case file_size w source of
       None \<Rightarrow> (Some (StatResultFailed source), w)
     | Some sz \<Rightarrow>
        (case CheckFlattenSpace (io_free (tl_io t)) (path_dir source) (EstimateFlattenPeakDiskBytes sz)
                (fp_overhead p) (fp_min_free p) of
           Some e \<Rightarrow> (Some (SpaceRefused e), w)
         | None \<Rightarrow>
            (let (made, w1) = mkdir_all (tl_io t) work w in
             if \<not> made then (Some (MkdirFailed work), w1)
             else
              (let (e1, w2) = tl_run t (BuildFlattenExtractCmd bin srcAbs workAbs (fp_exclude p)) '''' w1 in
               case e1 of
                 Some msg \<Rightarrow> (Some (Run7zFailed msg), remove_tree work w2)
               | None \<Rightarrow>
                  (case expandNestedSevenZ t bin (fp_strip p) (fp_exclude p) workAbs w2 of
                     (Some e, w3) \<Rightarrow> (Some e, remove_tree work (snd (remove_path partial w3)))
                   | (None, w3) \<Rightarrow>
                      (let (e2, w4) = tl_run t (BuildFlattenCreateCmd bin partialAbs) workAbs w3 in
                       case e2 of
                         Some msg \<Rightarrow> (Some (Run7zFailed msg), remove_tree work (snd (remove_path partial w4)))
                       | None \<Rightarrow>
                          (let (res, w5) = flatten_replace source sz partial t w4 in (res, remove_tree work w5))))))))"

text \<open>\<open>needsFlatten\<close> is the injected probe; without a need the existing metadata is returned.\<close>

definition RunFlattenConvert ::
  "tools \<Rightarrow> flatten_params \<Rightarrow> (path \<Rightarrow> bool) option \<Rightarrow> path \<Rightarrow> convert_state
    \<Rightarrow> (convert_error + metadata option) \<times> convert_state" where
  "RunFlattenConvert t p needsFlatten archivePath0 s =
    (let source = path_clean archivePath0 in
     case file_size (cs_world s) source of
       None \<Rightarrow> (Inl (ArchiveNotFound source), s)
     | Some sz \<Rightarrow>
        (if \<not> IsSevenzPath source then (Inl (NotASevenz source), s)
         else if (case needsFlatten of None \<Rightarrow> True | Some f \<Rightarrow> \<not> f source)
         then (Inr (ReadConvertMetadata (sidecars s) source), s)
         else if RefuseIfEncrypted7z (tl_list t (cs_world s)) (bin_or_7z (fp_bin p)) source
         then (Inl (EncryptedArchive source), s)
         else
          (case flatten7zInplace t p source (cs_world s) of
             (Some e, w1) \<Rightarrow> (Inl e, s\<lparr>cs_world := w1\<rparr>)
           | (None, w1) \<Rightarrow>
              (case file_size w1 source of
                 None \<Rightarrow> (Inl (StatResultFailed source), s\<lparr>cs_world := w1\<rparr>)
               | Some n \<Rightarrow>
                  (let m = BuildConvertMetadata (tl_now t) sz n ''flatten-cli'' (Some (duration_ms (tl_seconds t)));
                       (written, s1) = WriteConvertMetadata t source m (s\<lparr>cs_world := w1\<rparr>) in
                   if written then (Inr (Some m), s1) else (Inl (MetadataFailed source), s1))))))"

subsection \<open>Non-solid cache\<close>

text \<open>
  \<open>sha\<close> is the hex digest, \<open>mtime\<close> the modification time in nanoseconds; the home and temporary
  directory name the default cache.
\<close>

record cache_env =
  ca_sha :: "string \<Rightarrow> string"
  ca_mtime :: "path \<Rightarrow> int"
  ca_home :: path
  ca_tmp :: path

definition DefaultNonsolidCacheDir :: "cache_env \<Rightarrow> config \<Rightarrow> path" where
  "DefaultNonsolidCacheDir ca cfg =
    (if trim_space (c_7z_cache_dir cfg) \<noteq> '''' then trim_space (c_7z_cache_dir cfg)
     else if ca_home ca = '''' then path_join (ca_tmp ca) ''mount-wrapper/non-solid-7z''
     else path_join (ca_home ca) ''.cache/mount-wrapper/non-solid-7z'')"

record cache_params =
  np_bin :: string
  np_overhead :: int
  np_min_free :: int
  np_dir :: path

definition NonsolidCacheParamsFromConfig :: "cache_env \<Rightarrow> config \<Rightarrow> resolve_opts \<Rightarrow> cache_params" where
  "NonsolidCacheParamsFromConfig ca cfg opts =
    \<lparr>np_bin = EffectiveSevenZipBin cfg opts, np_overhead = c_7z_overhead cfg,
     np_min_free = c_min_free_bytes cfg, np_dir = DefaultNonsolidCacheDir ca cfg\<rparr>"

definition CacheKeyForSource :: "tools \<Rightarrow> cache_env \<Rightarrow> world \<Rightarrow> path \<Rightarrow> string option" where
  "CacheKeyForSource t ca w source0 =
    (let source = trim_space source0; ap = path_abs (tl_cwd t) source in
     if source = '''' then None
     else map_option (\<lambda>n. ca_sha ca (ap @ itoa n @ itoa (ca_mtime ca ap))) (file_size w ap))"

definition NonsolidCacheDestPath :: "tools \<Rightarrow> cache_env \<Rightarrow> world \<Rightarrow> path \<Rightarrow> path \<Rightarrow> path" where
  "NonsolidCacheDestPath t ca w cacheDir0 source =
    (let cacheDir = (if trim_space cacheDir0 = '''' then path_join (ca_tmp ca) ''mount-wrapper/non-solid-7z''
                     else trim_space cacheDir0);
         base = path_base source in
     case CacheKeyForSource t ca w source of
       Some k \<Rightarrow> if k = '''' then path_join cacheDir (if base \<in> {'''', ''.'', ''/''} then ''archive.7z'' else base)
                 else path_join cacheDir (k @ ''.7z'')
     | None \<Rightarrow> path_join cacheDir (if base \<in> {'''', ''.'', ''/''} then ''archive.7z'' else base))"

definition ResolveMountArchivePath :: "tools \<Rightarrow> cache_env \<Rightarrow> config \<Rightarrow> world \<Rightarrow> path \<Rightarrow> path" where
  "ResolveMountArchivePath t ca cfg w p =
    (if \<not> c_7z_nonsolid cfg \<or> \<not> IsSevenzPath p then p
     else if ScopeIsFlatten (c_7z_scope cfg) then p
     else if \<not> ScopeUsesOuterCache (c_7z_scope cfg) then p
     else NonsolidCacheDestPath t ca w (DefaultNonsolidCacheDir ca cfg) p)"

definition NonsolidCacheLockPath :: "path \<Rightarrow> path" where
  "NonsolidCacheLockPath dest =
    (if has_suffix dest ''.7z'' then trim_suffix dest ''.7z'' @ ''.lock'' else dest @ ''.lock'')"

definition NonsolidCacheDestFromLockPath :: "path \<Rightarrow> path" where
  "NonsolidCacheDestFromLockPath lockPath =
    (let p = trim_space lockPath in
     if p = '''' \<or> \<not> has_suffix p ''.lock'' then ''''
     else if trim_suffix p ''.lock'' = '''' then '''' else trim_suffix p ''.lock'' @ ''.7z'')"

definition NonsolidPartialPath :: "path \<Rightarrow> path" where
  "NonsolidPartialPath dest = (if dest = '''' then '''' else dest @ ''.nonsolid.partial'')"

definition NonsolidPartialWorkPath :: "path \<Rightarrow> path" where
  "NonsolidPartialWorkPath dest = (if dest = '''' then '''' else dest @ ''.nonsolid.partial.work'')"

definition nonsolidCacheHit :: "tools \<Rightarrow> world \<Rightarrow> path \<Rightarrow> string \<Rightarrow> bool" where
  "nonsolidCacheHit t w dest bin =
    (case file_size w dest of
       None \<Rightarrow> False
     | Some n \<Rightarrow>
        (if n \<le> 0 then False
         else (let out = fst (tl_list t w bin [''l'', ''-slt'', dest]) in
               trim_space out \<noteq> '''' \<and> \<not> Parse7zListEncrypted out \<and> \<not> Parse7zListIsSolid out)))"

definition writeNonsolidCacheHitMetadata :: "tools \<Rightarrow> path \<Rightarrow> path \<Rightarrow> convert_state \<Rightarrow> convert_state" where
  "writeNonsolidCacheHitMetadata t source dest s =
    (if HasConvertMetadata (sidecars s) dest then s
     else (case (file_size (cs_world s) source, file_size (cs_world s) dest) of
             (Some a, Some b) \<Rightarrow>
               (if b \<le> 0 then s
                else snd (WriteConvertMetadata t dest (BuildConvertMetadata (tl_now t) a b ''outer-nonsolid-cli'' None) s))
           | _ \<Rightarrow> s))"

definition rename_or_copy :: "move_io \<Rightarrow> path \<Rightarrow> path \<Rightarrow> world \<Rightarrow> bool \<times> world" where
  "rename_or_copy io partial dest w =
    (let (renamed, w1) = rename_file io partial dest w in
     if renamed then (True, w1)
     else (let (copied, w2) = copyFileContents io partial dest w1 in
           if copied then (True, snd (remove_path partial w2)) else (False, w2)))"

definition populateOuterNonsolidCache :: "tools \<Rightarrow> path \<Rightarrow> path \<Rightarrow> string \<Rightarrow> world \<Rightarrow> convert_error option \<times> world" where
  "populateOuterNonsolidCache t source dest bin w0 =
    (let partial = NonsolidPartialPath dest; work = NonsolidPartialWorkPath dest;
         tidy = (\<lambda>w. remove_tree work (snd (remove_path partial w)));
         (made, w1) = mkdir_all (tl_io t) work (tidy w0) in
     if \<not> made then (Some (MkdirFailed work), tidy w1)
     else
      (let (made2, w2) = mkdir_all (tl_io t) (path_dir dest) w1 in
       if \<not> made2 then (Some (MkdirFailed (path_dir dest)), tidy w2)
       else
        (let (e1, w3) = tl_run t (BuildFlattenExtractCmd bin (path_abs (tl_cwd t) source) (path_abs (tl_cwd t) work) []) '''' w2 in
         case e1 of
           Some msg \<Rightarrow> (Some (Run7zFailed msg), tidy w3)
         | None \<Rightarrow>
            (let (e2, w4) = tl_run t (BuildFlattenCreateCmd bin (path_abs (tl_cwd t) partial)) (path_abs (tl_cwd t) work) w3 in
             case e2 of
               Some msg \<Rightarrow> (Some (Run7zFailed msg), tidy w4)
             | None \<Rightarrow>
                (if \<not> is_file w4 partial then (Some (NoOutput partial), tidy w4)
                 else
                  (let (ok, w5) = rename_or_copy (tl_io t) partial dest (snd (remove_path dest w4)) in
                   (if ok then None else Some (RenamePartialFailed partial), tidy w5)))))))"

definition wrapOuterCacheRunError :: "path \<Rightarrow> convert_error \<Rightarrow> convert_error" where
  "wrapOuterCacheRunError source e =
    (case e of Run7zFailed msg \<Rightarrow> if Parse7zListEncrypted msg then EncryptedArchive source else e | _ \<Rightarrow> e)"

text \<open>The critical section; \<open>locked\<close> tells whether the lock file could be opened and locked.\<close>

definition cache_populate ::
  "tools \<Rightarrow> cache_params \<Rightarrow> string \<Rightarrow> path \<Rightarrow> path \<Rightarrow> path \<Rightarrow> int \<Rightarrow> convert_state \<Rightarrow> (convert_error + path) \<times> convert_state" where
  "cache_populate t p bin cacheDir source dest sz s =
    (if nonsolidCacheHit t (cs_world s) dest bin then (Inr dest, writeNonsolidCacheHitMetadata t source dest s)
     else (case CheckFlattenSpace (io_free (tl_io t)) cacheDir (EstimateFlattenPeakDiskBytes sz) (np_overhead p) (np_min_free p) of
       Some e \<Rightarrow> (Inl (SpaceRefused e), s)
     | None \<Rightarrow>
        (case populateOuterNonsolidCache t source dest bin (cs_world s) of
           (Some e, w1) \<Rightarrow> (Inl (wrapOuterCacheRunError source e), s\<lparr>cs_world := w1\<rparr>)
         | (None, w1) \<Rightarrow>
            (let drop_dest = s\<lparr>cs_world := snd (remove_path dest w1)\<rparr> in
             case file_size w1 dest of
               None \<Rightarrow> (Inl (NoOutput dest), drop_dest)
             | Some n \<Rightarrow>
                (if n \<le> 0 then (Inl (NoOutput dest), drop_dest)
                 else if n < FlattenMinOKSize sz then (Inl (OutputTooSmall n (FlattenMinOKSize sz)), drop_dest)
                 else if \<not> nonsolidCacheHit t w1 dest bin then (Inl (StillSolid dest), drop_dest)
                 else
                  (Inr dest, snd (WriteConvertMetadata t dest
                     (BuildConvertMetadata (tl_now t) sz n ''outer-nonsolid-cli'' (Some (duration_ms (tl_seconds t))))
                     (s\<lparr>cs_world := w1\<rparr>))))))))"

definition EnsureNonsolidCachedCopy ::
  "tools \<Rightarrow> cache_env \<Rightarrow> (path \<Rightarrow> int option) \<Rightarrow> config \<Rightarrow> cache_params \<Rightarrow> path \<Rightarrow> convert_state
    \<Rightarrow> (convert_error + path) \<times> convert_state" where
  "EnsureNonsolidCachedCopy t ca lock cfg p source0 s =
    (let source = path_clean (trim_space source0); bin = bin_or_7z (np_bin p) in
     if \<not> c_7z_nonsolid cfg \<or> \<not> IsSevenzPath source then (Inr source, s)
     else if \<not> ScopeUsesOuterCache (c_7z_scope cfg) then (Inr source, s)
     else (case file_size (cs_world s) source of
       None \<Rightarrow> (Inl (ArchiveNotFound source), s)
     | Some sz \<Rightarrow>
        (let (out, lerr) = tl_list t (cs_world s) bin [''l'', ''-slt'', source] in
         if Parse7zListEncrypted out \<or> (case lerr of Some e \<Rightarrow> Parse7zListEncrypted e | None \<Rightarrow> False)
         then (Inl (EncryptedArchive source), s)
         else if lerr \<noteq> None then (Inl (ListFailed source), s)
         else if trim_space out = '''' then (Inl (ListEmpty source), s)
         else if \<not> Parse7zListIsSolid out then (Inr source, s)
         else
          (let cacheDir = (if trim_space (np_dir p) = '''' then DefaultNonsolidCacheDir ca cfg else trim_space (np_dir p));
               (made, w1) = mkdir_all (tl_io t) cacheDir (cs_world s); s1 = s\<lparr>cs_world := w1\<rparr> in
           if \<not> made then (Inl (MkdirFailed cacheDir), s1)
           else
            (let dest = NonsolidCacheDestPath t ca w1 cacheDir source in
             if nonsolidCacheHit t w1 dest bin then (Inr dest, writeNonsolidCacheHitMetadata t source dest s1)
             else
              (let (made2, w2) = mkdir_all (tl_io t) (path_dir (NonsolidCacheLockPath dest)) w1 in
               if \<not> made2 then (Inl (MkdirFailed (path_dir (NonsolidCacheLockPath dest))), s1\<lparr>cs_world := w2\<rparr>)
               else (case lock (NonsolidCacheLockPath dest) of
                  None \<Rightarrow> (Inl (LockFailed (NonsolidCacheLockPath dest)), s1\<lparr>cs_world := w2\<rparr>)
                | Some n \<Rightarrow>
                    cache_populate t p bin cacheDir source dest sz
                      (s1\<lparr>cs_world := put_file (NonsolidCacheLockPath dest) n w2\<rparr>))))))))"

end
