(* ===== verification/ConvertProps.thy ===== *)
theory ConvertProps
  imports ConvertRun ArchiveProps
begin

text \<open>
  What the conversions guarantee: a sidecar is read back as it was written, a converted archive is
  not converted again, a repack or flatten that fails leaves the archive behind, nested archives
  are expanded inside the work tree only, and the space check of a repack is sound below 2^63.
\<close>

subsection \<open>Files\<close>

lemma file_size_remove_tree:
  "\<not> (q = d \<or> below d q) \<Longrightarrow> file_size (remove_tree d w) q = file_size w q"
proof -
  assume "\<not> (q = d \<or> below d q)"
  then have "kfind fst q (filter P fs) = kfind fst q fs" if "\<And>n. P (q, n)" for P and fs :: "(path \<times> int) list"
    using that by (induction fs) auto
  from this [of "\<lambda>f. \<not> (fst f = d \<or> below d (fst f)) \<or> fst f \<in> set (w_locked w)"] show ?thesis
    using \<open>\<not> (q = d \<or> below d q)\<close> unfolding file_size_def remove_tree_def Let_def by simp
qed

lemma rename_file_ok:
  assumes "fst (rename_file io src dest w)"
  shows "file_size (snd (rename_file io src dest w)) q =
    (if q = dest then file_size w src else if q = src then None else file_size w q)"
  using assms by (auto simp: rename_file_def file_size_remove split: option.splits if_splits)

lemma rename_file_src: "fst (rename_file io src dest w) \<Longrightarrow> is_file w src"
  by (auto simp: rename_file_def is_file_def split: option.splits)

lemma rename_file_failed: "\<not> fst (rename_file io src dest w) \<Longrightarrow> snd (rename_file io src dest w) = w"
  by (auto simp: rename_file_def split: option.splits if_splits)

lemma has_prefix_iff: "has_prefix s p \<longleftrightarrow> (\<exists>r. s = p @ r)"
  by (auto dest: has_prefixD)

lemma below_longer: "below d q \<Longrightarrow> length q > length d"
  by (auto simp: below_def dest!: has_prefixD)

lemma split_on_last: "\<exists>pre. s = pre @ last (split_on c s) \<and> (c \<in> set s \<longrightarrow> (\<exists>p. pre = p @ [c]))"
proof (induction s)
  case (Cons x s)
  then obtain pre where pre: "s = pre @ last (split_on c s)" "c \<in> set s \<longrightarrow> (\<exists>p. pre = p @ [c])" by blast
  obtain a l where al: "split_on c s = a # l" by (cases "split_on c s") auto
  show ?case
  proof (cases "x = c")
    case True
    have "\<exists>p. c # pre = p @ [c]"
    proof (cases "c \<in> set s")
      case True
      with pre(2) show ?thesis by auto
    next
      case False
      then have "pre = []" using pre(1) by (simp add: split_on_notin)
      then show ?thesis by simp
    qed
    then show ?thesis using True pre(1) by (intro exI [of _ "c # pre"]) simp
  next
    case False
    show ?thesis
    proof (cases "l = []")
      case True
      then have "c \<notin> set s" using al pre(2) split_on_append
        by (metis append_is_Nil_conv last_ConsL list.distinct(1) split_list split_on_nonempty append_eq_Cons_conv)
      then show ?thesis using True False al by (intro exI [of _ "[]"]) (simp add: split_on_notin)
    next
      case l: False
      then have "last (split_on c (x # s)) = last (split_on c s)" using False al by simp
      moreover have "c \<in> set s"
      proof (rule ccontr)
        assume "c \<notin> set s"
        then show False using al l by (simp add: split_on_notin)
      qed
      ultimately show ?thesis using pre by (intro exI [of _ "x # pre"]) auto
    qed
  qed
qed simp

lemma path_ext_suffix: "\<exists>pre. p = pre @ path_ext p"
proof -
  let ?b = "last (split_on CHR ''/'' p)"
  obtain pre where p: "p = pre @ ?b" using split_on_last [of p "CHR ''/''"] by blast
  obtain q where q: "?b = q @ last (split_on CHR ''.'' ?b)" "CHR ''.'' \<in> set ?b \<longrightarrow> (\<exists>z. q = z @ ''.'')"
    using split_on_last [of ?b "CHR ''.''"] by blast
  show ?thesis
  proof (cases "CHR ''.'' \<in> set ?b")
    case True
    then obtain z where "?b = z @ path_ext p" using q by (auto simp: path_ext_def)
    then show ?thesis using p by (metis append.assoc)
  qed (simp add: path_ext_def)
qed

lemma trim_ext: "p = trim_suffix p (path_ext p) @ path_ext p"
proof -
  obtain pre where pre: "p = pre @ path_ext p" using path_ext_suffix by blast
  have "trim_suffix (pre @ e) e = pre" for e by (simp add: trim_suffix_def has_suffix_def)
  from this [of "path_ext p"] pre show ?thesis by metis
qed

lemma zip_path_shape:
  assumes "IsZipPath p"
  shows "\<exists>pre e. p = pre @ e \<and> length e = 4 \<and> last e \<noteq> CHR ''z'' \<and> ZipRepackDestPath p = pre @ ''.7z''"
proof -
  have e: "to_lower (path_ext p) = ''.zip''" using assms by (simp add: IsZipPath_def equal_fold_def to_lower_def to_lower_char_def)
  from arg_cong [OF this, of length] have "length (path_ext p) = 4" by (simp add: to_lower_def)
  moreover from this have "to_lower_char (last (path_ext p)) = CHR ''p''"
    using e by (metis last.simps last_map length_0_conv list.distinct(1) to_lower_def zero_neq_numeral)
  then have "last (path_ext p) \<noteq> CHR ''z''" by (auto simp: to_lower_char_def)
  ultimately show ?thesis using trim_ext [of p] by (auto simp: ZipRepackDestPath_def)
qed

lemma zip_paths_distinct:
  assumes "IsZipPath p"
  defines "dest \<equiv> ZipRepackDestPath p" and "partial \<equiv> ZipRepackPartialPath (ZipRepackDestPath p)"
    and "backup \<equiv> ZipRepackBackupPath p" and "work \<equiv> ZipRepackWorkDir p"
  shows "distinct [p, dest, partial, backup]"
    "\<And>q. q \<in> {p, dest, partial, backup} \<Longrightarrow> \<not> (q = work \<or> below work q)"
proof -
  from zip_path_shape [OF assms(1)] obtain pre e where
    p: "p = pre @ e" "length e = 4" "last e \<noteq> CHR ''z''" and d: "dest = pre @ ''.7z''" unfolding dest_def by blast
  have len: "length dest + 1 = length p" "length partial = length p + 7" "length backup = length p + 15"
    using p d by (simp_all add: partial_def dest_def backup_def ZipRepackPartialPath_def ZipRepackBackupPath_def)
  show "distinct [p, dest, partial, backup]"
    using len by (auto dest: arg_cong [of _ _ length])
  fix q assume q: "q \<in> {p, dest, partial, backup}"
  have w: "length work = length p + 12" by (simp add: work_def ZipRepackWorkDir_def)
  have "length q \<noteq> length work" using q len w by auto
  moreover have "\<not> below work backup"
    by (auto simp: below_def work_def backup_def ZipRepackWorkDir_def ZipRepackBackupPath_def dest!: has_prefixD)
  then have "\<not> below work q" using q len w below_longer [of work q] by auto
  ultimately show "\<not> (q = work \<or> below work q)" by auto
qed

subsection \<open>Zip repack\<close>

lemma remove_path_failed: "\<not> fst (remove_path p w) \<Longrightarrow> snd (remove_path p w) = w"
  by (auto simp: remove_path_def remove_file_def)

lemma repack_replace_safe:
  assumes "distinct [source, dest, partial, ZipRepackBackupPath source]" "file_size w source = Some n"
    "repack_replace t keep source n partial dest w = (res, w')"
  shows "case res of
      Inl e \<Rightarrow> file_size w' source = Some n \<or> (keep \<and> file_size w' (ZipRepackBackupPath source) = Some n)
        \<or> (\<not> keep \<and> e = RenamePartialFailed partial \<and> is_file w' partial)
    | Inr d \<Rightarrow> d = dest \<and> (\<exists>k. file_size w' dest = Some k \<and> ZipRepackMinOKSize n \<le> k)
        \<and> \<not> is_file w' source \<and> (keep \<longrightarrow> file_size w' (ZipRepackBackupPath source) = Some n)"
proof (cases "\<exists>k. file_size w partial = Some k \<and> \<not> k < ZipRepackMinOKSize n")
  case False
  then obtain e where "res = Inl e" "w' = snd (remove_path partial w)"
    using assms(3) by (auto simp: repack_replace_def split: option.splits if_splits)
  then show ?thesis using assms(1,2) by (simp add: remove_path_frame)
next
  case True
  then obtain k where k: "file_size w partial = Some k" "ZipRepackMinOKSize n \<le> k" by auto
  let ?b = "ZipRepackBackupPath source"
  define step where "step = (if keep then rename_file (tl_io t) source ?b (snd (remove_path ?b w)) else remove_path source w)"
  define w1 where "w1 = snd step"
  have run: "(res, w') = (if \<not> fst step
      then (Inl (if keep then BackupFailed source else RemoveSourceFailed source), snd (remove_path partial w1))
      else (let w2 = (if path_exists w1 dest then snd (remove_path dest w1) else w1);
                (renamed, w3) = rename_file (tl_io t) partial dest w2 in
             if \<not> renamed then (Inl (RenamePartialFailed partial), w3) else (Inr dest, w3)))"
    using assms(3) k by (simp add: repack_replace_def case_prod_beta Let_def step_def w1_def split: option.splits if_splits)
  show ?thesis
  proof (cases "fst step")
    case False
    then have "w1 = (if keep then snd (remove_path ?b w) else w)"
      by (auto simp: w1_def step_def rename_file_failed remove_path_failed)
    then show ?thesis using run False assms(1,2) by (simp add: remove_path_frame)
  next
    case True
    have w1: "file_size w1 partial = Some k" "file_size w1 source = None" "keep \<Longrightarrow> file_size w1 ?b = Some n"
      using True assms(1,2) k
      by (auto simp: w1_def step_def rename_file_ok remove_path_frame remove_path_gone split: if_splits)
    define w2 where "w2 = (if path_exists w1 dest then snd (remove_path dest w1) else w1)"
    have w2: "file_size w2 q = file_size w1 q" if "q \<noteq> dest" for q using that by (simp add: w2_def remove_path_frame)
    let ?r = "rename_file (tl_io t) partial dest w2"
    have res: "(res, w') = (if \<not> fst ?r then (Inl (RenamePartialFailed partial), snd ?r) else (Inr dest, snd ?r))"
      using run True by (simp add: w2_def Let_def case_prod_beta)
    show ?thesis
    proof (cases "fst ?r")
      case False
      then show ?thesis using res rename_file_failed [OF False] w1 w2 assms(1) by (auto simp: is_file_def)
    next
      case True
      then show ?thesis using res rename_file_ok [OF True] w1 w2 k assms(1) by (auto simp: is_file_def)
    qed
  qed
qed

lemma RepackZip_run:
  assumes zip: "IsZipPath source" "path_clean source0 = source" "file_size w source = Some n"
    and run7z: "\<And>argv cwd v. file_size (snd (tl_run t argv cwd v)) source = file_size v source"
    and r: "RepackZipTo7zInplace t p source0 w = (res, w')"
  shows "(\<exists>e. res = Inl e \<and> file_size w' source = Some n) \<or>
    (\<exists>v v'. file_size v source = Some n \<and> w' = remove_tree (ZipRepackWorkDir source) v'
      \<and> repack_replace t (zp_keep p) source n (ZipRepackPartialPath (ZipRepackDestPath source)) (ZipRepackDestPath source) v
         = (res, v'))"
proof -
  let ?work = "ZipRepackWorkDir source" and ?partial = "ZipRepackPartialPath (ZipRepackDestPath source)"
  have f: "file_size (remove_tree ?work v) source = file_size v source"
    "file_size (snd (remove_path ?partial v)) source = file_size v source" for v
    using zip_paths_distinct [OF zip(1)] by (auto intro: file_size_remove_tree remove_path_frame)
  define w2 where "w2 = snd (remove_path ?partial (snd (mkdir_all (tl_io t) ?work (remove_tree ?work w))))"
  define ex where "ex = tl_run t (BuildZipExtractCmd (bin_or_7z (zp_bin p)) (path_abs (tl_cwd t) source) (path_abs (tl_cwd t) ?work)) '''' w2"
  define cr where "cr = tl_run t (BuildZipCreate7zCmd (bin_or_7z (zp_bin p)) (path_abs (tl_cwd t) ?partial)) (path_abs (tl_cwd t) ?work) (snd ex)"
  have s: "file_size w2 source = Some n" "file_size (snd ex) source = Some n" "file_size (snd cr) source = Some n"
    by (simp_all add: w2_def ex_def cr_def f run7z zip(3))
  consider e v where "res = Inl e" "w' = v" "file_size v source = Some n"
    | "res = fst (repack_replace t (zp_keep p) source n ?partial (ZipRepackDestPath source) (snd cr))"
      "w' = remove_tree ?work (snd (repack_replace t (zp_keep p) source n ?partial (ZipRepackDestPath source) (snd cr)))"
    using r [unfolded RepackZipTo7zInplace_def zip(2) Let_def] zip(1,3) s
    by (auto simp: case_prod_beta w2_def [symmetric] ex_def [symmetric] cr_def [symmetric] f
          split: option.splits if_splits)
  then show ?thesis
  proof cases
    case 2
    with s(3) show ?thesis by (metis prod.collapse)
  qed auto
qed

text \<open>C9. A zip is never lost by its repack.  Whatever step fails (extraction, creation, an output that
  is missing or too small, the backup, the final rename), the zip is still there at its full size
  or, when the source is kept, as its backup; only without a backup can a failed final rename
  leave nothing but the partial.  A repack that succeeds leaves an output above the size floor and,
  when the source is kept, the backup at its full size.  7z is trusted not to touch the archive it
  reads.\<close>

theorem RepackZip_safe:
  assumes zip: "IsZipPath source" "path_clean source = source" "file_size w source = Some n"
    and run7z: "\<And>argv cwd v. file_size (snd (tl_run t argv cwd v)) source = file_size v source"
    and r: "RepackZipTo7zInplace t p source w = (res, w')"
  shows "case res of
      Inl e \<Rightarrow> file_size w' source = Some n
        \<or> (zp_keep p \<and> file_size w' (ZipRepackBackupPath source) = Some n)
        \<or> (\<not> zp_keep p \<and> is_file w' (ZipRepackPartialPath (ZipRepackDestPath source))
             \<and> e = RenamePartialFailed (ZipRepackPartialPath (ZipRepackDestPath source)))
    | Inr d \<Rightarrow> d = ZipRepackDestPath source
        \<and> (\<exists>k. file_size w' d = Some k \<and> ZipRepackMinOKSize n \<le> k) \<and> \<not> is_file w' source
        \<and> (zp_keep p \<longrightarrow> file_size w' (ZipRepackBackupPath source) = Some n)"
proof -
  note d = zip_paths_distinct [OF zip(1)]
  have f: "file_size (remove_tree (ZipRepackWorkDir source) v) q = file_size v q"
    if "q \<in> {source, ZipRepackDestPath source, ZipRepackPartialPath (ZipRepackDestPath source), ZipRepackBackupPath source}" for v q
    using file_size_remove_tree [OF d(2) [OF that]] .
  from RepackZip_run [OF zip run7z r] consider e where "res = Inl e" "file_size w' source = Some n"
    | v v' where "file_size v source = Some n" "w' = remove_tree (ZipRepackWorkDir source) v'"
      "repack_replace t (zp_keep p) source n (ZipRepackPartialPath (ZipRepackDestPath source)) (ZipRepackDestPath source) v
         = (res, v')" by blast
  then show ?thesis
  proof cases
    case (2 v v')
    from repack_replace_safe [OF d(1) 2(1,3)] show ?thesis
      by (cases res) (auto simp: 2(2) f is_file_def)
  qed simp
qed

definition sample_tools :: tools where
  "sample_tools = \<lparr>tl_cwd = ''/'', tl_io = sample_io\<lparr>io_rename := (\<lambda>_ _. True)\<rparr>,
     tl_zips = (\<lambda>_. Some [\<lparr>zm_name = ''x.7z'', zm_is_dir = False, zm_uncompressed = 4\<rparr>]),
     tl_run = (\<lambda>argv cwd w. (None, if argv ! 1 = ''a'' then put_file ''/in/a.7z.partial'' 5000 w else w)),
     tl_list = (\<lambda>w bin args. ('''', None)), tl_write = (\<lambda>_. Some 99), tl_now = ''2024-01-01T00:00:00Z'', tl_seconds = 2\<rparr>"

definition sample_zip_params :: zip_params where
  "sample_zip_params = \<lparr>zp_bin = ''7z'', zp_overhead = 0, zp_min_free = 0, zp_keep = True\<rparr>"

theorem RepackZip_safe_witness:
  "case RepackZipTo7zInplace sample_tools sample_zip_params ''/in/a.zip'' (one_file ''/in/a.zip'') of
     (Inl e, w') \<Rightarrow> file_size w' ''/in/a.zip'' = Some 10 \<or> file_size w' ''/in/a.zip.pre-repack.bak'' = Some 10
   | (Inr d, w') \<Rightarrow> d = ''/in/a.7z'' \<and> \<not> is_file w' ''/in/a.zip''"
proof -
  have paths: "IsZipPath ''/in/a.zip''" "path_clean ''/in/a.zip'' = ''/in/a.zip''"
    "ZipRepackDestPath ''/in/a.zip'' = ''/in/a.7z''" "file_size (one_file ''/in/a.zip'') ''/in/a.zip'' = Some 10"
    by code_simp+
  have run: "file_size (snd (tl_run sample_tools argv cwd v)) ''/in/a.zip'' = file_size v ''/in/a.zip''" for argv cwd v
    by (simp add: sample_tools_def)
  obtain res w' where r: "RepackZipTo7zInplace sample_tools sample_zip_params ''/in/a.zip'' (one_file ''/in/a.zip'') = (res, w')"
    by fastforce
  from RepackZip_safe [OF paths(1,2,4) run r] show ?thesis
    unfolding r by (cases res) (auto simp: paths sample_zip_params_def ZipRepackBackupPath_def)
qed

subsection \<open>Flatten\<close>

lemma rel_comps_prefix:
  assumes "\<forall>c \<in> set ts. c \<noteq> ''..'' \<and> c \<noteq> '''' \<and> CHR ''/'' \<notin> set c"
  shows "(let r = (if rel_comps bs ts = [] then ''.'' else join_with ''/'' (rel_comps bs ts)) in
      r = ''..'' \<or> has_prefix r ''../'') \<longleftrightarrow> \<not> (\<exists>more. ts = bs @ more)"
  using assms
proof (induction bs ts rule: rel_comps.induct)
  case (1 ts)
  then show ?case
  proof (cases ts)
    case (Cons x xs)
    then have x: "x \<noteq> ''..''" "x \<noteq> ''''" "CHR ''/'' \<notin> set x" using 1 by auto
    have "\<not> has_prefix (x @ CHR ''/'' # y) ''../''" "x @ CHR ''/'' # y \<noteq> ''..''" "\<not> has_prefix x ''../''" for y
      using x by (cases x; cases "tl x"; cases "tl (tl x)"; auto simp: has_prefix_def)+
    then show ?thesis using Cons x by (cases xs) auto
  qed (simp add: has_prefix_def)
next
  case (2 b list)
  then show ?case by (cases list) (auto simp: has_prefix_def Let_def)
next
  case (3 b bs c cs)
  show ?case
  proof (cases "b = c")
    case True
    have "rel_comps (b # bs) (c # cs) = rel_comps bs cs" using True by simp
    moreover have "\<forall>x \<in> set cs. x \<noteq> ''..'' \<and> x \<noteq> '''' \<and> CHR ''/'' \<notin> set x" using 3(2) by simp
    ultimately show ?thesis using 3(1) [OF True] True by (simp only: append_Cons list.inject simp_thms)
  next
    case False
    obtain y ys where ys: "replicate (length bs) ''..'' @ c # cs = y # ys"
      by (cases "replicate (length bs) ''..'' @ c # cs") auto
    then have "rel_comps (b # bs) (c # cs) = ''..'' # y # ys" using False by simp
    moreover have "has_prefix (join_with ''/'' (''..'' # y # ys)) ''../''" by (simp add: has_prefix_def)
    ultimately show ?thesis using False by (simp only: Let_def) auto
  qed
qed

lemma escapes_iff:
  "\<not> escapes work out \<longleftrightarrow> (\<exists>more. comps out = comps work @ more)"
  using rel_comps_prefix [of "comps out" "comps work"] comps_parts [of _ out]
  unfolding escapes_def path_rel_def comps_def by (simp add: Let_def)

lemma no_escape_inside:
  assumes "is_rooted work" "path_clean work = work" "comps work \<noteq> []" "\<not> escapes work out" "is_rooted out" "path_clean out = out"
  shows "out = work \<or> below work out"
  using clean_under [OF assms(5,1)] assms by (auto simp: escapes_iff below_def)

lemma below_trans: "out = work \<or> below work out \<Longrightarrow> q = out \<or> below out q \<Longrightarrow> q = work \<or> below work q"
  by (auto simp: below_def has_prefix_iff)

text \<open>Runs of 7z that leave the file \<open>q\<close> outside the work tree alone.\<close>

definition spares :: "tools \<Rightarrow> path \<Rightarrow> path \<Rightarrow> bool" where
  "spares t work q \<longleftrightarrow>
    (\<forall>b a v. file_size (snd (tl_run t (BuildFlattenTestCmd b a) '''' v)) q = file_size v q) \<and>
    (\<forall>b a out ex v. out = work \<or> below work out \<longrightarrow>
       file_size (snd (tl_run t (BuildFlattenExtractCmd b a out ex) '''' v)) q = file_size v q)"

lemma expand_one_frame:
  assumes work: "is_rooted work" "path_clean work = work" "comps work \<noteq> []"
    and q: "\<not> (q = work \<or> below work q)" and p: "below work p" and spare: "spares t work q"
  shows "file_size (snd (expand_one t bin strip ex work p w)) q = file_size w q"
proof -
  have pq: "p \<noteq> q" using p q by auto
  define out where "out = path_join work (NestedFlattenPrefix (path_rel work p) strip)"
  have ne: "work \<noteq> ''''" using work(1) by auto
  have out: "is_rooted out" "path_clean out = out"
    using work(1) ne by (auto simp: out_def path_join_def is_rooted_clean path_clean_idem is_rooted_append)
  have abs: "path_abs (tl_cwd t) out = out" using out by (simp add: path_abs_def)
  have run: "file_size (snd (tl_run t (BuildFlattenTestCmd b a) '''' v)) q = file_size v q" for b a v
    using spare by (simp add: spares_def)
  show ?thesis
  proof (cases "escapes work out")
    case True
    then show ?thesis
      using pq run by (simp add: expand_one_def Let_def case_prod_beta out_def [symmetric] remove_path_frame)
  next
    case False
    from no_escape_inside [OF work False out] have inside: "out = work \<or> below work out" .
    then have qo: "\<not> (q = out \<or> below out q)" using q below_trans by blast
    have x: "file_size (snd (tl_run t (BuildFlattenExtractCmd b a out ex) '''' v)) q = file_size v q" for b a v
      using spare inside unfolding spares_def by blast
    show ?thesis
      using False pq run x file_size_remove_tree [OF qo]
      by (simp add: expand_one_def Let_def case_prod_beta out_def [symmetric] abs remove_path_frame)
  qed
qed

lemma expand_all_frame:
  assumes "is_rooted work" "path_clean work = work" "comps work \<noteq> []"
    and "\<not> (q = work \<or> below work q)" and "\<forall>p \<in> set ps. below work p" and "spares t work q"
  shows "file_size (snd (expand_all t bin strip ex work ps w)) q = file_size w q"
  using assms(5)
proof (induction ps arbitrary: w)
  case (Cons p ps)
  then show ?case
    using expand_one_frame [OF assms(1-4) _ assms(6), of p bin strip ex w]
    by (cases "expand_one t bin strip ex work p w") (auto split: option.split)
qed simp

lemma exchange_pass_mset: "add_mset (fst (exchange_pass x ys)) (mset (snd (exchange_pass x ys))) = add_mset x (mset ys)"
  by (induction x ys rule: exchange_pass.induct) (auto simp: case_prod_beta add_mset_commute)

lemma longest_first_mset: "mset (longest_first xs) = mset xs"
  by (induction xs rule: longest_first.induct) (simp_all add: exchange_pass_mset)

lemma walk_files_below: "p \<in> set (walk_files d w) \<Longrightarrow> below d p"
  by (simp add: walk_files_def)

lemma expandNested_frame:
  assumes work: "is_rooted work" "path_clean work = work" "comps work \<noteq> []"
    and out: "\<not> (q = work \<or> below work q)"
    and tests: "\<And>b a v. file_size (snd (tl_run t (BuildFlattenTestCmd b a) '''' v)) q = file_size v q"
    and extracts: "\<And>b a dir ex v. \<not> (q = dir \<or> below dir q) \<Longrightarrow>
      file_size (snd (tl_run t (BuildFlattenExtractCmd b a dir ex) '''' v)) q = file_size v q"
  shows "file_size (snd (expandNestedSevenZ t bin strip excludes work w)) q = file_size w q"
proof -
  have "spares t work q" using tests extracts out below_trans by (fastforce simp: spares_def)
  moreover have "\<forall>p \<in> set (longest_first (filter IsSevenzPath (walk_files work w))). below work p"
    using walk_files_below longest_first_mset by (metis filter_is_subset in_mono mset_eq_setD)
  ultimately show ?thesis
    using expand_all_frame [OF work out] by (simp add: expandNestedSevenZ_def)
qed

text \<open>C11. Expanding the nested archives of a flattened 7z never touches a file outside the work tree,
  whatever the member names are (dot-dot, backslashes, absolute names) and whatever prefix is
  stripped: the escape check admits an output directory only if it is the work tree or lies below
  it.  7z is trusted to test without writing and to write below the directory it is given with -o,
  and nothing is assumed about the directories it is not given.\<close>

theorem expandNested_confined:
  assumes work: "is_rooted work" "path_clean work = work" "comps work \<noteq> []"
    and out: "\<not> (q = work \<or> below work q)"
    and tests: "\<And>b a v. file_size (snd (tl_run t (BuildFlattenTestCmd b a) '''' v)) q = file_size v q"
    and extracts: "\<And>b a dir ex v. \<not> (q = dir \<or> below dir q) \<Longrightarrow>
      file_size (snd (tl_run t (BuildFlattenExtractCmd b a dir ex) '''' v)) q = file_size v q"
  shows "file_size (snd (expandNestedSevenZ t bin strip excludes work w)) q = file_size w q"
  using assms by (rule expandNested_frame)

text \<open>A 7z that writes an escaping file, were it given the chance.\<close>

definition hostile_tools :: tools where
  "hostile_tools = sample_tools\<lparr>tl_run := (\<lambda>argv cwd w.
     (None, if argv ! 1 = ''x'' then put_file (drop 2 (argv ! 3) @ ''evil'') 1 w else w))\<rparr>"

theorem expandNested_confined_witness:
  "\<forall>w. file_size (snd (expandNestedSevenZ hostile_tools ''7z'' '''' [] ''/w/x.work'' w)) ''/etc/passwd'' = file_size w ''/etc/passwd''"
proof
  fix w
  have e: "(''/etc/passwd'' = d @ ''/evil'') = False" for d :: string
    by (auto dest!: arg_cong [of _ _ rev])
  show "file_size (snd (expandNestedSevenZ hostile_tools ''7z'' '''' [] ''/w/x.work'' w)) ''/etc/passwd'' = file_size w ''/etc/passwd''"
    by (rule expandNested_confined)
      (auto simp: hostile_tools_def sample_tools_def BuildFlattenTestCmd_def BuildFlattenExtractCmd_def e below_def has_prefix_def
        comps_def path_clean_def Let_def)
qed

lemma flatten_paths:
  "distinct [p, FlattenPartialPath p]"
  "q \<in> {p, FlattenPartialPath p} \<Longrightarrow> \<not> (q = FlattenWorkDir (FlattenPartialPath p) \<or> below (FlattenWorkDir (FlattenPartialPath p)) q)"
  using below_longer [of "FlattenWorkDir (FlattenPartialPath p)" q]
  by (auto simp: FlattenPartialPath_def FlattenWorkDir_def dest: arg_cong [of _ _ length])

lemma flatten_replace_safe:
  assumes "distinct [source, partial]" "file_size w source = Some n" "flatten_replace source n partial t w = (res, w')"
  shows "case res of
      Some e \<Rightarrow> file_size w' source = Some n
        \<or> (e = RenamePartialFailed partial \<and> (\<exists>k. file_size w' partial = Some k \<and> FlattenMinOKSize n \<le> k))
    | None \<Rightarrow> \<exists>k. file_size w' source = Some k \<and> FlattenMinOKSize n \<le> k"
proof (cases "\<exists>k. file_size w partial = Some k \<and> \<not> k < FlattenMinOKSize n")
  case False
  then obtain e where "res = Some e" "w' = snd (remove_path partial w)"
    using assms(3) by (auto simp: flatten_replace_def split: option.splits if_splits)
  then show ?thesis using assms(1,2) by (simp add: remove_path_frame)
next
  case True
  then obtain k where k: "file_size w partial = Some k" "FlattenMinOKSize n \<le> k" by auto
  define w1 where "w1 = snd (remove_path source w)"
  have run: "(res, w') = (if \<not> fst (remove_path source w)
      then (Some (RemoveSourceFailed source), snd (remove_path partial w1))
      else (if fst (rename_file (tl_io t) partial source w1) then None else Some (RenamePartialFailed partial),
            snd (rename_file (tl_io t) partial source w1)))"
    using assms(3) k by (simp add: flatten_replace_def case_prod_beta Let_def w1_def split: option.splits if_splits)
  have p1: "file_size w1 partial = Some k" using k assms(1) by (simp add: w1_def remove_path_frame)
  show ?thesis
  proof (cases "fst (remove_path source w)")
    case False
    then have "w1 = w" by (simp add: w1_def remove_path_failed)
    then show ?thesis using run False assms(1,2) by (simp add: remove_path_frame)
  next
    case True
    then show ?thesis
      using run k p1 rename_file_failed [of "tl_io t" partial source w1] rename_file_ok [of "tl_io t" partial source w1]
      by (cases "fst (rename_file (tl_io t) partial source w1)") auto
  qed
qed

lemma join_snoc_append: "join_with ''/'' (zs @ [z]) @ t = join_with ''/'' (zs @ [z @ t])"
  by (induction zs rule: induct_list012) simp_all

lemma flatten_work:
  assumes "is_rooted p" "path_clean p = p" "comps p \<noteq> []"
  defines "work \<equiv> FlattenWorkDir (FlattenPartialPath p)"
  shows "is_rooted work" "path_clean work = work" "comps work \<noteq> []"
proof -
  show rooted: "is_rooted work" using assms(1) by (auto simp: work_def FlattenWorkDir_def FlattenPartialPath_def is_rooted_append)
  let ?tail = "''.flatten.partial.work''"
  obtain zs z where c: "comps p = zs @ [z]" using assms(3) by (metis rev_exhaust)
  then have p: "p = CHR ''/'' # join_with ''/'' (zs @ [z])" using assms(1,2) path_clean_rooted by metis
  have work: "work = CHR ''/'' # join_with ''/'' (zs @ [z @ ?tail])"
    unfolding work_def FlattenWorkDir_def FlattenPartialPath_def
    by (subst p) (simp only: append_assoc append_Cons append_Nil join_snoc_append)
  have parts: "\<forall>x \<in> set (zs @ [z @ ?tail]). CHR ''/'' \<notin> set x"
    using comps_parts [of _ p] c by auto
  have tail: "z @ ?tail \<notin> {'''', ''.'', ''..''}" by (cases z; cases "tl z") auto
  then have plain: "\<forall>x \<in> set (zs @ [z @ ?tail]). x \<noteq> '''' \<and> x \<noteq> ''.'' \<and> x \<noteq> ''..''"
    using comps_parts [of _ p] comps_no_dot [of _ p] c by auto
  have "split_on CHR ''/'' work = '''' # zs @ [z @ ?tail]"
    using split_join [OF _ parts] by (simp add: work)
  then have cw: "comps work = zs @ [z @ ?tail]"
    using clean_comps_plain [OF plain, of True "[]"] by (simp add: comps_def)
  then show "comps work \<noteq> []" by simp
  show "path_clean work = work" using path_clean_rooted [OF rooted] cw work by simp
qed



subsection \<open>Sidecars\<close>

lemma decode_metadata_object:
  assumes "cm_at m \<noteq> ''''" "cm_method m \<noteq> ''''" "cm_delta m = wrap64 (cm_converted m - cm_original m)"
  shows "decode_metadata (metadata_object m) = Some m"
  using assms by (cases "cm_duration m") (simp_all add: metadata_object_def decode_metadata_def jfield_def)

lemma metadata_written:
  assumes "now \<noteq> ''''" "WriteConvertMetadata t p (BuildConvertMetadata now orig conv meth dur) s = (True, s')"
  shows "ReadConvertMetadata (sidecars s') p = Some (BuildConvertMetadata now orig conv meth dur)"
proof -
  have p: "p \<noteq> ''''" and "sidecars s' (MetadataPath p) = Some (metadata_object (BuildConvertMetadata now orig conv meth dur))"
    using assms(2) by (auto simp: WriteConvertMetadata_def sidecars_def is_file_def split: if_splits option.splits)
  then show ?thesis
    using decode_metadata_object [of "BuildConvertMetadata now orig conv meth dur"] assms(1)
    by (simp add: ReadConvertMetadata_def BuildConvertMetadata_def)
qed

text \<open>The convert sidecar round-trips: after WriteConvertMetadata has reported success, the sidecar
  of the archive is read back as exactly the metadata built for the conversion (sizes, stamp,
  method, duration and size delta, negative deltas included).\<close>

theorem metadata_roundtrip:
  assumes "now \<noteq> ''''" "WriteConvertMetadata t p (BuildConvertMetadata now orig conv meth dur) s = (True, s')"
  shows "ReadConvertMetadata (sidecars s') p = Some (BuildConvertMetadata now orig conv meth dur)"
  using assms by (rule metadata_written)

theorem metadata_roundtrip_witness:
  "\<exists>s'. ReadConvertMetadata (sidecars s') ''/in/a.7z'' = Some (BuildConvertMetadata ''now'' 10 7 '''' (Some (3 / 2)))"
proof -
  let ?s = "\<lparr>cs_world = one_file ''/in/a.7z'', cs_json = \<lambda>_. None\<rparr>" and ?m = "BuildConvertMetadata ''now'' 10 7 '''' (Some (3 / 2))"
  have "WriteConvertMetadata sample_tools ''/in/a.7z'' ?m ?s = (True, snd (WriteConvertMetadata sample_tools ''/in/a.7z'' ?m ?s))"
    by (simp add: WriteConvertMetadata_def sample_tools_def)
  from metadata_roundtrip [OF _ this] show ?thesis by blast
qed

text \<open>A 7z is converted at most once.  After RunFlattenConvert has rewritten an archive, its sidecar is
  readable, so ShouldPreconvert refuses the archive for flattening and for the archiveconverter, and
  a second RunFlattenConvert whose probe asks the sidecar changes nothing and returns the metadata
  of the first run.\<close>

theorem flatten_once:
  assumes "RunFlattenConvert t p (Some f) source s = (Inr (Some m), s')" "f (path_clean source)"
    and "tl_now t \<noteq> ''''" "ce_js ce = sidecars s'" "path_clean (path_clean source) = path_clean source"
  shows "\<not> ShouldPreconvert ce cfg (cs_world s') (path_clean source)
    \<and> ReadConvertMetadata (sidecars s') (path_clean source) = Some m
    \<and> RunFlattenConvert t p (Some (\<lambda>q. f q \<and> \<not> HasConvertMetadata (sidecars s') q)) source s' = (Inr (Some m), s')"
proof -
  let ?src = "path_clean source"
  obtain n sz where sz: "file_size (cs_world s) ?src = Some sz" and seven: "IsSevenzPath ?src"
    and m: "m = BuildConvertMetadata (tl_now t) sz n ''flatten-cli'' (Some (duration_ms (tl_seconds t)))"
    and w: "WriteConvertMetadata t ?src m (s\<lparr>cs_world := snd (flatten7zInplace t p ?src (cs_world s))\<rparr>) = (True, s')"
    and there: "file_size (snd (flatten7zInplace t p ?src (cs_world s))) ?src = Some n"
    using assms(1,2) by (auto simp: RunFlattenConvert_def Let_def split: option.splits if_splits prod.splits)
  have read: "ReadConvertMetadata (sidecars s') ?src = Some m"
    using metadata_written [OF assms(3) w [unfolded m]] m by simp
  then have has: "HasConvertMetadata (sidecars s') ?src" by (simp add: HasConvertMetadata_def)
  have "\<exists>k. file_size (cs_world s') ?src = Some k"
    using w there by (auto simp: WriteConvertMetadata_def split: if_splits option.splits)
  then have again: "RunFlattenConvert t p (Some (\<lambda>q. f q \<and> \<not> HasConvertMetadata (sidecars s') q)) source s' = (Inr (Some m), s')"
    using has read seven by (auto simp: RunFlattenConvert_def Let_def)
  have "\<not> IsZipPath ?src" using seven by (auto simp: IsZipPath_def IsSevenzPath_def equal_fold_def to_lower_def)
  then have "\<not> ShouldPreconvert ce cfg (cs_world s') ?src"
    using has assms(4) by (simp add: ShouldPreconvert_def ShouldFlattenConvert_def ShouldRepackZip_def)
  with read again show ?thesis by blast
qed

definition repack_tools :: tools where
  "repack_tools = sample_tools\<lparr>tl_run := (\<lambda>argv cwd w.
     (None, if argv ! 1 = ''a'' then put_file ''/in/a.7z.flatten.partial'' 300 w else w))\<rparr>"

definition plain_params :: flatten_params where
  "plain_params = \<lparr>fp_bin = '''', fp_overhead = 0, fp_min_free = 0, fp_strip = '''', fp_exclude = []\<rparr>"

definition one_archive :: convert_state where
  "one_archive = \<lparr>cs_world = one_file ''/in/a.7z'', cs_json = \<lambda>_. None\<rparr>"

lemma flatten_sample:
  "fst (RunFlattenConvert repack_tools plain_params (Some (\<lambda>_. True)) ''/in/a.7z'' one_archive) =
    Inr (Some (BuildConvertMetadata ''2024-01-01T00:00:00Z'' 10 300 ''flatten-cli'' (Some 2)))"
  by code_simp

theorem flatten_once_witness:
  "\<exists>m s'. RunFlattenConvert repack_tools plain_params (Some (\<lambda>_. True)) ''/in/a.7z'' one_archive = (Inr (Some m), s')
    \<and> ReadConvertMetadata (sidecars s') ''/in/a.7z'' = Some m"
proof -
  let ?r = "RunFlattenConvert repack_tools plain_params (Some (\<lambda>_. True)) ''/in/a.7z'' one_archive"
  obtain m s' where r: "?r = (Inr (Some m), s')" using flatten_sample by (cases ?r) auto
  have c: "path_clean ''/in/a.7z'' = ''/in/a.7z''" by code_simp
  have "tl_now repack_tools \<noteq> ''''" by (simp add: repack_tools_def sample_tools_def)
  from flatten_once [OF r _ this, of "\<lparr>ce_cwd = '''', ce_opts = undefined, ce_js = sidecars s', ce_zips = \<lambda>_. None, ce_needs_flatten = None\<rparr>"]
  show ?thesis using r by (simp add: c)
qed

subsection \<open>Disk space\<close>

lemma sum_sizes_nonneg: "\<forall>m \<in> set ms. 0 \<le> zm_uncompressed m \<Longrightarrow> 0 \<le> sum_list (map zm_uncompressed ms)"
  by (induction ms) auto

text \<open>The space check of a zip repack is sound as long as the true sum stays below 2^63: when it
  passes on a directory whose free space is known, the free space covers the zip, twice the
  extracted data, the overhead and the reserve.  (The sizes come from the zip directory as unsigned
  64-bit numbers; beyond that bound the sums wrap to a negative peak, which is clamped to zero.)\<close>

theorem zip_space_sound:
  assumes "EstimateZipRepackPeakDiskBytes zips w source = Some est" "zips source = Some ms" "file_size w source = Some sz"
    and "CheckZipRepackSpace free dir (ze_peak est) overhead minFree = None" "free dir = Some avail"
    and "\<forall>m \<in> set ms. 0 \<le> zm_uncompressed m" "0 \<le> sz"
    and "data = sum_list (map zm_uncompressed (filter (\<lambda>m. \<not> zm_is_dir m) ms))"
    and "sz + 2 * data + clamp0 overhead + clamp0 minFree < 2 ^ 63"
  shows "sz + 2 * data + clamp0 overhead + clamp0 minFree \<le> avail"
proof -
  let ?ms = "filter (\<lambda>m. \<not> zm_is_dir m) ms"
  have "0 \<le> data" using assms(6,8) sum_sizes_nonneg [of ?ms] by simp
  have c: "0 \<le> clamp0 overhead" "0 \<le> clamp0 minFree" by (simp_all add: clamp0_def)
  have bound: "zm_uncompressed m \<le> data" if "m \<in> set ?ms" for m
    using that assms(6) unfolding assms(8) by (intro member_le_sum_list) auto
  have "wrap64 (zm_uncompressed m) = zm_uncompressed m" if "m \<in> set ?ms" for m
    using that bound [OF that] assms(6,7,9) c \<open>0 \<le> data\<close> by (intro wrap64_id) auto
  then have "map (\<lambda>m. wrap64 (zm_uncompressed m)) ?ms = map zm_uncompressed ?ms" by (intro map_cong) auto
  from arg_cong [OF this, of sum_list] have "(\<Sum>m\<leftarrow>?ms. wrap64 (zm_uncompressed m)) = data" unfolding assms(8) .
  then have "ze_peak est = wrap64 (sz + wrap64 data + wrap64 data)"
    using assms(1-3) by (auto simp: EstimateZipRepackPeakDiskBytes_def Let_def)
  also have "\<dots> = sz + 2 * data" using assms(7,9) c \<open>0 \<le> data\<close> by (simp add: wrap64_id)
  finally have peak: "ze_peak est = sz + 2 * data" .
  have "ZipRepackSpaceRequired (ze_peak est) overhead minFree = sz + 2 * data + clamp0 overhead + clamp0 minFree"
    using peak assms(7,9) c \<open>0 \<le> data\<close> by (simp add: ZipRepackSpaceRequired_def clamp0_def [of "sz + 2 * data"] wrap64_id)
  then show ?thesis using assms(4,5) by (auto simp: CheckZipRepackSpace_def check_free_def split: if_splits)
qed

theorem zip_space_sound_witness:
  "CheckZipRepackSpace (\<lambda>_. Some 29) ''/in'' 18 5 7 \<noteq> None"
proof
  assume free: "CheckZipRepackSpace (\<lambda>_. Some 29) ''/in'' 18 5 7 = None"
  have est: "EstimateZipRepackPeakDiskBytes (tl_zips sample_tools) (one_file ''/in/a.zip'') ''/in/a.zip'' =
      Some \<lparr>ze_source = 10, ze_uncompressed = 4, ze_peak = 18\<rparr>" by code_simp
  have size: "file_size (one_file ''/in/a.zip'') ''/in/a.zip'' = Some 10" by code_simp
  from zip_space_sound [OF est _ size, of _ "\<lambda>_. Some 29" "''/in''" 5 7 29 4] free
  show False by (simp add: sample_tools_def clamp0_def)
qed

lemma zip_space_overflow:
  "CheckZipRepackSpace (\<lambda>_. Some 0) ''/in'' (wrap64 (10 + 2 ^ 62 + 2 ^ 62)) 0 0 = None"
  by code_simp

end
