(* ===== verification/Match.thy ===== *)
theory Match
  imports MountPolicy
begin

text \<open>
  src/internal/match/match.go: which file names are archives.  \<open>compile\<close> is regexp.Compile with
  MatchString, None for a pattern it refuses; case folding is ASCII.
\<close>

type_synonym matcher = "string \<Rightarrow> bool"

definition CompileNameRegex :: "(string \<Rightarrow> matcher option) \<Rightarrow> string \<Rightarrow> string \<Rightarrow> matcher option" where
  "CompileNameRegex compile defaultRegex pattern = compile (if pattern = '''' then defaultRegex else pattern)"

definition normalize_extension :: "string \<Rightarrow> string" where
  "normalize_extension ext =
    (let cleaned = to_lower (trim_space ext) in
     if cleaned = '''' then ''''
     else if has_prefix cleaned ''.'' then cleaned else CHR ''.'' # cleaned)"

fun normalize_exts :: "string list \<Rightarrow> string list \<Rightarrow> string list" where
  "normalize_exts seen [] = []"
| "normalize_exts seen (ext # exts) =
    (let cleaned = normalize_extension ext in
     if cleaned = '''' \<or> cleaned \<in> set seen then normalize_exts seen exts
     else cleaned # normalize_exts (cleaned # seen) exts)"

definition NormalizeExtensions :: "string list \<Rightarrow> string list" where
  "NormalizeExtensions extensions = normalize_exts [] extensions"

definition basename :: "string \<Rightarrow> string" where
  "basename nm = path_base (to_slashes nm)"

definition ExtensionAllowed :: "string \<Rightarrow> string list \<Rightarrow> bool" where
  "ExtensionAllowed nm extensions =
    (if extensions = [] then True
     else
      (let base = to_lower (basename nm); allowed = NormalizeExtensions extensions in
       if allowed = [] then True else list_ex (has_suffix base) allowed))"

definition dot_name :: "string \<Rightarrow> bool" where
  "dot_name base \<longleftrightarrow> base = '''' \<or> base = ''.'' \<or> base = ''..''"

definition MatchesArchiveName ::
  "(string \<Rightarrow> matcher option) \<Rightarrow> string \<Rightarrow> string \<Rightarrow> string \<Rightarrow> string list \<Rightarrow> bool option" where
  "MatchesArchiveName compile dflt nm nameRegex extensions =
    (let base = basename nm in
     if nm = '''' \<or> dot_name base then Some False
     else if \<not> ExtensionAllowed base extensions then Some False
     else map_option (\<lambda>re. re base) (CompileNameRegex compile dflt nameRegex))"

definition FilterArchiveNames ::
  "(string \<Rightarrow> matcher option) \<Rightarrow> string \<Rightarrow> string list \<Rightarrow> string \<Rightarrow> string list \<Rightarrow> string list option" where
  "FilterArchiveNames compile dflt names nameRegex extensions =
    (case CompileNameRegex compile dflt nameRegex of
       None \<Rightarrow> None
     | Some re \<Rightarrow>
         (let exts = NormalizeExtensions extensions in
          Some (map basename (filter (\<lambda>nm. nm \<noteq> '''' \<and> \<not> dot_name (basename nm)
                 \<and> ExtensionAllowed (basename nm) exts \<and> re (basename nm)) names))))"

subsection \<open>Facts\<close>

lemma set_normalize_exts:
  "set (normalize_exts seen exts) = (normalize_extension ` set exts - {''''}) - set seen"
  by (induction seen exts rule: normalize_exts.induct) (auto simp: Let_def)

lemma distinct_normalize_exts: "distinct (normalize_exts seen exts)"
  by (induction seen exts rule: normalize_exts.induct) (auto simp: Let_def set_normalize_exts)

text \<open>Lower-casing and trimming are idempotent, so a normalised extension is its own normal form.\<close>

lemma to_lower_char_idem [simp]: "to_lower_char (to_lower_char c) = to_lower_char c"
  by (simp add: to_lower_char_def Let_def)

lemma to_lower_idem [simp]: "to_lower (to_lower s) = to_lower s"
  by (simp add: to_lower_def)

lemma is_space_lower [simp]: "is_space (to_lower_char c) = is_space c"
proof (cases "65 \<le> (of_char c :: nat) \<and> (of_char c :: nat) \<le> 90")
  case True
  have "of_char c \<noteq> (of_char k :: nat)" if "(of_char k :: nat) < 65" for k using True that by auto
  then have "c \<notin> set [CHR '' '', CHR 0x09, CHR 0x0A, CHR 0x0B, CHR 0x0C, CHR 0x0D]" by auto
  moreover have "(of_char (to_lower_char c) :: nat) = of_char c + 32"
    using True by (simp add: to_lower_char_def Let_def)
  then have "to_lower_char c \<notin> set [CHR '' '', CHR 0x09, CHR 0x0A, CHR 0x0B, CHR 0x0C, CHR 0x0D]"
    using True by auto
  ultimately show ?thesis by (simp only: is_space_def)
next
  case False
  then have "to_lower_char c = c" by (simp only: to_lower_char_def Let_def if_False)
  then show ?thesis by simp
qed

lemma trim_space_ends:
  assumes "trim_space s \<noteq> []"
  shows "\<not> is_space (hd (trim_space s))" "\<not> is_space (last (trim_space s))"
proof -
  let ?t = "trim_left is_space s"
  have ne: "trim_right is_space ?t \<noteq> []" using assms by (simp add: trim_space_def)
  then have "?t \<noteq> []" by (auto simp: trim_right_def)
  then show "\<not> is_space (hd (trim_space s))"
    using hd_trim_right [OF ne] hd_trim_left [of is_space s] by (simp add: trim_space_def)
  have "dropWhile is_space (rev ?t) \<noteq> []" using ne by (simp add: trim_right_def)
  then show "\<not> is_space (last (trim_space s))"
    using hd_dropWhile [of is_space "rev ?t"] by (simp add: trim_space_def trim_right_def last_rev)
qed

lemma normalize_extension_idem: "normalize_extension (normalize_extension e) = normalize_extension e"
proof (cases "trim_space e = []")
  case True
  then show ?thesis by (simp add: normalize_extension_def to_lower_def)
next
  case False
  define c where "c = to_lower (trim_space e)"
  have c: "c \<noteq> []" "\<not> is_space (hd c)" "\<not> is_space (last c)" "to_lower c = c"
    using False trim_space_ends [OF False] by (simp_all add: c_def to_lower_def hd_map last_map)
  define n where "n = (if has_prefix c ''.'' then c else CHR ''.'' # c)"
  have "\<not> is_space CHR ''.''" "to_lower_char CHR ''.'' = CHR ''.''" by code_simp+
  with c have n: "n \<noteq> []" "\<not> is_space (hd n)" "\<not> is_space (last n)" "to_lower n = n" "has_prefix n ''.''"
    by (auto simp: n_def to_lower_def has_prefix_def)
  have "normalize_extension e = n" using c(1) by (simp add: normalize_extension_def n_def c_def Let_def)
  moreover have "normalize_extension n = n" using n trim_space_id [OF n(1,2,3)] by (simp add: normalize_extension_def)
  ultimately show ?thesis by simp
qed

lemma set_NormalizeExtensions: "set (NormalizeExtensions exts) = normalize_extension ` set exts - {''''}"
  by (simp add: NormalizeExtensions_def set_normalize_exts)

lemma NormalizeExtensions_idem_set: "set (NormalizeExtensions (NormalizeExtensions exts)) = set (NormalizeExtensions exts)"
proof -
  let ?A = "normalize_extension ` set exts - {''''}"
  have "normalize_extension x = x" if "x \<in> ?A" for x using that normalize_extension_idem by blast
  then have "normalize_extension ` ?A = (\<lambda>x. x) ` ?A" by (intro image_cong refl)
  then have "normalize_extension ` ?A = ?A" by (simp only: image_ident)
  then show ?thesis
    by (simp only: set_NormalizeExtensions [of "NormalizeExtensions exts"] set_NormalizeExtensions [of exts])
      blast
qed

lemma ExtensionAllowed_iff:
  "ExtensionAllowed nm exts \<longleftrightarrow> NormalizeExtensions exts = [] \<or>
     (\<exists>x \<in> set (NormalizeExtensions exts). has_suffix (to_lower (basename nm)) x)"
  by (auto simp: ExtensionAllowed_def Let_def list_ex_iff NormalizeExtensions_def)

text \<open>FilterArchiveNames, which normalises the allow-list once, selects in order exactly the
  names that MatchesArchiveName accepts one by one with the list as configured: normalising an
  extension (blanks, case, a missing dot, duplicates) is idempotent, and the empty, dot and dot-dot
  names never pass.\<close>

theorem FilterArchiveNames_eq:
  "FilterArchiveNames compile dflt names rx exts =
    map_option (\<lambda>_. map basename (filter (\<lambda>nm. MatchesArchiveName compile dflt nm rx exts = Some True) names))
      (CompileNameRegex compile dflt rx)"
proof (cases "CompileNameRegex compile dflt rx")
  case None
  then show ?thesis by (simp add: FilterArchiveNames_def)
next
  case (Some re)
  have "set (NormalizeExtensions (NormalizeExtensions exts)) = set (NormalizeExtensions exts)"
    by (rule NormalizeExtensions_idem_set)
  then have ext: "ExtensionAllowed b (NormalizeExtensions exts) = ExtensionAllowed b exts" for b
    unfolding ExtensionAllowed_iff by (simp flip: set_empty)
  show ?thesis
    using Some by (auto simp: FilterArchiveNames_def MatchesArchiveName_def Let_def ext intro!: arg_cong [of _ _ "map basename"] filter_cong)
qed

end
