(* ===== verification/Gate.thy ===== *)
theory Gate
  imports Prelude
begin

text \<open>
  The stable-file gate of src/internal/scanner/stable.go: an archive is only started when its size
  and mtime stopped changing.  The gate keeps, per path, the last observation and the number of
  consecutive identical ones; seconds are exact rationals where the code has float64.
\<close>

record prior_stat =
  pr_path :: path
  pr_size :: int
  pr_mtime :: int
  pr_same :: int

record gate =
  g_mode :: string
  g_min_age :: rat
  g_prior :: "prior_stat list"

definition NewStableFileGate :: "string \<Rightarrow> rat \<Rightarrow> gate option" where
  "NewStableFileGate mode minAge =
    (if mode \<in> set [''two_scans'', ''min_age'', ''both'']
     then Some \<lparr>g_mode = mode, g_min_age = minAge, g_prior = []\<rparr> else None)"

definition gate_prior :: "gate \<Rightarrow> path \<Rightarrow> prior_stat option" where
  "gate_prior g p = kfind pr_path p (g_prior g)"

definition Reset :: "path \<Rightarrow> gate \<Rightarrow> gate" where
  "Reset p g = (if p = '''' then g\<lparr>g_prior := []\<rparr> else g\<lparr>g_prior := kremove pr_path p (g_prior g)\<rparr>)"

definition ForgetMissing :: "path list \<Rightarrow> gate \<Rightarrow> gate" where
  "ForgetMissing present g = g\<lparr>g_prior := filter (\<lambda>e. pr_path e \<in> set present) (g_prior g)\<rparr>"

definition ageSeconds :: "int \<Rightarrow> rat \<Rightarrow> rat" where
  "ageSeconds mtimeNs now =
    (let age = now - of_int mtimeNs / 1000000000 in if age < 0 then 0 else age)"

definition Peek :: "gate \<Rightarrow> path \<Rightarrow> int option \<Rightarrow> int option \<Rightarrow> rat option \<Rightarrow> bool" where
  "Peek g p sizeBytes mtimeNs now =
    (case gate_prior g p of
       None \<Rightarrow> False
     | Some prior \<Rightarrow>
         (let sz = (case sizeBytes of None \<Rightarrow> pr_size prior | Some x \<Rightarrow> x);
              mtime = (case mtimeNs of None \<Rightarrow> pr_mtime prior | Some x \<Rightarrow> x) in
          if sz \<noteq> pr_size prior \<or> mtime \<noteq> pr_mtime prior then False
          else
            (let twoOK = pr_same prior \<ge> 2;
                 minAgeOK = (case now of
                   None \<Rightarrow> twoOK
                 | Some t \<Rightarrow> ageSeconds mtime t \<ge> g_min_age g \<and> pr_same prior \<ge> 1 \<and> pr_same prior \<ge> 2) in
             if g_mode g = ''two_scans'' then twoOK
             else if g_mode g = ''min_age'' then now \<noteq> None \<and> minAgeOK
             else twoOK \<and> minAgeOK)))"

definition record_prior :: "path \<Rightarrow> int \<Rightarrow> int \<Rightarrow> int \<Rightarrow> gate \<Rightarrow> gate" where
  "record_prior p sz mtime n g =
    g\<lparr>g_prior := kput pr_path \<lparr>pr_path = p, pr_size = sz, pr_mtime = mtime, pr_same = n\<rparr> (g_prior g)\<rparr>"

definition Check :: "path \<Rightarrow> int \<Rightarrow> int \<Rightarrow> rat \<Rightarrow> bool \<Rightarrow> gate \<Rightarrow> bool \<times> gate" where
  "Check p sz mtime now assumeStable g =
    (if assumeStable then (True, record_prior p sz mtime 2 g)
     else
      (let prior = gate_prior g p;
           unchanged = (case prior of None \<Rightarrow> False | Some e \<Rightarrow> pr_size e = sz \<and> pr_mtime e = mtime);
           n = (case prior of Some e \<Rightarrow> (if unchanged then pr_same e + 1 else 1) | None \<Rightarrow> 1);
           twoOK = (unchanged \<and> n \<ge> 2);
           minAgeOK = (ageSeconds mtime now \<ge> g_min_age g \<and> unchanged) in
       (if g_mode g = ''two_scans'' then twoOK
        else if g_mode g = ''min_age'' then minAgeOK
        else twoOK \<and> minAgeOK,
        record_prior p sz mtime n g)))"

subsection \<open>Facts\<close>

text \<open>Every recorded observation has been made at least once.\<close>

definition gate_ok :: "gate \<Rightarrow> bool" where
  "gate_ok g \<longleftrightarrow> kdistinct pr_path (g_prior g) \<and> (\<forall>e \<in> set (g_prior g). 1 \<le> pr_same e)"

lemma prior_record [simp]:
  "gate_prior (record_prior p sz mt n g) q =
    (if q = p then Some \<lparr>pr_path = p, pr_size = sz, pr_mtime = mt, pr_same = n\<rparr> else gate_prior g q)"
  by (simp add: gate_prior_def record_prior_def kfind_kput)

lemma record_prior_sel [simp]: "g_mode (record_prior p sz mt n g) = g_mode g" "g_min_age (record_prior p sz mt n g) = g_min_age g"
  by (simp_all add: record_prior_def)

lemma prior_mem: "gate_ok g \<Longrightarrow> gate_prior g p = Some e \<Longrightarrow> 1 \<le> pr_same e \<and> pr_path e = p"
  by (auto simp: gate_ok_def gate_prior_def dest: kfind_SomeD)

lemma ok_record: "gate_ok g \<Longrightarrow> 1 \<le> n \<Longrightarrow> gate_ok (record_prior p sz mt n g)"
  by (auto simp: gate_ok_def record_prior_def kput_def kremove_def kdistinct_def distinct_map_filter)

lemma ok_Check: "gate_ok g \<Longrightarrow> gate_ok (snd (Check p sz mt now asm g))"
  by (auto simp: Check_def Let_def intro!: ok_record split: option.split dest: prior_mem)

lemma ok_Reset: "gate_ok g \<Longrightarrow> gate_ok (Reset p g)"
  by (auto simp: gate_ok_def Reset_def kdistinct_kremove) (auto simp: kdistinct_def kremove_def)

lemma ok_ForgetMissing: "gate_ok g \<Longrightarrow> gate_ok (ForgetMissing ps g)"
  by (auto simp: gate_ok_def ForgetMissing_def kdistinct_def distinct_map_filter)

lemma Check_sel [simp]: "g_mode (snd (Check p sz mt now asm g)) = g_mode g"
  "g_min_age (snd (Check p sz mt now asm g)) = g_min_age g"
  by (simp_all add: Check_def Let_def)

lemma Check_frame: "q \<noteq> p \<Longrightarrow> gate_prior (snd (Check p sz mt now asm g)) q = gate_prior g q"
  by (simp add: Check_def Let_def)

lemma Reset_prior: "gate_prior (Reset p g) q = (if q = p \<or> p = '''' then None else gate_prior g q)"
  by (simp add: gate_prior_def Reset_def kfind_kremove)

lemma kfind_filter_key: "kfind key k (filter (\<lambda>e. P (key e)) xs) = (if P k then kfind key k xs else None)"
  by (induction xs) auto

lemma Forget_prior: "gate_prior (ForgetMissing ps g) q = (if q \<in> set ps then gate_prior g q else None)"
  using kfind_filter_key [of pr_path q "\<lambda>k. k \<in> set ps" "g_prior g"] by (simp add: gate_prior_def ForgetMissing_def)

subsection \<open>The gate and the history it stands for\<close>

text \<open>
  The specification: a history of observations of one path, newest first.  \<open>run_length\<close> is how
  many of the newest are identical.
\<close>

fun run_length :: "'a list \<Rightarrow> int" where
  "run_length [] = 0"
| "run_length [x] = 1"
| "run_length (x # y # zs) = (if x = y then 1 + run_length (y # zs) else 1)"

definition settled :: "gate \<Rightarrow> (int \<times> int) list \<Rightarrow> rat \<Rightarrow> bool" where
  "settled g hist now \<longleftrightarrow>
    (case hist of
       (sz, mt) # prev # _ \<Rightarrow> prev = (sz, mt)
         \<and> (g_mode g = ''two_scans'' \<or> ageSeconds mt now \<ge> g_min_age g)
     | _ \<Rightarrow> False)"

datatype gate_op = GCheck path int int rat bool | GForget "path list" | GReset path

fun gate_step :: "gate_op \<Rightarrow> gate \<Rightarrow> gate" where
  "gate_step (GCheck p sz mt now asm) g = snd (Check p sz mt now asm g)"
| "gate_step (GForget ps) g = ForgetMissing ps g"
| "gate_step (GReset p) g = Reset p g"

fun hist_step :: "gate_op \<Rightarrow> (path \<Rightarrow> (int \<times> int) list) \<Rightarrow> path \<Rightarrow> (int \<times> int) list" where
  "hist_step (GCheck p sz mt now asm) h =
    h(p := if asm then [(sz, mt), (sz, mt)] else (sz, mt) # h p)"
| "hist_step (GForget ps) h = (\<lambda>q. if q \<in> set ps then h q else [])"
| "hist_step (GReset p) h = (if p = '''' then (\<lambda>_. []) else h(p := []))"

definition represents :: "gate \<Rightarrow> path \<Rightarrow> (int \<times> int) list \<Rightarrow> bool" where
  "represents g p hist \<longleftrightarrow>
    (case hist of
       [] \<Rightarrow> gate_prior g p = None
     | (sz, mt) # _ \<Rightarrow> gate_prior g p =
         Some \<lparr>pr_path = p, pr_size = sz, pr_mtime = mt, pr_same = run_length hist\<rparr>)"

lemma run_length_pos: "xs \<noteq> [] \<Longrightarrow> 1 \<le> run_length xs"
  by (induction xs rule: run_length.induct) auto

lemma Check_represents:
  assumes "represents g p hist"
  shows "represents (snd (Check p sz mt now False g)) p ((sz, mt) # hist)
    \<and> fst (Check p sz mt now False g) = settled g ((sz, mt) # hist) now"
proof (cases hist)
  case Nil
  with assms show ?thesis by (simp add: represents_def Check_def Let_def settled_def)
next
  case (Cons e tl)
  obtain s0 m0 where e: "e = (s0, m0)" by (cases e)
  have "1 \<le> run_length ((s0, m0) # tl)" by (rule run_length_pos) simp
  with assms Cons e show ?thesis
    by (auto simp: represents_def Check_def Let_def settled_def)
qed

lemma Check_assume_represents: "represents (snd (Check p sz mt now True g)) p [(sz, mt), (sz, mt)]"
  by (simp add: represents_def Check_def)

lemma represents_cong: "gate_prior g' p = gate_prior g p \<Longrightarrow> represents g' p = represents g p"
  by (simp add: represents_def fun_eq_iff split: list.split)

lemma represents_none: "gate_prior g p = None \<Longrightarrow> represents g p []"
  by (simp add: represents_def)

lemma gate_step_represents:
  assumes "\<forall>p. represents g p (h p)"
  shows "represents (gate_step op g) q (hist_step op h q)"
proof (cases op)
  case (GCheck p sz mt now asm)
  show ?thesis
  proof (cases "q = p")
    case True
    with GCheck Check_represents [OF assms [rule_format, of p], of sz mt now] Check_assume_represents
    show ?thesis by simp
  next
    case False
    with assms GCheck show ?thesis by (simp add: represents_cong [OF Check_frame [OF False]])
  qed
next
  case (GForget ps)
  then show ?thesis
    using assms Forget_prior [of ps g q]
    by (auto simp: represents_none represents_cong [of "ForgetMissing ps g" q g])
next
  case (GReset p)
  then show ?thesis
    using assms Reset_prior [of p g q]
    by (auto simp: represents_none represents_cong [of "Reset p g" q g])
qed

lemma gate_run_represents:
  "\<forall>p. represents g p (h p) \<Longrightarrow> represents (fold gate_step ops g) q (fold hist_step ops h q)"
proof (induction ops arbitrary: g h q)
  case (Cons op ops)
  from Cons.prems have "\<forall>p. represents (gate_step op g) p (hist_step op h p)" by (simp add: gate_step_represents)
  with Cons.IH show ?case by simp
qed simp

lemma gate_step_sel [simp]: "g_mode (gate_step op g) = g_mode g" "g_min_age (gate_step op g) = g_min_age g"
  by (cases op; simp add: ForgetMissing_def Reset_def)+

lemma gate_run_sel [simp]: "g_mode (fold gate_step ops g) = g_mode g" "g_min_age (fold gate_step ops g) = g_min_age g"
  by (induction ops arbitrary: g) simp_all

lemma settled_cong: "g_mode g' = g_mode g \<Longrightarrow> g_min_age g' = g_min_age g \<Longrightarrow> settled g' = settled g"
  by (intro ext) (simp add: settled_def split: list.split)

text \<open>Peek at the clock reads the same verdict off the recorded history.\<close>

lemma Peek_settled: "represents g p hist \<Longrightarrow>
   Peek g p None None (Some now) = (case hist of [] \<Rightarrow> False | e # _ \<Rightarrow> settled g hist now)"
proof (cases hist)
  case (Cons e tl)
  assume rep: "represents g p hist"
  obtain sz mt where e: "e = (sz, mt)" by (cases e)
  show ?thesis
  proof (cases tl)
    case Nil
    with rep Cons e show ?thesis by (simp add: represents_def Peek_def Let_def settled_def)
  next
    case (Cons e1 tl1)
    have "1 \<le> run_length (e1 # tl1)" by (rule run_length_pos) simp
    with rep Cons \<open>hist = e # tl\<close> e show ?thesis
      by (auto simp: represents_def Peek_def Let_def settled_def)
  qed
qed (simp add: represents_def Peek_def)

subsection \<open>Properties\<close>

text \<open>C7. The gate implements its contract over any sequence of scans, resets and forgotten paths:
  a file's verdict, given by Check during the scan and read back by IsStable through Peek, is that
  its two most recent observations since it was last forgotten agree in size and mtime and, in the
  modes with a minimum age, that it is old enough.  A file seen once, or just changed, never
  passes.\<close>

theorem gate_refines_history:
  assumes "NewStableFileGate mode minAge = Some g0"
    and "g = fold gate_step ops g0" and "h = fold hist_step ops (\<lambda>_. [])"
  shows "fst (Check p sz mt now False g) = settled g0 ((sz, mt) # h p) now
    \<and> Peek g p None None (Some now) = (h p \<noteq> [] \<and> settled g0 (h p) now)
    \<and> Peek (snd (Check p sz mt now False g)) p None None (Some now) = settled g0 ((sz, mt) # h p) now"
proof -
  have "\<forall>p. represents g0 p []"
    using assms(1) by (auto simp: NewStableFileGate_def represents_def gate_prior_def split: if_splits)
  then have rep: "represents g p (h p)" for p
    unfolding assms(2,3) by (intro gate_run_represents) simp
  have s: "settled g = settled g0" using assms(2) by (intro settled_cong) simp_all
  have s': "settled (snd (Check p sz mt now False g)) = settled g0"
    unfolding s [symmetric] by (intro settled_cong) simp_all
  from Check_represents [OF rep, of p sz mt now]
  have c: "represents (snd (Check p sz mt now False g)) p ((sz, mt) # h p)"
    "fst (Check p sz mt now False g) = settled g0 ((sz, mt) # h p) now" by (simp_all add: s)
  from Peek_settled [OF rep, of p now] Peek_settled [OF c(1), of now] c(2) show ?thesis
    by (simp add: s s' split: list.split)
qed

theorem gate_refines_history_witness:
  "fst (Check ''/in/a'' 10 5 2 False (fold gate_step [GCheck ''/in/a'' 10 5 1 False] \<lparr>g_mode = ''two_scans'', g_min_age = 0, g_prior = []\<rparr>))"
  using gate_refines_history [of "''two_scans''" 0 "\<lparr>g_mode = ''two_scans'', g_min_age = 0, g_prior = []\<rparr>" _
      "[GCheck ''/in/a'' 10 5 1 False]" _ "''/in/a''" 10 5 2, OF _ refl refl]
  by (simp add: NewStableFileGate_def settled_def)

text \<open>A scan with assumeStable reports every file stable, but the record it leaves passes Peek,
  which decides what is started, only in the two_scans mode or when the file is old enough: the
  minimum age still holds the file back.\<close>

theorem assume_stable_limited:
  "fst (Check p sz mt now True g) \<and>
   Peek (snd (Check p sz mt now True g)) p None None (Some now) =
     (g_mode g = ''two_scans'' \<or> g_min_age g \<le> ageSeconds mt now)"
  by (simp add: Check_def Peek_def Let_def)

end
