(* ===== verification/Scanner.thy ===== *)
theory Scanner
  imports Archives Match Gate
begin

text \<open>
  src/internal/scanner: listing a source directory (list.go), the archive fingerprint
  (fingerprint.go) and the discovery pass that brings the store in line with the files present
  (scanner.go).  What the pass reads from the host is a \<open>disk\<close>: the tree below each source as
  Lstat and ReadDir show it, os.Stat, filepath.EvalSymlinks and file contents.  SHA-256 in
  hexadecimal is the parameter \<open>sha\<close>, the identifiers NewArchiveID would return the supply \<open>ids\<close>.
\<close>

subsection \<open>Listing\<close>

datatype fsnode =
    RegularFile | Special | Vanished
  | SymLink "fsnode option"
  | Directory "(string \<times> fsnode) list option"

fun follow :: "fsnode \<Rightarrow> fsnode" where
  "follow (SymLink None) = Vanished"
| "follow (SymLink (Some n)) = follow n"
| "follow n = n"

fun is_dir :: "fsnode \<Rightarrow> bool" where
  "is_dir (Directory _) = True"
| "is_dir _ = False"

text \<open>filepath.WalkDir below a path: None when some ReadDir fails; links are not followed.\<close>

fun walk :: "path \<Rightarrow> fsnode \<Rightarrow> path list option" where
  "walk p RegularFile = Some [p]"
| "walk p (Directory None) = None"
| "walk p (Directory (Some es)) =
    map_option concat (those (map (\<lambda>e. walk (path_join p (fst e)) (snd e)) es))"
| "walk p _ = Some []"

definition ListSourceFiles :: "path \<Rightarrow> fsnode \<Rightarrow> bool \<Rightarrow> path list option" where
  "ListSourceFiles sourceDir node recursive =
    (case follow node of
       Directory listing \<Rightarrow>
         (if \<not> recursive
          then (case listing of
                  None \<Rightarrow> None
                | Some es \<Rightarrow> Some (sort (map (\<lambda>e. path_join sourceDir (fst e))
                    (filter (\<lambda>e. snd e = RegularFile) es))))
          else map_option sort (walk sourceDir node))
     | _ \<Rightarrow> Some [])"

subsection \<open>Fingerprints\<close>

definition hashHead :: nat where
  "hashHead = 1048576"

definition hashTail :: nat where
  "hashTail = 65536"

text \<open>\<open>content\<close> is the whole file; \<open>sizeBytes\<close> the size Stat reported, which may be stale.\<close>

definition PartialContentHash :: "(string \<Rightarrow> string) \<Rightarrow> string option \<Rightarrow> int \<Rightarrow> string option" where
  "PartialContentHash sha content sizeBytes =
    (case content of
       None \<Rightarrow> None
     | Some bytes \<Rightarrow>
         (let sz = (if sizeBytes < 0 then int (length bytes) else sizeBytes);
              head = take hashHead bytes;
              tailStart = max (sz - int hashTail) (int hashHead);
              tail = (if sz > int hashHead \<and> tailStart < sz then take hashTail (drop (nat tailStart) bytes) else []) in
          Some (take 16 (sha (head @ tail)))))"

definition ComputeFingerprint ::
  "(string \<Rightarrow> string) \<Rightarrow> string option \<Rightarrow> int \<Rightarrow> int \<Rightarrow> bool \<Rightarrow> string option" where
  "ComputeFingerprint sha content sizeBytes mtimeNs use_content =
    (let base = itoa sizeBytes @ '':'' @ itoa mtimeNs in
     if \<not> use_content then Some base
     else map_option (\<lambda>digest. base @ '':'' @ digest) (PartialContentHash sha content sizeBytes))"

subsection \<open>Scanner state\<close>

record file_info =
  fi_regular :: bool
  fi_size :: int
  fi_mtime :: int
  fi_inode :: "int option"

record disk =
  d_tree :: "path \<Rightarrow> fsnode"
  d_stat :: "path \<Rightarrow> file_info option"
  d_resolve :: "path \<Rightarrow> path option"
  d_content :: "path \<Rightarrow> string option"

record scanner =
  sc_extensions :: "string list"
  sc_regex :: matcher
  sc_gate :: gate
  sc_mapped :: "(path \<times> path) list"

record observation =
  ob_path :: path
  ob_source :: path
  ob_basename :: string
  ob_size :: int
  ob_mtime :: int
  ob_inode :: "int option"
  ob_fingerprint :: string
  ob_stable :: bool

datatype scan_error =
    CannotList path | StatFailed path | FingerprintFailed path
  | ReconcileFailed path store_error | MarkAbsentFailed string store_error

record scan_result =
  sr_observations :: "observation list"
  sr_inserted :: "string list"
  sr_reappeared :: "string list"
  sr_touched :: "string list"
  sr_changed :: "string list"
  sr_absent :: "string list"
  sr_stable :: "string list"
  sr_skipped_sources :: "path list"
  sr_skipped_files :: "path list"
  sr_errors :: "scan_error list"
  sr_assume :: bool

definition empty_result :: "bool \<Rightarrow> scan_result" where
  "empty_result asm = \<lparr>sr_observations = [], sr_inserted = [], sr_reappeared = [], sr_touched = [],
     sr_changed = [], sr_absent = [], sr_stable = [], sr_skipped_sources = [], sr_skipped_files = [],
     sr_errors = [], sr_assume = asm\<rparr>"

definition mapSources :: "(string \<Rightarrow> string option) \<Rightarrow> config \<Rightarrow> (path \<times> path) list" where
  "mapSources wslpath cfg =
    List.map_filter (\<lambda>raw. case ToWSLPath wslpath raw of Inl _ \<Rightarrow> None | Inr p \<Rightarrow> Some (raw, p)) (c_source_dirs cfg)"

definition NewScanner ::
  "(string \<Rightarrow> matcher option) \<Rightarrow> string \<Rightarrow> (string \<Rightarrow> string option) \<Rightarrow> config \<Rightarrow> string \<Rightarrow> string list \<Rightarrow> scanner option" where
  "NewScanner compile dflt wslpath cfg nameRegex extensions =
    (case CompileNameRegex compile dflt (if nameRegex = '''' then c_name_regex cfg else nameRegex) of
       None \<Rightarrow> None
     | Some re \<Rightarrow>
         map_option (\<lambda>g. \<lparr>sc_extensions = extensions, sc_regex = re, sc_gate = g, sc_mapped = mapSources wslpath cfg\<rparr>)
           (NewStableFileGate (c_stable_file_mode cfg) (c_min_file_age cfg)))"

definition ReloadSources ::
  "(string \<Rightarrow> matcher option) \<Rightarrow> string \<Rightarrow> (string \<Rightarrow> string option) \<Rightarrow> config \<Rightarrow> scanner \<Rightarrow> bool \<times> scanner" where
  "ReloadSources compile dflt wslpath cfg sc =
    (case (CompileNameRegex compile dflt (c_name_regex cfg),
           NewStableFileGate (c_stable_file_mode cfg) (c_min_file_age cfg)) of
       (Some re, Some g) \<Rightarrow> (True, sc\<lparr>sc_regex := re, sc_gate := g, sc_mapped := mapSources wslpath cfg\<rparr>)
     | _ \<Rightarrow> (False, sc))"

definition stat_regular :: "disk \<Rightarrow> path \<Rightarrow> bool" where
  "stat_regular d p \<longleftrightarrow> (case d_stat d p of None \<Rightarrow> False | Some fi \<Rightarrow> fi_regular fi)"

definition IsStable :: "path \<Rightarrow> config \<Rightarrow> disk \<Rightarrow> rat \<Rightarrow> scanner \<Rightarrow> path \<Rightarrow> bool" where
  "IsStable cwd cfg d now sc p =
    (if IsArchivesPath cwd cfg p then stat_regular d p
     else Peek (sc_gate sc) p None None (Some now))"

definition StableArchiveIDs :: "path \<Rightarrow> config \<Rightarrow> disk \<Rightarrow> rat \<Rightarrow> scanner \<Rightarrow> store \<Rightarrow> string list" where
  "StableArchiveIDs cwd cfg d now sc s =
    (case ListArchives s (OneStatus (status_str StatusDiscovered)) of
       Inl _ \<Rightarrow> []
     | Inr recs \<Rightarrow> map a_archive_id (filter (\<lambda>r. IsStable cwd cfg d now sc (a_archive_path r)) recs))"

subsection \<open>Observing\<close>

definition name_selected :: "scanner \<Rightarrow> string \<Rightarrow> bool" where
  "name_selected sc b \<longleftrightarrow> \<not> dot_name b \<and> ExtensionAllowed b (sc_extensions sc) \<and> sc_regex sc b"

definition resolved_path :: "path \<Rightarrow> disk \<Rightarrow> path \<Rightarrow> path" where
  "resolved_path cwd d p =
    (let absPath = path_abs cwd p in case d_resolve d absPath of None \<Rightarrow> absPath | Some r \<Rightarrow> r)"

type_synonym observing = "gate \<times> scan_result"

definition add_error :: "scan_error \<Rightarrow> scan_result \<Rightarrow> scan_result" where
  "add_error e r = r\<lparr>sr_errors := sr_errors r @ [e]\<rparr>"

definition observeFile ::
  "path \<Rightarrow> config \<Rightarrow> (string \<Rightarrow> string) \<Rightarrow> disk \<Rightarrow> scanner \<Rightarrow> rat \<Rightarrow> bool \<Rightarrow> path \<Rightarrow> path \<Rightarrow> observing
    \<Rightarrow> observation option \<times> observing" where
  "observeFile cwd cfg sha d sc now assumeStable sourceDir p = (\<lambda>(g, r).
    let b = path_base p in
    if \<not> name_selected sc b then (None, g, r)
    else (case d_stat d p of
        None \<Rightarrow> (None, g, add_error (StatFailed p) r)
      | Some st \<Rightarrow>
          if \<not> fi_regular st then (None, g, r)
          else if c_max_archive_bytes cfg > 0 \<and> fi_size st > c_max_archive_bytes cfg
          then (None, g, r\<lparr>sr_skipped_files := sr_skipped_files r @ [p]\<rparr>)
          else (case ComputeFingerprint sha (d_content d p) (fi_size st) (fi_mtime st) (c_content_fingerprint cfg) of
              None \<Rightarrow> (None, g, add_error (FingerprintFailed p) r)
            | Some fp \<Rightarrow>
                (let absPath = resolved_path cwd d p;
                     (stable, g') = Check absPath (fi_size st) (fi_mtime st) now assumeStable g in
                 (Some \<lparr>ob_path = absPath, ob_source = sourceDir, ob_basename = b, ob_size = fi_size st,
                        ob_mtime = fi_mtime st, ob_inode = fi_inode st, ob_fingerprint = fp, ob_stable = stable\<rparr>,
                  g', r)))))"

fun observe_files ::
  "(path \<Rightarrow> observing \<Rightarrow> observation option \<times> observing) \<Rightarrow> path list \<Rightarrow> observing \<Rightarrow> observation list \<times> observing" where
  "observe_files ob [] st = ([], st)"
| "observe_files ob (p # ps) st =
    (let (o1, st1) = ob p st; (os, st2) = observe_files ob ps st1 in
     ((case o1 of None \<Rightarrow> os | Some x \<Rightarrow> x # os), st2))"

fun observe_sources ::
  "path \<Rightarrow> config \<Rightarrow> (string \<Rightarrow> string) \<Rightarrow> disk \<Rightarrow> scanner \<Rightarrow> rat \<Rightarrow> bool \<Rightarrow> (path \<times> path) list \<Rightarrow> observing
    \<Rightarrow> observation list \<times> observing" where
  "observe_sources cwd cfg sha d sc now asm [] st = ([], st)"
| "observe_sources cwd cfg sha d sc now asm ((orig, mapped) # srcs) st =
    (let (g, r) = st in
     if \<not> is_dir (follow (d_tree d mapped))
     then observe_sources cwd cfg sha d sc now asm srcs (g, r\<lparr>sr_skipped_sources := sr_skipped_sources r @ [mapped]\<rparr>)
     else (case ListSourceFiles mapped (d_tree d mapped) (c_recursive cfg) of
         None \<Rightarrow> observe_sources cwd cfg sha d sc now asm srcs (g, add_error (CannotList mapped) r)
       | Some files \<Rightarrow>
           (let (os1, st1) = observe_files (observeFile cwd cfg sha d sc now asm mapped) files st;
                (os2, st2) = observe_sources cwd cfg sha d sc now asm srcs st1 in
            (os1 @ os2, st2))))"

subsection \<open>Reconciling the store\<close>

definition obs_params :: "observation \<Rightarrow> string \<Rightarrow> insert_params" where
  "obs_params obs nowISO = \<lparr>i_source_dir = ob_source obs, i_archive_path = ob_path obs,
     i_archive_basename = ob_basename obs, i_size_bytes = ob_size obs, i_mtime_ns = ob_mtime obs,
     i_fingerprint = ob_fingerprint obs, i_archive_id = '''', i_index_path = None,
     i_overlay_path = None, i_mount_path = None, i_now = nowISO\<rparr>"

datatype reconciled = Inserted | Reappeared | ContentChanged | Touched

definition reconcile_op :: "config \<Rightarrow> string \<Rightarrow> string \<Rightarrow> observation \<Rightarrow> store \<Rightarrow> reconciled \<times> (store_error + archive option) \<times> store" where
  "reconcile_op cfg nowISO uuid obs s =
    (case GetArchiveByPath s (ob_path obs) of
       None \<Rightarrow> (Inserted, InsertDiscovered nowISO uuid (obs_params obs nowISO) s)
     | Some existing \<Rightarrow>
         let aid = a_archive_id existing in
         if a_status existing = StatusAbsent
         then (Reappeared, Reappear nowISO aid (ob_size obs) (ob_mtime obs) (ob_fingerprint obs) nowISO s)
         else if a_fingerprint existing \<noteq> ob_fingerprint obs
         then (ContentChanged, RecordContentChange nowISO aid (ob_size obs) (ob_mtime obs) (ob_fingerprint obs)
                 (c_on_content_change cfg = ''remount_reset_hooks'') nowISO s)
         else (Touched, TouchSeen nowISO aid (Some (ob_size obs)) (Some (ob_mtime obs)) (Some (ob_fingerprint obs)) nowISO s))"

fun record_id :: "reconciled \<Rightarrow> string \<Rightarrow> scan_result \<Rightarrow> scan_result" where
  "record_id Inserted i r = r\<lparr>sr_inserted := sr_inserted r @ [i]\<rparr>"
| "record_id Reappeared i r = r\<lparr>sr_reappeared := sr_reappeared r @ [i]\<rparr>"
| "record_id ContentChanged i r = r\<lparr>sr_changed := sr_changed r @ [i]\<rparr>"
| "record_id Touched i r = r\<lparr>sr_touched := sr_touched r @ [i]\<rparr>"

definition reconcileObservation ::
  "config \<Rightarrow> string \<Rightarrow> string \<Rightarrow> observation \<Rightarrow> store \<times> scan_result \<Rightarrow> store \<times> scan_result" where
  "reconcileObservation cfg nowISO uuid obs = (\<lambda>(s, r).
    case reconcile_op cfg nowISO uuid obs s of
      (_, Inl e, s') \<Rightarrow> (s', add_error (ReconcileFailed (ob_path obs) e) r)
    | (k, Inr (Some rec), s') \<Rightarrow> (s', record_id k (a_archive_id rec) r)
    | (_, Inr None, s') \<Rightarrow> (s', r))"

fun reconcile_all ::
  "config \<Rightarrow> string \<Rightarrow> (nat \<Rightarrow> string) \<Rightarrow> nat \<Rightarrow> observation list \<Rightarrow> store \<times> scan_result \<Rightarrow> store \<times> scan_result" where
  "reconcile_all cfg nowISO ids k [] st = st"
| "reconcile_all cfg nowISO ids k (obs # os) st =
    reconcile_all cfg nowISO ids (Suc k) os (reconcileObservation cfg nowISO (ids k) obs st)"

definition kept_off_source :: "path \<Rightarrow> config \<Rightarrow> disk \<Rightarrow> path \<Rightarrow> bool" where
  "kept_off_source cwd cfg d p \<longleftrightarrow> IsArchivesPath cwd cfg p \<and> stat_regular d p"

definition mark_missing ::
  "path \<Rightarrow> config \<Rightarrow> disk \<Rightarrow> string \<Rightarrow> path list \<Rightarrow> archive \<Rightarrow> store \<times> observing \<Rightarrow> store \<times> observing" where
  "mark_missing cwd cfg d nowISO seen rec = (\<lambda>(s, g, r).
    if a_archive_path rec \<in> set seen \<or> kept_off_source cwd cfg d (a_archive_path rec) then (s, g, r)
    else (case MarkAbsent nowISO (a_archive_id rec) nowISO None s of
        (Inl e, s') \<Rightarrow> (s', g, add_error (MarkAbsentFailed (a_archive_id rec) e) r)
      | (Inr x, s') \<Rightarrow>
          (s', Reset (a_archive_path rec) g,
           (case x of None \<Rightarrow> r | Some absent \<Rightarrow> r\<lparr>sr_absent := sr_absent r @ [a_archive_id absent]\<rparr>))))"

definition active_rows :: "store \<Rightarrow> archive list" where
  "active_rows s = (case ListArchives s (StatusIn (map status_str ActiveStatusesList)) of Inl _ \<Rightarrow> [] | Inr l \<Rightarrow> l)"

definition stable_ids :: "observation list \<Rightarrow> store \<Rightarrow> string list" where
  "stable_ids os s = List.map_filter (\<lambda>obs.
     if \<not> ob_stable obs then None
     else (case GetArchiveByPath s (ob_path obs) of
             None \<Rightarrow> None
           | Some rec \<Rightarrow> if a_status rec = StatusDiscovered then Some (a_archive_id rec) else None)) os"

definition Scan ::
  "path \<Rightarrow> config \<Rightarrow> (string \<Rightarrow> string) \<Rightarrow> disk \<Rightarrow> rat \<Rightarrow> string \<Rightarrow> (nat \<Rightarrow> string) \<Rightarrow> bool
    \<Rightarrow> scanner \<times> store \<Rightarrow> scan_result \<times> scanner \<times> store" where
  "Scan cwd cfg sha d now nowISO ids assumeStable = (\<lambda>(sc, s).
    let (os, g, r) = observe_sources cwd cfg sha d sc now assumeStable (sc_mapped sc) (sc_gate sc, empty_result assumeStable);
        seen = map ob_path os;
        g1 = ForgetMissing seen g;
        (s1, r1) = reconcile_all cfg nowISO ids 0 os (s, r\<lparr>sr_observations := os\<rparr>);
        (s2, g2, r2) = fold (mark_missing cwd cfg d nowISO seen) (active_rows s1) (s1, g1, r1) in
    (r2\<lparr>sr_stable := stable_ids os s2\<rparr>, sc\<lparr>sc_gate := g2\<rparr>, s2))"

end
