(* ===== verification/EngineState.thy ===== *)
theory EngineState
  imports ConvertRun Scanner
begin

text \<open>
  The mount engine of src/internal/mounter, first half (engine.go, registry.go, process_poll.go,
  unmount.go, start.go, orphans_unix.go): its live registry, the slots of the concurrency limits,
  the claim and start of a ratarmount child, the supervision of children, failures and the unmount
  sequence.  The engine is a state passed explicitly: the store, the live children, the convert
  jobs, the exit codes of children that have ended, and the files.  What the operating system
  decides is in \<open>host\<close>: the clock, starting a process, terminating it, fusermount.
\<close>

subsection \<open>State\<close>

datatype phase = PhaseIndexOnly | PhaseMount

record managed =
  mm_archive_id :: string
  mm_pid :: int
  mm_request :: mount_request
  mm_started :: int
  mm_first_index :: bool
  mm_phase :: phase
  mm_skips :: "path list"

type_synonym job_result = "string + (path \<times> metadata option)"

record convert_job =
  cj_archive_id :: string
  cj_source :: path
  cj_size :: int
  cj_needs_index :: bool
  cj_started :: int
  cj_result :: "job_result option"

record engine =
  en_store :: store
  en_live :: "managed list"
  en_jobs :: "convert_job list"
  en_pending :: "(string \<times> path) list"
  en_exits :: "(int \<times> int) list"
  en_files :: convert_state

abbreviation en_world :: "engine \<Rightarrow> world" where
  "en_world e \<equiv> cs_world (en_files e)"

definition on_world :: "(world \<Rightarrow> world) \<Rightarrow> engine \<Rightarrow> engine" where
  "on_world f e = e\<lparr>en_files := (en_files e)\<lparr>cs_world := f (en_world e)\<rparr>\<rparr>"

datatype engine_error =
    EStore store_error | EConvert convert_error | EDrvfs drvfs_error | ERelocate relocate_error
  | ESpawn string | ENoArchiveFile path | EMkdir path | ENoLive string | EWrongPhase
  | EUnknownArchive string | EIndexNotVerified path | ENoMountName | EMessage string

text \<open>
  \<open>h_text\<close> renders an error as the message that ends in last_error; clocks are in nanoseconds;
  \<open>h_procs\<close> lists the ratarmount processes with the mount path of their command line.
\<close>

record host =
  h_utc :: string
  h_clock :: int
  h_text :: "engine_error \<Rightarrow> string"
  h_tools :: tools
  h_cache :: cache_env
  h_lock :: "path \<Rightarrow> int option"
  h_opts :: resolve_opts
  h_needs_flatten :: "(world \<Rightarrow> path \<Rightarrow> bool) option"
  h_environ :: "string list"
  h_spawn :: "string list \<Rightarrow> string list \<Rightarrow> string + int"
  h_terminate :: "int \<Rightarrow> world \<Rightarrow> world"
  h_umount :: "path \<Rightarrow> bool \<Rightarrow> world \<Rightarrow> int \<times> world"
  h_procs :: "world \<Rightarrow> (int \<times> path) list"
  h_converter :: "string list \<Rightarrow> world \<Rightarrow> string option \<times> world"
  h_mtime :: "path \<Rightarrow> int"
  h_content :: "path \<Rightarrow> string option"
  h_sha :: "string \<Rightarrow> string"

type_synonym 'a engine_op = "(engine, engine_error, 'a) op"

definition store_do :: "'a store_op \<Rightarrow> 'a engine_op" where
  "store_do m e =
    (case m (en_store e) of
       (Inl err, s) \<Rightarrow> (Inl (EStore err), e\<lparr>en_store := s\<rparr>)
     | (Inr x, s) \<Rightarrow> (Inr x, e\<lparr>en_store := s\<rparr>))"

text \<open>Transition, whose re-read row is there because the transaction has just updated it.\<close>

definition transition :: "host \<Rightarrow> string \<Rightarrow> status \<Rightarrow> expected \<Rightarrow> patch \<Rightarrow> archive engine_op" where
  "transition h aid to ex p =
    bindE (store_do (Transition (h_utc h) aid to ex p ''''))
      (\<lambda>r. case r of None \<Rightarrow> throw (EUnknownArchive aid) | Some rec \<Rightarrow> ret rec)"

definition live_get :: "string \<Rightarrow> engine \<Rightarrow> managed option" where
  "live_get aid e = kfind mm_archive_id aid (en_live e)"

definition live_put :: "managed \<Rightarrow> engine \<Rightarrow> engine" where
  "live_put m e = e\<lparr>en_live := kput mm_archive_id m (en_live e)\<rparr>"

definition dropLive :: "string \<Rightarrow> engine \<Rightarrow> engine" where
  "dropLive aid e = e\<lparr>en_live := kremove mm_archive_id aid (en_live e)\<rparr>"

definition CountPhase :: "phase \<Rightarrow> engine \<Rightarrow> nat" where
  "CountPhase ph e = length (filter (\<lambda>m. mm_phase m = ph) (en_live e))"

definition HasConvertJob :: "string \<Rightarrow> engine \<Rightarrow> bool" where
  "HasConvertJob aid e \<longleftrightarrow> kfind cj_archive_id aid (en_jobs e) \<noteq> None"

definition ConvertJobCount :: "engine \<Rightarrow> int" where
  "ConvertJobCount e = int (length (en_jobs e))"

subsection \<open>Concurrency slots\<close>

definition pid_running :: "engine \<Rightarrow> int option \<Rightarrow> bool" where
  "pid_running e pid = (case pid of None \<Rightarrow> False | Some p \<Rightarrow> p > 0 \<and> pid_alive (en_world e) p)"

definition holdsIndexSlot :: "engine \<Rightarrow> archive \<Rightarrow> bool" where
  "holdsIndexSlot e rec =
    (if a_status rec \<noteq> StatusIndexing then False
     else live_get (a_archive_id rec) e \<noteq> None \<or> pid_running e (a_mount_pid rec))"

definition holdsMountSlot :: "engine \<Rightarrow> archive \<Rightarrow> bool" where
  "holdsMountSlot e rec =
    (if a_status rec \<noteq> StatusMounting then False
     else live_get (a_archive_id rec) e \<noteq> None \<or> pid_running e (a_mount_pid rec))"

definition rows_with :: "status \<Rightarrow> engine \<Rightarrow> archive list" where
  "rows_with st e = (case ListArchives (en_store e) (OneStatus (status_str st)) of Inl _ \<Rightarrow> [] | Inr rs \<Rightarrow> rs)"

definition ActiveIndexCount :: "engine \<Rightarrow> int" where
  "ActiveIndexCount e = int (length (filter (holdsIndexSlot e) (rows_with StatusIndexing e)))"

definition ActiveMountCount :: "engine \<Rightarrow> int" where
  "ActiveMountCount e = int (length (filter (holdsMountSlot e) (rows_with StatusMounting e)))"

definition indexLimitReached :: "config \<Rightarrow> engine \<Rightarrow> bool" where
  "indexLimitReached cfg e = LimitReached (ActiveIndexCount e) (c_max_concurrent_index cfg)"

definition mountLimitReached :: "config \<Rightarrow> engine \<Rightarrow> bool" where
  "mountLimitReached cfg e = LimitReached (ActiveMountCount e) (c_max_concurrent_mount cfg)"

definition convertLimitReached :: "config \<Rightarrow> engine \<Rightarrow> bool" where
  "convertLimitReached cfg e = LimitReached (ConvertJobCount e) (c_max_concurrent_convert cfg)"

subsection \<open>Mount names\<close>

definition mount_dirs :: "path \<Rightarrow> world \<Rightarrow> string list" where
  "mount_dirs r w =
    filter (\<lambda>n. n \<noteq> '''' \<and> hd n \<noteq> CHR ''.'')
      (map path_base (filter (\<lambda>d. d = path_join r (path_base d)) (w_dirs w)))"

definition TakenMountNames :: "config \<Rightarrow> engine \<Rightarrow> string list" where
  "TakenMountNames cfg e =
    mount_dirs (c_mount_root cfg) (en_world e)
    @ (case ListArchives (en_store e) AnyStatus of
         Inl _ \<Rightarrow> []
       | Inr recs \<Rightarrow> List.map_filter
           (\<lambda>r. case a_mount_path r of None \<Rightarrow> None | Some p \<Rightarrow> if p = '''' then None else Some (path_base p)) recs)"

text \<open>The name to keep (empty: choose a new one) and the taken names without the row's own.\<close>

definition mountNameForRec :: "archive \<Rightarrow> string list \<Rightarrow> string \<times> string list" where
  "mountNameForRec rec taken =
    (let own = (if ptr_set (a_mount_path rec) then path_base (strPtr (a_mount_path rec)) else '''');
         taken' = (if ptr_set (a_mount_path rec) then removeAll own taken else taken) in
     if own \<noteq> '''' \<and> Some own \<noteq> SanitizeMountName (a_archive_basename rec) (a_archive_id rec) taken'
     then ('''', taken') else (own, taken'))"

subsection \<open>Failure to start\<close>

definition attempt_fields :: "config \<Rightarrow> archive \<Rightarrow> string \<Rightarrow> patch" where
  "attempt_fields cfg rec reason =
    (let (attempts, retryable) = NextMountAttempt (a_mount_attempts rec) (c_max_mount_attempts cfg) in
     no_fields\<lparr>p_mount_pid := Some None, p_mount_attempts := Some attempts,
       p_mount_retryable := Some retryable, p_last_error := Some (Some reason)\<rparr>)"

definition failStart :: "host \<Rightarrow> config \<Rightarrow> archive \<Rightarrow> bool \<Rightarrow> string \<Rightarrow> engine \<Rightarrow> engine" where
  "failStart h cfg rec indexPhase reason e =
    (let failStatus = (if indexPhase then StatusIndexFailed else StatusMountFailed) in
     snd (transition h (a_archive_id rec) failStatus
       (Expect [a_status rec, StatusIndexing, StatusMounting, failStatus]) (attempt_fields cfg rec reason) e))"

subsection \<open>Unmounting\<close>

record unmount_result =
  ur_killed :: bool
  ur_code :: int
  ur_still :: bool
  ur_lazy :: bool

definition UnmountSequence ::
  "host \<Rightarrow> int option \<Rightarrow> int \<Rightarrow> path \<Rightarrow> world \<Rightarrow> unmount_result \<times> world" where
  "UnmountSequence h child orphan mountPath w =
    (let (killed, w1) =
       (case child of
          Some pid \<Rightarrow> (True, h_terminate h pid w)
        | None \<Rightarrow> if orphan > 0 \<and> pid_alive w orphan then (True, h_terminate h orphan w) else (False, w)) in
     if mountPath = '''' \<or> \<not> is_mount w1 mountPath
     then (\<lparr>ur_killed = killed, ur_code = 0, ur_still = False, ur_lazy = False\<rparr>, w1)
     else
      (let (code, w2) = h_umount h mountPath False w1 in
       if \<not> is_mount w2 mountPath
       then (\<lparr>ur_killed = killed, ur_code = code, ur_still = False, ur_lazy = False\<rparr>, w2)
       else
        (let (code2, w3) = h_umount h mountPath True w2 in
         (\<lparr>ur_killed = killed, ur_code = code2, ur_still = is_mount w3 mountPath, ur_lazy = True\<rparr>, w3))))"

fun terminate_all :: "host \<Rightarrow> int list \<Rightarrow> world \<Rightarrow> world" where
  "terminate_all h [] w = w"
| "terminate_all h (p # ps) w =
    terminate_all h ps (if p \<le> 0 \<or> \<not> pid_alive w p then w else h_terminate h p w)"

definition ClearStaleMountHolders :: "host \<Rightarrow> path \<Rightarrow> int \<Rightarrow> world \<Rightarrow> int list \<times> world" where
  "ClearStaleMountHolders h mountPath0 keepPID w =
    (let mountPath = path_clean mountPath0; procs = h_procs h w;
         killed = map fst (filter (\<lambda>p. snd p = mountPath \<and> fst p \<noteq> keepPID) procs);
         w1 = terminate_all h killed w in
     if \<not> is_mount w1 mountPath then (killed, w1)
     else if keepPID > 0 \<and> pid_alive w1 keepPID \<and> (keepPID, mountPath) \<in> set procs \<and> killed = []
     then (killed, w1)
     else (killed, snd (UnmountSequence h None 0 mountPath w1)))"

subsection \<open>Starting a child\<close>

fun mkdirs :: "host \<Rightarrow> path list \<Rightarrow> world \<Rightarrow> path option \<times> world" where
  "mkdirs h [] w = (None, w)"
| "mkdirs h (d # ds) w =
    (if d = '''' then mkdirs h ds w
     else (let (made, w1) = mkdir_all (tl_io (h_tools h)) d w in if made then mkdirs h ds w1 else (Some d, w1)))"

definition PreparePaths :: "host \<Rightarrow> mount_request \<Rightarrow> world \<Rightarrow> path option \<times> world" where
  "PreparePaths h req w =
    mkdirs h [mr_mount_path req, if mr_index_path req = '''' then '''' else path_dir (mr_index_path req),
      mr_overlay_path req, mr_log_dir req] w"

definition StartProcess :: "host \<Rightarrow> mount_request \<Rightarrow> string list \<Rightarrow> int engine_op" where
  "StartProcess h req env e =
    (if \<not> is_file (en_world e) (mr_archive_path req) then (Inl (ENoArchiveFile (mr_archive_path req)), e)
     else
      (case PreparePaths h req (en_world e) of
         (Some d, w1) \<Rightarrow> (Inl (EMkdir d), on_world (\<lambda>_. w1) e)
       | (None, w1) \<Rightarrow>
           (case h_spawn h (BuildRatarmountCmd req) env of
              Inl msg \<Rightarrow> (Inl (ESpawn msg), on_world (\<lambda>_. w1) e)
            | Inr pid \<Rightarrow>
                (Inr pid, (on_world (\<lambda>_. w1\<lparr>w_alive := List.insert pid (w_alive w1)\<rparr>) e)
                   \<lparr>en_exits := kremove fst pid (en_exits e)\<rparr>))))"

definition to_ms :: "rat \<Rightarrow> int" where
  "to_ms secs = \<lfloor>secs * 1000\<rfloor>"

definition outerCacheConvertFields :: "archive \<Rightarrow> path \<Rightarrow> path \<Rightarrow> convert_state \<Rightarrow> patch \<Rightarrow> patch" where
  "outerCacheConvertFields rec sourcePath mountArchive s p =
    (if mountArchive = '''' \<or> mountArchive = sourcePath then p
     else if a_convert_source_size_bytes rec \<noteq> None \<and> a_convert_duration_ms rec \<noteq> None then p
     else
      (let meta = ReadConvertMetadata (sidecars s) mountArchive;
           sz = (if a_convert_source_size_bytes rec \<noteq> None then None
                 else (case meta of Some m \<Rightarrow> Some (Some (cm_original m))
                       | None \<Rightarrow> map_option Some (file_size (cs_world s) sourcePath)));
           dur = (if a_convert_duration_ms rec \<noteq> None then None
                  else (case meta of None \<Rightarrow> None | Some m \<Rightarrow> map_option (\<lambda>d. Some (to_ms d)) (cm_duration m))) in
       p\<lparr>p_convert_source_size_bytes := (if sz = None then p_convert_source_size_bytes p else sz),
         p_convert_duration_ms := (if dur = None then p_convert_duration_ms p else dur)\<rparr>))"

text \<open>The archive to mount: the cached non-solid copy in scope outer/all, with the error it may meet.\<close>

definition resolve_archive :: "host \<Rightarrow> config \<Rightarrow> path \<Rightarrow> engine \<Rightarrow> (convert_error option \<times> path) \<times> engine" where
  "resolve_archive h cfg archivePath e =
    (if c_7z_nonsolid cfg \<and> ScopeUsesOuterCache (c_7z_scope cfg)
     then (case EnsureNonsolidCachedCopy (h_tools h) (h_cache h) (h_lock h) cfg
                  (NonsolidCacheParamsFromConfig (h_cache h) cfg (h_opts h)) archivePath (en_files e) of
             (Inl err, f) \<Rightarrow> ((Some err, archivePath), e\<lparr>en_files := f\<rparr>)
           | (Inr p, f) \<Rightarrow> ((None, p), e\<lparr>en_files := f\<rparr>))
     else ((None, archivePath), e))"

definition path_fields :: "mount_request \<Rightarrow> patch" where
  "path_fields req =
    no_fields\<lparr>p_index_path := Some (Some (mr_index_path req)), p_mount_path := Some (Some (mr_mount_path req)),
      p_overlay_path := Some (if mr_overlay_path req \<noteq> '''' then Some (mr_overlay_path req) else None)\<rparr>"

text \<open>After the claim: path policy, stale holders, spawn, registration, mount_pid.\<close>

definition launch ::
  "host \<Rightarrow> config \<Rightarrow> archive \<Rightarrow> mount_request \<Rightarrow> patch \<Rightarrow> bool \<Rightarrow> bool \<Rightarrow> managed engine_op" where
  "launch h cfg rec req flds useIndexOnly needsIndex e =
    (case EnginePathsAllowed (mr_index_path req) (mr_overlay_path req) (mr_mount_path req) (c_allow_drvfs cfg) of
       Some err \<Rightarrow> (Inl (EDrvfs err), failStart h cfg rec useIndexOnly (h_text h (EDrvfs err)) e)
     | None \<Rightarrow>
        (let e1 = (if mr_mount_path req \<noteq> '''' \<and> \<not> useIndexOnly
                   then on_world (\<lambda>w. snd (ClearStaleMountHolders h (mr_mount_path req) 0 w)) e else e);
             env = ApplyNonsolidEnvSlice (BuildChildEnv (h_environ h) (c_ratarmount_7z_debug cfg) (c_ratarmount_rust_log cfg)) cfg in
         case StartProcess h req env e1 of
           (Inl err, e2) \<Rightarrow> (Inl err, failStart h cfg rec useIndexOnly (h_text h err) e2)
         | (Inr pid, e2) \<Rightarrow>
            (let m = \<lparr>mm_archive_id = a_archive_id rec, mm_pid = pid, mm_request = req, mm_started = h_clock h,
                      mm_first_index = needsIndex, mm_phase = (if useIndexOnly then PhaseIndexOnly else PhaseMount),
                      mm_skips = []\<rparr>;
                 target = (if useIndexOnly then StatusIndexing else StatusMounting) in
             (Inr m, snd (transition h (a_archive_id rec) target (Expect [target])
                            (flds\<lparr>p_mount_pid := Some (Some pid)\<rparr>) (live_put m e2))))))"

definition beginMountProcess ::
  "host \<Rightarrow> config \<Rightarrow> archive \<Rightarrow> path \<Rightarrow> bool \<Rightarrow> bool option \<Rightarrow> managed engine_op" where
  "beginMountProcess h cfg rec archivePath needsIndex0 indexOnly e =
    (let single = UsesSinglePhaseMount archivePath (c_extra_args cfg) (c_mount_backend cfg) False;
         useIndexOnly = (if single then False else (case indexOnly of None \<Rightarrow> needsIndex0 | Some b \<Rightarrow> b));
         needsIndex = (if single then False else needsIndex0);
         target = (if useIndexOnly then StatusIndexing else StatusMounting);
         ((outerErr, mountArchive), e1) = resolve_archive h cfg archivePath e;
         (nm, taken) = mountNameForRec rec (TakenMountNames cfg e1) in
     case RequestFromConfig cfg (a_archive_id rec) mountArchive (a_archive_basename rec) taken nm '''' of
       None \<Rightarrow> (Inl ENoMountName, e1)
     | Some req0 \<Rightarrow>
        (let req = req0\<lparr>mr_index_only := useIndexOnly\<rparr>;
             flds = (if outerErr = None
                       then outerCacheConvertFields rec archivePath mountArchive (en_files e1) (path_fields req)
                       else path_fields req) in
         case transition h (a_archive_id rec) target (Expect [a_status rec]) flds e1 of
           (Inl err, e2) \<Rightarrow> (Inl err, e2)
         | (Inr rec', e2) \<Rightarrow>
            (case outerErr of
               Some err \<Rightarrow> (Inl (EConvert err), failStart h cfg rec' useIndexOnly (h_text h (EConvert err)) e2)
             | None \<Rightarrow> launch h cfg rec' req flds useIndexOnly needsIndex e2)))"

subsection \<open>Children\<close>

datatype child_status = ChildRunning | ChildIndexComplete | ChildMounted | ChildExited | ChildUnknown

definition exit_code :: "managed \<Rightarrow> engine \<Rightarrow> int option" where
  "exit_code m e = map_option snd (kfind fst (mm_pid m) (en_exits e))"

definition CheckChild :: "string \<Rightarrow> engine \<Rightarrow> child_status" where
  "CheckChild aid e =
    (case live_get aid e of
       None \<Rightarrow> ChildUnknown
     | Some m \<Rightarrow>
        (let req = mm_request m; exited = exit_code m e \<noteq> None in
         if mm_phase m = PhaseIndexOnly
         then (if \<not> exited then ChildRunning
               else if IndexBuildVerified (en_world e) (mr_index_path req) (mr_archive_path req) (exit_code m e) (mr_backend req)
               then ChildIndexComplete else ChildExited)
         else if is_mount (en_world e) (mr_mount_path req)
         then (if MountIndexRequirementMet (en_world e) (mr_index_path req) (mr_archive_path req) (mr_backend req)
               then ChildMounted else ChildRunning)
         else if \<not> exited then ChildRunning else ChildExited))"

definition elapsed_ms :: "host \<Rightarrow> int \<Rightarrow> int" where
  "elapsed_ms h started = (if h_clock h < started then 0 else (h_clock h - started) div 1000000)"

definition CompleteIndexAndStartMount :: "host \<Rightarrow> config \<Rightarrow> string \<Rightarrow> managed engine_op" where
  "CompleteIndexAndStartMount h cfg aid e =
    (case live_get aid e of
       None \<Rightarrow> (Inl (ENoLive aid), e)
     | Some m \<Rightarrow>
        (if mm_phase m \<noteq> PhaseIndexOnly then (Inl EWrongPhase, e)
         else (case GetArchive (en_store e) aid of
            None \<Rightarrow> (Inl (EUnknownArchive aid), e)
          | Some rec \<Rightarrow>
             (let req = mm_request m in
              if \<not> IndexBuildVerified (en_world e) (mr_index_path req) (mr_archive_path req) (exit_code m e) (mr_backend req)
              then (Inl (EIndexNotVerified (mr_index_path req)), e)
              else
               (let sum = FormatNestedSkipSummary (mm_skips m) 3;
                    extra = no_fields\<lparr>p_index_path := Some (Some (mr_index_path req)),
                      p_index_duration_ms := (if a_index_duration_ms rec = None
                        then Some (Some (elapsed_ms h (mm_started m))) else None),
                      p_last_error := (if sum \<noteq> '''' then Some (Some sum) else None)\<rparr>;
                    e1 = dropLive aid (on_world (h_terminate h (mm_pid m)) e) in
                case transition h aid StatusMounting (Expect [StatusIndexing]) extra e1 of
                  (Inl err, e2) \<Rightarrow> (Inl err, e2)
                | (Inr rec', e2) \<Rightarrow>
                   (case beginMountProcess h cfg rec' (mr_archive_path req) False (Some False) e2 of
                      (Inl err, e3) \<Rightarrow> (Inl err, e3)
                    | (Inr m', e3) \<Rightarrow>
                       (let m'' = m'\<lparr>mm_skips := mm_skips m' @ mm_skips m\<rparr> in (Inr m'', live_put m'' e3))))))))"

definition MarkMounted :: "host \<Rightarrow> string \<Rightarrow> archive engine_op" where
  "MarkMounted h aid e =
    (case GetArchive (en_store e) aid of
       None \<Rightarrow> (Inl (EUnknownArchive aid), e)
     | Some rec \<Rightarrow>
        (let kept = (case a_last_error rec of
                       Some t \<Rightarrow> if IsNestedSkipOnlyLastError t then Some t else None | None \<Rightarrow> None);
             flds = (case live_get aid e of
               Some m \<Rightarrow>
                 (let sum = FormatNestedSkipSummary (mm_skips m) 3;
                      first = mm_first_index m \<and> a_index_duration_ms rec = None
                        \<and> UsesSinglePhaseMount (mr_archive_path (mm_request m)) (mr_extra_args (mm_request m))
                            (mr_backend (mm_request m)) False;
                      timed = mm_phase m = PhaseMount \<and> a_status rec = StatusMounting;
                      ms = Some (Some (elapsed_ms h (mm_started m))) in
                  no_fields\<lparr>p_last_error := Some (if sum \<noteq> '''' then Some sum else kept),
                    p_mount_pid := Some (Some (mm_pid m)),
                    p_index_duration_ms := (if timed \<and> first then ms else None),
                    p_mount_duration_ms := (if timed \<and> \<not> first then ms else None)\<rparr>)
             | None \<Rightarrow>
                 (case a_mount_pid rec of
                    Some pid \<Rightarrow> no_fields\<lparr>p_last_error := Some kept, p_mount_pid := Some (Some pid)\<rparr>
                  | None \<Rightarrow> no_fields\<lparr>p_last_error := Some kept\<rparr>)) in
         transition h aid StatusMounted (Expect [StatusIndexing, StatusMounting, StatusMounted]) flds e))"

definition MarkFailed :: "host \<Rightarrow> config \<Rightarrow> string \<Rightarrow> string \<Rightarrow> archive engine_op" where
  "MarkFailed h cfg aid reason0 e =
    (case GetArchive (en_store e) aid of
       None \<Rightarrow> (Inl (EUnknownArchive aid), e)
     | Some rec \<Rightarrow>
        (let live = live_get aid e;
             indexPhase = (case live of Some m \<Rightarrow> mm_phase m = PhaseIndexOnly | None \<Rightarrow> False);
             failStatus = (if indexPhase then StatusIndexFailed else StatusMountFailed);
             archivePath = (case live of Some m \<Rightarrow> mr_archive_path (mm_request m) | None \<Rightarrow> a_archive_path rec);
             extraArgs = (case live of Some m \<Rightarrow> mr_extra_args (mm_request m) | None \<Rightarrow> c_extra_args cfg);
             backend = (case live of Some m \<Rightarrow> mr_backend (mm_request m) | None \<Rightarrow> c_mount_backend cfg);
             indexPath = (case live of
                Some m \<Rightarrow> if mr_index_path (mm_request m) \<noteq> '''' then mr_index_path (mm_request m) else strPtr (a_index_path rec)
              | None \<Rightarrow> strPtr (a_index_path rec));
             bad = indexPhase \<or> NeedsFreshIndex (en_world e) indexPath
               \<or> (a_first_mounted_at rec = None \<and> archivePath \<noteq> '''' \<and> UsesSinglePhaseMount archivePath extraArgs backend False);
             e1 = (if bad then on_world (\<lambda>w. snd (DeleteIndexFile indexPath w)) e else e);
             reason = (case live of Some m \<Rightarrow> EnrichReasonWithNestedSkips reason0 (mm_skips m) | None \<Rightarrow> reason0);
             flds = (attempt_fields cfg rec reason)\<lparr>p_index_path := (if bad then Some None else None)\<rparr> in
         transition h aid failStatus (Expect [StatusIndexing, StatusMounting, failStatus]) flds (dropLive aid e1)))"

definition progress_one :: "host \<Rightarrow> config \<Rightarrow> string \<Rightarrow> engine \<Rightarrow> engine" where
  "progress_one h cfg aid e =
    (case CheckChild aid e of
       ChildIndexComplete \<Rightarrow>
         (case CompleteIndexAndStartMount h cfg aid e of
            (Inr _, e1) \<Rightarrow> e1
          | (Inl err, e1) \<Rightarrow>
              snd (MarkFailed h cfg aid (''index build complete but mount start failed: '' @ h_text h err) e1))
     | ChildMounted \<Rightarrow> snd (MarkMounted h aid e)
     | ChildExited \<Rightarrow> snd (MarkFailed h cfg aid ''ratarmount exited before mount ready'' e)
     | _ \<Rightarrow> e)"

text \<open>The snapshot is a Go map, iterated in any order; here, in the order of registration.\<close>

definition ProgressLive :: "host \<Rightarrow> config \<Rightarrow> engine \<Rightarrow> engine" where
  "ProgressLive h cfg e = fold (progress_one h cfg) (map mm_archive_id (en_live e)) e"

definition Unmount :: "host \<Rightarrow> string \<Rightarrow> bool \<Rightarrow> archive option engine_op" where
  "Unmount h aid toAbsent e =
    (case GetArchive (en_store e) aid of
       None \<Rightarrow> (Inl (EUnknownArchive aid), e)
     | Some rec0 \<Rightarrow>
        (let live = live_get aid e;
             mountPath = (case live of Some m \<Rightarrow> mr_mount_path (mm_request m) | None \<Rightarrow> strPtr (a_mount_path rec0));
             (rec, e1) =
               (if a_status rec0 \<noteq> StatusUnmounting \<and> a_status rec0 \<noteq> StatusAbsent
                then (case transition h aid StatusUnmounting (Expect [a_status rec0]) (no_fields\<lparr>p_mount_pid := Some None\<rparr>) e of
                        (Inr r, e') \<Rightarrow> (r, e')
                      | (Inl _, e') \<Rightarrow> (case GetArchive (en_store e') aid of Some r \<Rightarrow> (r, e') | None \<Rightarrow> (rec0, e')))
                else (rec0, e));
             orphan = (if live = None then (case a_mount_pid rec of Some p \<Rightarrow> p | None \<Rightarrow> 0) else 0);
             e2 = dropLive aid (on_world (\<lambda>w. snd (UnmountSequence h (map_option mm_pid live) orphan mountPath w)) e1) in
         if toAbsent then store_do (MarkAbsent (h_utc h) aid '''' None) e2
         else (Inr (GetArchive (en_store e2) aid), e2)))"

end
