(* ===== verification/Engine.thy ===== *)
theory Engine
  imports EngineState
begin

text \<open>
  The mount engine, second half (engine.go, engine_jobs.go, orphans_unix.go): background
  conversions, relocation, BeginMount with its queue of preparations, the polls of the service
  tick, and the reconciliation of orphaned ratarmount processes.  A background worker writes files
  and the result of its job, never the store; \<open>run_convert\<close> is the step in which it does so.
  relocateJobs is never filled in this version, so HasRelocateJob is false throughout.
\<close>

subsection \<open>Conversion jobs\<close>

definition convert_env_of :: "host \<Rightarrow> engine \<Rightarrow> convert_env" where
  "convert_env_of h e =
    \<lparr>ce_cwd = tl_cwd (h_tools h), ce_opts = h_opts h, ce_js = sidecars (en_files e), ce_zips = tl_zips (h_tools h),
     ce_needs_flatten = map_option (\<lambda>f. f (en_world e)) (h_needs_flatten h)\<rparr>"

definition first_fail_status :: "archive \<Rightarrow> status" where
  "first_fail_status rec = (if a_first_mounted_at rec = None then StatusIndexFailed else StatusMountFailed)"

definition failConvertClaim :: "host \<Rightarrow> config \<Rightarrow> archive \<Rightarrow> string \<Rightarrow> engine \<Rightarrow> engine" where
  "failConvertClaim h cfg rec0 reason e =
    (let failStatus = first_fail_status rec0; flds = attempt_fields cfg rec0 reason;
         (rec, e1) =
           (if validate_transition (a_status rec0) failStatus \<noteq> None \<and> a_status rec0 = StatusDiscovered
               \<and> failStatus = StatusIndexFailed
            then (case transition h (a_archive_id rec0) StatusIndexing (Expect [a_status rec0])
                         (no_fields\<lparr>p_last_error := Some (Some reason)\<rparr>) e of
                    (Inr r, e') \<Rightarrow> (r, e') | (Inl _, e') \<Rightarrow> (rec0, e'))
            else (rec0, e)) in
     case transition h (a_archive_id rec) failStatus (Expect [a_status rec]) flds e1 of
       (Inr _, e2) \<Rightarrow> e2
     | (Inl _, e2) \<Rightarrow> snd (transition h (a_archive_id rec) (a_status rec) (Expect [a_status rec]) flds e2))"

definition beginConvertAsync :: "host \<Rightarrow> config \<Rightarrow> archive \<Rightarrow> bool \<Rightarrow> unit engine_op" where
  "beginConvertAsync h cfg rec needsIndex e =
    (case file_size (en_world e) (a_archive_path rec) of
       None \<Rightarrow>
         (let reason = ''archive not found: '' @ a_archive_path rec in
          (Inl (EMessage reason), failConvertClaim h cfg rec reason e))
     | Some sz \<Rightarrow>
        (case transition h (a_archive_id rec) StatusConverting (Expect [a_status rec])
            (no_fields\<lparr>p_mount_pid := Some None, p_last_error := Some None,
               p_convert_source_size_bytes := Some (Some sz)\<rparr>) e of
           (Inl err, e1) \<Rightarrow> (Inl err, e1)
         | (Inr rec', e1) \<Rightarrow>
             (Inr (), e1\<lparr>en_jobs := kput cj_archive_id
                \<lparr>cj_archive_id = a_archive_id rec', cj_source = a_archive_path rec, cj_size = sz,
                 cj_needs_index = needsIndex, cj_started = h_clock h, cj_result = None\<rparr> (en_jobs e1)\<rparr>)))"

definition runArchiveconverter :: "host \<Rightarrow> config \<Rightarrow> convert_job \<Rightarrow> convert_state \<Rightarrow> job_result \<times> convert_state" where
  "runArchiveconverter h cfg j s =
    (let t = h_tools h; bin = EffectiveArchiveconverterBin cfg (h_opts h); out = ConvertedFilePath cfg (cj_archive_id j) in
     if bin = '''' then (Inl ''archiveconverter binary not found'', s)
     else
      (let (made, w1) = mkdir_all (tl_io t) (path_dir out) (cs_world s); s1 = s\<lparr>cs_world := w1\<rparr>;
           existing = ExistingConvertedPath cfg w1 (cj_archive_id j) in
       if \<not> made then (Inl (h_text h (EMkdir (path_dir out))), s1)
       else if existing \<noteq> '''' then (Inr (existing, ReadConvertMetadata (sidecars s1) existing), s1)
       else (case BuildConvertCmd cfg bin (cj_source j) out of
          None \<Rightarrow> (Inl ''archiveconverter binary not found'', s1)
        | Some argv \<Rightarrow>
           (let (err, w2) = h_converter h argv w1; s2 = s1\<lparr>cs_world := w2\<rparr> in
            case err of
              Some msg \<Rightarrow> (Inl msg, s2)
            | None \<Rightarrow>
               (case file_size w2 out of
                  None \<Rightarrow> (Inl (''archiveconverter produced no output at '' @ out), s2)
                | Some n \<Rightarrow>
                   (if n \<le> 0 then (Inl (''archiveconverter produced no output at '' @ out), s2)
                    else
                     (let src = (case file_size w2 (cj_source j) of Some k \<Rightarrow> k | None \<Rightarrow> 0);
                          m = BuildConvertMetadata (tl_now t) src n ''archiveconverter''
                                (Some (of_int (elapsed_ms h (cj_started j)) / 1000)) in
                      (Inr (out, Some m), snd (WriteConvertMetadata t out m s2)))))))))"

text \<open>The worker: archiveconverter, zip repack, flatten, or nothing to do.\<close>

definition runConvert :: "host \<Rightarrow> config \<Rightarrow> convert_job \<Rightarrow> engine \<Rightarrow> job_result \<times> convert_state" where
  "runConvert h cfg j e =
    (let t = h_tools h; ce = convert_env_of h e; s = en_files e; src = cj_source j;
         zip = ShouldRepackZip ce cfg (cs_world s) src in
     if ShouldConvert (tl_cwd t) cfg src True (h_opts h) \<and> \<not> zip then runArchiveconverter h cfg j s
     else if zip then
       (let p = ZipRepackParamsFromConfig cfg (h_opts h) in
        if trim_space (zp_bin p) = '''' then (Inl ''zip repack requires convert_7z_bin / 7z on PATH'', s)
        else (case RunZipRepack t p src s of
                (Inl err, s1) \<Rightarrow> (Inl (h_text h (EConvert err)), s1)
              | (Inr (dest, m), s1) \<Rightarrow> (Inr (dest, Some m), s1)))
     else if ShouldFlattenConvert ce cfg (cs_world s) src then
       (let p = FlattenParamsFromConfig cfg (h_opts h) in
        if trim_space (fp_bin p) = '''' then (Inl ''flatten requires convert_7z_bin / 7z on PATH'', s)
        else (case RunFlattenConvert t p (ce_needs_flatten ce) src s of
                (Inl err, s1) \<Rightarrow> (Inl (h_text h (EConvert err)), s1)
              | (Inr m, s1) \<Rightarrow> (Inr (src, m), s1)))
     else (Inr (src, None), s))"

definition run_convert :: "host \<Rightarrow> config \<Rightarrow> string \<Rightarrow> engine \<Rightarrow> engine" where
  "run_convert h cfg aid e =
    (case kfind cj_archive_id aid (en_jobs e) of
       None \<Rightarrow> e
     | Some j \<Rightarrow>
        (if cj_result j \<noteq> None then e
         else (case runConvert h cfg j e of
                 (res, s) \<Rightarrow> e\<lparr>en_files := s, en_jobs := kput cj_archive_id (j\<lparr>cj_result := Some res\<rparr>) (en_jobs e)\<rparr>)))"

subsection \<open>Completion of a conversion\<close>

definition postConvertFromStatuses :: "status list" where
  "postConvertFromStatuses = [StatusConverting, StatusMountFailed, StatusIndexFailed]"

definition fingerprintPath :: "host \<Rightarrow> config \<Rightarrow> path \<Rightarrow> world \<Rightarrow> (string \<times> int \<times> int) option" where
  "fingerprintPath h cfg p w =
    (case file_size w p of
       None \<Rightarrow> None
     | Some n \<Rightarrow>
         map_option (\<lambda>fp. (fp, n, h_mtime h p))
           (ComputeFingerprint (h_sha h) (h_content h p) n (h_mtime h p) (c_content_fingerprint cfg)))"

definition archiveBasenameAfterConvert :: "path \<Rightarrow> config \<Rightarrow> archive \<Rightarrow> path \<Rightarrow> string" where
  "archiveBasenameAfterConvert cwd cfg rec resultPath =
    (let prior = trim_space (a_archive_basename rec); base = path_base resultPath in
     if prior = '''' then base
     else if IsConvertedPath cwd cfg resultPath then prior
     else if equal_fold base (a_archive_id rec @ ''.7z'') \<or> equal_fold base (a_archive_id rec) then prior
     else base)"

definition converted_fields ::
  "host \<Rightarrow> config \<Rightarrow> archive \<Rightarrow> convert_job option \<Rightarrow> path \<Rightarrow> metadata option \<Rightarrow> int \<Rightarrow> string \<times> int \<times> int \<Rightarrow> patch" where
  "converted_fields h cfg rec job resultPath meta sourceSize fpi =
    (case fpi of (fp, n, mt) \<Rightarrow>
      let newBase = archiveBasenameAfterConvert (tl_cwd (h_tools h)) cfg rec resultPath;
          remap = (case a_mount_path rec of
             Some mp \<Rightarrow> trim_space mp \<noteq> '''' \<and> Some (path_base mp) \<noteq> SanitizeMountName newBase (a_archive_id rec) []
           | None \<Rightarrow> False);
          metaDur = (case meta of Some m \<Rightarrow> map_option to_ms (cm_duration m) | None \<Rightarrow> None);
          dur = (if a_convert_duration_ms rec \<noteq> None then None
                 else (case metaDur of
                    Some d \<Rightarrow> Some (Some d)
                  | None \<Rightarrow> map_option (\<lambda>j. Some (elapsed_ms h (cj_started j))) job));
          srcSize = (case meta of
             Some m \<Rightarrow> Some (Some (cm_original m))
           | None \<Rightarrow> (case job of
                Some j \<Rightarrow> if cj_size j > 0 then Some (Some (cj_size j))
                          else if sourceSize > 0 then Some (Some sourceSize) else None
              | None \<Rightarrow> if sourceSize > 0 then Some (Some sourceSize) else None)) in
      no_fields\<lparr>p_archive_path := Some resultPath, p_archive_basename := Some newBase, p_size_bytes := Some n,
        p_mtime_ns := Some mt, p_fingerprint := Some fp, p_last_error := Some None,
        p_mount_path := (if remap then Some None else None),
        p_convert_source_size_bytes := srcSize, p_convert_duration_ms := dur\<rparr>)"

definition completeConvertSuccess ::
  "host \<Rightarrow> config \<Rightarrow> archive \<Rightarrow> convert_job option \<Rightarrow> path \<Rightarrow> metadata option \<Rightarrow> int \<Rightarrow> archive engine_op" where
  "completeConvertSuccess h cfg rec0 job resultPath0 meta sourceSize e =
    (let resultPath = (if resultPath0 = '''' then (case job of Some j \<Rightarrow> cj_source j | None \<Rightarrow> resultPath0) else resultPath0);
         e1 = on_world (\<lambda>w. snd (ApplyPartialIndexCleanup (a_status rec0) (a_first_mounted_at rec0) (strPtr (a_index_path rec0)) w)) e;
         rec = (case GetArchive (en_store e1) (a_archive_id rec0) of Some r \<Rightarrow> r | None \<Rightarrow> rec0) in
     case fingerprintPath h cfg resultPath (en_world e1) of
       None \<Rightarrow> (Inl (EMessage (''cannot fingerprint '' @ resultPath)), e1)
     | Some fpi \<Rightarrow>
        (case transition h (a_archive_id rec0) StatusDiscovered (Expect postConvertFromStatuses)
                (converted_fields h cfg rec job resultPath meta sourceSize fpi) e1 of
           (Inl err, e2) \<Rightarrow> (Inl err, e2)
         | (Inr rec', e2) \<Rightarrow>
             (Inr rec',
              (case job of
                 Some j \<Rightarrow> if c_move_archives cfg \<and> cj_source j \<noteq> resultPath
                           then e2\<lparr>en_pending := kput fst (a_archive_id rec0, cj_source j) (en_pending e2)\<rparr> else e2
               | None \<Rightarrow> e2))))"

definition adoptExistingConversion :: "host \<Rightarrow> config \<Rightarrow> archive \<Rightarrow> path \<Rightarrow> archive engine_op" where
  "adoptExistingConversion h cfg rec existing e =
    completeConvertSuccess h cfg rec None existing (ReadConvertMetadata (sidecars (en_files e)) existing) 0 e"

subsection \<open>Relocation\<close>

definition relocate_done :: "host \<Rightarrow> config \<Rightarrow> path \<Rightarrow> path \<Rightarrow> engine_error + archive \<Rightarrow> engine \<Rightarrow> (engine_error + archive) \<times> engine" where
  "relocate_done h cfg source dest r e =
    (case r of
       Inl err \<Rightarrow> (Inl err, e)
     | Inr rec \<Rightarrow> (Inr rec, on_world (\<lambda>w. snd (RemoveSupersededSource (tl_cwd (h_tools h)) (tl_io (h_tools h)) cfg source dest w)) e))"

definition relocateSync :: "host \<Rightarrow> config \<Rightarrow> archive \<Rightarrow> archive engine_op" where
  "relocateSync h cfg rec e =
    (let cwd = tl_cwd (h_tools h); io = tl_io (h_tools h); source = a_archive_path rec; aid = a_archive_id rec;
         fail = (\<lambda>err e'. (Inl err, failConvertClaim h cfg rec (h_text h err) e')) in
     case ArchiveFilePath cwd io cfg (en_world e) rec source of
       Inl err \<Rightarrow> fail (ERelocate err) e
     | Inr dest \<Rightarrow>
        (if file_size (en_world e) dest \<noteq> None \<and> file_size (en_world e) dest = file_size (en_world e) source
         then (case transition h aid (a_status rec) (Expect [a_status rec])
                   (no_fields\<lparr>p_archive_path := Some dest, p_archive_basename := Some (path_base dest)\<rparr>) e of
                 (r, e1) \<Rightarrow> relocate_done h cfg source dest r e1)
         else (case file_size (en_world e) source of
            None \<Rightarrow> fail (ENoArchiveFile source) e
          | Some n \<Rightarrow>
             (case CheckRelocateSpace io cfg n (en_world e) of
                (Some err, w1) \<Rightarrow> fail (ERelocate err) (on_world (\<lambda>_. w1) e)
              | (None, w1) \<Rightarrow>
                 (case RelocateArchive cwd io cfg rec source w1 of
                    (Inl err, w2) \<Rightarrow> fail (ERelocate err) (on_world (\<lambda>_. w2) e)
                  | (Inr moved, w2) \<Rightarrow>
                     (let e2 = on_world (\<lambda>_. w2) e in
                      case fingerprintPath h cfg moved w2 of
                        None \<Rightarrow> fail (ENoArchiveFile moved) e2
                      | Some (fp, k, mt) \<Rightarrow>
                         (case transition h aid (a_status rec) (Expect [a_status rec])
                             (no_fields\<lparr>p_archive_path := Some moved, p_archive_basename := Some (path_base moved),
                                p_size_bytes := Some k, p_mtime_ns := Some mt, p_fingerprint := Some fp\<rparr>) e2 of
                            (r, e3) \<Rightarrow> relocate_done h cfg source moved r e3)))))))"

subsection \<open>Beginning a mount\<close>

definition wrap_managed :: "(engine_error + managed) \<times> engine \<Rightarrow> (engine_error + managed option) \<times> engine" where
  "wrap_managed r = (case r of (Inl err, e) \<Rightarrow> (Inl err, e) | (Inr m, e) \<Rightarrow> (Inr (Some m), e))"

text \<open>The tail of BeginMount: a free slot, then the child.\<close>

definition start_if_slot :: "host \<Rightarrow> config \<Rightarrow> archive \<Rightarrow> bool \<Rightarrow> managed option engine_op" where
  "start_if_slot h cfg rec needsIndex e =
    (if needsIndex \<and> indexLimitReached cfg e then (Inr None, e)
     else if \<not> needsIndex \<and> mountLimitReached cfg e then (Inr None, e)
     else wrap_managed (beginMountProcess h cfg rec (a_archive_path rec) needsIndex None e))"

definition needs_index_now :: "archive \<Rightarrow> bool \<Rightarrow> engine \<Rightarrow> bool" where
  "needs_index_now rec fi e = ResolveNeedsIndex (en_world e) (strPtr (a_index_path rec)) (Some fi)"

text \<open>BeginMount once partial indexes are cleaned and finished conversions adopted.\<close>

definition begin_prepared :: "host \<Rightarrow> config \<Rightarrow> archive \<Rightarrow> bool \<Rightarrow> bool \<Rightarrow> managed option engine_op" where
  "begin_prepared h cfg rec fi needsIndex e =
    (if a_status rec \<in> {StatusIndexing, StatusMounting, StatusHooksRunning}
     then (case live_get (a_archive_id rec) e of
             Some m \<Rightarrow> (Inr (Some m), e)
           | None \<Rightarrow>
               (if pid_running e (a_mount_pid rec) \<and> strPtr (a_mount_path rec) \<noteq> ''''
                   \<and> is_mount (en_world e) (strPtr (a_mount_path rec))
                then (Inr None, e)
                else start_if_slot h cfg rec needsIndex e))
     else if ShouldPreconvert (convert_env_of h e) cfg (en_world e) (a_archive_path rec)
     then (if convertLimitReached cfg e then (Inr None, e)
           else (case beginConvertAsync h cfg rec needsIndex e of
                   (Inl err, e1) \<Rightarrow> (Inl err, e1) | (Inr _, e1) \<Rightarrow> (Inr None, e1)))
     else if ShouldRelocate (tl_cwd (h_tools h)) (tl_io (h_tools h)) cfg (en_world e) rec
     then (case relocateSync h cfg rec e of
             (Inl err, e1) \<Rightarrow> (Inl err, e1)
           | (Inr rec', e1) \<Rightarrow> start_if_slot h cfg rec' (needs_index_now rec' fi e1) e1)
     else start_if_slot h cfg rec needsIndex e)"

definition BeginMount :: "host \<Rightarrow> config \<Rightarrow> archive \<Rightarrow> bool option \<Rightarrow> managed option engine_op" where
  "BeginMount h cfg rec0 firstIndex e0 =
    (let e = on_world (\<lambda>w. snd (ApplyPartialIndexCleanup (a_status rec0) (a_first_mounted_at rec0) (strPtr (a_index_path rec0)) w)) e0;
         rec = (case GetArchive (en_store e) (a_archive_id rec0) of Some r \<Rightarrow> r | None \<Rightarrow> rec0);
         fi = (case firstIndex of Some b \<Rightarrow> b | None \<Rightarrow> a_first_mounted_at rec = None);
         needsIndex = needs_index_now rec fi e;
         existing = ExistingConvertedPath cfg (en_world e) (a_archive_id rec) in
     if a_status rec = StatusConverting \<or> HasConvertJob (a_archive_id rec) e then (Inr None, e)
     else if existing \<noteq> '''' \<and> a_archive_path rec \<noteq> existing
     then (case adoptExistingConversion h cfg rec existing e of
             (Inl _, e1) \<Rightarrow> (Inr None, e1)
           | (Inr rec1, e1) \<Rightarrow>
               (let rec2 = (case GetArchive (en_store e1) (a_archive_id rec1) of Some r \<Rightarrow> r | None \<Rightarrow> rec1) in
                begin_prepared h cfg rec2 fi needsIndex e1))
     else begin_prepared h cfg rec fi needsIndex e)"

subsection \<open>Polls\<close>

definition maybeFinalizeSuperseded :: "host \<Rightarrow> config \<Rightarrow> string \<Rightarrow> engine \<Rightarrow> engine" where
  "maybeFinalizeSuperseded h cfg aid e =
    (case kfind fst aid (en_pending e) of
       None \<Rightarrow> e
     | Some (_, orig) \<Rightarrow>
        (case GetArchive (en_store e) aid of
           None \<Rightarrow> e
         | Some rec \<Rightarrow>
            (case RemoveSupersededSource (tl_cwd (h_tools h)) (tl_io (h_tools h)) cfg orig (a_archive_path rec) (en_world e) of
               (gone, w1) \<Rightarrow>
                 (let e1 = on_world (\<lambda>_. w1) e in
                  if gone then e1\<lparr>en_pending := kremove fst aid (en_pending e1)\<rparr> else e1))))"

definition remove_job :: "string \<Rightarrow> engine \<Rightarrow> engine" where
  "remove_job aid e = e\<lparr>en_jobs := kremove cj_archive_id aid (en_jobs e)\<rparr>"

definition convert_failed :: "host \<Rightarrow> config \<Rightarrow> archive \<Rightarrow> string \<Rightarrow> engine \<Rightarrow> engine" where
  "convert_failed h cfg rec msg e =
    remove_job (a_archive_id rec)
      (snd (transition h (a_archive_id rec) (first_fail_status rec) (Expect [a_status rec]) (attempt_fields cfg rec msg) e))"

definition job_outcome :: "job_result \<Rightarrow> string \<times> path \<times> metadata option" where
  "job_outcome res = (case res of Inl msg \<Rightarrow> (msg, '''', None) | Inr (p, meta) \<Rightarrow> ('''', p, meta))"

definition poll_done :: "host \<Rightarrow> config \<Rightarrow> archive \<Rightarrow> convert_job \<Rightarrow> job_result \<Rightarrow> engine \<Rightarrow> engine" where
  "poll_done h cfg rec j res e =
    (let aid = cj_archive_id j; (msg, p, meta) = job_outcome res in
     if msg \<noteq> '''' then convert_failed h cfg rec msg e
     else (case completeConvertSuccess h cfg rec (Some j) p meta (cj_size j) e of
        (Inl err, e1) \<Rightarrow>
          convert_failed h cfg (case GetArchive (en_store e1) aid of Some r \<Rightarrow> r | None \<Rightarrow> rec) (h_text h err) e1
      | (Inr rec', e1) \<Rightarrow>
          (case BeginMount h cfg rec' (Some (cj_needs_index j)) (remove_job aid e1) of
             (Inl _, e2) \<Rightarrow> e2
           | (Inr _, e2) \<Rightarrow> maybeFinalizeSuperseded h cfg aid e2)))"

definition poll_job :: "host \<Rightarrow> config \<Rightarrow> string \<Rightarrow> engine \<Rightarrow> engine" where
  "poll_job h cfg aid e =
    (case kfind cj_archive_id aid (en_jobs e) of
       None \<Rightarrow> e
     | Some j \<Rightarrow>
        (case cj_result j of
           None \<Rightarrow> e
         | Some res \<Rightarrow>
            (case GetArchive (en_store e) aid of
               None \<Rightarrow> remove_job aid e
             | Some rec \<Rightarrow> poll_done h cfg rec j res e)))"

definition PollConvert :: "host \<Rightarrow> config \<Rightarrow> engine \<Rightarrow> engine" where
  "PollConvert h cfg e = fold (poll_job h cfg) (map cj_archive_id (en_jobs e)) e"

subsection \<open>Orphaned children\<close>

definition activeMountStatus :: "status \<Rightarrow> bool" where
  "activeMountStatus st \<longleftrightarrow> st \<in> {StatusIndexing, StatusMounting, StatusMounted, StatusHooksRunning}"

definition mountUnderRoot :: "path \<Rightarrow> path \<Rightarrow> bool" where
  "mountUnderRoot mountPath r =
    (let rt = path_clean r; mp = path_clean mountPath in mp = rt \<or> has_prefix mp (rt @ ''/''))"

text \<open>The process to keep at each mount path of an active row.\<close>

fun expected_pids :: "path \<Rightarrow> engine \<Rightarrow> archive list \<Rightarrow> (path \<times> int) list \<Rightarrow> (path \<times> int) list" where
  "expected_pids r e [] acc = acc"
| "expected_pids r e (rec # recs) acc =
    (case a_mount_path rec of
       None \<Rightarrow> expected_pids r e recs acc
     | Some raw \<Rightarrow>
        (let mp = path_clean raw;
             lv = (case live_get (a_archive_id rec) e of Some m \<Rightarrow> if mm_pid m > 0 then mm_pid m else 0 | None \<Rightarrow> 0);
             keep = (if lv = 0 then (case a_mount_pid rec of Some p \<Rightarrow> p | None \<Rightarrow> 0) else lv) in
         if \<not> mountUnderRoot mp r \<or> \<not> activeMountStatus (a_status rec) then expected_pids r e recs acc
         else expected_pids r e recs (if keep > 0 then kput fst (mp, keep) acc else acc)))"

definition kept_pid :: "path \<Rightarrow> (path \<times> int) list \<Rightarrow> int" where
  "kept_pid mp ex = (case kfind fst mp ex of Some (_, p) \<Rightarrow> p | None \<Rightarrow> 0)"

fun clear_mounts :: "host \<Rightarrow> (path \<times> int) list \<Rightarrow> path list \<Rightarrow> world \<Rightarrow> path list \<times> world" where
  "clear_mounts h ex [] w = ([], w)"
| "clear_mounts h ex (mp # mps) w =
    (if \<not> is_mount w mp \<or> (kept_pid mp ex > 0 \<and> pid_alive w (kept_pid mp ex)) then clear_mounts h ex mps w
     else (let w1 = snd (UnmountSequence h None 0 mp w); (cleared, w2) = clear_mounts h ex mps w1 in (mp # cleared, w2)))"

definition ReconcileOrphanMounts :: "host \<Rightarrow> config \<Rightarrow> archive list \<Rightarrow> engine \<Rightarrow> (int list \<times> path list) \<times> engine" where
  "ReconcileOrphanMounts h cfg recs e =
    (let r = path_clean (c_mount_root cfg); ex = expected_pids r e recs [];
         strays = filter (\<lambda>p. mountUnderRoot (snd p) r \<and> \<not> (kept_pid (snd p) ex > 0 \<and> fst p = kept_pid (snd p) ex))
                    (h_procs h (en_world e));
         w1 = terminate_all h (map fst strays) (en_world e);
         (cleared, w2) = clear_mounts h ex (remdups (map snd strays)) w1 in
     ((map fst strays, cleared), on_world (\<lambda>_. w2) e))"

end
