(* ===== verification/Clock.thy ===== *)
theory Clock
  imports Config
begin

text \<open>
  Timestamps.  The store keeps UTC times as text, \<open>YYYY-MM-DDTHH:MM:SSZ\<close> (UTCNowISO of
  src/internal/state/helpers.go); the reconciler parses them back with the layouts of
  parseISOToEpoch (src/internal/reconcile/decide.go).  \<open>parse_iso\<close> is what those layouts accept
  together: a date, a time, an optional fraction, and an empty, Z or numeric zone.
\<close>

definition all_digits :: "string \<Rightarrow> bool" where
  "all_digits s \<longleftrightarrow> s \<noteq> '''' \<and> (\<forall>c \<in> set s. is_digit c)"

fun days_in_month :: "int \<Rightarrow> int \<Rightarrow> int" where
  "days_in_month y m =
    (if m = 2 then (if (4 dvd y \<and> \<not> 100 dvd y) \<or> 400 dvd y then 29 else 28)
     else if m \<in> {4, 6, 9, 11} then 30 else 31)"

text \<open>Days since 1970-01-01 of a proleptic Gregorian date.\<close>

definition days_from_civil :: "int \<Rightarrow> int \<Rightarrow> int \<Rightarrow> int" where
  "days_from_civil y m d =
    (let y' = (if m \<le> 2 then y - 1 else y); m' = (if m > 2 then m - 3 else m + 9) in
     365 * y' + y' div 4 - y' div 100 + y' div 400 + (153 * m' + 2) div 5 + d - 1 - 719468)"

text \<open>The offset of a zone suffix in seconds.\<close>

definition parse_zone :: "string \<Rightarrow> int option" where
  "parse_zone z =
    (if z = '''' \<or> z = ''Z'' then Some 0
     else if length z = 6 \<and> (z ! 0 = CHR ''+'' \<or> z ! 0 = CHR ''-'') \<and> z ! 3 = CHR '':''
          \<and> all_digits (take 2 (drop 1 z)) \<and> all_digits (drop 4 z)
          \<and> digit_val (take 2 (drop 1 z)) \<le> 24 \<and> digit_val (drop 4 z) \<le> 60
     then (let off = int (digit_val (take 2 (drop 1 z))) * 3600 + int (digit_val (drop 4 z)) * 60 in
           Some (if z ! 0 = CHR ''-'' then - off else off))
     else None)"

definition parse_iso :: "string \<Rightarrow> rat option" where
  "parse_iso s =
    (if length s < 19 then None
     else
      (let y = take 4 s; mo = take 2 (drop 5 s); d = take 2 (drop 8 s);
           h = take 2 (drop 11 s); mi = take 2 (drop 14 s); sec = take 2 (drop 17 s);
           rest = drop 19 s;
           fr = (case rest of c # cs \<Rightarrow> if c = CHR ''.'' \<or> c = CHR '','' then takeWhile is_digit cs else [] | [] \<Rightarrow> []);
           zone = (if fr = [] then rest else drop (Suc (length fr)) rest) in
       if s ! 4 = CHR ''-'' \<and> s ! 7 = CHR ''-'' \<and> s ! 10 = CHR ''T'' \<and> s ! 13 = CHR '':'' \<and> s ! 16 = CHR '':''
          \<and> all_digits y \<and> all_digits mo \<and> all_digits d \<and> all_digits h \<and> all_digits mi \<and> all_digits sec
          \<and> 1 \<le> digit_val mo \<and> digit_val mo \<le> 12 \<and> 1 \<le> digit_val d
          \<and> int (digit_val d) \<le> days_in_month (int (digit_val y)) (int (digit_val mo))
          \<and> digit_val h < 24 \<and> digit_val mi < 60 \<and> digit_val sec < 60
       then (case parse_zone zone of
               None \<Rightarrow> None
             | Some off \<Rightarrow>
                 Some (of_int (days_from_civil (int (digit_val y)) (int (digit_val mo)) (int (digit_val d)) * 86400
                        + int (digit_val h) * 3600 + int (digit_val mi) * 60 + int (digit_val sec) - off)
                       + decimal '''' (take 9 fr)))
       else None))"

definition parseISOToEpoch :: "string \<Rightarrow> rat option" where
  "parseISOToEpoch val =
    (let s = trim_space val in if s = '''' then None else parse_iso s)"

text \<open>The calendar date of a day number, and the text UTCNowISO writes for a whole second.\<close>

definition civil_from_days :: "int \<Rightarrow> int \<times> int \<times> int" where
  "civil_from_days z =
    (let z' = z + 719468; era = z' div 146097; doe = z' mod 146097;
         yoe = (doe - doe div 1460 + doe div 36524 - doe div 146096) div 365;
         doy = doe - (365 * yoe + yoe div 4 - yoe div 100);
         mp = (5 * doy + 2) div 153; d = doy - (153 * mp + 2) div 5 + 1;
         m = (if mp < 10 then mp + 3 else mp - 9);
         y = yoe + era * 400 + (if m \<le> 2 then 1 else 0) in
     (y, m, d))"

definition pad :: "nat \<Rightarrow> int \<Rightarrow> string" where
  "pad k i = (let s = digits_of (nat i) in replicate (k - length s) CHR ''0'' @ s)"

definition format_iso :: "int \<Rightarrow> string" where
  "format_iso t =
    (let (y, m, d) = civil_from_days (t div 86400); r = t mod 86400 in
     pad 4 y @ ''-'' @ pad 2 m @ ''-'' @ pad 2 d @ ''T'' @ pad 2 (r div 3600) @ '':''
       @ pad 2 (r mod 3600 div 60) @ '':'' @ pad 2 (r mod 60) @ ''Z'')"

text \<open>UTCNowISO at a time in nanoseconds since the epoch.\<close>

definition UTCNowISO :: "int \<Rightarrow> string" where
  "UTCNowISO now_ns = format_iso (now_ns div 10 ^ 9)"

lemma iso_samples:
  "format_iso 951868799 = ''2000-02-29T23:59:59Z''" "parse_iso ''2000-02-29T23:59:59Z'' = Some 951868799"
  by code_simp+

end
