(* ===== verification/Cleaner.thy ===== *)
theory Cleaner
  imports Engine Clock
begin

text \<open>
  The cleaner of src/internal/cleaner: purge of one archive (cleaner.go), overlay policy
  (overlay.go), quarantine pruning (quarantine.go), mount directories (mounts.go), temporary files
  of ratarmount (temps.go, path_in_use_linux.go), the outer non-solid cache (nonsolid_cache.go), the
  disk check and one cleaner pass.  Its state is the engine's, whose store and files it shares,
  with the modification times of the files, which a rename keeps.  A RemoveAll on a tree removes
  every file that is not locked.
\<close>

subsection \<open>State and host\<close>

record cleaner_state =
  cl_eng :: engine
  cl_mtime :: "path \<Rightarrow> int"

abbreviation cl_world :: "cleaner_state \<Rightarrow> world" where
  "cl_world st \<equiv> en_world (cl_eng st)"

record cleaner_host =
  ch_cwd :: path
  ch_now :: int
  ch_rename :: "path \<Rightarrow> path \<Rightarrow> bool"
  ch_copy :: "path \<Rightarrow> path \<Rightarrow> bool"
  ch_mkdir :: "path \<Rightarrow> bool"
  ch_unreadable :: "path \<Rightarrow> bool"
  ch_statfs :: "path \<Rightarrow> (int \<times> int) option"
  ch_flock :: "path \<Rightarrow> bool"
  ch_fd_links :: "string list"
  ch_real :: "path \<Rightarrow> path option"
  ch_tmp :: path
  ch_cache :: cache_env

definition cl_on_world :: "(world \<Rightarrow> world) \<Rightarrow> cleaner_state \<Rightarrow> cleaner_state" where
  "cl_on_world f st = st\<lparr>cl_eng := on_world f (cl_eng st)\<rparr>"

text \<open>Duration(seconds * float64(time.Second)): nanoseconds, truncated.\<close>

definition dur_ns :: "rat \<Rightarrow> int" where
  "dur_ns secs = (if secs \<ge> 0 then \<lfloor>secs * 10 ^ 9\<rfloor> else - \<lfloor>- secs * 10 ^ 9\<rfloor>)"

subsection \<open>Files\<close>

text \<open>The names of os.ReadDir, sorted.\<close>

definition dir_names :: "path \<Rightarrow> world \<Rightarrow> string list" where
  "dir_names d w =
    sort (remdups (map path_base (filter (\<lambda>q. q \<noteq> d \<and> path_join d (path_base q) = q) (map fst (w_files w) @ w_dirs w))))"

definition is_dir :: "world \<Rightarrow> path \<Rightarrow> bool" where
  "is_dir w p \<longleftrightarrow> p \<in> set (w_dirs w)"

definition tree_gone :: "path \<Rightarrow> world \<Rightarrow> bool" where
  "tree_gone d w \<longleftrightarrow> \<not> list_ex (\<lambda>q. q = d \<or> below d q) (map fst (w_files w) @ w_dirs w)"

text \<open>os.RemoveAll and its success.\<close>

definition remove_all :: "path \<Rightarrow> world \<Rightarrow> bool \<times> world" where
  "remove_all d w = (let w1 = remove_tree d w in (tree_gone d w1, w1))"

definition removePath :: "path \<Rightarrow> world \<Rightarrow> bool \<times> world" where
  "removePath p w = (if is_dir w p then remove_all p w else remove_path p w)"

definition DirSizeBytes :: "path \<Rightarrow> world \<Rightarrow> int" where
  "DirSizeBytes p w = wrap64 (sum_list (map snd (filter (\<lambda>f. fst f = p \<or> below p (fst f)) (w_files w))))"

definition entry_size :: "world \<Rightarrow> path \<Rightarrow> int" where
  "entry_size w p = (if is_dir w p then DirSizeBytes p w else (case file_size w p of Some n \<Rightarrow> n | None \<Rightarrow> 0))"

definition moved_to :: "path \<Rightarrow> path \<Rightarrow> path \<Rightarrow> path" where
  "moved_to src dest q = (if q = src \<or> below src q then dest @ drop (length src) q else q)"

definition move_tree :: "path \<Rightarrow> path \<Rightarrow> world \<Rightarrow> world" where
  "move_tree src dest w =
    w\<lparr>w_files := map (\<lambda>(q, n). (moved_to src dest q, n)) (w_files w), w_dirs := map (moved_to src dest) (w_dirs w)\<rparr>"

text \<open>The inverse of \<open>moved_to\<close>, to give the moved files the times of their sources.\<close>

definition moved_from :: "path \<Rightarrow> path \<Rightarrow> path \<Rightarrow> path" where
  "moved_from src dest q = (if q = dest \<or> below dest q then src @ drop (length dest) q else q)"

text \<open>copyDir or copyFile: the files of the source, twice, with new times.\<close>

definition copy_tree :: "path \<Rightarrow> path \<Rightarrow> world \<Rightarrow> world" where
  "copy_tree src dest w =
    w\<lparr>w_files := w_files w @ map (\<lambda>(q, n). (moved_to src dest q, n)) (filter (\<lambda>f. fst f = src \<or> below src (fst f)) (w_files w)),
      w_dirs := w_dirs w @ map (moved_to src dest) (filter (\<lambda>q. q = src \<or> below src q) (w_dirs w))\<rparr>"

definition movePath :: "cleaner_host \<Rightarrow> path \<Rightarrow> path \<Rightarrow> cleaner_state \<Rightarrow> bool \<times> cleaner_state" where
  "movePath h src dest st =
    (let w = cl_world st in
     if \<not> path_exists w src then (False, st)
     else if ch_rename h src dest
     then (True, (cl_on_world (move_tree src dest) st)\<lparr>cl_mtime := (\<lambda>q. cl_mtime st (moved_from src dest q))\<rparr>)
     else if \<not> ch_copy h src dest
     then (False, cl_on_world (\<lambda>w. if is_dir w src then snd (remove_all dest w) else snd (remove_path dest w)) st)
     else (let w1 = copy_tree src dest w;
               (ok, w2) = (if is_dir w src then remove_all src w1 else remove_path src w1) in
           (ok, (cl_on_world (\<lambda>_. w2) st)\<lparr>cl_mtime := (\<lambda>q. if q = dest \<or> below dest q then ch_now h else cl_mtime st q)\<rparr>)))"

subsection \<open>Overlays\<close>

datatype overlay_action = OverlayNone | OverlayDeleted | OverlayQuarantined | OverlayRetained | OverlayMissing | OverlayRefused

definition overlay_str :: "overlay_action \<Rightarrow> string" where
  "overlay_str a = (case a of OverlayNone \<Rightarrow> ''none'' | OverlayDeleted \<Rightarrow> ''deleted'' | OverlayQuarantined \<Rightarrow> ''quarantined''
     | OverlayRetained \<Rightarrow> ''retained'' | OverlayMissing \<Rightarrow> ''missing'' | OverlayRefused \<Rightarrow> ''refused'')"

datatype cleaner_error =
    OverlayStat path | OverlayOutside path path | OverlayDelete path | QuarantineMkdir
  | QuarantineEscapes path | QuarantineMove path path

text \<open>The time in the name of a quarantine entry: 20060102T150405Z.\<close>

definition quarantine_stamp :: "int \<Rightarrow> string" where
  "quarantine_stamp now_ns =
    (let t = now_ns div 10 ^ 9; (y, m, d) = civil_from_days (t div 86400); r = t mod 86400 in
     pad 4 y @ pad 2 m @ pad 2 d @ ''T'' @ pad 2 (r div 3600) @ pad 2 (r mod 3600 div 60) @ pad 2 (r mod 60) @ ''Z'')"

definition quarantine_name :: "path \<Rightarrow> string \<Rightarrow> string \<Rightarrow> nat \<Rightarrow> path" where
  "quarantine_name qroot aid ts n =
    path_join qroot (aid @ ''-'' @ ts @ (if n = 0 then '''' else ''-'' @ digits_of n))"

partial_function (option) fresh_quarantine :: "world \<Rightarrow> path \<Rightarrow> string \<Rightarrow> string \<Rightarrow> nat \<Rightarrow> path option" where
  "fresh_quarantine w qroot aid ts n =
    (if \<not> path_exists w (quarantine_name qroot aid ts n) then Some (quarantine_name qroot aid ts n)
     else fresh_quarantine w qroot aid ts (n + 1))"

definition HandleOverlay ::
  "cleaner_host \<Rightarrow> path \<Rightarrow> string \<Rightarrow> path \<Rightarrow> string \<Rightarrow> cleaner_state \<Rightarrow> ((overlay_action \<times> path \<times> cleaner_error option) option) \<times> cleaner_state" where
  "HandleOverlay h overlayPath aid overlayDir policy st =
    (let w = cl_world st in
     if overlayPath = '''' then (Some (OverlayNone, '''', None), st)
     else if ch_unreadable h overlayPath then (Some (OverlayNone, '''', Some (OverlayStat overlayPath)), st)
     else if \<not> path_exists w overlayPath then (Some (OverlayMissing, '''', None), st)
     else if \<not> PathUnderRoot (ch_cwd h) overlayPath overlayDir
     then (Some (OverlayRefused, '''', Some (OverlayOutside overlayPath overlayDir)), st)
     else if policy = ''retain'' then (Some (OverlayRetained, overlayPath, None), st)
     else if policy = ''delete''
     then (let (ok, w1) = removePath overlayPath w; st1 = cl_on_world (\<lambda>_. w1) st in
           if ok then (Some (OverlayDeleted, '''', None), st1)
           else (Some (OverlayNone, '''', Some (OverlayDelete overlayPath)), st1))
     else (let qroot = QuarantineDir overlayDir in
       if \<not> ch_mkdir h qroot then (Some (OverlayNone, '''', Some QuarantineMkdir), st)
       else (let st1 = cl_on_world (\<lambda>w. w\<lparr>w_dirs := List.insert qroot (w_dirs w)\<rparr>) st in
         if \<not> PathUnderRoot (ch_cwd h) qroot overlayDir
         then (Some (OverlayRefused, '''', Some (QuarantineEscapes qroot)), st1)
         else (case fresh_quarantine (cl_world st1) qroot aid (quarantine_stamp (ch_now h)) 0 of
            None \<Rightarrow> (None, st1)
          | Some dest \<Rightarrow>
             (let (ok, st2) = movePath h overlayPath dest st1 in
              if ok then (Some (OverlayQuarantined, dest, None), st2)
              else (Some (OverlayNone, '''', Some (QuarantineMove overlayPath dest)), st2))))))"

subsection \<open>Quarantine\<close>

record quarantine_entry =
  qe_path :: path
  qe_mtime :: int
  qe_size :: int

text \<open>First pass: entries older than the retention go; the others survive.\<close>

fun prune_aged :: "cleaner_host \<Rightarrow> path \<Rightarrow> int \<Rightarrow> string list \<Rightarrow> cleaner_state \<Rightarrow> (int \<times> int \<times> quarantine_entry list) \<times> cleaner_state" where
  "prune_aged h qroot retain [] st = ((0, 0, []), st)"
| "prune_aged h qroot retain (n # ns) st =
    (let child = path_join qroot n; w = cl_world st; size = entry_size w child in
     if \<not> PathUnderRoot (ch_cwd h) child qroot then prune_aged h qroot retain ns st
     else if ch_now h - cl_mtime st child \<ge> retain
     then (let (ok, w1) = removePath child w; ((c, f, sv), st1) = prune_aged h qroot retain ns (cl_on_world (\<lambda>_. w1) st) in
           if ok then ((c + 1, f + size, sv), st1) else ((c, f, sv), st1))
     else (let ((c, f, sv), st1) = prune_aged h qroot retain ns st in
           ((c, f, \<lparr>qe_path = child, qe_mtime = cl_mtime st child, qe_size = size\<rparr> # sv), st1)))"

text \<open>Second pass: oldest first, until the total is within the cap.\<close>

fun prune_capped :: "int \<Rightarrow> int \<Rightarrow> quarantine_entry list \<Rightarrow> world \<Rightarrow> (int \<times> int) \<times> world" where
  "prune_capped maxBytes tot [] w = ((0, 0), w)"
| "prune_capped maxBytes tot (e # es) w =
    (if tot \<le> maxBytes then ((0, 0), w)
     else if \<not> path_exists w (qe_path e) then prune_capped maxBytes tot es w
     else (let (ok, w1) = removePath (qe_path e) w in
           if \<not> ok then prune_capped maxBytes tot es w1
           else (let ((c, f), w2) = prune_capped maxBytes (tot - qe_size e) es w1 in ((c + 1, f + qe_size e), w2))))"

definition PruneQuarantine :: "cleaner_host \<Rightarrow> path \<Rightarrow> int \<Rightarrow> int \<Rightarrow> cleaner_state \<Rightarrow> (int \<times> int) \<times> cleaner_state" where
  "PruneQuarantine h overlayDir retain maxBytes st =
    (let qroot = QuarantineDir overlayDir in
     if \<not> PathUnderRoot (ch_cwd h) qroot overlayDir \<or> \<not> is_dir (cl_world st) qroot then ((0, 0), st)
     else (let ((c, f, sv), st1) = prune_aged h qroot retain (dir_names qroot (cl_world st)) st in
       if maxBytes > 0
       then (let ((c2, f2), w2) = prune_capped maxBytes (wrap64 (sum_list (map qe_size sv))) (sort_key qe_mtime sv) (cl_world st1) in
             ((c + c2, f + f2), cl_on_world (\<lambda>_. w2) st1))
       else ((c, f), st1)))"

subsection \<open>Mount directories\<close>

definition mountDirProtected :: "status \<Rightarrow> bool" where
  "mountDirProtected st \<longleftrightarrow> st \<in> {StatusIndexing, StatusMounting, StatusMounted, StatusHooksRunning}"

definition RemoveUnusedMountDir :: "cleaner_host \<Rightarrow> path \<Rightarrow> path \<Rightarrow> world \<Rightarrow> bool \<times> world" where
  "RemoveUnusedMountDir h p r w =
    (if p = '''' then (False, w)
     else if r \<noteq> '''' \<and> \<not> PathUnderRoot (ch_cwd h) p r then (False, w)
     else if \<not> path_exists w p then (False, w)
     else if is_mount w p then (False, w)
     else if is_dir w p
     then (case remove_path p w of (True, w1) \<Rightarrow> (True, w1) | (False, w1) \<Rightarrow> remove_all p w1)
     else remove_path p w)"

definition CleanupMountPoint :: "cleaner_host \<Rightarrow> path \<Rightarrow> path \<Rightarrow> world \<Rightarrow> bool \<times> world" where
  "CleanupMountPoint h mountPath mountRoot w =
    (if mountPath = '''' then (False, w) else RemoveUnusedMountDir h mountPath mountRoot w)"

definition abs_clean :: "cleaner_host \<Rightarrow> path \<Rightarrow> path" where
  "abs_clean h p = path_clean (path_abs (ch_cwd h) p)"

text \<open>The first component below mount_root of an archives_dir inside it.\<close>

definition reservedMountRootNames :: "cleaner_host \<Rightarrow> config \<Rightarrow> string list" where
  "reservedMountRootNames h cfg =
    (if trim_space (c_archives_dir cfg) = '''' then []
     else (let mountRoot = abs_clean h (c_mount_root cfg); archives = abs_clean h (c_archives_dir cfg) in
       if archives = mountRoot \<or> \<not> has_prefix archives (mountRoot @ ''/'') then []
       else (let rel = path_rel mountRoot archives; top_name = hd (split_on CHR ''/'' rel) in
         if rel = ''.'' \<or> has_prefix rel ''..'' then []
         else if top_name \<noteq> '''' then [top_name] else [])))"

definition protectedMountPaths :: "cleaner_host \<Rightarrow> store \<Rightarrow> path list \<Rightarrow> path list" where
  "protectedMountPaths h s livePaths =
    map (abs_clean h)
      ((case ListArchives s AnyStatus of
          Inl _ \<Rightarrow> []
        | Inr recs \<Rightarrow> filter (\<lambda>p. p \<noteq> '''')
            (map (\<lambda>r. strPtr (a_mount_path r)) (filter (\<lambda>r. mountDirProtected (a_status r)) recs)))
       @ filter (\<lambda>p. p \<noteq> '''') livePaths)"

fun stale_dirs :: "cleaner_host \<Rightarrow> path \<Rightarrow> string list \<Rightarrow> path list \<Rightarrow> string list \<Rightarrow> world \<Rightarrow> path list \<times> world" where
  "stale_dirs h r reserved protected [] w = ([], w)"
| "stale_dirs h r reserved protected (n # ns) w =
    (let child = path_join r n in
     if has_prefix n ''.'' \<or> n \<in> set reserved \<or> is_mount w child \<or> abs_clean h child \<in> set protected
     then stale_dirs h r reserved protected ns w
     else (let (gone, w1) = RemoveUnusedMountDir h child r w; (removed, w2) = stale_dirs h r reserved protected ns w1 in
           (if gone then (child # removed, w2) else (removed, w2))))"

definition CleanupStaleMountDirs :: "cleaner_host \<Rightarrow> config \<Rightarrow> path list \<Rightarrow> cleaner_state \<Rightarrow> path list \<times> cleaner_state" where
  "CleanupStaleMountDirs h cfg livePaths st =
    (let r = c_mount_root cfg; w = cl_world st in
     if trim_space r = '''' \<or> \<not> is_dir w r then ([], st)
     else (let dirs = filter (\<lambda>n. is_dir w (path_join r n)) (dir_names r w);
               (removed, w1) = stale_dirs h r (reservedMountRootNames h cfg)
                  (protectedMountPaths h (en_store (cl_eng st)) livePaths) dirs w in
           (removed, cl_on_world (\<lambda>_. w1) st)))"

subsection \<open>Temporary files of ratarmount\<close>

definition StripFdDeletedSuffix :: "string \<Rightarrow> string" where
  "StripFdDeletedSuffix link = trim_suffix link '' (deleted)''"

definition FdLinkMatchesPath :: "string \<Rightarrow> path \<Rightarrow> path \<Rightarrow> bool" where
  "FdLinkMatchesPath link p absPath =
    (let base = StripFdDeletedSuffix link in
     if base = '''' then False
     else if p \<noteq> '''' \<and> base = p then True
     else absPath \<noteq> '''' \<and> base = absPath)"

text \<open>\<open>ch_fd_links\<close>: the targets of /proc/*/fd/*.\<close>

definition linuxPathInUse :: "cleaner_host \<Rightarrow> path \<Rightarrow> bool" where
  "linuxPathInUse h p0 =
    (let p = trim_space p0; absPath = path_clean (path_abs (ch_cwd h) p);
         resolved = (case ch_real h absPath of Some r \<Rightarrow> r | None \<Rightarrow> absPath) in
     p \<noteq> '''' \<and>
     list_ex (\<lambda>link. FdLinkMatchesPath link p absPath \<or> FdLinkMatchesPath link p resolved
        \<or> (let base = StripFdDeletedSuffix link in
           base \<noteq> '''' \<and> has_prefix base ''/''
           \<and> (case ch_real h base of Some r \<Rightarrow> r = resolved \<or> r = absPath | None \<Rightarrow> False))) (ch_fd_links h))"

definition IsRatarmountTempPath :: "world \<Rightarrow> path \<Rightarrow> bool" where
  "IsRatarmountTempPath w p \<longleftrightarrow> path_exists w p \<and> \<not> is_dir w p \<and> has_prefix (path_base p) ''.tmp''"

fun prune_temps :: "cleaner_host \<Rightarrow> path \<Rightarrow> string list \<Rightarrow> world \<Rightarrow> (int \<times> int) \<times> world" where
  "prune_temps h tmpDir [] w = ((0, 0), w)"
| "prune_temps h tmpDir (n # ns) w =
    (let candidate = path_join tmpDir n in
     if \<not> has_prefix n ''.tmp'' \<or> \<not> PathUnderRoot (ch_cwd h) candidate tmpDir \<or> \<not> IsRatarmountTempPath w candidate
        \<or> linuxPathInUse h candidate
     then prune_temps h tmpDir ns w
     else (let sz = entry_size w candidate; (ok, w1) = remove_path candidate w; ((c, f), w2) = prune_temps h tmpDir ns w1 in
           (if ok then ((c + 1, f + sz), w2) else ((c, f), w2))))"

definition PruneOrphanRatarmountTemps :: "cleaner_host \<Rightarrow> path \<Rightarrow> world \<Rightarrow> (int \<times> int) \<times> world" where
  "PruneOrphanRatarmountTemps h tmpDir w =
    (if tmpDir = '''' \<or> \<not> is_dir w tmpDir then ((0, 0), w) else prune_temps h tmpDir (dir_names tmpDir w) w)"

definition Cleaner_PruneOrphanRatarmountTemps :: "cleaner_host \<Rightarrow> cleaner_state \<Rightarrow> (int \<times> int) \<times> cleaner_state" where
  "Cleaner_PruneOrphanRatarmountTemps h st =
    (let (r, w1) = PruneOrphanRatarmountTemps h (if ch_tmp h \<noteq> '''' then ch_tmp h else ''/tmp'') (cl_world st) in
     (r, cl_on_world (\<lambda>_. w1) st))"

subsection \<open>Outer non-solid cache\<close>

record nonsolid_result =
  nr_partials :: int
  nr_locks :: int
  nr_archives :: int
  nr_sidecars :: int
  nr_bytes :: int

definition no_prune :: nonsolid_result where
  "no_prune = \<lparr>nr_partials = 0, nr_locks = 0, nr_archives = 0, nr_sidecars = 0, nr_bytes = 0\<rparr>"

fun nonsolid_partials :: "cleaner_host \<Rightarrow> path \<Rightarrow> string list \<Rightarrow> nonsolid_result \<Rightarrow> world \<Rightarrow> nonsolid_result \<times> world" where
  "nonsolid_partials h c [] r w = (r, w)"
| "nonsolid_partials h c (n # ns) r w =
    (let candidate = path_join c n; sz = entry_size w candidate;
         gone = (\<lambda>ok r. if ok then r\<lparr>nr_partials := nr_partials r + 1, nr_bytes := nr_bytes r + sz\<rparr> else r) in
     if \<not> PathUnderRoot (ch_cwd h) candidate c then nonsolid_partials h c ns r w
     else if has_suffix n ''.nonsolid.partial.work''
     then (let (ok, w1) = remove_all candidate w in nonsolid_partials h c ns (gone ok r) w1)
     else if has_suffix n ''.nonsolid.partial''
     then (let (ok, w1) = removePath candidate w in nonsolid_partials h c ns (gone ok r) w1)
     else nonsolid_partials h c ns r w)"

text \<open>Removes a lock file nobody holds.\<close>

definition tryRemoveLockFile :: "cleaner_host \<Rightarrow> path \<Rightarrow> world \<Rightarrow> bool \<times> world" where
  "tryRemoveLockFile h p w = (if \<not> is_file w p \<or> ch_flock h p then (False, w) else remove_path p w)"

fun nonsolid_locks :: "cleaner_host \<Rightarrow> path \<Rightarrow> string list \<Rightarrow> nonsolid_result \<Rightarrow> world \<Rightarrow> nonsolid_result \<times> world" where
  "nonsolid_locks h c [] r w = (r, w)"
| "nonsolid_locks h c (n # ns) r w =
    (let lockPath = path_join c n; dest = NonsolidCacheDestFromLockPath lockPath in
     if is_dir w lockPath \<or> \<not> has_suffix n ''.lock'' \<or> \<not> PathUnderRoot (ch_cwd h) lockPath c
        \<or> dest = '''' \<or> \<not> PathUnderRoot (ch_cwd h) dest c \<or> path_exists w dest
     then nonsolid_locks h c ns r w
     else (let sz = entry_size w lockPath; (ok, w1) = tryRemoveLockFile h lockPath w in
           nonsolid_locks h c ns
             (if ok then r\<lparr>nr_locks := nr_locks r + 1, nr_bytes := nr_bytes r + sz\<rparr> else r) w1))"

definition drop_siblings :: "cleaner_host \<Rightarrow> path \<Rightarrow> path \<Rightarrow> nonsolid_result \<Rightarrow> world \<Rightarrow> nonsolid_result \<times> world" where
  "drop_siblings h c dest r w =
    (let side = MetadataPath dest; lockPath = NonsolidCacheLockPath dest;
         (r1, w1) =
           (if PathUnderRoot (ch_cwd h) side c \<and> is_file w side
            then (let sz = entry_size w side; (ok, w1) = remove_path side w in
                  (if ok then r\<lparr>nr_sidecars := nr_sidecars r + 1, nr_bytes := nr_bytes r + sz\<rparr> else r, w1))
            else (r, w)) in
     if PathUnderRoot (ch_cwd h) lockPath c \<and> is_file w1 lockPath
     then (let sz = entry_size w1 lockPath; (ok, w2) = tryRemoveLockFile h lockPath w1 in
           (if ok then r1\<lparr>nr_locks := nr_locks r1 + 1, nr_bytes := nr_bytes r1 + sz\<rparr> else r1, w2))
     else (r1, w1))"

fun nonsolid_aged :: "cleaner_host \<Rightarrow> path \<Rightarrow> int \<Rightarrow> path list \<Rightarrow> (path \<Rightarrow> int) \<Rightarrow> string list \<Rightarrow> nonsolid_result \<Rightarrow> world \<Rightarrow> nonsolid_result \<times> world" where
  "nonsolid_aged h c age live mtimes [] r w = (r, w)"
| "nonsolid_aged h c age live mtimes (n # ns) r w =
    (let dest = path_join c n in
     if is_dir w dest \<or> \<not> has_suffix n ''.7z'' \<or> str_contains n ''.nonsolid.partial''
        \<or> \<not> PathUnderRoot (ch_cwd h) dest c \<or> dest \<in> set live \<or> \<not> is_file w dest
        \<or> ch_now h - mtimes dest < age
     then nonsolid_aged h c age live mtimes ns r w
     else (let sz = entry_size w dest; (ok, w1) = remove_path dest w in
       if \<not> ok then nonsolid_aged h c age live mtimes ns r w1
       else (let (r1, w2) = drop_siblings h c dest
                    (r\<lparr>nr_archives := nr_archives r + 1, nr_bytes := nr_bytes r + sz\<rparr>) w1 in
             nonsolid_aged h c age live mtimes ns r1 w2)))"

definition PruneNonsolidCache :: "cleaner_host \<Rightarrow> path \<Rightarrow> int \<Rightarrow> path list \<Rightarrow> cleaner_state \<Rightarrow> nonsolid_result \<times> cleaner_state" where
  "PruneNonsolidCache h cacheDir0 age livePaths st =
    (let cacheDir = trim_space cacheDir0; c = abs_clean h cacheDir; w = cl_world st in
     if cacheDir = '''' \<or> \<not> is_dir w c then (no_prune, st)
     else (let live = map (abs_clean h) (filter (\<lambda>p. p \<noteq> '''') (map trim_space livePaths));
               (r1, w1) = nonsolid_partials h c (dir_names c w) no_prune w;
               (r2, w2) = nonsolid_locks h c (dir_names c w1) r1 w1;
               (r3, w3) = (if age < 0 then (r2, w2)
                           else nonsolid_aged h c age live (cl_mtime st) (dir_names c w2) r2 w2) in
           (r3, cl_on_world (\<lambda>_. w3) st)))"

subsection \<open>Disk\<close>

text \<open>Statfs on the nearest existing ancestor; the loop ends at the root, whose parent is itself.\<close>

fun statfs_up :: "nat \<Rightarrow> cleaner_host \<Rightarrow> path \<Rightarrow> int option" where
  "statfs_up 0 h p = None"
| "statfs_up (Suc fuel) h p =
    (case ch_statfs h p of
       Some (avail, bsize) \<Rightarrow> if bsize \<le> 0 then None else Some (wrap64 (avail * bsize))
     | None \<Rightarrow> if path_dir p = p then None else statfs_up fuel h (path_dir p))"

text \<open>The fuel of the way up is enough: more of it changes nothing.\<close>

lemma statfs_up_enough: "p \<noteq> '''' \<Longrightarrow> length p < fuel \<Longrightarrow> statfs_up (Suc fuel) h p = statfs_up fuel h p"
proof (induction fuel arbitrary: p)
  case (Suc fuel)
  have dot: "statfs_up (Suc n) h ''.'' = statfs_up (Suc 0) h ''.''" for n by (simp add: path_dir_dot split: option.split)
  have up: "statfs_up (Suc fuel) h (path_dir p) = statfs_up fuel h (path_dir p)" if "path_dir p \<noteq> p"
    using path_dir_shorter [of p] that
  proof (elim disjE)
    assume "path_dir p = ''.''"
    moreover obtain n where "fuel = Suc n" using Suc.prems by (cases fuel; cases p) auto
    ultimately show ?thesis using dot [of fuel] dot [of n] by simp
  next
    assume "length (path_dir p) < length p"
    then show ?thesis using Suc.IH [OF path_dir_nonempty] Suc.prems(2) by simp
  qed simp
  show ?case unfolding statfs_up.simps(2) [of "Suc fuel" h p] statfs_up.simps(2) [of fuel h p]
    using up by (simp del: statfs_up.simps split: option.split)
qed simp

definition diskFreeBytes :: "cleaner_host \<Rightarrow> world \<Rightarrow> path \<Rightarrow> int option" where
  "diskFreeBytes h w p = (let targ = (if is_dir w p then p else path_dir p) in statfs_up (Suc (length targ)) h targ)"

definition CheckDisk :: "cleaner_host \<Rightarrow> config \<Rightarrow> world \<Rightarrow> bool \<times> int option" where
  "CheckDisk h cfg w =
    (case (case diskFreeBytes h w (c_overlay_dir cfg) of Some n \<Rightarrow> Some n | None \<Rightarrow> diskFreeBytes h w (c_index_dir cfg)) of
       None \<Rightarrow> (False, None)
     | Some n \<Rightarrow> (n < c_min_free_bytes cfg, Some n))"

subsection \<open>Purge\<close>

text \<open>The interface to the engine: what cl.Unmounter is.\<close>

type_synonym unmounter = "string \<Rightarrow> engine \<Rightarrow> engine"

record purge_result =
  pr_archive_id :: string
  pr_ok :: bool
  pr_index_deleted :: bool
  pr_overlay :: overlay_action
  pr_dest :: path
  pr_mount_cleaned :: bool
  pr_overlay_error :: "cleaner_error option"
  pr_store_error :: "store_error option"
  pr_found :: bool

definition no_purge :: "string \<Rightarrow> purge_result" where
  "no_purge aid = \<lparr>pr_archive_id = aid, pr_ok = False, pr_index_deleted = False, pr_overlay = OverlayNone, pr_dest = '''',
     pr_mount_cleaned = False, pr_overlay_error = None, pr_store_error = None, pr_found = False\<rparr>"

definition purgeUnmountStatus :: "status \<Rightarrow> bool" where
  "purgeUnmountStatus st \<longleftrightarrow> st \<in> {StatusMounted, StatusHooksRunning, StatusIndexing, StatusMounting, StatusUnmounting}"

definition purge_index :: "cleaner_host \<Rightarrow> config \<Rightarrow> archive \<Rightarrow> cleaner_state \<Rightarrow> bool \<times> cleaner_state" where
  "purge_index h cfg rec st =
    (let idx = strPtr (a_index_path rec) in
     if idx \<noteq> '''' \<and> PathUnderRoot (ch_cwd h) idx (c_index_dir cfg)
     then (let (gone, w1) = DeleteIndexFile idx (cl_world st) in (gone, cl_on_world (\<lambda>_. w1) st))
     else (False, st))"

definition purge_row :: "string \<Rightarrow> purge_result \<Rightarrow> cleaner_state \<Rightarrow> purge_result \<times> cleaner_state" where
  "purge_row aid r st =
    (case PurgeArchive aid (en_store (cl_eng st)) of
       (Inl err, s) \<Rightarrow> (r\<lparr>pr_store_error := Some err\<rparr>, st\<lparr>cl_eng := (cl_eng st)\<lparr>en_store := s\<rparr>\<rparr>)
     | (Inr _, s) \<Rightarrow> (r\<lparr>pr_ok := True\<rparr>, st\<lparr>cl_eng := (cl_eng st)\<lparr>en_store := s\<rparr>\<rparr>))"

definition purge_files :: "cleaner_host \<Rightarrow> config \<Rightarrow> archive \<Rightarrow> cleaner_state \<Rightarrow> purge_result option \<times> cleaner_state" where
  "purge_files h cfg rec st =
    (let aid = a_archive_id rec; (idx, st1) = purge_index h cfg rec st in
     case HandleOverlay h (strPtr (a_overlay_path rec)) aid (c_overlay_dir cfg) (c_overlay_cleanup cfg) st1 of
       (None, st2) \<Rightarrow> (None, st2)
     | (Some (action, dest, err), st2) \<Rightarrow>
        (let r = (no_purge aid)\<lparr>pr_found := True, pr_index_deleted := idx, pr_overlay := action, pr_dest := dest, pr_overlay_error := err\<rparr> in
         if err \<noteq> None \<and> action \<noteq> OverlayRefused then (Some r, st2)
         else (let (cleaned, w3) = CleanupMountPoint h (strPtr (a_mount_path rec)) (c_mount_root cfg) (cl_world st2);
                   (r', st4) = purge_row aid (r\<lparr>pr_mount_cleaned := cleaned\<rparr>) (cl_on_world (\<lambda>_. w3) st2) in
               (Some r', st4))))"

text \<open>\<open>None\<close>: the search for a free quarantine name does not return.\<close>

definition Cleaner_PurgeArchive ::
  "cleaner_host \<Rightarrow> config \<Rightarrow> unmounter option \<Rightarrow> string \<Rightarrow> bool \<Rightarrow> cleaner_state \<Rightarrow> purge_result option \<times> cleaner_state" where
  "Cleaner_PurgeArchive h cfg um aid unmount st =
    (case GetArchive (en_store (cl_eng st)) aid of
       None \<Rightarrow> (Some (no_purge aid), st)
     | Some rec0 \<Rightarrow>
        (case um of
           None \<Rightarrow> purge_files h cfg rec0 st
         | Some f \<Rightarrow>
            (if unmount \<and> purgeUnmountStatus (a_status rec0)
             then (let st1 = st\<lparr>cl_eng := f aid (cl_eng st)\<rparr> in
                   purge_files h cfg (case GetArchive (en_store (cl_eng st1)) aid of Some r \<Rightarrow> r | None \<Rightarrow> rec0) st1)
             else purge_files h cfg rec0 st)))"

definition GraceCutoffISO :: "rat \<Rightarrow> int \<Rightarrow> string" where
  "GraceCutoffISO cleanupAfter now_ns = UTCNowISO (now_ns - dur_ns cleanupAfter)"

fun purge_all :: "cleaner_host \<Rightarrow> config \<Rightarrow> unmounter option \<Rightarrow> string list \<Rightarrow> cleaner_state \<Rightarrow> purge_result list \<times> cleaner_state" where
  "purge_all h cfg um [] st = ([], st)"
| "purge_all h cfg um (aid # aids) st =
    (let (r, st1) = Cleaner_PurgeArchive h cfg um aid True st; (rs, st2) = purge_all h cfg um aids st1 in
     ((case r of Some x \<Rightarrow> x | None \<Rightarrow> no_purge aid) # rs, st2))"

definition PurgeAbsentPastGrace :: "cleaner_host \<Rightarrow> config \<Rightarrow> unmounter option \<Rightarrow> cleaner_state \<Rightarrow> purge_result list \<times> cleaner_state" where
  "PurgeAbsentPastGrace h cfg um st =
    purge_all h cfg um
      (map a_archive_id (ListAbsentPastGrace (en_store (cl_eng st)) (GraceCutoffISO (c_cleanup_after cfg) (ch_now h)))) st"

definition PurgedIDs :: "purge_result list \<Rightarrow> string list" where
  "PurgedIDs rs = map pr_archive_id (filter pr_ok rs)"

subsection \<open>One pass\<close>

record clean_result =
  cn_purged :: "purge_result list"
  cn_quarantine :: "int \<times> int"
  cn_low_disk :: bool
  cn_free :: "int option"
  cn_mount_dirs :: "path list"
  cn_nonsolid :: nonsolid_result

text \<open>What cl.LivePaths is: mount points and mounted archives of the live children.\<close>

definition live_paths :: "engine \<Rightarrow> path list" where
  "live_paths e =
    concat (map (\<lambda>m. filter (\<lambda>p. p \<noteq> '''') [mr_mount_path (mm_request m), mr_archive_path (mm_request m)]) (en_live e))"

definition Cleaner_Run :: "cleaner_host \<Rightarrow> config \<Rightarrow> unmounter option \<Rightarrow> cleaner_state \<Rightarrow> clean_result \<times> cleaner_state" where
  "Cleaner_Run h cfg um st =
    (let (purged, st1) = PurgeAbsentPastGrace h cfg um st;
         (q, st2) = PruneQuarantine h (c_overlay_dir cfg) (dur_ns (c_quarantine_retain cfg)) (c_quarantine_max_bytes cfg) st1;
         (low, free) = CheckDisk h cfg (cl_world st2);
         (dirs, st3) = CleanupStaleMountDirs h cfg (live_paths (cl_eng st2)) st2;
         (ns, st4) = PruneNonsolidCache h (DefaultNonsolidCacheDir (ch_cache h) cfg) (dur_ns (c_cleanup_after cfg))
                       (live_paths (cl_eng st3)) st3 in
     (\<lparr>cn_purged = purged, cn_quarantine = q, cn_low_disk = low, cn_free = free, cn_mount_dirs = dirs, cn_nonsolid = ns\<rparr>, st4))"

text \<open>The unmounter the service installs: Unmount without marking absent.\<close>

definition engine_unmounter :: "host \<Rightarrow> unmounter" where
  "engine_unmounter eh aid e = snd (Unmount eh aid False e)"

end
