(* ===== verification/Hooks.thy ===== *)
theory Hooks
  imports ConvertRun StoreProps "HOL-Library.Word"
begin

unbundle bit_operations_syntax

text \<open>
  First-mount hooks of src/internal/hooks: discovery of the scripts (discover.go), their security
  checks (security.go), environment and working directory (env.go), the meaning of exit codes and
  the aggregate of a cycle (classify.go), and the runner with its sequential and parallel mode
  (runner.go).  What the operating system answers is in \<open>hook_host\<close>: file information, symbolic
  links, directories, and how a process ends.  The durations of RunResult, which are only logged,
  are left out; the parallel mode takes the order in which its goroutines advance as an argument.
\<close>

subsection \<open>Host\<close>

datatype file_kind = KindRegular | KindDir | KindSymlink | KindOther

record file_info =
  fi_kind :: file_kind
  fi_mode :: "32 word"
  fi_uid :: "32 word option"

datatype stat_error = NotExist | StatFailed string

datatype process_end = StartFailed string | Ended "int option" "string option" | DeadlineHit

record hook_host =
  hh_utc :: string
  hh_config_path :: path
  hh_environ :: "string list"
  hh_cwd :: path
  hh_lstat :: "world \<Rightarrow> path \<Rightarrow> stat_error + file_info"
  hh_stat :: "world \<Rightarrow> path \<Rightarrow> stat_error + file_info"
  hh_real :: "world \<Rightarrow> path \<Rightarrow> path option"
  hh_names :: "world \<Rightarrow> path \<Rightarrow> string list option"
  hh_mkdir :: "path \<Rightarrow> world \<Rightarrow> bool \<times> world"
  hh_exec :: "string list \<Rightarrow> string list \<Rightarrow> path \<Rightarrow> int \<Rightarrow> world \<Rightarrow> process_end \<times> world"

subsection \<open>Results\<close>

definition ExitRetry :: int where "ExitRetry = 75"

record discovered_hook =
  dh_name :: string
  dh_path :: path

record run_result =
  rr_hook :: string
  rr_status :: hook_row_status
  rr_exit :: "int option"
  rr_attempts :: int
  rr_error :: string
  rr_timed_out :: bool

record cycle_result =
  cr_archive_id :: string
  cr_ran :: bool
  cr_status :: hooks_status
  cr_results :: "run_result list"
  cr_skipped :: string

subsection \<open>Classification\<close>

definition ClassifyExit :: "int option \<Rightarrow> bool \<Rightarrow> int \<Rightarrow> int \<Rightarrow> hook_row_status \<times> string" where
  "ClassifyExit returnCode timedOut attempts maxRetries =
    (let spent = ''(attempts='' @ itoa attempts @ '' > max_retries='' @ itoa maxRetries @ '')'' in
     if timedOut
     then (if attempts > maxRetries then (HookFailed, ''timeout '' @ spent) else (HookRetry, ''timeout''))
     else (case returnCode of
        None \<Rightarrow> (HookFailed, ''no exit code'')
      | Some code \<Rightarrow>
          (if code = 0 then (HookSuccess, '''')
           else if code = ExitRetry
           then (if attempts > maxRetries then (HookFailed, ''EX_TEMPFAIL exhausted '' @ spent)
                 else (HookRetry, ''EX_TEMPFAIL (75)''))
           else if code < 0 then (HookFailed, ''killed by signal '' @ itoa (- code))
           else (HookFailed, ''hard fail exit_code='' @ itoa code))))"

fun ShouldRunHooks :: "hooks_status \<Rightarrow> bool \<Rightarrow> bool" where
  "ShouldRunHooks HooksSuccess rerun = False"
| "ShouldRunHooks HooksFailed rerun = rerun"
| "ShouldRunHooks _ rerun = True"

definition ShouldRunHooksRecord :: "archive option \<Rightarrow> bool \<Rightarrow> bool" where
  "ShouldRunHooksRecord rec rerun =
    (case rec of None \<Rightarrow> False | Some r \<Rightarrow> ShouldRunHooks (a_hooks_status r) rerun)"

definition IsTerminalHooksStatus :: "hooks_status \<Rightarrow> bool" where
  "IsTerminalHooksStatus st \<longleftrightarrow> st = HooksSuccess \<or> st = HooksFailed"

definition AggregateStatus :: "run_result list \<Rightarrow> hooks_status" where
  "AggregateStatus results =
    (let seen = (\<lambda>st. list_ex (\<lambda>r. rr_status r = st) results) in
     if results = [] then HooksSuccess
     else if seen HookFailed then HooksFailed
     else if seen HookRetry then HooksRetry
     else if seen HookSkipped \<and> \<not> seen HookSuccess then HooksFailed
     else HooksSuccess)"

subsection \<open>Discovery\<close>

definition ignoreSuffixes :: "string list" where
  "ignoreSuffixes = [''.sample'', ''.disabled'', ''.dpkg-new'', ''.dpkg-dist'', ''.rpmnew'', ''.rpmsave'']"

definition ignoreNames :: "string list" where
  "ignoreNames = [''README'', ''README.md'', ''readme'', ''readme.md'', ''LICENSE'', ''NOTICE'']"

definition IsIgnoredHookName :: "string \<Rightarrow> bool" where
  "IsIgnoredHookName name =
    (if name = '''' \<or> has_prefix name ''.'' then True
     else if name \<in> set ignoreNames then True
     else if has_prefix (to_lower name) ''readme'' then True
     else list_ex (has_suffix name) ignoreSuffixes)"

definition has_bits :: "32 word \<Rightarrow> 32 word \<Rightarrow> bool" where
  "has_bits mode bits \<longleftrightarrow> mode AND bits \<noteq> 0"

text \<open>Octal 0o111, 0o020 and 0o002.\<close>

definition exec_bits :: "32 word" where "exec_bits = 73"
definition group_write :: "32 word" where "group_write = 16"
definition other_write :: "32 word" where "other_write = 2"

definition stat_regular :: "stat_error + file_info \<Rightarrow> bool" where
  "stat_regular r = (case r of Inl _ \<Rightarrow> False | Inr i \<Rightarrow> fi_kind i = KindRegular)"

definition hook_candidate :: "hook_host \<Rightarrow> world \<Rightarrow> path \<Rightarrow> bool" where
  "hook_candidate h w p =
    (case hh_lstat h w p of
       Inl _ \<Rightarrow> False
     | Inr info \<Rightarrow>
        (let link = (fi_kind info = KindSymlink) in
         if (if link then \<not> stat_regular (hh_stat h w p) else fi_kind info \<noteq> KindRegular) then False
         else if has_bits (fi_mode info) exec_bits then True
         else link \<and> (case hh_stat h w p of Inl _ \<Rightarrow> False | Inr i \<Rightarrow> has_bits (fi_mode i) exec_bits)))"

definition DiscoverHooks :: "hook_host \<Rightarrow> path \<Rightarrow> world \<Rightarrow> discovered_hook list" where
  "DiscoverHooks h hooksDir w =
    (case hh_stat h w hooksDir of
       Inl _ \<Rightarrow> []
     | Inr i \<Rightarrow>
        (if fi_kind i \<noteq> KindDir then []
         else (case hh_names h w hooksDir of
            None \<Rightarrow> []
          | Some names \<Rightarrow>
              map (\<lambda>n. \<lparr>dh_name = n, dh_path = path_join hooksDir n\<rparr>)
                (filter (\<lambda>n. \<not> IsIgnoredHookName n \<and> hook_candidate h w (path_join hooksDir n)) (sort names)))))"

subsection \<open>Security\<close>

record security_policy =
  sp_require_root :: bool
  sp_owners :: "32 word list"
  sp_under :: bool

definition DefaultSecurityPolicy :: "32 word \<Rightarrow> security_policy" where
  "DefaultSecurityPolicy uid =
    \<lparr>sp_require_root = (uid = 0), sp_owners = (if uid \<noteq> 0 then [uid] else []), sp_under = True\<rparr>"

definition ownerOK :: "security_policy \<Rightarrow> 32 word \<Rightarrow> bool" where
  "ownerOK p uid =
    (if sp_require_root p then uid = 0 \<or> uid \<in> set (sp_owners p)
     else if sp_owners p = [] then True
     else uid = 0 \<or> uid \<in> set (sp_owners p))"

datatype security_error =
    DirMissing path | DirStat path string | NotADirectory path | DirOwnership path
  | DirOwner string | DirGroupWritable path | DirOtherWritable path
  | HookStat path string | HookLink path | HookNotRegular path | TargetStat path string
  | TargetNotRegular path | HookEscapes path path | HookOwnership path | HookOwner string
  | HookGroupWritable path | HookOtherWritable path | HookNotExecutable path

definition ownerFailMessage :: "security_policy \<Rightarrow> 32 word \<Rightarrow> path \<Rightarrow> string" where
  "ownerFailMessage p uid f =
    (if sp_require_root p \<and> sp_owners p = []
     then ''must be owned by root (uid 0), got uid='' @ itoa (uint uid) @ '': '' @ f
     else ''owner uid='' @ itoa (uint uid) @ '' not allowed for '' @ f)"

fun security_text :: "security_error \<Rightarrow> string" where
  "security_text (DirMissing p) = ''hooks_dir does not exist: '' @ p"
| "security_text (DirStat p e) = ''cannot stat hooks_dir '' @ p @ '': '' @ e"
| "security_text (NotADirectory p) = ''hooks_dir is not a directory: '' @ p"
| "security_text (DirOwnership p) = ''cannot read hooks_dir ownership '' @ p"
| "security_text (DirOwner m) = ''hooks_dir '' @ m"
| "security_text (DirGroupWritable p) = ''hooks_dir must not be group-writable: '' @ p"
| "security_text (DirOtherWritable p) = ''hooks_dir must not be other-writable: '' @ p"
| "security_text (HookStat p e) = ''cannot stat hook '' @ p @ '': '' @ e"
| "security_text (HookLink p) = ''cannot resolve hook symlink '' @ p"
| "security_text (HookNotRegular p) = ''hook is not a regular file: '' @ p"
| "security_text (TargetStat p e) = ''cannot stat resolved hook '' @ p @ '': '' @ e"
| "security_text (TargetNotRegular p) = ''hook target is not a regular file: '' @ p"
| "security_text (HookEscapes p r) = ''hook realpath escapes hooks_dir: '' @ p @ '' not under '' @ r"
| "security_text (HookOwnership p) = ''cannot read hook ownership '' @ p"
| "security_text (HookOwner m) = ''hook '' @ m"
| "security_text (HookGroupWritable p) = ''hook must not be group-writable: '' @ p"
| "security_text (HookOtherWritable p) = ''hook must not be other-writable: '' @ p"
| "security_text (HookNotExecutable p) = ''hook is not executable: '' @ p"

definition stat_text :: "stat_error \<Rightarrow> string" where
  "stat_text e = (case e of NotExist \<Rightarrow> ''no such file or directory'' | StatFailed m \<Rightarrow> m)"

definition ValidateHooksDir :: "hook_host \<Rightarrow> path \<Rightarrow> security_policy \<Rightarrow> world \<Rightarrow> security_error option" where
  "ValidateHooksDir h d p w =
    (case hh_lstat h w d of
       Inl NotExist \<Rightarrow> Some (DirMissing d)
     | Inl (StatFailed m) \<Rightarrow> Some (DirStat d m)
     | Inr l \<Rightarrow>
        (if fi_kind l \<noteq> KindDir then Some (NotADirectory d)
         else (case hh_stat h w d of
            Inl e \<Rightarrow> Some (DirStat d (stat_text e))
          | Inr st \<Rightarrow>
             (if fi_kind st \<noteq> KindDir then Some (NotADirectory d)
              else (case fi_uid st of
                 None \<Rightarrow> Some (DirOwnership d)
               | Some uid \<Rightarrow>
                  (if \<not> ownerOK p uid then Some (DirOwner (ownerFailMessage p uid d))
                   else if has_bits (fi_mode st) group_write then Some (DirGroupWritable d)
                   else if has_bits (fi_mode st) other_write then Some (DirOtherWritable d)
                   else None)))))) "

definition splitPath :: "path \<Rightarrow> string list" where
  "splitPath p = filter (\<lambda>s. s \<noteq> '''') (split_on CHR ''/'' p)"

definition containsDotDot :: "path \<Rightarrow> bool" where
  "containsDotDot rel \<longleftrightarrow> ''..'' \<in> set (splitPath rel)"

definition hasParentRel :: "path \<Rightarrow> bool" where
  "hasParentRel rel \<longleftrightarrow> rel = ''..'' \<or> has_prefix rel ''../'' \<or> containsDotDot rel"

text \<open>filepath.Rel fails when only one of the two paths is absolute.\<close>

definition rel_path :: "path \<Rightarrow> path \<Rightarrow> path option" where
  "rel_path base targ = (if is_rooted base \<noteq> is_rooted targ then None else Some (path_rel base targ))"

definition escapes_hooks :: "path \<Rightarrow> path \<Rightarrow> bool" where
  "escapes_hooks hooksReal target_p =
    (case rel_path hooksReal target_p of None \<Rightarrow> True | Some rel \<Rightarrow> rel = ''..'' \<or> hasParentRel rel)"

definition resolve_or_abs :: "hook_host \<Rightarrow> world \<Rightarrow> path \<Rightarrow> path" where
  "resolve_or_abs h w p = (case hh_real h w p of Some r \<Rightarrow> r | None \<Rightarrow> path_clean (path_abs (hh_cwd h) p))"

definition check_target :: "hook_host \<Rightarrow> path \<Rightarrow> security_policy \<Rightarrow> world \<Rightarrow> path \<Rightarrow> security_error + path" where
  "check_target h hooksReal p w target_p =
    (case hh_stat h w target_p of
       Inl e \<Rightarrow> Inl (TargetStat target_p (stat_text e))
     | Inr st \<Rightarrow>
        (if fi_kind st \<noteq> KindRegular then Inl (TargetNotRegular target_p)
         else if sp_under p \<and> escapes_hooks hooksReal target_p then Inl (HookEscapes target_p hooksReal)
         else (case fi_uid st of
            None \<Rightarrow> Inl (HookOwnership target_p)
          | Some uid \<Rightarrow>
             (if \<not> ownerOK p uid then Inl (HookOwner (ownerFailMessage p uid target_p))
              else if has_bits (fi_mode st) group_write then Inl (HookGroupWritable target_p)
              else if has_bits (fi_mode st) other_write then Inl (HookOtherWritable target_p)
              else if \<not> has_bits (fi_mode st) exec_bits then Inl (HookNotExecutable target_p)
              else Inr target_p))))"

definition ValidateHookSecurity ::
  "hook_host \<Rightarrow> path \<Rightarrow> path \<Rightarrow> security_policy \<Rightarrow> world \<Rightarrow> security_error + path" where
  "ValidateHookSecurity h hookPath hooksDir p w =
    (let hooksReal = resolve_or_abs h w hooksDir in
     case hh_lstat h w hookPath of
       Inl e \<Rightarrow> Inl (HookStat hookPath (stat_text e))
     | Inr l \<Rightarrow>
        (if fi_kind l = KindSymlink
         then (case hh_real h w hookPath of
                 None \<Rightarrow> Inl (HookLink hookPath)
               | Some target_p \<Rightarrow> check_target h hooksReal p w target_p)
         else if fi_kind l \<noteq> KindRegular then Inl (HookNotRegular hookPath)
         else check_target h hooksReal p w (resolve_or_abs h w hookPath)))"

subsection \<open>Environment\<close>

record archive_env =
  ae_id :: string
  ae_path :: path
  ae_mount :: path
  ae_index :: path
  ae_overlay :: path
  ae_basename :: string
  ae_source :: path

definition FromArchiveRecord :: "archive \<Rightarrow> archive_env" where
  "FromArchiveRecord rec = \<lparr>ae_id = a_archive_id rec, ae_path = a_archive_path rec,
     ae_mount = strPtr (a_mount_path rec), ae_index = strPtr (a_index_path rec),
     ae_overlay = strPtr (a_overlay_path rec), ae_basename = a_archive_basename rec,
     ae_source = a_source_dir rec\<rparr>"

type_synonym env_map = "(string \<times> string) list"

text \<open>An entry counts when its first = is not its first character; a later one wins.\<close>

fun environMap :: "string list \<Rightarrow> env_map \<Rightarrow> env_map" where
  "environMap [] m = m"
| "environMap (kv # kvs) m =
    (let k = takeWhile (\<lambda>c. c \<noteq> CHR ''='') kv in
     environMap kvs (if k \<noteq> '''' \<and> length k < length kv then kput fst (k, drop (Suc (length k)) kv) m else m))"

definition EnvPrefix :: string where "EnvPrefix = ''MOUNT_WRAPPER_''"

definition hook_vars :: "archive_env \<Rightarrow> string \<Rightarrow> path \<Rightarrow> env_map" where
  "hook_vars r name cfgPath =
    [(EnvPrefix @ ''ARCHIVE_ID'', ae_id r), (EnvPrefix @ ''ARCHIVE_PATH'', ae_path r),
     (EnvPrefix @ ''MOUNT_PATH'', ae_mount r), (EnvPrefix @ ''INDEX_PATH'', ae_index r),
     (EnvPrefix @ ''OVERLAY_PATH'', ae_overlay r), (EnvPrefix @ ''ARCHIVE_BASENAME'', ae_basename r),
     (EnvPrefix @ ''SOURCE_DIR'', ae_source r), (EnvPrefix @ ''CONFIG'', cfgPath), (EnvPrefix @ ''HOOK_NAME'', name)]"

definition BuildHookEnv :: "archive_env \<Rightarrow> string \<Rightarrow> path \<Rightarrow> string list \<Rightarrow> env_map" where
  "BuildHookEnv r name cfgPath baseEnv = fold (kput fst) (hook_vars r name cfgPath) (environMap baseEnv [])"

definition EnvSlice :: "env_map \<Rightarrow> string list" where
  "EnvSlice env = map (\<lambda>(k, v). k @ ''='' @ v) env"

definition ResolveHooksCwd :: "archive_env \<Rightarrow> string \<Rightarrow> path \<Rightarrow> path" where
  "ResolveHooksCwd r hooksCwd hooksDir =
    (if hooksCwd = ''archive_dir'' then (if ae_path r = '''' then ''.'' else path_dir (ae_path r))
     else if hooksCwd = ''hooks_dir'' then hooksDir
     else if ae_mount r \<noteq> '''' then ae_mount r else ''.'')"

definition HookArgv :: "path \<Rightarrow> archive_env \<Rightarrow> string list" where
  "HookArgv p r = [p, ae_mount r, ae_path r]"

subsection \<open>Runner\<close>

record hooks_state =
  hs_store :: store
  hs_world :: world

datatype hook_error = HookStore store_error | HookArchiveMissing string

type_synonym 'a hook_op = "(hooks_state, hook_error, 'a) op"

definition hook_store_do :: "'a store_op \<Rightarrow> 'a hook_op" where
  "hook_store_do m st =
    (case m (hs_store st) of
       (Inl err, s) \<Rightarrow> (Inl (HookStore err), st\<lparr>hs_store := s\<rparr>)
     | (Inr x, s) \<Rightarrow> (Inr x, st\<lparr>hs_store := s\<rparr>))"

text \<open>Transition, whose re-read row is there because the transaction has just updated it.\<close>

definition hook_transition :: "hook_host \<Rightarrow> string \<Rightarrow> status \<Rightarrow> expected \<Rightarrow> patch \<Rightarrow> archive hook_op" where
  "hook_transition h aid to ex p =
    bindE (hook_store_do (Transition (hh_utc h) aid to ex p ''''))
      (\<lambda>r. case r of None \<Rightarrow> throw (HookArchiveMissing aid) | Some rec \<Rightarrow> ret rec)"

definition getHookRow :: "string \<Rightarrow> string \<Rightarrow> hooks_state \<Rightarrow> hook_row option" where
  "getHookRow aid name st = find (\<lambda>r. h_hook_name r = name) (ListHooks (hs_store st) aid)"

definition upsertHook :: "string \<Rightarrow> string \<Rightarrow> upsert_params \<Rightarrow> hooks_state \<Rightarrow> hooks_state" where
  "upsertHook aid name p st = snd (hook_store_do (UpsertHook aid name p) st)"

definition enterHooksRunning :: "hook_host \<Rightarrow> archive \<Rightarrow> string list \<Rightarrow> archive hook_op" where
  "enterHooksRunning h rec names =
    bindE (if names \<noteq> [] then bindE (hook_store_do (SeedHooks (a_archive_id rec) names ''pending'')) (\<lambda>_. ret ()) else ret ())
      (\<lambda>_. hook_transition h (a_archive_id rec) StatusHooksRunning (Expect [a_status rec])
              (no_fields\<lparr>p_hooks_status := Some ''running''\<rparr>))"

subsection \<open>One hook\<close>

text \<open>The default RunProcess: how the end of the child is reported.\<close>

definition runHookProcess :: "process_end \<Rightarrow> int option \<times> bool \<times> string option" where
  "runHookProcess fin =
    (case fin of
       StartFailed m \<Rightarrow> (None, False, Some m)
     | Ended code werr \<Rightarrow> (if werr \<noteq> None \<and> code = None then (None, False, werr) else (code, False, None))
     | DeadlineHit \<Rightarrow> (None, True, None))"

definition hook_timeout_ns :: "config \<Rightarrow> int" where
  "hook_timeout_ns cfg =
    (let t = \<lfloor>c_hook_timeout cfg * 1000000000\<rfloor> in if t \<le> 0 then 3600 * 1000000000 else t)"

definition hook_cwd :: "hook_host \<Rightarrow> config \<Rightarrow> archive \<Rightarrow> world \<Rightarrow> path \<times> world" where
  "hook_cwd h cfg rec w =
    (let cwd = ResolveHooksCwd (FromArchiveRecord rec) (c_hooks_cwd cfg) (c_hooks_dir cfg);
         (made, w1) = hh_mkdir h cwd w;
         cwd1 = (if made then cwd else ''/'') in
     (case hh_stat h w1 cwd1 of
        Inl _ \<Rightarrow> ''/''
      | Inr i \<Rightarrow> if fi_kind i = KindDir then cwd1 else ''/'', w1))"

definition next_attempt :: "archive \<Rightarrow> string \<Rightarrow> hooks_state \<Rightarrow> int" where
  "next_attempt rec name st =
    (case getHookRow (a_archive_id rec) name st of None \<Rightarrow> 1 | Some row \<Rightarrow> h_attempts row + 1)"

definition begin_one :: "hook_host \<Rightarrow> archive \<Rightarrow> string \<Rightarrow> hooks_state \<Rightarrow> int \<times> hooks_state" where
  "begin_one h rec name st =
    (let attempts = next_attempt rec name st in
     (attempts, upsertHook (a_archive_id rec) name
        \<lparr>u_status = ''running'', u_attempts = Some attempts, u_last_exit_code = None,
         u_last_run_at = Some (hh_utc h), u_last_error = None\<rparr> st))"

definition one_result :: "config \<Rightarrow> string \<Rightarrow> int \<Rightarrow> process_end \<Rightarrow> run_result" where
  "one_result cfg name attempts fin =
    (let (code, timedOut, err) = runHookProcess fin in
     case err of
       Some m \<Rightarrow>
         (if \<not> timedOut \<and> code = None
          then \<lparr>rr_hook = name, rr_status = HookFailed, rr_exit = None, rr_attempts = attempts,
                rr_error = ''spawn error: '' @ m, rr_timed_out = False\<rparr>
          else (let (st, msg) = ClassifyExit code timedOut attempts (c_hook_max_retries cfg) in
                \<lparr>rr_hook = name, rr_status = st, rr_exit = code, rr_attempts = attempts,
                 rr_error = (if timedOut \<and> msg = '''' then ''timeout'' else msg), rr_timed_out = timedOut\<rparr>))
     | None \<Rightarrow>
         (let (st, msg) = ClassifyExit code timedOut attempts (c_hook_max_retries cfg) in
          \<lparr>rr_hook = name, rr_status = st, rr_exit = code, rr_attempts = attempts,
           rr_error = (if timedOut \<and> msg = '''' then ''timeout'' else msg), rr_timed_out = timedOut\<rparr>))"

text \<open>The process of one hook, from the preparation of its directory to its end.\<close>

definition hook_end :: "hook_host \<Rightarrow> config \<Rightarrow> archive \<Rightarrow> discovered_hook \<Rightarrow> world \<Rightarrow> process_end \<times> world" where
  "hook_end h cfg rec hk w =
    (let (cwd, w1) = hook_cwd h cfg rec w;
         env = EnvSlice (BuildHookEnv (FromArchiveRecord rec) (dh_name hk) (hh_config_path h) (hh_environ h)) in
     hh_exec h (HookArgv (dh_path hk) (FromArchiveRecord rec)) env cwd (hook_timeout_ns cfg) w1)"

definition finish_one :: "hook_host \<Rightarrow> config \<Rightarrow> archive \<Rightarrow> discovered_hook \<Rightarrow> int \<Rightarrow> hooks_state \<Rightarrow> run_result \<times> hooks_state" where
  "finish_one h cfg rec hk attempts st =
    (let (fin, w2) = hook_end h cfg rec hk (hs_world st);
         r = one_result cfg (dh_name hk) attempts fin in
     (r, upsertHook (a_archive_id rec) (dh_name hk)
           \<lparr>u_status = hook_row_status_str (rr_status r), u_attempts = Some attempts, u_last_exit_code = rr_exit r,
            u_last_run_at = Some (hh_utc h), u_last_error = Some (rr_error r)\<rparr> (st\<lparr>hs_world := w2\<rparr>)))"

definition runOne :: "hook_host \<Rightarrow> config \<Rightarrow> archive \<Rightarrow> discovered_hook \<Rightarrow> hooks_state \<Rightarrow> run_result \<times> hooks_state" where
  "runOne h cfg rec hk st =
    (let (attempts, st1) = begin_one h rec (dh_name hk) st in finish_one h cfg rec hk attempts st1)"

text \<open>A hook whose row is already success or skipped is not run again.\<close>

definition settled :: "archive \<Rightarrow> string \<Rightarrow> hooks_state \<Rightarrow> run_result option" where
  "settled rec name st =
    (case getHookRow (a_archive_id rec) name st of
       None \<Rightarrow> None
     | Some row \<Rightarrow>
        (if h_status row = HookSuccess
         then Some \<lparr>rr_hook = name, rr_status = HookSuccess, rr_exit = h_last_exit_code row,
                    rr_attempts = h_attempts row, rr_error = '''', rr_timed_out = False\<rparr>
         else if h_status row = HookSkipped
         then Some \<lparr>rr_hook = name, rr_status = HookSkipped, rr_exit = None,
                    rr_attempts = h_attempts row, rr_error = strPtr (h_last_error row), rr_timed_out = False\<rparr>
         else None))"

definition skip_message :: string where "skip_message = ''skipped_due_to_prior_hard_fail''"

fun runSequential :: "hook_host \<Rightarrow> config \<Rightarrow> archive \<Rightarrow> bool \<Rightarrow> discovered_hook list \<Rightarrow> hooks_state \<Rightarrow> run_result list \<times> hooks_state" where
  "runSequential h cfg rec stop [] st = ([], st)"
| "runSequential h cfg rec stop (hk # hks) st =
    (if stop
     then (let st1 = upsertHook (a_archive_id rec) (dh_name hk)
                 \<lparr>u_status = ''skipped'', u_attempts = None, u_last_exit_code = None, u_last_run_at = None,
                  u_last_error = Some skip_message\<rparr> st;
               (rs, st2) = runSequential h cfg rec stop hks st1 in
           (\<lparr>rr_hook = dh_name hk, rr_status = HookSkipped, rr_exit = None, rr_attempts = 0,
             rr_error = skip_message, rr_timed_out = False\<rparr> # rs, st2))
     else (case settled rec (dh_name hk) st of
        Some r \<Rightarrow> (let (rs, st1) = runSequential h cfg rec stop hks st in (r # rs, st1))
      | None \<Rightarrow>
         (let (r, st1) = runOne h cfg rec hk st;
              (rs, st2) = runSequential h cfg rec (rr_status r = HookFailed \<and> c_hooks_stop_on_hard_fail cfg) hks st1 in
          (r # rs, st2))))"

subsection \<open>Parallel mode\<close>

text \<open>
  One goroutine per hook that is not settled, each with two steps on the shared store: its row
  becomes running, and, after its process, the result is written.  A schedule lists the
  goroutines in the order in which they take a step; what it leaves open is finished afterwards,
  which is the wait.
\<close>

datatype par_phase = Waiting | Running int | Finished run_result

definition par_step :: "hook_host \<Rightarrow> config \<Rightarrow> archive \<Rightarrow> discovered_hook list \<Rightarrow> nat \<Rightarrow> par_phase list \<times> hooks_state \<Rightarrow> par_phase list \<times> hooks_state" where
  "par_step h cfg rec hks i ps =
    (let (phases, st) = ps in
     if i \<ge> length phases \<or> i \<ge> length hks then ps
     else (case phases ! i of
        Waiting \<Rightarrow> (let (attempts, st1) = begin_one h rec (dh_name (hks ! i)) st in (phases[i := Running attempts], st1))
      | Running attempts \<Rightarrow> (let (r, st1) = finish_one h cfg rec (hks ! i) attempts st in (phases[i := Finished r], st1))
      | Finished _ \<Rightarrow> ps))"

definition first_phase :: "archive \<Rightarrow> hooks_state \<Rightarrow> discovered_hook \<Rightarrow> par_phase" where
  "first_phase rec st hk = (case settled rec (dh_name hk) st of Some r \<Rightarrow> Finished r | None \<Rightarrow> Waiting)"

definition phase_results :: "par_phase list \<Rightarrow> run_result list" where
  "phase_results phases = concat (map (\<lambda>p. case p of Finished r \<Rightarrow> [r] | _ \<Rightarrow> []) phases)"

definition runParallel :: "hook_host \<Rightarrow> config \<Rightarrow> nat list \<Rightarrow> archive \<Rightarrow> discovered_hook list \<Rightarrow> hooks_state \<Rightarrow> run_result list \<times> hooks_state" where
  "runParallel h cfg sched rec hks st =
    (let all = [0..<length hks];
         (phases, st1) = fold (par_step h cfg rec hks) (sched @ all @ all) (map (first_phase rec st) hks, st) in
     (phase_results phases, st1))"

subsection \<open>The end of a cycle\<close>

definition priorLastError :: "archive \<Rightarrow> hooks_state \<Rightarrow> string" where
  "priorLastError rec st =
    (case GetArchive (hs_store st) (a_archive_id rec) of
       Some cur \<Rightarrow> (case a_last_error cur of Some m \<Rightarrow> m | None \<Rightarrow> strPtr (a_last_error rec))
     | None \<Rightarrow> strPtr (a_last_error rec))"

definition cycle_end :: "hook_host \<Rightarrow> archive \<Rightarrow> string \<Rightarrow> patch \<Rightarrow> run_result list \<Rightarrow> cycle_result hook_op" where
  "cycle_end h rec aid flds results =
    bindE (hook_transition h aid StatusMounted (Expect [StatusHooksRunning, StatusMounted]) flds)
      (\<lambda>updated. ret \<lparr>cr_archive_id = a_archive_id rec, cr_ran = True, cr_status = a_hooks_status updated,
         cr_results = results, cr_skipped = ''''\<rparr>)"

definition finishSuccess :: "hook_host \<Rightarrow> archive \<Rightarrow> run_result list \<Rightarrow> cycle_result hook_op" where
  "finishSuccess h rec results st =
    (let prior = priorLastError rec st;
         kept = (if prior = '''' then None
                 else if IsNestedSkipOnlyLastError prior then Some prior
                 else (case ExtractNestedSkipSummary prior of (sm, n) \<Rightarrow> if n > 0 then Some sm else None)) in
     cycle_end h rec (a_archive_id rec)
       (no_fields\<lparr>p_hooks_status := Some ''success'', p_hooks_completed_at := Some (Some (hh_utc h)),
          p_last_error := Some kept\<rparr>) results st)"

definition current_row :: "archive \<Rightarrow> hooks_state \<Rightarrow> archive" where
  "current_row rec st = (case GetArchive (hs_store st) (a_archive_id rec) of Some r \<Rightarrow> r | None \<Rightarrow> rec)"

definition finishFailed :: "hook_host \<Rightarrow> archive \<Rightarrow> string \<Rightarrow> run_result list \<Rightarrow> cycle_result hook_op" where
  "finishFailed h rec reason results st =
    (let current0 = current_row rec st;
         (current, st1) =
           (if a_status current0 \<notin> {StatusHooksRunning, StatusMounted}
            then (case hook_transition h (a_archive_id current0) StatusHooksRunning (Expect [a_status current0])
                         (no_fields\<lparr>p_hooks_status := Some ''running''\<rparr>) st of
                    (Inr moved, st') \<Rightarrow> (moved, st')
                  | (Inl _, st') \<Rightarrow> (case GetArchive (hs_store st') (a_archive_id rec) of Some r \<Rightarrow> (r, st') | None \<Rightarrow> (current0, st')))
            else (current0, st));
         prior = (case a_last_error current of Some m \<Rightarrow> m | None \<Rightarrow> strPtr (a_last_error rec)) in
     cycle_end h rec (a_archive_id current)
       (no_fields\<lparr>p_hooks_status := Some ''failed'', p_hooks_completed_at := Some (Some (hh_utc h)),
          p_last_error := Some (Some (PreserveNestedSkipInReason reason prior))\<rparr>) results st1)"

definition finishRetry :: "hook_host \<Rightarrow> archive \<Rightarrow> run_result list \<Rightarrow> cycle_result hook_op" where
  "finishRetry h rec results st =
    cycle_end h rec (a_archive_id rec)
      (no_fields\<lparr>p_hooks_status := Some ''retry'', p_hooks_completed_at := Some None,
         p_last_error := Some (Some (PreserveNestedSkipInReason
           ''one or more hooks returned EX_TEMPFAIL/timeout'' (priorLastError rec st)))\<rparr>) results st"

definition aggregateAndFinish :: "hook_host \<Rightarrow> archive \<Rightarrow> run_result list \<Rightarrow> cycle_result hook_op" where
  "aggregateAndFinish h rec results =
    (case AggregateStatus results of
       HooksFailed \<Rightarrow> finishFailed h rec ''one or more hooks hard-failed'' results
     | HooksRetry \<Rightarrow> finishRetry h rec results
     | _ \<Rightarrow> finishSuccess h rec results)"

text \<open>The first discovered hook that security refuses, or the resolved hooks.\<close>

fun secure_hooks :: "hook_host \<Rightarrow> config \<Rightarrow> security_policy \<Rightarrow> world \<Rightarrow> discovered_hook list \<Rightarrow> (string \<times> security_error) + discovered_hook list" where
  "secure_hooks h cfg p w [] = Inr []"
| "secure_hooks h cfg p w (hk # hks) =
    (case ValidateHookSecurity h (dh_path hk) (c_hooks_dir cfg) p w of
       Inl e \<Rightarrow> Inl (dh_name hk, e)
     | Inr target_p \<Rightarrow>
        (case secure_hooks h cfg p w hks of
           Inl e \<Rightarrow> Inl e
         | Inr safe \<Rightarrow> Inr (\<lparr>dh_name = dh_name hk, dh_path = target_p\<rparr> # safe)))"

definition RunForArchive ::
  "hook_host \<Rightarrow> config \<Rightarrow> security_policy \<Rightarrow> nat list \<Rightarrow> string \<Rightarrow> bool \<Rightarrow> cycle_result hook_op" where
  "RunForArchive h cfg p sched aid force st =
    (case GetArchive (hs_store st) aid of
       None \<Rightarrow> (Inl (HookArchiveMissing aid), st)
     | Some rec \<Rightarrow>
        (if \<not> force \<and> \<not> ShouldRunHooks (a_hooks_status rec) (c_hook_rerun_on_failure cfg)
         then (Inr \<lparr>cr_archive_id = aid, cr_ran = False, cr_status = a_hooks_status rec, cr_results = [],
                 cr_skipped = ''hooks_status='' @ hooks_status_str (a_hooks_status rec) @ '' is terminal or not eligible''\<rparr>, st)
         else (case ValidateHooksDir h (c_hooks_dir cfg) p (hs_world st) of
            Some e \<Rightarrow> bindE (enterHooksRunning h rec []) (\<lambda>r. finishFailed h r (security_text e) []) st
          | None \<Rightarrow>
             (case secure_hooks h cfg p (hs_world st) (DiscoverHooks h (c_hooks_dir cfg) (hs_world st)) of
                Inl (name, e) \<Rightarrow>
                  bindE (enterHooksRunning h rec [])
                    (\<lambda>r. finishFailed h r (''hook security: '' @ security_text e)
                       [\<lparr>rr_hook = name, rr_status = HookFailed, rr_exit = None, rr_attempts = 0,
                         rr_error = security_text e, rr_timed_out = False\<rparr>]) st
              | Inr safe \<Rightarrow>
                 (if safe = [] then bindE (enterHooksRunning h rec []) (\<lambda>r. finishSuccess h r []) st
                  else bindE (enterHooksRunning h rec (map dh_name safe))
                    (\<lambda>r st1.
                       (let (results, st2) = (if c_hooks_parallel cfg then runParallel h cfg sched r safe st1
                                              else runSequential h cfg r False safe st1) in
                        aggregateAndFinish h r results st2)) st)))))"

end
