(* ===== verification/Reconcile.thy ===== *)
theory Reconcile
  imports StoreProps MountPolicy Clock
begin

text \<open>
  The reconciler of src/internal/reconcile: the per-archive decisions of decide.go (a running pass
  and the boot plan), their application of apply.go, and the passes of reconciler.go over the
  listed archives.  The probes are functions the caller may leave unset (\<open>None\<close>), with the
  defaults of probes.go; \<open>'x\<close> is the state of the engine the probes and callbacks reach.
\<close>

subsection \<open>Types\<close>

datatype action_kind = ActionOK | ActionFailIndex | ActionFailMount | ActionMarkAbsent
  | ActionCleanupIndex | ActionRequeue | ActionRequestRemount

record action =
  act_archive_id :: string
  act_kind :: action_kind
  act_reason :: string
  act_previous :: status
  act_target :: "status option"
  act_error :: "store_error option"

definition mk_action :: "archive \<Rightarrow> action_kind \<Rightarrow> string \<Rightarrow> status option \<Rightarrow> action" where
  "mk_action rec k reason target =
    \<lparr>act_archive_id = a_archive_id rec, act_kind = k, act_reason = reason,
     act_previous = a_status rec, act_target = target, act_error = None\<rparr>"

text \<open>\<open>set_timeout_text\<close> is the timeout as the failure text prints it.\<close>

record settings =
  set_mount_ready_timeout :: rat
  set_max_attempts :: int
  set_timeout_text :: string

definition normalize_settings :: "settings \<Rightarrow> settings" where
  "normalize_settings s =
    (let s1 = (if set_mount_ready_timeout s \<le> 0
               then s\<lparr>set_mount_ready_timeout := 86400, set_timeout_text := ''86400''\<rparr> else s) in
     if set_max_attempts s1 < 1 then s1\<lparr>set_max_attempts := 10\<rparr> else s1)"

datatype phase = PhaseIndexOnly | PhaseMount

record live_snapshot =
  ls_phase :: phase
  ls_exited :: bool
  ls_exit_code :: "int option"
  ls_mount_path :: path
  ls_index_path :: path
  ls_archive_path :: path
  ls_backend :: string

type_synonym 'x env = "'x \<times> world"

record 'x probes =
  pr_is_mount :: "('x env \<Rightarrow> path \<Rightarrow> bool) option"
  pr_pid_alive :: "('x env \<Rightarrow> int \<Rightarrow> bool) option"
  pr_path_exists :: "('x env \<Rightarrow> path \<Rightarrow> bool) option"
  pr_index_is_file :: "('x env \<Rightarrow> path \<Rightarrow> bool) option"
  pr_clock :: rat
  pr_live :: "('x env \<Rightarrow> string \<Rightarrow> live_snapshot option) option"
  pr_convert_active :: "('x env \<Rightarrow> string \<Rightarrow> bool) option"

definition pathIsRegularFile :: "'x env \<Rightarrow> path \<Rightarrow> bool" where
  "pathIsRegularFile e p = (if p = '''' then False else is_file (snd e) p)"

fun with_default :: "'a option \<Rightarrow> 'a \<Rightarrow> 'a" where
  "with_default None d = d"
| "with_default (Some f) d = f"

definition probe_is_mount :: "'x probes \<Rightarrow> 'x env \<Rightarrow> path \<Rightarrow> bool" where
  "probe_is_mount pr = with_default (pr_is_mount pr) (\<lambda>e p. False)"

definition probe_pid_alive :: "'x probes \<Rightarrow> 'x env \<Rightarrow> int \<Rightarrow> bool" where
  "probe_pid_alive pr = with_default (pr_pid_alive pr) (\<lambda>e pid. pid_alive (snd e) pid)"

definition probe_path_exists :: "'x probes \<Rightarrow> 'x env \<Rightarrow> path \<Rightarrow> bool" where
  "probe_path_exists pr = with_default (pr_path_exists pr) pathIsRegularFile"

definition probe_index_is_file :: "'x probes \<Rightarrow> 'x env \<Rightarrow> path \<Rightarrow> bool" where
  "probe_index_is_file pr = with_default (pr_index_is_file pr) pathIsRegularFile"

record 'x callbacks =
  cb_drop_live :: "(string \<Rightarrow> 'x env \<Rightarrow> 'x env) option"
  cb_unmount :: "(path \<Rightarrow> 'x env \<Rightarrow> 'x env) option"

subsection \<open>Decisions of a running pass\<close>

definition maybeCleanupIndex :: "'x probes \<Rightarrow> 'x env \<Rightarrow> archive \<Rightarrow> action option" where
  "maybeCleanupIndex pr e rec =
    (let indexPath = strPtr (a_index_path rec) in
     if \<not> ShouldDeletePartialIndex (a_status rec) (a_first_mounted_at rec) indexPath then None
     else if \<not> probe_index_is_file pr e indexPath then None
     else Some (mk_action rec ActionCleanupIndex ''partial index without successful mount'' None))"

definition failInProgress :: "archive \<Rightarrow> string \<Rightarrow> action" where
  "failInProgress rec reason =
    (if a_status rec = StatusIndexing then mk_action rec ActionFailIndex reason (Some StatusIndexFailed)
     else mk_action rec ActionFailMount reason (Some StatusMountFailed))"

text \<open>
  What a supervised child tells: nothing, that its process is gone, or that the engine will move
  the archive on by itself.
\<close>

datatype live_verdict = LiveSilent | LiveDead | LiveReady string

definition live_verdict :: "'x probes \<Rightarrow> 'x env \<Rightarrow> archive \<Rightarrow> live_verdict" where
  "live_verdict pr e rec =
    (case pr_live pr of
       None \<Rightarrow> LiveSilent
     | Some f \<Rightarrow>
         (case f e (a_archive_id rec) of
            None \<Rightarrow> LiveSilent
          | Some live \<Rightarrow>
              (if ls_exited live then
                 (if ls_phase live = PhaseIndexOnly
                     \<and> IndexBuildVerified (snd e) (ls_index_path live) (ls_archive_path live) (ls_exit_code live) (ls_backend live)
                  then LiveReady ''index build finished (mounter should start mount phase)''
                  else LiveDead)
               else if ls_phase live = PhaseMount \<and> ls_mount_path live \<noteq> ''''
                     \<and> probe_is_mount pr e (ls_mount_path live)
                     \<and> MountIndexRequirementMet (snd e) (ls_index_path live) (ls_archive_path live) (ls_backend live)
               then LiveReady ''process live and mount ready (mounter should promote)''
               else LiveSilent)))"

definition pid_dead :: "'x probes \<Rightarrow> 'x env \<Rightarrow> archive \<Rightarrow> bool" where
  "pid_dead pr e rec = (case a_mount_pid rec of None \<Rightarrow> False | Some pid \<Rightarrow> \<not> probe_pid_alive pr e pid)"

definition timed_out :: "settings \<Rightarrow> 'x probes \<Rightarrow> archive \<Rightarrow> bool" where
  "timed_out st pr rec =
    (case parseISOToEpoch (strPtr (a_index_started_at rec)) of
       None \<Rightarrow> False
     | Some started \<Rightarrow> pr_clock pr - started > set_mount_ready_timeout st)"

definition checkInProgress :: "settings \<Rightarrow> 'x probes \<Rightarrow> 'x env \<Rightarrow> archive \<Rightarrow> action" where
  "checkInProgress st pr e rec =
    (if a_status rec = StatusConverting then
       (if (case pr_convert_active pr of None \<Rightarrow> False | Some f \<Rightarrow> f e (a_archive_id rec))
        then mk_action rec ActionOK ''convert job still running'' None
        else mk_action rec ActionFailMount ''7z flatten interrupted'' (Some StatusMountFailed))
     else (case live_verdict pr e rec of
         LiveReady reason \<Rightarrow> mk_action rec ActionOK reason None
       | verdict \<Rightarrow>
           (if verdict = LiveDead \<or> pid_dead pr e rec
            then failInProgress rec ''ratarmount process dead before mount ready''
            else if timed_out st pr rec
            then failInProgress rec (''mount_ready timeout ('' @ set_timeout_text st @ ''s)'')
            else mk_action rec ActionOK ''in-progress index/mount still running'' None)))"

definition bool_text :: "bool \<Rightarrow> string" where
  "bool_text b = (if b then ''true'' else ''false'')"

definition mount_ok :: "'x probes \<Rightarrow> 'x env \<Rightarrow> archive \<Rightarrow> bool" where
  "mount_ok pr e rec \<longleftrightarrow> ptr_set (a_mount_path rec) \<and> probe_is_mount pr e (strPtr (a_mount_path rec))"

definition pid_ok :: "'x probes \<Rightarrow> 'x env \<Rightarrow> archive \<Rightarrow> bool" where
  "pid_ok pr e rec = (case a_mount_pid rec of None \<Rightarrow> False | Some pid \<Rightarrow> probe_pid_alive pr e pid)"

definition checkHealthyMount :: "'x probes \<Rightarrow> 'x env \<Rightarrow> archive \<Rightarrow> action" where
  "checkHealthyMount pr e rec =
    (let mountOK = mount_ok pr e rec; pidOK = pid_ok pr e rec in
     if mountOK \<and> pidOK then mk_action rec ActionOK ''mount healthy'' None
     else
      (let reason = ''mount unhealthy (ismount='' @ bool_text mountOK @ '', pid_alive='' @ bool_text pidOK @ '')'' in
       if \<not> probe_path_exists pr e (a_archive_path rec)
       then mk_action rec ActionMarkAbsent (reason @ '' and archive missing'') (Some StatusAbsent)
       else mk_action rec ActionFailMount reason (Some StatusMountFailed)))"

definition DecideOne :: "settings \<Rightarrow> 'x probes \<Rightarrow> 'x env \<Rightarrow> archive \<Rightarrow> action option" where
  "DecideOne st0 pr e rec =
    (let st = normalize_settings st0 in
     case a_status rec of
       StatusAbsent \<Rightarrow> None
     | StatusIndexing \<Rightarrow> Some (checkInProgress st pr e rec)
     | StatusMounting \<Rightarrow> Some (checkInProgress st pr e rec)
     | StatusConverting \<Rightarrow> Some (checkInProgress st pr e rec)
     | StatusMounted \<Rightarrow> Some (checkHealthyMount pr e rec)
     | StatusHooksRunning \<Rightarrow> Some (checkHealthyMount pr e rec)
     | StatusUnmounting \<Rightarrow>
         (if \<not> probe_path_exists pr e (a_archive_path rec)
          then Some (mk_action rec ActionMarkAbsent ''archive missing during unmount'' (Some StatusAbsent))
          else None)
     | StatusDiscovered \<Rightarrow> maybeCleanupIndex pr e rec
     | StatusIndexFailed \<Rightarrow> maybeCleanupIndex pr e rec
     | StatusMountFailed \<Rightarrow> maybeCleanupIndex pr e rec)"

subsection \<open>The boot plan\<close>

definition requeueTarget :: "archive \<Rightarrow> status" where
  "requeueTarget rec =
    (if a_status rec = StatusMounting then StatusMountFailed
     else if \<not> ptr_set (a_first_mounted_at rec) then StatusDiscovered
     else StatusMountFailed)"

definition PlanBoot :: "'x probes \<Rightarrow> 'x env \<Rightarrow> archive \<Rightarrow> action option" where
  "PlanBoot pr e rec =
    (let gone = \<not> probe_path_exists pr e (a_archive_path rec) in
     case a_status rec of
       StatusAbsent \<Rightarrow> None
     | StatusIndexing \<Rightarrow>
         Some (mk_action rec ActionRequeue ''boot: previous process died mid-index/mount'' (Some (requeueTarget rec)))
     | StatusMounting \<Rightarrow>
         Some (mk_action rec ActionRequeue ''boot: previous process died mid-index/mount'' (Some (requeueTarget rec)))
     | StatusUnmounting \<Rightarrow>
         (if gone then Some (mk_action rec ActionMarkAbsent ''boot: archive missing during unmount'' (Some StatusAbsent))
          else Some (mk_action rec ActionRequeue ''boot: interrupted unmount; re-queue'' (Some (requeueTarget rec))))
     | StatusConverting \<Rightarrow>
         (if gone then Some (mk_action rec ActionMarkAbsent ''boot: archive missing during convert'' (Some StatusAbsent))
          else Some (mk_action rec ActionRequeue ''boot: interrupted convert; re-queue'' (Some (requeueTarget rec))))
     | StatusMounted \<Rightarrow>
         (if gone then Some (mk_action rec ActionMarkAbsent ''boot: archive missing; was mounted'' (Some StatusAbsent))
          else Some (mk_action rec ActionRequestRemount ''boot: clear stale PID and request remount'' (Some StatusMountFailed)))
     | StatusHooksRunning \<Rightarrow>
         (if gone then Some (mk_action rec ActionMarkAbsent ''boot: archive missing; was mounted'' (Some StatusAbsent))
          else Some (mk_action rec ActionRequestRemount ''boot: clear stale PID and request remount'' (Some StatusMountFailed)))
     | StatusDiscovered \<Rightarrow>
         (if a_mount_pid rec \<noteq> None then Some (mk_action rec ActionRequeue ''boot: clear stale PID'' (Some (a_status rec))) else None)
     | StatusIndexFailed \<Rightarrow>
         (if a_mount_pid rec \<noteq> None then Some (mk_action rec ActionRequeue ''boot: clear stale PID'' (Some (a_status rec))) else None)
     | StatusMountFailed \<Rightarrow>
         (if a_mount_pid rec \<noteq> None then Some (mk_action rec ActionRequeue ''boot: clear stale PID'' (Some (a_status rec))) else None))"

subsection \<open>Applying an action\<close>

type_synonym 'x rstate = "store \<times> 'x env"

definition drop_live :: "'x callbacks \<Rightarrow> string \<Rightarrow> 'x env \<Rightarrow> 'x env" where
  "drop_live cb aid e = (case cb_drop_live cb of None \<Rightarrow> e | Some f \<Rightarrow> f aid e)"

definition unmount_cb :: "'x callbacks \<Rightarrow> path \<Rightarrow> 'x env \<Rightarrow> 'x env" where
  "unmount_cb cb p e = (case cb_unmount cb of None \<Rightarrow> e | Some f \<Rightarrow> f p e)"

definition note_error :: "(store_error + archive option) \<Rightarrow> action \<Rightarrow> action" where
  "note_error r a = (case r of Inl er \<Rightarrow> a\<lparr>act_error := Some er\<rparr> | Inr _ \<Rightarrow> a)"

definition applyCleanupIndex :: "string \<Rightarrow> archive \<Rightarrow> action \<Rightarrow> 'x rstate \<Rightarrow> action \<times> 'x rstate" where
  "applyCleanupIndex utc rec a st =
    (let (s, (x, w)) = st;
         (deleted, w') = ApplyPartialIndexCleanup (a_status rec) (a_first_mounted_at rec) (strPtr (a_index_path rec)) w in
     if deleted then
       (let (r, s') = Transition utc (a_archive_id rec) (a_status rec) (Expect [a_status rec])
                        (no_fields\<lparr>p_index_path := Some None\<rparr>) '''' s in
        (note_error r a, s', (x, w')))
     else (a, s, (x, w')))"

definition applyMarkAbsent :: "string \<Rightarrow> 'x callbacks \<Rightarrow> archive \<Rightarrow> action \<Rightarrow> 'x rstate \<Rightarrow> action \<times> 'x rstate" where
  "applyMarkAbsent utc cb rec a st =
    (let (s, e) = st;
         e1 = drop_live cb (a_archive_id rec) e;
         e2 = (if ptr_set (a_mount_path rec) then unmount_cb cb (strPtr (a_mount_path rec)) e1 else e1);
         (r, s') = MarkAbsent utc (a_archive_id rec) '''' (Some (act_reason a)) s in
     ((note_error r a)\<lparr>act_target := Some StatusAbsent\<rparr>, s', e2))"

definition fail_status :: "action \<Rightarrow> status" where
  "fail_status a = (if act_kind a = ActionFailIndex then StatusIndexFailed else StatusMountFailed)"

definition delete_partial :: "archive \<Rightarrow> action \<Rightarrow> bool" where
  "delete_partial rec a \<longleftrightarrow> act_kind a = ActionFailIndex \<or> \<not> ptr_set (a_first_mounted_at rec)"

definition fail_fields :: "settings \<Rightarrow> archive \<Rightarrow> action \<Rightarrow> patch" where
  "fail_fields st0 rec a =
    (let (attempts, retryable) = NextMountAttempt (a_mount_attempts rec) (set_max_attempts st0);
         fields = no_fields\<lparr>p_mount_pid := Some None, p_mount_attempts := Some attempts,
                    p_mount_retryable := Some retryable, p_last_error := Some (Some (act_reason a))\<rparr> in
     if delete_partial rec a then fields\<lparr>p_index_path := Some None\<rparr> else fields)"

definition applyFail ::
  "string \<Rightarrow> settings \<Rightarrow> 'x probes \<Rightarrow> 'x callbacks \<Rightarrow> archive \<Rightarrow> action \<Rightarrow> 'x rstate \<Rightarrow> action \<times> 'x rstate" where
  "applyFail utc st0 pr cb rec a st =
    (let (s, e) = st;
         e1 = drop_live cb (a_archive_id rec) e;
         e2 = (if ptr_set (a_mount_path rec) \<and> probe_is_mount pr e1 (strPtr (a_mount_path rec))
               then unmount_cb cb (strPtr (a_mount_path rec)) e1 else e1);
         w3 = (if delete_partial rec a \<and> a_index_path rec \<noteq> None
               then snd (DeleteIndexFile (strPtr (a_index_path rec)) (snd e2)) else snd e2);
         (r, s') = Transition utc (a_archive_id rec) (fail_status a) (Expect [a_status rec])
                     (fail_fields st0 rec a) '''' s in
     (note_error r (a\<lparr>act_target := Some (fail_status a)\<rparr>), s', (fst e2, w3)))"

definition requeue_fields :: "archive \<Rightarrow> patch" where
  "requeue_fields rec =
    (if a_status rec = StatusUnmounting \<or> a_status rec = StatusConverting
     then no_fields\<lparr>p_mount_pid := Some None, p_mount_retryable := Some True\<rparr>
     else no_fields\<lparr>p_mount_pid := Some None\<rparr>)"

definition applyRequeue :: "string \<Rightarrow> archive \<Rightarrow> action \<Rightarrow> 'x rstate \<Rightarrow> action \<times> 'x rstate" where
  "applyRequeue utc rec a st =
    (let (s, e) = st;
         target = (case act_target a of Some t \<Rightarrow> t | None \<Rightarrow> requeueTarget rec);
         (r, s') = Transition utc (a_archive_id rec) target (Expect [a_status rec]) (requeue_fields rec) '''' s in
     (note_error r (a\<lparr>act_target := Some target\<rparr>), s', e))"

definition applyRequestRemount :: "string \<Rightarrow> archive \<Rightarrow> action \<Rightarrow> 'x rstate \<Rightarrow> action \<times> 'x rstate" where
  "applyRequestRemount utc rec a st =
    (let (s, e) = st;
         (r, s') = Transition utc (a_archive_id rec) StatusMountFailed (Expect [a_status rec])
                     (no_fields\<lparr>p_mount_pid := Some None, p_mount_retryable := Some True\<rparr>) '''' s in
     ((note_error r a)\<lparr>act_target := Some StatusMountFailed\<rparr>, s', e))"

definition Apply ::
  "string \<Rightarrow> settings \<Rightarrow> 'x probes \<Rightarrow> 'x callbacks \<Rightarrow> archive \<Rightarrow> action \<Rightarrow> 'x rstate \<Rightarrow> action \<times> 'x rstate" where
  "Apply utc st0 pr cb rec a st =
    (case act_kind a of
       ActionOK \<Rightarrow> (a, st)
     | ActionCleanupIndex \<Rightarrow> applyCleanupIndex utc rec a st
     | ActionMarkAbsent \<Rightarrow> applyMarkAbsent utc cb rec a st
     | ActionFailIndex \<Rightarrow> applyFail utc (normalize_settings st0) pr cb rec a st
     | ActionFailMount \<Rightarrow> applyFail utc (normalize_settings st0) pr cb rec a st
     | ActionRequeue \<Rightarrow> applyRequeue utc rec a st
     | ActionRequestRemount \<Rightarrow> applyRequestRemount utc rec a st)"

subsection \<open>Passes\<close>

text \<open>One loop over the rows as they were listed: decide on the listed row, apply, collect.\<close>

fun pass ::
  "('x env \<Rightarrow> archive \<Rightarrow> action option) \<Rightarrow> (archive \<Rightarrow> action \<Rightarrow> 'x rstate \<Rightarrow> action \<times> 'x rstate)
    \<Rightarrow> archive list \<Rightarrow> 'x rstate \<Rightarrow> action list \<times> 'x rstate" where
  "pass decide act [] st = ([], st)"
| "pass decide act (rec # recs) st =
    (case decide (snd st) rec of
       None \<Rightarrow> pass decide act recs st
     | Some a \<Rightarrow>
         (let (a', st') = act rec a st; (as, st'') = pass decide act recs st' in (a' # as, st'')))"

definition all_archives :: "store \<Rightarrow> archive list" where
  "all_archives s = (case ListArchives s AnyStatus of Inr l \<Rightarrow> l | Inl _ \<Rightarrow> [])"

definition Reconcile ::
  "string \<Rightarrow> settings \<Rightarrow> 'x probes \<Rightarrow> 'x callbacks \<Rightarrow> 'x rstate \<Rightarrow> action list \<times> 'x rstate" where
  "Reconcile utc st0 pr cb st =
    pass (\<lambda>e rec. if a_status rec = StatusAbsent then None else DecideOne st0 pr e rec)
      (Apply utc st0 pr cb) (all_archives (fst st)) st"

definition PlanReconcile :: "settings \<Rightarrow> 'x probes \<Rightarrow> 'x rstate \<Rightarrow> action list" where
  "PlanReconcile st0 pr st =
    List.map_filter (\<lambda>rec. if a_status rec = StatusAbsent then None else DecideOne st0 pr (snd st) rec)
      (all_archives (fst st))"

definition Boot ::
  "string \<Rightarrow> settings \<Rightarrow> 'x probes \<Rightarrow> 'x callbacks \<Rightarrow> 'x rstate \<Rightarrow> action list \<times> 'x rstate" where
  "Boot utc st0 pr cb st = pass (PlanBoot pr) (Apply utc st0 pr cb) (all_archives (fst st)) st"

definition PlanBootPass :: "'x probes \<Rightarrow> 'x rstate \<Rightarrow> action list" where
  "PlanBootPass pr st = List.map_filter (PlanBoot pr (snd st)) (all_archives (fst st))"

fun cleanup_loop :: "string \<Rightarrow> archive list \<Rightarrow> nat \<Rightarrow> store \<times> world \<Rightarrow> (store_error option \<times> nat) \<times> store \<times> world" where
  "cleanup_loop utc [] n st = ((None, n), st)"
| "cleanup_loop utc (rec # recs) n (s, w) =
    (let indexPath = strPtr (a_index_path rec) in
     if \<not> ShouldDeletePartialIndex (a_status rec) (a_first_mounted_at rec) indexPath
     then cleanup_loop utc recs n (s, w)
     else (let (deleted, w') = DeleteIndexFile indexPath w in
       if \<not> deleted then cleanup_loop utc recs n (s, w')
       else (case Transition utc (a_archive_id rec) (a_status rec) (Expect [a_status rec])
                    (no_fields\<lparr>p_index_path := Some None\<rparr>) '''' s of
               (Inl er, s') \<Rightarrow> ((Some er, n + 1), s', w')
             | (Inr _, s') \<Rightarrow> cleanup_loop utc recs (n + 1) (s', w'))))"

definition CleanupPartialIndexes :: "string \<Rightarrow> store \<times> world \<Rightarrow> (store_error option \<times> nat) \<times> store \<times> world" where
  "CleanupPartialIndexes utc st = cleanup_loop utc (all_archives (fst st)) 0 st"

end
