(* ===== verification/ConfigLoad.thy ===== *)
theory ConfigLoad
  imports Config
begin

text \<open>
  Loading the configuration: FromMap of src/internal/config/load.go, which validates a parsed YAML
  mapping key by key and builds the Config, with its helpers, the enumerations of config.go, the
  defaults of defaults.go and the log level of logging.go.  FromMap is one long sequence of checks;
  it is cut here into stages in the order of the code, each of which writes the fields its checks
  produce, so that the first check that fails is the error returned.  Parsing the YAML text is a
  library and stays outside: a mapping is an association list of values.
\<close>

subsection \<open>Parsed values\<close>

text \<open>What yaml.v3 decodes into an any: a large integer arrives as uint64, a nested mapping or a
  timestamp only matters through its printed form.\<close>

datatype yval = YNull | YBool bool | YInt int | YUint nat | YFloat rat | YStr string | YList "yval list" | YOther string

type_synonym raw = "(string \<times> yval) list"

datatype load_error =
    UnknownKeys "string list" | UnsupportedVersion int | Expected string string
  | BelowMin string int int | AboveMax string int int | BelowSeconds string rat rat
  | NotOneOf string "string list" string | BadRegex string | BadItem string nat
  | DurationOf string config_error | BackendOf config_error | EmptyPathOf string | OnDrvFs string path

record full_config = config +
  c_version :: int
  c_state_db :: path
  c_use_inotify :: bool
  c_converter_required :: bool
  c_control_socket :: path
  c_pid_file :: path
  c_web_enabled :: bool
  c_web_host :: string
  c_web_port :: int
  c_web_token :: string
  c_log_level :: string
  c_strict :: bool
  c_config_path :: path
  c_unknown_keys :: "string list"

text \<open>What the environment answers: regexp.Compile, the home directory, the printed form of a
  float64 and of the shortest decimal of a duration.\<close>

record load_env =
  le_regex_ok :: "string \<Rightarrow> bool"
  le_home :: "string option"
  le_float :: "rat \<Rightarrow> string"
  le_shortest :: "rat \<Rightarrow> string"

definition andThen :: "'e + 'a \<Rightarrow> ('a \<Rightarrow> 'e + 'b) \<Rightarrow> 'e + 'b" where
  "andThen m f = (case m of Inl e \<Rightarrow> Inl e | Inr x \<Rightarrow> f x)"

definition demand :: "bool \<Rightarrow> 'e \<Rightarrow> 'e + unit" where
  "demand b e = (if b then Inr () else Inl e)"

subsection \<open>Helpers\<close>

definition raw_get :: "raw \<Rightarrow> string \<Rightarrow> yval option" where
  "raw_get raw k = map_of raw k"

definition hasKey :: "raw \<Rightarrow> string \<Rightarrow> bool" where
  "hasKey raw k \<longleftrightarrow> raw_get raw k \<noteq> None"

text \<open>A key that is missing or null reads as nil.\<close>

definition raw_nil :: "raw \<Rightarrow> string \<Rightarrow> bool" where
  "raw_nil raw k \<longleftrightarrow> raw_get raw k \<in> {None, Some YNull}"

text \<open>fmt.Sprint.\<close>

fun sprint :: "load_env \<Rightarrow> yval \<Rightarrow> string" where
  "sprint env YNull = ''<nil>''"
| "sprint env (YBool b) = (if b then ''true'' else ''false'')"
| "sprint env (YInt n) = itoa n"
| "sprint env (YUint n) = digits_of n"
| "sprint env (YFloat x) = le_float env x"
| "sprint env (YStr s) = s"
| "sprint env (YList vs) = ''['' @ join_with '' '' (map (sprint env) vs) @ '']''"
| "sprint env (YOther s) = s"

definition stringOrEmpty :: "load_env \<Rightarrow> raw \<Rightarrow> string \<Rightarrow> string" where
  "stringOrEmpty env raw k = (case raw_get raw k of None \<Rightarrow> '''' | Some YNull \<Rightarrow> '''' | Some v \<Rightarrow> sprint env v)"

definition requireBool :: "raw \<Rightarrow> string \<Rightarrow> bool \<Rightarrow> load_error + bool" where
  "requireBool raw k d = (case raw_get raw k of None \<Rightarrow> Inr d | Some (YBool b) \<Rightarrow> Inr b | Some _ \<Rightarrow> Inl (Expected k ''bool''))"

definition requireStr :: "raw \<Rightarrow> string \<Rightarrow> string \<Rightarrow> load_error + string" where
  "requireStr raw k d = (case raw_get raw k of None \<Rightarrow> Inr d | Some (YStr s) \<Rightarrow> Inr s | Some _ \<Rightarrow> Inl (Expected k ''string''))"

definition pathStr :: "raw \<Rightarrow> string \<Rightarrow> string \<Rightarrow> load_error + string" where
  "pathStr raw k d = requireStr raw k d"

definition asInt :: "yval \<Rightarrow> string \<Rightarrow> load_error + int" where
  "asInt v k = (case v of YInt n \<Rightarrow> Inr n | YUint n \<Rightarrow> Inr (wrap64 (int n)) | _ \<Rightarrow> Inl (Expected k ''integer''))"

definition requireInt :: "raw \<Rightarrow> string \<Rightarrow> int \<Rightarrow> int \<Rightarrow> load_error + int" where
  "requireInt raw k d minValue = (case raw_get raw k of None \<Rightarrow> Inr d
     | Some v \<Rightarrow> andThen (asInt v k) (\<lambda>n. if n < minValue then Inl (BelowMin k minValue n) else Inr n))"

definition at_most :: "string \<Rightarrow> int \<Rightarrow> int \<Rightarrow> load_error + unit" where
  "at_most k m n = demand (n \<le> m) (AboveMax k m n)"

definition requireWebPort :: "raw \<Rightarrow> load_error + int" where
  "requireWebPort raw = andThen (requireInt raw ''web_port'' 8788 1) (\<lambda>port.
     andThen (at_most ''web_port'' 65535 port) (\<lambda>_. Inr port))"

text \<open>The argument of ParseDuration for a parsed value.\<close>

definition as_duration :: "yval \<Rightarrow> duration_value" where
  "as_duration v = (case v of YBool b \<Rightarrow> DBool b | YInt n \<Rightarrow> DInt n | YUint n \<Rightarrow> DInt (int n)
     | YFloat x \<Rightarrow> DFloat x | YStr s \<Rightarrow> DString s | _ \<Rightarrow> DOther)"

definition duration_of :: "yval \<Rightarrow> string \<Rightarrow> load_error + rat" where
  "duration_of v k = (case ParseDuration (as_duration v) of Inl e \<Rightarrow> Inl (DurationOf k e) | Inr x \<Rightarrow> Inr x)"

definition requireFloatSeconds :: "raw \<Rightarrow> string \<Rightarrow> rat \<Rightarrow> rat \<Rightarrow> load_error + rat" where
  "requireFloatSeconds raw k d minValue = (case raw_get raw k of None \<Rightarrow> Inr d
     | Some v \<Rightarrow> andThen (duration_of v k) (\<lambda>s. if s < minValue then Inl (BelowSeconds k minValue s) else Inr s))"

fun string_items :: "string \<Rightarrow> bool \<Rightarrow> nat \<Rightarrow> yval list \<Rightarrow> load_error + string list" where
  "string_items k nonEmpty i [] = Inr []"
| "string_items k nonEmpty i (v # vs) =
    (case v of
       YStr s0 \<Rightarrow> (let s = (if nonEmpty then trim_space s0 else s0) in
          if nonEmpty \<and> s = '''' then Inl (BadItem k i)
          else andThen (string_items k nonEmpty (i + 1) vs) (\<lambda>r. Inr (s # r)))
     | _ \<Rightarrow> Inl (BadItem k i))"

definition asStringList :: "yval \<Rightarrow> string \<Rightarrow> bool \<Rightarrow> load_error + string list" where
  "asStringList v k nonEmpty = (case v of YList vs \<Rightarrow> string_items k nonEmpty 0 vs | _ \<Rightarrow> Inl (Expected k ''list of strings''))"

definition requireNonEmptyStringList :: "raw \<Rightarrow> string \<Rightarrow> bool \<Rightarrow> load_error + string list" where
  "requireNonEmptyStringList raw k nonEmpty =
    (case raw_get raw k of None \<Rightarrow> Inr [] | Some YNull \<Rightarrow> Inr [] | Some v \<Rightarrow> asStringList v k nonEmpty)"

definition requireStringList :: "raw \<Rightarrow> string \<Rightarrow> load_error + string list" where
  "requireStringList raw k = (case raw_get raw k of None \<Rightarrow> Inr [] | Some YNull \<Rightarrow> Inr [] | Some v \<Rightarrow> asStringList v k False)"

definition one_of :: "string \<Rightarrow> string list \<Rightarrow> string \<Rightarrow> load_error + unit" where
  "one_of k allowed v = demand (v \<in> set allowed) (NotOneOf k (sort allowed) v)"

subsection \<open>Enumerations, defaults and the log level\<close>

definition StableFileModes :: "string list" where
  "StableFileModes = [''two_scans'', ''min_age'', ''both'']"

definition OverlayCleanupModes :: "string list" where
  "OverlayCleanupModes = [''quarantine'', ''delete'', ''retain'']"

definition OnContentChangeModes :: "string list" where
  "OnContentChangeModes = [''remount_reset_hooks'', ''remount_keep_hooks'']"

definition HooksCwdModes :: "string list" where
  "HooksCwdModes = [''mount'', ''archive_dir'', ''hooks_dir'']"

definition LogLevels :: "string list" where
  "LogLevels = [''CRITICAL'', ''ERROR'', ''WARNING'', ''INFO'', ''DEBUG'']"

definition ArchiveconverterModes :: "string list" where
  "ArchiveconverterModes = [''convert'', ''convert-single'']"

definition ArchiveconverterBackends :: "string list" where
  "ArchiveconverterBackends = [''cli'', ''native'']"

definition Convert7zScopes :: "string list" where
  "Convert7zScopes = [''nested'', ''outer'', ''flatten'', ''all'']"

definition to_upper_char :: "char \<Rightarrow> char" where
  "to_upper_char c = (if 97 \<le> (of_char c :: nat) \<and> (of_char c :: nat) \<le> 122 then char_of ((of_char c :: nat) - 32) else c)"

definition to_upper :: "string \<Rightarrow> string" where
  "to_upper s = map to_upper_char s"

definition NormalizeLogLevel :: "string \<Rightarrow> string" where
  "NormalizeLogLevel nm =
    (let n0 = to_upper (trim_space nm); n = (if n0 = ''WARN'' then ''WARNING'' else n0) in
     if n \<in> set LogLevels then n else '''')"

text \<open>\<open>var\<close> is the environment variable MOUNT_WRAPPER_LOG_LEVEL.\<close>

definition EffectiveLogLevel :: "string \<Rightarrow> full_config \<Rightarrow> string" where
  "EffectiveLogLevel var cfg =
    (let env = trim_space var in
     if env \<noteq> '''' \<and> NormalizeLogLevel env \<noteq> '''' then NormalizeLogLevel env
     else if NormalizeLogLevel (c_log_level cfg) \<noteq> '''' then NormalizeLogLevel (c_log_level cfg)
     else ''INFO'')"

definition EnvLogLevelInvalid :: "string \<Rightarrow> bool" where
  "EnvLogLevelInvalid var = (let env = trim_space var in env \<noteq> '''' \<and> NormalizeLogLevel env = '''')"

definition DefaultNameRegex :: string where
  "DefaultNameRegex = ''.*'' @ [CHR 0x5C] @ ''.(tar('' @ [CHR 0x5C] @ ''.(gz|bz2|xz|zst))?|tgz|tbz2|txz|zip)$''"

definition DefaultRecursiveMountExtensions :: "string list" where
  "DefaultRecursiveMountExtensions = [''/archive'', ''/disk'', ''/compressed/-'', ''.raw/-'', ''.log.gz/-'']"

definition DefaultPaths :: "string \<Rightarrow> path" where
  "DefaultPaths k =
    (case map_of [(''mount_root'', ''/var/lib/mount-wrapper/mounts''), (''index_dir'', ''/var/lib/mount-wrapper/indexes''),
        (''overlay_dir'', ''/var/lib/mount-wrapper/overlays''), (''state_db'', ''/var/lib/mount-wrapper/state.db''),
        (''hooks_dir'', ''/etc/mount-wrapper/hooks.d''), (''ratarmount_bin'', ''ratarmount-rs''),
        (''control_socket'', ''/run/mount-wrapper/control.sock''), (''pid_file'', ''/run/mount-wrapper/mount-wrapper.pid''),
        (''archiveconverter_bin'', ''''), (''archiveconverter_output_dir'', ''/var/lib/mount-wrapper/converted'')] k of
       Some p \<Rightarrow> p | None \<Rightarrow> '''')"

definition DefaultArchiveconverterBin :: "load_env \<Rightarrow> path" where
  "DefaultArchiveconverterBin env =
    (case le_home env of None \<Rightarrow> ''archiveconverter''
     | Some h \<Rightarrow> if h = '''' then ''archiveconverter'' else path_join h ''.local/bin/archiveconverter'')"

subsection \<open>Known keys\<close>

definition directKeys :: "string list" where
  "directKeys = [''version'', ''source_dirs'', ''mount_root'', ''index_dir'', ''overlay_dir'', ''state_db'',
     ''archives_dir'', ''move_archives_to_linux'', ''archive_relocate_overhead_bytes'', ''name_regex'', ''recursive'',
     ''recursive_mount'', ''recursive_mount_extensions'', ''index_smallest_first'', ''poll_interval_seconds'',
     ''reconcile_interval_seconds'', ''use_inotify'', ''stable_file_mode'', ''min_file_age_seconds'',
     ''content_fingerprint'', ''on_content_change'', ''write_overlay'', ''windows_visible'', ''allow_indexes_on_drvfs'',
     ''overlay_cleanup'', ''quarantine_max_bytes'', ''min_free_bytes'', ''max_archive_bytes'', ''max_concurrent_index'',
     ''max_concurrent_convert'', ''max_concurrent_mount'', ''max_mount_attempts'', ''mount_ready_timeout_seconds'',
     ''unmount_timeout_seconds'', ''mount_backend'', ''ratarmount_bin'', ''ratarmount_index_workers'', ''ratarmount_debug'',
     ''ratarmount_7z_debug'', ''ratarmount_log_dir'', ''ratarmount_rust_log'', ''convert_7z_nonsolid'', ''convert_7z_scope'',
     ''convert_7z_bin'', ''convert_7z_cache_dir'', ''convert_7z_overhead_bytes'', ''convert_7z_flatten_extract_buffer_bytes'',
     ''convert_7z_inner_prefix_strip'', ''convert_7z_flatten_exclude'', ''convert_zip_to_7z'', ''extra_ratarmount_args'',
     ''archiveconverter_enabled'', ''archiveconverter_bin'', ''archiveconverter_output_dir'', ''archiveconverter_mode'',
     ''archiveconverter_backend'', ''archiveconverter_level'', ''archiveconverter_threads'', ''archiveconverter_verify'',
     ''archiveconverter_required'', ''archiveconverter_temp_dir'', ''archiveconverter_native_pipeline'',
     ''archiveconverter_native_codec'', ''archiveconverter_native_large_threshold'', ''archiveconverter_nested_concurrency'',
     ''archiveconverter_nested_size_budget'', ''archiveconverter_basename_match'', ''archiveconverter_exclude_inner'',
     ''archiveconverter_exclude_outer'', ''archiveconverter_rename'', ''archiveconverter_extra_args'',
     ''archiveconverter_overhead_bytes'', ''archiveconverter_timeout_seconds'', ''hooks_dir'', ''hooks_parallel'',
     ''hooks_stop_on_hard_fail'', ''hook_timeout_seconds'', ''hook_max_retries'', ''hook_rerun_on_failure'', ''hooks_cwd'',
     ''control_socket'', ''pid_file'', ''web_enabled'', ''web_host'', ''web_port'', ''web_token'', ''log_level'', ''strict_config'']"

definition durationKeys :: "(string \<times> string) list" where
  "durationKeys = [(''cleanup_after'', ''cleanup_after_seconds''), (''quarantine_retain_for'', ''quarantine_retain_for_seconds''),
     (''cleanup_after_seconds'', ''cleanup_after_seconds''), (''quarantine_retain_for_seconds'', ''quarantine_retain_for_seconds''),
     (''poll_interval_seconds'', ''poll_interval_seconds''), (''reconcile_interval_seconds'', ''reconcile_interval_seconds''),
     (''min_file_age_seconds'', ''min_file_age_seconds''), (''hook_timeout_seconds'', ''hook_timeout_seconds''),
     (''unmount_timeout_seconds'', ''unmount_timeout_seconds''), (''mount_ready_timeout_seconds'', ''mount_ready_timeout_seconds''),
     (''archiveconverter_timeout_seconds'', ''archiveconverter_timeout_seconds'')]"

definition knownYAMLKeys :: "string list" where
  "knownYAMLKeys = directKeys @ map fst durationKeys @ [''stage_archive_to'', ''stage_always'', ''stage_overhead_bytes'']"

subsection \<open>FromMap\<close>

text \<open>The zero Config, which the stages below fill.\<close>

definition zero_config :: full_config where
  "zero_config = \<lparr>
    c_converter_enabled = False, c_converter_bin = '''', c_converter_output_dir = '''', c_converter_mode = '''',
    c_converter_backend = '''', c_converter_level = 0, c_converter_threads = None, c_converter_verify = False,
    c_converter_temp_dir = '''', c_native_pipeline = '''', c_native_codec = '''', c_native_large_threshold = 0,
    c_nested_concurrency = None, c_nested_size_budget = '''', c_basename_match = False, c_exclude_inner = [],
    c_exclude_outer = [], c_rename = [], c_converter_extra_args = [], c_converter_overhead = 0, c_converter_timeout = 0,
    c_7z_nonsolid = False, c_7z_scope = '''', c_7z_bin = '''', c_7z_cache_dir = '''', c_7z_overhead = 0,
    c_7z_flatten_buffer = 0, c_7z_prefix_strip = '''', c_7z_flatten_exclude = [], c_zip_to_7z = False,
    c_source_dirs = [], c_mount_root = '''', c_index_dir = '''', c_overlay_dir = '''', c_archives_dir = '''',
    c_move_archives = False, c_relocate_overhead = 0, c_recursive = False, c_recursive_mount = False,
    c_recursive_exts = [], c_index_smallest_first = False, c_poll_interval = 0, c_reconcile_interval = 0,
    c_name_regex = '''', c_stable_file_mode = '''', c_min_file_age = 0, c_content_fingerprint = False,
    c_on_content_change = '''', c_write_overlay = False, c_windows_visible = False, c_allow_drvfs = False,
    c_cleanup_after = 0, c_overlay_cleanup = '''', c_quarantine_retain = 0, c_quarantine_max_bytes = 0,
    c_min_free_bytes = 0, c_max_archive_bytes = 0, c_max_concurrent_index = 0, c_max_concurrent_convert = 0,
    c_max_concurrent_mount = 0, c_max_mount_attempts = 0, c_mount_ready_timeout = 0, c_unmount_timeout = 0,
    c_mount_backend = '''', c_ratarmount_bin = '''', c_index_workers = 0, c_ratarmount_debug = 0,
    c_ratarmount_log_dir = '''', c_ratarmount_7z_debug = False, c_ratarmount_rust_log = '''', c_extra_args = [],
    c_hooks_dir = '''', c_hooks_parallel = False, c_hooks_stop_on_hard_fail = False, c_hook_timeout = 0,
    c_hook_max_retries = 0, c_hook_rerun_on_failure = False, c_hooks_cwd = '''',
    c_version = 0, c_state_db = '''', c_use_inotify = False, c_converter_required = False, c_control_socket = '''',
    c_pid_file = '''', c_web_enabled = False, c_web_host = '''', c_web_port = 0, c_web_token = '''', c_log_level = '''',
    c_strict = False, c_config_path = '''', c_unknown_keys = [] \<rparr>"

type_synonym stage = "full_config \<Rightarrow> load_error + full_config"

definition unknown_keys :: "raw \<Rightarrow> string list" where
  "unknown_keys raw = sort (filter (\<lambda>k. k \<notin> set knownYAMLKeys) (remdups (map fst raw)))"

definition load_head :: "raw \<Rightarrow> path \<Rightarrow> stage" where
  "load_head raw configPath c =
    andThen (requireBool raw ''strict_config'' False) (\<lambda>strict.
    andThen (demand (unknown_keys raw = [] \<or> \<not> strict) (UnknownKeys (unknown_keys raw))) (\<lambda>_.
    andThen (case raw_get raw ''version'' of None \<Rightarrow> Inr 1 | Some v \<Rightarrow> asInt v ''version'') (\<lambda>version.
    andThen (demand (version = 1) (UnsupportedVersion version)) (\<lambda>_.
      Inr (c\<lparr>c_strict := strict, c_unknown_keys := unknown_keys raw, c_version := version, c_config_path := configPath\<rparr>)))))"

definition load_modes :: "load_env \<Rightarrow> raw \<Rightarrow> stage" where
  "load_modes env raw c =
    andThen (requireNonEmptyStringList raw ''source_dirs'' True) (\<lambda>sourceDirs.
    andThen (requireStr raw ''name_regex'' DefaultNameRegex) (\<lambda>nameRegex.
    andThen (demand (le_regex_ok env nameRegex) (BadRegex nameRegex)) (\<lambda>_.
    andThen (requireStr raw ''stable_file_mode'' ''two_scans'') (\<lambda>stableFileMode.
    andThen (one_of ''stable_file_mode'' StableFileModes stableFileMode) (\<lambda>_.
    andThen (requireStr raw ''overlay_cleanup'' ''quarantine'') (\<lambda>overlayCleanup.
    andThen (one_of ''overlay_cleanup'' OverlayCleanupModes overlayCleanup) (\<lambda>_.
    andThen (requireStr raw ''on_content_change'' ''remount_reset_hooks'') (\<lambda>onContentChange.
    andThen (one_of ''on_content_change'' OnContentChangeModes onContentChange) (\<lambda>_.
    andThen (requireStr raw ''hooks_cwd'' ''mount'') (\<lambda>hooksCwd.
    andThen (one_of ''hooks_cwd'' HooksCwdModes hooksCwd) (\<lambda>_.
    andThen (requireStr raw ''log_level'' ''INFO'') (\<lambda>logLevel.
    andThen (one_of ''log_level'' LogLevels (to_upper logLevel)) (\<lambda>_.
    andThen (requireStringList raw ''extra_ratarmount_args'') (\<lambda>extraArgs.
      Inr (c\<lparr>c_source_dirs := sourceDirs, c_name_regex := nameRegex, c_stable_file_mode := stableFileMode,
             c_overlay_cleanup := overlayCleanup, c_on_content_change := onContentChange, c_hooks_cwd := hooksCwd,
             c_log_level := to_upper logLevel, c_extra_args := extraArgs\<rparr>)))))))))))))))"

text \<open>A thread count of 0 is left to the tool.\<close>

definition load_threads :: "raw \<Rightarrow> load_error + int option" where
  "load_threads raw =
    (if raw_nil raw ''archiveconverter_threads'' then Inr None
     else andThen (requireInt raw ''archiveconverter_threads'' 0 0) (\<lambda>t. Inr (if t \<noteq> 0 then Some t else None)))"

definition load_nested_concurrency :: "raw \<Rightarrow> load_error + int option" where
  "load_nested_concurrency raw =
    (if raw_nil raw ''archiveconverter_nested_concurrency'' then Inr None
     else andThen (requireInt raw ''archiveconverter_nested_concurrency'' 0 0) (\<lambda>n. Inr (Some n)))"

definition load_nested_budget :: "load_env \<Rightarrow> raw \<Rightarrow> string" where
  "load_nested_budget env raw =
    (let s = trim_space (stringOrEmpty env raw ''archiveconverter_nested_size_budget'') in if s = ''<nil>'' then '''' else s)"

definition load_converter :: "load_env \<Rightarrow> raw \<Rightarrow> stage" where
  "load_converter env raw c =
    andThen (requireStringList raw ''archiveconverter_exclude_inner'') (\<lambda>inner.
    andThen (requireStringList raw ''archiveconverter_exclude_outer'') (\<lambda>outer.
    andThen (requireStringList raw ''archiveconverter_rename'') (\<lambda>renames.
    andThen (requireStringList raw ''archiveconverter_extra_args'') (\<lambda>extra.
    andThen (requireStr raw ''archiveconverter_mode'' ''convert'') (\<lambda>mode.
    andThen (one_of ''archiveconverter_mode'' ArchiveconverterModes (to_lower (trim_space mode))) (\<lambda>_.
    andThen (requireStr raw ''archiveconverter_backend'' ''native'') (\<lambda>backend.
    andThen (one_of ''archiveconverter_backend'' ArchiveconverterBackends (to_lower (trim_space backend))) (\<lambda>_.
    andThen (requireInt raw ''archiveconverter_level'' 5 0) (\<lambda>level.
    andThen (at_most ''archiveconverter_level'' 9 level) (\<lambda>_.
    andThen (load_threads raw) (\<lambda>threads.
    andThen (requireFloatSeconds raw ''archiveconverter_timeout_seconds'' 0 0) (\<lambda>timeout.
    andThen (requireInt raw ''archiveconverter_overhead_bytes'' 67108864 0) (\<lambda>overhead.
    andThen (requireInt raw ''archiveconverter_native_large_threshold'' 0 0) (\<lambda>large.
    andThen (load_nested_concurrency raw) (\<lambda>nested.
      Inr (c\<lparr>c_exclude_inner := inner, c_exclude_outer := outer, c_rename := renames, c_converter_extra_args := extra,
             c_converter_mode := to_lower (trim_space mode), c_converter_backend := to_lower (trim_space backend),
             c_converter_level := level, c_converter_threads := threads, c_converter_timeout := timeout,
             c_converter_overhead := overhead, c_native_large_threshold := large,
             c_nested_size_budget := load_nested_budget env raw, c_nested_concurrency := nested\<rparr>))))))))))))))))"

text \<open>A duration with a human key, preferred, and its alias in seconds.\<close>

definition dual_duration :: "raw \<Rightarrow> string \<Rightarrow> string \<Rightarrow> rat \<Rightarrow> load_error + rat" where
  "dual_duration raw k alias d =
    (case raw_get raw k of Some v \<Rightarrow> duration_of v k
     | None \<Rightarrow> (case raw_get raw alias of Some v \<Rightarrow> duration_of v alias | None \<Rightarrow> Inr d))"

definition load_durations :: "raw \<Rightarrow> stage" where
  "load_durations raw c =
    andThen (if raw_nil raw ''recursive_mount_extensions'' then Inr DefaultRecursiveMountExtensions
             else requireStringList raw ''recursive_mount_extensions'') (\<lambda>exts.
    andThen (dual_duration raw ''cleanup_after'' ''cleanup_after_seconds'' (24 * 3600)) (\<lambda>cleanup.
    andThen (dual_duration raw ''quarantine_retain_for'' ''quarantine_retain_for_seconds'' (168 * 3600)) (\<lambda>retain.
    andThen (requireFloatSeconds raw ''poll_interval_seconds'' 60 1) (\<lambda>poll.
    andThen (requireFloatSeconds raw ''reconcile_interval_seconds'' 30 1) (\<lambda>reconcile.
    andThen (requireFloatSeconds raw ''min_file_age_seconds'' 30 0) (\<lambda>age.
    andThen (requireFloatSeconds raw ''hook_timeout_seconds'' 3600 1) (\<lambda>hook.
    andThen (requireFloatSeconds raw ''unmount_timeout_seconds'' 60 1) (\<lambda>unmount.
    andThen (requireFloatSeconds raw ''mount_ready_timeout_seconds'' 86400 1) (\<lambda>rdy.
      Inr (c\<lparr>c_recursive_exts := exts, c_cleanup_after := cleanup, c_quarantine_retain := retain, c_poll_interval := poll,
             c_reconcile_interval := reconcile, c_min_file_age := age, c_hook_timeout := hook,
             c_unmount_timeout := unmount, c_mount_ready_timeout := rdy\<rparr>))))))))))"

definition load_limits :: "load_env \<Rightarrow> raw \<Rightarrow> stage" where
  "load_limits env raw c =
    andThen (requireInt raw ''max_concurrent_index'' 1 1) (\<lambda>index.
    andThen (requireInt raw ''max_concurrent_convert'' 1 1) (\<lambda>convert.
    andThen (requireInt raw ''max_concurrent_mount'' 0 0) (\<lambda>mount.
    andThen (requireInt raw ''max_mount_attempts'' 10 1) (\<lambda>attempts.
    andThen (requireInt raw ''ratarmount_index_workers'' 0 0) (\<lambda>workers.
    andThen (requireInt raw ''ratarmount_debug'' 0 0) (\<lambda>dbg.
    andThen (at_most ''ratarmount_debug'' 3 dbg) (\<lambda>_.
    andThen (requireBool raw ''ratarmount_7z_debug'' False) (\<lambda>dbg7z.
      Inr (c\<lparr>c_max_concurrent_index := index, c_max_concurrent_convert := convert, c_max_concurrent_mount := mount,
             c_max_mount_attempts := attempts, c_index_workers := workers, c_ratarmount_debug := dbg,
             c_ratarmount_7z_debug := dbg7z, c_ratarmount_log_dir := trim_space (stringOrEmpty env raw ''ratarmount_log_dir''),
             c_ratarmount_rust_log := trim_space (stringOrEmpty env raw ''ratarmount_rust_log'')\<rparr>)))))))))"

definition load_7z :: "load_env \<Rightarrow> raw \<Rightarrow> stage" where
  "load_7z env raw c =
    andThen (requireBool raw ''convert_7z_nonsolid'' False) (\<lambda>nonsolid.
    andThen (requireStr raw ''convert_7z_scope'' ''nested'') (\<lambda>scope.
    andThen (one_of ''convert_7z_scope'' Convert7zScopes (to_lower (trim_space scope))) (\<lambda>_.
    andThen (requireStr raw ''convert_7z_bin'' ''7z'') (\<lambda>bin.
    andThen (requireInt raw ''convert_7z_overhead_bytes'' 67108864 0) (\<lambda>overhead.
    andThen (requireInt raw ''convert_7z_flatten_extract_buffer_bytes'' 10737418240 0) (\<lambda>buf.
    andThen (requireStr raw ''convert_7z_inner_prefix_strip'' '''') (\<lambda>prefix.
    andThen (requireNonEmptyStringList raw ''convert_7z_flatten_exclude'' False) (\<lambda>excl.
    andThen (requireBool raw ''convert_zip_to_7z'' True) (\<lambda>zip7z.
      Inr (c\<lparr>c_7z_nonsolid := nonsolid, c_7z_scope := to_lower (trim_space scope),
             c_7z_bin := (if trim_space bin = '''' then ''7z'' else trim_space bin),
             c_7z_cache_dir := trim_space (stringOrEmpty env raw ''convert_7z_cache_dir''), c_7z_overhead := overhead,
             c_7z_flatten_buffer := buf, c_7z_prefix_strip := trim_space prefix, c_7z_flatten_exclude := excl,
             c_zip_to_7z := zip7z\<rparr>))))))))))"

definition load_sizes :: "raw \<Rightarrow> stage" where
  "load_sizes raw c =
    andThen (requireInt raw ''hook_max_retries'' 3 0) (\<lambda>retries.
    andThen (requireInt raw ''quarantine_max_bytes'' 0 0) (\<lambda>quarantine.
    andThen (requireInt raw ''min_free_bytes'' 2147483648 0) (\<lambda>minfree.
    andThen (requireInt raw ''max_archive_bytes'' 0 0) (\<lambda>maxarchive.
    andThen (requireInt raw ''stage_overhead_bytes'' 67108864 0) (\<lambda>stage.
    andThen (requireInt raw ''archive_relocate_overhead_bytes'' stage 0) (\<lambda>relocate.
      Inr (c\<lparr>c_hook_max_retries := retries, c_quarantine_max_bytes := quarantine, c_min_free_bytes := minfree,
             c_max_archive_bytes := maxarchive, c_relocate_overhead := relocate\<rparr>)))))))"

definition requirePath :: "raw \<Rightarrow> string \<Rightarrow> load_error + path" where
  "requirePath raw k = andThen (pathStr raw k (DefaultPaths k)) (\<lambda>p. andThen (demand (p \<noteq> '''') (EmptyPathOf k)) (\<lambda>_. Inr p))"

definition load_paths :: "load_env \<Rightarrow> raw \<Rightarrow> stage" where
  "load_paths env raw c =
    andThen (requireStr raw ''mount_backend'' ''rust'') (\<lambda>backend0.
    andThen (case NormalizeMountBackend backend0 of Inl e \<Rightarrow> Inl (BackendOf e) | Inr b \<Rightarrow> Inr b) (\<lambda>backend.
    andThen (requirePath raw ''mount_root'') (\<lambda>mountRoot.
    andThen (requirePath raw ''index_dir'') (\<lambda>indexDir.
    andThen (requirePath raw ''overlay_dir'') (\<lambda>overlayDir.
    andThen (requirePath raw ''state_db'') (\<lambda>stateDB.
    andThen (requirePath raw ''hooks_dir'') (\<lambda>hooksDir.
    andThen (requirePath raw ''control_socket'') (\<lambda>controlSocket.
    andThen (requirePath raw ''pid_file'') (\<lambda>pidFile.
    andThen (if hasKey raw ''ratarmount_bin''
             then andThen (pathStr raw ''ratarmount_bin'' (DefaultRatarmountBin backend)) (\<lambda>p.
                    andThen (demand (p \<noteq> '''') (EmptyPathOf ''ratarmount_bin'')) (\<lambda>_. Inr p))
             else Inr (DefaultRatarmountBin backend)) (\<lambda>bin.
    andThen (pathStr raw ''archiveconverter_bin'' (DefaultArchiveconverterBin env)) (\<lambda>acBin.
    andThen (requirePath raw ''archiveconverter_output_dir'') (\<lambda>acOut.
    andThen (if hasKey raw ''move_archives_to_linux'' then requireBool raw ''move_archives_to_linux'' False
             else requireBool raw ''stage_always'' False) (\<lambda>move.
      Inr (c\<lparr>c_mount_backend := backend, c_mount_root := mountRoot, c_index_dir := indexDir, c_overlay_dir := overlayDir,
             c_state_db := stateDB, c_hooks_dir := hooksDir, c_control_socket := controlSocket, c_pid_file := pidFile,
             c_ratarmount_bin := bin, c_converter_bin := acBin, c_converter_output_dir := acOut,
             c_converter_temp_dir := trim_space (stringOrEmpty env raw ''archiveconverter_temp_dir''),
             c_archives_dir := (let a = trim_space (stringOrEmpty env raw ''archives_dir'') in
                if a = '''' then trim_space (stringOrEmpty env raw ''stage_archive_to'') else a),
             c_move_archives := move\<rparr>))))))))))))))"

text \<open>Engine paths on a Windows drive are refused unless allowed.\<close>

definition load_drvfs :: "raw \<Rightarrow> stage" where
  "load_drvfs raw c =
    andThen (requireBool raw ''allow_indexes_on_drvfs'' False) (\<lambda>allow.
    (let ok = (\<lambda>k p. demand (allow \<or> \<not> IsDrvFsPath p) (OnDrvFs k p)) in
     andThen (ok ''mount_root'' (c_mount_root c)) (\<lambda>_.
     andThen (ok ''index_dir'' (c_index_dir c)) (\<lambda>_.
     andThen (ok ''overlay_dir'' (c_overlay_dir c)) (\<lambda>_.
     andThen (ok ''state_db'' (c_state_db c)) (\<lambda>_.
     andThen (demand (allow \<or> c_archives_dir c = '''' \<or> \<not> IsDrvFsPath (c_archives_dir c)) (OnDrvFs ''archives_dir'' (c_archives_dir c))) (\<lambda>_.
     andThen (ok ''archiveconverter_output_dir'' (c_converter_output_dir c)) (\<lambda>_.
       Inr (c\<lparr>c_allow_drvfs := allow\<rparr>)))))))))"

definition load_flags :: "raw \<Rightarrow> stage" where
  "load_flags raw c =
    andThen (requireBool raw ''recursive'' False) (\<lambda>recursive.
    andThen (requireBool raw ''recursive_mount'' True) (\<lambda>recursiveMount.
    andThen (requireBool raw ''index_smallest_first'' True) (\<lambda>smallest.
    andThen (requireBool raw ''use_inotify'' True) (\<lambda>inotify.
    andThen (requireBool raw ''content_fingerprint'' True) (\<lambda>fingerprint.
    andThen (requireBool raw ''write_overlay'' True) (\<lambda>overlay.
    andThen (requireBool raw ''windows_visible'' True) (\<lambda>windows.
    andThen (requireBool raw ''archiveconverter_enabled'' False) (\<lambda>enabled.
    andThen (requireBool raw ''archiveconverter_verify'' False) (\<lambda>verify.
    andThen (requireBool raw ''archiveconverter_required'' False) (\<lambda>required.
    andThen (requireStr raw ''archiveconverter_native_pipeline'' ''parallel'') (\<lambda>pipeline.
    andThen (requireStr raw ''archiveconverter_native_codec'' ''liblzma'') (\<lambda>codec.
    andThen (requireBool raw ''archiveconverter_basename_match'' False) (\<lambda>basename.
      Inr (c\<lparr>c_recursive := recursive, c_recursive_mount := recursiveMount, c_index_smallest_first := smallest,
             c_use_inotify := inotify, c_content_fingerprint := fingerprint, c_write_overlay := overlay,
             c_windows_visible := windows, c_converter_enabled := enabled, c_converter_verify := verify,
             c_converter_required := required, c_native_pipeline := pipeline, c_native_codec := codec,
             c_basename_match := basename\<rparr>))))))))))))))"

definition load_web :: "raw \<Rightarrow> stage" where
  "load_web raw c =
    andThen (requireBool raw ''hooks_parallel'' False) (\<lambda>parallel.
    andThen (requireBool raw ''hooks_stop_on_hard_fail'' True) (\<lambda>stop.
    andThen (requireBool raw ''hook_rerun_on_failure'' False) (\<lambda>rerun.
    andThen (requireBool raw ''web_enabled'' False) (\<lambda>web.
    andThen (requireStr raw ''web_host'' ''127.0.0.1'') (\<lambda>webHost.
    andThen (requireWebPort raw) (\<lambda>webPort.
    andThen (requireStr raw ''web_token'' '''') (\<lambda>webToken.
      Inr (c\<lparr>c_hooks_parallel := parallel, c_hooks_stop_on_hard_fail := stop, c_hook_rerun_on_failure := rerun,
             c_web_enabled := web, c_web_host := webHost, c_web_port := webPort, c_web_token := webToken\<rparr>))))))))"

definition FromMap :: "load_env \<Rightarrow> raw \<Rightarrow> path \<Rightarrow> load_error + full_config" where
  "FromMap env raw configPath =
    andThen (load_head raw configPath zero_config) (\<lambda>c.
    andThen (load_modes env raw c) (\<lambda>c.
    andThen (load_converter env raw c) (\<lambda>c.
    andThen (load_durations raw c) (\<lambda>c.
    andThen (load_limits env raw c) (\<lambda>c.
    andThen (load_7z env raw c) (\<lambda>c.
    andThen (load_sizes raw c) (\<lambda>c.
    andThen (load_paths env raw c) (\<lambda>c.
    andThen (load_drvfs raw c) (\<lambda>c.
    andThen (load_flags raw c) (load_web raw))))))))))"

end
