(* ===== verification/ConfigPublic.thy ===== *)
theory ConfigPublic
  imports ConfigLoad
begin

text \<open>
  Publishing and updating the configuration: ToPublicMap, the key classes and Snapshot of
  src/internal/config/public.go, and the patch, comparison, atomic write and update of io.go.
  YAML output is a library: the text of a mapping is a parameter.
\<close>

subsection \<open>The public mapping\<close>

text \<open>A float that is an integer is published as one.\<close>

definition num :: "rat \<Rightarrow> yval" where
  "num x = (if is_whole x \<and> - (2 ^ 63) \<le> x \<and> x < 2 ^ 63 then YInt \<lfloor>x\<rfloor> else YFloat x)"

definition ystrs :: "string list \<Rightarrow> yval" where
  "ystrs ss = YList (map YStr ss)"

definition yint_option :: "int option \<Rightarrow> yval" where
  "yint_option n = (case n of None \<Rightarrow> YNull | Some i \<Rightarrow> YInt i)"

definition public_paths :: "full_config \<Rightarrow> raw" where
  "public_paths c =
    [(''version'', YInt (c_version c)), (''source_dirs'', ystrs (c_source_dirs c)), (''mount_root'', YStr (c_mount_root c)),
     (''index_dir'', YStr (c_index_dir c)), (''overlay_dir'', YStr (c_overlay_dir c)), (''state_db'', YStr (c_state_db c)),
     (''archives_dir'', YStr (c_archives_dir c)), (''move_archives_to_linux'', YBool (c_move_archives c)),
     (''archive_relocate_overhead_bytes'', YInt (c_relocate_overhead c)), (''name_regex'', YStr (c_name_regex c)),
     (''recursive'', YBool (c_recursive c)), (''recursive_mount'', YBool (c_recursive_mount c)),
     (''recursive_mount_extensions'', ystrs (c_recursive_exts c)), (''index_smallest_first'', YBool (c_index_smallest_first c)),
     (''poll_interval_seconds'', num (c_poll_interval c)), (''reconcile_interval_seconds'', num (c_reconcile_interval c)),
     (''use_inotify'', YBool (c_use_inotify c)), (''stable_file_mode'', YStr (c_stable_file_mode c)),
     (''min_file_age_seconds'', num (c_min_file_age c)), (''content_fingerprint'', YBool (c_content_fingerprint c)),
     (''on_content_change'', YStr (c_on_content_change c)), (''write_overlay'', YBool (c_write_overlay c)),
     (''windows_visible'', YBool (c_windows_visible c)), (''allow_indexes_on_drvfs'', YBool (c_allow_drvfs c))]"

definition public_limits :: "load_env \<Rightarrow> full_config \<Rightarrow> raw" where
  "public_limits env c =
    [(''cleanup_after'', YStr (FormatDuration (le_shortest env) (c_cleanup_after c))), (''overlay_cleanup'', YStr (c_overlay_cleanup c)),
     (''quarantine_retain_for'', YStr (FormatDuration (le_shortest env) (c_quarantine_retain c))),
     (''quarantine_max_bytes'', YInt (c_quarantine_max_bytes c)), (''min_free_bytes'', YInt (c_min_free_bytes c)),
     (''max_archive_bytes'', YInt (c_max_archive_bytes c)), (''max_concurrent_index'', YInt (c_max_concurrent_index c)),
     (''max_concurrent_convert'', YInt (c_max_concurrent_convert c)), (''max_concurrent_mount'', YInt (c_max_concurrent_mount c)),
     (''max_mount_attempts'', YInt (c_max_mount_attempts c)), (''mount_ready_timeout_seconds'', num (c_mount_ready_timeout c)),
     (''unmount_timeout_seconds'', num (c_unmount_timeout c)), (''mount_backend'', YStr (c_mount_backend c)),
     (''ratarmount_bin'', YStr (c_ratarmount_bin c)), (''ratarmount_index_workers'', YInt (c_index_workers c)),
     (''ratarmount_debug'', YInt (c_ratarmount_debug c)), (''ratarmount_7z_debug'', YBool (c_ratarmount_7z_debug c)),
     (''ratarmount_log_dir'', YStr (c_ratarmount_log_dir c)), (''ratarmount_rust_log'', YStr (c_ratarmount_rust_log c)),
     (''convert_7z_nonsolid'', YBool (c_7z_nonsolid c)), (''convert_7z_scope'', YStr (c_7z_scope c)),
     (''convert_7z_bin'', YStr (c_7z_bin c)), (''convert_7z_cache_dir'', YStr (c_7z_cache_dir c)),
     (''convert_7z_overhead_bytes'', YInt (c_7z_overhead c)), (''convert_7z_flatten_extract_buffer_bytes'', YInt (c_7z_flatten_buffer c)),
     (''convert_7z_inner_prefix_strip'', YStr (c_7z_prefix_strip c)), (''convert_7z_flatten_exclude'', ystrs (c_7z_flatten_exclude c)),
     (''convert_zip_to_7z'', YBool (c_zip_to_7z c)), (''extra_ratarmount_args'', ystrs (c_extra_args c))]"

definition public_converter :: "full_config \<Rightarrow> raw" where
  "public_converter c =
    [(''archiveconverter_enabled'', YBool (c_converter_enabled c)), (''archiveconverter_bin'', YStr (c_converter_bin c)),
     (''archiveconverter_output_dir'', YStr (c_converter_output_dir c)), (''archiveconverter_mode'', YStr (c_converter_mode c)),
     (''archiveconverter_backend'', YStr (c_converter_backend c)), (''archiveconverter_level'', YInt (c_converter_level c)),
     (''archiveconverter_threads'', yint_option (c_converter_threads c)), (''archiveconverter_verify'', YBool (c_converter_verify c)),
     (''archiveconverter_required'', YBool (c_converter_required c)), (''archiveconverter_temp_dir'', YStr (c_converter_temp_dir c)),
     (''archiveconverter_native_pipeline'', YStr (c_native_pipeline c)), (''archiveconverter_native_codec'', YStr (c_native_codec c)),
     (''archiveconverter_native_large_threshold'', YInt (c_native_large_threshold c)),
     (''archiveconverter_nested_concurrency'', yint_option (c_nested_concurrency c)),
     (''archiveconverter_nested_size_budget'', YStr (c_nested_size_budget c)), (''archiveconverter_basename_match'', YBool (c_basename_match c)),
     (''archiveconverter_exclude_inner'', ystrs (c_exclude_inner c)), (''archiveconverter_exclude_outer'', ystrs (c_exclude_outer c)),
     (''archiveconverter_rename'', ystrs (c_rename c)), (''archiveconverter_extra_args'', ystrs (c_converter_extra_args c)),
     (''archiveconverter_overhead_bytes'', YInt (c_converter_overhead c)), (''archiveconverter_timeout_seconds'', num (c_converter_timeout c))]"

definition public_service :: "full_config \<Rightarrow> raw" where
  "public_service c =
    [(''hooks_dir'', YStr (c_hooks_dir c)), (''hooks_parallel'', YBool (c_hooks_parallel c)),
     (''hooks_stop_on_hard_fail'', YBool (c_hooks_stop_on_hard_fail c)), (''hook_timeout_seconds'', num (c_hook_timeout c)),
     (''hook_max_retries'', YInt (c_hook_max_retries c)), (''hook_rerun_on_failure'', YBool (c_hook_rerun_on_failure c)),
     (''hooks_cwd'', YStr (c_hooks_cwd c)), (''control_socket'', YStr (c_control_socket c)), (''pid_file'', YStr (c_pid_file c)),
     (''web_enabled'', YBool (c_web_enabled c)), (''web_host'', YStr (c_web_host c)), (''web_port'', YInt (c_web_port c)),
     (''web_token'', YStr (c_web_token c)), (''log_level'', YStr (c_log_level c)), (''strict_config'', YBool (c_strict c))]"

definition ToPublicMap :: "load_env \<Rightarrow> full_config \<Rightarrow> raw" where
  "ToPublicMap env c = public_paths c @ public_limits env c @ public_converter c @ public_service c"

definition PublicKeys :: "load_env \<Rightarrow> string list" where
  "PublicKeys env = sort (map fst (ToPublicMap env zero_config))"

definition RestartRequiredKeys :: "string list" where
  "RestartRequiredKeys = [''mount_root'', ''index_dir'', ''overlay_dir'', ''state_db'', ''hooks_dir'', ''control_socket'', ''pid_file'',
     ''windows_visible'', ''mount_backend'', ''ratarmount_bin'', ''allow_indexes_on_drvfs'', ''archiveconverter_bin'',
     ''archiveconverter_output_dir'', ''web_host'', ''web_port'', ''web_enabled'', ''web_token'']"

definition HotReloadKeys :: "string list" where
  "HotReloadKeys = [''log_level'', ''poll_interval_seconds'', ''reconcile_interval_seconds'', ''name_regex'', ''recursive'', ''use_inotify'',
     ''stable_file_mode'', ''min_file_age_seconds'', ''content_fingerprint'', ''on_content_change'', ''max_concurrent_index'',
     ''max_concurrent_convert'', ''max_concurrent_mount'', ''max_mount_attempts'', ''max_archive_bytes'', ''hook_timeout_seconds'',
     ''hook_max_retries'', ''hook_rerun_on_failure'', ''hooks_parallel'', ''hooks_stop_on_hard_fail'', ''hooks_cwd'', ''cleanup_after'',
     ''cleanup_after_seconds'', ''overlay_cleanup'', ''quarantine_retain_for'', ''quarantine_retain_for_seconds'', ''quarantine_max_bytes'',
     ''min_free_bytes'', ''unmount_timeout_seconds'', ''mount_ready_timeout_seconds'', ''source_dirs'', ''extra_ratarmount_args'',
     ''ratarmount_index_workers'', ''ratarmount_debug'', ''ratarmount_7z_debug'', ''ratarmount_log_dir'', ''ratarmount_rust_log'',
     ''convert_7z_nonsolid'', ''convert_7z_scope'', ''convert_7z_bin'', ''convert_7z_cache_dir'', ''convert_7z_overhead_bytes'',
     ''convert_7z_flatten_extract_buffer_bytes'', ''convert_7z_inner_prefix_strip'', ''convert_7z_flatten_exclude'', ''convert_zip_to_7z'',
     ''recursive_mount'', ''recursive_mount_extensions'', ''index_smallest_first'', ''archives_dir'', ''move_archives_to_linux'',
     ''archive_relocate_overhead_bytes'', ''write_overlay'', ''strict_config'', ''archiveconverter_enabled'', ''archiveconverter_mode'',
     ''archiveconverter_backend'', ''archiveconverter_level'', ''archiveconverter_threads'', ''archiveconverter_verify'',
     ''archiveconverter_required'', ''archiveconverter_temp_dir'', ''archiveconverter_native_pipeline'', ''archiveconverter_native_codec'',
     ''archiveconverter_native_large_threshold'', ''archiveconverter_nested_concurrency'', ''archiveconverter_nested_size_budget'',
     ''archiveconverter_basename_match'', ''archiveconverter_exclude_inner'', ''archiveconverter_exclude_outer'', ''archiveconverter_rename'',
     ''archiveconverter_extra_args'', ''archiveconverter_overhead_bytes'', ''archiveconverter_timeout_seconds'']"

record snapshot =
  sn_config :: raw
  sn_path :: "path option"
  sn_hot :: "string list"
  sn_restart :: "string list"
  sn_unknown :: "string list"

definition Snapshot :: "load_env \<Rightarrow> full_config \<Rightarrow> snapshot" where
  "Snapshot env c = \<lparr>sn_config = ToPublicMap env c, sn_path = (if c_config_path c = '''' then None else Some (c_config_path c)),
     sn_hot = sort HotReloadKeys, sn_restart = sort RestartRequiredKeys, sn_unknown = c_unknown_keys c\<rparr>"

subsection \<open>Comparing two configurations\<close>

fun bit_len :: "nat \<Rightarrow> nat" where
  "bit_len n = (if n = 0 then 0 else Suc (bit_len (n div 2)))"

declare bit_len.simps [simp del]

text \<open>The int64-to-float64 conversion: exact up to 53 bits, then to the nearest, ties to even.\<close>

definition float64_of_int :: "int \<Rightarrow> int" where
  "float64_of_int n =
    (let m = nat \<bar>n\<bar>; k = bit_len m - 53; q = m div 2 ^ k; r = m mod 2 ^ k;
         up = (2 * r > 2 ^ k \<or> (2 * r = 2 ^ k \<and> odd q)) in
     if k = 0 then n else sgn n * int ((if up then q + 1 else q) * 2 ^ k))"

fun normalizeForCompare :: "yval \<Rightarrow> yval" where
  "normalizeForCompare (YInt n) = YFloat (of_int (float64_of_int n))"
| "normalizeForCompare (YUint n) = YFloat (of_int (float64_of_int (int n)))"
| "normalizeForCompare (YList vs) = YList (map normalizeForCompare vs)"
| "normalizeForCompare v = v"

text \<open>A missing key reads as nil.\<close>

definition publicEqual :: "yval option \<Rightarrow> yval option \<Rightarrow> bool" where
  "publicEqual a b \<longleftrightarrow> (case a of None \<Rightarrow> YNull | Some v \<Rightarrow> normalizeForCompare v) = (case b of None \<Rightarrow> YNull | Some v \<Rightarrow> normalizeForCompare v)"

text \<open>The changed keys, those a reload applies and those that need a restart.\<close>

definition ClassifyChanges :: "load_env \<Rightarrow> full_config \<Rightarrow> full_config \<Rightarrow> string list \<times> string list \<times> string list" where
  "ClassifyChanges env old new =
    (let oldD = ToPublicMap env old; newD = ToPublicMap env new;
         changed = filter (\<lambda>k. \<not> publicEqual (raw_get oldD k) (raw_get newD k)) (sort (remdups (map fst oldD @ map fst newD))) in
     (changed, filter (\<lambda>k. k \<notin> set RestartRequiredKeys) changed, filter (\<lambda>k. k \<in> set RestartRequiredKeys) changed))"

subsection \<open>Writing\<close>

type_synonym config_files = "path \<Rightarrow> string option"

datatype write_error = EmptyWritePath | ParentDir | Marshal | TempFile | WriteTemp | SyncTemp | CloseTemp | RenameTemp

text \<open>The answers of the file system while the file is replaced: the temporary file CreateTemp made,
  and what WriteString left in it when it failed.\<close>

record write_host =
  wh_mkdir :: bool
  wh_tmp :: "path option"
  wh_partial :: "string option"
  wh_sync :: bool
  wh_close :: bool
  wh_rename :: bool
  wh_remove :: bool

definition ToYAML :: "(raw \<Rightarrow> string option) \<Rightarrow> load_env \<Rightarrow> full_config \<Rightarrow> string option" where
  "ToYAML dump env c = dump (ToPublicMap env c)"

definition with_newline :: "string \<Rightarrow> string" where
  "with_newline txt = (if txt = '''' \<or> last txt \<noteq> CHR 0x0A then txt @ [CHR 0x0A] else txt)"

definition drop_temp :: "write_host \<Rightarrow> path \<Rightarrow> config_files \<Rightarrow> config_files" where
  "drop_temp wh tmp fs = (if wh_remove wh then fs(tmp := None) else fs)"

definition WriteFile ::
  "write_host \<Rightarrow> (raw \<Rightarrow> string option) \<Rightarrow> load_env \<Rightarrow> path \<Rightarrow> full_config \<Rightarrow> bool \<Rightarrow> config_files \<Rightarrow> write_error option \<times> config_files" where
  "WriteFile wh dump env path cfg createParents fs =
    (if path = '''' then (Some EmptyWritePath, fs)
     else if createParents \<and> \<not> wh_mkdir wh then (Some ParentDir, fs)
     else (case ToYAML dump env cfg of
        None \<Rightarrow> (Some Marshal, fs)
      | Some text0 \<Rightarrow> (let txt = with_newline text0 in
          case wh_tmp wh of
            None \<Rightarrow> (Some TempFile, fs)
          | Some tmp \<Rightarrow>
             (case wh_partial wh of
                Some written \<Rightarrow> (Some WriteTemp, drop_temp wh tmp (fs(tmp := Some written)))
              | None \<Rightarrow> (let fs1 = fs(tmp := Some txt) in
                  if \<not> wh_sync wh then (Some SyncTemp, drop_temp wh tmp fs1)
                  else if \<not> wh_close wh then (Some CloseTemp, drop_temp wh tmp fs1)
                  else if \<not> wh_rename wh then (Some RenameTemp, drop_temp wh tmp fs1)
                  else (None, fs1(tmp := None, path := Some txt)))))))"

subsection \<open>Updating\<close>

definition MergePatch :: "raw \<Rightarrow> raw \<Rightarrow> raw" where
  "MergePatch base patch = patch @ filter (\<lambda>e. fst e \<notin> fst ` set patch) base"

datatype update_error = FullAndPatch | NoUpdate | NoConfigPath | InvalidUpdate load_error | Unwritten write_error

record update_result =
  ur_apply :: bool
  ur_changed :: "string list"
  ur_hot :: "string list"
  ur_restart :: "string list"
  ur_config :: raw
  ur_path :: "path option"
  ur_written :: bool
  ur_reload_recommended :: "bool option"

definition update_path :: "full_config \<Rightarrow> path \<Rightarrow> path" where
  "update_path current configPath = (if configPath = '''' then c_config_path current else configPath)"

text \<open>The mapping to validate: the full one, or the patch over the public form, with a version.\<close>

definition update_raw :: "load_env \<Rightarrow> full_config \<Rightarrow> raw option \<Rightarrow> raw option \<Rightarrow> raw" where
  "update_raw env current patch full =
    (let raw = (case full of Some f \<Rightarrow> f | None \<Rightarrow> MergePatch (ToPublicMap env current) (case patch of Some p \<Rightarrow> p | None \<Rightarrow> [])) in
     if hasKey raw ''version'' then raw else (''version'', YInt (c_version current)) # raw)"

definition ApplyUpdate ::
  "load_env \<Rightarrow> (raw \<Rightarrow> string option) \<Rightarrow> write_host \<Rightarrow> full_config \<Rightarrow> raw option \<Rightarrow> raw option \<Rightarrow> bool \<Rightarrow> path \<Rightarrow> config_files
    \<Rightarrow> (update_error + update_result) \<times> config_files" where
  "ApplyUpdate env dump wh current patch full apply configPath fs =
    (let path = update_path current configPath in
     if full \<noteq> None \<and> patch \<noteq> None then (Inl FullAndPatch, fs)
     else if full = None \<and> patch = None then (Inl NoUpdate, fs)
     else if apply \<and> path = '''' then (Inl NoConfigPath, fs)
     else (case FromMap env (update_raw env current patch full) path of
        Inl e \<Rightarrow> (Inl (InvalidUpdate e), fs)
      | Inr newCfg \<Rightarrow>
         (let (changed, hot, restart) = ClassifyChanges env current newCfg;
              r = \<lparr>ur_apply = apply, ur_changed = changed, ur_hot = hot, ur_restart = restart, ur_config = ToPublicMap env newCfg,
                   ur_path = (if path = '''' then None else Some path), ur_written = False, ur_reload_recommended = None\<rparr> in
          if \<not> apply then (Inr r, fs)
          else (case FromMap env (ToPublicMap env newCfg) path of
             Inl e \<Rightarrow> (Inl (InvalidUpdate e), fs)
           | Inr written \<Rightarrow>
              (case WriteFile wh dump env path written True fs of
                 (Some e, fs1) \<Rightarrow> (Inl (Unwritten e), fs1)
               | (None, fs1) \<Rightarrow>
                   (Inr (r\<lparr>ur_written := True, ur_config := ToPublicMap env written,
                           ur_reload_recommended := Some (hot \<noteq> [] \<or> changed \<noteq> [])\<rparr>), fs1))))))"

end
