(* ===== verification/Service.thy ===== *)
theory Service
  imports Cleaner Hooks Reconcile ConfigPublic
begin

text \<open>
  The service of src/internal/service: the state Service keeps, one Tick (tick.go), start and
  shutdown (service.go) and the requests of the control plane (control_ops.go).  Every operation
  runs under opMu, so each is one atomic step on the state \<open>service\<close>, which holds the state of
  all components: the engine with the store and the files inside \<open>sv_clean\<close>, the scanner, the
  settings of the reconciler, the config file.  \<open>service_host\<close> holds what the operating system
  answers during one step.  Logging, the HTTP server and the signal handler are left out; the
  handler only calls \<open>Stop\<close> and \<open>RequestReload\<close>.
\<close>

subsection \<open>State\<close>

record service =
  sv_cfg :: full_config
  sv_clean :: cleaner_state
  sv_scanner :: scanner
  sv_settings :: settings
  sv_files :: config_files
  sv_stop :: bool
  sv_reload :: bool
  sv_rescan :: bool
  sv_assume :: bool
  sv_last_scan :: rat
  sv_last_reconcile :: rat
  sv_last_cleanup :: rat
  sv_scan_result :: "scan_result option"
  sv_scan_iso :: string
  sv_cleanup_result :: "clean_result option"
  sv_low_disk :: bool
  sv_started :: bool
  sv_changed :: bool
  sv_pid_held :: bool
  sv_control :: bool
  sv_watch :: "path list option"

text \<open>
  \<open>sh_parse\<close> is the YAML decoder followed by the test that the root is a mapping; \<open>sh_watch\<close>
  answers which of the directories inotify could watch, None when the watcher closed itself.
\<close>

record service_host =
  sh_now :: rat
  sh_engine :: host
  sh_cleaner :: cleaner_host
  sh_hooks :: hook_host
  sh_policy :: security_policy
  sh_sched :: "nat list"
  sh_disk :: "world \<Rightarrow> disk"
  sh_ids :: "nat \<Rightarrow> string"
  sh_load_env :: load_env
  sh_dump :: "raw \<Rightarrow> string option"
  sh_parse :: "string \<Rightarrow> raw option"
  sh_write :: write_host
  sh_compile :: "string \<Rightarrow> matcher option"
  sh_dflt :: string
  sh_wslpath :: "string \<Rightarrow> string option"
  sh_watch :: "path list \<Rightarrow> path list option"
  sh_uuid :: string

abbreviation sv_eng :: "service \<Rightarrow> engine" where
  "sv_eng sv \<equiv> cl_eng (sv_clean sv)"

abbreviation sv_store :: "service \<Rightarrow> store" where
  "sv_store sv \<equiv> en_store (sv_eng sv)"

definition sv_base :: "service \<Rightarrow> config" where
  "sv_base sv = config.truncate (sv_cfg sv)"

definition with_eng :: "engine \<Rightarrow> service \<Rightarrow> service" where
  "with_eng e sv = sv\<lparr>sv_clean := (sv_clean sv)\<lparr>cl_eng := e\<rparr>\<rparr>"

definition with_store :: "store \<Rightarrow> service \<Rightarrow> service" where
  "with_store s sv = with_eng ((sv_eng sv)\<lparr>en_store := s\<rparr>) sv"

definition sh_utc :: "service_host \<Rightarrow> string" where
  "sh_utc h = h_utc (sh_engine h)"

definition sh_cwd :: "service_host \<Rightarrow> path" where
  "sh_cwd h = tl_cwd (h_tools (sh_engine h))"

subsection \<open>Flags\<close>

definition Stop :: "service \<Rightarrow> service" where
  "Stop sv = sv\<lparr>sv_stop := True\<rparr>"

definition RequestRescan :: "bool \<Rightarrow> service \<Rightarrow> service" where
  "RequestRescan assumeStable sv = sv\<lparr>sv_rescan := True, sv_assume := assumeStable\<rparr>"

definition RequestReload :: "service \<Rightarrow> service" where
  "RequestReload sv = sv\<lparr>sv_reload := True\<rparr>"

text \<open>The channel of size one holds a token or not.\<close>

definition NotifyChange :: "service \<Rightarrow> service" where
  "NotifyChange sv = sv\<lparr>sv_changed := True\<rparr>"

subsection \<open>Reload\<close>

definition syncInotify :: "service_host \<Rightarrow> service \<Rightarrow> service" where
  "syncInotify h sv =
    sv\<lparr>sv_watch := (if \<not> c_use_inotify (sv_cfg sv) then None else sh_watch h (map snd (sc_mapped (sv_scanner sv))))\<rparr>"

text \<open>The pointer to the configuration is shared by scanner, engine, hooks and cleaner.\<close>

definition applyReloadedConfig :: "service_host \<Rightarrow> full_config \<Rightarrow> service \<Rightarrow> service" where
  "applyReloadedConfig h cfg sv =
    (let sc = snd (ReloadSources (sh_compile h) (sh_dflt h) (sh_wslpath h) (config.truncate cfg) (sv_scanner sv)) in
     syncInotify h (sv\<lparr>sv_cfg := cfg, sv_scanner := sc,
       sv_settings := (sv_settings sv)\<lparr>set_mount_ready_timeout := c_mount_ready_timeout cfg, set_max_attempts := c_max_mount_attempts cfg\<rparr>\<rparr>))"

datatype reload_error = CannotRead path | InvalidYAML path | InvalidConfig load_error

definition config_Load :: "service_host \<Rightarrow> path \<Rightarrow> config_files \<Rightarrow> reload_error + full_config" where
  "config_Load h p fs =
    (case fs p of
       None \<Rightarrow> Inl (CannotRead p)
     | Some txt \<Rightarrow>
        (case sh_parse h txt of
           None \<Rightarrow> Inl (InvalidYAML p)
         | Some m \<Rightarrow> (case FromMap (sh_load_env h) m p of Inl e \<Rightarrow> Inl (InvalidConfig e) | Inr cfg \<Rightarrow> Inr cfg)))"

definition doReload :: "service_host \<Rightarrow> service \<Rightarrow> service" where
  "doReload h sv =
    (let path = c_config_path (sv_cfg sv) in
     if path = '''' then applyReloadedConfig h (sv_cfg sv) sv
     else (case config_Load h path (sv_files sv) of
             Inl _ \<Rightarrow> sv
           | Inr newCfg \<Rightarrow> applyReloadedConfig h newCfg sv))"

subsection \<open>Passes\<close>

definition doScan :: "service_host \<Rightarrow> bool \<Rightarrow> service \<Rightarrow> scan_result \<times> service" where
  "doScan h assumeStable sv =
    (let s1 = snd (ResetAllPresentAttempts (sh_utc h) '''' (sv_store sv));
         (r, sc, s2) = Scan (sh_cwd h) (sv_base sv) (h_sha (sh_engine h)) (sh_disk h (en_world (sv_eng sv))) (sh_now h)
                         (sh_utc h) (sh_ids h) assumeStable (sv_scanner sv, s1) in
     (r, (with_store s2 sv)\<lparr>sv_scanner := sc, sv_scan_iso := sh_utc h\<rparr>))"

text \<open>
  The probes New leaves in place: WithProbes replaces the ones WithRegistry had set, so Live and
  ConvertActive are nil; DropLive is a callback and stays.
\<close>

definition service_probes :: "service_host \<Rightarrow> engine probes" where
  "service_probes h =
    \<lparr>pr_is_mount = Some (\<lambda>x p. is_mount (snd x) p), pr_pid_alive = Some (\<lambda>x pid. pid_alive (snd x) pid),
     pr_path_exists = None, pr_index_is_file = None, pr_clock = sh_now h, pr_live = None, pr_convert_active = None\<rparr>"

definition service_callbacks :: "engine callbacks" where
  "service_callbacks = \<lparr>cb_drop_live = Some (\<lambda>aid x. (dropLive aid (fst x), snd x)), cb_unmount = None\<rparr>"

definition to_rstate :: "engine \<Rightarrow> engine rstate" where
  "to_rstate e = (en_store e, e, en_world e)"

definition of_rstate :: "engine rstate \<Rightarrow> engine" where
  "of_rstate st = on_world (\<lambda>_. snd (snd st)) ((fst (snd st))\<lparr>en_store := fst st\<rparr>)"

definition doReconcile :: "service_host \<Rightarrow> service \<Rightarrow> action list \<times> service" where
  "doReconcile h sv =
    (let (acts, st) = Reconcile (sh_utc h) (sv_settings sv) (service_probes h) service_callbacks (to_rstate (sv_eng sv)) in
     (filter (\<lambda>a. act_kind a \<noteq> ActionOK) acts, with_eng (of_rstate st) sv))"

definition doCleanup :: "service_host \<Rightarrow> service \<Rightarrow> clean_result \<times> service" where
  "doCleanup h sv =
    (let (r, st) = Cleaner_Run (sh_cleaner h) (sv_base sv) (Some (engine_unmounter (sh_engine h))) (sv_clean sv) in
     (r, sv\<lparr>sv_clean := st, sv_low_disk := cn_low_disk r, sv_cleanup_result := Some r\<rparr>))"

subsection \<open>Work\<close>

text \<open>sort.SliceStable with the comparison of the three fields in turn.\<close>

definition index_before :: "archive \<Rightarrow> archive \<Rightarrow> bool" where
  "index_before r1 r2 \<longleftrightarrow>
    (if a_size_bytes r1 \<noteq> a_size_bytes r2 then a_size_bytes r1 < a_size_bytes r2
     else if a_archive_basename r1 \<noteq> a_archive_basename r2 then a_archive_basename r1 < a_archive_basename r2
     else a_archive_id r1 < a_archive_id r2)"

fun insert_stable :: "archive \<Rightarrow> archive list \<Rightarrow> archive list" where
  "insert_stable r [] = [r]"
| "insert_stable r (x # xs) = (if index_before x r then x # insert_stable r xs else r # x # xs)"

definition SortArchivesForIndex :: "archive list \<Rightarrow> bool \<Rightarrow> archive list" where
  "SortArchivesForIndex records smallestFirst = (if \<not> smallestFirst then records else foldr insert_stable records [])"

definition countStatus :: "status list \<Rightarrow> engine \<Rightarrow> int" where
  "countStatus sts e = sum_list (map (\<lambda>st. int (length (rows_with st e))) sts)"

definition fileExists :: "engine \<Rightarrow> path \<Rightarrow> bool" where
  "fileExists e p = is_file (en_world e) p"

definition wants_convert :: "host \<Rightarrow> config \<Rightarrow> engine \<Rightarrow> archive \<Rightarrow> bool" where
  "wants_convert h cfg e rec = ShouldPreconvert (convert_env_of h e) cfg (en_world e) (a_archive_path rec)"

definition stuck_retryable :: "engine \<Rightarrow> archive \<Rightarrow> bool" where
  "stuck_retryable e rec \<longleftrightarrow>
    \<not> HasConvertJob (a_archive_id rec) e \<and> live_get (a_archive_id rec) e = None
    \<and> \<not> (case a_mount_pid rec of None \<Rightarrow> False | Some p \<Rightarrow> pid_alive (en_world e) p)
    \<and> fileExists e (a_archive_path rec) \<and> a_mount_retryable rec"

definition retry_stuck_one :: "host \<Rightarrow> config \<Rightarrow> archive \<Rightarrow> engine \<Rightarrow> engine" where
  "retry_stuck_one h cfg rec e =
    (if stuck_retryable e rec then snd (BeginMount h cfg rec (Some (a_first_mounted_at rec = None)) e) else e)"

definition retryStuckIndexWork :: "host \<Rightarrow> config \<Rightarrow> engine \<Rightarrow> engine" where
  "retryStuckIndexWork h cfg e =
    (let e1 = fold (retry_stuck_one h cfg) (rows_with StatusIndexing e) e in
     fold (retry_stuck_one h cfg) (rows_with StatusMounting e1) e1)"

text \<open>The counters of startPendingWork, kept beside the engine: indexing, mounting, converting.\<close>

type_synonym counters = "int \<times> int \<times> int"

definition index_candidate :: "host \<Rightarrow> config \<Rightarrow> (engine \<Rightarrow> archive \<Rightarrow> bool) \<Rightarrow> int \<Rightarrow> engine \<Rightarrow> archive \<Rightarrow> bool" where
  "index_candidate h cfg steady converting e rec \<longleftrightarrow>
    \<not> HasConvertJob (a_archive_id rec) e \<and> steady e rec \<and> fileExists e (a_archive_path rec) \<and> a_mount_retryable rec
    \<and> \<not> (wants_convert h cfg e rec \<and> converting \<ge> c_max_concurrent_convert cfg)"

fun index_loop :: "host \<Rightarrow> config \<Rightarrow> (engine \<Rightarrow> archive \<Rightarrow> bool) \<Rightarrow> archive list \<Rightarrow> counters \<Rightarrow> engine \<Rightarrow> counters \<times> engine" where
  "index_loop h cfg steady [] c e = (c, e)"
| "index_loop h cfg steady (rec # recs) (i, m, v) e =
    (if i \<ge> c_max_concurrent_index cfg then ((i, m, v), e)
     else if \<not> index_candidate h cfg steady v e rec then index_loop h cfg steady recs (i, m, v) e
     else (case BeginMount h cfg rec (Some True) e of
             (Inl _, e1) \<Rightarrow> index_loop h cfg steady recs (i, m, v) e1
           | (Inr None, e1) \<Rightarrow>
               index_loop h cfg steady recs (i, m, if HasConvertJob (a_archive_id rec) e1 then v + 1 else v) e1
           | (Inr (Some _), e1) \<Rightarrow> index_loop h cfg steady recs (i + 1, m, v) e1))"

definition remount_candidate :: "host \<Rightarrow> config \<Rightarrow> int \<Rightarrow> engine \<Rightarrow> archive \<Rightarrow> bool" where
  "remount_candidate h cfg converting e rec \<longleftrightarrow>
    a_mount_retryable rec \<and> fileExists e (a_archive_path rec) \<and> \<not> HasConvertJob (a_archive_id rec) e
    \<and> \<not> (wants_convert h cfg e rec \<and> converting \<ge> c_max_concurrent_convert cfg)"

fun remount_loop :: "host \<Rightarrow> config \<Rightarrow> archive list \<Rightarrow> counters \<Rightarrow> engine \<Rightarrow> counters \<times> engine" where
  "remount_loop h cfg [] c e = (c, e)"
| "remount_loop h cfg (rec # recs) (i, m, v) e =
    (if \<not> remount_candidate h cfg v e rec then remount_loop h cfg recs (i, m, v) e
     else
      (let needsIndex = NeedsFreshIndex (en_world e) (strPtr (a_index_path rec)) in
       if needsIndex \<and> i \<ge> c_max_concurrent_index cfg then ((i, m, v), e)
       else if \<not> needsIndex \<and> LimitReached m (c_max_concurrent_mount cfg) then ((i, m, v), e)
       else (case BeginMount h cfg rec (Some False) e of
               (Inl _, e1) \<Rightarrow> remount_loop h cfg recs (i, m, v) e1
             | (Inr None, e1) \<Rightarrow>
                 remount_loop h cfg recs (i, m, if HasConvertJob (a_archive_id rec) e1 then v + 1 else v) e1
             | (Inr (Some _), e1) \<Rightarrow>
                 remount_loop h cfg recs (if needsIndex then (i + 1, m, v) else (i, m + 1, v)) e1)))"

text \<open>The counters are taken before the stuck rows are retried, as the code takes them.\<close>

definition startPendingWork :: "service_host \<Rightarrow> service \<Rightarrow> service" where
  "startPendingWork sh sv =
    (let h = sh_engine sh; cfg = sv_base sv; e0 = sv_eng sv;
         indexingSlots = (if sv_low_disk sv then 0 else c_max_concurrent_index cfg);
         i0 = ActiveIndexCount e0; m0 = ActiveMountCount e0; v0 = countStatus [StatusConverting] e0;
         e1 = retryStuckIndexWork h cfg e0;
         steady = (\<lambda>e rec. IsStable (sh_cwd sh) cfg (sh_disk sh (en_world e)) (sh_now sh) (sv_scanner sv) (a_archive_path rec));
         (c, e2) = (if i0 < indexingSlots
                    then index_loop h cfg steady (SortArchivesForIndex (rows_with StatusDiscovered e1) (c_index_smallest_first cfg)) (i0, m0, v0) e1
                    else ((i0, m0, v0), e1));
         (_, e3) = remount_loop h cfg (rows_with StatusMountFailed e2) c e2 in
     with_eng e3 sv)"

definition engineWorkActive :: "engine \<Rightarrow> bool" where
  "engineWorkActive e \<longleftrightarrow> en_live e \<noteq> [] \<or> ConvertJobCount e > 0"

subsection \<open>Hooks\<close>

definition on_hooks :: "'a hook_op \<Rightarrow> engine \<Rightarrow> (hook_error + 'a) \<times> engine" where
  "on_hooks m e =
    (let (r, st) = m \<lparr>hs_store = en_store e, hs_world = en_world e\<rparr> in
     (r, on_world (\<lambda>_. hs_world st) (e\<lparr>en_store := hs_store st\<rparr>)))"

definition run_hooks :: "service_host \<Rightarrow> config \<Rightarrow> string \<Rightarrow> bool \<Rightarrow> engine \<Rightarrow> (hook_error + cycle_result) \<times> engine" where
  "run_hooks sh cfg aid force e = on_hooks (RunForArchive (sh_hooks sh) cfg (sh_policy sh) (sh_sched sh) aid force) e"

fun hooks_loop :: "service_host \<Rightarrow> config \<Rightarrow> archive list \<Rightarrow> engine \<Rightarrow> bool \<times> engine" where
  "hooks_loop sh cfg [] e = (False, e)"
| "hooks_loop sh cfg (rec # recs) e =
    (if \<not> ShouldRunHooksRecord (Some rec) (c_hook_rerun_on_failure cfg) then hooks_loop sh cfg recs e
     else (case run_hooks sh cfg (a_archive_id rec) False e of
             (Inl _, e1) \<Rightarrow> hooks_loop sh cfg recs e1
           | (Inr result, e1) \<Rightarrow> (let (ran, e2) = hooks_loop sh cfg recs e1 in (cr_ran result \<or> ran, e2))))"

definition runPendingHooks :: "service_host \<Rightarrow> service \<Rightarrow> bool \<times> service" where
  "runPendingHooks sh sv =
    (let (ran, e) = hooks_loop sh (sv_base sv) (rows_with StatusMounted (sv_eng sv)) (sv_eng sv) in (ran, with_eng e sv))"

subsection \<open>Control plane\<close>

text \<open>
  A request is a JSON object; the operations only look at strings, booleans and objects.  \<open>ANum\<close> is
  a json.Number, with its Int64 when it is one.
\<close>

datatype arg = ANull | ABool bool | AStr string | ANum "int option" | AMap raw | AOther

type_synonym request = "(string \<times> arg) list"

fun str_arg :: "arg option \<Rightarrow> string" where
  "str_arg (Some (AStr s)) = s"
| "str_arg _ = ''''"

fun map_arg :: "arg option \<Rightarrow> raw option" where
  "map_arg (Some (AMap m)) = Some m"
| "map_arg _ = None"

definition boolField :: "request \<Rightarrow> string \<Rightarrow> bool \<Rightarrow> bool" where
  "boolField req key def = (case map_of req key of Some (ABool b) \<Rightarrow> b | _ \<Rightarrow> def)"

text \<open>The snapshot of a row: optional fields are left out of the object when nil.\<close>

record archive_dict =
  ad_id :: string
  ad_path :: path
  ad_basename :: string
  ad_status :: status
  ad_hooks :: hooks_status
  ad_size :: int
  ad_retryable :: bool
  ad_attempts :: int
  ad_mount_path :: "path option"
  ad_mount_pid :: "int option"
  ad_last_error :: "string option"
  ad_index_path :: "path option"

definition archiveDict :: "archive \<Rightarrow> archive_dict" where
  "archiveDict r =
    \<lparr>ad_id = a_archive_id r, ad_path = a_archive_path r, ad_basename = a_archive_basename r, ad_status = a_status r,
     ad_hooks = a_hooks_status r, ad_size = a_size_bytes r, ad_retryable = a_mount_retryable r,
     ad_attempts = a_mount_attempts r, ad_mount_path = a_mount_path r, ad_mount_pid = a_mount_pid r,
     ad_last_error = a_last_error r, ad_index_path = a_index_path r\<rparr>"

datatype reason =
    Message string | StoreReason store_error | EngineReason engine_error | HookReason hook_error
  | UpdateReason update_error | PurgeReason purge_result

text \<open>The data of a response, one constructor for each shape the operations return.\<close>

datatype payload =
    PStatus bool | PMetrics | PConfig raw path | PUpdate update_result "reload_error option option" "bool option"
  | PScan scan_result | PArchive "archive_dict option"
  | PUnmounted "(string + archive_dict option) list" | PPurged purge_result
  | PScheduled string | PHooks "discovered_hook list" | PHookRows string hooks_status "hook_row list"
  | PHookRun cycle_result bool | PQueued string status | PStarted string int path status

datatype response = OKResponse payload | ErrResponse reason string

fun respOK :: "response \<Rightarrow> bool" where
  "respOK (OKResponse _) = True"
| "respOK (ErrResponse _ _) = False"

definition bad_request :: "string \<Rightarrow> response" where
  "bad_request msg = ErrResponse (Message msg) ''BAD_REQUEST''"

definition not_found :: response where
  "not_found = ErrResponse (Message ''archive not found'') ''NOT_FOUND''"

definition opConfigGet :: "service_host \<Rightarrow> service \<Rightarrow> response" where
  "opConfigGet sh sv = OKResponse (PConfig (ToPublicMap (sh_load_env sh) (sv_cfg sv)) (c_config_path (sv_cfg sv)))"

text \<open>
  The reload after a write: the configuration is read back into the shared object, then doReload
  runs.  The payload says whether the file could be read back.
\<close>

definition opConfigSet :: "service_host \<Rightarrow> request \<Rightarrow> service \<Rightarrow> response \<times> service" where
  "opConfigSet sh req sv =
    (let apply = boolField req ''apply'' True; path = c_config_path (sv_cfg sv) in
     case ApplyUpdate (sh_load_env sh) (sh_dump sh) (sh_write sh) (sv_cfg sv) (map_arg (map_of req ''patch''))
            (map_arg (map_of req ''config'')) apply path (sv_files sv) of
       (Inl e, fs) \<Rightarrow> (ErrResponse (UpdateReason e) ''CONFIG_ERROR'', sv\<lparr>sv_files := fs\<rparr>)
     | (Inr r, fs) \<Rightarrow>
        (let sv1 = sv\<lparr>sv_files := fs\<rparr> in
         if apply \<and> ur_written r
         then (if path = '''' then (OKResponse (PUpdate r None (Some False)), doReload sh sv1)
               else (case config_Load sh path fs of
                  Inr newCfg \<Rightarrow> (OKResponse (PUpdate r (Some None) (Some False)), doReload sh (sv1\<lparr>sv_cfg := newCfg\<rparr>))
                | Inl e \<Rightarrow> (OKResponse (PUpdate r (Some (Some e)) (Some False)), doReload sh sv1)))
         else (OKResponse (PUpdate r None None), sv1)))"

definition opRescan :: "service_host \<Rightarrow> request \<Rightarrow> service \<Rightarrow> response \<times> service" where
  "opRescan sh req sv =
    (let (r, sv1) = doScan sh (boolField req ''assume_stable'' False) sv in
     (OKResponse (PScan r),
      NotifyChange (sv1\<lparr>sv_last_scan := sh_now sh, sv_scan_result := Some r, sv_scan_iso := sh_utc sh\<rparr>)))"

definition opRetry :: "service_host \<Rightarrow> request \<Rightarrow> service \<Rightarrow> response \<times> service" where
  "opRetry sh req sv =
    (let aid = str_arg (map_of req ''archive_id'') in
     if aid = '''' then (bad_request ''archive_id required'', sv)
     else (case GetArchive (sv_store sv) aid of
        None \<Rightarrow> (not_found, sv)
      | Some _ \<Rightarrow>
         (case ResetMountAttempts (sh_utc sh) aid True '''' (sv_store sv) of
            (Inl e, s) \<Rightarrow> (ErrResponse (StoreReason e) ''ERROR'', with_store s sv)
          | (Inr u, s) \<Rightarrow> (OKResponse (PArchive (map_option archiveDict u)), with_store s sv))))"

definition unmountable :: "status \<Rightarrow> bool" where
  "unmountable st \<longleftrightarrow> st \<in> {StatusMounted, StatusHooksRunning, StatusIndexing, StatusMounting}"

fun unmount_loop :: "host \<Rightarrow> archive list \<Rightarrow> engine \<Rightarrow> (string + archive_dict option) list \<times> engine" where
  "unmount_loop h [] e = ([], e)"
| "unmount_loop h (rec # recs) e =
    (if \<not> unmountable (a_status rec) then unmount_loop h recs e
     else (let (r, e1) = Unmount h (a_archive_id rec) False e; (rs, e2) = unmount_loop h recs e1 in
           ((case r of Inl err \<Rightarrow> Inl (h_text h err) | Inr u \<Rightarrow> Inr (map_option archiveDict u)) # rs, e2)))"

text \<open>By identifier, by archive path, then the first row whose mount path or base name fits.\<close>

definition target_fits :: "string \<Rightarrow> archive \<Rightarrow> bool" where
  "target_fits target rec \<longleftrightarrow>
    (case a_mount_path rec of None \<Rightarrow> False | Some p \<Rightarrow> p = target \<or> path_base p = path_base target)
    \<or> a_archive_basename rec = path_base target \<or> a_archive_basename rec = target"

definition resolveTarget :: "store \<Rightarrow> string \<Rightarrow> archive option" where
  "resolveTarget s target =
    (if target = '''' then None
     else (case GetArchive s target of
        Some r \<Rightarrow> Some r
      | None \<Rightarrow> (case GetArchiveByPath s target of
           Some r \<Rightarrow> Some r
         | None \<Rightarrow> List.find (target_fits target) (all_archives s))))"

definition opUnmount :: "service_host \<Rightarrow> request \<Rightarrow> service \<Rightarrow> response \<times> service" where
  "opUnmount sh req sv =
    (if boolField req ''all'' False
     then (let (rs, e) = unmount_loop (sh_engine sh) (all_archives (sv_store sv)) (sv_eng sv) in
           (OKResponse (PUnmounted rs), with_eng e sv))
     else
      (let target = str_arg (map_of req ''target'') in
       if target = '''' then (bad_request ''target or all required'', sv)
       else (case resolveTarget (sv_store sv) target of
          None \<Rightarrow> (ErrResponse (Message (''not found: '' @ target)) ''NOT_FOUND'', sv)
        | Some rec \<Rightarrow>
           (case Unmount (sh_engine sh) (a_archive_id rec) False (sv_eng sv) of
              (Inl e, en) \<Rightarrow> (ErrResponse (EngineReason e) ''ERROR'', with_eng en sv)
            | (Inr u, en) \<Rightarrow> (OKResponse (PArchive (map_option archiveDict u)), with_eng en sv)))))"

text \<open>\<open>None\<close>: the search for a free quarantine name does not return.\<close>

definition opPurge :: "service_host \<Rightarrow> request \<Rightarrow> service \<Rightarrow> response \<times> service" where
  "opPurge sh req sv =
    (let aid = str_arg (map_of req ''archive_id'') in
     if aid = '''' then (bad_request ''archive_id required'', sv)
     else if map_of req ''yes'' = Some (ABool False) then (bad_request ''purge requires yes=true'', sv)
     else (case Cleaner_PurgeArchive (sh_cleaner sh) (sv_base sv) (Some (engine_unmounter (sh_engine sh))) aid True (sv_clean sv) of
        (Some r, st) \<Rightarrow>
          (if pr_ok r then (OKResponse (PPurged r), sv\<lparr>sv_clean := st\<rparr>)
           else (ErrResponse (PurgeReason r) ''ERROR'', sv\<lparr>sv_clean := st\<rparr>))
      | (None, st) \<Rightarrow> (ErrResponse (PurgeReason (no_purge aid)) ''ERROR'', sv\<lparr>sv_clean := st\<rparr>)))"

definition opHooksList :: "service_host \<Rightarrow> service \<Rightarrow> response" where
  "opHooksList sh sv =
    OKResponse (PHooks (DiscoverHooks (sh_hooks sh) (c_hooks_dir (sv_cfg sv)) (en_world (sv_eng sv))))"

definition opHooksStatus :: "request \<Rightarrow> service \<Rightarrow> response" where
  "opHooksStatus req sv =
    (let aid = str_arg (map_of req ''archive_id'') in
     if aid = '''' then bad_request ''archive_id required''
     else (case GetArchive (sv_store sv) aid of
        None \<Rightarrow> not_found
      | Some rec \<Rightarrow> OKResponse (PHookRows aid (a_hooks_status rec) (ListHooks (sv_store sv) aid))))"

definition opHooksRun :: "service_host \<Rightarrow> request \<Rightarrow> service \<Rightarrow> response \<times> service" where
  "opHooksRun sh req sv =
    (let aid = str_arg (map_of req ''archive_id''); force = boolField req ''force'' False in
     if aid = '''' then (bad_request ''archive_id required'', sv)
     else (case GetArchive (sv_store sv) aid of
        None \<Rightarrow> (not_found, sv)
      | Some rec \<Rightarrow>
         (if a_status rec \<notin> {StatusMounted, StatusHooksRunning}
          then (bad_request (''archive status '' @ status_str (a_status rec) @ '' cannot run hooks (need mounted or hooks_running)''), sv)
          else (case run_hooks sh (sv_base sv) aid force (sv_eng sv) of
             (Inl e, en) \<Rightarrow> (ErrResponse (HookReason e) ''ERROR'', with_eng en sv)
           | (Inr r, en) \<Rightarrow> (OKResponse (PHookRun r force), with_eng en sv)))))"

definition mount_params :: "path \<Rightarrow> Scanner.file_info \<Rightarrow> string \<Rightarrow> insert_params" where
  "mount_params p fi fp =
    \<lparr>i_source_dir = path_dir p, i_archive_path = p, i_archive_basename = path_base p, i_size_bytes = fi_size fi,
     i_mtime_ns = fi_mtime fi, i_fingerprint = fp, i_archive_id = '''', i_index_path = None,
     i_overlay_path = None, i_mount_path = None, i_now = ''''\<rparr>"

text \<open>The row of the path, inserted when there is none; the gate is told to assume it stable.\<close>

definition mount_row :: "service_host \<Rightarrow> path \<Rightarrow> Scanner.file_info \<Rightarrow> service \<Rightarrow> (response + archive) \<times> service" where
  "mount_row sh p fi sv =
    (case GetArchiveByPath (sv_store sv) p of
       Some rec \<Rightarrow> (Inr rec, sv)
     | None \<Rightarrow>
        (case ComputeFingerprint (h_sha (sh_engine sh)) (d_content (sh_disk sh (en_world (sv_eng sv))) p) (fi_size fi) (fi_mtime fi)
                (c_content_fingerprint (sv_cfg sv)) of
           None \<Rightarrow> (Inl (ErrResponse (Message ''cannot fingerprint'') ''ERROR''), sv)
         | Some fp \<Rightarrow>
            (case InsertDiscovered (sh_utc sh) (sh_uuid sh) (mount_params p fi fp) (sv_store sv) of
               (Inr (Some rec), s) \<Rightarrow>
                 (Inr rec, (with_store s sv)\<lparr>sv_scanner := (sv_scanner sv)\<lparr>sc_gate :=
                    snd (Check p (fi_size fi) (fi_mtime fi) (sh_now sh) True (sc_gate (sv_scanner sv)))\<rparr>\<rparr>)
             | (Inr None, s) \<Rightarrow> (Inl (ErrResponse (Message ''archive not found'') ''ERROR''), with_store s sv)
             | (Inl e, s) \<Rightarrow> (Inl (ErrResponse (StoreReason e) ''ERROR''), with_store s sv))))"

definition mount_status :: "managed \<Rightarrow> status" where
  "mount_status m = (if mm_phase m = EngineState.PhaseMount then StatusMounting else StatusIndexing)"

text \<open>The archive is not an entry of the request's directory listing: any regular file can be mounted.\<close>

definition opMount :: "service_host \<Rightarrow> request \<Rightarrow> service \<Rightarrow> response \<times> service" where
  "opMount sh req sv =
    (let p0 = str_arg (map_of req ''path''); p = path_abs (sh_cwd sh) p0 in
     if p0 = '''' then (bad_request ''path required'', sv)
     else (case d_stat (sh_disk sh (en_world (sv_eng sv))) p of
        None \<Rightarrow> (ErrResponse (Message (''not a file: '' @ p)) ''NOT_FOUND'', sv)
      | Some fi \<Rightarrow>
         (if \<not> fi_regular fi then (ErrResponse (Message (''not a file: '' @ p)) ''NOT_FOUND'', sv)
          else (case mount_row sh p fi sv of
             (Inl resp, sv1) \<Rightarrow> (resp, sv1)
           | (Inr rec, sv1) \<Rightarrow>
              (case BeginMount (sh_engine sh) (sv_base sv1) rec (Some (a_first_mounted_at rec = None)) (sv_eng sv1) of
                 (Inl e, en) \<Rightarrow> (ErrResponse (EngineReason e) ''MOUNT_FAILED'', with_eng en sv1)
               | (Inr None, en) \<Rightarrow>
                   (OKResponse (PQueued (a_archive_id rec)
                      (case GetArchive (en_store en) (a_archive_id rec) of Some r \<Rightarrow> a_status r | None \<Rightarrow> a_status rec)),
                    with_eng en sv1)
               | (Inr (Some m), en) \<Rightarrow>
                   (OKResponse (PStarted (mm_archive_id m) (mm_pid m) (mr_mount_path (mm_request m)) (mount_status m)),
                    with_eng en sv1))))))"

definition notify_ok :: "response \<times> service \<Rightarrow> response \<times> service" where
  "notify_ok rs = (fst rs, if respOK (fst rs) then NotifyChange (snd rs) else snd rs)"

text \<open>
  The dispatcher.  The documents of status and metrics are built by the packages status and
  metrics, which only read the state: \<open>answer\<close> is what metrics would return.
\<close>

definition handleRequest :: "service_host \<Rightarrow> response \<Rightarrow> request \<Rightarrow> service \<Rightarrow> response \<times> service" where
  "handleRequest sh answer req sv =
    (let op = str_arg (map_of req ''op'') in
     if op = ''status'' then (OKResponse (PStatus (boolField req ''include_sizes'' False)), sv)
     else if op = ''metrics'' then (answer, sv)
     else if op = ''config_get'' then (opConfigGet sh sv, sv)
     else if op = ''config_set'' then notify_ok (opConfigSet sh req sv)
     else if op = ''rescan'' then opRescan sh req sv
     else if op = ''retry'' then notify_ok (opRetry sh req sv)
     else if op = ''unmount'' then notify_ok (opUnmount sh req sv)
     else if op = ''purge'' then notify_ok (opPurge sh req sv)
     else if op = ''stop'' then (OKResponse (PScheduled ''stop''), NotifyChange (Stop sv))
     else if op = ''reload'' then (OKResponse (PScheduled ''reload''), NotifyChange (RequestReload sv))
     else if op = ''hooks_list'' then (opHooksList sh sv, sv)
     else if op = ''hooks_status'' then (opHooksStatus req sv, sv)
     else if op = ''hooks_run'' then notify_ok (opHooksRun sh req sv)
     else if op = ''mount'' then notify_ok (opMount sh req sv)
     else (bad_request (''unknown op '' @ op), sv))"

subsection \<open>One tick\<close>

fun serve_ready :: "service_host \<Rightarrow> response \<Rightarrow> request list \<Rightarrow> service \<Rightarrow> response list \<times> service" where
  "serve_ready sh answer [] sv = ([], sv)"
| "serve_ready sh answer (req # reqs) sv =
    (let (r, sv1) = handleRequest sh answer req sv; (rs, sv2) = serve_ready sh answer reqs sv1 in (r # rs, sv2))"

definition when_dirty :: "bool \<Rightarrow> service \<Rightarrow> service" where
  "when_dirty b sv = (if b then NotifyChange sv else sv)"

text \<open>The stages of Tick, in its order; each says whether it made the tick dirty.\<close>

definition tick_reload :: "service_host \<Rightarrow> service \<Rightarrow> bool \<times> service" where
  "tick_reload sh sv = (if sv_reload sv then (True, doReload sh (sv\<lparr>sv_reload := False\<rparr>)) else (False, sv))"

definition tick_requests :: "service_host \<Rightarrow> response \<Rightarrow> request list \<Rightarrow> service \<Rightarrow> response list \<times> service" where
  "tick_requests sh answer reqs sv = (if sv_control sv then serve_ready sh answer reqs sv else ([], sv))"

definition tick_inotify :: "bool \<Rightarrow> service \<Rightarrow> service" where
  "tick_inotify active sv = (if sv_watch sv \<noteq> None \<and> active then RequestRescan False sv else sv)"

definition tick_scan :: "service_host \<Rightarrow> service \<Rightarrow> bool \<times> service" where
  "tick_scan sh sv =
    (let rescan = sv_rescan sv \<or> sh_now sh - sv_last_scan sv \<ge> c_poll_interval (sv_cfg sv); assume = sv_assume sv;
         sv1 = (if sv_rescan sv then sv\<lparr>sv_rescan := False, sv_assume := False\<rparr> else sv) in
     if rescan then (let (r, sv2) = doScan sh assume sv1 in (True, sv2\<lparr>sv_last_scan := sh_now sh, sv_scan_result := Some r\<rparr>))
     else (False, sv1))"

definition tick_reconcile :: "service_host \<Rightarrow> service \<Rightarrow> bool \<times> service" where
  "tick_reconcile sh sv =
    (if sh_now sh - sv_last_reconcile sv \<ge> c_reconcile_interval (sv_cfg sv)
     then (True, (snd (doReconcile sh sv))\<lparr>sv_last_reconcile := sh_now sh\<rparr>) else (False, sv))"

definition cleanup_every :: "full_config \<Rightarrow> rat" where
  "cleanup_every cfg = (if c_poll_interval cfg < 60 then 60 else c_poll_interval cfg)"

definition tick_cleanup :: "service_host \<Rightarrow> service \<Rightarrow> bool \<times> service" where
  "tick_cleanup sh sv =
    (if sh_now sh - sv_last_cleanup sv \<ge> cleanup_every (sv_cfg sv)
     then (True, (snd (doCleanup sh sv))\<lparr>sv_last_cleanup := sh_now sh\<rparr>) else (False, sv))"

definition tick_work :: "service_host \<Rightarrow> service \<Rightarrow> bool \<times> service" where
  "tick_work sh sv =
    (let live = engineWorkActive (sv_eng sv);
         sv1 = with_eng (PollConvert (sh_engine sh) (sv_base sv) (ProgressLive (sh_engine sh) (sv_base sv) (sv_eng sv))) sv;
         sv2 = startPendingWork sh sv1;
         (ran, sv3) = runPendingHooks sh sv2 in
     (live \<or> engineWorkActive (sv_eng sv3) \<or> ran, sv3))"

definition Tick :: "service_host \<Rightarrow> response \<Rightarrow> request list \<Rightarrow> bool \<Rightarrow> service \<Rightarrow> response list \<times> service" where
  "Tick sh answer reqs active sv0 =
    (let (d1, sv1) = tick_reload sh sv0;
         (rs, sv2) = tick_requests sh answer reqs sv1;
         sv3 = tick_inotify active sv2;
         (d2, sv4) = tick_scan sh sv3;
         (d3, sv5) = tick_reconcile sh sv4;
         (d4, sv6) = tick_cleanup sh sv5;
         (d5, sv7) = tick_work sh sv6 in
     (rs, when_dirty (d1 \<or> d2 \<or> d3 \<or> d4 \<or> d5) sv7))"

subsection \<open>Start and shutdown\<close>

datatype start_error = PidFileHeld path | ServiceDirs path | ControlSocket path | HttpApi

text \<open>
  What the start meets: the lock on the pid file, the socket, the HTTP listener, and the options
  that skip them.
\<close>

record start_host =
  st_lock :: bool
  st_socket :: bool
  st_http :: bool
  st_skip_pidfile :: bool
  st_skip_control :: bool
  st_skip_web :: bool

definition service_dirs :: "full_config \<Rightarrow> path list" where
  "service_dirs cfg =
    filter (\<lambda>p. p \<noteq> '''') [c_mount_root cfg, c_index_dir cfg, c_overlay_dir cfg]
    @ (if c_archives_dir cfg \<noteq> '''' then [c_archives_dir cfg] else [])
    @ (if c_converter_enabled cfg \<and> c_converter_output_dir cfg \<noteq> '''' then [c_converter_output_dir cfg] else [])"

fun EnsureServiceDirectories :: "host \<Rightarrow> path list \<Rightarrow> world \<Rightarrow> path option \<times> world" where
  "EnsureServiceDirectories h [] w = (None, w)"
| "EnsureServiceDirectories h (p # ps) w =
    (let (made, w1) = mkdir_all (tl_io (h_tools h)) p w in if made then EnsureServiceDirectories h ps w1 else (Some p, w1))"

definition Acquire :: "start_host \<Rightarrow> service \<Rightarrow> start_error option \<times> service" where
  "Acquire st sv =
    (if st_skip_pidfile st then (None, sv)
     else if c_pid_file (sv_cfg sv) = '''' \<or> \<not> st_lock st then (Some (PidFileHeld (c_pid_file (sv_cfg sv))), sv)
     else (None, sv\<lparr>sv_pid_held := True\<rparr>))"

definition releasePidfile :: "service \<Rightarrow> service" where
  "releasePidfile sv = sv\<lparr>sv_pid_held := False\<rparr>"

text \<open>Partial indexes and leftover temporaries, before the control socket is opened.\<close>

definition boot_clean :: "service_host \<Rightarrow> service \<Rightarrow> service" where
  "boot_clean sh sv =
    (let e = sv_eng sv;
         (_, s, w) = CleanupPartialIndexes (sh_utc sh) (en_store e, en_world e);
         sv1 = with_eng (on_world (\<lambda>_. w) (e\<lparr>en_store := s\<rparr>)) sv in
     sv1\<lparr>sv_clean := snd (Cleaner_PruneOrphanRatarmountTemps (sh_cleaner sh) (sv_clean sv1))\<rparr>)"

definition open_control :: "start_host \<Rightarrow> service \<Rightarrow> start_error option \<times> service" where
  "open_control st sv =
    (if st_skip_control st \<or> c_control_socket (sv_cfg sv) = '''' then (None, sv)
     else if st_socket st then (None, sv\<lparr>sv_control := True\<rparr>)
     else (Some (ControlSocket (c_control_socket (sv_cfg sv))), releasePidfile sv))"

text \<open>The boot pass over the rows, then stray children and stale mount directories.\<close>

definition boot_rows :: "service_host \<Rightarrow> service \<Rightarrow> service" where
  "boot_rows sh sv =
    (let e1 = of_rstate (snd (Boot (sh_utc sh) (sv_settings sv) (service_probes sh) service_callbacks (to_rstate (sv_eng sv))));
         e2 = snd (ReconcileOrphanMounts (sh_engine sh) (sv_base sv) (all_archives (en_store e1)) e1);
         sv1 = with_eng e2 sv in
     sv1\<lparr>sv_clean := snd (CleanupStaleMountDirs (sh_cleaner sh) (sv_base sv1) (live_paths (sv_eng sv1)) (sv_clean sv1))\<rparr>)"

definition start_web :: "start_host \<Rightarrow> service \<Rightarrow> start_error option \<times> service" where
  "start_web st sv =
    (if st_skip_web st \<or> \<not> c_web_enabled (sv_cfg sv) \<or> st_http st then (None, sv\<lparr>sv_started := True\<rparr>)
     else (Some HttpApi, releasePidfile (sv\<lparr>sv_control := False\<rparr>)))"

definition Start :: "service_host \<Rightarrow> start_host \<Rightarrow> service \<Rightarrow> start_error option \<times> service" where
  "Start sh st sv0 =
    (if sv_started sv0 then (None, sv0)
     else (case Acquire st sv0 of
        (Some e, sv) \<Rightarrow> (Some e, sv)
      | (None, sv1) \<Rightarrow>
         (case EnsureServiceDirectories (sh_engine sh) (service_dirs (sv_cfg sv1)) (en_world (sv_eng sv1)) of
            (Some d, w) \<Rightarrow> (Some (ServiceDirs d), releasePidfile (with_eng (on_world (\<lambda>_. w) (sv_eng sv1)) sv1))
          | (None, w) \<Rightarrow>
             (case open_control st (boot_clean sh (with_eng (on_world (\<lambda>_. w) (sv_eng sv1)) sv1)) of
                (Some e, sv2) \<Rightarrow> (Some e, sv2)
              | (None, sv2) \<Rightarrow> start_web st (boot_rows sh (syncInotify sh sv2))))))"

definition Shutdown :: "service_host \<Rightarrow> service \<Rightarrow> service" where
  "Shutdown sh sv0 =
    (let sv = (Stop sv0)\<lparr>sv_control := False, sv_watch := None\<rparr>;
         e = snd (unmount_loop (sh_engine sh) (all_archives (sv_store sv)) (sv_eng sv)) in
     (releasePidfile (with_eng e sv))\<lparr>sv_started := False\<rparr>)"

text \<open>
  Run: ticks until Stop was seen.  What each tick meets comes as a list of inputs; \<open>None\<close> when the
  list ends first, that is, while the loop is still running.
\<close>

type_synonym tick_input = "service_host \<times> response \<times> request list \<times> bool"

fun run_loop :: "tick_input list \<Rightarrow> service \<Rightarrow> service option" where
  "run_loop [] sv = (if sv_stop sv then Some sv else None)"
| "run_loop ((sh, answer, reqs, active) # is) sv =
    (if sv_stop sv then Some sv else run_loop is (snd (Tick sh answer reqs active sv)))"

definition Run :: "service_host \<Rightarrow> start_host \<Rightarrow> tick_input list \<Rightarrow> service \<Rightarrow> (start_error + service) option" where
  "Run sh st ins sv0 =
    (case Start sh st sv0 of
       (Some e, _) \<Rightarrow> Some (Inl e)
     | (None, sv1) \<Rightarrow> map_option (\<lambda>sv. Inr (Shutdown sh sv)) (run_loop ins sv1))"

text \<open>Run with once: a single tick, whatever the stop flag says.\<close>

definition RunOnce :: "service_host \<Rightarrow> start_host \<Rightarrow> tick_input \<Rightarrow> service \<Rightarrow> start_error + service" where
  "RunOnce sh st i sv0 =
    (case Start sh st sv0 of
       (Some e, _) \<Rightarrow> Inl e
     | (None, sv1) \<Rightarrow> (case i of (shi, answer, reqs, active) \<Rightarrow> Inr (Shutdown sh (snd (Tick shi answer reqs active sv1)))))"

end
