(* ===== verification/ReconcileProps.thy ===== *)
theory ReconcileProps
  imports Reconcile
begin

text \<open>
  What the reconciler guarantees.  A pass is a loop over listed rows of an action that works on one
  row; the locale \<open>row_pass\<close> derives from that contract alone that a pass treats each row as if it
  were alone, and is interpreted with the model's Apply.  The properties then follow from what one
  action does to its own row.
\<close>

subsection \<open>Loops over rows\<close>

locale row_pass =
  fixes act :: "archive \<Rightarrow> action \<Rightarrow> 'x rstate \<Rightarrow> action \<times> 'x rstate"
  assumes act_frame: "k \<noteq> a_archive_id rec \<Longrightarrow> GetArchive (fst (snd (act rec a st))) k = GetArchive (fst st) k"
    and act_wf: "store_wf (fst st) \<Longrightarrow> store_wf (fst (snd (act rec a st)))"
    and act_hooks: "s_hooks (fst (snd (act rec a st))) = s_hooks (fst st)"
begin

lemma pass_step: "pass decide act (rec # recs) st =
    (case decide (snd st) rec of
       None \<Rightarrow> pass decide act recs st
     | Some a \<Rightarrow> (fst (act rec a st) # fst (pass decide act recs (snd (act rec a st))),
                 snd (pass decide act recs (snd (act rec a st)))))"
  by (simp split: option.split prod.split)

lemma pass_wf: "store_wf (fst st) \<Longrightarrow> store_wf (fst (snd (pass decide act recs st)))"
proof (induction recs arbitrary: st)
  case (Cons rec recs)
  then show ?case
    using act_wf [OF Cons.prems] unfolding pass_step by (auto split: option.split)
qed simp

lemma pass_hooks: "s_hooks (fst (snd (pass decide act recs st))) = s_hooks (fst st)"
proof (induction recs arbitrary: st)
  case (Cons rec recs)
  then show ?case using act_hooks unfolding pass_step by (auto split: option.split)
qed simp

lemma pass_frame:
  "k \<notin> a_archive_id ` set recs \<Longrightarrow> GetArchive (fst (snd (pass decide act recs st))) k = GetArchive (fst st) k"
proof (induction recs arbitrary: st)
  case (Cons rec recs)
  then have k: "k \<noteq> a_archive_id rec" "k \<notin> a_archive_id ` set recs" by auto
  show ?case
    using Cons.IH [OF k(2)] act_frame [OF k(1)] unfolding pass_step by (simp split: option.split)
qed simp

text \<open>Each listed row is decided and acted on in some well-formed state that still holds it.\<close>

lemma pass_each:
  assumes "kdistinct a_archive_id recs" "\<forall>r \<in> set recs. GetArchive (fst st) (a_archive_id r) = Some r"
    "store_wf (fst st)" "rec \<in> set recs"
  shows "\<exists>st'. store_wf (fst st') \<and> GetArchive (fst st') (a_archive_id rec) = Some rec
    \<and> GetArchive (fst (snd (pass decide act recs st))) (a_archive_id rec) =
        (case decide (snd st') rec of
           None \<Rightarrow> Some rec
         | Some a \<Rightarrow> GetArchive (fst (snd (act rec a st'))) (a_archive_id rec))"
  using assms
proof (induction recs arbitrary: st)
  case (Cons r recs)
  define st1 where "st1 = (case decide (snd st) r of None \<Rightarrow> st | Some a \<Rightarrow> snd (act r a st))"
  have tail: "snd (pass decide act (r # recs) st) = snd (pass decide act recs st1)"
    unfolding pass_step st1_def by (simp split: option.split)
  have notin: "a_archive_id r \<notin> a_archive_id ` set recs" and dist: "kdistinct a_archive_id recs"
    using Cons.prems(1) by (auto simp: kdistinct_def)
  have st1: "store_wf (fst st1)"
    unfolding st1_def using Cons.prems(3) act_wf by (auto split: option.split)
  have keep: "k \<noteq> a_archive_id r \<Longrightarrow> GetArchive (fst st1) k = GetArchive (fst st) k" for k
    unfolding st1_def using act_frame by (simp split: option.split)
  show ?case
  proof (cases "rec = r")
    case True
    have "GetArchive (fst (snd (pass decide act (r # recs) st))) (a_archive_id r) = GetArchive (fst st1) (a_archive_id r)"
      unfolding tail by (rule pass_frame [OF notin])
    also have "\<dots> = (case decide (snd st) r of None \<Rightarrow> Some r
         | Some a \<Rightarrow> GetArchive (fst (snd (act r a st))) (a_archive_id r))"
      using Cons.prems(2) by (simp add: st1_def split: option.split)
    finally have "GetArchive (fst (snd (pass decide act (r # recs) st))) (a_archive_id r) = \<dots>" .
    with Cons.prems(2,3) show ?thesis unfolding True by (intro exI [of _ st]) (simp del: pass.simps)
  next
    case False
    with Cons.prems(4) have rec: "rec \<in> set recs" by simp
    have rows: "\<forall>q \<in> set recs. GetArchive (fst st1) (a_archive_id q) = Some q"
    proof
      fix q assume q: "q \<in> set recs"
      with notin have "a_archive_id q \<noteq> a_archive_id r" by (metis imageI)
      with keep q Cons.prems(2) show "GetArchive (fst st1) (a_archive_id q) = Some q" by simp
    qed
    from Cons.IH [OF dist rows st1 rec] show ?thesis unfolding tail .
  qed
qed simp

end

subsection \<open>Apply works on its row\<close>

lemma applied_stores:
  "fst (snd (applyFail utc st0 pr cb rec a st)) =
     snd (Transition utc (a_archive_id rec) (fail_status a) (Expect [a_status rec]) (fail_fields st0 rec a) '''' (fst st))"
  "fst (snd (applyMarkAbsent utc cb rec a st)) =
     snd (MarkAbsent utc (a_archive_id rec) '''' (Some (act_reason a)) (fst st))"
  "fst (snd (applyRequeue utc rec a st)) =
     snd (Transition utc (a_archive_id rec) (case act_target a of Some t \<Rightarrow> t | None \<Rightarrow> requeueTarget rec)
       (Expect [a_status rec]) (requeue_fields rec) '''' (fst st))"
  "fst (snd (applyRequestRemount utc rec a st)) =
     snd (Transition utc (a_archive_id rec) StatusMountFailed (Expect [a_status rec])
       (no_fields\<lparr>p_mount_pid := Some None, p_mount_retryable := Some True\<rparr>) '''' (fst st))"
  "fst (snd (applyCleanupIndex utc rec a st)) =
     (if fst (ApplyPartialIndexCleanup (a_status rec) (a_first_mounted_at rec) (strPtr (a_index_path rec)) (snd (snd st)))
      then snd (Transition utc (a_archive_id rec) (a_status rec) (Expect [a_status rec])
             (no_fields\<lparr>p_index_path := Some None\<rparr>) '''' (fst st))
      else fst st)"
  unfolding applyFail_def applyMarkAbsent_def applyRequeue_def applyRequestRemount_def applyCleanupIndex_def Let_def
  by (simp_all add: case_prod_beta)

lemma Apply_store:
  obtains (none) "fst (snd (Apply utc st0 pr cb rec a st)) = fst st"
    | (trans) to ex p where "fst (snd (Apply utc st0 pr cb rec a st)) =
        snd (Transition utc (a_archive_id rec) to ex p '''' (fst st))"
    | (absent) le where "fst (snd (Apply utc st0 pr cb rec a st)) =
        snd (MarkAbsent utc (a_archive_id rec) '''' le (fst st))"
proof -
  consider "act_kind a = ActionOK" | "act_kind a = ActionCleanupIndex" | "act_kind a = ActionMarkAbsent"
    | "act_kind a \<in> {ActionFailIndex, ActionFailMount}" | "act_kind a = ActionRequeue" | "act_kind a = ActionRequestRemount"
    by (cases "act_kind a") auto
  then show thesis
  proof cases
    case 1
    then show thesis by (intro none) (simp add: Apply_def)
  next
    case 2
    show thesis
    proof (cases "fst (ApplyPartialIndexCleanup (a_status rec) (a_first_mounted_at rec) (strPtr (a_index_path rec)) (snd (snd st)))")
      case True
      with 2 show thesis by (intro trans) (simp add: Apply_def applied_stores)
    next
      case False
      with 2 show thesis by (intro none) (simp add: Apply_def applied_stores)
    qed
  next
    case 3
    then show thesis by (intro absent) (simp add: Apply_def applied_stores)
  next
    case 4
    then have "Apply utc st0 pr cb rec a st = applyFail utc (normalize_settings st0) pr cb rec a st"
      by (auto simp: Apply_def)
    then show thesis by (intro trans) (simp add: applied_stores)
  next
    case 5
    then show thesis by (intro trans) (simp add: Apply_def applied_stores)
  next
    case 6
    then show thesis by (intro trans) (simp add: Apply_def applied_stores)
  qed
qed

lemma hooks_Transition: "s_hooks (snd (Transition utc aid to ex p now s)) = s_hooks s"
  by (rule Transition_cases [of s aid to ex p utc now]) simp_all

lemma hooks_MarkAbsent: "s_hooks (snd (MarkAbsent utc aid now le s)) = s_hooks s"
proof (cases "GetArchive s aid")
  case (Some rec)
  then show ?thesis
    unfolding MarkAbsent_def Let_def using hooks_Transition
    by (simp add: snd_bindE case_prod_beta split: sum.split)
qed (simp add: MarkAbsent_def)

interpretation applied: row_pass "Apply utc st0 pr cb" for utc st0 pr cb
proof
  fix k rec a st
  show "GetArchive (fst (snd (Apply utc st0 pr cb rec a st))) k = GetArchive (fst st) k" if "k \<noteq> a_archive_id rec"
    by (rule Apply_store [of utc st0 pr cb rec a st])
      (simp_all add: transition.frame [OF that] mark_absent.frame [OF that])
  show "store_wf (fst (snd (Apply utc st0 pr cb rec a st)))" if "store_wf (fst st)"
    by (rule Apply_store [of utc st0 pr cb rec a st])
      (simp_all add: that transition.wf mark_absent.wf)
  show "s_hooks (fst (snd (Apply utc st0 pr cb rec a st))) = s_hooks (fst st)"
    by (rule Apply_store [of utc st0 pr cb rec a st]) (simp_all add: hooks_Transition hooks_MarkAbsent)
qed

lemma all_archives_set [simp]: "set (all_archives s) = set (s_archives s)"
  by (simp add: all_archives_def)

lemma all_archives_distinct: "store_wf s \<Longrightarrow> kdistinct a_archive_id (all_archives s)"
proof -
  assume "store_wf s"
  then have "inj_on a_archive_id (set (s_archives s))" "distinct (s_archives s)"
    by (auto simp: store_wf_def kdistinct_def distinct_map)
  then show ?thesis by (simp add: kdistinct_def all_archives_def distinct_map)
qed

lemma all_archives_current: "store_wf s \<Longrightarrow> \<forall>r \<in> set (all_archives s). GetArchive s (a_archive_id r) = Some r"
  by (simp add: wf_GetArchive)

subsection \<open>What one action does to its row\<close>

lemma fail_fields_sel [simp]:
  "p_removed_at (fail_fields st rec a) = None" "p_hooks_status (fail_fields st rec a) = None"
  "p_archive_path (fail_fields st rec a) = None" "p_mount_pid (fail_fields st rec a) = Some None"
  "p_unknown (fail_fields st rec a) = []" "p_last_error (fail_fields st rec a) = Some (Some (act_reason a))"
  "p_mount_attempts (fail_fields st rec a) = Some (fst (NextMountAttempt (a_mount_attempts rec) (set_max_attempts st)))"
  "p_mount_retryable (fail_fields st rec a) = Some (snd (NextMountAttempt (a_mount_attempts rec) (set_max_attempts st)))"
  "p_first_mounted_at (fail_fields st rec a) = None"
  by (simp_all add: fail_fields_def case_prod_beta Let_def)

lemma requeue_fields_sel [simp]:
  "p_removed_at (requeue_fields rec) = None" "p_hooks_status (requeue_fields rec) = None"
  "p_archive_path (requeue_fields rec) = None" "p_mount_pid (requeue_fields rec) = Some None"
  "p_unknown (requeue_fields rec) = []" "p_mount_attempts (requeue_fields rec) = None"
  "p_last_error (requeue_fields rec) = None" "p_first_mounted_at (requeue_fields rec) = None"
  by (simp_all add: requeue_fields_def)

lemma NextMountAttempt_fst [simp]: "fst (NextMountAttempt a m) = a + 1"
  by (simp add: NextMountAttempt_def Let_def)

lemma fail_fields_safe: "0 \<le> a_mount_attempts rec \<Longrightarrow> safe_patch (fail_fields st rec a)"
  by (simp add: safe_patch_def check_fields_def)

lemma requeue_fields_safe: "safe_patch (requeue_fields rec)"
  by (simp add: safe_patch_def check_fields_def)

lemma wf_attempts: "store_wf s \<Longrightarrow> GetArchive s aid = Some rec \<Longrightarrow> 0 \<le> a_mount_attempts rec"
  by (auto simp: store_wf_def dest: GetArchive_mem)

lemma after_transition:
  assumes "store_wf s" "GetArchive s (a_archive_id rec) = Some rec" "safe_patch p"
    "validate_transition (a_status rec) to = None"
  shows "GetArchive (snd (Transition utc (a_archive_id rec) to (Expect [a_status rec]) p now s)) (a_archive_id rec)
    = Some (transition_row rec to (ts_of utc now) p)"
  using Transition_safe [OF assms(1-3), of "Expect [a_status rec]" to utc now] assms(2,4)
  by (simp add: GetArchive_put_row)

lemma after_MarkAbsent:
  assumes "store_wf s" "GetArchive s (a_archive_id rec) = Some rec"
  shows "\<exists>row. GetArchive (snd (MarkAbsent utc (a_archive_id rec) now le s)) (a_archive_id rec) = Some row
     \<and> a_status row = StatusAbsent \<and> a_mount_pid row = None \<and> a_hooks_status row = a_hooks_status rec"
proof -
  from MarkAbsent_total [OF assms, of utc now le] obtain row where
    "MarkAbsent utc (a_archive_id rec) now le s = (Inr (Some row), put_row row s)"
    "a_archive_id row = a_archive_id rec" "a_status row = StatusAbsent" "a_mount_pid row = None"
    "a_hooks_status row = a_hooks_status rec" by blast
  with assms(2) show ?thesis by (simp add: GetArchive_put_row)
qed

text \<open>The shape of a decision of a running pass.\<close>

definition decision_ok :: "'x probes \<Rightarrow> 'x env \<Rightarrow> archive \<Rightarrow> action \<Rightarrow> bool" where
  "decision_ok pr e rec a \<longleftrightarrow>
     act_archive_id a = a_archive_id rec \<and> act_previous a = a_status rec \<and> act_error a = None
     \<and> (act_kind a = ActionOK \<and> act_target a = None
       \<or> act_kind a = ActionCleanupIndex \<and> act_target a = None
           \<and> a_status rec \<in> {StatusDiscovered, StatusIndexFailed, StatusMountFailed} \<and> \<not> ptr_set (a_first_mounted_at rec)
       \<or> act_kind a = ActionMarkAbsent \<and> act_target a = Some StatusAbsent
           \<and> a_status rec \<in> {StatusMounted, StatusHooksRunning, StatusUnmounting}
           \<and> \<not> probe_path_exists pr e (a_archive_path rec)
       \<or> act_kind a = ActionFailIndex \<and> act_target a = Some StatusIndexFailed \<and> a_status rec = StatusIndexing
       \<or> act_kind a = ActionFailMount \<and> act_target a = Some StatusMountFailed
           \<and> a_status rec \<in> {StatusMounting, StatusConverting, StatusMounted, StatusHooksRunning})"

lemma decision_in_progress:
  "a_status rec \<in> {StatusIndexing, StatusMounting, StatusConverting} \<Longrightarrow> decision_ok pr e rec (checkInProgress st pr e rec)"
proof -
  assume st: "a_status rec \<in> {StatusIndexing, StatusMounting, StatusConverting}"
  have ok: "decision_ok pr e rec (mk_action rec ActionOK reason None)" for reason
    by (simp add: decision_ok_def mk_action_def)
  have fail: "decision_ok pr e rec (failInProgress rec reason)" if "a_status rec \<noteq> StatusConverting" for reason
    using st that by (auto simp: decision_ok_def mk_action_def failInProgress_def)
  have conv: "decision_ok pr e rec (mk_action rec ActionFailMount reason (Some StatusMountFailed))"
    if "a_status rec = StatusConverting" for reason
    using that by (simp add: decision_ok_def mk_action_def)
  show ?thesis
  proof (cases "a_status rec = StatusConverting")
    case True
    then show ?thesis using ok conv by (simp add: checkInProgress_def)
  next
    case False
    then show ?thesis using ok fail by (cases "live_verdict pr e rec") (simp_all add: checkInProgress_def)
  qed
qed

lemma decision_healthy:
  "a_status rec \<in> {StatusMounted, StatusHooksRunning} \<Longrightarrow> decision_ok pr e rec (checkHealthyMount pr e rec)"
  by (auto simp: decision_ok_def checkHealthyMount_def mk_action_def Let_def)

lemma decision_cleanup:
  "a_status rec \<in> {StatusDiscovered, StatusIndexFailed, StatusMountFailed} \<Longrightarrow>
   maybeCleanupIndex pr e rec = Some a \<Longrightarrow> decision_ok pr e rec a"
proof -
  assume st: "a_status rec \<in> {StatusDiscovered, StatusIndexFailed, StatusMountFailed}"
    and m: "maybeCleanupIndex pr e rec = Some a"
  from m have a: "a = mk_action rec ActionCleanupIndex ''partial index without successful mount'' None"
    and d: "ShouldDeletePartialIndex (a_status rec) (a_first_mounted_at rec) (strPtr (a_index_path rec))"
    unfolding maybeCleanupIndex_def Let_def by (metis option.distinct(1) option.inject)+
  from d have "\<not> ptr_set (a_first_mounted_at rec)"
    unfolding ShouldDeletePartialIndex_def by metis
  with st show ?thesis by (simp add: a decision_ok_def mk_action_def)
qed

lemma DecideOne_cases:
  assumes "DecideOne st0 pr e rec = Some a"
  shows "decision_ok pr e rec a"
proof -
  consider "a_status rec \<in> {StatusIndexing, StatusMounting, StatusConverting}"
    | "a_status rec \<in> {StatusMounted, StatusHooksRunning}"
    | "a_status rec \<in> {StatusDiscovered, StatusIndexFailed, StatusMountFailed}"
    | "a_status rec = StatusUnmounting" | "a_status rec = StatusAbsent"
    by (cases "a_status rec") auto
  then show ?thesis
  proof cases
    case 1
    then have "a = checkInProgress (normalize_settings st0) pr e rec"
      using assms by (auto simp: DecideOne_def Let_def)
    with 1 show ?thesis by (simp only: decision_in_progress)
  next
    case 2
    then have "a = checkHealthyMount pr e rec" using assms by (auto simp: DecideOne_def Let_def)
    with 2 show ?thesis by (simp only: decision_healthy)
  next
    case 3
    then have "maybeCleanupIndex pr e rec = Some a" using assms by (auto simp: DecideOne_def Let_def)
    with 3 show ?thesis by (rule decision_cleanup)
  next
    case 4
    then show ?thesis using assms by (auto simp: DecideOne_def Let_def decision_ok_def mk_action_def split: if_splits)
  next
    case 5
    then show ?thesis using assms by (simp add: DecideOne_def)
  qed
qed

text \<open>Every decision of a running pass is legal: it concerns the row it was made for, an absent row
  gets none, a failure goes along an edge of the transition graph, and an archive is only declared
  absent when its file is missing and it was mounted or being unmounted.\<close>

theorem DecideOne_legal:
  assumes "DecideOne st0 pr e rec = Some a"
  shows "act_archive_id a = a_archive_id rec \<and> a_status rec \<noteq> StatusAbsent
     \<and> (\<forall>t. act_target a = Some t \<longrightarrow>
          (t = StatusAbsent \<and> act_kind a = ActionMarkAbsent \<and> \<not> probe_path_exists pr e (a_archive_path rec))
          \<or> (t \<in> {StatusIndexFailed, StatusMountFailed} \<and> t \<in> set (ALLOWED_TRANSITIONS (a_status rec))))"
proof -
  have "a_status rec \<noteq> StatusAbsent" using assms by (auto simp: DecideOne_def)
  with DecideOne_cases [OF assms] show ?thesis by (auto simp: decision_ok_def)
qed

definition quiet_probes :: "unit probes" where
  "quiet_probes = \<lparr>pr_is_mount = Some (\<lambda>e p. is_mount (snd e) p), pr_pid_alive = None, pr_path_exists = None,
     pr_index_is_file = None, pr_clock = 0, pr_live = None, pr_convert_active = None\<rparr>"

definition empty_world :: world where
  "empty_world = \<lparr>w_files = [], w_dirs = [], w_mounts = [], w_alive = [], w_locked = []\<rparr>"

definition default_settings :: settings where
  "default_settings = \<lparr>set_mount_ready_timeout = 86400, set_max_attempts = 10, set_timeout_text = ''86400''\<rparr>"

theorem DecideOne_legal_witness:
  "\<exists>a. DecideOne default_settings quiet_probes ((), empty_world) (sample_row\<lparr>a_status := StatusMounted\<rparr>) = Some a
     \<and> act_target a = Some StatusAbsent \<and> act_archive_id a = ''x''"
proof -
  let ?rec = "sample_row\<lparr>a_status := StatusMounted\<rparr>" let ?e = "((), empty_world)"
  have "\<not> mount_ok quiet_probes ?e ?rec"
    by (simp add: mount_ok_def ptr_set_def sample_row_def discovered_row_def sample_insert_def)
  moreover have "\<not> probe_path_exists quiet_probes ?e (a_archive_path ?rec)"
    by (simp add: probe_path_exists_def quiet_probes_def pathIsRegularFile_def is_file_def file_size_def empty_world_def)
  ultimately have t: "act_target (checkHealthyMount quiet_probes ?e ?rec) = Some StatusAbsent"
    by (simp add: checkHealthyMount_def Let_def mk_action_def)
  have d: "DecideOne default_settings quiet_probes ?e ?rec = Some (checkHealthyMount quiet_probes ?e ?rec)"
    by (simp add: DecideOne_def)
  have "a_archive_id ?rec = ''x''" by (simp add: sample_row_def)
  with DecideOne_legal [OF d] t d show ?thesis by auto
qed

text \<open>A long index or mount in progress is never failed for not being a mountpoint yet: as long as
  its process is not known dead (no PID recorded, or alive, and no supervised child reported exited)
  and its start is within the timeout, the decision is OK; past the timeout it is a failure.\<close>

theorem in_progress_patience:
  assumes "a_status rec \<in> {StatusIndexing, StatusMounting}"
    and "\<forall>pid. a_mount_pid rec = Some pid \<longrightarrow> probe_pid_alive pr e pid"
    and "\<forall>f live. pr_live pr = Some f \<and> f e (a_archive_id rec) = Some live \<longrightarrow> \<not> ls_exited live"
  shows "\<exists>a. DecideOne st0 pr e rec = Some a \<and>
     (\<not> timed_out (normalize_settings st0) pr rec \<longrightarrow> act_kind a = ActionOK) \<and>
     (timed_out (normalize_settings st0) pr rec \<and> pr_live pr = None \<longrightarrow>
        act_target a = Some (if a_status rec = StatusIndexing then StatusIndexFailed else StatusMountFailed))"
proof -
  have dec: "DecideOne st0 pr e rec = Some (checkInProgress (normalize_settings st0) pr e rec)"
    using assms(1) by (auto simp: DecideOne_def)
  have "\<not> pid_dead pr e rec" using assms(2) by (auto simp: pid_dead_def split: option.split)
  moreover have "live_verdict pr e rec \<noteq> LiveDead" using assms(3) by (auto simp: live_verdict_def split: option.splits)
  moreover have "pr_live pr = None \<Longrightarrow> live_verdict pr e rec = LiveSilent" by (simp add: live_verdict_def)
  ultimately show ?thesis
    using assms(1) unfolding dec
    by (cases "live_verdict pr e rec") (auto simp: checkInProgress_def mk_action_def failInProgress_def)
qed

theorem in_progress_patience_witness:
  "\<exists>a. DecideOne default_settings quiet_probes ((), empty_world) (sample_row\<lparr>a_status := StatusIndexing\<rparr>) = Some a
     \<and> act_kind a = ActionOK"
proof -
  have "a_mount_pid (sample_row\<lparr>a_status := StatusIndexing\<rparr>) = None" "a_index_started_at sample_row = None"
    by (simp_all add: sample_row_def discovered_row_def)
  moreover have "parseISOToEpoch '''' = None" by (simp add: parseISOToEpoch_def)
  ultimately show ?thesis
    using in_progress_patience [of "sample_row\<lparr>a_status := StatusIndexing\<rparr>" quiet_probes "((), empty_world)" default_settings]
    by (simp add: quiet_probes_def timed_out_def strPtr_def)
qed

lemma checkHealthyMount_kind:
  "act_kind (checkHealthyMount pr e rec) = ActionOK \<longleftrightarrow> mount_ok pr e rec \<and> pid_ok pr e rec"
  by (simp add: checkHealthyMount_def Let_def mk_action_def)

text \<open>A mounted archive is left alone exactly when its mountpoint is mounted and its process is alive;
  otherwise it is moved to mount_failed while the archive file exists and to absent when it does not.\<close>

theorem healthy_mount_iff:
  assumes "a_status rec \<in> {StatusMounted, StatusHooksRunning}"
  shows "\<exists>a. DecideOne st0 pr e rec = Some a
     \<and> (act_kind a = ActionOK \<longleftrightarrow> mount_ok pr e rec \<and> pid_ok pr e rec)
     \<and> (\<not> (mount_ok pr e rec \<and> pid_ok pr e rec) \<longrightarrow>
          act_target a = Some (if probe_path_exists pr e (a_archive_path rec) then StatusMountFailed else StatusAbsent))"
proof -
  have "DecideOne st0 pr e rec = Some (checkHealthyMount pr e rec)"
    using assms by (auto simp: DecideOne_def)
  moreover have "\<not> (mount_ok pr e rec \<and> pid_ok pr e rec) \<Longrightarrow> act_target (checkHealthyMount pr e rec) =
      Some (if probe_path_exists pr e (a_archive_path rec) then StatusMountFailed else StatusAbsent)"
    by (simp add: checkHealthyMount_def Let_def mk_action_def)
  ultimately show ?thesis using checkHealthyMount_kind [of pr e rec] by simp
qed

theorem healthy_mount_iff_witness:
  "\<exists>a. DecideOne default_settings quiet_probes ((), empty_world) (sample_row\<lparr>a_status := StatusMounted\<rparr>) = Some a
     \<and> act_kind a \<noteq> ActionOK"
proof -
  have "\<not> mount_ok quiet_probes ((), empty_world) (sample_row\<lparr>a_status := StatusMounted\<rparr>)"
    by (simp add: mount_ok_def ptr_set_def sample_row_def discovered_row_def sample_insert_def)
  then show ?thesis
    using healthy_mount_iff [of "sample_row\<lparr>a_status := StatusMounted\<rparr>" default_settings quiet_probes "((), empty_world)"]
    by auto
qed

subsection \<open>Passes over the whole store\<close>

text \<open>The row an action of a running pass leaves.\<close>

definition outcome_of :: "archive \<Rightarrow> action option \<Rightarrow> archive \<Rightarrow> bool" where
  "outcome_of rec oa row \<longleftrightarrow> a_archive_id row = a_archive_id rec \<and> a_hooks_status row = a_hooks_status rec \<and>
    (case oa of
       None \<Rightarrow> row = rec
     | Some a \<Rightarrow> (if act_kind a = ActionOK then row = rec
         else (case act_target a of
             None \<Rightarrow> a_status row = a_status rec \<and> a_mount_pid row = a_mount_pid rec
           | Some t \<Rightarrow> a_status row = t \<and> a_mount_pid row = None
               \<and> (t \<noteq> StatusAbsent \<longrightarrow> a_mount_attempts row = a_mount_attempts rec + 1
                                      \<and> a_last_error row = Some (act_reason a)))))"

lemma Apply_outcome:
  assumes wf: "store_wf (fst st)" and rec: "GetArchive (fst st) (a_archive_id rec) = Some rec"
    and ok: "decision_ok pr' e' rec a"
  shows "\<exists>row. GetArchive (fst (snd (Apply utc st0 pr cb rec a st))) (a_archive_id rec) = Some row
     \<and> outcome_of rec (Some a) row"
proof -
  have safe: "safe_patch (fail_fields (normalize_settings st0) rec a)"
    using fail_fields_safe wf_attempts [OF wf rec] by blast
  consider (idle) "act_kind a = ActionOK" | (clean) "act_kind a = ActionCleanupIndex" "act_target a = None"
    | (absent) "act_kind a = ActionMarkAbsent" "act_target a = Some StatusAbsent"
    | (fail) "act_kind a \<in> {ActionFailIndex, ActionFailMount}" "act_target a = Some (fail_status a)"
        "fail_status a \<in> set (ALLOWED_TRANSITIONS (a_status rec))" "fail_status a \<noteq> StatusAbsent"
    using ok by (auto simp: decision_ok_def fail_status_def)
  then show ?thesis
  proof cases
    case idle
    then show ?thesis using rec by (simp add: Apply_def outcome_of_def)
  next
    case clean
    have "safe_patch (no_fields\<lparr>p_index_path := Some None\<rparr>)" by (simp add: safe_patch_def check_fields_def)
    note t = after_transition [OF wf rec this, of "a_status rec" utc "''''"]
    show ?thesis
    proof (cases "fst (ApplyPartialIndexCleanup (a_status rec) (a_first_mounted_at rec) (strPtr (a_index_path rec)) (snd (snd st)))")
      case True
      with clean t show ?thesis
        by (simp add: Apply_def applied_stores outcome_of_def validate_transition_def)
    next
      case False
      with clean rec show ?thesis by (simp add: Apply_def applied_stores outcome_of_def)
    qed
  next
    case absent
    then show ?thesis
      using after_MarkAbsent [OF wf rec, of utc "''''" "Some (act_reason a)"]
      by (auto simp: Apply_def applied_stores outcome_of_def dest: GetArchive_id)
  next
    case fail
    have "validate_transition (a_status rec) (fail_status a) = None"
      using fail(3) by (simp add: validate_transition_None)
    from after_transition [OF wf rec safe this] fail
    show ?thesis by (auto simp: Apply_def applied_stores outcome_of_def)
  qed
qed

text \<open>C1. A reconcile pass over a well-formed store treats every row by the decision made for it: rows
  that are absent, idle or healthy are unchanged, every failure takes effect (new status, PID
  cleared, one more attempt, the reason recorded), an archive found missing ends absent, and no
  row's hooks status, nor any hook row, is touched, so hooks that succeeded are not run again.\<close>

theorem Reconcile_effect:
  assumes "store_wf s" and "rec \<in> set (s_archives s)"
  shows "\<exists>e' row. GetArchive (fst (snd (Reconcile utc st0 pr cb (s, e)))) (a_archive_id rec) = Some row
     \<and> outcome_of rec (if a_status rec = StatusAbsent then None else DecideOne st0 pr e' rec) row
     \<and> store_wf (fst (snd (Reconcile utc st0 pr cb (s, e))))
     \<and> s_hooks (fst (snd (Reconcile utc st0 pr cb (s, e)))) = s_hooks s"
proof -
  let ?decide = "\<lambda>e rec. if a_status rec = StatusAbsent then None else DecideOne st0 pr e rec"
  have "\<exists>st'. store_wf (fst st') \<and> GetArchive (fst st') (a_archive_id rec) = Some rec
    \<and> GetArchive (fst (snd (Reconcile utc st0 pr cb (s, e)))) (a_archive_id rec) =
        (case ?decide (snd st') rec of
           None \<Rightarrow> Some rec
         | Some a \<Rightarrow> GetArchive (fst (snd (Apply utc st0 pr cb rec a st'))) (a_archive_id rec))"
    unfolding Reconcile_def fst_conv
    by (rule applied.pass_each)
      (simp_all add: assms all_archives_distinct wf_GetArchive)
  then obtain st' where st': "store_wf (fst st')" "GetArchive (fst st') (a_archive_id rec) = Some rec"
    "GetArchive (fst (snd (Reconcile utc st0 pr cb (s, e)))) (a_archive_id rec) =
        (case ?decide (snd st') rec of
           None \<Rightarrow> Some rec
         | Some a \<Rightarrow> GetArchive (fst (snd (Apply utc st0 pr cb rec a st'))) (a_archive_id rec))"
    by blast
  have "\<exists>row. GetArchive (fst (snd (Reconcile utc st0 pr cb (s, e)))) (a_archive_id rec) = Some row
     \<and> outcome_of rec (?decide (snd st') rec) row"
  proof (cases "?decide (snd st') rec")
    case None
    then show ?thesis using st'(3) by (simp add: outcome_of_def)
  next
    case (Some a)
    then have "decision_ok pr (snd st') rec a" by (auto simp: DecideOne_cases split: if_splits)
    from Apply_outcome [OF st'(1,2) this] Some st'(3) show ?thesis by simp
  qed
  moreover have "store_wf (fst (snd (Reconcile utc st0 pr cb (s, e))))"
    "s_hooks (fst (snd (Reconcile utc st0 pr cb (s, e)))) = s_hooks s"
    unfolding Reconcile_def fst_conv
    by (rule applied.pass_wf, simp add: assms(1)) (simp add: applied.pass_hooks)
  ultimately show ?thesis by blast
qed

definition no_callbacks :: "unit callbacks" where
  "no_callbacks = \<lparr>cb_drop_live = None, cb_unmount = None\<rparr>"

theorem Reconcile_effect_witness:
  "\<exists>row. GetArchive (fst (snd (Reconcile ''t1'' default_settings quiet_probes no_callbacks (sample_store, ((), empty_world))))) ''x'' = Some row
     \<and> a_hooks_status row = HooksNone"
proof -
  have "sample_row \<in> set (s_archives sample_store)" "a_archive_id sample_row = ''x''" "a_hooks_status sample_row = HooksNone"
    by (simp_all add: sample_store_def sample_row_def)
  with Reconcile_effect [OF sample_wf(1), of sample_row "''t1''" default_settings quiet_probes no_callbacks "((), empty_world)"]
  show ?thesis by (auto simp: outcome_of_def)
qed

text \<open>A row as the boot pass leaves it: idle, and without a process.\<close>

definition booted :: "archive \<Rightarrow> archive \<Rightarrow> bool" where
  "booted rec row \<longleftrightarrow> a_archive_id row = a_archive_id rec \<and> a_hooks_status row = a_hooks_status rec
     \<and> (a_status rec \<noteq> StatusAbsent \<longrightarrow> a_mount_pid row = None)
     \<and> a_status row \<in> {StatusDiscovered, StatusIndexFailed, StatusMountFailed, StatusAbsent}
     \<and> (a_status rec \<in> {StatusMounted, StatusHooksRunning} \<longrightarrow> a_status row \<in> {StatusMountFailed, StatusAbsent})
     \<and> (a_status rec \<in> {StatusDiscovered, StatusIndexFailed, StatusMountFailed, StatusAbsent} \<longrightarrow> a_status row = a_status rec)"

lemma boot_requeue:
  assumes wf: "store_wf (fst st)" and rec: "GetArchive (fst st) (a_archive_id rec) = Some rec"
    and a: "act_kind a = ActionRequeue" "act_target a = Some t"
    and t: "validate_transition (a_status rec) t = None" "t \<in> {StatusDiscovered, StatusIndexFailed, StatusMountFailed}"
      "a_status rec \<in> {StatusDiscovered, StatusIndexFailed, StatusMountFailed} \<longrightarrow> t = a_status rec"
      "a_status rec \<notin> {StatusMounted, StatusHooksRunning, StatusAbsent}"
  shows "\<exists>row. GetArchive (fst (snd (Apply utc st0 pr cb rec a st))) (a_archive_id rec) = Some row \<and> booted rec row"
  using after_transition [OF wf rec requeue_fields_safe t(1)] a t
  by (auto simp: Apply_def applied_stores booted_def)

lemma boot_remount:
  assumes wf: "store_wf (fst st)" and rec: "GetArchive (fst st) (a_archive_id rec) = Some rec"
    and a: "act_kind a = ActionRequestRemount" "a_status rec \<in> {StatusMounted, StatusHooksRunning}"
  shows "\<exists>row. GetArchive (fst (snd (Apply utc st0 pr cb rec a st))) (a_archive_id rec) = Some row \<and> booted rec row"
proof -
  have "safe_patch (no_fields\<lparr>p_mount_pid := Some None, p_mount_retryable := Some True\<rparr>)"
    by (simp add: safe_patch_def check_fields_def)
  moreover have "validate_transition (a_status rec) StatusMountFailed = None"
    using a(2) by (auto simp: validate_transition_def)
  ultimately show ?thesis
    using after_transition [OF wf rec] a by (auto simp: Apply_def applied_stores booted_def)
qed

lemma boot_absent:
  assumes wf: "store_wf (fst st)" and rec: "GetArchive (fst st) (a_archive_id rec) = Some rec"
    and a: "act_kind a = ActionMarkAbsent" "a_status rec \<in> {StatusMounted, StatusHooksRunning, StatusUnmounting, StatusConverting}"
  shows "\<exists>row. GetArchive (fst (snd (Apply utc st0 pr cb rec a st))) (a_archive_id rec) = Some row \<and> booted rec row"
  using after_MarkAbsent [OF wf rec, of utc "''''" "Some (act_reason a)"] a
  by (auto simp: Apply_def applied_stores booted_def dest: GetArchive_id)

lemma requeueTarget_ok:
  "a_status rec \<in> {StatusIndexing, StatusMounting, StatusUnmounting, StatusConverting} \<Longrightarrow>
   validate_transition (a_status rec) (requeueTarget rec) = None \<and> requeueTarget rec \<in> {StatusDiscovered, StatusMountFailed}"
  by (auto simp: requeueTarget_def validate_transition_def)

lemma PlanBoot_cases:
  assumes "PlanBoot pr e rec = oa"
  shows "(oa = None \<and> (a_status rec = StatusAbsent
        \<or> a_status rec \<in> {StatusDiscovered, StatusIndexFailed, StatusMountFailed} \<and> a_mount_pid rec = None))
    \<or> (\<exists>a t. oa = Some a \<and> act_kind a = ActionRequeue \<and> act_target a = Some t
        \<and> (a_status rec \<in> {StatusIndexing, StatusMounting, StatusUnmounting, StatusConverting} \<and> t = requeueTarget rec
           \<or> a_status rec \<in> {StatusDiscovered, StatusIndexFailed, StatusMountFailed} \<and> t = a_status rec))
    \<or> (\<exists>a. oa = Some a \<and> act_kind a = ActionRequestRemount \<and> a_status rec \<in> {StatusMounted, StatusHooksRunning})
    \<or> (\<exists>a. oa = Some a \<and> act_kind a = ActionMarkAbsent
        \<and> a_status rec \<in> {StatusMounted, StatusHooksRunning, StatusUnmounting, StatusConverting})"
  unfolding assms [symmetric]
  by (cases "a_status rec") (simp_all add: PlanBoot_def mk_action_def Let_def)

lemma boot_one:
  assumes wf: "store_wf (fst st)" and rec: "GetArchive (fst st) (a_archive_id rec) = Some rec"
  shows "\<exists>row. (case PlanBoot pr' e' rec of None \<Rightarrow> Some rec
      | Some a \<Rightarrow> GetArchive (fst (snd (Apply utc st0 pr cb rec a st))) (a_archive_id rec)) = Some row \<and> booted rec row"
  using PlanBoot_cases [OF refl, of pr' e' rec]
proof (elim disjE exE conjE)
  assume "PlanBoot pr' e' rec = None" "a_status rec = StatusAbsent"
  then show ?thesis by (simp add: booted_def)
next
  assume "PlanBoot pr' e' rec = None" "a_status rec \<in> {StatusDiscovered, StatusIndexFailed, StatusMountFailed}"
    "a_mount_pid rec = None"
  then show ?thesis by (auto simp: booted_def)
next
  fix a t
  assume a: "PlanBoot pr' e' rec = Some a" "act_kind a = ActionRequeue" "act_target a = Some t" "t = requeueTarget rec"
    and s: "a_status rec \<in> {StatusIndexing, StatusMounting, StatusUnmounting, StatusConverting}"
  from boot_requeue [OF wf rec a(2,3)] requeueTarget_ok [OF s] a s show ?thesis by auto
next
  fix a t
  assume a: "PlanBoot pr' e' rec = Some a" "act_kind a = ActionRequeue" "act_target a = Some t" "t = a_status rec"
    and s: "a_status rec \<in> {StatusDiscovered, StatusIndexFailed, StatusMountFailed}"
  have "validate_transition (a_status rec) t = None" using a by (simp add: validate_transition_def)
  from boot_requeue [OF wf rec a(2,3) this] a s show ?thesis by auto
next
  fix a assume a: "PlanBoot pr' e' rec = Some a" "act_kind a = ActionRequestRemount" "a_status rec \<in> {StatusMounted, StatusHooksRunning}"
  from boot_remount [OF wf rec a(2,3)] a(1) show ?thesis by simp
next
  fix a assume a: "PlanBoot pr' e' rec = Some a" "act_kind a = ActionMarkAbsent"
    "a_status rec \<in> {StatusMounted, StatusHooksRunning, StatusUnmounting, StatusConverting}"
  from boot_absent [OF wf rec a(2,3)] a(1) show ?thesis by simp
qed

text \<open>After the boot pass nothing pretends to be in flight: every row of a well-formed store is in
  discovered, index_failed, mount_failed or absent, no row that was not absent keeps a PID of the previous
  process, what was mounted is queued for remount (or absent if its file is gone), idle rows keep
  their status, and no hooks status or hook row changes, so nothing that succeeded runs again.\<close>

theorem Boot_clears:
  assumes "store_wf s" and "rec \<in> set (s_archives s)"
  shows "(\<exists>row. GetArchive (fst (snd (Boot utc st0 pr cb (s, e)))) (a_archive_id rec) = Some row \<and> booted rec row)
     \<and> store_wf (fst (snd (Boot utc st0 pr cb (s, e))))
     \<and> s_hooks (fst (snd (Boot utc st0 pr cb (s, e)))) = s_hooks s"
proof -
  have "\<exists>st'. store_wf (fst st') \<and> GetArchive (fst st') (a_archive_id rec) = Some rec
    \<and> GetArchive (fst (snd (Boot utc st0 pr cb (s, e)))) (a_archive_id rec) =
        (case PlanBoot pr (snd st') rec of
           None \<Rightarrow> Some rec
         | Some a \<Rightarrow> GetArchive (fst (snd (Apply utc st0 pr cb rec a st'))) (a_archive_id rec))"
    unfolding Boot_def fst_conv
    by (rule applied.pass_each) (simp_all add: assms all_archives_distinct wf_GetArchive)
  then obtain st' where st': "store_wf (fst st')" "GetArchive (fst st') (a_archive_id rec) = Some rec"
    "GetArchive (fst (snd (Boot utc st0 pr cb (s, e)))) (a_archive_id rec) =
        (case PlanBoot pr (snd st') rec of
           None \<Rightarrow> Some rec
         | Some a \<Rightarrow> GetArchive (fst (snd (Apply utc st0 pr cb rec a st'))) (a_archive_id rec))" by blast
  have "\<exists>row. GetArchive (fst (snd (Boot utc st0 pr cb (s, e)))) (a_archive_id rec) = Some row \<and> booted rec row"
    unfolding st'(3) by (rule boot_one [OF st'(1,2)])
  moreover have "store_wf (fst (snd (Boot utc st0 pr cb (s, e))))"
    "s_hooks (fst (snd (Boot utc st0 pr cb (s, e)))) = s_hooks s"
    unfolding Boot_def fst_conv
    by (rule applied.pass_wf, simp add: assms(1)) (simp add: applied.pass_hooks)
  ultimately show ?thesis by blast
qed

theorem Boot_clears_witness:
  "\<exists>row. GetArchive (fst (snd (Boot ''t1'' default_settings quiet_probes no_callbacks (sample_store, ((), empty_world))))) ''x'' = Some row
     \<and> a_mount_pid row = None"
proof -
  have r: "sample_row \<in> set (s_archives sample_store)" "a_archive_id sample_row = ''x''" "a_status sample_row = StatusDiscovered"
    by (simp_all add: sample_store_def sample_row_def)
  with Boot_clears [OF sample_wf(1), of sample_row "''t1''" default_settings quiet_probes no_callbacks "((), empty_world)"]
  show ?thesis by (auto simp: booted_def)
qed



end
