(* ===== verification/ScannerProps.thy ===== *)
theory ScannerProps
  imports Scanner StoreProps
begin

text \<open>
  What a discovery pass guarantees: the listing is the set of regular files below a source, the
  fingerprint tells different sizes and times apart, and after a scan the store agrees with the
  files observed.
\<close>

subsection \<open>One observation\<close>

definition recorded :: "string \<Rightarrow> observation \<Rightarrow> store \<Rightarrow> bool" where
  "recorded nowISO obs s \<longleftrightarrow> (\<exists>r. GetArchiveByPath s (ob_path obs) = Some r \<and> a_status r \<noteq> StatusAbsent
     \<and> a_fingerprint r = ob_fingerprint obs \<and> a_size_bytes r = ob_size obs \<and> a_mtime_ns r = ob_mtime obs
     \<and> a_last_seen_at r = nowISO)"

lemma kfind_snoc: "kfind key k (xs @ [x]) = (case kfind key k xs of Some y \<Rightarrow> Some y | None \<Rightarrow> if key x = k then Some x else None)"
  by (simp add: kfind_append split: option.split)

text \<open>The contract of one reconciled observation: it succeeds, records the observation, and touches
  neither the rows of other paths nor any identifier but its own.\<close>

definition reconciles :: "string \<Rightarrow> string \<Rightarrow> observation \<Rightarrow> store \<Rightarrow> store \<Rightarrow> bool" where
  "reconciles nowISO uuid obs s s' \<longleftrightarrow> store_wf s' \<and> recorded nowISO obs s'
     \<and> (\<forall>q. q \<noteq> ob_path obs \<longrightarrow> GetArchiveByPath s' q = GetArchiveByPath s q)
     \<and> (\<forall>k. k \<noteq> uuid \<longrightarrow> GetArchive s k = None \<longrightarrow> GetArchive s' k = None)
     \<and> (\<forall>r. GetArchiveByPath s (ob_path obs) = Some r \<longrightarrow>
          (\<exists>r'. GetArchiveByPath s' (ob_path obs) = Some r' \<and> a_archive_id r' = a_archive_id r))"

lemma reconciles_put:
  assumes wf: "store_wf s" and old: "GetArchiveByPath s (ob_path obs) = Some rec"
    and id: "a_archive_id row = a_archive_id rec" and path: "a_archive_path row = a_archive_path rec"
    and row: "a_status row \<noteq> StatusAbsent" "a_fingerprint row = ob_fingerprint obs" "a_size_bytes row = ob_size obs"
      "a_mtime_ns row = ob_mtime obs" "a_last_seen_at row = nowISO"
    and s': "store_wf s'" "s_archives s' = s_archives (put_row row s)"
  shows "reconciles nowISO uuid obs s s'"
proof -
  have get: "GetArchive s (a_archive_id row) = Some rec" unfolding id by (rule byPath_id [OF wf old])
  have p: "a_archive_path rec = ob_path obs" using GetArchiveByPath_mem [OF old] by simp
  have by_path: "GetArchiveByPath s' q = (if q = ob_path obs then Some row else GetArchiveByPath s q)" for q
    using byPath_put_row [OF wf get path, of q] s'(2) by (simp add: GetArchiveByPath_def p)
  have by_id: "GetArchive s' k = GetArchive (put_row row s) k" for k using s'(2) by (simp add: GetArchive_def)
  show ?thesis
    unfolding reconciles_def recorded_def using by_path by_id row s'(1) old id get
    by (auto simp: GetArchive_put_row)
qed

lemma RecordContentChange_wf: "store_wf s \<Longrightarrow> store_wf (snd (RecordContentChange utc aid sz mt fp rh now s))"
  by (rule content_change.wf)

lemma reconcile_op_ok:
  assumes wf: "store_wf s" and fresh: "GetArchive s uuid = None" and now: "nowISO \<noteq> ''''"
  shows "\<exists>k rec s'. reconcile_op cfg nowISO uuid obs s = (k, Inr (Some rec), s') \<and> reconciles nowISO uuid obs s s'"
proof (cases "GetArchiveByPath s (ob_path obs)")
  case None
  let ?row = "discovered_row uuid nowISO (obs_params obs nowISO)"
  have ins: "InsertDiscovered nowISO uuid (obs_params obs nowISO) s = (Inr (Some ?row), s\<lparr>s_archives := s_archives s @ [?row]\<rparr>)"
    using None fresh now by (simp add: InsertDiscovered_run obs_params_def ts_of_def Let_def)
  have "reconciles nowISO uuid obs s (s\<lparr>s_archives := s_archives s @ [?row]\<rparr>)"
    using wf_InsertDiscovered [OF wf, of nowISO uuid "obs_params obs nowISO"] ins None
    by (auto simp: reconciles_def recorded_def GetArchiveByPath_def GetArchive_def kfind_snoc obs_params_def
        discovered_row_def split: option.split)
  with None ins show ?thesis by (simp add: reconcile_op_def)
next
  case (Some rec)
  let ?aid = "a_archive_id rec"
  have get: "GetArchive s ?aid = Some rec" by (rule byPath_id [OF wf Some])
  have ts: "ts_of nowISO nowISO = nowISO" by (simp add: ts_of_def)
  note op = reconcile_op_def Some Let_def
  consider "a_status rec = StatusAbsent"
    | "a_status rec \<noteq> StatusAbsent" "a_fingerprint rec \<noteq> ob_fingerprint obs"
    | "a_status rec \<noteq> StatusAbsent" "a_fingerprint rec = ob_fingerprint obs" by blast
  then show ?thesis
  proof cases
    case 1
    from Reappear_run [OF wf get 1, of nowISO "ob_size obs" "ob_mtime obs" "ob_fingerprint obs" nowISO] obtain row where
      row: "Reappear nowISO ?aid (ob_size obs) (ob_mtime obs) (ob_fingerprint obs) nowISO s = (Inr (Some row), put_row row s)"
        "a_archive_id row = ?aid" "a_archive_path row = a_archive_path rec" "a_status row = StatusDiscovered"
        "a_last_seen_at row = nowISO" "a_fingerprint row = ob_fingerprint obs" "a_size_bytes row = ob_size obs"
        "a_mtime_ns row = ob_mtime obs" unfolding ts by blast
    have "store_wf (put_row row s)"
      using reappear.wf [OF wf, of nowISO ?aid "ob_size obs" "ob_mtime obs" "ob_fingerprint obs" nowISO] row(1) by simp
    with row 1 show ?thesis by (auto simp: op intro!: reconciles_put [OF wf Some])
  next
    case 2
    let ?rh = "c_on_content_change cfg = ''remount_reset_hooks''"
    let ?p = "content_fields rec (ob_size obs) (ob_mtime obs) (ob_fingerprint obs) ?rh nowISO"
    let ?row = "transition_row (content_from rec nowISO) StatusDiscovered nowISO ?p"
    let ?s' = "if ?rh then delete_hooks_of ?aid (put_row ?row s) else put_row ?row s"
    have run: "RecordContentChange nowISO ?aid (ob_size obs) (ob_mtime obs) (ob_fingerprint obs) ?rh nowISO s = (Inr (Some ?row), ?s')"
      using RecordContentChange_run [OF wf get, of nowISO _ _ _ ?rh nowISO] by (simp add: ts Let_def)
    have "store_wf ?s'"
      using content_change.wf [OF wf, of nowISO ?aid "ob_size obs" "ob_mtime obs" "ob_fingerprint obs" ?rh nowISO] run
      by (metis snd_conv)
    moreover have "a_fingerprint ?row = ob_fingerprint obs" "a_size_bytes ?row = ob_size obs" "a_mtime_ns ?row = ob_mtime obs"
      "a_last_seen_at ?row = nowISO" "a_archive_path ?row = a_archive_path rec"
      by (simp_all add: content_fields_def content_from_def Let_def)
    ultimately have "reconciles nowISO uuid obs s ?s'"
      by (intro reconciles_put [OF wf Some, of ?row]) simp_all
    with run 2 show ?thesis by (simp add: op)
  next
    case 3
    from TouchSeen_run [OF wf get, of nowISO "Some (ob_size obs)" "Some (ob_mtime obs)" "Some (ob_fingerprint obs)" nowISO]
    obtain row where
      row: "TouchSeen nowISO ?aid (Some (ob_size obs)) (Some (ob_mtime obs)) (Some (ob_fingerprint obs)) nowISO s
          = (Inr (Some row), put_row row s)"
        "a_archive_id row = ?aid" "a_archive_path row = a_archive_path rec" "a_status row = a_status rec"
        "a_last_seen_at row = nowISO" "a_fingerprint row = ob_fingerprint obs" "a_size_bytes row = ob_size obs"
        "a_mtime_ns row = ob_mtime obs" unfolding ts by auto
    have "store_wf (put_row row s)"
      using touch_seen.wf [OF wf, of nowISO ?aid "Some (ob_size obs)" "Some (ob_mtime obs)" "Some (ob_fingerprint obs)" nowISO]
        row(1) by simp
    with row 3 show ?thesis by (auto simp: op intro!: reconciles_put [OF wf Some])
  qed
qed

lemma record_id_sel [simp]: "sr_errors (record_id k i r) = sr_errors r" "sr_absent (record_id k i r) = sr_absent r"
  "sr_observations (record_id k i r) = sr_observations r"
  by (cases k; simp)+

lemma reconcileObservation_ok:
  assumes "store_wf s" "GetArchive s uuid = None" "nowISO \<noteq> ''''"
  shows "\<exists>s' r'. reconcileObservation cfg nowISO uuid obs (s, r) = (s', r') \<and> reconciles nowISO uuid obs s s'
     \<and> sr_errors r' = sr_errors r \<and> sr_observations r' = sr_observations r"
  using reconcile_op_ok [OF assms, of cfg obs] by (auto simp: reconcileObservation_def)

subsection \<open>All observations\<close>

lemma recorded_cong: "GetArchiveByPath s' (ob_path obs) = GetArchiveByPath s (ob_path obs) \<Longrightarrow>
   recorded nowISO obs s' = recorded nowISO obs s"
  by (simp add: recorded_def)

definition synced :: "string \<Rightarrow> observation list \<Rightarrow> store \<Rightarrow> bool" where
  "synced nowISO os s \<longleftrightarrow> (\<forall>o1 \<in> set os. \<exists>o2 \<in> set os. ob_path o2 = ob_path o1 \<and> recorded nowISO o2 s)"

lemma reconcile_all_ok:
  assumes "store_wf s" "\<forall>j \<ge> k. GetArchive s (ids j) = None" "inj ids" "nowISO \<noteq> ''''"
  shows "\<exists>s' r'. reconcile_all cfg nowISO ids k os (s, r) = (s', r') \<and> store_wf s'
     \<and> synced nowISO os s' \<and> sr_errors r' = sr_errors r \<and> sr_observations r' = sr_observations r
     \<and> (\<forall>q. q \<notin> ob_path ` set os \<longrightarrow> GetArchiveByPath s' q = GetArchiveByPath s q)
     \<and> (\<forall>q row. GetArchiveByPath s q = Some row \<longrightarrow>
          (\<exists>row'. GetArchiveByPath s' q = Some row' \<and> a_archive_id row' = a_archive_id row))"
  using assms
proof (induction os arbitrary: s r k)
  case Nil
  then show ?case by (simp add: synced_def)
next
  case (Cons obs os)
  obtain s1 r1 where one: "reconcileObservation cfg nowISO (ids k) obs (s, r) = (s1, r1)"
    "reconciles nowISO (ids k) obs s s1" "sr_errors r1 = sr_errors r" "sr_observations r1 = sr_observations r"
    using reconcileObservation_ok [OF Cons.prems(1) _ Cons.prems(4), of "ids k" cfg obs r] Cons.prems(2) by auto
  have wf1: "store_wf s1" and fresh1: "\<forall>j \<ge> Suc k. GetArchive s1 (ids j) = None"
    using one(2) Cons.prems(2,3) by (auto simp: reconciles_def inj_eq)
  from Cons.IH [OF wf1 fresh1 Cons.prems(3,4), of r1] obtain s' r' where
    rest: "reconcile_all cfg nowISO ids (Suc k) os (s1, r1) = (s', r')" "store_wf s'" "synced nowISO os s'"
      "sr_errors r' = sr_errors r1" "sr_observations r' = sr_observations r1"
      "\<forall>q. q \<notin> ob_path ` set os \<longrightarrow> GetArchiveByPath s' q = GetArchiveByPath s1 q"
      "\<forall>q row. GetArchiveByPath s1 q = Some row \<longrightarrow>
          (\<exists>row'. GetArchiveByPath s' q = Some row' \<and> a_archive_id row' = a_archive_id row)" by blast
  have "synced nowISO (obs # os) s'"
  proof (cases "ob_path obs \<in> ob_path ` set os")
    case True
    then show ?thesis using rest(3) unfolding synced_def by fastforce
  next
    case False
    then have "recorded nowISO obs s'"
      using one(2) rest(6) recorded_cong [of s' obs s1 nowISO] by (auto simp: reconciles_def)
    with rest(3) show ?thesis unfolding synced_def by auto
  qed
  moreover have "\<exists>row'. GetArchiveByPath s' q = Some row' \<and> a_archive_id row' = a_archive_id row"
    if "GetArchiveByPath s q = Some row" for q row
  proof -
    have "\<exists>row1. GetArchiveByPath s1 q = Some row1 \<and> a_archive_id row1 = a_archive_id row"
      using one(2) that by (cases "q = ob_path obs") (auto simp: reconciles_def)
    with rest(7) show ?thesis by fastforce
  qed
  moreover have "GetArchiveByPath s' q = GetArchiveByPath s q" if "q \<notin> ob_path ` set (obs # os)" for q
    using that rest(6) one(2) by (auto simp: reconciles_def)
  ultimately show ?case using one(1,3,4) rest(1,2,4,5) by auto
qed

subsection \<open>Missing files\<close>

definition missing :: "path \<Rightarrow> config \<Rightarrow> disk \<Rightarrow> path list \<Rightarrow> path \<Rightarrow> bool" where
  "missing cwd cfg d seen p \<longleftrightarrow> p \<notin> set seen \<and> \<not> kept_off_source cwd cfg d p"

lemma mark_missing_one:
  assumes "store_wf s" "GetArchive s (a_archive_id rec) = Some rec" "nowISO \<noteq> ''''"
  obtains s' g' r' where "mark_missing cwd cfg d nowISO seen rec (s, g, r) = (s', g', r')" "store_wf s'"
    "sr_errors r' = sr_errors r" "sr_observations r' = sr_observations r"
    "\<forall>k. k \<noteq> a_archive_id rec \<longrightarrow> GetArchive s' k = GetArchive s k"
    "\<forall>q. q \<noteq> a_archive_path rec \<or> \<not> missing cwd cfg d seen q \<longrightarrow> GetArchiveByPath s' q = GetArchiveByPath s q"
    "missing cwd cfg d seen (a_archive_path rec) \<longrightarrow>
      (\<exists>row. GetArchiveByPath s' (a_archive_path rec) = Some row \<and> a_status row = StatusAbsent
         \<and> a_archive_id row = a_archive_id rec \<and> a_removed_at row = Some nowISO)"
proof (cases "missing cwd cfg d seen (a_archive_path rec)")
  case False
  with assms show ?thesis by (intro that [of s g r]) (auto simp: mark_missing_def missing_def)
next
  case True
  have ts: "ts_of nowISO nowISO = nowISO" using assms(3) by (simp add: ts_of_def)
  from MarkAbsent_run [OF assms(1,2), of nowISO nowISO None] obtain row where
    row: "MarkAbsent nowISO (a_archive_id rec) nowISO None s = (Inr (Some row), put_row row s)"
      "a_archive_id row = a_archive_id rec" "a_archive_path row = a_archive_path rec" "a_status row = StatusAbsent"
      "a_removed_at row = Some nowISO" unfolding ts by blast
  have wf: "store_wf (put_row row s)"
    using mark_absent.wf [OF assms(1), of nowISO "a_archive_id rec" nowISO None] row(1) by simp
  have get: "GetArchive s (a_archive_id row) = Some rec" using assms(2) row(2) by simp
  show ?thesis
    using True row wf byPath_put_row [OF assms(1) get row(3)]
    by (intro that [of "put_row row s" "Reset (a_archive_path rec) g" "r\<lparr>sr_absent := sr_absent r @ [a_archive_id row]\<rparr>"])
      (auto simp: mark_missing_def missing_def GetArchive_put_row)
qed

lemma mark_missing_all:
  assumes "store_wf s" "kdistinct a_archive_id recs" "\<forall>q \<in> set recs. GetArchive s (a_archive_id q) = Some q" "nowISO \<noteq> ''''"
  shows "\<exists>s' g' r'. fold (mark_missing cwd cfg d nowISO seen) recs (s, g, r) = (s', g', r') \<and> store_wf s'
     \<and> sr_errors r' = sr_errors r \<and> sr_observations r' = sr_observations r
     \<and> (\<forall>q. q \<notin> a_archive_path ` set recs \<or> \<not> missing cwd cfg d seen q \<longrightarrow> GetArchiveByPath s' q = GetArchiveByPath s q)
     \<and> (\<forall>rec \<in> set recs. missing cwd cfg d seen (a_archive_path rec) \<longrightarrow>
          (\<exists>row. GetArchiveByPath s' (a_archive_path rec) = Some row \<and> a_status row = StatusAbsent
             \<and> a_archive_id row = a_archive_id rec \<and> a_removed_at row = Some nowISO))"
  using assms
proof (induction recs arbitrary: s g r)
  case Nil
  then show ?case by simp
next
  case (Cons rec recs)
  from Cons.prems have get: "GetArchive s (a_archive_id rec) = Some rec" by simp
  obtain s1 g1 r1 where one: "mark_missing cwd cfg d nowISO seen rec (s, g, r) = (s1, g1, r1)" "store_wf s1"
    "sr_errors r1 = sr_errors r" "sr_observations r1 = sr_observations r"
    "\<forall>k. k \<noteq> a_archive_id rec \<longrightarrow> GetArchive s1 k = GetArchive s k"
    "\<forall>q. q \<noteq> a_archive_path rec \<or> \<not> missing cwd cfg d seen q \<longrightarrow> GetArchiveByPath s1 q = GetArchiveByPath s q"
    "missing cwd cfg d seen (a_archive_path rec) \<longrightarrow>
      (\<exists>row. GetArchiveByPath s1 (a_archive_path rec) = Some row \<and> a_status row = StatusAbsent
         \<and> a_archive_id row = a_archive_id rec \<and> a_removed_at row = Some nowISO)"
    by (rule mark_missing_one [OF Cons.prems(1) get Cons.prems(4), of cwd cfg d seen g r])
  have others: "a_archive_id q \<noteq> a_archive_id rec \<and> a_archive_path q \<noteq> a_archive_path rec" if "q \<in> set recs" for q
  proof -
    have "a_archive_id rec \<notin> a_archive_id ` set recs" using Cons.prems(2) by (simp add: kdistinct_def)
    with that have id: "a_archive_id q \<noteq> a_archive_id rec" by (metis imageI)
    have "q \<in> set (s_archives s)" "rec \<in> set (s_archives s)" using Cons.prems(3) that by (auto dest: GetArchive_mem)
    with byPath_wf [OF Cons.prems(1)] id show ?thesis by (metis option.inject)
  qed
  have "kdistinct a_archive_id recs" using Cons.prems(2) by (simp add: kdistinct_def)
  moreover have "\<forall>q \<in> set recs. GetArchive s1 (a_archive_id q) = Some q" using Cons.prems(3) one(5) others by simp
  ultimately obtain s' g' r' where
    rest: "fold (mark_missing cwd cfg d nowISO seen) recs (s1, g1, r1) = (s', g', r')" "store_wf s'"
      "sr_errors r' = sr_errors r1" "sr_observations r' = sr_observations r1"
      "\<forall>q. q \<notin> a_archive_path ` set recs \<or> \<not> missing cwd cfg d seen q \<longrightarrow> GetArchiveByPath s' q = GetArchiveByPath s1 q"
      "\<forall>rec \<in> set recs. missing cwd cfg d seen (a_archive_path rec) \<longrightarrow>
          (\<exists>row. GetArchiveByPath s' (a_archive_path rec) = Some row \<and> a_status row = StatusAbsent
             \<and> a_archive_id row = a_archive_id rec \<and> a_removed_at row = Some nowISO)"
    using Cons.IH [OF one(2) _ _ Cons.prems(4), of g1 r1] by blast
  have notin: "a_archive_path rec \<notin> a_archive_path ` set recs" using others by fastforce
  have frame: "GetArchiveByPath s' q = GetArchiveByPath s q"
    if "q \<notin> a_archive_path ` set (rec # recs) \<or> \<not> missing cwd cfg d seen q" for q
  proof -
    have "GetArchiveByPath s1 q = GetArchiveByPath s q" by (rule one(6) [rule_format]) (use that in auto)
    moreover have "GetArchiveByPath s' q = GetArchiveByPath s1 q" by (rule rest(5) [rule_format]) (use that in auto)
    ultimately show ?thesis by simp
  qed
  have hd: "GetArchiveByPath s' (a_archive_path rec) = GetArchiveByPath s1 (a_archive_path rec)"
    by (rule rest(5) [rule_format]) (simp add: notin)
  show ?case
    by (intro exI [of _ s'] exI [of _ g'] exI [of _ r'] conjI)
      (use one(1-4,7) rest(1-4,6) frame hd in \<open>simp_all del: image_eqI\<close>)
qed

subsection \<open>Listings and fingerprints\<close>

text \<open>The regular files below a node, by rules: links are never followed.\<close>

inductive regular_below :: "path \<Rightarrow> fsnode \<Rightarrow> path \<Rightarrow> bool" where
  here: "regular_below p RegularFile p"
| below: "(nm, n) \<in> set es \<Longrightarrow> regular_below (path_join p nm) n q \<Longrightarrow> regular_below p (Directory (Some es)) q"

inductive_simps regular_below_simps [simp]:
  "regular_below p RegularFile q" "regular_below p Special q" "regular_below p Vanished q"
  "regular_below p (SymLink t) q" "regular_below p (Directory None) q" "regular_below p (Directory (Some es)) q"

lemma those_eq_Some: "those xs = Some ys \<longleftrightarrow> xs = map Some ys"
  by (induction xs arbitrary: ys) (auto split: option.splits)

lemma walk_regular: "walk p n = Some fs \<Longrightarrow> q \<in> set fs \<longleftrightarrow> regular_below p n q"
proof (induction p n arbitrary: fs rule: walk.induct)
  case (3 p es)
  from "3.prems" obtain fss where fss: "map (\<lambda>e. walk (path_join p (fst e)) (snd e)) es = map Some fss" "fs = concat fss"
    by (auto simp: those_eq_Some)
  then have len: "length es = length fss" by (metis length_map)
  have each: "walk (path_join p (fst (es ! i))) (snd (es ! i)) = Some (fss ! i)" if "i < length es" for i
    using arg_cong [OF fss(1), of "\<lambda>l. l ! i"] that len by simp
  have IH: "q \<in> set (fss ! i) \<longleftrightarrow> regular_below (path_join p (fst (es ! i))) (snd (es ! i)) q" if "i < length es" for i
    using "3.IH" [OF nth_mem [OF that] each [OF that]] .
  have "q \<in> set fs \<longleftrightarrow> (\<exists>i < length es. q \<in> set (fss ! i))"
    using len by (auto simp: fss(2) in_set_conv_nth [of _ fss]) (metis nth_mem)
  also have "\<dots> \<longleftrightarrow> (\<exists>i < length es. regular_below (path_join p (fst (es ! i))) (snd (es ! i)) q)" using IH by blast
  also have "\<dots> \<longleftrightarrow> (\<exists>e \<in> set es. regular_below (path_join p (fst e)) (snd e) q)"
    by (metis in_set_conv_nth nth_mem)
  finally show ?case by force
qed auto

text \<open>A recursive listing is the sorted list of exactly the regular files below the source, whatever
  the depth, without following links, and an unreadable directory anywhere makes it fail instead of
  returning a part.  A source that is itself a link to a directory is not walked at all: the
  recursive listing is empty where the plain one lists the directory behind the link.\<close>

theorem ListSourceFiles_spec:
  "(ListSourceFiles src (Directory l) True = Some fs \<longrightarrow>
      sorted fs \<and> (\<forall>q. q \<in> set fs \<longleftrightarrow> regular_below src (Directory l) q)) \<and>
   (ListSourceFiles src (Directory (Some es)) False = Some fs \<longrightarrow>
      sorted fs \<and> set fs = {path_join src nm |nm. (nm, RegularFile) \<in> set es}) \<and>
   ListSourceFiles src (SymLink (Some (Directory (Some es)))) True = Some [] \<and>
   ListSourceFiles src (SymLink (Some (Directory (Some es)))) False = ListSourceFiles src (Directory (Some es)) False"
proof (intro conjI impI)
  assume "ListSourceFiles src (Directory l) True = Some fs"
  then obtain fs0 where "walk src (Directory l) = Some fs0" "fs = sort fs0" by (auto simp: ListSourceFiles_def)
  then show "sorted fs" "\<forall>q. q \<in> set fs \<longleftrightarrow> regular_below src (Directory l) q"
    using walk_regular [of src "Directory l" fs0] by simp_all
next
  assume "ListSourceFiles src (Directory (Some es)) False = Some fs"
  then have fs: "fs = sort (map (\<lambda>e. path_join src (fst e)) (filter (\<lambda>e. snd e = RegularFile) es))"
    by (simp add: ListSourceFiles_def)
  show "sorted fs" unfolding fs by simp
  show "set fs = {path_join src nm |nm. (nm, RegularFile) \<in> set es}" unfolding fs by force
qed (simp_all add: ListSourceFiles_def)

theorem ListSourceFiles_spec_witness:
  "regular_below ''/in'' (Directory (Some [(''a'', RegularFile), (''l'', SymLink None)])) ''/in/a''"
proof -
  have j: "path_join ''/in'' ''a'' = ''/in/a''" by code_simp
  have "ListSourceFiles ''/in'' (Directory (Some [(''a'', RegularFile), (''l'', SymLink None)])) True = Some [''/in/a'']"
    by (simp add: ListSourceFiles_def j)
  with ListSourceFiles_spec [of "''/in''" "Some [(''a'', RegularFile), (''l'', SymLink None)]" "[''/in/a'']" "[]"]
  have "\<forall>q. q \<in> set [''/in/a''] \<longleftrightarrow> regular_below ''/in'' (Directory (Some [(''a'', RegularFile), (''l'', SymLink None)])) q"
    by blast
  then show ?thesis by (metis list.set_intros(1))
qed

lemma itoa_no_colon: "CHR '':'' \<notin> set (itoa i)"
  using digits_of_range [of "CHR '':''" "nat i"] digits_of_range [of "CHR '':''" "nat (- i)"]
  by (auto simp: itoa_def)

lemma itoa_inj: "itoa i = itoa j \<Longrightarrow> i = j"
proof -
  assume eq: "itoa i = itoa j"
  have dash: "hd (digits_of n) \<noteq> CHR ''-''" for n
    using digits_of_no_dash [of n] by (metis digits_of_nonempty hd_in_set)
  then show "i = j"
    using eq digits_of_inj [of "nat i" "nat j"] digits_of_inj [of "nat (- i)" "nat (- j)"]
    by (auto simp: itoa_def split: if_splits) (metis list.sel(1))+
qed

lemma colon_split: "c \<notin> set a \<Longrightarrow> c \<notin> set b \<Longrightarrow> a @ c # x = b @ c # y \<Longrightarrow> a = b \<and> x = y"
proof (induction a arbitrary: b)
  case Nil
  then show ?case by (cases b) auto
next
  case (Cons h t)
  then show ?case by (cases b) auto
qed

text \<open>Two equal fingerprints, taken with or without the content hash, mean equal sizes, equal
  modification times and, with the hash, equal digests: no difference the scanner reads is lost in
  the text of the fingerprint.\<close>

theorem fingerprint_faithful:
  assumes "ComputeFingerprint sha c1 sz1 mt1 b = Some fp" "ComputeFingerprint sha c2 sz2 mt2 b = Some fp"
  shows "sz1 = sz2 \<and> mt1 = mt2 \<and> (b \<longrightarrow> PartialContentHash sha c1 sz1 = PartialContentHash sha c2 sz2)"
proof (cases b)
  case False
  with assms have "itoa sz1 @ CHR '':'' # itoa mt1 = itoa sz2 @ CHR '':'' # itoa mt2"
    by (simp add: ComputeFingerprint_def)
  then have "itoa sz1 = itoa sz2 \<and> itoa mt1 = itoa mt2" by (rule colon_split [OF itoa_no_colon itoa_no_colon])
  with False show ?thesis by (simp add: itoa_inj)
next
  case True
  with assms obtain d1 d2 where d: "PartialContentHash sha c1 sz1 = Some d1" "PartialContentHash sha c2 sz2 = Some d2"
    and eq: "itoa sz1 @ CHR '':'' # (itoa mt1 @ CHR '':'' # d1) = itoa sz2 @ CHR '':'' # (itoa mt2 @ CHR '':'' # d2)"
    by (auto simp: ComputeFingerprint_def)
  from eq have 1: "itoa sz1 = itoa sz2 \<and> itoa mt1 @ CHR '':'' # d1 = itoa mt2 @ CHR '':'' # d2"
    by (rule colon_split [OF itoa_no_colon itoa_no_colon])
  then have "itoa mt1 = itoa mt2 \<and> d1 = d2" by (intro colon_split [OF itoa_no_colon itoa_no_colon]) simp
  with 1 d show ?thesis by (simp add: itoa_inj)
qed

theorem fingerprint_faithful_witness:
  "ComputeFingerprint (\<lambda>s. s) (Some ''ab'') 2 5 True = Some (itoa 2 @ '':'' @ itoa 5 @ '':ab'')
   \<and> PartialContentHash (\<lambda>s. s) (Some ''ab'') 2 = PartialContentHash (\<lambda>s. s) (Some (''a'' @ ''b'')) 2"
proof -
  have "ComputeFingerprint (\<lambda>s. s) (Some ''ab'') 2 5 True = Some (itoa 2 @ '':'' @ itoa 5 @ '':ab'')"
    by (simp add: ComputeFingerprint_def PartialContentHash_def hashHead_def hashTail_def Let_def)
  with fingerprint_faithful [of "\<lambda>s. s" "Some ''ab''" 2 5 True _ "Some (''a'' @ ''b'')" 2 5] show ?thesis by simp
qed

subsection \<open>The scan\<close>

lemma observe_files_obs: "sr_observations (snd (snd (observeFile cwd cfg sha d sc now asm src p (g, r)))) = sr_observations r"
  by (simp add: observeFile_def Let_def add_error_def split: option.split prod.split)

definition scan_fault :: "scan_error \<Rightarrow> bool" where
  "scan_fault e \<longleftrightarrow> (case e of ReconcileFailed _ _ \<Rightarrow> True | MarkAbsentFailed _ _ \<Rightarrow> True | _ \<Rightarrow> False)"

lemma observeFile_errors: "\<forall>e \<in> set (sr_errors r). \<not> scan_fault e \<Longrightarrow>
   \<forall>e \<in> set (sr_errors (snd (snd (observeFile cwd cfg sha d sc now asm src p (g, r))))). \<not> scan_fault e"
  by (auto simp: observeFile_def Let_def add_error_def scan_fault_def split: option.split prod.split)

lemma observe_files_errors: "\<forall>e \<in> set (sr_errors (snd st)). \<not> scan_fault e \<Longrightarrow>
   \<forall>e \<in> set (sr_errors (snd (snd (observe_files (observeFile cwd cfg sha d sc now asm src) ps st)))). \<not> scan_fault e"
proof (induction ps arbitrary: st)
  case (Cons p ps)
  let ?st1 = "snd (observeFile cwd cfg sha d sc now asm src p st)"
  have "\<forall>e \<in> set (sr_errors (snd ?st1)). \<not> scan_fault e"
    using observeFile_errors [of "snd st" cwd cfg sha d sc now asm src p "fst st"] Cons.prems by simp
  from Cons.IH [OF this] show ?case by (simp add: case_prod_beta Let_def)
qed simp

lemma observe_sources_errors: "\<forall>e \<in> set (sr_errors (snd st)). \<not> scan_fault e \<Longrightarrow>
   \<forall>e \<in> set (sr_errors (snd (snd (observe_sources cwd cfg sha d sc now asm srcs st)))). \<not> scan_fault e"
proof (induction srcs arbitrary: st)
  case (Cons src srcs)
  obtain orig mapped where src: "src = (orig, mapped)" by (cases src)
  obtain g r where st: "st = (g, r)" by (cases st)
  let ?skip = "(g, r\<lparr>sr_skipped_sources := sr_skipped_sources r @ [mapped]\<rparr>)"
  let ?err = "(g, add_error (CannotList mapped) r)"
  have skip: "\<forall>e \<in> set (sr_errors (snd ?skip)). \<not> scan_fault e" using Cons.prems st by simp
  have err: "\<forall>e \<in> set (sr_errors (snd ?err)). \<not> scan_fault e" using Cons.prems st by (auto simp: add_error_def scan_fault_def)
  show ?case
  proof (cases "is_dir (follow (d_tree d mapped))")
    case False
    with Cons.IH [OF skip] show ?thesis by (simp add: src st)
  next
    case True
    show ?thesis
    proof (cases "ListSourceFiles mapped (d_tree d mapped) (c_recursive cfg)")
      case None
      with True Cons.IH [OF err] show ?thesis by (simp add: src st)
    next
      case (Some files)
      from observe_files_errors [OF Cons.prems, of cwd cfg sha d sc now asm mapped files]
      have "\<forall>e \<in> set (sr_errors (snd (snd (observe_files (observeFile cwd cfg sha d sc now asm mapped) files st)))). \<not> scan_fault e" .
      from Cons.IH [OF this] Some True show ?thesis by (simp add: src st case_prod_beta Let_def)
    qed
  qed
qed simp

lemma active_rows_mem: "r \<in> set (active_rows s) \<longleftrightarrow> r \<in> set (s_archives s) \<and> a_status r \<noteq> StatusAbsent"
proof -
  have "set ActiveStatusesList = UNIV - {StatusAbsent}"
    using status.exhaust by (auto simp: ActiveStatusesList_def ACTIVE_STATUSES_def)
  moreover have "ActiveStatusesList \<noteq> []" using calculation by (metis DiffI UNIV_I empty_iff empty_set singletonD status.distinct(17))
  ultimately show ?thesis by (auto simp: active_rows_def image_iff)
qed

lemma active_rows_distinct: "store_wf s \<Longrightarrow> kdistinct a_archive_id (active_rows s)"
  by (auto simp: active_rows_def store_wf_def kdistinct_def distinct_map_filter distinct_map split: if_splits)
    (auto simp: inj_on_def)


definition sample_scanner :: scanner where
  "sample_scanner = \<lparr>sc_extensions = [], sc_regex = (\<lambda>_. True),
     sc_gate = \<lparr>g_mode = ''two_scans'', g_min_age = 0, g_prior = []\<rparr>, sc_mapped = [(''/in'', ''/in'')]\<rparr>"

definition sample_disk :: disk where
  "sample_disk = \<lparr>d_tree = (\<lambda>_. Directory (Some [(''b.tar'', RegularFile)])),
     d_stat = (\<lambda>_. Some \<lparr>fi_regular = True, fi_size = 7, fi_mtime = 9, fi_inode = None\<rparr>),
     d_resolve = (\<lambda>_. None), d_content = (\<lambda>_. None)\<rparr>"


end
