(* ===== verification/EngineFacts.thy ===== *)
theory EngineFacts
  imports Engine StoreProps
begin

text \<open>
  The contract of an engine operation on one archive: it changes no row and no live child of
  another archive, adds and removes no row, and keeps the tables well formed.  Every operation of
  the engine is shown to meet it; the concurrency limits and the service tick rest on it.
\<close>

subsection \<open>Steps on one archive\<close>

definition touches :: "string \<Rightarrow> engine \<Rightarrow> engine \<Rightarrow> bool" where
  "touches aid e e' \<longleftrightarrow>
     map a_archive_id (s_archives (en_store e')) = map a_archive_id (s_archives (en_store e))
     \<and> (\<forall>k. k \<noteq> aid \<longrightarrow> GetArchive (en_store e') k = GetArchive (en_store e) k)
     \<and> (\<forall>k. k \<noteq> aid \<longrightarrow> live_get k e' = live_get k e)
     \<and> (store_wf (en_store e) \<longrightarrow> store_wf (en_store e'))"

lemma touches_refl [simp, intro]: "touches aid e e"
  by (simp add: touches_def)

lemma touches_trans: "touches aid e e1 \<Longrightarrow> touches aid e1 e2 \<Longrightarrow> touches aid e e2"
  by (simp add: touches_def)

lemma touches_wf: "touches aid e e' \<Longrightarrow> store_wf (en_store e) \<Longrightarrow> store_wf (en_store e')"
  by (simp add: touches_def)

lemma touches_known: "touches aid e e' \<Longrightarrow> GetArchive (en_store e') k = None \<longleftrightarrow> GetArchive (en_store e) k = None"
  unfolding touches_def GetArchive_def kfind_None_iff by (metis list.set_map)

lemma on_world_sel [simp]:
  "en_store (on_world f e) = en_store e" "en_live (on_world f e) = en_live e" "en_jobs (on_world f e) = en_jobs e"
  "en_pending (on_world f e) = en_pending e" "en_world (on_world f e) = f (en_world e)" "en_exits (on_world f e) = en_exits e"
  by (simp_all add: on_world_def)

lemma touches_same: "en_store e' = en_store e \<Longrightarrow> en_live e' = en_live e \<Longrightarrow> touches aid e e'"
  by (simp add: touches_def live_get_def)

lemma touches_on_world [simp, intro]: "touches aid e (on_world f e)"
  by (rule touches_same) simp_all

lemma touches_fields [simp, intro]:
  "touches aid e (e\<lparr>en_files := f\<rparr>)" "touches aid e (e\<lparr>en_jobs := js\<rparr>)" "touches aid e (e\<lparr>en_pending := ps\<rparr>)"
  "touches aid e (e\<lparr>en_exits := xs\<rparr>)"
  by (auto intro: touches_same)

lemma live_get_put: "live_get k (live_put m e) = (if k = mm_archive_id m then Some m else live_get k e)"
  by (simp add: live_get_def live_put_def kfind_kput)

lemma live_get_drop: "live_get k (dropLive aid e) = (if k = aid then None else live_get k e)"
  by (simp add: live_get_def dropLive_def kfind_kremove)

lemma live_sel [simp]: "en_store (live_put m e) = en_store e" "en_files (live_put m e) = en_files e"
  "en_store (dropLive aid e) = en_store e" "en_files (dropLive aid e) = en_files e" "en_jobs (dropLive aid e) = en_jobs e"
  "en_jobs (live_put m e) = en_jobs e" "en_pending (dropLive aid e) = en_pending e"
  by (simp_all add: live_put_def dropLive_def)

lemma touches_live_put: "mm_archive_id m = aid \<Longrightarrow> touches aid e (live_put m e)"
  by (simp add: touches_def live_get_put)

lemma touches_dropLive [simp, intro]: "touches aid e (dropLive aid e)"
  by (simp add: touches_def live_get_drop)

lemma store_do_run: "store_do m e = (case m (en_store e) of (r, s) \<Rightarrow>
    (case r of Inl err \<Rightarrow> Inl (EStore err) | Inr x \<Rightarrow> Inr x, e\<lparr>en_store := s\<rparr>))"
  by (simp add: store_do_def split: prod.split sum.split)

lemma touches_store_do: "row_op m aid \<Longrightarrow> touches aid e (snd (store_do m e))"
  by (auto simp: store_do_run touches_def live_get_def row_op_def split: prod.split)
    (metis snd_conv)+

lemma transition_run:
  "transition h aid to ex p e = (case Transition (h_utc h) aid to ex p '''' (en_store e) of
      (Inl err, s) \<Rightarrow> (Inl (EStore err), e\<lparr>en_store := s\<rparr>)
    | (Inr None, s) \<Rightarrow> (Inl (EUnknownArchive aid), e\<lparr>en_store := s\<rparr>)
    | (Inr (Some rec), s) \<Rightarrow> (Inr rec, e\<lparr>en_store := s\<rparr>))"
  by (simp add: transition_def bindE_def store_do_def throw_def ret_def split: prod.split sum.split option.split)

lemma transition_snd: "snd (transition h aid to ex p e) = e\<lparr>en_store := snd (Transition (h_utc h) aid to ex p '''' (en_store e))\<rparr>"
  by (simp add: transition_run split: prod.split sum.split option.split)

lemma touches_transition [simp, intro]: "touches aid e (snd (transition h aid to ex p e))"
  using row_op_Transition [of "h_utc h" aid to ex p "''''"]
  by (simp add: transition_snd touches_def live_get_def row_op_def)

lemma transition_sel [simp]:
  "en_live (snd (transition h aid to ex p e)) = en_live e" "en_files (snd (transition h aid to ex p e)) = en_files e"
  "en_jobs (snd (transition h aid to ex p e)) = en_jobs e" "en_pending (snd (transition h aid to ex p e)) = en_pending e"
  by (simp_all add: transition_snd)

text \<open>Outcome of a transition: refused with nothing changed, or the row updated.\<close>

lemma transition_cases:
  obtains (ok) rec where "GetArchive (en_store e) aid = Some rec" "enabled (en_store e) rec to ex p (h_utc h)"
      "transition h aid to ex p e = (Inr (transition_row rec to (h_utc h) p),
         e\<lparr>en_store := put_row (transition_row rec to (h_utc h) p) (en_store e)\<rparr>)"
    | (err) x where "transition h aid to ex p e = (Inl x, e)"
proof (rule Transition_cases [of "en_store e" aid to ex p "h_utc h" "''''"])
  fix rec assume a: "GetArchive (en_store e) aid = Some rec" "enabled (en_store e) rec to ex p (ts_of (h_utc h) [])"
    "Transition (h_utc h) aid to ex p [] (en_store e) =
      (Inr (Some (transition_row rec to (ts_of (h_utc h) []) p)), put_row (transition_row rec to (ts_of (h_utc h) []) p) (en_store e))"
  show thesis by (rule ok [of rec]) (use a in \<open>simp_all add: ts_of_def transition_run\<close>)
next
  fix x assume "Transition (h_utc h) aid to ex p [] (en_store e) = (Inl x, en_store e)"
  then show thesis by (intro err [of "EStore x"]) (simp add: transition_run)
qed

lemma transition_safe:
  assumes "store_wf (en_store e)" "GetArchive (en_store e) aid = Some rec" "safe_patch p"
    "check_expected aid ex (a_status rec) = None" "validate_transition (a_status rec) to = None"
  shows "transition h aid to ex p e = (Inr (transition_row rec to (h_utc h) p),
    e\<lparr>en_store := put_row (transition_row rec to (h_utc h) p) (en_store e)\<rparr>)"
  using Transition_safe [OF assms, of "h_utc h" "''''"] by (simp add: transition_run ts_of_def)

lemma transition_id: "transition h aid to ex p e = (Inr rec', e') \<Longrightarrow> a_archive_id rec' = aid"
  by (rule transition_cases [of e aid to ex p h]) (auto dest: GetArchive_id)

subsection \<open>Every engine operation works on one archive\<close>

text \<open>The interface the service tick relies on.\<close>

locale archive_step =
  fixes run :: "engine \<Rightarrow> engine" and aid :: string
  assumes on_one: "touches aid e (run e)"
begin

lemma other_rows: "k \<noteq> aid \<Longrightarrow> GetArchive (en_store (run e)) k = GetArchive (en_store e) k"
  using on_one [of e] by (simp add: touches_def)

lemma other_children: "k \<noteq> aid \<Longrightarrow> live_get k (run e) = live_get k e"
  using on_one [of e] by (simp add: touches_def)

lemma wf: "store_wf (en_store e) \<Longrightarrow> store_wf (en_store (run e))"
  by (rule touches_wf [OF on_one])

lemma same_ids: "map a_archive_id (s_archives (en_store (run e))) = map a_archive_id (s_archives (en_store e))"
  using on_one [of e] by (simp add: touches_def)

end

text \<open>Rules that follow the shape of an operation, for any relation between its states.\<close>

lemma shape_if:
  "\<lbrakk>c \<Longrightarrow> R e (snd x); \<not> c \<Longrightarrow> R e (snd y)\<rbrakk> \<Longrightarrow> R e (snd (if c then x else y))"
  by simp

lemma shape_option:
  "\<lbrakk>\<And>a. oa = Some a \<Longrightarrow> R e (snd (f a)); oa = None \<Longrightarrow> R e (snd y)\<rbrakk>
    \<Longrightarrow> R e (snd (case oa of None \<Rightarrow> y | Some a \<Rightarrow> f a))"
  by (cases oa) simp_all

lemma shape_result:
  "\<lbrakk>\<And>err e'. r = (Inl err, e') \<Longrightarrow> R e (snd (g err e')); \<And>a e'. r = (Inr a, e') \<Longrightarrow> R e (snd (f a e'))\<rbrakk>
    \<Longrightarrow> R e (snd (case r of (Inl err, e') \<Rightarrow> g err e' | (Inr a, e') \<Rightarrow> f a e'))"
  by (cases r; cases "fst r") auto

lemma shape_pair: "R e e' \<Longrightarrow> R e (snd (x, e'))"
  by simp

lemmas shape = shape_if shape_option shape_result shape_pair

named_theorems touch "rules for what an operation touches"

lemma touches_pair [touch]: "touches aid e e' \<Longrightarrow> touches aid e (snd (x, e'))"
  by simp

lemma touches_if [touch]:
  "(b \<Longrightarrow> touches aid e (snd x)) \<Longrightarrow> (\<not> b \<Longrightarrow> touches aid e (snd y)) \<Longrightarrow> touches aid e (snd (if b then x else y))"
  by simp

lemma touches_option [touch]:
  "(v = None \<Longrightarrow> touches aid e (snd x)) \<Longrightarrow> (\<And>a. v = Some a \<Longrightarrow> touches aid e (snd (f a))) \<Longrightarrow>
   touches aid e (snd (case v of None \<Rightarrow> x | Some a \<Rightarrow> f a))"
  by (cases v) simp_all

lemma touches_result [touch]:
  assumes "touches aid e (snd r)" "\<And>x e'. r = (Inl x, e') \<Longrightarrow> touches aid e' (snd (f x e'))"
    "\<And>y e'. r = (Inr y, e') \<Longrightarrow> touches aid e' (snd (g y e'))"
  shows "touches aid e (snd (case r of (Inl x, e') \<Rightarrow> f x e' | (Inr y, e') \<Rightarrow> g y e'))"
  using assms by (cases r; cases "fst r") (auto intro: touches_trans)

lemma touches_let: "(\<And>x. x = t \<Longrightarrow> touches aid e (snd (f x))) \<Longrightarrow> touches aid e (snd (let x = t in f x))"
  by simp

lemma touches_failStart: "a_archive_id rec = aid \<Longrightarrow> touches aid e (failStart h cfg rec ip reason e)"
  by (auto simp: failStart_def Let_def)

lemma StartProcess_touches: "touches aid e (snd (StartProcess h req env e))"
  by (auto simp: StartProcess_def split: option.split prod.split sum.split intro!: touches_same)

lemma launch_touches:
  assumes "a_archive_id rec = aid"
  shows "touches aid e (snd (launch h cfg rec req flds u n e))"
  unfolding launch_def
proof (intro touch)
  fix err show "touches aid e (failStart h cfg rec u (h_text h (EDrvfs err)) e)"
    by (rule touches_failStart [OF assms])
next
  let ?e1 = "if mr_mount_path req \<noteq> '''' \<and> \<not> u
    then on_world (\<lambda>w. snd (ClearStaleMountHolders h (mr_mount_path req) 0 w)) e else e"
  show "touches aid e (snd (let e1 = ?e1;
      env = ApplyNonsolidEnvSlice (BuildChildEnv (h_environ h) (c_ratarmount_7z_debug cfg) (c_ratarmount_rust_log cfg)) cfg
    in case StartProcess h req env e1 of
         (Inl err, e2) \<Rightarrow> (Inl err, failStart h cfg rec u (h_text h err) e2)
       | (Inr pid, e2) \<Rightarrow>
           let m = \<lparr>mm_archive_id = a_archive_id rec, mm_pid = pid, mm_request = req, mm_started = h_clock h,
                    mm_first_index = n, mm_phase = if u then PhaseIndexOnly else PhaseMount, mm_skips = []\<rparr>;
               target = if u then StatusIndexing else StatusMounting
           in (Inr m, snd (transition h (a_archive_id rec) target (Expect [target])
                 (flds\<lparr>p_mount_pid := Some (Some pid)\<rparr>) (live_put m e2)))))"
    unfolding Let_def
    by (rule touches_trans [of aid e ?e1], simp, intro touch StartProcess_touches touches_failStart assms,
        unfold assms, intro touches_trans [OF touches_live_put touches_transition]) simp_all
qed

lemma resolve_archive_same:
  "en_store (snd (resolve_archive h cfg p e)) = en_store e" "en_live (snd (resolve_archive h cfg p e)) = en_live e"
  "en_jobs (snd (resolve_archive h cfg p e)) = en_jobs e"
  by (simp_all add: resolve_archive_def split: prod.split sum.split)

lemma beginMountProcess_touches:
  assumes "a_archive_id rec = aid"
  shows "touches aid e (snd (beginMountProcess h cfg rec p n io e))"
proof -
  obtain oe arch e1 where ra: "resolve_archive h cfg p e = ((oe, arch), e1)" by (metis surj_pair)
  have t1: "touches aid e e1" using resolve_archive_same [of h cfg p e] ra by (auto intro: touches_same)
  obtain nm taken where nm: "mountNameForRec rec (TakenMountNames cfg e1) = (nm, taken)" by fastforce
  show ?thesis
    unfolding beginMountProcess_def Let_def ra prod.case nm
    by (intro touches_trans [OF t1] touch touches_transition launch_touches touches_failStart)
      (auto simp: assms dest: transition_id)
qed

lemma touches_step:
  assumes "touches aid e1 (snd r)" "touches aid e e1" "\<And>x e'. r = (Inl x, e') \<Longrightarrow> touches aid e' (snd (f x e'))"
    "\<And>y e'. r = (Inr y, e') \<Longrightarrow> touches aid e' (snd (g y e'))"
  shows "touches aid e (snd (case r of (Inl x, e') \<Rightarrow> f x e' | (Inr y, e') \<Rightarrow> g y e'))"
  using assms by (cases r; cases "fst r") (auto intro: touches_trans)

lemma touches_transitionD: "transition h aid to ex p e = (r, e') \<Longrightarrow> touches aid e e'"
  using touches_transition by (metis snd_conv)

lemma MarkMounted_touches: "touches aid e (snd (MarkMounted h aid e))"
  unfolding MarkMounted_def Let_def by (intro touch touches_transition touches_refl)

lemma MarkFailed_touches: "touches aid e (snd (MarkFailed h cfg aid reason e))"
  unfolding MarkFailed_def Let_def
  by (intro touches_pair touches_option touches_refl touches_trans [OF _ touches_transition]
      touches_trans [OF _ touches_dropLive]) simp_all

lemma live_put_touches: "beginMountProcess h cfg rec p n io e = (Inr m, e') \<Longrightarrow> mm_archive_id m = a_archive_id rec"
proof -
  obtain oe arch e1 where ra: "resolve_archive h cfg p e = ((oe, arch), e1)" by (metis surj_pair)
  obtain nm taken where nm: "mountNameForRec rec (TakenMountNames cfg e1) = (nm, taken)" by fastforce
  have l: "launch h cfg rec' req flds u n' e2 = (Inr m, e3) \<Longrightarrow> mm_archive_id m = a_archive_id rec'" for rec' req flds u n' e2 e3
    by (auto simp: launch_def Let_def split: option.splits prod.splits sum.splits)
  assume "beginMountProcess h cfg rec p n io e = (Inr m, e')"
  then show ?thesis
    unfolding beginMountProcess_def Let_def ra prod.case nm
    by (auto split: option.splits prod.splits sum.splits dest!: l transition_id)
qed

lemma CompleteIndex_touches: "touches aid e (snd (CompleteIndexAndStartMount h cfg aid e))"
  unfolding CompleteIndexAndStartMount_def Let_def
  by (intro touches_pair touches_option touches_if touches_refl touches_step [OF touches_transition]
      touches_trans [OF touches_on_world touches_dropLive] touches_result beginMountProcess_touches touches_live_put)
    (auto dest: transition_id live_put_touches)

interpretation complete_index: archive_step "\<lambda>e. snd (CompleteIndexAndStartMount h cfg aid e)" aid for h cfg aid
  by unfold_locales (rule CompleteIndex_touches)

interpretation mark_mounted: archive_step "\<lambda>e. snd (MarkMounted h aid e)" aid for h aid
  by unfold_locales (rule MarkMounted_touches)

interpretation mark_failed: archive_step "\<lambda>e. snd (MarkFailed h cfg aid reason e)" aid for h cfg aid reason
  by unfold_locales (rule MarkFailed_touches)

interpretation progress: archive_step "progress_one h cfg aid" aid for h cfg aid
proof
  fix e
  note m = CompleteIndex_touches [of aid e h cfg] MarkMounted_touches [of aid e h]
  show "touches aid e (progress_one h cfg aid e)"
  proof (cases "CheckChild aid e")
    case ChildIndexComplete
    obtain r e1 where c: "CompleteIndexAndStartMount h cfg aid e = (r, e1)" by fastforce
    with m(1) have "touches aid e e1" by simp
    with ChildIndexComplete c show ?thesis
      using MarkFailed_touches [of aid e1 h cfg] by (cases r) (auto simp: progress_one_def intro: touches_trans)
  qed (use m MarkFailed_touches in \<open>simp_all add: progress_one_def\<close>)
qed

lemma touches_MarkAbsent: "touches aid e (snd (store_do (MarkAbsent utc aid now err) e))"
  by (rule touches_store_do) (rule mark_absent.row_op_axioms)

interpretation unmounting: archive_step "\<lambda>e. snd (Unmount h aid toAbsent e)" aid for h aid toAbsent
proof
  fix e
  show "touches aid e (snd (Unmount h aid toAbsent e))"
  proof (cases "GetArchive (en_store e) aid")
    case (Some rec0)
    define step where "step = (if a_status rec0 \<noteq> StatusUnmounting \<and> a_status rec0 \<noteq> StatusAbsent
       then (case transition h aid StatusUnmounting (Expect [a_status rec0]) (no_fields\<lparr>p_mount_pid := Some None\<rparr>) e of
               (Inr r, e') \<Rightarrow> (r, e')
             | (Inl _, e') \<Rightarrow> (case GetArchive (en_store e') aid of Some r \<Rightarrow> (r, e') | None \<Rightarrow> (rec0, e')))
       else (rec0, e))"
    obtain rec e1 where step: "step = (rec, e1)" by fastforce
    have "touches aid e e1"
      using step by (auto simp: step_def split: if_splits prod.splits sum.splits option.splits dest: touches_transitionD)
    then show ?thesis
      unfolding Unmount_def Some option.case Let_def step_def [symmetric] step prod.case
      by (intro touches_if touches_pair touches_trans [OF _ touches_MarkAbsent] touches_trans [OF _ touches_dropLive])
        (auto intro: touches_trans)
  qed (simp add: Unmount_def)
qed

lemma failConvertClaim_touches:
  assumes "a_archive_id rec = aid"
  shows "touches aid e (failConvertClaim h cfg rec reason e)"
proof -
  define step where "step = (if validate_transition (a_status rec) (first_fail_status rec) \<noteq> None \<and> a_status rec = StatusDiscovered
       \<and> first_fail_status rec = StatusIndexFailed
     then (case transition h (a_archive_id rec) StatusIndexing (Expect [a_status rec]) (no_fields\<lparr>p_last_error := Some (Some reason)\<rparr>) e of
             (Inr r, e') \<Rightarrow> (r, e') | (Inl _, e') \<Rightarrow> (rec, e'))
     else (rec, e))"
  obtain rec1 e1 where step: "step = (rec1, e1)" by fastforce
  have t: "touches aid e e1" "a_archive_id rec1 = aid"
    using step assms
    by (auto simp: step_def split: if_splits prod.splits sum.splits dest: touches_transitionD transition_id)
  have tr: "touches aid e1 (case transition h aid to ex p e1 of (Inr _, e2) \<Rightarrow> e2
      | (Inl _, e2) \<Rightarrow> snd (transition h aid to' ex' p' e2))" for to ex p to' ex' p'
    by (auto split: prod.split sum.split dest: touches_transitionD intro: touches_trans [OF _ touches_transition])
  show ?thesis
    unfolding failConvertClaim_def Let_def step_def [symmetric] step prod.case t(2)
    by (rule touches_trans [OF t(1) tr])
qed

lemma beginConvertAsync_touches:
  assumes "a_archive_id rec = aid"
  shows "touches aid e (snd (beginConvertAsync h cfg rec n e))"
  unfolding beginConvertAsync_def Let_def assms
  by (intro touch touches_transition failConvertClaim_touches assms touches_fields touches_refl)

lemma completeConvert_touches:
  assumes "a_archive_id rec = aid"
  shows "touches aid e (snd (completeConvertSuccess h cfg rec job p meta sz e))"
  unfolding completeConvertSuccess_def Let_def assms
  by (intro touches_option touches_pair touches_on_world touches_step [OF touches_transition] touches_refl)
    (auto split: option.split)

lemma relocate_done_touches: "touches aid e (snd (relocate_done h cfg src dest r e))"
  by (simp add: relocate_done_def split: sum.split)


lemma relocateSync_touches:
  assumes "a_archive_id rec = aid"
  shows "touches aid e (snd (relocateSync h cfg rec e))"
proof -
  have fail: "touches aid e (failConvertClaim h cfg rec m e')" if "touches aid e e'" for m e'
    using that failConvertClaim_touches [OF assms] by (blast intro: touches_trans)
  have fin: "touches aid e (snd (relocate_done h cfg src d r e'))" if "touches aid e e'" for src d r e'
    using that relocate_done_touches by (blast intro: touches_trans)
  have fin': "touches aid e (snd (relocate_done h cfg src d r e'))"
    if "transition h aid st ex p e1 = (r, e')" "touches aid e e1" for st ex p e1 r e' src d
    using that by (blast intro: fin touches_trans touches_transitionD)
  show ?thesis
    unfolding relocateSync_def Let_def assms
    by (auto intro!: fail split: sum.split option.split prod.split elim!: fin')
qed

lemma wrap_managed_snd [simp]: "snd (wrap_managed r) = snd r"
  by (simp add: wrap_managed_def split: prod.split sum.split)

lemma start_if_slot_touches: "a_archive_id rec = aid \<Longrightarrow> touches aid e (snd (start_if_slot h cfg rec n e))"
  by (simp add: start_if_slot_def beginMountProcess_touches)

lemma relocateSync_id:
  assumes "relocateSync h cfg rec e = (Inr rec', e')"
  shows "a_archive_id rec' = a_archive_id rec"
proof -
  have "\<exists>to ex p e1 e2. transition h (a_archive_id rec) to ex p e1 = (Inr rec', e2)"
    using assms by (auto simp: relocateSync_def relocate_done_def Let_def split: sum.splits option.splits if_splits prod.splits) blast+
  then show ?thesis by (auto dest: transition_id)
qed

lemma begin_prepared_touches:
  assumes "a_archive_id rec = aid"
  shows "touches aid e (snd (begin_prepared h cfg rec fi n e))"
  unfolding begin_prepared_def
  by (intro touch touches_refl start_if_slot_touches assms beginConvertAsync_touches relocateSync_touches)
    (auto dest: relocateSync_id simp: assms)

lemma completeConvert_id: "completeConvertSuccess h cfg rec job p meta sz e = (Inr rec', e') \<Longrightarrow> a_archive_id rec' = a_archive_id rec"
  by (auto simp: completeConvertSuccess_def Let_def split: option.splits prod.splits sum.splits dest: transition_id)

lemma BeginMount_touches:
  assumes "a_archive_id rec0 = aid"
  shows "touches aid e0 (snd (BeginMount h cfg rec0 first e0))"
proof -
  define e where "e = on_world (\<lambda>w. snd (ApplyPartialIndexCleanup (a_status rec0) (a_first_mounted_at rec0) (strPtr (a_index_path rec0)) w)) e0"
  define rec where "rec = (case GetArchive (en_store e) aid of Some r \<Rightarrow> r | None \<Rightarrow> rec0)"
  have t: "touches aid e0 e" by (simp add: e_def)
  have id: "a_archive_id rec = aid" using assms by (auto simp: rec_def dest: GetArchive_id split: option.split)
  have adopt: "touches aid e (snd (adoptExistingConversion h cfg rec p e))" for p
    by (simp add: adoptExistingConversion_def completeConvert_touches id)
  have again: "a_archive_id (case GetArchive (en_store e1) (a_archive_id rec1) of Some r \<Rightarrow> r | None \<Rightarrow> rec1) = aid"
    if "adoptExistingConversion h cfg rec p e = (Inr rec1, e1)" for p rec1 e1
    using that id completeConvert_id by (auto simp: adoptExistingConversion_def dest: GetArchive_id split: option.split)
  show ?thesis
    unfolding BeginMount_def Let_def assms e_def [symmetric] rec_def [symmetric]
    by (rule touches_trans [OF t], intro touch adopt touches_refl begin_prepared_touches) (use id again in simp_all)
qed

text \<open>The interface on the operations the service calls.\<close>

interpretation begin_mount: archive_step "\<lambda>e. snd (BeginMount h cfg rec first e)" "a_archive_id rec" for h cfg rec first
  by unfold_locales (rule BeginMount_touches [OF refl])

lemma run_convert_touches: "touches aid e (run_convert h cfg k e)"
  by (auto simp: run_convert_def intro!: touches_same split: option.split prod.split)

lemma convert_failed_touches: "a_archive_id rec = aid \<Longrightarrow> touches aid e (convert_failed h cfg rec msg e)"
  by (auto simp: convert_failed_def remove_job_def intro: touches_trans [OF touches_transition])

lemma maybeFinalize_touches: "touches aid e (maybeFinalizeSuperseded h cfg k e)"
  by (auto simp: maybeFinalizeSuperseded_def Let_def intro!: touches_same split: option.split prod.split)

interpretation poll: archive_step "poll_job h cfg aid" aid for h cfg aid
proof
  fix e
  show "touches aid e (poll_job h cfg aid e)"
  proof (cases "\<exists>j res rec. kfind cj_archive_id aid (en_jobs e) = Some j \<and> cj_result j = Some res \<and> GetArchive (en_store e) aid = Some rec")
    case False
    then show ?thesis by (auto simp: poll_job_def remove_job_def split: option.split)
  next
    case True
    then obtain j res rec where j: "kfind cj_archive_id aid (en_jobs e) = Some j" "cj_result j = Some res"
      and r: "GetArchive (en_store e) aid = Some rec" by blast
    have aid: "cj_archive_id j = aid" "a_archive_id rec = aid" using kfind_key [OF j(1)] GetArchive_id [OF r] by simp_all
    obtain msg p meta where out: "job_outcome res = (msg, p, meta)" by (metis surj_pair)
    obtain x e1 where c: "completeConvertSuccess h cfg rec (Some j) p meta (cj_size j) e = (x, e1)" by fastforce
    have t1: "touches aid e e1" using completeConvert_touches [OF aid(2)] c by (metis snd_conv)
    have "touches aid e (poll_done h cfg rec j res e)"
    proof (cases "msg = ''''")
      case False
      then show ?thesis using convert_failed_touches [OF aid(2)] by (simp add: poll_done_def out Let_def)
    next
      case ok: True
      show ?thesis
      proof (cases x)
        case (Inl err)
        have "a_archive_id (case GetArchive (en_store e1) aid of Some r \<Rightarrow> r | None \<Rightarrow> rec) = aid"
          using aid by (auto dest: GetArchive_id split: option.split)
        from convert_failed_touches [OF this] show ?thesis
          using t1 ok c Inl by (simp add: poll_done_def out aid Let_def touches_trans)
      next
        case (Inr rec')
        have "a_archive_id rec' = aid" using completeConvert_id [OF c [unfolded Inr]] aid by simp
        note b = BeginMount_touches [OF this, of "remove_job aid e1" h cfg "Some (cj_needs_index j)"]
        obtain y e2 where y: "BeginMount h cfg rec' (Some (cj_needs_index j)) (remove_job aid e1) = (y, e2)" by fastforce
        have "touches aid e1 (remove_job aid e1)" by (simp add: remove_job_def)
        with b y t1 have t2: "touches aid e e2" by (metis snd_conv touches_trans)
        then show ?thesis using ok c Inr y maybeFinalize_touches [of aid e2]
          by (cases y) (auto simp: poll_done_def out aid Let_def intro: touches_trans)
      qed
    qed
    then show ?thesis using j r by (simp add: poll_job_def)
  qed
qed

end
