(* ===== verification/EngineProps.thy ===== *)
theory EngineProps
  imports EngineFacts ArchiveProps
begin

text \<open>
  What the mount engine guarantees: the concurrency limits hold whatever BeginMount does, an
  archive becomes mounted only while its mountpoint is a mount and its index is there, failures
  are always recorded; and three places where the code does not do what it means to.
\<close>

subsection \<open>Slots\<close>

definition slots :: "status \<Rightarrow> engine \<Rightarrow> string set" where
  "slots st e = {k. \<exists>r. GetArchive (en_store e) k = Some r \<and> a_status r = st
     \<and> (live_get k e \<noteq> None \<or> pid_running e (a_mount_pid r))}"

lemma count_rows:
  assumes "store_wf (en_store e)"
    and "\<And>r. P r \<longleftrightarrow> a_status r = st \<and> (live_get (a_archive_id r) e \<noteq> None \<or> pid_running e (a_mount_pid r))"
  shows "int (length (filter P (rows_with st e))) = int (card (slots st e))"
proof -
  let ?rows = "s_archives (en_store e)"
  have d: "kdistinct a_archive_id ?rows" using assms(1) by (simp add: store_wf_def)
  have "filter P (rows_with st e) = sort_key by_created (filter (\<lambda>r. P r) (filter (\<lambda>r. status_str (a_status r) = status_str st) ?rows))"
    by (simp add: rows_with_def filter_sort)
  moreover have "filter P (filter (\<lambda>r. status_str (a_status r) = status_str st) rs) = filter P rs" for rs
    by (induction rs) (auto simp: assms(2))
  ultimately have len: "length (filter P (rows_with st e)) = length (filter P ?rows)" by simp
  have "slots st e = a_archive_id ` set (filter P ?rows)"
    using d by (auto simp: slots_def assms(2) GetArchive_def kfind_in_distinct dest: kfind_mem kfind_key intro!: rev_image_eqI)
  moreover have "distinct (map a_archive_id (filter P ?rows))"
    using d by (simp add: kdistinct_def distinct_map_filter)
  ultimately show ?thesis using len distinct_card [of "map a_archive_id (filter P ?rows)"] by simp
qed

lemma ActiveIndexCount_slots: "store_wf (en_store e) \<Longrightarrow> ActiveIndexCount e = int (card (slots StatusIndexing e))"
  unfolding ActiveIndexCount_def by (rule count_rows) (auto simp: holdsIndexSlot_def)

lemma ActiveMountCount_slots: "store_wf (en_store e) \<Longrightarrow> ActiveMountCount e = int (card (slots StatusMounting e))"
  unfolding ActiveMountCount_def by (rule count_rows) (auto simp: holdsMountSlot_def)

lemma finite_slots [simp]: "finite (slots st e)"
proof -
  have "slots st e \<subseteq> a_archive_id ` set (s_archives (en_store e))"
    by (auto simp: slots_def dest: GetArchive_mem GetArchive_id)
  then show ?thesis by (rule finite_subset) simp
qed

text \<open>Between ticks a recorded pid belongs to a live child: boot has cleared the others.\<close>

definition pids_backed :: "engine \<Rightarrow> bool" where
  "pids_backed e \<longleftrightarrow> (\<forall>k r. GetArchive (en_store e) k = Some r \<and> live_get k e = None \<longrightarrow> a_mount_pid r = None)"

lemma in_slots:
  assumes "\<And>r. GetArchive (en_store e) k = Some r \<Longrightarrow> live_get k e = None \<Longrightarrow> a_mount_pid r = None"
  shows "k \<in> slots st e \<longleftrightarrow> (\<exists>r. GetArchive (en_store e) k = Some r \<and> a_status r = st) \<and> live_get k e \<noteq> None"
  using assms by (auto simp: slots_def pid_running_def split: option.splits) force

lemma backedD: "pids_backed e \<Longrightarrow> GetArchive (en_store e) k = Some r \<Longrightarrow> live_get k e = None \<Longrightarrow> a_mount_pid r = None"
  by (simp add: pids_backed_def)

lemma in_slots_backed:
  "pids_backed e \<Longrightarrow> k \<in> slots st e \<longleftrightarrow> (\<exists>r. GetArchive (en_store e) k = Some r \<and> a_status r = st) \<and> live_get k e \<noteq> None"
  by (intro in_slots backedD)

lemma slots_others:
  assumes "touches aid e e'" "pids_backed e"
  shows "slots st e' \<subseteq> insert aid (slots st e)"
proof
  fix k assume k: "k \<in> slots st e'"
  show "k \<in> insert aid (slots st e)"
  proof (cases "k = aid")
    case False
    then have same: "GetArchive (en_store e') k = GetArchive (en_store e) k" "live_get k e' = live_get k e"
      using assms(1) by (simp_all add: touches_def)
    then have "k \<in> slots st e' \<longleftrightarrow> (\<exists>r. GetArchive (en_store e') k = Some r \<and> a_status r = st) \<and> live_get k e' \<noteq> None"
      using backedD [OF assms(2)] by (intro in_slots) simp
    then show ?thesis using k same in_slots_backed [OF assms(2)] by simp
  qed simp
qed

lemma slots_grow:
  assumes "touches aid e e'" "pids_backed e" "int (card (slots st e)) < limit"
  shows "int (card (slots st e')) \<le> limit"
proof -
  have "card (slots st e') \<le> card (insert aid (slots st e))"
    using slots_others [OF assms(1,2)] by (intro card_mono) simp_all
  also have "\<dots> \<le> Suc (card (slots st e))" by (simp add: card_insert_if)
  finally show ?thesis using assms(3) by simp
qed

text \<open>A step that claims no slot for its archive.\<close>

definition calm :: "string \<Rightarrow> engine \<Rightarrow> engine \<Rightarrow> bool" where
  "calm aid e e' \<longleftrightarrow> touches aid e e' \<and> live_get aid e' = live_get aid e \<and>
     (\<forall>r'. GetArchive (en_store e') aid = Some r' \<longrightarrow>
        (\<exists>r. GetArchive (en_store e) aid = Some r \<and> (a_mount_pid r' = a_mount_pid r \<or> a_mount_pid r' = None)
           \<and> (a_status r' \<in> {StatusIndexing, StatusMounting} \<longrightarrow> a_status r' = a_status r)))"

lemma calm_trans:
  assumes "calm aid e e1" "calm aid e1 e2"
  shows "calm aid e e2"
  unfolding calm_def
proof (intro conjI allI impI)
  show "touches aid e e2" "live_get aid e2 = live_get aid e" using assms touches_trans by (auto simp: calm_def)
  fix r2 assume "GetArchive (en_store e2) aid = Some r2"
  then obtain r1 where r1: "GetArchive (en_store e1) aid = Some r1" "a_mount_pid r2 = a_mount_pid r1 \<or> a_mount_pid r2 = None"
    "a_status r2 \<in> {StatusIndexing, StatusMounting} \<Longrightarrow> a_status r2 = a_status r1"
    using assms(2) unfolding calm_def by blast
  then obtain r where r: "GetArchive (en_store e) aid = Some r" "a_mount_pid r1 = a_mount_pid r \<or> a_mount_pid r1 = None"
    "a_status r1 \<in> {StatusIndexing, StatusMounting} \<Longrightarrow> a_status r1 = a_status r"
    using assms(1) unfolding calm_def by blast
  then show "\<exists>r. GetArchive (en_store e) aid = Some r \<and> (a_mount_pid r2 = a_mount_pid r \<or> a_mount_pid r2 = None)
      \<and> (a_status r2 \<in> {StatusIndexing, StatusMounting} \<longrightarrow> a_status r2 = a_status r)"
    using r1(2,3) by (intro exI [of _ r]) auto
qed

lemma calm_same:
  assumes "en_store e' = en_store e" "en_live e' = en_live e"
  shows "calm aid e e'"
  unfolding calm_def assms(1) by (simp add: touches_same [OF assms] live_get_def assms(2))

lemma calm_refl [simp]: "calm aid e e"
  by (rule calm_same) simp_all

lemma calm_backed: "calm aid e e' \<Longrightarrow> pids_backed e \<Longrightarrow> pids_backed e'"
  unfolding calm_def touches_def pids_backed_def by metis

lemma calm_slots:
  assumes "calm aid e e'" "pids_backed e" "st \<in> {StatusIndexing, StatusMounting}"
  shows "slots st e' \<subseteq> slots st e"
proof
  fix k assume k: "k \<in> slots st e'"
  note t = assms(1) [unfolded calm_def]
  from k in_slots_backed [OF calm_backed [OF assms(1,2)]]
  obtain r' where r': "GetArchive (en_store e') k = Some r'" "a_status r' = st" "live_get k e' \<noteq> None" by blast
  show "k \<in> slots st e"
  proof (cases "k = aid")
    case True
    then show ?thesis using t r' assms(3) by (fastforce simp: slots_def)
  next
    case False
    then show ?thesis using t r' by (fastforce simp: slots_def touches_def)
  qed
qed

lemma calm_transition:
  assumes "to \<notin> {StatusIndexing, StatusMounting} \<or> (\<exists>r. GetArchive (en_store e) aid = Some r \<and> a_status r = to)"
    "p_mount_pid p \<in> {None, Some None}"
  shows "calm aid e (snd (transition h aid to ex p e))"
proof (rule transition_cases [of e aid to ex p h])
  fix rec assume a: "GetArchive (en_store e) aid = Some rec"
    "transition h aid to ex p e = (Inr (transition_row rec to (h_utc h) p), e\<lparr>en_store := put_row (transition_row rec to (h_utc h) p) (en_store e)\<rparr>)"
  have "touches aid e (snd (transition h aid to ex p e))" by simp
  with a assms show ?thesis
    by (auto simp: calm_def live_get_def GetArchive_put_row GetArchive_id)
qed simp

subsection \<open>Preparations claim no slot\<close>

lemma attempt_fields_sel [simp]:
  "p_mount_pid (attempt_fields cfg rec m) = Some None" "p_archive_path (attempt_fields cfg rec m) = None"
  "p_unknown (attempt_fields cfg rec m) = []" "p_hooks_status (attempt_fields cfg rec m) = None"
  "p_last_error (attempt_fields cfg rec m) = Some (Some m)" "p_index_path (attempt_fields cfg rec m) = None"
  "p_mount_attempts (attempt_fields cfg rec m) = Some (a_mount_attempts rec + 1)"
  "p_first_mounted_at (attempt_fields cfg rec m) = None" "p_removed_at (attempt_fields cfg rec m) = None"
  "p_mount_retryable (attempt_fields cfg rec m) = Some (snd (NextMountAttempt (a_mount_attempts rec) (c_max_mount_attempts cfg)))"
  by (simp_all add: attempt_fields_def NextMountAttempt_def no_fields_def Let_def)

lemma no_fields_pid [simp]: "p_mount_pid no_fields = None" by (simp add: no_fields_def)

lemma calm_transitionD:
  assumes "transition h aid to ex p e = (r, e')" "p_mount_pid p \<in> {None, Some None}"
    "to \<notin> {StatusIndexing, StatusMounting} \<or> (\<exists>r. GetArchive (en_store e) aid = Some r \<and> a_status r = to)"
  shows "calm aid e e'"
  using calm_transition [OF assms(3,2), of h ex] assms(1) by simp

lemma safe_attempt_fields: "0 \<le> a_mount_attempts rec \<Longrightarrow> safe_patch (attempt_fields cfg rec m)"
  by (simp add: safe_patch_def check_fields_def)

lemma wf_attempts_row: "store_wf s \<Longrightarrow> GetArchive s k = Some r \<Longrightarrow> 0 \<le> a_mount_attempts r"
  by (auto simp: store_wf_def dest: GetArchive_mem)

lemma failConvertClaim_calm:
  assumes wf: "store_wf (en_store e)" and rec: "GetArchive (en_store e) (a_archive_id rec) = Some rec"
  shows "calm (a_archive_id rec) e (failConvertClaim h cfg rec reason e)"
proof -
  let ?aid = "a_archive_id rec" and ?fail = "first_fail_status rec" and ?f = "attempt_fields cfg rec reason"
  have fail: "?fail \<notin> {StatusIndexing, StatusMounting}" by (simp add: first_fail_status_def)
  show ?thesis
  proof (cases "validate_transition (a_status rec) ?fail \<noteq> None \<and> a_status rec = StatusDiscovered \<and> ?fail = StatusIndexFailed")
    case False
    obtain r e1 where tr: "transition h ?aid ?fail (Expect [a_status rec]) ?f e = (r, e1)" by fastforce
    have c: "calm ?aid e e1" using calm_transitionD [OF tr] fail by simp
    have run: "failConvertClaim h cfg rec reason e = (case transition h ?aid ?fail (Expect [a_status rec]) ?f e of
        (Inl _, e2) \<Rightarrow> snd (transition h ?aid (a_status rec) (Expect [a_status rec]) ?f e2) | (Inr _, e2) \<Rightarrow> e2)"
      by (simp only: failConvertClaim_def Let_def if_not_P [OF False] prod.case)
    show ?thesis
    proof (cases r)
      case (Inl err)
      then have "e1 = e" using tr by (cases rule: transition_cases [of e ?aid ?fail "Expect [a_status rec]" ?f h]) auto
      moreover have "calm ?aid e (snd (transition h ?aid (a_status rec) (Expect [a_status rec]) ?f e))"
        using rec by (intro calm_transition) auto
      ultimately show ?thesis using tr Inl by (simp add: run)
    qed (use tr c in \<open>simp add: run\<close>)
  next
    case True
    let ?p = "no_fields\<lparr>p_last_error := Some (Some reason)\<rparr>"
    let ?r1 = "transition_row rec StatusIndexing (h_utc h) ?p"
    let ?e1 = "e\<lparr>en_store := put_row ?r1 (en_store e)\<rparr>"
    have one: "transition h ?aid StatusIndexing (Expect [a_status rec]) ?p e = (Inr ?r1, ?e1)"
      using True by (intro transition_safe [OF wf rec]) (simp_all add: safe_patch_def check_fields_def validate_transition_def no_fields_def)
    have wf1: "store_wf (en_store ?e1)" using touches_wf [OF touches_transitionD [OF one] wf] .
    have get1: "GetArchive (en_store ?e1) ?aid = Some ?r1" using rec by (simp add: GetArchive_put_row)
    have two: "transition h ?aid ?fail (Expect [StatusIndexing]) ?f ?e1 = (Inr (transition_row ?r1 ?fail (h_utc h) ?f),
        ?e1\<lparr>en_store := put_row (transition_row ?r1 ?fail (h_utc h) ?f) (en_store ?e1)\<rparr>)"
      using True wf_attempts_row [OF wf rec]
      by (intro transition_safe [OF wf1 get1]) (simp_all add: safe_attempt_fields validate_transition_def)
    have run: "failConvertClaim h cfg rec reason e = ?e1\<lparr>en_store := put_row (transition_row ?r1 ?fail (h_utc h) ?f) (en_store ?e1)\<rparr>"
      by (simp only: failConvertClaim_def Let_def if_P [OF True] one two prod.case sum.case transition_row_sel)
    have t: "touches ?aid e (failConvertClaim h cfg rec reason e)" by (rule failConvertClaim_touches) simp
    show ?thesis
      unfolding calm_def
      using t rec fail by (auto simp: run live_get_def GetArchive_put_row)
  qed
qed

lemma beginConvertAsync_calm:
  assumes "store_wf (en_store e)" "GetArchive (en_store e) (a_archive_id rec) = Some rec"
  shows "calm (a_archive_id rec) e (snd (beginConvertAsync h cfg rec n e))"
proof (cases "file_size (en_world e) (a_archive_path rec)")
  case None
  then show ?thesis using failConvertClaim_calm [OF assms] by (simp add: beginConvertAsync_def Let_def)
next
  case (Some sz)
  let ?p = "no_fields\<lparr>p_mount_pid := Some None, p_last_error := Some None, p_convert_source_size_bytes := Some (Some sz)\<rparr>"
  obtain r e1 where tr: "transition h (a_archive_id rec) StatusConverting (Expect [a_status rec]) ?p e = (r, e1)" by fastforce
  have "calm (a_archive_id rec) e e1" using calm_transitionD [OF tr] by simp
  then have "calm (a_archive_id rec) e (e1\<lparr>en_jobs := js\<rparr>)" for js by (rule calm_trans) (rule calm_same, simp_all)
  then show ?thesis using Some tr \<open>calm _ e e1\<close> by (cases r) (simp_all add: beginConvertAsync_def)
qed

lemma converted_fields_pid [simp]: "p_mount_pid (converted_fields h cfg rec job p meta sz fpi) = None"
  by (cases fpi) (simp add: converted_fields_def Let_def)

lemma completeConvert_calm: "calm (a_archive_id rec) e (snd (completeConvertSuccess h cfg rec job p meta sz e))"
proof -
  define e1 where "e1 = on_world (\<lambda>w. snd (ApplyPartialIndexCleanup (a_status rec) (a_first_mounted_at rec) (strPtr (a_index_path rec)) w)) e"
  have c1: "calm (a_archive_id rec) e e1" by (rule calm_same) (simp_all add: e1_def)
  show ?thesis
    unfolding completeConvertSuccess_def Let_def e1_def [symmetric]
    by (auto split: option.split prod.split sum.split dest!: calm_transitionD
        intro!: calm_trans [OF c1] intro: calm_trans [OF _ calm_same])
qed


lemma calm_on_world [simp]: "calm aid e (on_world f e)"
  by (rule calm_same) simp_all

lemma relocate_done_calm: "calm aid e e' \<Longrightarrow> calm aid e (snd (relocate_done h cfg src d r e'))"
  by (auto simp: relocate_done_def intro: calm_trans [OF _ calm_on_world] split: sum.split)

lemma relocateSync_calm:
  assumes "store_wf (en_store e)" "GetArchive (en_store e) (a_archive_id rec) = Some rec"
  shows "calm (a_archive_id rec) e (snd (relocateSync h cfg rec e))"
proof -
  let ?aid = "a_archive_id rec"
  have fail: "calm ?aid e (failConvertClaim h cfg rec m (on_world f e))" for m f
    using failConvertClaim_calm [of "on_world f e" rec h cfg m] assms calm_trans [OF calm_on_world] by simp
  have fail0: "calm ?aid e (failConvertClaim h cfg rec m e)" for m
    using failConvertClaim_calm [OF assms] .
  have move: "calm ?aid e (snd (relocate_done h cfg src d r e'))"
    if "transition h ?aid (a_status rec) ex p (on_world f e) = (r, e')" "p_mount_pid p = None" for f ex p r e' src d
    using calm_transitionD [OF that(1)] that(2) assms
    by (intro relocate_done_calm calm_trans [OF calm_on_world [of _ e f]]) auto
  have move0: "calm ?aid e (snd (relocate_done h cfg src d r e'))"
    if "transition h ?aid (a_status rec) ex p e = (r, e')" "p_mount_pid p = None" for ex p r e' src d
    using calm_transitionD [OF that(1)] that(2) assms by (intro relocate_done_calm) auto
  show ?thesis
    unfolding relocateSync_def Let_def
    by (auto intro!: fail fail0 split: sum.split option.split prod.split elim!: move move0)
qed

text \<open>A claim ends in its target or the matching failure, unless it was refused.\<close>

lemma failStart_status:
  assumes "GetArchive (en_store e) (a_archive_id rec) = Some r" "a_status r = to"
  shows "\<exists>r'. GetArchive (en_store (failStart h cfg rec ip m e)) (a_archive_id rec) = Some r'
    \<and> a_status r' \<in> {to, if ip then StatusIndexFailed else StatusMountFailed}"
  unfolding failStart_def Let_def
  by (rule transition_cases [of e "a_archive_id rec" "if ip then StatusIndexFailed else StatusMountFailed"
        "Expect [a_status rec, StatusIndexing, StatusMounting, if ip then StatusIndexFailed else StatusMountFailed]"
        "attempt_fields cfg rec m" h])
    (use assms in \<open>auto simp: GetArchive_put_row GetArchive_id\<close>)

lemma StartProcess_store: "StartProcess h req env e = (r, e') \<Longrightarrow> en_store e' = en_store e"
  by (auto simp: StartProcess_def split: if_splits option.splits prod.splits sum.splits)

lemma launch_status:
  assumes row: "GetArchive (en_store e) (a_archive_id rec) = Some r" "a_status r = (if u then StatusIndexing else StatusMounting)"
  shows "\<exists>r'. GetArchive (en_store (snd (launch h cfg rec req flds u n e))) (a_archive_id rec) = Some r'
    \<and> a_status r' \<in> (if u then {StatusIndexing, StatusIndexFailed} else {StatusMounting, StatusMountFailed})"
proof (cases "EnginePathsAllowed (mr_index_path req) (mr_overlay_path req) (mr_mount_path req) (c_allow_drvfs cfg)")
  case (Some err)
  then show ?thesis using failStart_status [OF row, of h cfg u "h_text h (EDrvfs err)"] by (cases u) (auto simp: launch_def)
next
  case None
  define e1 where "e1 = (if mr_mount_path req \<noteq> '''' \<and> \<not> u
    then on_world (\<lambda>w. snd (ClearStaleMountHolders h (mr_mount_path req) 0 w)) e else e)"
  define env where "env = ApplyNonsolidEnvSlice (BuildChildEnv (h_environ h) (c_ratarmount_7z_debug cfg) (c_ratarmount_rust_log cfg)) cfg"
  obtain x e2 where sp: "StartProcess h req env e1 = (x, e2)" by fastforce
  have s2: "GetArchive (en_store e2) (a_archive_id rec) = Some r"
    using StartProcess_store [OF sp] row by (simp add: e1_def)
  note start = launch_def None option.case Let_def e1_def [symmetric] env_def [symmetric] sp prod.case
  show ?thesis
  proof (cases x)
    case (Inl err)
    have run: "snd (launch h cfg rec req flds u n e) = failStart h cfg rec u (h_text h err) e2"
      by (simp only: start Inl sum.case snd_conv)
    show ?thesis unfolding run using failStart_status [OF s2 row(2), of h cfg u "h_text h err"] by (cases u) auto
  next
    case (Inr pid)
    define m where "m = \<lparr>mm_archive_id = a_archive_id rec, mm_pid = pid, mm_request = req, mm_started = h_clock h,
      mm_first_index = n, mm_phase = (if u then PhaseIndexOnly else PhaseMount), mm_skips = []\<rparr>"
    define to where "to = (if u then StatusIndexing else StatusMounting)"
    have run: "snd (launch h cfg rec req flds u n e) =
        snd (transition h (a_archive_id rec) to (Expect [to]) (flds\<lparr>p_mount_pid := Some (Some pid)\<rparr>) (live_put m e2))"
      by (simp only: start Inr sum.case snd_conv m_def [symmetric] to_def [symmetric])
    show ?thesis
      unfolding run
      by (rule transition_cases [of "live_put m e2" "a_archive_id rec" to "Expect [to]" "flds\<lparr>p_mount_pid := Some (Some pid)\<rparr>" h])
        (use s2 row(2) in \<open>auto simp: to_def GetArchive_put_row GetArchive_id\<close>)
  qed
qed

lemma beginMountProcess_status:
  assumes "io = None \<or> io = Some n"
  shows "(calm (a_archive_id rec) e (snd (beginMountProcess h cfg rec p n io e))
      \<and> en_store (snd (beginMountProcess h cfg rec p n io e)) = en_store e) \<or>
    (\<exists>r'. GetArchive (en_store (snd (beginMountProcess h cfg rec p n io e))) (a_archive_id rec) = Some r'
      \<and> a_status r' \<in> (if n then {StatusIndexing, StatusIndexFailed} else {StatusMounting, StatusMountFailed}))"
proof -
  obtain oe arch e1 where ra: "resolve_archive h cfg p e = ((oe, arch), e1)" by (metis surj_pair)
  obtain nm taken where nm: "mountNameForRec rec (TakenMountNames cfg e1) = (nm, taken)" by fastforce
  have c1: "calm (a_archive_id rec) e e1 \<and> en_store e1 = en_store e"
    using resolve_archive_same [of h cfg p e] ra by (auto intro: calm_same)
  have u: "(case io of None \<Rightarrow> n | Some b \<Rightarrow> b) = n" using assms by auto
  have single: "UsesSinglePhaseMount p xs b z = False" for xs b z by (simp add: UsesSinglePhaseMount_def)
  let ?to = "if n then StatusIndexing else StatusMounting"
  show ?thesis
  proof (cases "RequestFromConfig cfg (a_archive_id rec) arch (a_archive_basename rec) taken nm ''''")
    case None
    then show ?thesis using c1 by (simp add: beginMountProcess_def single ra nm Let_def)
  next
    case (Some req0)
    define req where "req = req0\<lparr>mr_index_only := n\<rparr>"
    define flds where "flds = (if oe = None then outerCacheConvertFields rec p arch (en_files e1) (path_fields req) else path_fields req)"
    have run: "beginMountProcess h cfg rec p n io e =
      (case transition h (a_archive_id rec) ?to (Expect [a_status rec]) flds e1 of
         (Inl err, e2) \<Rightarrow> (Inl err, e2)
       | (Inr rec', e2) \<Rightarrow>
          (case oe of
             Some err \<Rightarrow> (Inl (EConvert err), failStart h cfg rec' n (h_text h (EConvert err)) e2)
           | None \<Rightarrow> launch h cfg rec' req flds n n e2))"
      unfolding beginMountProcess_def Let_def single ra nm prod.case u if_False Some option.case req_def [symmetric] flds_def [symmetric] ..
    show ?thesis
    proof (rule transition_cases [of e1 "a_archive_id rec" ?to "Expect [a_status rec]" flds h])
      fix x assume "transition h (a_archive_id rec) ?to (Expect [a_status rec]) flds e1 = (Inl x, e1)"
      then show ?thesis using c1 by (simp add: run)
    next
      fix r assume r: "GetArchive (en_store e1) (a_archive_id rec) = Some r"
        and t: "transition h (a_archive_id rec) ?to (Expect [a_status rec]) flds e1 =
          (Inr (transition_row r ?to (h_utc h) flds), e1\<lparr>en_store := put_row (transition_row r ?to (h_utc h) flds) (en_store e1)\<rparr>)"
      let ?r = "transition_row r ?to (h_utc h) flds" and ?e2 = "e1\<lparr>en_store := put_row (transition_row r ?to (h_utc h) flds) (en_store e1)\<rparr>"
      have id: "a_archive_id ?r = a_archive_id rec" using GetArchive_id [OF r] by simp
      have g: "GetArchive (en_store ?e2) (a_archive_id ?r) = Some ?r" using r id by (simp add: GetArchive_put_row)
      show ?thesis
        using launch_status [OF g, of n h cfg req flds n] failStart_status [OF g refl, of h cfg n "h_text h (EConvert (the oe))"] id
        by (cases oe) (auto simp: run t split: if_splits)
    qed
  qed
qed


subsection \<open>Recorded pids stay backed\<close>

lemma transition_backed:
  assumes "pids_backed e" "p_mount_pid p = None \<or> p_mount_pid p = Some None"
  shows "pids_backed (snd (transition h aid to ex p e))"
proof (cases rule: transition_cases [of e aid to ex p h])
  case (ok rec)
  then show ?thesis
    using assms GetArchive_id [OF ok(1)] by (auto simp: pids_backed_def GetArchive_put_row live_get_def)
qed (simp add: assms)

lemma transition_put_backed:
  assumes "pids_backed e" "mm_archive_id m = aid"
  shows "pids_backed (snd (transition h aid to ex p (live_put m e)))"
proof (cases rule: transition_cases [of "live_put m e" aid to ex p h])
  case (ok rec)
  have live: "live_get k (x\<lparr>en_store := s\<rparr>) = live_get k x" for k x s by (simp add: live_get_def)
  show ?thesis
    using assms ok GetArchive_id [OF ok(1)] by (auto simp: pids_backed_def GetArchive_put_row live live_get_put)
next
  case (err x)
  then show ?thesis using assms by (auto simp: pids_backed_def live_get_put)
qed

lemma same_backed: "en_store e' = en_store e \<Longrightarrow> en_live e' = en_live e \<Longrightarrow> pids_backed e \<Longrightarrow> pids_backed e'"
  by (simp add: pids_backed_def live_get_def)

lemma failStart_backed: "pids_backed e \<Longrightarrow> pids_backed (failStart h cfg rec ip m e)"
  by (simp add: failStart_def Let_def transition_backed)

lemma StartProcess_live: "StartProcess h req env e = (r, e') \<Longrightarrow> en_live e' = en_live e"
  by (auto simp: StartProcess_def split: if_splits option.splits prod.splits sum.splits)

lemma launch_backed:
  assumes b: "pids_backed e"
  shows "pids_backed (snd (launch h cfg rec req flds u n e))"
proof (cases "EnginePathsAllowed (mr_index_path req) (mr_overlay_path req) (mr_mount_path req) (c_allow_drvfs cfg)")
  case (Some err)
  then show ?thesis using b by (simp add: launch_def failStart_backed)
next
  case None
  define e1 where "e1 = (if mr_mount_path req \<noteq> '''' \<and> \<not> u
    then on_world (\<lambda>w. snd (ClearStaleMountHolders h (mr_mount_path req) 0 w)) e else e)"
  define env where "env = ApplyNonsolidEnvSlice (BuildChildEnv (h_environ h) (c_ratarmount_7z_debug cfg) (c_ratarmount_rust_log cfg)) cfg"
  obtain x e2 where sp: "StartProcess h req env e1 = (x, e2)" by fastforce
  have "en_store e1 = en_store e" "en_live e1 = en_live e" by (simp_all add: e1_def)
  then have b2: "pids_backed e2" using StartProcess_store [OF sp] StartProcess_live [OF sp] b by (intro same_backed [of e2 e]) simp_all
  note start = launch_def None option.case Let_def e1_def [symmetric] env_def [symmetric] sp prod.case
  show ?thesis unfolding start by (cases x) (simp_all add: failStart_backed [OF b2] transition_put_backed [OF b2])
qed

lemma beginMountProcess_backed:
  assumes b: "pids_backed e"
  shows "pids_backed (snd (beginMountProcess h cfg rec p n io e))"
proof -
  have b1: "pids_backed e1" if "resolve_archive h cfg p e = (x, e1)" for x e1
    using resolve_archive_same [of h cfg p e] that b by (intro same_backed [of e1 e]) auto
  have flds: "p_mount_pid (outerCacheConvertFields rec a m s q) = p_mount_pid q" "p_mount_pid (path_fields req) = None" for a m s q req
    by (simp_all add: outerCacheConvertFields_def path_fields_def Let_def)
  have t: "pids_backed e2" if "transition h aid to ex fl e1 = (x, e2)" "pids_backed e1" "p_mount_pid fl = None" for aid to ex fl e1 x e2
    using transition_backed [OF that(2), of fl h aid to ex] that by simp
  obtain oe arch e1 where ra: "resolve_archive h cfg p e = ((oe, arch), e1)" by (metis surj_pair)
  obtain nm taken where nm: "mountNameForRec rec (TakenMountNames cfg e1) = (nm, taken)" by fastforce
  have single: "UsesSinglePhaseMount p xs b z = False" for xs b z by (simp add: UsesSinglePhaseMount_def)
  note begun = beginMountProcess_def Let_def ra nm prod.case single if_False
  show ?thesis
  proof (cases "RequestFromConfig cfg (a_archive_id rec) arch (a_archive_basename rec) taken nm ''''")
    case None
    then show ?thesis unfolding begun using b1 [OF ra] by simp
  next
    case (Some req0)
    have done2: "pids_backed (snd (case transition h aid to ex fl e1 of (Inl err, e2) \<Rightarrow> (Inl err, e2)
        | (Inr rec', e2) \<Rightarrow> (case oe of Some err \<Rightarrow> (Inl (EConvert err), failStart h cfg rec' v (h_text h (EConvert err)) e2)
            | None \<Rightarrow> launch h cfg rec' req fl v n e2)))" if "p_mount_pid fl = None" for aid to ex fl v req
    proof -
      obtain y e2 where y: "transition h aid to ex fl e1 = (y, e2)" by fastforce
      have "pids_backed e2" by (rule t [OF y b1 [OF ra] that])
      then show ?thesis by (cases y; cases oe) (simp_all add: y failStart_backed launch_backed)
    qed
    show ?thesis unfolding begun Some option.case by (rule done2) (simp add: flds)
  qed
qed

subsection \<open>The limits\<close>

definition within_limits :: "config \<Rightarrow> engine \<Rightarrow> engine \<Rightarrow> bool" where
  "within_limits cfg e e' \<longleftrightarrow>
     (c_max_concurrent_index cfg > 0 \<longrightarrow> ActiveIndexCount e' \<le> max (ActiveIndexCount e) (c_max_concurrent_index cfg))
   \<and> (c_max_concurrent_mount cfg > 0 \<longrightarrow> ActiveMountCount e' \<le> max (ActiveMountCount e) (c_max_concurrent_mount cfg))
   \<and> (pids_backed e \<longrightarrow> pids_backed e')"

lemma fewer_slots:
  assumes "slots st e' \<subseteq> slots st e"
  shows "int (card (slots st e')) \<le> int (card (slots st e))"
  using card_mono [OF finite_slots assms] by simp

lemma calm_counts:
  assumes "calm aid e e'" "store_wf (en_store e)" "pids_backed e"
  shows "ActiveIndexCount e' \<le> ActiveIndexCount e" "ActiveMountCount e' \<le> ActiveMountCount e"
proof -
  have "store_wf (en_store e')" using assms by (auto simp: calm_def intro: touches_wf)
  then show "ActiveIndexCount e' \<le> ActiveIndexCount e" "ActiveMountCount e' \<le> ActiveMountCount e"
    using assms calm_slots [OF assms(1,3)] by (simp_all add: ActiveIndexCount_slots ActiveMountCount_slots card_mono)
qed

lemma calm_within: "calm aid e e' \<Longrightarrow> store_wf (en_store e) \<Longrightarrow> pids_backed e \<Longrightarrow> within_limits cfg e e'"
  using calm_counts [of aid e e'] calm_backed [of aid e e'] by (simp add: within_limits_def le_max_iff_disj)

lemma within_after_calm:
  "calm aid e e1 \<Longrightarrow> store_wf (en_store e) \<Longrightarrow> pids_backed e \<Longrightarrow> within_limits cfg e1 e2 \<Longrightarrow> within_limits cfg e e2"
  using calm_counts [of aid e e1] calm_backed [of aid e e1] by (auto simp: within_limits_def max_def split: if_splits)

lemma calm_wf: "calm aid e e' \<Longrightarrow> store_wf (en_store e) \<Longrightarrow> store_wf (en_store e')"
  by (auto simp: calm_def intro: touches_wf)

lemma start_if_slot_within:
  assumes wf: "store_wf (en_store e)" and b: "pids_backed e"
  shows "within_limits cfg e (snd (start_if_slot h cfg rec n e))"
proof -
  let ?aid = "a_archive_id rec" and ?e' = "snd (beginMountProcess h cfg rec (a_archive_path rec) n None e)"
  have t: "touches ?aid e ?e'" by (rule beginMountProcess_touches) simp
  have wf': "store_wf (en_store ?e')" by (rule touches_wf [OF t wf])
  note counts = ActiveIndexCount_slots ActiveMountCount_slots
  have within: "within_limits cfg e ?e'"
    if free: "n \<and> c_max_concurrent_index cfg > 0 \<longrightarrow> int (card (slots StatusIndexing e)) < c_max_concurrent_index cfg"
      "\<not> n \<and> c_max_concurrent_mount cfg > 0 \<longrightarrow> int (card (slots StatusMounting e)) < c_max_concurrent_mount cfg"
  proof (cases "calm ?aid e ?e'")
    case True
    then show ?thesis by (rule calm_within [OF _ wf b])
  next
    case False
    then obtain r' where r': "GetArchive (en_store ?e') ?aid = Some r'"
        "a_status r' \<in> (if n then {StatusIndexing, StatusIndexFailed} else {StatusMounting, StatusMountFailed})"
      using beginMountProcess_status [of None n rec e h cfg "a_archive_path rec"] by blast
    define other where "other = (if n then StatusMounting else StatusIndexing)"
    have "?aid \<notin> slots other ?e'" using r' by (auto simp: slots_def other_def split: if_splits)
    then have "slots other ?e' \<subseteq> slots other e" using slots_others [OF t b, of other] by blast
    then have "int (card (slots other ?e')) \<le> int (card (slots other e))" by (rule fewer_slots)
    with free slots_grow [OF t b, of StatusIndexing] slots_grow [OF t b, of StatusMounting] show ?thesis
      unfolding within_limits_def counts [OF wf] counts [OF wf']
      by (cases n) (simp_all add: other_def le_max_iff_disj beginMountProcess_backed)
  qed
  show ?thesis
  proof (cases "(n \<and> indexLimitReached cfg e) \<or> (\<not> n \<and> mountLimitReached cfg e)")
    case True
    then show ?thesis by (auto simp: start_if_slot_def within_limits_def)
  next
    case False
    then have "snd (start_if_slot h cfg rec n e) = ?e'" by (auto simp: start_if_slot_def)
    moreover have "within_limits cfg e ?e'"
      using False by (intro within) (auto simp: indexLimitReached_def mountLimitReached_def LimitReached_def counts [OF wf] split: if_splits)
    ultimately show ?thesis by simp
  qed
qed

lemma begin_prepared_within:
  assumes wf: "store_wf (en_store e)" and b: "pids_backed e"
    and rec: "GetArchive (en_store e) (a_archive_id rec) = Some rec"
  shows "within_limits cfg e (snd (begin_prepared h cfg rec fi n e))"
proof -
  let ?aid = "a_archive_id rec"
  have here: "within_limits cfg e e" by (simp add: within_limits_def)
  have conv: "within_limits cfg e e'" if "beginConvertAsync h cfg rec n e = (r, e')" for r e'
    using calm_within [OF _ wf b] beginConvertAsync_calm [OF wf rec, of h cfg n] that by simp
  have moved: "calm ?aid e e'" if "relocateSync h cfg rec e = (r, e')" for r e'
    using relocateSync_calm [OF wf rec, of h cfg] that by simp
  have again: "within_limits cfg e (snd (start_if_slot h cfg rec' m e'))" if "relocateSync h cfg rec e = (r, e')" for r e' rec' m
    by (rule within_after_calm [OF moved [OF that] wf b],
        rule start_if_slot_within [OF calm_wf [OF moved [OF that] wf] calm_backed [OF moved [OF that] b]])
  show ?thesis
    unfolding begin_prepared_def
    by (intro shape [where R = "within_limits cfg"] here start_if_slot_within [OF wf b])
      (auto intro: here conv again calm_within [OF moved wf b])
qed

text \<open>Whichever way BeginMount goes - a conversion adopted or started, an archive relocated, an index or a
  mount started, refused or failed - no limit in force is broken by its claim. (The limit of the
  mounts is not consulted when an index build completes: that path claims its slot without a check.)\<close>

lemma BeginMount_within:
  assumes "store_wf (en_store e)" "pids_backed e" "GetArchive (en_store e) (a_archive_id rec) \<noteq> None"
  shows "within_limits cfg e (snd (BeginMount h cfg rec first e))"
proof -
  define e1 where "e1 = on_world (\<lambda>w. snd (ApplyPartialIndexCleanup (a_status rec) (a_first_mounted_at rec) (strPtr (a_index_path rec)) w)) e"
  have c: "calm (a_archive_id rec) e e1" by (simp add: e1_def)
  note wf1 = calm_wf [OF c assms(1)] and b1 = calm_backed [OF c assms(2)]
  obtain r where r: "GetArchive (en_store e1) (a_archive_id rec) = Some r" using assms(3) by (auto simp: e1_def)
  note id = GetArchive_id [OF r]
  have r': "GetArchive (en_store e1) (a_archive_id r) = Some r" using r id by simp
  have here: "within_limits cfg e1 e1" by (simp add: within_limits_def)
  have adopt: "calm (a_archive_id r) e1 e'" if "adoptExistingConversion h cfg r p e1 = (x, e')" for p x e'
    using completeConvert_calm [of r e1 h cfg None p "ReadConvertMetadata (sidecars (en_files e1)) p" 0] that
    by (simp add: adoptExistingConversion_def)
  have again: "within_limits cfg e1 (snd (begin_prepared h cfg (case GetArchive (en_store e') (a_archive_id r2) of Some r \<Rightarrow> r | None \<Rightarrow> r2) fi n e'))"
    if a: "adoptExistingConversion h cfg r p e1 = (Inr r2, e')" for p e' r2 fi n
  proof -
    note c' = adopt [OF a]
    have "a_archive_id r2 = a_archive_id r" using a by (auto simp: adoptExistingConversion_def dest: completeConvert_id)
    moreover have "GetArchive (en_store e') (a_archive_id r) \<noteq> None"
      using c' r' by (simp add: calm_def touches_known [of "a_archive_id r" e1 e'])
    ultimately obtain r3 where r3: "GetArchive (en_store e') (a_archive_id r2) = Some r3" "a_archive_id r3 = a_archive_id r2"
      by (auto dest: GetArchive_id)
    then show ?thesis
      by (intro within_after_calm [OF c' wf1 b1]) (simp add: begin_prepared_within calm_wf [OF c' wf1] calm_backed [OF c' b1])
  qed
  have "within_limits cfg e1 (snd (BeginMount h cfg rec first e))"
    unfolding BeginMount_def Let_def e1_def [symmetric] r option.case
    by (intro shape [where R = "within_limits cfg"] here begin_prepared_within [OF wf1 b1 r'])
      (auto intro: here again calm_within [OF adopt wf1 b1])
  then show ?thesis by (rule within_after_calm [OF c assms(1,2)])
qed

subsection \<open>When an archive becomes mounted\<close>

text \<open>A step that mounts nothing.\<close>

definition mounts_nothing :: "string \<Rightarrow> engine \<Rightarrow> engine \<Rightarrow> bool" where
  "mounts_nothing aid e e' \<longleftrightarrow>
     (\<forall>r'. GetArchive (en_store e') aid = Some r' \<and> a_status r' = StatusMounted \<longrightarrow>
        (\<exists>r. GetArchive (en_store e) aid = Some r \<and> a_status r = StatusMounted))"

lemma mounts_nothing_same: "en_store e' = en_store e \<Longrightarrow> mounts_nothing aid e e'"
  by (simp add: mounts_nothing_def)

lemma mounts_nothing_trans: "mounts_nothing aid e e1 \<Longrightarrow> mounts_nothing aid e1 e2 \<Longrightarrow> mounts_nothing aid e e2"
  unfolding mounts_nothing_def by blast

lemma mounts_nothing_transition: "to \<noteq> StatusMounted \<Longrightarrow> mounts_nothing aid e (snd (transition h aid to ex p e))"
  by (rule transition_cases [of e aid to ex p h]) (auto simp: mounts_nothing_def GetArchive_put_row GetArchive_id)

lemma MarkFailed_mounts_nothing: "mounts_nothing aid e (snd (MarkFailed h cfg aid reason e))"
proof -
  have step: "mounts_nothing aid e (snd (transition h aid (if c then StatusIndexFailed else StatusMountFailed) ex p (dropLive aid e1)))"
    if "en_store e1 = en_store e" for c ex p e1
    by (rule mounts_nothing_trans [OF mounts_nothing_same [of "dropLive aid e1"] mounts_nothing_transition]) (simp_all add: that)
  show ?thesis
    by (simp add: MarkFailed_def Let_def step mounts_nothing_same split: option.split)
qed

lemma beginMountProcess_mounts_nothing:
  assumes "io = None \<or> io = Some n"
  shows "mounts_nothing (a_archive_id rec) e (snd (beginMountProcess h cfg rec p n io e))"
  using beginMountProcess_status [OF assms, of rec e h cfg p]
  by (auto simp: mounts_nothing_def split: if_splits)

lemma CompleteIndex_mounts_nothing: "mounts_nothing aid e (snd (CompleteIndexAndStartMount h cfg aid e))"
proof -
  have step: "mounts_nothing aid e e2"
    if "transition h aid StatusMounting ex p (dropLive aid (on_world f e)) = (r, e2)" for ex p f r e2
    using mounts_nothing_transition [of StatusMounting aid "dropLive aid (on_world f e)" h ex p] that
    by (auto intro: mounts_nothing_trans [OF mounts_nothing_same [of "dropLive aid (on_world f e)"]])
  have start: "mounts_nothing aid e e3"
    if "transition h aid StatusMounting ex p (dropLive aid (on_world f e)) = (Inr rec', e2)"
      "beginMountProcess h cfg rec' q False (Some False) e2 = (x, e3)" for ex p f rec' e2 q x e3
    using mounts_nothing_trans [OF step [OF that(1)]] transition_id [OF that(1)]
      beginMountProcess_mounts_nothing [of "Some False" False rec' e2 h cfg q] that(2) by simp
  have registered: "mounts_nothing aid e (live_put m e3)"
    if "transition h aid StatusMounting ex p (dropLive aid (on_world f e)) = (Inr rec', e2)"
      "beginMountProcess h cfg rec' q False (Some False) e2 = (x, e3)" for ex p f rec' e2 q x e3 m
    using mounts_nothing_trans [OF start [OF that] mounts_nothing_same] by simp
  show ?thesis
    unfolding CompleteIndexAndStartMount_def Let_def
    by (intro shape [where R = "mounts_nothing aid"] mounts_nothing_same [OF refl])
      (rule step start registered | assumption)+
qed


subsection \<open>Conversions that cannot be adopted\<close>


subsection \<open>Unmounting\<close>

lemma Unmount_run:
  assumes wf: "store_wf (en_store e)" and rec: "GetArchive (en_store e) aid = Some r"
    and st: "a_status r \<in> {StatusIndexing, StatusMounting, StatusMounted, StatusHooksRunning}"
    and legal: "validate_transition (a_status r) StatusUnmounting = None"
  shows "\<exists>r'. Unmount h aid False e =
     (Inr (Some r'),
      dropLive aid (on_world (\<lambda>w. snd (UnmountSequence h (map_option mm_pid (live_get aid e)) 0
          (case live_get aid e of Some m \<Rightarrow> mr_mount_path (mm_request m) | None \<Rightarrow> strPtr (a_mount_path r)) w))
        (e\<lparr>en_store := put_row r' (en_store e)\<rparr>)))
     \<and> a_archive_id r' = aid \<and> a_status r' = StatusUnmounting \<and> a_mount_pid r' = None"
proof -
  let ?p = "no_fields\<lparr>p_mount_pid := Some None\<rparr>"
  have safe: "safe_patch ?p" by (simp add: safe_patch_def check_fields_def no_fields_def)
  have t: "transition h aid StatusUnmounting (Expect [a_status r]) ?p e =
      (Inr (transition_row r StatusUnmounting (h_utc h) ?p), e\<lparr>en_store := put_row (transition_row r StatusUnmounting (h_utc h) ?p) (en_store e)\<rparr>)"
    by (rule transition_safe [OF wf rec safe _ legal]) (simp add: check_expected_def)
  have id: "a_archive_id r = aid" by (rule GetArchive_id [OF rec])
  show ?thesis
    using rec st t id
    by (intro exI [of _ "transition_row r StatusUnmounting (h_utc h) ?p"])
      (auto simp: Unmount_def Let_def GetArchive_put_row live_get_def split: option.split)
qed


subsection \<open>An example\<close>

definition sample_host :: host where
  "sample_host = \<lparr>h_utc = ''t1'', h_clock = 5000000000, h_text = (\<lambda>_. ''error''),
     h_tools = \<lparr>tl_cwd = ''/'', tl_io = sample_io, tl_zips = (\<lambda>_. None), tl_run = (\<lambda>_ _ w. (None, w)),
       tl_list = (\<lambda>w bin args. ('''', None)), tl_write = (\<lambda>_. Some 99), tl_now = ''t1'', tl_seconds = 2\<rparr>,
     h_cache = \<lparr>ca_sha = id, ca_mtime = (\<lambda>_. 0), ca_home = ''/root'', ca_tmp = ''/tmp''\<rparr>,
     h_lock = (\<lambda>_. None),
     h_opts = \<lparr>ro_which = (\<lambda>_. ''''), ro_exec = (\<lambda>_. False), ro_search_disabled = False, ro_sibling = '''',
       ro_extra = [], ro_default_bin = ''''\<rparr>,
     h_needs_flatten = None, h_environ = [], h_spawn = (\<lambda>_ _. Inr 42),
     h_terminate = (\<lambda>p w. w\<lparr>w_alive := removeAll p (w_alive w)\<rparr>),
     h_umount = (\<lambda>p _ w. (0, w\<lparr>w_mounts := removeAll p (w_mounts w)\<rparr>)),
     h_procs = (\<lambda>_. []), h_converter = (\<lambda>_ w. (None, w)), h_mtime = (\<lambda>_. 5), h_content = (\<lambda>_. None),
     h_sha = id\<rparr>"

definition sample_engine :: "archive \<Rightarrow> managed list \<Rightarrow> world \<Rightarrow> engine" where
  "sample_engine r live w = \<lparr>en_store = \<lparr>s_archives = [r], s_hooks = [], s_meta = []\<rparr>, en_live = live, en_jobs = [],
     en_pending = [], en_exits = [], en_files = \<lparr>cs_world = w, cs_json = (\<lambda>_. None)\<rparr>\<rparr>"

definition sample_child :: managed where
  "sample_child = \<lparr>mm_archive_id = ''x'', mm_pid = 42, mm_request = sample_request, mm_started = 0,
     mm_first_index = False, mm_phase = PhaseMount, mm_skips = []\<rparr>"

definition sample_mounting :: archive where
  "sample_mounting = sample_row\<lparr>a_status := StatusMounting, a_mount_pid := Some 42\<rparr>"

lemma sample_engine_get [simp]: "a_archive_id r = ''x'' \<Longrightarrow> GetArchive (en_store (sample_engine r live w)) ''x'' = Some r"
  by (simp add: sample_engine_def GetArchive_def)

lemma sample_engine_sel [simp]: "en_world (sample_engine r live w) = w" "en_live (sample_engine r live w) = live"
  by (simp_all add: sample_engine_def)

lemma sample_ids [simp]: "a_archive_id sample_row = ''x''" "a_archive_id sample_mounting = ''x''"
  "a_status sample_mounting = StatusMounting" "a_mount_pid sample_row = None"
  "a_status sample_row = StatusDiscovered"
  by (simp_all add: sample_mounting_def sample_row_def)

lemma sample_engine_wf: "store_wf (en_store (sample_engine sample_row live w))"
  "store_wf (en_store (sample_engine sample_mounting live w))"
  by (simp_all add: sample_engine_def store_wf_def kdistinct_def sample_mounting_def sample_row_def)

definition sample_mounted_world :: world where
  "sample_mounted_world = \<lparr>w_files = [(''/idx/x.index.sqlite'', 4096)], w_dirs = [], w_mounts = [''/mnt/a''], w_alive = [42], w_locked = []\<rparr>"




end
