(* ===== verification/HookProps.thy ===== *)
theory HookProps
  imports Hooks ConvertProps
begin

text \<open>
  What the hook runner guarantees: only trusted scripts inside hooks.d are executed, a cycle always
  brings its archive back to mounted with the aggregate of its results, retries are bounded,
  and the parallel mode gives what the sequential one gives, in whatever order its goroutines run.
\<close>

subsection \<open>Security\<close>

lemma check_target_ok:
  assumes "check_target h d p w t = Inr r"
  shows "r = t \<and> (\<exists>st uid. hh_stat h w r = Inr st \<and> fi_kind st = KindRegular \<and> fi_uid st = Some uid \<and> ownerOK p uid
      \<and> \<not> has_bits (fi_mode st) group_write \<and> \<not> has_bits (fi_mode st) other_write \<and> has_bits (fi_mode st) exec_bits)
    \<and> (sp_under p \<longrightarrow> \<not> escapes_hooks d r)"
  using assms by (auto simp: check_target_def split: sum.splits if_splits option.splits)

lemma ValidateHookSecurity_target:
  "ValidateHookSecurity h f d p w = Inr r \<Longrightarrow> \<exists>t. check_target h (resolve_or_abs h w d) p w t = Inr r"
  by (auto simp: ValidateHookSecurity_def Let_def split: sum.splits if_splits option.splits)

lemma secure_hooks_each:
  "secure_hooks h cfg p w hks = Inr safe \<Longrightarrow> hk \<in> set safe \<Longrightarrow>
     \<exists>f. ValidateHookSecurity h f (c_hooks_dir cfg) p w = Inr (dh_path hk)"
proof (induction hks arbitrary: safe)
  case (Cons a hks)
  then show ?case by (fastforce split: sum.splits)
qed simp

lemma secure_hooks_names: "secure_hooks h cfg p w hks = Inr safe \<Longrightarrow> map dh_name safe = map dh_name hks"
  by (induction hks arbitrary: safe) (auto split: sum.splits)

lemma contained_rel: "\<not> escapes_hooks d t \<Longrightarrow> is_rooted t = is_rooted d \<and> (\<exists>more. comps t = comps d @ more)"
  using escapes_iff [of d t]
  by (auto simp: escapes_hooks_def rel_path_def hasParentRel_def escapes_def Let_def split: if_splits)


subsection \<open>The store under the runner\<close>

lemma hook_store_do_sel: "hs_world (snd (hook_store_do m st)) = hs_world st" "hs_store (snd (hook_store_do m st)) = snd (m (hs_store st))"
  by (simp_all add: hook_store_do_def split: prod.split sum.split)

lemma hook_transition_run:
  assumes "store_wf (hs_store st)" "GetArchive (hs_store st) aid = Some rec" "safe_patch p"
    "a_status rec \<in> set exs" "validate_transition (a_status rec) to = None"
  shows "hook_transition h aid to (Expect exs) p st = (Inr (transition_row rec to (hh_utc h) p),
    st\<lparr>hs_store := put_row (transition_row rec to (hh_utc h) p) (hs_store st)\<rparr>)"
proof -
  have "check_expected aid (Expect exs) (a_status rec) = None" using assms(4) by (simp add: check_expected_def)
  from Transition_safe [OF assms(1-3) this assms(5), of "hh_utc h" "''''"] show ?thesis
    by (simp add: hook_transition_def bindE_def hook_store_do_def ts_of_def)
qed

text \<open>What stays when only hook rows of one archive are written.\<close>

definition keeps_archives :: "hooks_state \<Rightarrow> hooks_state \<Rightarrow> bool" where
  "keeps_archives st st' \<longleftrightarrow> s_archives (hs_store st') = s_archives (hs_store st)
     \<and> (store_wf (hs_store st) \<longrightarrow> store_wf (hs_store st'))"

lemma keeps_refl [simp]: "keeps_archives st st"
  by (simp add: keeps_archives_def)

lemma keeps_trans: "keeps_archives st st1 \<Longrightarrow> keeps_archives st1 st2 \<Longrightarrow> keeps_archives st st2"
  by (simp add: keeps_archives_def)

lemma keeps_get: "keeps_archives st st' \<Longrightarrow> GetArchive (hs_store st') k = GetArchive (hs_store st) k"
  by (simp add: keeps_archives_def GetArchive_def)

lemma keeps_world [simp]: "keeps_archives st (st\<lparr>hs_world := w\<rparr>)"
  by (simp add: keeps_archives_def)

lemma upsertHook_keeps [simp]: "keeps_archives st (upsertHook aid name p st)"
  by (simp add: keeps_archives_def upsertHook_def hook_store_do_sel UpsertHook_archives wf_UpsertHook)

lemma begin_one_keeps: "begin_one h rec name st = (a, st') \<Longrightarrow> keeps_archives st st'"
  by (auto simp: begin_one_def Let_def)

lemma finish_one_keeps: "finish_one h cfg rec hk a st = (r, st') \<Longrightarrow> keeps_archives st st'"
  by (auto simp: finish_one_def Let_def split: prod.splits intro: keeps_trans [OF keeps_world upsertHook_keeps])

lemma runOne_keeps: "runOne h cfg rec hk st = (r, st') \<Longrightarrow> keeps_archives st st'"
  by (auto simp: runOne_def split: prod.splits intro: keeps_trans begin_one_keeps finish_one_keeps)

lemma runSequential_keeps: "keeps_archives st (snd (runSequential h cfg rec stop hks st))"
proof (induction hks arbitrary: stop st)
  case (Cons hk hks)
  obtain r st1 where one: "runOne h cfg rec hk st = (r, st1)" by fastforce
  show ?case
  proof (cases stop)
    case True
    then show ?thesis using keeps_trans [OF upsertHook_keeps Cons.IH] by (simp add: Let_def case_prod_beta)
  next
    case False
    then show ?thesis
      using Cons.IH keeps_trans [OF runOne_keeps [OF one] Cons.IH]
      by (cases "settled rec (dh_name hk) st") (simp_all add: one Let_def case_prod_beta)
  qed
qed simp

lemma par_step_keeps: "keeps_archives (snd ps) (snd (par_step h cfg rec hks i ps))"
  by (cases ps)
    (auto simp: par_step_def split: par_phase.split prod.split intro: begin_one_keeps finish_one_keeps)

lemma fold_par_step_keeps: "keeps_archives (snd ps) (snd (fold (par_step h cfg rec hks) sched ps))"
proof (induction sched arbitrary: ps)
  case (Cons i sched)
  show ?case using keeps_trans [OF par_step_keeps Cons.IH] by (simp only: fold_simps comp_apply)
qed simp

lemma runParallel_keeps: "keeps_archives st (snd (runParallel h cfg sched rec hks st))"
  using fold_par_step_keeps [of "(map (first_phase rec st) hks, st)" h cfg rec hks "sched @ [0..<length hks] @ [0..<length hks]"]
  by (simp add: runParallel_def Let_def case_prod_beta del: fold_append)

subsection \<open>A cycle always ends\<close>

lemma seed_loop_ok:
  "store_wf s \<Longrightarrow> GetArchive s aid \<noteq> None \<Longrightarrow> \<exists>s'. seed_loop aid ''pending'' names s = (Inr (), s')"
proof (induction names arbitrary: s)
  case (Cons name names)
  show ?case
  proof (cases "kfind hook_key (aid, name) (s_hooks s)")
    case None
    let ?p = "status_only ''pending''"
    have "parse_hook_row_status (if u_status ?p = [] then ''pending'' else u_status ?p) = Some HookPending"
      by code_simp
    moreover have "h_attempts (upserted aid name HookPending ?p (kfind hook_key (aid, name) (s_hooks s))) = 0"
      by (simp add: upserted_def None status_only_def)
    ultimately obtain row s1 where u: "UpsertHook aid name ?p s = (Inr row, s1)"
      using UpsertHook_run [OF Cons.prems(1) _ Cons.prems(2), of ?p HookPending name] by (auto simp: Let_def)
    have "store_wf s1" "GetArchive s1 aid \<noteq> None"
      using u wf_UpsertHook [OF Cons.prems(1), of aid name ?p] UpsertHook_archives [of aid name ?p s] Cons.prems(2)
      by (simp_all add: GetArchive_def)
    then show ?thesis using Cons.IH None u by (simp add: bindE_def)
  qed (use Cons in simp)
qed simp

lemma SeedHooks_ok:
  assumes "store_wf s" "GetArchive s aid \<noteq> None"
  shows "\<exists>rows s'. SeedHooks aid names ''pending'' s = (Inr rows, s')"
  using seed_loop_ok [OF assms, of names] by (auto simp: SeedHooks_def bindE_def)

lemma enter_run:
  assumes wf: "store_wf (hs_store st)" and rec: "GetArchive (hs_store st) (a_archive_id rec) = Some rec"
    and status: "a_status rec \<in> {StatusMounted, StatusHooksRunning}"
  shows "\<exists>r' st'. enterHooksRunning h rec names st = (Inr r', st') \<and> hs_world st' = hs_world st
    \<and> store_wf (hs_store st') \<and> GetArchive (hs_store st') (a_archive_id rec) = Some r'
    \<and> a_archive_id r' = a_archive_id rec \<and> a_status r' = StatusHooksRunning"
proof -
  let ?p = "no_fields\<lparr>p_hooks_status := Some ''running''\<rparr>"
  have safe: "safe_patch ?p" by (simp add: safe_patch_def check_fields_def no_fields_def parse_hooks_status_def HOOKS_STATUSES_def)
  have legal: "validate_transition (a_status rec) StatusHooksRunning = None" using status by (auto simp: validate_transition_def)
  define st1 where "st1 = (if names = [] then st else snd (hook_store_do (SeedHooks (a_archive_id rec) names ''pending'') st))"
  have arch: "s_archives (hs_store st1) = s_archives (hs_store st)"
    by (simp add: st1_def hook_store_do_sel snd_SeedHooks seed_loop_archives)
  have wf1: "store_wf (hs_store st1)" using wf by (simp add: st1_def hook_store_do_sel snd_SeedHooks wf_seed_loop)
  have rec1: "GetArchive (hs_store st1) (a_archive_id rec) = Some rec" using rec arch by (simp add: GetArchive_def)
  have run: "enterHooksRunning h rec names st =
      hook_transition h (a_archive_id rec) StatusHooksRunning (Expect [a_status rec]) ?p st1"
    using SeedHooks_ok [OF wf, of "a_archive_id rec" names] rec
    by (auto simp: enterHooksRunning_def bindE_def st1_def hook_store_do_def)
  have w: "hs_world st1 = hs_world st" by (simp add: st1_def hook_store_do_sel)
  have t: "hook_transition h (a_archive_id rec) StatusHooksRunning (Expect [a_status rec]) ?p st1 =
      (Inr (transition_row rec StatusHooksRunning (hh_utc h) ?p),
       st1\<lparr>hs_store := put_row (transition_row rec StatusHooksRunning (hh_utc h) ?p) (hs_store st1)\<rparr>)"
    by (rule hook_transition_run [OF wf1 rec1 safe _ legal]) simp
  have "store_wf (put_row (transition_row rec StatusHooksRunning (hh_utc h) ?p) (hs_store st1))"
    using wf1 row_op_Transition [of "hh_utc h" "a_archive_id rec" StatusHooksRunning "Expect [a_status rec]" ?p "''''"]
      Transition_safe [OF wf1 rec1 safe _ legal, of "Expect [a_status rec]" "hh_utc h" "''''"]
    by (auto simp: row_op_def check_expected_def ts_of_def)
  then show ?thesis
    using rec1 w by (simp add: run t GetArchive_put_row)
qed

lemma cycle_end_run:
  assumes wf: "store_wf (hs_store st)" and cur: "GetArchive (hs_store st) aid = Some cur"
    and status: "a_status cur \<in> {StatusMounted, StatusHooksRunning}"
    and p: "p_unknown p = []" "p_hooks_status p = Some (hooks_status_str hs)" "p_mount_attempts p = None" "p_archive_path p = None"
  shows "\<exists>st' r'. cycle_end h rec aid p results st =
      (Inr \<lparr>cr_archive_id = a_archive_id rec, cr_ran = True, cr_status = hs, cr_results = results, cr_skipped = ''''\<rparr>, st')
    \<and> hs_world st' = hs_world st \<and> GetArchive (hs_store st') aid = Some r' \<and> a_status r' = StatusMounted \<and> a_hooks_status r' = hs
    \<and> store_wf (hs_store st')"
proof -
  have safe: "safe_patch p" using p by (simp add: safe_patch_def check_fields_def)
  have legal: "validate_transition (a_status cur) StatusMounted = None" using status by (auto simp: validate_transition_def)
  have ex: "check_expected aid (Expect [StatusHooksRunning, StatusMounted]) (a_status cur) = None"
    using status by (auto simp: check_expected_def)
  have t: "hook_transition h aid StatusMounted (Expect [StatusHooksRunning, StatusMounted]) p st =
      (Inr (transition_row cur StatusMounted (hh_utc h) p), st\<lparr>hs_store := put_row (transition_row cur StatusMounted (hh_utc h) p) (hs_store st)\<rparr>)"
    using status by (intro hook_transition_run [OF wf cur safe _ legal]) auto
  have "store_wf (put_row (transition_row cur StatusMounted (hh_utc h) p) (hs_store st))"
    using wf row_op.wf [OF row_op_Transition wf, of "hh_utc h" aid StatusMounted "Expect [StatusHooksRunning, StatusMounted]" p "''''"]
      Transition_safe [OF wf cur safe ex legal, of "hh_utc h" "''''"]
    by (simp add: ts_of_def)
  then show ?thesis
    using cur GetArchive_id [OF cur] by (simp add: cycle_end_def bindE_def t p GetArchive_put_row)
qed

definition cycle_done :: "string \<Rightarrow> hooks_status \<Rightarrow> run_result list \<Rightarrow> (hook_error + cycle_result) \<times> hooks_state \<Rightarrow> bool" where
  "cycle_done aid hs results res \<longleftrightarrow>
     (\<exists>st' r'. res = (Inr \<lparr>cr_archive_id = aid, cr_ran = True, cr_status = hs, cr_results = results, cr_skipped = ''''\<rparr>, st')
        \<and> GetArchive (hs_store st') aid = Some r' \<and> a_status r' = StatusMounted \<and> a_hooks_status r' = hs \<and> store_wf (hs_store st'))"

lemma finish_done:
  assumes wf: "store_wf (hs_store st)" and cur: "GetArchive (hs_store st) (a_archive_id rec) = Some cur"
    and status: "a_status cur \<in> {StatusMounted, StatusHooksRunning}"
  shows "cycle_done (a_archive_id rec) HooksSuccess results (finishSuccess h rec results st)"
    and "cycle_done (a_archive_id rec) HooksRetry results (finishRetry h rec results st)"
    and "cycle_done (a_archive_id rec) HooksFailed results (finishFailed h rec reason results st)"
    and "cycle_done (a_archive_id rec) (AggregateStatus results) results (aggregateAndFinish h rec results st)"
proof -
  note run = cycle_end_run [OF wf cur status]
  show s: "cycle_done (a_archive_id rec) HooksSuccess results (finishSuccess h rec results st)"
    unfolding finishSuccess_def Let_def cycle_done_def
    using run [of "no_fields\<lparr>p_hooks_status := Some ''success'', p_hooks_completed_at := Some (Some (hh_utc h)), p_last_error := Some _\<rparr>" HooksSuccess h rec results]
    by (simp add: no_fields_def) blast
  show r: "cycle_done (a_archive_id rec) HooksRetry results (finishRetry h rec results st)"
    unfolding finishRetry_def cycle_done_def
    using run [of "no_fields\<lparr>p_hooks_status := Some ''retry'', p_hooks_completed_at := Some None, p_last_error := Some _\<rparr>" HooksRetry h rec results]
    by (simp add: no_fields_def) blast
  have f: "cycle_done (a_archive_id rec) HooksFailed results (finishFailed h rec reason results st)" for reason
    using run [of "no_fields\<lparr>p_hooks_status := Some ''failed'', p_hooks_completed_at := Some (Some (hh_utc h)), p_last_error := Some _\<rparr>" HooksFailed h rec results]
      status GetArchive_id [OF cur]
    by (simp add: finishFailed_def current_row_def cur Let_def cycle_done_def no_fields_def) blast
  then show "cycle_done (a_archive_id rec) HooksFailed results (finishFailed h rec reason results st)" .
  show "cycle_done (a_archive_id rec) (AggregateStatus results) results (aggregateAndFinish h rec results st)"
    using s r f by (cases "results = []") (simp_all add: aggregateAndFinish_def AggregateStatus_def Let_def)
qed

lemma cycle_done_bind: "enterHooksRunning h rec names st = (Inr r', st1) \<Longrightarrow>
  cycle_done aid hs res (f r' st1) \<Longrightarrow> cycle_done aid hs res (bindE (enterHooksRunning h rec names) f st)"
  by (simp add: bindE_def)

text \<open>C16. A hook cycle on a mounted archive always ends, and never leaves its archive in
  hooks_running: RunForArchive returns a result (no error), and then the row is mounted with the
  hooks status of the result, or nothing was run and nothing changed. A cycle that ran hooks
  ends with the aggregate of their results, whether they ran in sequence or in parallel.\<close>

theorem RunForArchive_completes:
  assumes wf: "store_wf (hs_store st)" and rec: "GetArchive (hs_store st) aid = Some rec"
    and status: "a_status rec \<in> {StatusMounted, StatusHooksRunning}"
  shows "\<exists>c st' rec'. RunForArchive h cfg p sched aid force st = (Inr c, st')
    \<and> GetArchive (hs_store st') aid = Some rec' \<and> store_wf (hs_store st')
    \<and> (if cr_ran c
       then a_status rec' = StatusMounted \<and> a_hooks_status rec' = cr_status c \<and> cr_status c \<in> {HooksSuccess, HooksFailed, HooksRetry}
       else st' = st)
    \<and> (cr_results c \<noteq> [] \<longrightarrow> cr_status c = AggregateStatus (cr_results c))"
proof -
  have id: "a_archive_id rec = aid" by (rule GetArchive_id [OF rec])
  have rec': "GetArchive (hs_store st) (a_archive_id rec) = Some rec" using rec id by simp
  have stop: ?thesis
    if "cycle_done aid hs results (RunForArchive h cfg p sched aid force st)" "hs \<in> {HooksSuccess, HooksFailed, HooksRetry}"
      "results \<noteq> [] \<longrightarrow> hs = AggregateStatus results" for hs results
    using that by (auto simp: cycle_done_def)
  have agg: "AggregateStatus results \<in> {HooksSuccess, HooksFailed, HooksRetry}" for results
    by (simp add: AggregateStatus_def Let_def)
  show ?thesis
  proof (cases "force \<or> ShouldRunHooks (a_hooks_status rec) (c_hook_rerun_on_failure cfg)")
    case False
    then show ?thesis using rec wf by (auto simp: RunForArchive_def)
  next
    case True
    note enter = enter_run [OF wf rec' status, of h]
    obtain r0 st0 where e0: "enterHooksRunning h rec [] st = (Inr r0, st0)" "store_wf (hs_store st0)"
      "GetArchive (hs_store st0) (a_archive_id r0) = Some r0" "a_status r0 = StatusHooksRunning" "a_archive_id r0 = aid"
      using enter [of "[]"] id by auto
    note fin0 = finish_done [OF e0(2,3), unfolded e0(4,5)]
    show ?thesis
    proof (cases "ValidateHooksDir h (c_hooks_dir cfg) p (hs_world st)")
      case (Some e)
      have "cycle_done aid HooksFailed [] (RunForArchive h cfg p sched aid force st)"
        using True rec Some fin0(3) by (auto simp: RunForArchive_def intro: cycle_done_bind [OF e0(1)])
      then show ?thesis by (rule stop) simp_all
    next
      case None
      show ?thesis
      proof (cases "secure_hooks h cfg p (hs_world st) (DiscoverHooks h (c_hooks_dir cfg) (hs_world st))")
        case (Inl ne)
        let ?r = "\<lparr>rr_hook = fst ne, rr_status = HookFailed, rr_exit = None, rr_attempts = 0,
          rr_error = security_text (snd ne), rr_timed_out = False\<rparr>"
        have "cycle_done aid HooksFailed [?r] (RunForArchive h cfg p sched aid force st)"
          using True rec None Inl fin0(3) by (cases ne) (auto simp: RunForArchive_def intro: cycle_done_bind [OF e0(1)])
        then show ?thesis by (rule stop) (simp_all add: AggregateStatus_def)
      next
        case (Inr safe)
        show ?thesis
        proof (cases "safe = []")
          case True': True
          have "cycle_done aid HooksSuccess [] (RunForArchive h cfg p sched aid force st)"
            using True rec None Inr True' fin0(1) by (auto simp: RunForArchive_def intro: cycle_done_bind [OF e0(1)])
          then show ?thesis by (rule stop) simp_all
        next
          case False
          obtain r1 st1 where e1: "enterHooksRunning h rec (map dh_name safe) st = (Inr r1, st1)" "store_wf (hs_store st1)"
            "GetArchive (hs_store st1) (a_archive_id r1) = Some r1" "a_status r1 = StatusHooksRunning" "a_archive_id r1 = aid"
            using enter [of "map dh_name safe"] id by auto
          define run where "run = (if c_hooks_parallel cfg then runParallel h cfg sched r1 safe st1 else runSequential h cfg r1 False safe st1)"
          have k: "keeps_archives st1 (snd run)" by (simp add: run_def runParallel_keeps runSequential_keeps)
          have "store_wf (hs_store (snd run))" "GetArchive (hs_store (snd run)) (a_archive_id r1) = Some r1"
            using k e1 keeps_get [OF k] by (auto simp: keeps_archives_def)
          note fin = finish_done(4) [OF this, unfolded e1(4,5)]
          have "cycle_done aid (AggregateStatus (fst run)) (fst run) (RunForArchive h cfg p sched aid force st)"
            using True rec None Inr False fin [of "fst run" h]
            by (auto simp: RunForArchive_def run_def [symmetric] case_prod_beta Let_def intro: cycle_done_bind [OF e1(1)])
          then show ?thesis by (rule stop) (use agg in simp_all)
        qed
      qed
    qed
  qed
qed

subsection \<open>One hook at a time\<close>

text \<open>What one hook does to its own row, apart from all others.\<close>

abbreviation begin_params :: "hook_host \<Rightarrow> int \<Rightarrow> upsert_params" where
  "begin_params h a \<equiv> \<lparr>u_status = ''running'', u_attempts = Some a, u_last_exit_code = None,
     u_last_run_at = Some (hh_utc h), u_last_error = None\<rparr>"

abbreviation finish_params :: "hook_host \<Rightarrow> int \<Rightarrow> run_result \<Rightarrow> upsert_params" where
  "finish_params h a r \<equiv> \<lparr>u_status = hook_row_status_str (rr_status r), u_attempts = Some a, u_last_exit_code = rr_exit r,
     u_last_run_at = Some (hh_utc h), u_last_error = Some (rr_error r)\<rparr>"

definition attempt_after :: "hook_row option \<Rightarrow> int" where
  "attempt_after row = (case row of None \<Rightarrow> 1 | Some r \<Rightarrow> h_attempts r + 1)"

definition own_step :: "hook_host \<Rightarrow> config \<Rightarrow> string \<Rightarrow> string \<Rightarrow> process_end \<Rightarrow> par_phase \<times> hook_row option \<Rightarrow> par_phase \<times> hook_row option" where
  "own_step h cfg aid name fin pr =
    (let (ph, row) = pr in
     case ph of
       Waiting \<Rightarrow> (Running (attempt_after row), Some (upserted aid name HookRunning (begin_params h (attempt_after row)) row))
     | Running a \<Rightarrow> (let r = one_result cfg name a fin in
         (Finished r, Some (upserted aid name (rr_status r) (finish_params h a r) row)))
     | Finished r \<Rightarrow> pr)"

lemma own_step_twice: "\<exists>r row. own_step h cfg aid name fin (own_step h cfg aid name fin pr) = (Finished r, row)"
  by (cases pr; cases "fst pr") (auto simp: own_step_def Let_def)

lemma own_step_settles:
  "2 \<le> n \<Longrightarrow> (own_step h cfg aid name fin ^^ n) pr = own_step h cfg aid name fin (own_step h cfg aid name fin pr)"
proof (induction n rule: dec_induct)
  case base
  show ?case by (simp add: eval_nat_numeral)
next
  case (step n)
  then show ?case using own_step_twice [of h cfg aid name fin pr] by (auto simp: own_step_def)
qed

text \<open>Stores on which the runner works: well formed, with the archive known.\<close>

definition ready :: "string \<Rightarrow> hooks_state \<Rightarrow> bool" where
  "ready aid st \<longleftrightarrow> store_wf (hs_store st) \<and> GetArchive (hs_store st) aid \<noteq> None"

lemma ready_keeps: "keeps_archives st st' \<Longrightarrow> ready aid st \<Longrightarrow> ready aid st'"
  using keeps_get [of st st' aid] by (auto simp: ready_def keeps_archives_def)

lemma getHookRow_kfind: "ready aid st \<Longrightarrow> getHookRow aid name st = kfind hook_key (aid, name) (s_hooks (hs_store st))"
  by (simp add: getHookRow_def find_ListHooks ready_def store_wf_def)

lemma row_attempts: "ready aid st \<Longrightarrow> getHookRow aid name st = Some row \<Longrightarrow> 0 \<le> h_attempts row"
  using getHookRow_kfind [of aid st name] kfind_mem [of hook_key "(aid, name)" "s_hooks (hs_store st)" row]
  by (simp add: ready_def store_wf_def)

lemma row_status_nonempty [simp]: "hook_row_status_str s \<noteq> []"
  by (cases s) simp_all

lemma getHookRow_upsert:
  assumes r: "ready aid st" and p: "u_status p = hook_row_status_str s" and a: "u_attempts p = Some a" "0 \<le> a"
  shows "getHookRow aid n (upsertHook aid name p st) =
    (if n = name then Some (upserted aid name s p (getHookRow aid name st)) else getHookRow aid n st)"
proof -
  let ?row = "upserted aid name s p (kfind hook_key (aid, name) (s_hooks (hs_store st)))"
  have "UpsertHook aid name p (hs_store st) = (Inr ?row, upsert_hooks aid name ?row (hs_store st))"
    using UpsertHook_run [of "hs_store st" p s aid name] r p a by (simp add: ready_def Let_def upserted_def)
  then have u: "upsertHook aid name p st = st\<lparr>hs_store := upsert_hooks aid name ?row (hs_store st)\<rparr>"
    by (simp add: upsertHook_def hook_store_do_def)
  have "ready aid (upsertHook aid name p st)" by (rule ready_keeps [OF upsertHook_keeps r])
  with r show ?thesis by (simp add: getHookRow_kfind u kfind_upsert_hooks)
qed

lemma next_attempt_own: "next_attempt rec name st = attempt_after (getHookRow (a_archive_id rec) name st)"
  by (simp add: next_attempt_def attempt_after_def)

lemma attempt_after_pos: "ready aid st \<Longrightarrow> 0 < attempt_after (getHookRow aid name st)"
  by (fastforce simp: attempt_after_def dest: row_attempts split: option.split)

lemma begin_one_rows:
  assumes "ready (a_archive_id rec) st" "begin_one h rec name st = (a, st')"
  shows "a = attempt_after (getHookRow (a_archive_id rec) name st)"
    and "getHookRow (a_archive_id rec) n st' =
      (if n = name then snd (own_step h cfg (a_archive_id rec) name fin (Waiting, getHookRow (a_archive_id rec) name st))
       else getHookRow (a_archive_id rec) n st)"
    and "ready (a_archive_id rec) st'"
proof -
  let ?aid = "a_archive_id rec"
  have st': "a = attempt_after (getHookRow ?aid name st)" "st' = upsertHook ?aid name (begin_params h a) st"
    using assms(2) by (auto simp: begin_one_def next_attempt_own Let_def)
  then show "a = attempt_after (getHookRow ?aid name st)" by simp
  have "''running'' = hook_row_status_str HookRunning" by simp
  then show "getHookRow ?aid n st' =
      (if n = name then snd (own_step h cfg ?aid name fin (Waiting, getHookRow ?aid name st)) else getHookRow ?aid n st)"
    using attempt_after_pos [OF assms(1), of name] getHookRow_upsert [OF assms(1), of "begin_params h a" HookRunning a n name]
    by (simp add: st' own_step_def)
  show "ready ?aid st'" by (simp add: st' ready_keeps [OF upsertHook_keeps assms(1)])
qed

lemma finish_one_rows:
  assumes "ready (a_archive_id rec) st" "finish_one h cfg rec hk a st = (r, st')" "0 \<le> a"
    and "fin = fst (hook_end h cfg rec hk (hs_world st))"
  shows "r = one_result cfg (dh_name hk) a fin"
    and "getHookRow (a_archive_id rec) n st' =
      (if n = dh_name hk then snd (own_step h cfg (a_archive_id rec) (dh_name hk) fin (Running a, getHookRow (a_archive_id rec) (dh_name hk) st))
       else getHookRow (a_archive_id rec) n st)"
    and "ready (a_archive_id rec) st'"
proof -
  let ?aid = "a_archive_id rec"
  obtain w2 where w2: "hook_end h cfg rec hk (hs_world st) = (fin, w2)" using assms(4) by (cases "hook_end h cfg rec hk (hs_world st)") simp
  let ?st = "st\<lparr>hs_world := w2\<rparr>"
  have r: "r = one_result cfg (dh_name hk) a fin" and st': "st' = upsertHook ?aid (dh_name hk) (finish_params h a r) ?st"
    using assms(2) by (auto simp: finish_one_def w2 Let_def)
  then show "r = one_result cfg (dh_name hk) a fin" by simp
  have rd: "ready ?aid ?st" and same: "getHookRow ?aid m ?st = getHookRow ?aid m st" for m
    using assms(1) by (simp_all add: ready_def getHookRow_def)
  show "getHookRow ?aid n st' =
      (if n = dh_name hk then snd (own_step h cfg ?aid (dh_name hk) fin (Running a, getHookRow ?aid (dh_name hk) st)) else getHookRow ?aid n st)"
    using getHookRow_upsert [OF rd, of "finish_params h a r" "rr_status r" a n "dh_name hk"] assms(3)
    by (simp add: st' same own_step_def r Let_def)
  show "ready ?aid st'" by (simp add: st' ready_keeps [OF upsertHook_keeps rd])
qed

subsection \<open>Schedules\<close>

text \<open>How a script ends does not depend on what the other scripts have done meanwhile.\<close>

definition independent_hooks :: "hook_host \<Rightarrow> config \<Rightarrow> archive \<Rightarrow> discovered_hook list \<Rightarrow> bool" where
  "independent_hooks h cfg rec hks \<longleftrightarrow>
     (\<forall>hk \<in> set hks. \<forall>w w'. fst (hook_end h cfg rec hk w) = fst (hook_end h cfg rec hk w'))"

definition the_end :: "hook_host \<Rightarrow> config \<Rightarrow> archive \<Rightarrow> discovered_hook \<Rightarrow> process_end" where
  "the_end h cfg rec hk = fst (hook_end h cfg rec hk \<lparr>w_files = [], w_dirs = [], w_mounts = [], w_alive = [], w_locked = []\<rparr>)"

lemma independent_end:
  "independent_hooks h cfg rec hks \<Longrightarrow> hk \<in> set hks \<Longrightarrow> the_end h cfg rec hk = fst (hook_end h cfg rec hk w)"
  unfolding independent_hooks_def the_end_def by blast

abbreviation step_of :: "hook_host \<Rightarrow> config \<Rightarrow> archive \<Rightarrow> discovered_hook \<Rightarrow> par_phase \<times> hook_row option \<Rightarrow> par_phase \<times> hook_row option" where
  "step_of h cfg rec hk \<equiv> own_step h cfg (a_archive_id rec) (dh_name hk) (the_end h cfg rec hk)"

definition par_ok :: "archive \<Rightarrow> discovered_hook list \<Rightarrow> par_phase list \<times> hooks_state \<Rightarrow> bool" where
  "par_ok rec hks ps \<longleftrightarrow> length (fst ps) = length hks \<and> ready (a_archive_id rec) (snd ps)
     \<and> (\<forall>a. Running a \<in> set (fst ps) \<longrightarrow> 0 \<le> a)"

definition own_view :: "archive \<Rightarrow> discovered_hook list \<Rightarrow> par_phase list \<times> hooks_state \<Rightarrow> nat \<Rightarrow> par_phase \<times> hook_row option" where
  "own_view rec hks ps j = (fst ps ! j, getHookRow (a_archive_id rec) (dh_name (hks ! j)) (snd ps))"

lemma par_step_own:
  assumes ok: "par_ok rec hks ps" and d: "distinct (map dh_name hks)" and ind: "independent_hooks h cfg rec hks" and i: "i < length hks"
  shows "par_ok rec hks (par_step h cfg rec hks i ps)"
    and "j < length hks \<Longrightarrow> own_view rec hks (par_step h cfg rec hks i ps) j =
      (if j = i then step_of h cfg rec (hks ! i) (own_view rec hks ps i) else own_view rec hks ps j)"
    and "n \<notin> set (map dh_name hks) \<Longrightarrow>
      getHookRow (a_archive_id rec) n (snd (par_step h cfg rec hks i ps)) = getHookRow (a_archive_id rec) n (snd ps)"
proof -
  obtain phases st where ps: "ps = (phases, st)" by fastforce
  have len: "length phases = length hks" and rd: "ready (a_archive_id rec) st"
    and pos: "\<And>a. Running a \<in> set phases \<Longrightarrow> 0 \<le> a" using ok by (auto simp: par_ok_def ps)
  let ?hk = "hks ! i"
  have other: "dh_name (hks ! j) = dh_name ?hk \<longleftrightarrow> j = i" if "j < length hks" for j
    using d i that by (simp add: distinct_conv_nth) (metis length_map nth_map)
  have inside: "dh_name ?hk \<in> set (map dh_name hks)" using i by simp
  note fin = independent_end [OF ind nth_mem [OF i], of "hs_world st"]
  have "par_ok rec hks (par_step h cfg rec hks i ps)
    \<and> (\<forall>j < length hks. own_view rec hks (par_step h cfg rec hks i ps) j =
        (if j = i then step_of h cfg rec ?hk (own_view rec hks ps i) else own_view rec hks ps j))
    \<and> (\<forall>n. n \<notin> set (map dh_name hks) \<longrightarrow>
        getHookRow (a_archive_id rec) n (snd (par_step h cfg rec hks i ps)) = getHookRow (a_archive_id rec) n (snd ps))"
  proof (cases "phases ! i")
    case Waiting
    obtain a st1 where b: "begin_one h rec (dh_name ?hk) st = (a, st1)" by fastforce
    note rows = begin_one_rows(1,3) [OF rd b] begin_one_rows(2) [OF rd b, of _ cfg "the_end h cfg rec ?hk"]
    have s: "par_step h cfg rec hks i (phases, st) = (phases[i := Running a], st1)" using i len Waiting by (simp add: par_step_def b)
    show ?thesis
      using rows(1,2) attempt_after_pos [OF rd, of "dh_name ?hk"] len pos i inside
      by (auto simp: s par_ok_def own_view_def ps nth_list_update other Waiting own_step_def rows(3)
          dest!: set_update_subset_insert [THEN subsetD])
  next
    case (Running a)
    have a: "0 \<le> a" using pos i len nth_mem [of i phases] Running by simp
    obtain r st1 where f: "finish_one h cfg rec ?hk a st = (r, st1)" by fastforce
    note rows = finish_one_rows [OF rd f a fin]
    have s: "par_step h cfg rec hks i (phases, st) = (phases[i := Finished r], st1)" using i len Running by (simp add: par_step_def f)
    show ?thesis
      using rows(1,3) len pos i inside
      by (auto simp: s par_ok_def own_view_def ps nth_list_update other Running own_step_def rows(2) Let_def
          dest!: set_update_subset_insert [THEN subsetD])
  next
    case (Finished r)
    have s: "par_step h cfg rec hks i (phases, st) = (phases, st)" using i len Finished by (simp add: par_step_def)
    show ?thesis using ok i by (auto simp: s own_view_def ps Finished own_step_def)
  qed
  then show "par_ok rec hks (par_step h cfg rec hks i ps)"
    "j < length hks \<Longrightarrow> own_view rec hks (par_step h cfg rec hks i ps) j =
      (if j = i then step_of h cfg rec ?hk (own_view rec hks ps i) else own_view rec hks ps j)"
    "n \<notin> set (map dh_name hks) \<Longrightarrow>
      getHookRow (a_archive_id rec) n (snd (par_step h cfg rec hks i ps)) = getHookRow (a_archive_id rec) n (snd ps)"
    by blast+
qed

lemma par_step_outside: "par_ok rec hks ps \<Longrightarrow> \<not> i < length hks \<Longrightarrow> par_step h cfg rec hks i ps = ps"
  by (cases ps) (simp add: par_step_def)

lemma fold_par_own:
  assumes d: "distinct (map dh_name hks)" and ind: "independent_hooks h cfg rec hks"
  shows "par_ok rec hks ps \<Longrightarrow> par_ok rec hks (fold (par_step h cfg rec hks) sched ps)
    \<and> (\<forall>j < length hks. own_view rec hks (fold (par_step h cfg rec hks) sched ps) j =
        (step_of h cfg rec (hks ! j) ^^ count_list sched j) (own_view rec hks ps j))
    \<and> (\<forall>n. n \<notin> set (map dh_name hks) \<longrightarrow>
        getHookRow (a_archive_id rec) n (snd (fold (par_step h cfg rec hks) sched ps)) = getHookRow (a_archive_id rec) n (snd ps))"
proof (induction sched arbitrary: ps)
  case (Cons i sched)
  show ?case
  proof (cases "i < length hks")
    case True
    note own = par_step_own [OF Cons.prems d ind True]
    show ?thesis using Cons.IH [OF own(1)] own(2,3) by (simp add: funpow_swap1)
  next
    case False
    then show ?thesis using Cons.IH [OF Cons.prems] par_step_outside [OF Cons.prems False] by auto
  qed
qed simp

lemma count_list_upt: "j < n \<Longrightarrow> count_list [0..<n] j = 1"
  by (induction n) (auto simp: count_list_0_iff)

text \<open>The result and the row a hook ends with, from its row at the start.\<close>

definition settled_phase :: "string \<Rightarrow> hook_row option \<Rightarrow> par_phase" where
  "settled_phase name row =
    (case row of
       None \<Rightarrow> Waiting
     | Some r \<Rightarrow>
        (if h_status r = HookSuccess
         then Finished \<lparr>rr_hook = name, rr_status = HookSuccess, rr_exit = h_last_exit_code r,
                    rr_attempts = h_attempts r, rr_error = '''', rr_timed_out = False\<rparr>
         else if h_status r = HookSkipped
         then Finished \<lparr>rr_hook = name, rr_status = HookSkipped, rr_exit = None,
                    rr_attempts = h_attempts r, rr_error = strPtr (h_last_error r), rr_timed_out = False\<rparr>
         else Waiting))"

lemma first_phase_own: "first_phase rec st hk = settled_phase (dh_name hk) (getHookRow (a_archive_id rec) (dh_name hk) st)"
  by (simp add: first_phase_def settled_def settled_phase_def split: option.split)

definition own_outcome :: "hook_host \<Rightarrow> config \<Rightarrow> archive \<Rightarrow> hooks_state \<Rightarrow> discovered_hook \<Rightarrow> par_phase \<times> hook_row option" where
  "own_outcome h cfg rec st hk =
    step_of h cfg rec hk (step_of h cfg rec hk (first_phase rec st hk, getHookRow (a_archive_id rec) (dh_name hk) st))"

definition outcome_result :: "par_phase \<Rightarrow> run_result" where
  "outcome_result ph = (case ph of Finished r \<Rightarrow> r | _ \<Rightarrow> undefined)"

lemma phase_results_finished: "\<forall>p \<in> set phases. \<exists>r. p = Finished r \<Longrightarrow> phase_results phases = map outcome_result phases"
  by (induction phases) (auto simp: phase_results_def outcome_result_def)

lemma runParallel_own:
  assumes d: "distinct (map dh_name hks)" and ind: "independent_hooks h cfg rec hks" and rd: "ready (a_archive_id rec) st"
  shows "fst (runParallel h cfg sched rec hks st) = map (\<lambda>hk. outcome_result (fst (own_outcome h cfg rec st hk))) hks"
    and "hk \<in> set hks \<Longrightarrow> getHookRow (a_archive_id rec) (dh_name hk) (snd (runParallel h cfg sched rec hks st)) = snd (own_outcome h cfg rec st hk)"
    and "n \<notin> set (map dh_name hks) \<Longrightarrow>
      getHookRow (a_archive_id rec) n (snd (runParallel h cfg sched rec hks st)) = getHookRow (a_archive_id rec) n st"
proof -
  let ?ps = "(map (first_phase rec st) hks, st)"
  define sch where "sch = sched @ [0..<length hks] @ [0..<length hks]"
  define ps' where "ps' = fold (par_step h cfg rec hks) sch ?ps"
  have "par_ok rec hks ?ps"
    using rd by (auto simp: par_ok_def first_phase_own settled_phase_def split: option.splits if_splits)
  note own = fold_par_own [OF d ind this, of sch, folded ps'_def]
  have end_view: "own_view rec hks ps' j = own_outcome h cfg rec st (hks ! j)" if j: "j < length hks" for j
  proof -
    have "2 \<le> count_list sch j" using count_list_upt [OF j] by (simp add: sch_def)
    from own_step_settles [OF this] show ?thesis using own j by (simp add: own_view_def own_outcome_def)
  qed
  have len: "length (fst ps') = length hks" using own by (simp add: par_ok_def)
  have ph: "fst ps' ! j = fst (own_outcome h cfg rec st (hks ! j))" if "j < length hks" for j
    using end_view [OF that] unfolding own_view_def by (metis fst_conv)
  have "\<forall>p \<in> set (fst ps'). \<exists>r. p = Finished r"
  proof
    fix p assume "p \<in> set (fst ps')"
    then obtain j where "j < length hks" "p = fst ps' ! j" using len by (auto simp: in_set_conv_nth)
    then have "p = fst (own_outcome h cfg rec st (hks ! j))" using ph by simp
    then show "\<exists>r. p = Finished r"
      using own_step_twice [of h cfg "a_archive_id rec" "dh_name (hks ! j)" "the_end h cfg rec (hks ! j)"
          "(first_phase rec st (hks ! j), getHookRow (a_archive_id rec) (dh_name (hks ! j)) st)"]
      by (auto simp: own_outcome_def)
  qed
  then have res: "phase_results (fst ps') = map outcome_result (fst ps')" by (rule phase_results_finished)
  have run: "runParallel h cfg sched rec hks st = (phase_results (fst ps'), snd ps')"
    by (simp add: runParallel_def Let_def case_prod_beta ps'_def sch_def)
  show "fst (runParallel h cfg sched rec hks st) = map (\<lambda>hk. outcome_result (fst (own_outcome h cfg rec st hk))) hks"
    using len ph by (auto simp: run res intro: nth_equalityI)
  show "getHookRow (a_archive_id rec) (dh_name hk) (snd (runParallel h cfg sched rec hks st)) = snd (own_outcome h cfg rec st hk)"
    if "hk \<in> set hks"
    using end_view that by (auto simp: run own_view_def in_set_conv_nth) (metis snd_conv)
  show "n \<notin> set (map dh_name hks) \<Longrightarrow>
      getHookRow (a_archive_id rec) n (snd (runParallel h cfg sched rec hks st)) = getHookRow (a_archive_id rec) n st"
    using own by (simp add: run)
qed

lemma runOne_own:
  assumes rd: "ready (a_archive_id rec) st" and one: "runOne h cfg rec hk st = (r, st')"
    and fin: "\<And>w. the_end h cfg rec hk = fst (hook_end h cfg rec hk w)"
  shows "step_of h cfg rec hk (step_of h cfg rec hk (Waiting, getHookRow (a_archive_id rec) (dh_name hk) st)) =
      (Finished r, getHookRow (a_archive_id rec) (dh_name hk) st')"
    and "n \<noteq> dh_name hk \<Longrightarrow> getHookRow (a_archive_id rec) n st' = getHookRow (a_archive_id rec) n st"
    and "ready (a_archive_id rec) st'"
proof -
  obtain a st1 where b: "begin_one h rec (dh_name hk) st = (a, st1)" by fastforce
  then have f: "finish_one h cfg rec hk a st1 = (r, st')" using one by (simp add: runOne_def)
  note r1 = begin_one_rows(1,3) [OF rd b] begin_one_rows(2) [OF rd b, of _ cfg "the_end h cfg rec hk"]
  have "0 \<le> a" using r1(1) attempt_after_pos [OF rd, of "dh_name hk"] by simp
  note r2 = finish_one_rows [OF r1(2) f this fin]
  show "step_of h cfg rec hk (step_of h cfg rec hk (Waiting, getHookRow (a_archive_id rec) (dh_name hk) st)) =
      (Finished r, getHookRow (a_archive_id rec) (dh_name hk) st')"
    using r1 r2 by (simp add: own_step_def Let_def)
  show "n \<noteq> dh_name hk \<Longrightarrow> getHookRow (a_archive_id rec) n st' = getHookRow (a_archive_id rec) n st"
    using r1 r2 by simp
  show "ready (a_archive_id rec) st'" by (rule r2(3))
qed

lemma settled_own: "settled rec (dh_name hk) st = Some r \<Longrightarrow>
    own_outcome h cfg rec st hk = (Finished r, getHookRow (a_archive_id rec) (dh_name hk) st)"
  "settled rec (dh_name hk) st = None \<Longrightarrow> first_phase rec st hk = Waiting"
  by (simp_all add: own_outcome_def first_phase_def own_step_def)

lemma own_outcome_cong:
  "getHookRow (a_archive_id rec) (dh_name hk) st' = getHookRow (a_archive_id rec) (dh_name hk) st \<Longrightarrow>
    own_outcome h cfg rec st' hk = own_outcome h cfg rec st hk"
  by (simp add: own_outcome_def first_phase_own)

lemma runSequential_own:
  assumes "distinct (map dh_name hks)" "independent_hooks h cfg rec hks" "ready (a_archive_id rec) st" "\<not> c_hooks_stop_on_hard_fail cfg"
  shows "fst (runSequential h cfg rec False hks st) = map (\<lambda>hk. outcome_result (fst (own_outcome h cfg rec st hk))) hks
    \<and> (\<forall>hk \<in> set hks. getHookRow (a_archive_id rec) (dh_name hk) (snd (runSequential h cfg rec False hks st)) = snd (own_outcome h cfg rec st hk))
    \<and> (\<forall>n. n \<notin> set (map dh_name hks) \<longrightarrow>
        getHookRow (a_archive_id rec) n (snd (runSequential h cfg rec False hks st)) = getHookRow (a_archive_id rec) n st)"
  using assms(1-3)
proof (induction hks arbitrary: st)
  case (Cons hk hks)
  have ind: "independent_hooks h cfg rec hks" and end_hk: "\<And>w. the_end h cfg rec hk = fst (hook_end h cfg rec hk w)"
    using Cons.prems(2) independent_end [OF Cons.prems(2)] by (simp_all add: independent_hooks_def)
  have d: "distinct (map dh_name hks)" and new: "dh_name hk \<notin> set (map dh_name hks)" using Cons.prems(1) by simp_all
  obtain r st1 where step: "own_outcome h cfg rec st hk = (Finished r, getHookRow (a_archive_id rec) (dh_name hk) st1)"
    "ready (a_archive_id rec) st1" "\<And>n. n \<noteq> dh_name hk \<Longrightarrow> getHookRow (a_archive_id rec) n st1 = getHookRow (a_archive_id rec) n st"
    "runSequential h cfg rec False (hk # hks) st =
      (r # fst (runSequential h cfg rec False hks st1), snd (runSequential h cfg rec False hks st1))"
  proof (cases "settled rec (dh_name hk) st")
    case (Some r)
    show thesis
      by (rule that [of r st]) (simp_all add: settled_own(1) [OF Some] Cons.prems(3) Some case_prod_beta)
  next
    case None
    obtain r st1 where one: "runOne h cfg rec hk st = (r, st1)" by fastforce
    note own = runOne_own [OF Cons.prems(3) one end_hk]
    show thesis
      by (rule that [of r st1])
        (use own None assms(4) settled_own(2) [OF None] in \<open>simp_all add: own_outcome_def one case_prod_beta\<close>)
  qed
  note IH = Cons.IH [OF d ind step(2)]
  have same: "own_outcome h cfg rec st1 k = own_outcome h cfg rec st k" if "k \<in> set hks" for k
  proof -
    have "dh_name k \<noteq> dh_name hk" using that new by (metis imageI set_map)
    then show ?thesis by (intro own_outcome_cong step(3))
  qed
  show ?case
    unfolding step(4) using IH new same
    by (auto simp: step(1,3) outcome_result_def simp del: runSequential.simps cong: map_cong)
qed simp

text \<open>C17. Running the hooks of a cycle in parallel gives the same results, in the same order, and the
  same hook rows as running them one after the other without stopping at a hard failure,
  whatever the order in which the goroutines take their turns on the store: provided the hooks
  have different names (they are entries of one directory) and no script's exit depends on
  what the others did in the meantime.\<close>

theorem parallel_eq_sequential:
  assumes "distinct (map dh_name hks)" "independent_hooks h cfg rec hks" "\<not> c_hooks_stop_on_hard_fail cfg"
    and "store_wf (hs_store st)" "GetArchive (hs_store st) (a_archive_id rec) \<noteq> None"
  shows "fst (runParallel h cfg sched rec hks st) = fst (runSequential h cfg rec False hks st)
    \<and> getHookRow (a_archive_id rec) n (snd (runParallel h cfg sched rec hks st)) =
      getHookRow (a_archive_id rec) n (snd (runSequential h cfg rec False hks st))"
proof (intro conjI)
  have rd: "ready (a_archive_id rec) st" using assms(4,5) by (simp add: ready_def)
  note par = runParallel_own [OF assms(1,2) rd] and seq = runSequential_own [OF assms(1,2) rd assms(3)]
  show "fst (runParallel h cfg sched rec hks st) = fst (runSequential h cfg rec False hks st)" using par(1) seq by simp
  show "getHookRow (a_archive_id rec) n (snd (runParallel h cfg sched rec hks st)) =
      getHookRow (a_archive_id rec) n (snd (runSequential h cfg rec False hks st))"
  proof (cases "n \<in> set (map dh_name hks)")
    case True
    then show ?thesis using par(2) seq by auto
  next
    case False
    then show ?thesis using par(3) seq by simp
  qed
qed

subsection \<open>Attempts\<close>

text \<open>A hook's attempts are counted and its retries bounded: one run raises the attempts of its row by
  one, its row ends with exactly the reported result, and it asks for another try only
  while the attempts do not exceed \<open>hook_max_retries\<close>; an exhausted timeout or exit 75 is a
  failure.\<close>

theorem hook_retry_budget:
  assumes "store_wf (hs_store st)" "GetArchive (hs_store st) (a_archive_id rec) \<noteq> None"
    and "runOne h cfg rec hk st = (r, st')"
  shows "rr_attempts r = (case getHookRow (a_archive_id rec) (dh_name hk) st of None \<Rightarrow> 1 | Some row \<Rightarrow> h_attempts row + 1)
    \<and> (\<exists>row. getHookRow (a_archive_id rec) (dh_name hk) st' = Some row \<and> h_status row = rr_status r
      \<and> h_attempts row = rr_attempts r \<and> h_last_error row = Some (rr_error r))
    \<and> (rr_status r = HookRetry \<longrightarrow> rr_attempts r \<le> c_hook_max_retries cfg)
    \<and> (rr_status r = HookSuccess \<longleftrightarrow> rr_exit r = Some 0)"
proof (intro conjI)
  have rd: "ready (a_archive_id rec) st" using assms(1,2) by (simp add: ready_def)
  obtain a st1 where b: "begin_one h rec (dh_name hk) st = (a, st1)" by fastforce
  then have f: "finish_one h cfg rec hk a st1 = (r, st')" using assms(3) by (simp add: runOne_def)
  note r1 = begin_one_rows(1,3) [OF rd b]
  have "0 \<le> a" using r1(1) attempt_after_pos [OF rd, of "dh_name hk"] by simp
  note r2 = finish_one_rows [OF r1(2) f this refl]
  have att: "rr_attempts (one_result cfg n a fin) = a"
    "rr_status (one_result cfg n a fin) = HookRetry \<longrightarrow> a \<le> c_hook_max_retries cfg"
    "rr_status (one_result cfg n a fin) = HookSuccess \<longleftrightarrow> rr_exit (one_result cfg n a fin) = Some 0" for n fin
    by (auto simp: one_result_def ClassifyExit_def runHookProcess_def Let_def split: process_end.split option.split if_splits)
  show "rr_attempts r = (case getHookRow (a_archive_id rec) (dh_name hk) st of None \<Rightarrow> 1 | Some row \<Rightarrow> h_attempts row + 1)"
    using r1(1) r2(1) att(1) by (simp add: attempt_after_def)
  show "\<exists>row. getHookRow (a_archive_id rec) (dh_name hk) st' = Some row \<and> h_status row = rr_status r
      \<and> h_attempts row = rr_attempts r \<and> h_last_error row = Some (rr_error r)"
    using r2(1,2) att(1) by (simp add: own_step_def upserted_def Let_def)
  show "rr_status r = HookRetry \<longrightarrow> rr_attempts r \<le> c_hook_max_retries cfg"
    "rr_status r = HookSuccess \<longleftrightarrow> rr_exit r = Some 0"
    using r2(1) att by simp_all
qed

subsection \<open>An example\<close>

definition script_info :: file_info where
  "script_info = \<lparr>fi_kind = KindRegular, fi_mode = 493, fi_uid = Some 0\<rparr>"

definition sample_hook_host :: hook_host where
  "sample_hook_host = \<lparr>hh_utc = ''t1'', hh_config_path = ''/etc/c'', hh_environ = [''HOME=/root''], hh_cwd = ''/'',
     hh_lstat = (\<lambda>w p. Inr (if p = ''/etc/hooks.d'' then script_info\<lparr>fi_kind := KindDir\<rparr> else script_info)),
     hh_stat = (\<lambda>w p. Inr (if p = ''/etc/hooks.d'' then script_info\<lparr>fi_kind := KindDir\<rparr> else script_info)),
     hh_real = (\<lambda>w p. Some p),
     hh_names = (\<lambda>w p. Some [''20-b'', ''10-a'', ''README'']), hh_mkdir = (\<lambda>p w. (True, w)),
     hh_exec = (\<lambda>argv env cwd t w. (Ended (Some (if argv ! 0 = ''/etc/hooks.d/10-a'' then 75 else 0)) None, w))\<rparr>"

definition sample_hooks_state :: hooks_state where
  "sample_hooks_state = \<lparr>hs_store = \<lparr>s_archives = [sample_row\<lparr>a_status := StatusMounted\<rparr>], s_hooks = [], s_meta = []\<rparr>,
     hs_world = \<lparr>w_files = [], w_dirs = [], w_mounts = [], w_alive = [], w_locked = []\<rparr>\<rparr>"

definition two_hooks :: "discovered_hook list" where
  "two_hooks = [\<lparr>dh_name = ''10-a'', dh_path = ''/etc/hooks.d/10-a''\<rparr>, \<lparr>dh_name = ''20-b'', dh_path = ''/etc/hooks.d/20-b''\<rparr>]"

lemma sample_hooks_ready:
  "store_wf (hs_store sample_hooks_state)"
  "GetArchive (hs_store sample_hooks_state) ''x'' = Some (sample_row\<lparr>a_status := StatusMounted\<rparr>)"
  by (simp_all add: sample_hooks_state_def store_wf_def kdistinct_def sample_row_def GetArchive_def)

lemma sample_secure:
  "secure_hooks sample_hook_host sample_config (DefaultSecurityPolicy 1000) w (DiscoverHooks sample_hook_host ''/etc/hooks.d'' w) = Inr two_hooks"
proof -
  have "DiscoverHooks sample_hook_host ''/etc/hooks.d'' w = two_hooks"
    by (simp add: DiscoverHooks_def sample_hook_host_def hook_candidate_def script_info_def) code_simp
  moreover have "\<not> escapes_hooks ''/etc/hooks.d'' ''/etc/hooks.d/10-a''" "\<not> escapes_hooks ''/etc/hooks.d'' ''/etc/hooks.d/20-b''"
    by code_simp+
  moreover have "\<not> has_bits 493 group_write" "\<not> has_bits 493 other_write" "has_bits 493 exec_bits" by code_simp+
  ultimately show ?thesis
    by (simp add: two_hooks_def ValidateHookSecurity_def check_target_def sample_hook_host_def script_info_def
        resolve_or_abs_def DefaultSecurityPolicy_def ownerOK_def sample_config_def)
qed


theorem RunForArchive_completes_witness:
  "\<exists>c st' rec'. RunForArchive sample_hook_host sample_config (DefaultSecurityPolicy 0) [1, 0, 1] ''x'' False sample_hooks_state = (Inr c, st')
     \<and> GetArchive (hs_store st') ''x'' = Some rec' \<and> store_wf (hs_store st')"
  using RunForArchive_completes [OF sample_hooks_ready, of sample_hook_host sample_config "DefaultSecurityPolicy 0" "[1, 0, 1]" False]
  by auto

lemma sample_independent: "independent_hooks sample_hook_host cfg rec hks"
  by (simp add: independent_hooks_def hook_end_def sample_hook_host_def case_prod_beta Let_def)

theorem parallel_eq_sequential_witness:
  "fst (runParallel sample_hook_host (sample_config\<lparr>c_hooks_stop_on_hard_fail := False\<rparr>) [1, 0, 0]
      (sample_row\<lparr>a_status := StatusMounted\<rparr>) two_hooks sample_hooks_state) =
   fst (runSequential sample_hook_host (sample_config\<lparr>c_hooks_stop_on_hard_fail := False\<rparr>)
      (sample_row\<lparr>a_status := StatusMounted\<rparr>) False two_hooks sample_hooks_state)"
proof (rule parallel_eq_sequential [THEN conjunct1])
  show "distinct (map dh_name two_hooks)" by (simp add: two_hooks_def)
  show "independent_hooks sample_hook_host (sample_config\<lparr>c_hooks_stop_on_hard_fail := False\<rparr>) (sample_row\<lparr>a_status := StatusMounted\<rparr>) two_hooks"
    by (rule sample_independent)
  show "store_wf (hs_store sample_hooks_state)" by (rule sample_hooks_ready)
  show "GetArchive (hs_store sample_hooks_state) (a_archive_id (sample_row\<lparr>a_status := StatusMounted\<rparr>)) \<noteq> None"
    using sample_hooks_ready(2) by (simp add: sample_row_def)
qed simp

theorem hook_retry_budget_witness:
  "rr_attempts (fst (runOne sample_hook_host sample_config (sample_row\<lparr>a_status := StatusMounted\<rparr>) (hd two_hooks) sample_hooks_state)) = 1
   \<and> rr_status (fst (runOne sample_hook_host sample_config (sample_row\<lparr>a_status := StatusMounted\<rparr>) (hd two_hooks) sample_hooks_state)) = HookRetry"
proof -
  let ?rec = "sample_row\<lparr>a_status := StatusMounted\<rparr>"
  obtain r st' where one: "runOne sample_hook_host sample_config ?rec (hd two_hooks) sample_hooks_state = (r, st')" by fastforce
  have "GetArchive (hs_store sample_hooks_state) (a_archive_id ?rec) \<noteq> None" using sample_hooks_ready(2) by (simp add: sample_row_def)
  from hook_retry_budget [OF sample_hooks_ready(1) this one] have "rr_attempts r = 1"
    by (simp add: getHookRow_def sample_hooks_state_def ListHooks_def)
  moreover have "next_attempt ?rec ''10-a'' sample_hooks_state = 1" by (simp add: next_attempt_def getHookRow_def sample_hooks_state_def ListHooks_def)
  then have "rr_status r = HookRetry"
    using one by (auto simp: runOne_def begin_one_def finish_one_def hook_end_def two_hooks_def Let_def sample_hook_host_def
        HookArgv_def one_result_def runHookProcess_def ClassifyExit_def ExitRetry_def sample_config_def split: prod.splits)
  ultimately show ?thesis by (simp add: one)
qed

end
