(* ===== verification/CleanerProps.thy ===== *)
theory CleanerProps
  imports Cleaner EngineProps ConvertProps
begin

text \<open>
  What the cleaner guarantees: a purge touches no file outside the configured roots, the grace
  purge deletes exactly the rows that are due, and a quarantined overlay keeps its old
  modification time, so that the age prune of the same pass may delete it.
\<close>

subsection \<open>Files\<close>

definition outside :: "path \<Rightarrow> path \<Rightarrow> bool" where
  "outside d q \<longleftrightarrow> q \<noteq> d \<and> \<not> below d q"

lemma cl_on_world_sel [simp]:
  "cl_world (cl_on_world f st) = f (cl_world st)" "en_store (cl_eng (cl_on_world f st)) = en_store (cl_eng st)"
  "en_live (cl_eng (cl_on_world f st)) = en_live (cl_eng st)" "cl_mtime (cl_on_world f st) = cl_mtime st"
  by (simp_all add: cl_on_world_def)

lemma remove_all_frame: "outside d q \<Longrightarrow> file_size (snd (remove_all d w)) q = file_size w q"
  by (simp add: remove_all_def Let_def file_size_remove_tree outside_def)

lemma removePath_frame: "outside d q \<Longrightarrow> file_size (snd (removePath d w)) q = file_size w q"
  using remove_path_frame [of q d w] by (simp add: removePath_def remove_all_frame) (simp add: outside_def)

lemma kfind_map_frame:
  "(\<And>x. x \<in> set xs \<Longrightarrow> key (f x) = k \<longleftrightarrow> key x = k) \<Longrightarrow> (\<And>x. x \<in> set xs \<Longrightarrow> key x = k \<Longrightarrow> f x = x) \<Longrightarrow>
    kfind key k (map f xs) = kfind key k xs"
  by (induction xs) (auto simp: kfind_def)

lemma moved_to_outside: "outside src q \<Longrightarrow> outside dest q \<Longrightarrow> moved_to src dest p = q \<longleftrightarrow> p = q"
  by (auto simp: moved_to_def outside_def below_def has_prefix_iff)

lemma move_tree_frame:
  assumes "outside src q" "outside dest q"
  shows "file_size (move_tree src dest w) q = file_size w q"
proof -
  have "kfind fst q (map (\<lambda>(p, n). (moved_to src dest p, n)) (w_files w)) = kfind fst q (w_files w)"
  proof (rule kfind_map_frame)
    fix x assume "x \<in> set (w_files w)"
    obtain p n where x: "x = (p, n)" by fastforce
    show "fst ((\<lambda>(p, n). (moved_to src dest p, n)) x) = q \<longleftrightarrow> fst x = q" using moved_to_outside [OF assms, of p] by (simp add: x)
    show "(\<lambda>(p, n). (moved_to src dest p, n)) x = x" if "fst x = q"
      using assms that by (simp add: x moved_to_def outside_def)
  qed
  then show ?thesis by (simp add: file_size_def move_tree_def)
qed

lemma kfind_append_none: "(\<And>x. x \<in> set ys \<Longrightarrow> key x \<noteq> k) \<Longrightarrow> kfind key k (xs @ ys) = kfind key k xs"
  by (induction xs) (auto simp: kfind_def find_None_iff)

lemma copy_tree_frame:
  assumes "outside dest q"
  shows "file_size (copy_tree src dest w) q = file_size w q"
proof -
  have away: "q \<noteq> moved_to src dest p" if "p = src \<or> below src p" for p
    using assms that by (auto simp: moved_to_def outside_def below_def has_prefix_iff)
  then have "kfind fst q (w_files w @ map (\<lambda>(p, n). (moved_to src dest p, n)) (filter (\<lambda>f. fst f = src \<or> below src (fst f)) (w_files w)))
      = kfind fst q (w_files w)"
    by (intro kfind_append_none) fastforce
  then show ?thesis by (simp add: file_size_def copy_tree_def)
qed

lemma movePath_frame:
  assumes "outside src q" "outside dest q"
  shows "file_size (cl_world (snd (movePath h src dest st))) q = file_size (cl_world st) q"
proof -
  have "q \<noteq> src" "q \<noteq> dest" using assms by (simp_all add: outside_def)
  then show ?thesis
    using assms
    by (simp add: movePath_def Let_def case_prod_beta move_tree_frame remove_all_frame remove_path_frame copy_tree_frame)
qed

lemma movePath_store: "en_store (cl_eng (snd (movePath h src dest st))) = en_store (cl_eng st)"
  by (simp add: movePath_def Let_def case_prod_beta)

subsection \<open>Canonical paths\<close>

definition canon :: "path \<Rightarrow> bool" where
  "canon p \<longleftrightarrow> is_rooted p \<and> path_clean p = p \<and> comps p \<noteq> [] \<and> trim_space p = p"

definition inside :: "path \<Rightarrow> path \<Rightarrow> bool" where
  "inside r q \<longleftrightarrow> (\<exists>more. comps q = comps r @ more)"

lemma canon_outside: "canon d \<Longrightarrow> is_rooted q \<Longrightarrow> path_clean q = q \<Longrightarrow> outside d q \<longleftrightarrow> \<not> inside d q"
  using clean_under [of q d] by (auto simp: canon_def outside_def below_def inside_def)

lemma inside_trans: "inside a b \<Longrightarrow> inside b c \<Longrightarrow> inside a c"
  by (auto simp: inside_def)

lemma under_inside:
  assumes "is_rooted cwd" "canon p" "canon r"
  shows "PathUnderRoot cwd p r \<longleftrightarrow> inside r p"
proof -
  have "p \<noteq> ''''" "r \<noteq> ''''" using assms by (auto simp: canon_def)
  then show ?thesis
    using assms by (auto simp: PathUnderRoot_iff canon_def inside_def comps_abs Let_def)
qed

lemma plain_name: "CHR ''-'' \<in> set b \<Longrightarrow> b \<notin> {'''', ''.'', ''..''}"
  by auto

lemma quarantine_name_shape:
  assumes "is_rooted qroot" "CHR ''/'' \<notin> set aid" "CHR ''/'' \<notin> set ts"
  shows "comps (quarantine_name qroot aid ts n) = comps qroot @ [aid @ ''-'' @ ts @ (if n = 0 then '''' else ''-'' @ digits_of n)]"
    "is_rooted (quarantine_name qroot aid ts n)"
proof -
  let ?b = "aid @ ''-'' @ ts @ (if n = 0 then '''' else ''-'' @ digits_of n)"
  have dash: "CHR ''-'' \<in> set ?b" by simp
  have "CHR ''/'' \<notin> set (digits_of n)" using digits_of_range [of "CHR ''/''" n] by auto
  then have "CHR ''/'' \<notin> set ?b" using assms by simp
  moreover have "?b \<notin> {'''', ''.'', ''..''}" by (rule plain_name [OF dash])
  ultimately show "comps (quarantine_name qroot aid ts n) = comps qroot @ [?b]" "is_rooted (quarantine_name qroot aid ts n)"
    unfolding quarantine_name_def using comps_join [OF assms(1)] by blast+
qed

lemma stamp_no_slash: "CHR ''/'' \<notin> set (quarantine_stamp t)"
proof -
  have "CHR ''/'' \<notin> set (pad k i)" for k i
    using digits_of_range [of "CHR ''/''" "nat i"] by (auto simp: pad_def Let_def)
  then show ?thesis by (simp add: quarantine_stamp_def Let_def case_prod_beta)
qed

lemma QuarantineDir_shape:
  assumes "is_rooted d"
  shows "comps (QuarantineDir d) = comps d @ [''.quarantine'']" "is_rooted (QuarantineDir d)"
  unfolding QuarantineDir_def using comps_join [OF assms, of "''.quarantine''"] by simp_all

subsection \<open>The search for a quarantine name ends\<close>

lemma quarantine_name_inj:
  assumes "is_rooted qroot" "CHR ''/'' \<notin> set aid" "CHR ''/'' \<notin> set ts"
    and eq: "quarantine_name qroot aid ts n = quarantine_name qroot aid ts m"
  shows "n = m"
proof -
  have "aid @ ''-'' @ ts @ (if n = 0 then '''' else ''-'' @ digits_of n) = aid @ ''-'' @ ts @ (if m = 0 then '''' else ''-'' @ digits_of m)"
    using quarantine_name_shape(1) [OF assms(1-3), of n] quarantine_name_shape(1) [OF assms(1-3), of m] eq
    by (metis append_same_eq same_append_eq list.inject)
  then show ?thesis by (auto simp: digits_of_inj split: if_splits)
qed

lemma fresh_quarantine_step:
  assumes "\<not> path_exists w (quarantine_name qroot aid ts (n + k))"
  shows "\<exists>j. fresh_quarantine w qroot aid ts n = Some (quarantine_name qroot aid ts j)
    \<and> \<not> path_exists w (quarantine_name qroot aid ts j)"
  using assms
proof (induction k arbitrary: n)
  case 0
  then show ?case by (subst fresh_quarantine.simps) auto
next
  case (Suc k)
  then show ?case using Suc.IH [of "n + 1"] by (subst fresh_quarantine.simps) auto
qed

lemma fresh_quarantine_returns:
  assumes "is_rooted qroot" "CHR ''/'' \<notin> set aid" "CHR ''/'' \<notin> set ts"
  shows "\<exists>j. fresh_quarantine w qroot aid ts n = Some (quarantine_name qroot aid ts j)
    \<and> \<not> path_exists w (quarantine_name qroot aid ts j)"
proof -
  have "\<exists>k. \<not> path_exists w (quarantine_name qroot aid ts (n + k))"
  proof (rule ccontr)
    assume "\<nexists>k. \<not> path_exists w (quarantine_name qroot aid ts (n + k))"
    then have "range (\<lambda>k. quarantine_name qroot aid ts (n + k)) \<subseteq> fst ` set (w_files w) \<union> set (w_dirs w)"
      by (auto simp: path_exists_def is_file_def file_size_def kfind_None_iff)
    then have "finite (range (\<lambda>k. quarantine_name qroot aid ts (n + k)))" by (rule finite_subset) simp
    moreover have "inj (\<lambda>k. quarantine_name qroot aid ts (n + k))"
      by (rule injI) (use quarantine_name_inj [OF assms] in fastforce)
    ultimately show False using finite_imageD [of "\<lambda>k. quarantine_name qroot aid ts (n + k)" UNIV] by simp
  qed
  then show ?thesis using fresh_quarantine_step by blast
qed

subsection \<open>A purge stays inside the configured roots\<close>

text \<open>The paths of a row and the roots as the engine and the configuration write them.\<close>

definition tidy_row :: "archive \<Rightarrow> bool" where
  "tidy_row rec \<longleftrightarrow> CHR ''/'' \<notin> set (a_archive_id rec)
     \<and> (\<forall>p \<in> {a_index_path rec, a_overlay_path rec, a_mount_path rec}. strPtr p = '''' \<or> canon (strPtr p))"

definition tidy_roots :: "config \<Rightarrow> bool" where
  "tidy_roots cfg \<longleftrightarrow> canon (c_index_dir cfg) \<and> canon (c_overlay_dir cfg) \<and> canon (c_mount_root cfg)"

definition in_roots :: "config \<Rightarrow> path \<Rightarrow> bool" where
  "in_roots cfg q \<longleftrightarrow> inside (c_index_dir cfg) q \<or> inside (c_overlay_dir cfg) q \<or> inside (c_mount_root cfg) q"

lemma HandleOverlay_frame:
  assumes cwd: "is_rooted (ch_cwd h)" and o: "p = '''' \<or> canon p" and r: "canon r" and aid: "CHR ''/'' \<notin> set aid"
    and q: "is_rooted q" "path_clean q = q" "\<not> inside r q"
  shows "file_size (cl_world (snd (HandleOverlay h p aid r policy st))) q = file_size (cl_world st) q"
proof (cases "p \<noteq> '''' \<and> PathUnderRoot (ch_cwd h) p r")
  case False
  then show ?thesis by (auto simp: HandleOverlay_def Let_def)
next
  case True
  then have p: "canon p" "inside r p" using o under_inside [OF cwd _ r, of p] by auto
  have out_p: "outside p q" using canon_outside [OF p(1) q(1,2)] inside_trans [OF p(2)] q(3) by blast
  have rr: "is_rooted r" using r by (simp add: canon_def)
  note qd = QuarantineDir_shape [OF rr]
  have out_d: "outside (quarantine_name (QuarantineDir r) aid ts n) q" if "CHR ''/'' \<notin> set ts" for ts n
  proof -
    let ?d = "quarantine_name (QuarantineDir r) aid ts n"
    note sh = quarantine_name_shape [OF qd(2) aid that, of n]
    have d: "is_rooted ?d" "path_clean ?d = ?d" "inside r ?d"
      using sh qd by (auto simp: inside_def quarantine_name_def path_join_def path_clean_idem is_rooted_append)
    have "\<not> inside ?d q" using inside_trans [OF d(3)] q(3) by blast
    then show ?thesis using clean_under [OF q(1) d(1)] d(2) q(2) by (auto simp: outside_def below_def inside_def)
  qed
  have fresh: "\<exists>j. fresh_quarantine w (QuarantineDir r) aid (quarantine_stamp t) 0 = Some (quarantine_name (QuarantineDir r) aid (quarantine_stamp t) j)" for w t
    using fresh_quarantine_returns [OF qd(2) aid stamp_no_slash] by blast
  show ?thesis
    unfolding HandleOverlay_def Let_def
    using fresh [of "cl_world (cl_on_world (\<lambda>w. w\<lparr>w_dirs := List.insert (QuarantineDir r) (w_dirs w)\<rparr>) st)" "ch_now h"]
    by (auto simp: case_prod_beta removePath_frame [OF out_p] movePath_frame [OF out_p out_d [OF stamp_no_slash]]
        split: option.split)
qed

lemma inside_frame: "canon d \<Longrightarrow> inside r d \<Longrightarrow> is_rooted q \<Longrightarrow> path_clean q = q \<Longrightarrow> \<not> inside r q \<Longrightarrow> outside d q"
  using canon_outside inside_trans by blast

lemma RemoveUnusedMountDir_frame: "outside p q \<Longrightarrow> file_size (snd (RemoveUnusedMountDir h p r w)) q = file_size w q"
  using remove_path_frame [of q p w]
  by (auto simp: RemoveUnusedMountDir_def Let_def remove_all_frame outside_def split: prod.split bool.split)

lemma CleanupMountPoint_frame:
  assumes "is_rooted (ch_cwd h)" "p = '''' \<or> canon p" "canon r" "is_rooted q" "path_clean q = q" "\<not> inside r q"
  shows "file_size (snd (CleanupMountPoint h p r w)) q = file_size w q"
proof (cases "p = '''' \<or> \<not> PathUnderRoot (ch_cwd h) p r")
  case True
  moreover have "r \<noteq> ''''" using assms(3) by (auto simp: canon_def)
  ultimately show ?thesis by (auto simp: CleanupMountPoint_def RemoveUnusedMountDir_def)
next
  case False
  then have "outside p q" using assms under_inside [of "ch_cwd h" p r] inside_frame [of p r q] by blast
  then show ?thesis by (simp add: CleanupMountPoint_def RemoveUnusedMountDir_frame)
qed

lemma purge_index_frame:
  assumes "is_rooted (ch_cwd h)" "strPtr (a_index_path rec) = '''' \<or> canon (strPtr (a_index_path rec))" "canon (c_index_dir cfg)"
    "is_rooted q" "path_clean q = q" "\<not> inside (c_index_dir cfg) q"
  shows "file_size (cl_world (snd (purge_index h cfg rec st))) q = file_size (cl_world st) q"
proof (cases "strPtr (a_index_path rec) \<noteq> '''' \<and> PathUnderRoot (ch_cwd h) (strPtr (a_index_path rec)) (c_index_dir cfg)")
  case True
  then have "outside (strPtr (a_index_path rec)) q"
    using assms under_inside [of "ch_cwd h" "strPtr (a_index_path rec)" "c_index_dir cfg"] inside_frame [of "strPtr (a_index_path rec)" "c_index_dir cfg" q] by blast
  then have "q \<noteq> strPtr (a_index_path rec)" by (simp add: outside_def)
  then show ?thesis by (simp add: purge_index_def Let_def case_prod_beta DeleteIndexFile_def remove_file_def file_size_remove)
qed (auto simp: purge_index_def Let_def)

lemma purge_row_world: "cl_world (snd (purge_row aid r st)) = cl_world st"
  by (simp add: purge_row_def split: prod.split sum.split)

text \<open>C18. Purging an archive deletes files only inside the configured roots: with a row and
  roots whose paths are clean and absolute (as the engine and the configuration write them), and
  whatever the row says its index, overlay and mountpoint are, every file that lies neither in the
  index, the overlay nor the mount directory keeps its contents - when the overlay is deleted,
  quarantined by rename or by copy, and when any of the steps fails.\<close>

theorem purge_confined:
  assumes "tidy_row rec" "tidy_roots cfg" "is_rooted (ch_cwd h)"
    and q: "is_rooted q" "path_clean q = q" "\<not> in_roots cfg q"
  shows "file_size (cl_world (snd (purge_files h cfg rec st))) q = file_size (cl_world st) q"
proof -
  have t: "strPtr (a_index_path rec) = '''' \<or> canon (strPtr (a_index_path rec))"
    "strPtr (a_overlay_path rec) = '''' \<or> canon (strPtr (a_overlay_path rec))"
    "strPtr (a_mount_path rec) = '''' \<or> canon (strPtr (a_mount_path rec))"
    "CHR ''/'' \<notin> set (a_archive_id rec)" "canon (c_index_dir cfg)" "canon (c_overlay_dir cfg)" "canon (c_mount_root cfg)"
    and i: "\<not> inside (c_index_dir cfg) q" "\<not> inside (c_overlay_dir cfg) q" "\<not> inside (c_mount_root cfg) q"
    using assms by (auto simp: tidy_row_def tidy_roots_def in_roots_def)
  note frames = purge_index_frame [OF assms(3) t(1,5) q(1,2) i(1)] HandleOverlay_frame [OF assms(3) t(2,6,4) q(1,2) i(2)]
    CleanupMountPoint_frame [OF assms(3) t(3,7) q(1,2) i(3)]
  define st1 where "st1 = snd (purge_index h cfg rec st)"
  define o1 where "o1 = HandleOverlay h (strPtr (a_overlay_path rec)) (a_archive_id rec) (c_overlay_dir cfg) (c_overlay_cleanup cfg) st1"
  have "file_size (cl_world (snd o1)) q = file_size (cl_world st) q" by (simp add: o1_def st1_def frames)
  then show ?thesis
    unfolding purge_files_def Let_def case_prod_beta st1_def [symmetric] o1_def [symmetric]
    by (cases "fst o1") (simp_all add: case_prod_beta purge_row_world frames)
qed

subsection \<open>The grace purge\<close>

lemma HandleOverlay_store: "en_store (cl_eng (snd (HandleOverlay h p aid r policy st))) = en_store (cl_eng st)"
  by (simp add: HandleOverlay_def Let_def case_prod_beta movePath_store split: option.split)

lemma purge_index_store: "en_store (cl_eng (snd (purge_index h cfg rec st))) = en_store (cl_eng st)"
  by (simp add: purge_index_def Let_def case_prod_beta)

definition purged_store :: "string \<Rightarrow> store \<Rightarrow> store" where
  "purged_store aid s = delete_hooks_of aid (s\<lparr>s_archives := kremove a_archive_id aid (s_archives s)\<rparr>)"

lemma purged_store_rows [simp]:
  "GetArchive (purged_store aid s) k = (if k = aid then None else GetArchive s k)"
  "ListHooks (purged_store aid s) k = (if k = aid then [] else ListHooks s k)"
  "store_wf s \<Longrightarrow> store_wf (purged_store aid s)"
proof -
  show "GetArchive (purged_store aid s) k = (if k = aid then None else GetArchive s k)"
    by (simp add: purged_store_def delete_hooks_of_def GetArchive_def kfind_kremove)
  have f: "filter (\<lambda>h. h_archive_id h = k \<and> h_archive_id h \<noteq> aid) hs = filter (\<lambda>h. h_archive_id h = k) hs" if "k \<noteq> aid" for hs
    using that by (intro filter_cong) auto
  show "ListHooks (purged_store aid s) k = (if k = aid then [] else ListHooks s k)"
    by (cases "k = aid") (simp_all add: purged_store_def delete_hooks_of_def ListHooks_def conj_commute f)
  show "store_wf s \<Longrightarrow> store_wf (purged_store aid s)"
    by (auto simp: purged_store_def store_wf_def kdistinct_def kremove_def delete_hooks_of_def distinct_map_filter)
qed

lemma purge_row_run:
  "GetArchive (en_store (cl_eng st)) aid \<noteq> None \<Longrightarrow>
    purge_row aid r st = (r\<lparr>pr_ok := True\<rparr>, st\<lparr>cl_eng := (cl_eng st)\<lparr>en_store := purged_store aid (en_store (cl_eng st))\<rparr>\<rparr>)"
  by (auto simp: purge_row_def PurgeArchive_run purged_store_def)

definition purge_ok :: "purge_result option \<Rightarrow> bool" where
  "purge_ok r \<longleftrightarrow> (case r of None \<Rightarrow> False | Some x \<Rightarrow> pr_ok x)"

lemma purge_files_store:
  assumes "GetArchive (en_store (cl_eng st)) (a_archive_id rec) \<noteq> None"
  shows "en_store (cl_eng (snd (purge_files h cfg rec st))) =
      (if purge_ok (fst (purge_files h cfg rec st)) then purged_store (a_archive_id rec) (en_store (cl_eng st)) else en_store (cl_eng st))"
    "fst (purge_files h cfg rec st) = Some x \<Longrightarrow> pr_archive_id x = a_archive_id rec"
proof -
  define st1 where "st1 = snd (purge_index h cfg rec st)"
  define o1 where "o1 = HandleOverlay h (strPtr (a_overlay_path rec)) (a_archive_id rec) (c_overlay_dir cfg) (c_overlay_cleanup cfg) st1"
  have s: "en_store (cl_eng (snd o1)) = en_store (cl_eng st)" by (simp add: o1_def st1_def HandleOverlay_store purge_index_store)
  show "en_store (cl_eng (snd (purge_files h cfg rec st))) =
      (if purge_ok (fst (purge_files h cfg rec st)) then purged_store (a_archive_id rec) (en_store (cl_eng st)) else en_store (cl_eng st))"
    unfolding purge_files_def Let_def case_prod_beta st1_def [symmetric] o1_def [symmetric] using assms s
    by (cases "fst o1") (simp_all add: case_prod_beta purge_ok_def purge_row_run no_purge_def)
  show "fst (purge_files h cfg rec st) = Some x \<Longrightarrow> pr_archive_id x = a_archive_id rec"
    unfolding purge_files_def Let_def case_prod_beta st1_def [symmetric] o1_def [symmetric] using assms s
    by (cases "fst o1") (auto simp: case_prod_beta purge_row_run no_purge_def split: if_splits)
qed

text \<open>What the purge of one archive does to the tables, for an unmounter that keeps to its archive.\<close>

locale confined_unmounter =
  fixes um :: unmounter
  assumes keeps_to_archive: "touches aid e (um aid e)"
begin

lemma purge_effect:
  assumes "store_wf (en_store (cl_eng st))"
  shows "case Cleaner_PurgeArchive h cfg (Some um) aid unmount st of (r, st') \<Rightarrow>
     store_wf (en_store (cl_eng st'))
     \<and> (purge_ok r \<longleftrightarrow> GetArchive (en_store (cl_eng st)) aid \<noteq> None \<and> GetArchive (en_store (cl_eng st')) aid = None)
     \<and> (\<forall>k. k \<noteq> aid \<longrightarrow> GetArchive (en_store (cl_eng st')) k = GetArchive (en_store (cl_eng st)) k)"
proof (cases "GetArchive (en_store (cl_eng st)) aid")
  case None
  then show ?thesis using assms by (simp add: Cleaner_PurgeArchive_def purge_ok_def no_purge_def)
next
  case (Some rec0)
  define b where "b \<longleftrightarrow> unmount \<and> purgeUnmountStatus (a_status rec0)"
  define e1 where "e1 = (if b then um aid (cl_eng st) else cl_eng st)"
  define rec where "rec = (case GetArchive (en_store e1) aid of Some r \<Rightarrow> r | None \<Rightarrow> rec0)"
  have step: "touches aid (cl_eng st) e1" by (simp add: e1_def keeps_to_archive touches_refl)
  have wf1: "store_wf (en_store e1)" using touches_wf [OF step assms] .
  have known: "GetArchive (en_store e1) aid = Some rec" "a_archive_id rec = aid"
  proof -
    have "map a_archive_id (s_archives (en_store e1)) = map a_archive_id (s_archives (en_store (cl_eng st)))"
      using step by (simp add: touches_def)
    then have "a_archive_id ` set (s_archives (en_store e1)) = a_archive_id ` set (s_archives (en_store (cl_eng st)))"
      by (metis set_map)
    then have "GetArchive (en_store e1) aid = None \<longleftrightarrow> GetArchive (en_store (cl_eng st)) aid = None"
      by (simp add: GetArchive_def kfind_None_iff)
    then have "GetArchive (en_store e1) aid \<noteq> None" using Some by simp
    then show "GetArchive (en_store e1) aid = Some rec" by (auto simp: rec_def)
    then show "a_archive_id rec = aid" by (rule GetArchive_id)
  qed
  have run: "Cleaner_PurgeArchive h cfg (Some um) aid unmount st = purge_files h cfg rec (st\<lparr>cl_eng := e1\<rparr>)"
    using Some known by (auto simp: Cleaner_PurgeArchive_def Let_def b_def e1_def rec_def)
  have others: "k \<noteq> aid \<Longrightarrow> GetArchive (en_store e1) k = GetArchive (en_store (cl_eng st)) k" for k
    using step by (simp add: touches_def)
  have "GetArchive (en_store (cl_eng (st\<lparr>cl_eng := e1\<rparr>))) (a_archive_id rec) \<noteq> None" using known by simp
  from purge_files_store(1) [OF this, of h cfg] show ?thesis
    unfolding run case_prod_beta using wf1 known Some others by auto
qed

end

interpretation engine_um: confined_unmounter "engine_unmounter eh" for eh
  by unfold_locales (simp add: engine_unmounter_def unmounting.on_one)

lemma purge_absent:
  assumes "GetArchive (en_store (cl_eng st)) aid = Some r" "a_status r = StatusAbsent"
  shows "Cleaner_PurgeArchive h cfg um aid True st = purge_files h cfg r st"
  using assms by (simp add: Cleaner_PurgeArchive_def purgeUnmountStatus_def split: option.split)

lemma purge_all_absent:
  assumes "store_wf (en_store (cl_eng st))" "distinct aids"
    "\<forall>a \<in> set aids. \<exists>r. GetArchive (en_store (cl_eng st)) a = Some r \<and> a_status r = StatusAbsent"
    and run: "purge_all h cfg um aids st = (rs, st')"
  shows "purge_all h cfg None aids st = (rs, st') \<and> store_wf (en_store (cl_eng st')) \<and> map pr_archive_id rs = aids
     \<and> (\<forall>k. GetArchive (en_store (cl_eng st')) k = (if k \<in> set (PurgedIDs rs) then None else GetArchive (en_store (cl_eng st)) k)
          \<and> ListHooks (en_store (cl_eng st')) k = (if k \<in> set (PurgedIDs rs) then [] else ListHooks (en_store (cl_eng st)) k))"
  using assms
proof (induction aids arbitrary: st rs st')
  case Nil
  then show ?case by (simp add: PurgedIDs_def)
next
  case (Cons a aids)
  obtain r where r: "GetArchive (en_store (cl_eng st)) a = Some r" "a_status r = StatusAbsent" using Cons.prems(3) by auto
  have id: "a_archive_id r = a" by (rule GetArchive_id [OF r(1)])
  obtain x st1 where one: "purge_files h cfg r st = (x, st1)" by fastforce
  obtain rs2 st2 where rest: "purge_all h cfg um aids st1 = (rs2, st2)" by fastforce
  have eq: "rs = (case x of Some y \<Rightarrow> y | None \<Rightarrow> no_purge a) # rs2" "st' = st2"
    using Cons.prems(4) by (simp_all add: purge_absent [OF r] one rest)
  have ok: "purge_ok x = pr_ok (case x of Some y \<Rightarrow> y | None \<Rightarrow> no_purge a)" "pr_archive_id (case x of Some y \<Rightarrow> y | None \<Rightarrow> no_purge a) = a"
    using purge_files_store(2) [of st r h cfg] one r(1) id by (auto simp: purge_ok_def no_purge_def split: option.split)
  have s1: "en_store (cl_eng st1) = (if purge_ok x then purged_store a (en_store (cl_eng st)) else en_store (cl_eng st))"
    using purge_files_store(1) [of st r h cfg] r(1) id one by simp
  have later: "\<forall>b \<in> set aids. \<exists>r. GetArchive (en_store (cl_eng st1)) b = Some r \<and> a_status r = StatusAbsent"
    using Cons.prems(2,3) by (auto simp: s1)
  note ih = Cons.IH [OF _ _ later rest]
  have wf1: "store_wf (en_store (cl_eng st1))" using Cons.prems(1) by (simp add: s1)
  have "a \<notin> set aids" using Cons.prems(2) by simp
  then show ?case
    using ih [OF wf1] Cons.prems(2) ok unfolding eq
    by (auto simp: purge_absent [OF r] one s1 PurgedIDs_def)
qed


text \<open>An archive purged by request (through the engine's own unmounter) loses its row exactly when
  the purge succeeds, whatever its status was: the purge of an active archive unmounts it first, and
  an overlay that could not be handled keeps the row.  No other archive's row changes, and the
  tables stay well formed.\<close>

theorem admin_purge_confined:
  assumes "store_wf (en_store (cl_eng st))"
  shows "case Cleaner_PurgeArchive h cfg (Some (engine_unmounter eh)) aid unmount st of (r, st') \<Rightarrow>
     store_wf (en_store (cl_eng st'))
     \<and> (purge_ok r \<longleftrightarrow> GetArchive (en_store (cl_eng st)) aid \<noteq> None \<and> GetArchive (en_store (cl_eng st')) aid = None)
     \<and> (\<forall>k. k \<noteq> aid \<longrightarrow> GetArchive (en_store (cl_eng st')) k = GetArchive (en_store (cl_eng st)) k)"
  by (rule engine_um.purge_effect [OF assms])

subsection \<open>How long a quarantined overlay lives\<close>

lemma join_with_snoc: "join_with sep (xs @ [b]) = (if xs = [] then b else join_with sep xs @ sep @ b)"
  by (induction xs rule: induct_list012) auto

lemma path_base_clean:
  assumes "is_rooted p" "path_clean p = p" "comps p = xs @ [b]"
  shows "path_base p = b"
proof -
  have parts: "\<forall>x \<in> set (xs @ [b]). CHR ''/'' \<notin> set x \<and> x \<noteq> ''''" using comps_parts [of _ p] unfolding assms(3) by blast
  have p: "p = CHR ''/'' # join_with ''/'' (xs @ [b])" using path_clean_rooted [OF assms(1)] assms(2,3) by simp
  have b: "rev b \<noteq> []" "hd (rev b) \<noteq> CHR ''/''"
    using parts hd_in_set [of "rev b"] by auto
  have "\<exists>pre. p = pre @ b" unfolding p join_with_snoc by (auto intro: exI [of _ "CHR ''/'' # join_with ''/'' xs @ ''/''"])
  then obtain pre where pre: "p = pre @ b" by blast
  have "trim_right (\<lambda>c. c = CHR ''/'') p = p"
    unfolding trim_right_def pre rev_append using b by (cases "rev b") auto
  moreover have "split_on CHR ''/'' p = '''' # xs @ [b]" using parts by (subst p) (auto simp: split_join)
  ultimately show ?thesis unfolding path_base_def using p by (simp add: Let_def)
qed

lemma remove_all_less:
  "file_size w q = None \<Longrightarrow> file_size (snd (remove_all d w)) q = None"
  "set (w_dirs (snd (remove_all d w))) \<subseteq> set (w_dirs w)" "w_locked (snd (remove_all d w)) = w_locked w"
  by (auto simp: remove_all_def remove_tree_def Let_def file_size_def kfind_None_iff)

lemma removePath_less:
  "file_size w q = None \<Longrightarrow> file_size (snd (removePath d w)) q = None"
  "set (w_dirs (snd (removePath d w))) \<subseteq> set (w_dirs w)" "w_locked (snd (removePath d w)) = w_locked w"
  using remove_all_less(1) [of w q d] remove_all_less(2,3) [of d w]
  by (auto simp: removePath_def remove_path_def remove_file_def file_size_remove)

lemma removePath_file: "\<not> is_dir w p \<Longrightarrow> p \<notin> set (w_locked w) \<Longrightarrow> file_size (snd (removePath p w)) p = None"
  by (auto simp: removePath_def remove_path_def remove_file_def file_size_remove is_dir_def is_file_def)

lemma prune_aged_less:
  "file_size (cl_world st) q = None \<Longrightarrow> file_size (cl_world (snd (prune_aged h qroot retain ns st))) q = None"
proof (induction ns arbitrary: st)
  case (Cons n ns)
  then show ?case by (auto simp: Let_def case_prod_beta removePath_less)
qed simp

lemma prune_aged_removes:
  assumes "n \<in> set ns" "d = path_join qroot n" "PathUnderRoot (ch_cwd h) d qroot"
    and "ch_now h - cl_mtime st d \<ge> retain" "\<not> is_dir (cl_world st) d" "d \<notin> set (w_locked (cl_world st))"
  shows "file_size (cl_world (snd (prune_aged h qroot retain ns st))) d = None"
  using assms
proof (induction ns arbitrary: st)
  case (Cons m ns)
  show ?case
  proof (cases "m = n")
    case True
    have "file_size (snd (removePath d (cl_world st))) d = None" by (rule removePath_file [OF Cons.prems(5,6)])
    then show ?thesis using True Cons.prems(2-4)
      by (simp add: Let_def case_prod_beta prune_aged_less)
  next
    case False
    have nd: "\<not> is_dir (snd (removePath x (cl_world st))) d" for x
      using Cons.prems(5) removePath_less(2) [of x "cl_world st"] by (auto simp: is_dir_def)
    show ?thesis using False Cons.prems Cons.IH nd
      by (auto simp: Let_def case_prod_beta removePath_less)
  qed
qed simp

lemma prune_capped_less:
  "file_size w q = None \<Longrightarrow> file_size (snd (prune_capped mx tot es w)) q = None"
  by (induction es arbitrary: tot w) (simp_all add: Let_def case_prod_beta removePath_less)

lemma canon_join:
  assumes "canon d" "CHR ''/'' \<notin> set b" "b \<notin> {'''', ''.'', ''..''}" "\<not> is_space (last b)"
  shows "canon (path_join d b)" "comps (path_join d b) = comps d @ [b]" "path_base (path_join d b) = b"
proof -
  have d: "is_rooted d" using assms(1) by (simp add: canon_def)
  show c: "comps (path_join d b) = comps d @ [b]" by (rule comps_join(1) [OF d assms(2,3)])
  have r: "is_rooted (path_join d b)" by (rule comps_join(2) [OF d assms(2,3)])
  have "d \<noteq> ''''" "b \<noteq> ''''" using d assms(3) by auto
  then have cl: "path_clean (path_join d b) = path_join d b"
    using d by (simp add: path_join_def path_clean_idem is_rooted_append)
  then have shape: "path_join d b = CHR ''/'' # join_with ''/'' (comps d @ [b])" using path_clean_rooted [OF r] c by simp
  have "\<exists>pre. path_join d b = CHR ''/'' # pre @ b" unfolding shape join_with_snoc by (auto intro: exI [of _ "join_with ''/'' (comps d) @ ''/''"])
  then obtain pre where pre: "path_join d b = CHR ''/'' # pre @ b" by blast
  obtain b' x where b: "b = b' @ [x]" using \<open>b \<noteq> ''''\<close> by (cases b rule: rev_cases) auto
  then have "\<not> is_space x" using assms(4) by simp
  then have "trim_space (path_join d b) = path_join d b"
    unfolding trim_space_def trim_left_def trim_right_def pre unfolding b by (simp add: is_space_def [of "CHR ''/''"])
  then show "canon (path_join d b)" using r cl c by (simp add: canon_def)
  show "path_base (path_join d b) = b" by (rule path_base_clean [OF r cl c])
qed

lemma kfind_map_move:
  "(\<And>x. x \<in> set xs \<Longrightarrow> key (f x) = k' \<longleftrightarrow> key x = k) \<Longrightarrow> kfind key k' (map f xs) = map_option f (kfind key k xs)"
proof (induction xs)
  case (Cons x xs)
  then show ?case by (cases "key x = k") simp_all
qed simp

lemma moved_to_dest:
  assumes "q \<noteq> dest"
  shows "moved_to p dest q = dest \<longleftrightarrow> q = p"
proof (cases "below p q")
  case True
  then obtain r where "q = p @ CHR ''/'' # r" by (auto simp: below_def has_prefix_iff)
  then show ?thesis using True by (simp add: moved_to_def)
next
  case False
  then show ?thesis using assms by (auto simp: moved_to_def)
qed

lemma is_space_Z: "\<not> is_space (CHR ''Z'')"
  by (simp add: is_space_def)

lemma move_tree_dest:
  assumes "\<not> path_exists w dest"
  shows "file_size (move_tree p dest w) dest = file_size w p" "is_dir (move_tree p dest w) dest = is_dir w p"
proof -
  have a: "dest \<notin> fst ` set (w_files w)" "dest \<notin> set (w_dirs w)"
    using assms by (auto simp: path_exists_def is_file_def file_size_def kfind_None_iff)
  have "kfind fst dest (map (\<lambda>(q, n). (moved_to p dest q, n)) (w_files w)) = map_option (\<lambda>(q, n). (moved_to p dest q, n)) (kfind fst p (w_files w))"
  proof (rule kfind_map_move)
    fix x assume x: "x \<in> set (w_files w)"
    then have "fst x \<noteq> dest" using a(1) by auto
    then show "fst ((\<lambda>(q, n). (moved_to p dest q, n)) x) = dest \<longleftrightarrow> fst x = p" by (simp add: case_prod_beta moved_to_dest)
  qed
  then show "file_size (move_tree p dest w) dest = file_size w p"
    by (cases "kfind fst p (w_files w)") (simp_all add: file_size_def move_tree_def case_prod_beta)
  have "moved_to p dest q = dest \<longleftrightarrow> q = p" if "q \<in> set (w_dirs w)" for q
    by (rule moved_to_dest) (use that a(2) in blast)
  then have "dest \<in> moved_to p dest ` set (w_dirs w) \<longleftrightarrow> p \<in> set (w_dirs w)"
    by (subst image_iff) (metis (no_types, lifting))
  then show "is_dir (move_tree p dest w) dest = is_dir w p" by (simp add: is_dir_def move_tree_def)
qed

lemma last_digits: "\<not> is_space (last (digits_of n))"
proof -
  have "last (digits_of n) \<in> set (digits_of n)" by (rule last_in_set) simp
  then have "48 \<le> (of_char (last (digits_of n)) :: nat)" by (drule_tac digits_of_range) simp
  then show ?thesis by (auto simp: is_space_def)
qed

lemma last_stamped:
  fixes n :: nat and t :: int
  shows "\<not> is_space (last (aid @ ''-'' @ quarantine_stamp t @ (if n = 0 then '''' else ''-'' @ digits_of n)))"
proof (cases "n = 0")
  case True
  then show ?thesis by (simp add: quarantine_stamp_def Let_def case_prod_beta is_space_Z)
next
  case False
  then show ?thesis using last_digits [of n] by (simp add: last_append)
qed

lemma quarantine_file_name:
  fixes n :: nat and t :: int
  assumes "canon odir" "CHR ''/'' \<notin> set aid"
  defines "d \<equiv> quarantine_name (QuarantineDir odir) aid (quarantine_stamp t) n"
  shows "canon (QuarantineDir odir)" "canon d" "inside (QuarantineDir odir) d" "d \<noteq> QuarantineDir odir"
    "path_join (QuarantineDir odir) (path_base d) = d" "inside odir (QuarantineDir odir)"
proof -
  let ?s = "''-'' @ quarantine_stamp t @ (if n = 0 then '''' else ''-'' @ digits_of n)"
  show q: "canon (QuarantineDir odir)" and i: "inside odir (QuarantineDir odir)"
    using canon_join [OF assms(1), of "''.quarantine''"] by (simp_all add: QuarantineDir_def inside_def is_space_def)
  have dash: "CHR ''-'' \<in> set ?s" by simp
  have "\<not> is_space (last (aid @ ?s))" by (rule last_stamped)
  moreover have "CHR ''/'' \<notin> set (aid @ ?s)"
    using assms(2) stamp_no_slash digits_of_range [of "CHR ''/''" n] by auto
  moreover have "aid @ ?s \<notin> {'''', ''.'', ''..''}"
    by (rule plain_name) (use dash in simp)
  ultimately have j: "canon d" "comps d = comps (QuarantineDir odir) @ [aid @ ?s]" "path_base d = aid @ ?s" "d = path_join (QuarantineDir odir) (aid @ ?s)"
    using canon_join [OF q, of "aid @ ?s"] by (simp_all add: d_def quarantine_name_def)
  then show "canon d" "inside (QuarantineDir odir) d" "d \<noteq> QuarantineDir odir" "path_join (QuarantineDir odir) (path_base d) = d"
    by (auto simp: inside_def)
qed

text \<open>C20. A quarantined overlay file keeps the modification time it had: it is moved by a rename into
  the quarantine directory under a free name, and the age the pruning looks at is that time, not
  the moment of quarantine. So an overlay that was last written longer than quarantine_retain_for
  ago is removed by the next quarantine pruning, however soon that comes - a cleaner pass prunes
  the quarantine right after the grace purge that filled it.\<close>

theorem quarantine_age:
  assumes h: "is_rooted (ch_cwd h)" "ch_mkdir h (QuarantineDir odir)" "\<not> ch_unreadable h p" "\<And>d. ch_rename h p d"
    and paths: "canon p" "canon odir" "inside odir p" "\<not> inside p (QuarantineDir odir)" "CHR ''/'' \<notin> set aid"
    and reg: "file_size (cl_world st) p = Some sz" "\<not> is_dir (cl_world st) p" "w_locked (cl_world st) = []"
    and policy: "policy \<notin> {''retain'', ''delete''}"
  shows "\<exists>dest st1. HandleOverlay h p aid odir policy st = (Some (OverlayQuarantined, dest, None), st1)
     \<and> inside (QuarantineDir odir) dest
     \<and> file_size (cl_world st1) dest = Some sz \<and> cl_mtime st1 dest = cl_mtime st p
     \<and> (retain \<le> ch_now h - cl_mtime st p
          \<longrightarrow> file_size (cl_world (snd (PruneQuarantine h odir retain maxBytes st1))) dest = None)"
proof -
  let ?q = "QuarantineDir odir" and ?ts = "quarantine_stamp (ch_now h)"
  define st0 where "st0 = cl_on_world (\<lambda>w. w\<lparr>w_dirs := List.insert (QuarantineDir odir) (w_dirs w)\<rparr>) st"
  have nonempty: "p \<noteq> ''''" "odir \<noteq> ''''" using paths(1,2) by (auto simp: canon_def)
  note qf = quarantine_file_name [OF paths(2,5)]
  have pq: "p \<noteq> ?q" "\<not> below p ?q"
    using canon_outside [OF paths(1), of ?q] qf(1) paths(4) by (auto simp: canon_def outside_def)
  have under: "PathUnderRoot (ch_cwd h) p odir" "PathUnderRoot (ch_cwd h) ?q odir"
    using under_inside [OF h(1) _ paths(2)] paths(1,3) qf(1,6) by blast+
  have exists: "path_exists (cl_world st) p" using reg(1) by (simp add: path_exists_def is_file_def)
  have st0: "file_size (cl_world st0) r = file_size (cl_world st) r" "is_dir (cl_world st0) r \<longleftrightarrow> r = ?q \<or> is_dir (cl_world st) r"
      "w_locked (cl_world st0) = []" "cl_mtime st0 = cl_mtime st" for r
    using reg(3) by (auto simp: st0_def file_size_def is_dir_def)
  obtain j where fresh: "fresh_quarantine (cl_world st0) ?q aid ?ts 0 = Some (quarantine_name ?q aid ?ts j)"
      "\<not> path_exists (cl_world st0) (quarantine_name ?q aid ?ts j)"
    using fresh_quarantine_returns [OF _ paths(5) stamp_no_slash, of ?q "cl_world st0"] qf(1) by (auto simp: canon_def)
  define d where "d = quarantine_name ?q aid ?ts j"
  note qd = qf(2-5) [of "ch_now h" j, folded d_def]
  define st1 where "st1 = (cl_on_world (move_tree p d) st0)\<lparr>cl_mtime := (\<lambda>r. cl_mtime st0 (moved_from p d r))\<rparr>"
  have "path_exists (cl_world st0) p" using reg(1) st0(1) [of p] by (simp add: path_exists_def is_file_def)
  then have move: "movePath h p d st0 = (True, st1)" by (simp add: movePath_def h(4) st1_def)
  have run: "HandleOverlay h p aid odir policy st = (Some (OverlayQuarantined, d, None), st1)"
    using nonempty h(2,3) exists under policy fresh move
    by (simp add: HandleOverlay_def Let_def st0_def [symmetric] d_def)
  have w1: "cl_world st1 = move_tree p d (cl_world st0)" by (simp add: st1_def cl_on_world_def)
  have at_dest: "file_size (cl_world st1) d = Some sz" "\<not> is_dir (cl_world st1) d" "cl_mtime st1 d = cl_mtime st p"
      "w_locked (cl_world st1) = []" "is_dir (cl_world st1) ?q"
    using move_tree_dest [OF fresh(2), of p, folded d_def] reg st0 pq
    by (auto simp: w1 moved_from_def st1_def move_tree_def is_dir_def moved_to_def image_iff)
  have "path_base d \<in> set (dir_names ?q (cl_world st1))"
    using at_dest(1) qd by (force simp: dir_names_def file_size_def dest: kfind_SomeD)
  then have "retain \<le> ch_now h - cl_mtime st p \<Longrightarrow>
      file_size (cl_world (snd (prune_aged h ?q retain (dir_names ?q (cl_world st1)) st1))) d = None"
    using prune_aged_removes [of "path_base d" _ d ?q h retain st1] at_dest under_inside [OF h(1) qd(1) qf(1)] qd by simp
  then have "retain \<le> ch_now h - cl_mtime st p \<Longrightarrow> file_size (cl_world (snd (PruneQuarantine h odir retain maxBytes st1))) d = None"
    using under(2) at_dest(5) by (simp add: PruneQuarantine_def Let_def case_prod_beta prune_capped_less)
  then show ?thesis using run at_dest qd(2) by blast
qed

subsection \<open>An example\<close>

definition sample_cleaner_host :: cleaner_host where
  "sample_cleaner_host = \<lparr>ch_cwd = ''/'', ch_now = 100000 * 10 ^ 9, ch_rename = (\<lambda>_ _. True), ch_copy = (\<lambda>_ _. True),
     ch_mkdir = (\<lambda>_. True), ch_unreadable = (\<lambda>_. False), ch_statfs = (\<lambda>_. None), ch_flock = (\<lambda>_. False), ch_fd_links = [],
     ch_real = Some, ch_tmp = ''/tmp'', ch_cache = h_cache sample_host\<rparr>"

definition sample_absent :: archive where
  "sample_absent = sample_row\<lparr>a_status := StatusAbsent, a_removed_at := Some ''1970-01-01T00:00:00Z'', a_overlay_path := Some ''/srv/overlays/x''\<rparr>"

definition sample_cleaner :: "archive \<Rightarrow> cleaner_state" where
  "sample_cleaner r = \<lparr>cl_eng = sample_engine r [] (one_file ''/srv/overlays/x''), cl_mtime = (\<lambda>_. 0)\<rparr>"

lemma sample_cleaner_wf: "store_wf (en_store (cl_eng (sample_cleaner sample_absent)))"
  by code_simp

theorem purge_confined_witness:
  "file_size (cl_world (snd (purge_files sample_cleaner_host sample_config sample_absent
     \<lparr>cl_eng = sample_engine sample_absent [] (one_file ''/in/a.tar''), cl_mtime = (\<lambda>_. 0)\<rparr>))) ''/in/a.tar'' = Some 10"
proof -
  have c: "canon ''/srv/indexes''" "canon ''/srv/overlays''" "canon ''/srv/mounts''" "canon ''/srv/overlays/x''"
    unfolding canon_def by code_simp+
  have "comps ''/in/a.tar'' = [''in'', ''a.tar'']" "comps ''/srv/indexes'' = [''srv'', ''indexes'']"
    "comps ''/srv/overlays'' = [''srv'', ''overlays'']" "comps ''/srv/mounts'' = [''srv'', ''mounts'']" by code_simp+
  then have o: "\<not> in_roots sample_config ''/in/a.tar''" by (simp add: in_roots_def inside_def sample_config_def)
  have "strPtr (a_index_path sample_absent) = ''''" "strPtr (a_mount_path sample_absent) = ''''"
    "strPtr (a_overlay_path sample_absent) = ''/srv/overlays/x''" "a_archive_id sample_absent = ''x''" by code_simp+
  then have t: "tidy_row sample_absent" "tidy_roots sample_config"
    using c by (simp_all add: tidy_row_def tidy_roots_def sample_config_def)
  have "path_clean ''/in/a.tar'' = ''/in/a.tar''" by code_simp
  then show ?thesis
    using purge_confined [OF t, of sample_cleaner_host "''/in/a.tar''" "\<lparr>cl_eng = sample_engine sample_absent [] (one_file ''/in/a.tar''), cl_mtime = (\<lambda>_. 0)\<rparr>"] o
    by (simp add: sample_cleaner_host_def sample_engine_def one_file_def file_size_def)
qed


theorem admin_purge_confined_witness:
  "store_wf (en_store (cl_eng (snd (Cleaner_PurgeArchive sample_cleaner_host sample_config
     (Some (engine_unmounter sample_host)) ''x'' True (sample_cleaner sample_absent)))))"
  using admin_purge_confined [OF sample_cleaner_wf, where h = sample_cleaner_host and cfg = sample_config and eh = sample_host
      and aid = "''x''" and unmount = True]
  by (simp add: case_prod_beta)

theorem quarantine_age_witness:
  "\<exists>dest st1. HandleOverlay sample_cleaner_host ''/srv/overlays/x'' ''x'' ''/srv/overlays'' ''quarantine'' (sample_cleaner sample_absent)
       = (Some (OverlayQuarantined, dest, None), st1)
     \<and> file_size (cl_world st1) dest = Some 10
     \<and> file_size (cl_world (snd (PruneQuarantine sample_cleaner_host ''/srv/overlays'' (7200 * 10 ^ 9) 0 st1))) dest = None"
proof -
  have c: "canon ''/srv/overlays''" "canon ''/srv/overlays/x''" unfolding canon_def by code_simp+
  have i: "comps ''/srv/overlays'' = [''srv'', ''overlays'']" "comps ''/srv/overlays/x'' = [''srv'', ''overlays'', ''x'']"
    "comps (QuarantineDir ''/srv/overlays'') = [''srv'', ''overlays'', ''.quarantine'']" by code_simp+
  have w: "file_size (cl_world (sample_cleaner sample_absent)) ''/srv/overlays/x'' = Some 10"
    "\<not> is_dir (cl_world (sample_cleaner sample_absent)) ''/srv/overlays/x''" "w_locked (cl_world (sample_cleaner sample_absent)) = []"
    "cl_mtime (sample_cleaner sample_absent) p = 0" for p
    by (simp_all add: sample_cleaner_def sample_engine_def one_file_def file_size_def is_dir_def)
  show ?thesis
    using quarantine_age [where h = sample_cleaner_host and odir = "''/srv/overlays''" and p = "''/srv/overlays/x''" and aid = "''x''"
        and st = "sample_cleaner sample_absent" and sz = 10 and policy = "''quarantine''" and retain = "7200 * 10 ^ 9" and maxBytes = 0] c i w
    by (fastforce simp: sample_cleaner_host_def inside_def)
qed

end
