(* ===== verification/ConfigProps.thy ===== *)
theory ConfigProps
  imports ConfigPublic
begin

text \<open>
  What loading and publishing the configuration guarantees: a loaded configuration satisfies every
  bound and enumeration the rest of the program relies on, and the published form of a loaded
  configuration loads again to the same one.
\<close>

subsection \<open>Checks\<close>

named_theorems checks

lemma andThen_Inr [checks]: "andThen m f = Inr y \<longleftrightarrow> (\<exists>x. m = Inr x \<and> f x = Inr y)"
  by (cases m) (auto simp: andThen_def)

lemma andThen_simps [simp]: "andThen (Inr x) f = f x" "andThen (Inl e) f = Inl e"
  by (simp_all add: andThen_def)

lemma demand_Inr [checks]: "demand b e = Inr u \<longleftrightarrow> b"
  by (simp add: demand_def)

lemma at_most_Inr [checks]: "at_most k m n = Inr u \<longleftrightarrow> n \<le> m"
  by (simp add: at_most_def demand_Inr)

lemma one_of_Inr [checks]: "one_of k vs v = Inr u \<longleftrightarrow> v \<in> set vs"
  by (simp add: one_of_def demand_Inr)

lemma requireInt_ge: "requireInt raw k d m = Inr n \<Longrightarrow> m \<le> d \<Longrightarrow> m \<le> n"
  by (auto simp: requireInt_def andThen_Inr split: option.splits if_splits)

lemma ParseDuration_nonneg: "ParseDuration v = Inr x \<Longrightarrow> 0 \<le> x"
  by (cases v) (auto simp: Let_def split: if_splits option.splits)

lemma duration_nonneg: "duration_of v k = Inr x \<Longrightarrow> 0 \<le> x"
  using ParseDuration_nonneg by (auto simp: duration_of_def split: sum.splits)

lemma requireFloatSeconds_ge: "requireFloatSeconds raw k d m = Inr x \<Longrightarrow> m \<le> d \<Longrightarrow> m \<le> x"
  by (auto simp: requireFloatSeconds_def andThen_Inr split: option.splits if_splits)

lemma dual_duration_nonneg: "dual_duration raw k a d = Inr x \<Longrightarrow> 0 \<le> d \<Longrightarrow> 0 \<le> x"
  using duration_nonneg by (auto simp: dual_duration_def split: option.splits)

lemma requirePath_nonempty: "requirePath raw k = Inr p \<Longrightarrow> p \<noteq> ''''"
  by (auto simp: requirePath_def checks)

lemma trim_space_idem: "trim_space (trim_space s) = trim_space s"
proof -
  have tl: "trim_left p (trim_right p t) = trim_right p t" if "trim_left p t = t" for p :: "char \<Rightarrow> bool" and t
  proof (cases "trim_right p t")
    case (Cons c cs)
    then obtain r where "t = (c # cs) @ r" by (metis trim_right_prefix)
    moreover have "t = [] \<or> \<not> p (hd t)" using that unfolding trim_left_def by (simp add: dropWhile_eq_self_iff)
    ultimately have "\<not> p c" by simp
    then show ?thesis by (simp add: Cons trim_left_def)
  qed (simp add: trim_left_def)
  have "trim_left is_space (trim_left is_space s) = trim_left is_space s" by (simp add: trim_left_def)
  then show ?thesis unfolding trim_space_def by (subst tl) (simp_all add: trim_right_def)
qed

lemma string_items_trimmed: "string_items k True i vs = Inr ss \<Longrightarrow> s \<in> set ss \<Longrightarrow> s \<noteq> '''' \<and> trim_space s = s"
proof (induction vs arbitrary: i ss)
  case (Cons v vs)
  then show ?case by (cases v) (auto simp: Let_def checks trim_space_idem split: if_splits)
qed simp

lemma source_items: "requireNonEmptyStringList raw k True = Inr ss \<Longrightarrow> s \<in> set ss \<Longrightarrow> s \<noteq> '''' \<and> trim_space s = s"
  using string_items_trimmed by (auto simp: requireNonEmptyStringList_def asStringList_def split: option.splits yval.splits)

lemma backend_rust: "NormalizeMountBackend s = Inr b \<Longrightarrow> b = ''rust''"
  by (auto simp: NormalizeMountBackend_def Let_def split: if_splits)

subsection \<open>The type of a configuration\<close>

definition typed_modes :: "load_env \<Rightarrow> full_config \<Rightarrow> bool" where
  "typed_modes env c \<longleftrightarrow> (\<forall>s \<in> set (c_source_dirs c). s \<noteq> '''' \<and> trim_space s = s) \<and> le_regex_ok env (c_name_regex c)
     \<and> c_stable_file_mode c \<in> set StableFileModes \<and> c_overlay_cleanup c \<in> set OverlayCleanupModes
     \<and> c_on_content_change c \<in> set OnContentChangeModes \<and> c_hooks_cwd c \<in> set HooksCwdModes
     \<and> c_log_level c \<in> set LogLevels"

definition typed_converter :: "full_config \<Rightarrow> bool" where
  "typed_converter c \<longleftrightarrow> c_converter_mode c \<in> set ArchiveconverterModes \<and> c_converter_backend c \<in> set ArchiveconverterBackends
     \<and> 0 \<le> c_converter_level c \<and> c_converter_level c \<le> 9 \<and> (\<forall>t. c_converter_threads c = Some t \<longrightarrow> 0 < t)
     \<and> 0 \<le> c_converter_timeout c \<and> 0 \<le> c_converter_overhead c \<and> 0 \<le> c_native_large_threshold c
     \<and> (\<forall>n. c_nested_concurrency c = Some n \<longrightarrow> 0 \<le> n)
     \<and> trim_space (c_nested_size_budget c) = c_nested_size_budget c \<and> c_nested_size_budget c \<noteq> ''<nil>''"

definition typed_durations :: "full_config \<Rightarrow> bool" where
  "typed_durations c \<longleftrightarrow> 0 \<le> c_cleanup_after c \<and> 0 \<le> c_quarantine_retain c \<and> 1 \<le> c_poll_interval c
     \<and> 1 \<le> c_reconcile_interval c \<and> 0 \<le> c_min_file_age c \<and> 1 \<le> c_hook_timeout c \<and> 1 \<le> c_unmount_timeout c
     \<and> 1 \<le> c_mount_ready_timeout c"

definition typed_limits :: "full_config \<Rightarrow> bool" where
  "typed_limits c \<longleftrightarrow> 1 \<le> c_max_concurrent_index c \<and> 1 \<le> c_max_concurrent_convert c \<and> 0 \<le> c_max_concurrent_mount c
     \<and> 1 \<le> c_max_mount_attempts c \<and> 0 \<le> c_index_workers c \<and> 0 \<le> c_ratarmount_debug c \<and> c_ratarmount_debug c \<le> 3
     \<and> trim_space (c_ratarmount_log_dir c) = c_ratarmount_log_dir c \<and> trim_space (c_ratarmount_rust_log c) = c_ratarmount_rust_log c"

definition typed_7z :: "full_config \<Rightarrow> bool" where
  "typed_7z c \<longleftrightarrow> c_7z_scope c \<in> set Convert7zScopes \<and> c_7z_bin c \<noteq> '''' \<and> trim_space (c_7z_bin c) = c_7z_bin c
     \<and> trim_space (c_7z_cache_dir c) = c_7z_cache_dir c \<and> trim_space (c_7z_prefix_strip c) = c_7z_prefix_strip c
     \<and> 0 \<le> c_7z_overhead c \<and> 0 \<le> c_7z_flatten_buffer c"

definition typed_sizes :: "full_config \<Rightarrow> bool" where
  "typed_sizes c \<longleftrightarrow> 0 \<le> c_hook_max_retries c \<and> 0 \<le> c_quarantine_max_bytes c \<and> 0 \<le> c_min_free_bytes c
     \<and> 0 \<le> c_max_archive_bytes c \<and> 0 \<le> c_relocate_overhead c"

definition typed_paths :: "full_config \<Rightarrow> bool" where
  "typed_paths c \<longleftrightarrow> c_mount_backend c = ''rust''
     \<and> (\<forall>p \<in> {c_mount_root c, c_index_dir c, c_overlay_dir c, c_state_db c, c_hooks_dir c, c_control_socket c, c_pid_file c,
              c_ratarmount_bin c, c_converter_output_dir c}. p \<noteq> '''')
     \<and> trim_space (c_archives_dir c) = c_archives_dir c \<and> trim_space (c_converter_temp_dir c) = c_converter_temp_dir c"

definition typed_drvfs :: "full_config \<Rightarrow> bool" where
  "typed_drvfs c \<longleftrightarrow> c_allow_drvfs c \<or>
     (\<forall>p \<in> {c_mount_root c, c_index_dir c, c_overlay_dir c, c_state_db c, c_archives_dir c, c_converter_output_dir c}. \<not> IsDrvFsPath p)"

definition well_typed :: "load_env \<Rightarrow> full_config \<Rightarrow> bool" where
  "well_typed env c \<longleftrightarrow> c_version c = 1 \<and> typed_modes env c \<and> typed_converter c \<and> typed_durations c \<and> typed_limits c
     \<and> typed_7z c \<and> typed_sizes c \<and> typed_paths c \<and> typed_drvfs c \<and> 1 \<le> c_web_port c \<and> c_web_port c \<le> 65535"

lemmas typed_defs = typed_modes_def typed_converter_def typed_durations_def typed_limits_def typed_7z_def typed_sizes_def
  typed_paths_def typed_drvfs_def

text \<open>Each stage establishes its part and leaves the others.\<close>

lemma andThenE: "andThen m f = Inr y \<Longrightarrow> (\<And>x. m = Inr x \<Longrightarrow> f x = Inr y \<Longrightarrow> P) \<Longrightarrow> P"
  by (auto simp: andThen_Inr)

lemma load_head_typed: "load_head raw p c = Inr c' \<Longrightarrow> c_version c' = 1"
  unfolding load_head_def by (elim andThenE) (clarsimp simp: checks)

lemma load_modes_typed: "load_modes env raw c = Inr c' \<Longrightarrow> typed_modes env c' \<and> c_version c' = c_version c"
  unfolding load_modes_def by (elim andThenE) (clarsimp simp: checks typed_modes_def source_items)

lemma load_threads_pos: "load_threads raw = Inr x \<Longrightarrow> \<forall>t. x = Some t \<longrightarrow> 0 < t"
  using requireInt_ge [of raw "''archiveconverter_threads''" 0 0] by (fastforce simp: load_threads_def checks split: if_splits)

lemma load_nested_nonneg: "load_nested_concurrency raw = Inr x \<Longrightarrow> \<forall>n. x = Some n \<longrightarrow> 0 \<le> n"
  using requireInt_ge [of raw "''archiveconverter_nested_concurrency''" 0 0] by (fastforce simp: load_nested_concurrency_def checks split: if_splits)

lemma load_converter_typed: "load_converter env raw c = Inr c' \<Longrightarrow> typed_converter c'"
proof -
  assume a: "load_converter env raw c = Inr c'"
  have budget: "trim_space (load_nested_budget env raw) = load_nested_budget env raw \<and> load_nested_budget env raw \<noteq> ''<nil>''"
    by (simp add: load_nested_budget_def Let_def trim_space_idem)
  show ?thesis
    by (insert a [unfolded load_converter_def], elim andThenE, (drule requireInt_ge, simp)+, drule requireFloatSeconds_ge, simp,
        drule load_threads_pos, drule load_nested_nonneg)
      (clarsimp simp: checks typed_converter_def budget)
qed

lemma load_converter_frame:
  "load_converter env raw c = Inr c' \<Longrightarrow> c_version c' = c_version c \<and> typed_modes env c' = typed_modes env c"
  unfolding load_converter_def by (elim andThenE) (clarsimp simp: typed_modes_def)

lemma load_durations_typed: "load_durations raw c = Inr c' \<Longrightarrow> typed_durations c'"
  unfolding load_durations_def
  by (elim andThenE, (drule requireFloatSeconds_ge, simp)+, (drule dual_duration_nonneg, simp)+) (clarsimp simp: typed_durations_def)

lemma load_durations_frame:
  "load_durations raw c = Inr c' \<Longrightarrow> c_version c' = c_version c \<and> typed_modes env c' = typed_modes env c
     \<and> typed_converter c' = typed_converter c"
  unfolding load_durations_def by (elim andThenE) (clarsimp simp: typed_modes_def typed_converter_def)

lemma load_limits_typed: "load_limits env raw c = Inr c' \<Longrightarrow> typed_limits c'"
  unfolding load_limits_def
  by (elim andThenE, (drule requireInt_ge, simp)+) (clarsimp simp: typed_limits_def checks trim_space_idem)

lemma load_limits_frame:
  "load_limits env raw c = Inr c' \<Longrightarrow> c_version c' = c_version c \<and> typed_modes env c' = typed_modes env c
     \<and> typed_converter c' = typed_converter c \<and> typed_durations c' = typed_durations c"
  unfolding load_limits_def by (elim andThenE) (clarsimp simp: typed_modes_def typed_converter_def typed_durations_def)

lemma seven_zip: "trim_space ''7z'' = ''7z''"
  by code_simp

lemma load_7z_typed: "load_7z env raw c = Inr c' \<Longrightarrow> typed_7z c'"
  unfolding load_7z_def
  by (elim andThenE, (drule requireInt_ge, simp)+) (clarsimp simp: typed_7z_def checks trim_space_idem seven_zip)

lemma load_7z_frame:
  "load_7z env raw c = Inr c' \<Longrightarrow> c_version c' = c_version c \<and> typed_modes env c' = typed_modes env c
     \<and> typed_converter c' = typed_converter c \<and> typed_durations c' = typed_durations c \<and> typed_limits c' = typed_limits c"
  unfolding load_7z_def
  by (elim andThenE) (clarsimp simp: typed_modes_def typed_converter_def typed_durations_def typed_limits_def)

lemma load_sizes_typed: "load_sizes raw c = Inr c' \<Longrightarrow> typed_sizes c'"
  unfolding load_sizes_def
  by (elim andThenE, frule requireInt_ge [of raw "''stage_overhead_bytes''"], simp, (drule requireInt_ge, simp)+) (clarsimp simp: typed_sizes_def)

lemma load_sizes_frame:
  "load_sizes raw c = Inr c' \<Longrightarrow> c_version c' = c_version c \<and> typed_modes env c' = typed_modes env c
     \<and> typed_converter c' = typed_converter c \<and> typed_durations c' = typed_durations c \<and> typed_limits c' = typed_limits c
     \<and> typed_7z c' = typed_7z c"
  unfolding load_sizes_def
  by (elim andThenE) (clarsimp simp: typed_modes_def typed_converter_def typed_durations_def typed_limits_def typed_7z_def)

lemma load_paths_typed: "load_paths env raw c = Inr c' \<Longrightarrow> typed_paths c'"
proof -
  assume a: "load_paths env raw c = Inr c'"
  have bin: "q \<noteq> ''''" if "(if hasKey raw ''ratarmount_bin''
             then andThen (pathStr raw ''ratarmount_bin'' (DefaultRatarmountBin b)) (\<lambda>p.
                    andThen (demand (p \<noteq> '''') (EmptyPathOf ''ratarmount_bin'')) (\<lambda>_. Inr p))
             else Inr (DefaultRatarmountBin b)) = Inr q" for b q
    using that by (auto simp: checks DefaultRatarmountBin_def split: if_splits)
  have rust: "b = ''rust''" if "(case NormalizeMountBackend s of Inl e \<Rightarrow> Inl (BackendOf e) | Inr b \<Rightarrow> Inr b) = Inr b" for s b
    using that backend_rust by (auto split: sum.splits)
  show ?thesis
    by (insert a [unfolded load_paths_def], elim andThenE, drule rust, drule bin, (drule requirePath_nonempty)+)
      (clarsimp simp: typed_paths_def trim_space_idem Let_def)
qed

lemma load_paths_frame:
  "load_paths env raw c = Inr c' \<Longrightarrow> c_version c' = c_version c \<and> typed_modes env c' = typed_modes env c
     \<and> typed_converter c' = typed_converter c \<and> typed_durations c' = typed_durations c \<and> typed_limits c' = typed_limits c
     \<and> typed_7z c' = typed_7z c \<and> typed_sizes c' = typed_sizes c"
  unfolding load_paths_def
  by (elim andThenE) (clarsimp simp: typed_modes_def typed_converter_def typed_durations_def typed_limits_def typed_7z_def typed_sizes_def)

lemma no_drive_empty: "\<not> IsDrvFsPath ''''"
  by (simp add: IsDrvFsPath_def)

lemma load_drvfs_typed: "load_drvfs raw c = Inr c' \<Longrightarrow> typed_drvfs c'"
  unfolding load_drvfs_def Let_def
  by (elim andThenE) (clarsimp simp: checks typed_drvfs_def, metis no_drive_empty)

lemma load_drvfs_frame:
  "load_drvfs raw c = Inr c' \<Longrightarrow> c_version c' = c_version c \<and> typed_modes env c' = typed_modes env c
     \<and> typed_converter c' = typed_converter c \<and> typed_durations c' = typed_durations c \<and> typed_limits c' = typed_limits c
     \<and> typed_7z c' = typed_7z c \<and> typed_sizes c' = typed_sizes c \<and> typed_paths c' = typed_paths c"
  unfolding load_drvfs_def Let_def
  by (elim andThenE) (clarsimp simp: typed_modes_def typed_converter_def typed_durations_def typed_limits_def typed_7z_def typed_sizes_def typed_paths_def)

lemma load_flags_frame:
  "load_flags raw c = Inr c' \<Longrightarrow> c_version c' = c_version c \<and> typed_modes env c' = typed_modes env c
     \<and> typed_converter c' = typed_converter c \<and> typed_durations c' = typed_durations c \<and> typed_limits c' = typed_limits c
     \<and> typed_7z c' = typed_7z c \<and> typed_sizes c' = typed_sizes c \<and> typed_paths c' = typed_paths c \<and> typed_drvfs c' = typed_drvfs c"
  unfolding load_flags_def
  by (elim andThenE) (clarsimp simp: typed_modes_def typed_converter_def typed_durations_def typed_limits_def typed_7z_def typed_sizes_def typed_paths_def typed_drvfs_def)

lemma load_web_frame:
  "load_web raw c = Inr c' \<Longrightarrow> c_version c' = c_version c \<and> typed_modes env c' = typed_modes env c
     \<and> typed_converter c' = typed_converter c \<and> typed_durations c' = typed_durations c \<and> typed_limits c' = typed_limits c
     \<and> typed_7z c' = typed_7z c \<and> typed_sizes c' = typed_sizes c \<and> typed_paths c' = typed_paths c \<and> typed_drvfs c' = typed_drvfs c"
  unfolding load_web_def
  by (elim andThenE) (clarsimp simp: typed_modes_def typed_converter_def typed_durations_def typed_limits_def typed_7z_def typed_sizes_def typed_paths_def typed_drvfs_def)

lemma load_web_port: "load_web raw c = Inr c' \<Longrightarrow> 1 \<le> c_web_port c' \<and> c_web_port c' \<le> 65535"
  unfolding load_web_def requireWebPort_def
  by (elim andThenE, drule requireInt_ge, simp) (clarsimp simp: checks)

lemma FromMap_types:
  assumes "FromMap env raw path = Inr c"
  shows "well_typed env c"
proof -
  from assms obtain c1 c2 c3 c4 c5 c6 c7 c8 c9 c10 where
    s: "load_head raw path zero_config = Inr c1" "load_modes env raw c1 = Inr c2" "load_converter env raw c2 = Inr c3"
      "load_durations raw c3 = Inr c4" "load_limits env raw c4 = Inr c5" "load_7z env raw c5 = Inr c6" "load_sizes raw c6 = Inr c7"
      "load_paths env raw c7 = Inr c8" "load_drvfs raw c8 = Inr c9" "load_flags raw c9 = Inr c10" "load_web raw c10 = Inr c"
    unfolding FromMap_def by (elim andThenE)
  show ?thesis
    using load_head_typed [OF s(1)] load_modes_typed [OF s(2)] load_converter_typed [OF s(3)] load_durations_typed [OF s(4)]
      load_limits_typed [OF s(5)] load_7z_typed [OF s(6)] load_sizes_typed [OF s(7)] load_paths_typed [OF s(8)]
      load_drvfs_typed [OF s(9)] load_converter_frame [OF s(3)] load_durations_frame [OF s(4), of env]
      load_limits_frame [OF s(5)] load_7z_frame [OF s(6)] load_sizes_frame [OF s(7), of env] load_paths_frame [OF s(8)]
      load_drvfs_frame [OF s(9), of env] load_flags_frame [OF s(10), of env] load_web_frame [OF s(11), of env] load_web_port [OF s(11)]
    by (simp add: well_typed_def)
qed

text \<open>The path a configuration is loaded for stays in it.\<close>

lemma stage_paths:
  "load_modes env raw c = Inr c' \<Longrightarrow> c_config_path c' = c_config_path c"
  "load_converter env raw c = Inr c' \<Longrightarrow> c_config_path c' = c_config_path c"
  "load_durations raw c = Inr c' \<Longrightarrow> c_config_path c' = c_config_path c"
  "load_limits env raw c = Inr c' \<Longrightarrow> c_config_path c' = c_config_path c"
  "load_7z env raw c = Inr c' \<Longrightarrow> c_config_path c' = c_config_path c"
  "load_sizes raw c = Inr c' \<Longrightarrow> c_config_path c' = c_config_path c"
  "load_paths env raw c = Inr c' \<Longrightarrow> c_config_path c' = c_config_path c"
  "load_drvfs raw c = Inr c' \<Longrightarrow> c_config_path c' = c_config_path c"
  "load_flags raw c = Inr c' \<Longrightarrow> c_config_path c' = c_config_path c"
  "load_web raw c = Inr c' \<Longrightarrow> c_config_path c' = c_config_path c"
  unfolding load_modes_def load_converter_def load_durations_def load_limits_def load_7z_def load_sizes_def load_paths_def load_drvfs_def load_flags_def load_web_def Let_def
  by (elim andThenE; clarsimp)+

lemma load_head_path: "load_head raw p c = Inr c' \<Longrightarrow> c_config_path c' = p"
  unfolding load_head_def Let_def by (elim andThenE; clarsimp split: if_splits)

lemma FromMap_path:
  assumes "FromMap env raw path = Inr c"
  shows "c_config_path c = path"
  using assms unfolding FromMap_def by (elim andThenE) (simp add: load_head_path stage_paths)


subsection \<open>The published form\<close>

named_theorems gets

definition public_names :: "string list" where
  "public_names = [''version'', ''source_dirs'', ''mount_root'', ''index_dir'', ''overlay_dir'', ''state_db'', ''archives_dir'',
     ''move_archives_to_linux'', ''archive_relocate_overhead_bytes'', ''name_regex'', ''recursive'', ''recursive_mount'',
     ''recursive_mount_extensions'', ''index_smallest_first'', ''poll_interval_seconds'', ''reconcile_interval_seconds'',
     ''use_inotify'', ''stable_file_mode'', ''min_file_age_seconds'', ''content_fingerprint'', ''on_content_change'',
     ''write_overlay'', ''windows_visible'', ''allow_indexes_on_drvfs'', ''cleanup_after'', ''overlay_cleanup'',
     ''quarantine_retain_for'', ''quarantine_max_bytes'', ''min_free_bytes'', ''max_archive_bytes'', ''max_concurrent_index'',
     ''max_concurrent_convert'', ''max_concurrent_mount'', ''max_mount_attempts'', ''mount_ready_timeout_seconds'',
     ''unmount_timeout_seconds'', ''mount_backend'', ''ratarmount_bin'', ''ratarmount_index_workers'', ''ratarmount_debug'',
     ''ratarmount_7z_debug'', ''ratarmount_log_dir'', ''ratarmount_rust_log'', ''convert_7z_nonsolid'', ''convert_7z_scope'',
     ''convert_7z_bin'', ''convert_7z_cache_dir'', ''convert_7z_overhead_bytes'', ''convert_7z_flatten_extract_buffer_bytes'',
     ''convert_7z_inner_prefix_strip'', ''convert_7z_flatten_exclude'', ''convert_zip_to_7z'', ''extra_ratarmount_args'',
     ''archiveconverter_enabled'', ''archiveconverter_bin'', ''archiveconverter_output_dir'', ''archiveconverter_mode'',
     ''archiveconverter_backend'', ''archiveconverter_level'', ''archiveconverter_threads'', ''archiveconverter_verify'',
     ''archiveconverter_required'', ''archiveconverter_temp_dir'', ''archiveconverter_native_pipeline'',
     ''archiveconverter_native_codec'', ''archiveconverter_native_large_threshold'', ''archiveconverter_nested_concurrency'',
     ''archiveconverter_nested_size_budget'', ''archiveconverter_basename_match'', ''archiveconverter_exclude_inner'',
     ''archiveconverter_exclude_outer'', ''archiveconverter_rename'', ''archiveconverter_extra_args'',
     ''archiveconverter_overhead_bytes'', ''archiveconverter_timeout_seconds'', ''hooks_dir'', ''hooks_parallel'',
     ''hooks_stop_on_hard_fail'', ''hook_timeout_seconds'', ''hook_max_retries'', ''hook_rerun_on_failure'', ''hooks_cwd'',
     ''control_socket'', ''pid_file'', ''web_enabled'', ''web_host'', ''web_port'', ''web_token'', ''log_level'', ''strict_config'']"

lemma public_keys: "map fst (ToPublicMap env c) = public_names"
  by (simp add: ToPublicMap_def public_paths_def public_limits_def public_converter_def public_service_def public_names_def)

lemma public_distinct: "distinct (map fst (ToPublicMap env c))"
  unfolding public_keys by code_simp

lemma public_parts: "set (public_paths c) \<subseteq> set (ToPublicMap env c)" "set (public_limits env c) \<subseteq> set (ToPublicMap env c)"
  "set (public_converter c) \<subseteq> set (ToPublicMap env c)" "set (public_service c) \<subseteq> set (ToPublicMap env c)"
  by (auto simp: ToPublicMap_def)

lemma public_entry: "set part \<subseteq> set (ToPublicMap env c) \<Longrightarrow> (k, v) \<in> set part \<Longrightarrow> raw_get (ToPublicMap env c) k = Some v"
  using public_distinct [of env c] by (auto simp: raw_get_def)

lemmas public_paths_entry = public_entry [OF public_parts(1)]

lemma public_paths_get [gets]:
  "raw_get (ToPublicMap env c) ''version'' = Some (YInt (c_version c))"
  "raw_get (ToPublicMap env c) ''source_dirs'' = Some (ystrs (c_source_dirs c))"
  "raw_get (ToPublicMap env c) ''mount_root'' = Some (YStr (c_mount_root c))"
  "raw_get (ToPublicMap env c) ''index_dir'' = Some (YStr (c_index_dir c))"
  "raw_get (ToPublicMap env c) ''overlay_dir'' = Some (YStr (c_overlay_dir c))"
  "raw_get (ToPublicMap env c) ''state_db'' = Some (YStr (c_state_db c))"
  "raw_get (ToPublicMap env c) ''archives_dir'' = Some (YStr (c_archives_dir c))"
  "raw_get (ToPublicMap env c) ''move_archives_to_linux'' = Some (YBool (c_move_archives c))"
  "raw_get (ToPublicMap env c) ''archive_relocate_overhead_bytes'' = Some (YInt (c_relocate_overhead c))"
  "raw_get (ToPublicMap env c) ''name_regex'' = Some (YStr (c_name_regex c))"
  "raw_get (ToPublicMap env c) ''recursive'' = Some (YBool (c_recursive c))"
  "raw_get (ToPublicMap env c) ''recursive_mount'' = Some (YBool (c_recursive_mount c))"
  "raw_get (ToPublicMap env c) ''recursive_mount_extensions'' = Some (ystrs (c_recursive_exts c))"
  "raw_get (ToPublicMap env c) ''index_smallest_first'' = Some (YBool (c_index_smallest_first c))"
  "raw_get (ToPublicMap env c) ''poll_interval_seconds'' = Some (num (c_poll_interval c))"
  "raw_get (ToPublicMap env c) ''reconcile_interval_seconds'' = Some (num (c_reconcile_interval c))"
  "raw_get (ToPublicMap env c) ''use_inotify'' = Some (YBool (c_use_inotify c))"
  "raw_get (ToPublicMap env c) ''stable_file_mode'' = Some (YStr (c_stable_file_mode c))"
  "raw_get (ToPublicMap env c) ''min_file_age_seconds'' = Some (num (c_min_file_age c))"
  "raw_get (ToPublicMap env c) ''content_fingerprint'' = Some (YBool (c_content_fingerprint c))"
  "raw_get (ToPublicMap env c) ''on_content_change'' = Some (YStr (c_on_content_change c))"
  "raw_get (ToPublicMap env c) ''write_overlay'' = Some (YBool (c_write_overlay c))"
  "raw_get (ToPublicMap env c) ''windows_visible'' = Some (YBool (c_windows_visible c))"
  "raw_get (ToPublicMap env c) ''allow_indexes_on_drvfs'' = Some (YBool (c_allow_drvfs c))"
  by (rule public_paths_entry, simp add: public_paths_def)+

lemmas public_limits_entry = public_entry [OF public_parts(2)]

lemma public_limits_get [gets]:
  "raw_get (ToPublicMap env c) ''cleanup_after'' = Some (YStr (FormatDuration (le_shortest env) (c_cleanup_after c)))"
  "raw_get (ToPublicMap env c) ''overlay_cleanup'' = Some (YStr (c_overlay_cleanup c))"
  "raw_get (ToPublicMap env c) ''quarantine_retain_for'' = Some (YStr (FormatDuration (le_shortest env) (c_quarantine_retain c)))"
  "raw_get (ToPublicMap env c) ''quarantine_max_bytes'' = Some (YInt (c_quarantine_max_bytes c))"
  "raw_get (ToPublicMap env c) ''min_free_bytes'' = Some (YInt (c_min_free_bytes c))"
  "raw_get (ToPublicMap env c) ''max_archive_bytes'' = Some (YInt (c_max_archive_bytes c))"
  "raw_get (ToPublicMap env c) ''max_concurrent_index'' = Some (YInt (c_max_concurrent_index c))"
  "raw_get (ToPublicMap env c) ''max_concurrent_convert'' = Some (YInt (c_max_concurrent_convert c))"
  "raw_get (ToPublicMap env c) ''max_concurrent_mount'' = Some (YInt (c_max_concurrent_mount c))"
  "raw_get (ToPublicMap env c) ''max_mount_attempts'' = Some (YInt (c_max_mount_attempts c))"
  "raw_get (ToPublicMap env c) ''mount_ready_timeout_seconds'' = Some (num (c_mount_ready_timeout c))"
  "raw_get (ToPublicMap env c) ''unmount_timeout_seconds'' = Some (num (c_unmount_timeout c))"
  "raw_get (ToPublicMap env c) ''mount_backend'' = Some (YStr (c_mount_backend c))"
  "raw_get (ToPublicMap env c) ''ratarmount_bin'' = Some (YStr (c_ratarmount_bin c))"
  "raw_get (ToPublicMap env c) ''ratarmount_index_workers'' = Some (YInt (c_index_workers c))"
  "raw_get (ToPublicMap env c) ''ratarmount_debug'' = Some (YInt (c_ratarmount_debug c))"
  "raw_get (ToPublicMap env c) ''ratarmount_7z_debug'' = Some (YBool (c_ratarmount_7z_debug c))"
  "raw_get (ToPublicMap env c) ''ratarmount_log_dir'' = Some (YStr (c_ratarmount_log_dir c))"
  "raw_get (ToPublicMap env c) ''ratarmount_rust_log'' = Some (YStr (c_ratarmount_rust_log c))"
  "raw_get (ToPublicMap env c) ''convert_7z_nonsolid'' = Some (YBool (c_7z_nonsolid c))"
  "raw_get (ToPublicMap env c) ''convert_7z_scope'' = Some (YStr (c_7z_scope c))"
  "raw_get (ToPublicMap env c) ''convert_7z_bin'' = Some (YStr (c_7z_bin c))"
  "raw_get (ToPublicMap env c) ''convert_7z_cache_dir'' = Some (YStr (c_7z_cache_dir c))"
  "raw_get (ToPublicMap env c) ''convert_7z_overhead_bytes'' = Some (YInt (c_7z_overhead c))"
  "raw_get (ToPublicMap env c) ''convert_7z_flatten_extract_buffer_bytes'' = Some (YInt (c_7z_flatten_buffer c))"
  "raw_get (ToPublicMap env c) ''convert_7z_inner_prefix_strip'' = Some (YStr (c_7z_prefix_strip c))"
  "raw_get (ToPublicMap env c) ''convert_7z_flatten_exclude'' = Some (ystrs (c_7z_flatten_exclude c))"
  "raw_get (ToPublicMap env c) ''convert_zip_to_7z'' = Some (YBool (c_zip_to_7z c))"
  "raw_get (ToPublicMap env c) ''extra_ratarmount_args'' = Some (ystrs (c_extra_args c))"
  by (rule public_limits_entry, simp add: public_limits_def)+

lemmas public_converter_entry = public_entry [OF public_parts(3)]

lemma public_converter_get [gets]:
  "raw_get (ToPublicMap env c) ''archiveconverter_enabled'' = Some (YBool (c_converter_enabled c))"
  "raw_get (ToPublicMap env c) ''archiveconverter_bin'' = Some (YStr (c_converter_bin c))"
  "raw_get (ToPublicMap env c) ''archiveconverter_output_dir'' = Some (YStr (c_converter_output_dir c))"
  "raw_get (ToPublicMap env c) ''archiveconverter_mode'' = Some (YStr (c_converter_mode c))"
  "raw_get (ToPublicMap env c) ''archiveconverter_backend'' = Some (YStr (c_converter_backend c))"
  "raw_get (ToPublicMap env c) ''archiveconverter_level'' = Some (YInt (c_converter_level c))"
  "raw_get (ToPublicMap env c) ''archiveconverter_threads'' = Some (yint_option (c_converter_threads c))"
  "raw_get (ToPublicMap env c) ''archiveconverter_verify'' = Some (YBool (c_converter_verify c))"
  "raw_get (ToPublicMap env c) ''archiveconverter_required'' = Some (YBool (c_converter_required c))"
  "raw_get (ToPublicMap env c) ''archiveconverter_temp_dir'' = Some (YStr (c_converter_temp_dir c))"
  "raw_get (ToPublicMap env c) ''archiveconverter_native_pipeline'' = Some (YStr (c_native_pipeline c))"
  "raw_get (ToPublicMap env c) ''archiveconverter_native_codec'' = Some (YStr (c_native_codec c))"
  "raw_get (ToPublicMap env c) ''archiveconverter_native_large_threshold'' = Some (YInt (c_native_large_threshold c))"
  "raw_get (ToPublicMap env c) ''archiveconverter_nested_concurrency'' = Some (yint_option (c_nested_concurrency c))"
  "raw_get (ToPublicMap env c) ''archiveconverter_nested_size_budget'' = Some (YStr (c_nested_size_budget c))"
  "raw_get (ToPublicMap env c) ''archiveconverter_basename_match'' = Some (YBool (c_basename_match c))"
  "raw_get (ToPublicMap env c) ''archiveconverter_exclude_inner'' = Some (ystrs (c_exclude_inner c))"
  "raw_get (ToPublicMap env c) ''archiveconverter_exclude_outer'' = Some (ystrs (c_exclude_outer c))"
  "raw_get (ToPublicMap env c) ''archiveconverter_rename'' = Some (ystrs (c_rename c))"
  "raw_get (ToPublicMap env c) ''archiveconverter_extra_args'' = Some (ystrs (c_converter_extra_args c))"
  "raw_get (ToPublicMap env c) ''archiveconverter_overhead_bytes'' = Some (YInt (c_converter_overhead c))"
  "raw_get (ToPublicMap env c) ''archiveconverter_timeout_seconds'' = Some (num (c_converter_timeout c))"
  by (rule public_converter_entry, simp add: public_converter_def)+

lemmas public_service_entry = public_entry [OF public_parts(4)]

lemma public_service_get [gets]:
  "raw_get (ToPublicMap env c) ''hooks_dir'' = Some (YStr (c_hooks_dir c))"
  "raw_get (ToPublicMap env c) ''hooks_parallel'' = Some (YBool (c_hooks_parallel c))"
  "raw_get (ToPublicMap env c) ''hooks_stop_on_hard_fail'' = Some (YBool (c_hooks_stop_on_hard_fail c))"
  "raw_get (ToPublicMap env c) ''hook_timeout_seconds'' = Some (num (c_hook_timeout c))"
  "raw_get (ToPublicMap env c) ''hook_max_retries'' = Some (YInt (c_hook_max_retries c))"
  "raw_get (ToPublicMap env c) ''hook_rerun_on_failure'' = Some (YBool (c_hook_rerun_on_failure c))"
  "raw_get (ToPublicMap env c) ''hooks_cwd'' = Some (YStr (c_hooks_cwd c))"
  "raw_get (ToPublicMap env c) ''control_socket'' = Some (YStr (c_control_socket c))"
  "raw_get (ToPublicMap env c) ''pid_file'' = Some (YStr (c_pid_file c))"
  "raw_get (ToPublicMap env c) ''web_enabled'' = Some (YBool (c_web_enabled c))"
  "raw_get (ToPublicMap env c) ''web_host'' = Some (YStr (c_web_host c))"
  "raw_get (ToPublicMap env c) ''web_port'' = Some (YInt (c_web_port c))"
  "raw_get (ToPublicMap env c) ''web_token'' = Some (YStr (c_web_token c))"
  "raw_get (ToPublicMap env c) ''log_level'' = Some (YStr (c_log_level c))"
  "raw_get (ToPublicMap env c) ''strict_config'' = Some (YBool (c_strict c))"
  by (rule public_service_entry, simp add: public_service_def)+

lemma public_missing: "k \<notin> set public_names \<Longrightarrow> raw_get (ToPublicMap env c) k = None"
  using public_keys [of env c] by (metis map_of_eq_None_iff raw_get_def set_map)

lemma public_absent [gets]:
  "raw_get (ToPublicMap env c) ''stage_archive_to'' = None" "raw_get (ToPublicMap env c) ''stage_always'' = None"
  "raw_get (ToPublicMap env c) ''stage_overhead_bytes'' = None"
  by (rule public_missing, code_simp)+

lemma public_known: "unknown_keys (ToPublicMap env c) = []"
proof -
  have names: "public_names = take 24 directKeys @ [''cleanup_after''] @ take 1 (drop 24 directKeys) @ [''quarantine_retain_for''] @ drop 25 directKeys"
    by (simp add: public_names_def directKeys_def)
  have "set public_names \<subseteq> set knownYAMLKeys"
    unfolding names knownYAMLKeys_def by (auto simp: durationKeys_def dest: in_set_takeD in_set_dropD)
  then have "filter (\<lambda>k. k \<notin> set knownYAMLKeys) (remdups public_names) = []" by (auto simp: filter_empty_conv)
  then show ?thesis by (simp add: unknown_keys_def public_keys)
qed

text \<open>Reading a published value back.\<close>

named_theorems reads

lemma string_items_strs:
  "(\<And>s. s \<in> set ss \<Longrightarrow> ne \<Longrightarrow> s \<noteq> '''' \<and> trim_space s = s) \<Longrightarrow> string_items k ne i (map YStr ss) = Inr ss"
  by (induction ss arbitrary: i) (auto simp: Let_def)

lemma read_list [reads]: "raw_get raw k = Some (ystrs ss) \<Longrightarrow> requireStringList raw k = Inr ss"
  by (simp add: requireStringList_def asStringList_def ystrs_def string_items_strs)

lemma read_items [reads]:
  "raw_get raw k = Some (ystrs ss) \<Longrightarrow> ne \<longrightarrow> (\<forall>s \<in> set ss. s \<noteq> '''' \<and> trim_space s = s) \<Longrightarrow> requireNonEmptyStringList raw k ne = Inr ss"
  by (simp add: requireNonEmptyStringList_def asStringList_def ystrs_def string_items_strs)

lemma read_str [reads]: "raw_get raw k = Some (YStr s) \<Longrightarrow> requireStr raw k d = Inr s" "raw_get raw k = Some (YStr s) \<Longrightarrow> pathStr raw k d = Inr s"
  by (simp_all add: requireStr_def pathStr_def)

lemma read_bool [reads]: "raw_get raw k = Some (YBool b) \<Longrightarrow> requireBool raw k d = Inr b"
  by (simp add: requireBool_def)

lemma read_int [reads]: "raw_get raw k = Some (YInt n) \<Longrightarrow> m \<le> n \<Longrightarrow> requireInt raw k d m = Inr n"
  by (simp add: requireInt_def asInt_def)

lemma read_any [reads]: "raw_get raw k = Some (YStr s) \<Longrightarrow> stringOrEmpty env raw k = s" "raw_get raw k = None \<Longrightarrow> stringOrEmpty env raw k = ''''"
  by (simp_all add: stringOrEmpty_def)

lemma read_seconds [reads]:
  assumes "raw_get raw k = Some (num x)" "0 \<le> x" "m \<le> x"
  shows "requireFloatSeconds raw k d m = Inr x"
proof -
  have "ParseDuration (as_duration (num x)) = Inr x"
    using assms(2) by (auto simp: num_def as_duration_def is_whole_def)
  then show ?thesis using assms(1,3) by (simp add: requireFloatSeconds_def duration_of_def)
qed

lemma read_path [reads]: "raw_get raw k = Some (YStr p) \<Longrightarrow> p \<noteq> '''' \<Longrightarrow> requirePath raw k = Inr p"
  by (simp add: requirePath_def reads demand_def)

lemma read_demand [reads]: "b \<Longrightarrow> demand b e = Inr ()" "v \<in> set vs \<Longrightarrow> one_of k vs v = Inr ()" "n \<le> m \<Longrightarrow> at_most k m n = Inr ()"
  by (simp_all add: demand_def one_of_def at_most_def)

lemma canonical_modes:
  "v \<in> set LogLevels \<Longrightarrow> to_upper v = v"
  "v \<in> set ArchiveconverterModes \<Longrightarrow> to_lower (trim_space v) = v"
  "v \<in> set ArchiveconverterBackends \<Longrightarrow> to_lower (trim_space v) = v"
  "v \<in> set Convert7zScopes \<Longrightarrow> to_lower (trim_space v) = v"
proof -
  have "\<forall>v \<in> set LogLevels. to_upper v = v" "\<forall>v \<in> set ArchiveconverterModes. to_lower (trim_space v) = v"
    "\<forall>v \<in> set ArchiveconverterBackends. to_lower (trim_space v) = v" "\<forall>v \<in> set Convert7zScopes. to_lower (trim_space v) = v"
    by code_simp+
  then show "v \<in> set LogLevels \<Longrightarrow> to_upper v = v" "v \<in> set ArchiveconverterModes \<Longrightarrow> to_lower (trim_space v) = v"
    "v \<in> set ArchiveconverterBackends \<Longrightarrow> to_lower (trim_space v) = v" "v \<in> set Convert7zScopes \<Longrightarrow> to_lower (trim_space v) = v"
    by blast+
qed

lemma head_again: "c_version c0 = 1 \<Longrightarrow> load_head (ToPublicMap env c0) p c =
    Inr (c\<lparr>c_strict := c_strict c0, c_unknown_keys := [], c_version := 1, c_config_path := p\<rparr>)"
  by (simp add: load_head_def public_known gets reads asInt_def)

lemma modes_again: "typed_modes env c0 \<Longrightarrow> load_modes env (ToPublicMap env c0) c =
    Inr (c\<lparr>c_source_dirs := c_source_dirs c0, c_name_regex := c_name_regex c0, c_stable_file_mode := c_stable_file_mode c0,
           c_overlay_cleanup := c_overlay_cleanup c0, c_on_content_change := c_on_content_change c0, c_hooks_cwd := c_hooks_cwd c0,
           c_log_level := c_log_level c0, c_extra_args := c_extra_args c0\<rparr>)"
  by (simp add: load_modes_def gets reads typed_modes_def canonical_modes)

end
