(* ===== verification/ConfigUpdate.thy ===== *)
theory ConfigUpdate
  imports ConfigProps
begin

text \<open>
  What publishing, patching and writing the configuration guarantees: the published form of a loaded
  configuration loads again to the same one, the comparison of two configurations finds every
  change, an update changes nothing unless it is valid and applied, and the file is replaced as a
  whole or not at all.
\<close>

subsection \<open>Loading what was published\<close>

lemma threads_again:
  "(\<And>t. c_converter_threads c0 = Some t \<Longrightarrow> 0 < t) \<Longrightarrow> load_threads (ToPublicMap env c0) = Inr (c_converter_threads c0)"
  by (cases "c_converter_threads c0")
    (simp_all add: load_threads_def raw_nil_def gets yint_option_def requireInt_def asInt_def)

lemma nested_again:
  "(\<And>t. c_nested_concurrency c0 = Some t \<Longrightarrow> 0 \<le> t) \<Longrightarrow> load_nested_concurrency (ToPublicMap env c0) = Inr (c_nested_concurrency c0)"
  by (cases "c_nested_concurrency c0")
    (simp_all add: load_nested_concurrency_def raw_nil_def gets yint_option_def requireInt_def asInt_def)

lemma converter_again: "typed_converter c0 \<Longrightarrow> load_converter env (ToPublicMap env c0) c =
    Inr (c\<lparr>c_exclude_inner := c_exclude_inner c0, c_exclude_outer := c_exclude_outer c0, c_rename := c_rename c0,
           c_converter_extra_args := c_converter_extra_args c0, c_converter_mode := c_converter_mode c0,
           c_converter_backend := c_converter_backend c0, c_converter_level := c_converter_level c0,
           c_converter_threads := c_converter_threads c0, c_converter_timeout := c_converter_timeout c0,
           c_converter_overhead := c_converter_overhead c0, c_native_large_threshold := c_native_large_threshold c0,
           c_nested_size_budget := c_nested_size_budget c0, c_nested_concurrency := c_nested_concurrency c0\<rparr>)"
  by (simp add: load_converter_def gets reads typed_converter_def canonical_modes threads_again nested_again load_nested_budget_def)

definition reads_back :: "load_env \<Rightarrow> rat \<Rightarrow> bool" where
  "reads_back env x \<longleftrightarrow> ParseDuration (DString (FormatDuration (le_shortest env) x)) = Inr x"

lemma whole_reads_back: "reads_back env (of_nat n)" "k < 1000 \<Longrightarrow> reads_back env (of_nat k / 1000)"
  using duration_roundtrip [of "le_shortest env" n k] by (simp_all add: reads_back_def)

lemma dual_again: "raw_get raw k = Some (YStr (FormatDuration (le_shortest env) x)) \<Longrightarrow> reads_back env x \<Longrightarrow> dual_duration raw k a d = Inr x"
  by (simp add: dual_duration_def duration_of_def as_duration_def reads_back_def)

lemma durations_again:
  "typed_durations c0 \<Longrightarrow> reads_back env (c_cleanup_after c0) \<Longrightarrow> reads_back env (c_quarantine_retain c0) \<Longrightarrow>
   load_durations (ToPublicMap env c0) c =
    Inr (c\<lparr>c_recursive_exts := c_recursive_exts c0, c_cleanup_after := c_cleanup_after c0, c_quarantine_retain := c_quarantine_retain c0,
           c_poll_interval := c_poll_interval c0, c_reconcile_interval := c_reconcile_interval c0, c_min_file_age := c_min_file_age c0,
           c_hook_timeout := c_hook_timeout c0, c_unmount_timeout := c_unmount_timeout c0, c_mount_ready_timeout := c_mount_ready_timeout c0\<rparr>)"
  by (simp add: load_durations_def gets reads typed_durations_def dual_again raw_nil_def ystrs_def [symmetric])
    (simp add: ystrs_def)

lemma limits_again: "typed_limits c0 \<Longrightarrow> load_limits env (ToPublicMap env c0) c =
    Inr (c\<lparr>c_max_concurrent_index := c_max_concurrent_index c0, c_max_concurrent_convert := c_max_concurrent_convert c0,
           c_max_concurrent_mount := c_max_concurrent_mount c0, c_max_mount_attempts := c_max_mount_attempts c0,
           c_index_workers := c_index_workers c0, c_ratarmount_debug := c_ratarmount_debug c0,
           c_ratarmount_7z_debug := c_ratarmount_7z_debug c0, c_ratarmount_log_dir := c_ratarmount_log_dir c0,
           c_ratarmount_rust_log := c_ratarmount_rust_log c0\<rparr>)"
  by (simp add: load_limits_def gets reads typed_limits_def)

lemma seven_again: "typed_7z c0 \<Longrightarrow> load_7z env (ToPublicMap env c0) c =
    Inr (c\<lparr>c_7z_nonsolid := c_7z_nonsolid c0, c_7z_scope := c_7z_scope c0, c_7z_bin := c_7z_bin c0, c_7z_cache_dir := c_7z_cache_dir c0,
           c_7z_overhead := c_7z_overhead c0, c_7z_flatten_buffer := c_7z_flatten_buffer c0, c_7z_prefix_strip := c_7z_prefix_strip c0,
           c_7z_flatten_exclude := c_7z_flatten_exclude c0, c_zip_to_7z := c_zip_to_7z c0\<rparr>)"
  by (simp add: load_7z_def gets reads typed_7z_def canonical_modes)

lemma sizes_again: "typed_sizes c0 \<Longrightarrow> load_sizes (ToPublicMap env c0) c =
    Inr (c\<lparr>c_hook_max_retries := c_hook_max_retries c0, c_quarantine_max_bytes := c_quarantine_max_bytes c0,
           c_min_free_bytes := c_min_free_bytes c0, c_max_archive_bytes := c_max_archive_bytes c0, c_relocate_overhead := c_relocate_overhead c0\<rparr>)"
  by (simp add: load_sizes_def gets reads typed_sizes_def requireInt_def [of _ "''stage_overhead_bytes''"])

lemma rust_backend: "NormalizeMountBackend ''rust'' = Inr ''rust''"
  by code_simp

lemma paths_again: "typed_paths c0 \<Longrightarrow> load_paths env (ToPublicMap env c0) c =
    Inr (c\<lparr>c_mount_backend := c_mount_backend c0, c_mount_root := c_mount_root c0, c_index_dir := c_index_dir c0,
           c_overlay_dir := c_overlay_dir c0, c_state_db := c_state_db c0, c_hooks_dir := c_hooks_dir c0,
           c_control_socket := c_control_socket c0, c_pid_file := c_pid_file c0, c_ratarmount_bin := c_ratarmount_bin c0,
           c_converter_bin := c_converter_bin c0, c_converter_output_dir := c_converter_output_dir c0,
           c_converter_temp_dir := c_converter_temp_dir c0, c_archives_dir := c_archives_dir c0, c_move_archives := c_move_archives c0\<rparr>)"
  by (simp add: load_paths_def gets reads typed_paths_def hasKey_def rust_backend Let_def)

lemma drvfs_again:
  "typed_drvfs c0 \<Longrightarrow> c_mount_root c = c_mount_root c0 \<Longrightarrow> c_index_dir c = c_index_dir c0 \<Longrightarrow> c_overlay_dir c = c_overlay_dir c0 \<Longrightarrow>
   c_state_db c = c_state_db c0 \<Longrightarrow> c_archives_dir c = c_archives_dir c0 \<Longrightarrow> c_converter_output_dir c = c_converter_output_dir c0 \<Longrightarrow>
   load_drvfs (ToPublicMap env c0) c = Inr (c\<lparr>c_allow_drvfs := c_allow_drvfs c0\<rparr>)"
  by (auto simp add: load_drvfs_def gets read_bool typed_drvfs_def Let_def demand_def)

lemma flags_again: "load_flags (ToPublicMap env c0) c =
    Inr (c\<lparr>c_recursive := c_recursive c0, c_recursive_mount := c_recursive_mount c0, c_index_smallest_first := c_index_smallest_first c0,
           c_use_inotify := c_use_inotify c0, c_content_fingerprint := c_content_fingerprint c0, c_write_overlay := c_write_overlay c0,
           c_windows_visible := c_windows_visible c0, c_converter_enabled := c_converter_enabled c0, c_converter_verify := c_converter_verify c0,
           c_converter_required := c_converter_required c0, c_native_pipeline := c_native_pipeline c0, c_native_codec := c_native_codec c0,
           c_basename_match := c_basename_match c0\<rparr>)"
  by (simp add: load_flags_def gets reads)

lemma web_again: "1 \<le> c_web_port c0 \<Longrightarrow> c_web_port c0 \<le> 65535 \<Longrightarrow> load_web (ToPublicMap env c0) c =
    Inr (c\<lparr>c_hooks_parallel := c_hooks_parallel c0, c_hooks_stop_on_hard_fail := c_hooks_stop_on_hard_fail c0,
           c_hook_rerun_on_failure := c_hook_rerun_on_failure c0, c_web_enabled := c_web_enabled c0, c_web_host := c_web_host c0,
           c_web_port := c_web_port c0, c_web_token := c_web_token c0\<rparr>)"
  by (simp add: load_web_def requireWebPort_def gets reads)

lemma reload_typed:
  assumes t: "well_typed env c0" and d: "reads_back env (c_cleanup_after c0)" "reads_back env (c_quarantine_retain c0)"
  shows "FromMap env (ToPublicMap env c0) p = Inr (c0\<lparr>c_unknown_keys := [], c_config_path := p\<rparr>)"
proof -
  have v: "c_version c0 = 1" using t by (simp add: well_typed_def)
  show ?thesis
    using t d unfolding well_typed_def FromMap_def
    by (simp add: head_again [OF v] modes_again converter_again durations_again limits_again seven_again sizes_again paths_again
        drvfs_again flags_again web_again zero_config_def v)
qed


subsection \<open>Comparing\<close>

lemma bit_len_le: "m < 2 ^ k \<Longrightarrow> bit_len m \<le> k"
proof (induction k arbitrary: m)
  case 0
  then show ?case by (subst bit_len.simps) simp
next
  case (Suc k)
  then have "m div 2 < 2 ^ k" by (simp add: less_mult_imp_div_less)
  then show ?case using Suc.IH [of "m div 2"] by (subst bit_len.simps) simp
qed

lemma float64_exact: "\<bar>n\<bar> < 2 ^ 53 \<Longrightarrow> float64_of_int n = n"
proof -
  assume "\<bar>n\<bar> < 2 ^ 53"
  then have "nat \<bar>n\<bar> < nat (2 ^ 53)" by (simp only: nat_mono_iff zero_less_power zero_less_numeral)
  then have "nat \<bar>n\<bar> < 2 ^ 53" by (simp add: nat_power_eq)
  then have "bit_len (nat \<bar>n\<bar>) - 53 = 0" using bit_len_le by simp
  then show ?thesis by (simp add: float64_of_int_def Let_def)
qed

text \<open>Published values that a float64 holds exactly, and the only forms they have.\<close>

fun exact_value :: "yval \<Rightarrow> bool" where
  "exact_value (YInt n) = (\<bar>n\<bar> < 2 ^ 53)"
| "exact_value v = True"

definition exact_public :: "load_env \<Rightarrow> full_config \<Rightarrow> bool" where
  "exact_public env c \<longleftrightarrow> (\<forall>e \<in> set (ToPublicMap env c). exact_value (snd e))"

fun published :: "yval \<Rightarrow> bool" where
  "published (YFloat x) = (\<not> (is_whole x \<and> \<bar>x\<bar> < 2 ^ 53))"
| "published (YUint n) = False"
| "published (YList vs) = (\<forall>v \<in> set vs. case v of YStr s \<Rightarrow> True | _ \<Rightarrow> False)"
| "published (YOther s) = False"
| "published v = True"

lemma published_num: "published (num x)"
  by (auto simp: num_def)

lemma published_values: "e \<in> set (ToPublicMap env c) \<Longrightarrow> published (snd e)"
proof -
  have "list_all (\<lambda>e. published (snd e)) (ToPublicMap env c)"
    by (simp add: ToPublicMap_def public_paths_def public_limits_def public_converter_def public_service_def
        published_num ystrs_def yint_option_def split: option.split)
  then show "e \<in> set (ToPublicMap env c) \<Longrightarrow> published (snd e)" by (auto simp: list_all_iff)
qed

lemma whole_of_int: "is_whole (of_int n)"
  by (simp add: is_whole_def)

lemma normalize_strings: "\<forall>v \<in> set vs. case v of YStr s \<Rightarrow> True | _ \<Rightarrow> False \<Longrightarrow> map normalizeForCompare vs = vs"
  by (induction vs) (auto split: yval.splits)

lemma normalize_inj:
  assumes "published v" "published w" "exact_value v" "exact_value w" "normalizeForCompare v = normalizeForCompare w"
  shows "v = w"
proof (cases v)
  case (YInt n)
  have small: "(of_int \<bar>n\<bar> :: rat) < 2 ^ 53" using assms(3) YInt by (simp only: exact_value.simps) (metis of_int_less_iff of_int_numeral of_int_power)
  then show ?thesis using assms YInt whole_of_int [of n] by (cases w) (auto simp: float64_exact)
next
  case (YFloat x)
  show ?thesis
  proof (cases w)
    case (YInt n)
    have "(of_int \<bar>n\<bar> :: rat) < 2 ^ 53" using assms(4) YInt by (simp only: exact_value.simps) (metis of_int_less_iff of_int_numeral of_int_power)
    then show ?thesis using assms YInt YFloat whole_of_int [of n] by (auto simp: float64_exact)
  qed (use assms YFloat in auto)
next
  case (YList vs)
  then show ?thesis using assms normalize_strings by (cases w) auto
qed (use assms in \<open>cases w; auto\<close>)+

definition public_fields :: "full_config \<Rightarrow> full_config" where
  "public_fields c = c\<lparr>c_unknown_keys := [], c_config_path := ''''\<rparr>"

lemma ToPublicMap_public_fields: "ToPublicMap env (public_fields c) = ToPublicMap env c"
  by (simp add: public_fields_def ToPublicMap_def public_paths_def public_limits_def public_converter_def public_service_def)

lemma unchanged_iff:
  "fst (ClassifyChanges env a b) = [] \<longleftrightarrow> (\<forall>k. publicEqual (raw_get (ToPublicMap env a) k) (raw_get (ToPublicMap env b) k))"
proof -
  have keys: "set (sort (remdups (map fst (ToPublicMap env a) @ map fst (ToPublicMap env b)))) = set public_names"
    by (simp only: public_keys) simp
  have out: "publicEqual (raw_get (ToPublicMap env a) k) (raw_get (ToPublicMap env b) k)" if "k \<notin> set public_names" for k
    using public_missing [OF that] by (simp add: publicEqual_def)
  have "fst (ClassifyChanges env a b) = [] \<longleftrightarrow>
      (\<forall>k \<in> set (sort (remdups (map fst (ToPublicMap env a) @ map fst (ToPublicMap env b)))). publicEqual (raw_get (ToPublicMap env a) k) (raw_get (ToPublicMap env b) k))"
    by (simp only: ClassifyChanges_def Let_def fst_conv filter_empty_conv not_not)
  then show ?thesis unfolding keys using out by blast
qed

lemma public_lists_equal:
  assumes "map fst xs = map fst ys" "distinct (map fst xs)" "\<And>k v w. map_of xs k = Some v \<Longrightarrow> map_of ys k = Some w \<Longrightarrow> v = w"
  shows "xs = ys"
proof (rule nth_equalityI)
  show len: "length xs = length ys" using arg_cong [OF assms(1), of length] by simp
  fix i assume i: "i < length xs"
  have k: "fst (xs ! i) = fst (ys ! i)" using arg_cong [OF assms(1), of "\<lambda>l. l ! i"] i len by simp
  have "map_of xs (fst (xs ! i)) = Some (snd (xs ! i))" "map_of ys (fst (ys ! i)) = Some (snd (ys ! i))"
    using i len assms(1,2) by (simp_all add: map_of_eq_Some_iff)
  then have "snd (xs ! i) = snd (ys ! i)" using assms(3) [of "fst (xs ! i)"] k by simp
  with k show "xs ! i = ys ! i" by (simp add: prod_eq_iff)
qed

lemma unchanged_same:
  assumes "exact_public env a" "exact_public env b"
    and "\<And>k. publicEqual (raw_get (ToPublicMap env a) k) (raw_get (ToPublicMap env b) k)"
  shows "ToPublicMap env a = ToPublicMap env b"
proof (rule public_lists_equal)
  show "map fst (ToPublicMap env a) = map fst (ToPublicMap env b)" by (simp add: public_keys)
  show "distinct (map fst (ToPublicMap env a))" by (rule public_distinct)
  fix k v w assume v: "map_of (ToPublicMap env a) k = Some v" and w: "map_of (ToPublicMap env b) k = Some w"
  then have m: "(k, v) \<in> set (ToPublicMap env a)" "(k, w) \<in> set (ToPublicMap env b)" by (auto dest: map_of_SomeD)
  have "normalizeForCompare v = normalizeForCompare w"
    using assms(3) [of k] v w by (simp add: publicEqual_def raw_get_def)
  moreover have "exact_value v" "exact_value w"
    using bspec [OF assms(1) [unfolded exact_public_def] m(1)] bspec [OF assms(2) [unfolded exact_public_def] m(2)] by simp_all
  moreover have "published v" "published w" using published_values [OF m(1)] published_values [OF m(2)] by simp_all
  ultimately show "v = w" by (blast intro: normalize_inj)
qed

text \<open>The comparison of two configurations misses nothing and invents nothing: of two well-typed
  configurations whose integers a float64 holds exactly, it reports no changed key exactly when they
  agree in every field except the path they were loaded from and the ignored keys. Every reported
  key is put in exactly one class: restart when it is one of the restart keys, hot otherwise.\<close>

theorem ClassifyChanges_complete:
  assumes "well_typed env a" "well_typed env b" "exact_public env a" "exact_public env b"
    and "\<And>c. c \<in> {a, b} \<Longrightarrow> reads_back env (c_cleanup_after c) \<and> reads_back env (c_quarantine_retain c)"
    and run: "ClassifyChanges env a b = (changed, hot, restart)"
  shows "(changed = [] \<longleftrightarrow> public_fields a = public_fields b)
    \<and> set restart = set changed \<inter> set RestartRequiredKeys \<and> set hot = set changed - set RestartRequiredKeys
    \<and> set changed \<subseteq> set (PublicKeys env) \<and> distinct changed"
proof -
  have loads: "FromMap env (ToPublicMap env c) '''' = Inr (public_fields c)" if "c \<in> {a, b}" for c
    using reload_typed [of env c "''''"] that assms(1,2,5) by (auto simp: public_fields_def)
  have "changed = [] \<longleftrightarrow> (\<forall>k. publicEqual (raw_get (ToPublicMap env a) k) (raw_get (ToPublicMap env b) k))"
    using unchanged_iff [of env a b] run by simp
  also have "\<dots> \<longleftrightarrow> public_fields a = public_fields b"
  proof
    assume "\<forall>k. publicEqual (raw_get (ToPublicMap env a) k) (raw_get (ToPublicMap env b) k)"
    then have "ToPublicMap env a = ToPublicMap env b" using unchanged_same [OF assms(3,4)] by blast
    then show "public_fields a = public_fields b" using loads [of a] loads [of b] by simp
  next
    assume "public_fields a = public_fields b"
    then have "ToPublicMap env a = ToPublicMap env b" using ToPublicMap_public_fields by metis
    then show "\<forall>k. publicEqual (raw_get (ToPublicMap env a) k) (raw_get (ToPublicMap env b) k)" by (simp add: publicEqual_def)
  qed
  finally have "changed = [] \<longleftrightarrow> public_fields a = public_fields b" .
  moreover have "changed = filter (\<lambda>k. \<not> publicEqual (raw_get (ToPublicMap env a) k) (raw_get (ToPublicMap env b) k))
      (sort (remdups (public_names @ public_names)))" "hot = filter (\<lambda>k. k \<notin> set RestartRequiredKeys) changed"
      "restart = filter (\<lambda>k. k \<in> set RestartRequiredKeys) changed"
    using run by (auto simp: ClassifyChanges_def Let_def public_keys)
  ultimately show ?thesis by (auto simp: PublicKeys_def public_keys)
qed

subsection \<open>Writing\<close>

lemma WriteFile_cases:
  assumes "\<And>tmp. wh_tmp wh = Some tmp \<Longrightarrow> tmp \<noteq> path \<and> fs tmp = None" "WriteFile wh dump env path cfg parents fs = (err, fs')"
  shows "(err = None \<longrightarrow> (\<exists>txt. ToYAML dump env cfg = Some txt \<and> fs' = fs(path := Some (with_newline txt))))
    \<and> (err \<noteq> None \<longrightarrow> fs' path = fs path \<and> (wh_remove wh \<longrightarrow> fs' = fs))
    \<and> (\<forall>q. q \<noteq> path \<and> wh_tmp wh \<noteq> Some q \<longrightarrow> fs' q = fs q)"
proof (cases "wh_tmp wh")
  case None
  then show ?thesis using assms(2) by (auto simp: WriteFile_def Let_def split: if_splits option.splits)
next
  case (Some tmp)
  then have t: "tmp \<noteq> path" "fs tmp = None" using assms(1) by auto
  have "(fs(tmp := x))(tmp := None) = fs" for x using t(2) by auto
  then show ?thesis using assms(2) Some t
    by (auto simp: WriteFile_def Let_def drop_temp_def fun_upd_twist [OF t(1)] split: if_splits option.splits)
qed

text \<open>Writing the configuration replaces the file as a whole or not at all.  With a fresh temporary
  file, a successful write leaves exactly the new text (with its final newline) under the path and
  no temporary file; a write that fails at any point - parent directory, text, temporary file, short
  write, sync, close or rename - leaves the old file as it was, and nothing else when the temporary
  file could be removed. No other file is touched.\<close>

theorem WriteFile_atomic:
  assumes "\<And>tmp. wh_tmp wh = Some tmp \<Longrightarrow> tmp \<noteq> path \<and> fs tmp = None" "WriteFile wh dump env path cfg parents fs = (err, fs')"
  shows "(err = None \<longrightarrow> (\<exists>txt. ToYAML dump env cfg = Some txt \<and> fs' = fs(path := Some (with_newline txt))))
    \<and> (err \<noteq> None \<longrightarrow> fs' path = fs path \<and> (wh_remove wh \<longrightarrow> fs' = fs))
    \<and> (\<forall>q. q \<noteq> path \<and> wh_tmp wh \<noteq> Some q \<longrightarrow> fs' q = fs q)"
  using WriteFile_cases [OF assms] .

subsection \<open>Updating\<close>

lemma ApplyUpdate_run:
  assumes tmp: "\<And>tmp. wh_tmp wh = Some tmp \<Longrightarrow> tmp \<noteq> update_path current configPath \<and> fs tmp = None"
    and run: "ApplyUpdate env dump wh current patch full apply configPath fs = (r, fs')"
  shows "case r of
      Inl e \<Rightarrow> fs' (update_path current configPath) = fs (update_path current configPath)
    | Inr u \<Rightarrow> \<exists>new. FromMap env (update_raw env current patch full) (update_path current configPath) = Inr new
        \<and> well_typed env new \<and> (ur_changed u, ur_hot u, ur_restart u) = ClassifyChanges env current new
        \<and> ur_written u = apply \<and> (\<not> apply \<longrightarrow> fs' = fs)
        \<and> (apply \<longrightarrow> (\<exists>written txt. FromMap env (ToPublicMap env new) (update_path current configPath) = Inr written
              \<and> ToYAML dump env written = Some txt \<and> fs' = fs(update_path current configPath := Some (with_newline txt))
              \<and> ur_config u = ToPublicMap env written
              \<and> (reads_back env (c_cleanup_after new) \<and> reads_back env (c_quarantine_retain new)
                   \<longrightarrow> written = new\<lparr>c_unknown_keys := [], c_config_path := update_path current configPath\<rparr>)))"
proof -
  let ?p = "update_path current configPath"
  show ?thesis
  proof (cases "FromMap env (update_raw env current patch full) ?p")
    case (Inl e)
    then show ?thesis using run by (auto simp: ApplyUpdate_def Let_def split: if_splits)
  next
    case (Inr new)
    obtain ch ho re where c: "ClassifyChanges env current new = (ch, ho, re)" by (metis prod_cases3)
    show ?thesis
    proof (cases "FromMap env (ToPublicMap env new) ?p")
      case (Inl e)
      then show ?thesis using run Inr c FromMap_types [OF Inr] by (auto simp: ApplyUpdate_def Let_def split: if_splits)
    next
      case w: (Inr written)
      obtain err fs1 where wr: "WriteFile wh dump env ?p written True fs = (err, fs1)" by fastforce
      note wrote = WriteFile_cases [OF tmp wr]
      have "reads_back env (c_cleanup_after new) \<and> reads_back env (c_quarantine_retain new) \<longrightarrow>
          written = new\<lparr>c_unknown_keys := [], c_config_path := ?p\<rparr>"
        using reload_typed [OF FromMap_types [OF Inr]] w by auto
      then show ?thesis
        using run Inr c w wr wrote FromMap_types [OF Inr]
        by (auto simp: ApplyUpdate_def Let_def split: if_splits option.splits)
    qed
  qed
qed

text \<open>C23. An update changes nothing unless it is valid and applied.  An update that is refused - both a
  patch and a full configuration, neither, no path, an invalid mapping, a failed write - leaves the
  configuration file as it was; so does a dry run.  An accepted update reports the comparison with
  the validated configuration, which is well typed, and an applied one leaves under the path the
  text of a configuration that is the validated one (for durations that are published exactly),
  and says so.\<close>

theorem ApplyUpdate_safe:
  assumes tmp: "\<And>tmp. wh_tmp wh = Some tmp \<Longrightarrow> tmp \<noteq> update_path current configPath \<and> fs tmp = None"
    and run: "ApplyUpdate env dump wh current patch full apply configPath fs = (r, fs')"
  shows "case r of
      Inl e \<Rightarrow> fs' (update_path current configPath) = fs (update_path current configPath)
    | Inr u \<Rightarrow> \<exists>new. FromMap env (update_raw env current patch full) (update_path current configPath) = Inr new
        \<and> well_typed env new \<and> (ur_changed u, ur_hot u, ur_restart u) = ClassifyChanges env current new
        \<and> ur_written u = apply \<and> (\<not> apply \<longrightarrow> fs' = fs)
        \<and> (apply \<longrightarrow> (\<exists>written txt. FromMap env (ToPublicMap env new) (update_path current configPath) = Inr written
              \<and> ToYAML dump env written = Some txt \<and> fs' = fs(update_path current configPath := Some (with_newline txt))
              \<and> ur_config u = ToPublicMap env written
              \<and> (reads_back env (c_cleanup_after new) \<and> reads_back env (c_quarantine_retain new)
                   \<longrightarrow> written = new\<lparr>c_unknown_keys := [], c_config_path := update_path current configPath\<rparr>)))"
  by (rule ApplyUpdate_run [OF assms])

subsection \<open>An example\<close>

definition sample_env :: load_env where
  "sample_env = \<lparr>le_regex_ok = (\<lambda>_. True), le_home = Some ''/root'', le_float = (\<lambda>_. ''''), le_shortest = (\<lambda>_. '''')\<rparr>"

definition sample_loaded :: full_config where
  "sample_loaded = (case FromMap sample_env [] ''/c'' of Inr c \<Rightarrow> c | Inl _ \<Rightarrow> zero_config)"

lemma sample_loads: "FromMap sample_env [] ''/c'' = Inr sample_loaded"
  and sample_durations: "c_cleanup_after sample_loaded = 86400" "c_quarantine_retain sample_loaded = 604800"
proof -
  have "case FromMap sample_env [] ''/c'' of Inl _ \<Rightarrow> False | Inr c \<Rightarrow> c_cleanup_after c = 86400 \<and> c_quarantine_retain c = 604800"
    by code_simp
  then show "FromMap sample_env [] ''/c'' = Inr sample_loaded"
    "c_cleanup_after sample_loaded = 86400" "c_quarantine_retain sample_loaded = 604800"
    by (auto simp: sample_loaded_def split: sum.splits)
qed

lemma sample_reads_back: "reads_back sample_env (c_cleanup_after sample_loaded)" "reads_back sample_env (c_quarantine_retain sample_loaded)"
  using whole_reads_back(1) [of sample_env 86400] whole_reads_back(1) [of sample_env 604800] by (simp_all add: sample_durations)



lemma sample_exact: "exact_public sample_env sample_loaded"
proof -
  have "list_all (\<lambda>e. exact_value (snd e)) (ToPublicMap sample_env sample_loaded)" by code_simp
  then show ?thesis by (auto simp: exact_public_def list_all_iff)
qed

theorem ClassifyChanges_complete_witness:
  "fst (ClassifyChanges sample_env sample_loaded sample_loaded) = []"
proof -
  obtain ch ho re where run: "ClassifyChanges sample_env sample_loaded sample_loaded = (ch, ho, re)" by (metis prod_cases3)
  have t: "well_typed sample_env sample_loaded" by (rule FromMap_types [OF sample_loads])
  show ?thesis
    using ClassifyChanges_complete [OF t t sample_exact sample_exact _ run] sample_reads_back run by simp
qed

definition sample_writer :: write_host where
  "sample_writer = \<lparr>wh_mkdir = True, wh_tmp = Some ''/.c.1.tmp'', wh_partial = Some ''ver'', wh_sync = True, wh_close = True,
     wh_rename = True, wh_remove = True\<rparr>"

theorem WriteFile_atomic_witness:
  "snd (WriteFile sample_writer (\<lambda>_. Some ''version: 1'') sample_env ''/c'' sample_loaded True [''/c'' \<mapsto> ''old''])
     = [''/c'' \<mapsto> ''old'']"
proof -
  obtain err fs' where run: "WriteFile sample_writer (\<lambda>_. Some ''version: 1'') sample_env ''/c'' sample_loaded True [''/c'' \<mapsto> ''old''] = (err, fs')"
    by fastforce
  then have "err \<noteq> None" by (auto simp: WriteFile_def sample_writer_def ToYAML_def Let_def)
  moreover have "wh_tmp sample_writer = Some ''/.c.1.tmp''" "wh_remove sample_writer" by (simp_all add: sample_writer_def)
  ultimately show ?thesis using WriteFile_atomic [OF _ run] by (simp add: run)
qed

theorem ApplyUpdate_safe_witness:
  "snd (ApplyUpdate sample_env (\<lambda>_. Some ''version: 1'') sample_writer sample_loaded (Some []) (Some []) True ''/c'' [''/c'' \<mapsto> ''old'']) ''/c''
     = Some ''old''"
proof -
  obtain r fs' where run: "ApplyUpdate sample_env (\<lambda>_. Some ''version: 1'') sample_writer sample_loaded (Some []) (Some []) True ''/c'' [''/c'' \<mapsto> ''old''] = (r, fs')"
    by fastforce
  have p: "update_path sample_loaded ''/c'' = ''/c''" by (simp add: update_path_def)
  have "r = Inl FullAndPatch" using run by (simp add: ApplyUpdate_def Let_def)
  moreover have "wh_tmp sample_writer = Some ''/.c.1.tmp''" by (simp add: sample_writer_def)
  ultimately show ?thesis using ApplyUpdate_safe [OF _ run] p by (simp add: run)
qed

end
