(* ===== verification/ServiceFacts.thy ===== *)
theory ServiceFacts
  imports Service ReconcileProps ScannerProps EngineProps HookProps CleanerProps ConfigUpdate
begin

text \<open>
  What one step of the service keeps.  Each component's operation, seen from the engine state that
  the service holds, is shown to keep the tables well formed; the passes and loops inherit it.
  The contract is the locale \<open>table_step\<close>, whose instances are the stages of a tick.
\<close>

subsection \<open>Steps that keep the tables\<close>

named_theorems tables "operations that keep the tables well formed"

locale table_step =
  fixes run :: "engine \<Rightarrow> engine"
  assumes keeps: "store_wf (en_store e) \<Longrightarrow> store_wf (en_store (run e))"
begin

lemma on_service: "store_wf (sv_store sv) \<Longrightarrow> store_wf (sv_store (with_eng (run (sv_eng sv)) sv))"
  by (simp add: with_eng_def keeps)

end

lemma table_fold:
  assumes "\<And>x e. x \<in> set xs \<Longrightarrow> store_wf (en_store e) \<Longrightarrow> store_wf (en_store (f x e))"
  shows "store_wf (en_store e) \<Longrightarrow> store_wf (en_store (fold f xs e))"
  using assms by (induction xs arbitrary: e) simp_all

lemma with_eng_sel [simp]:
  "sv_eng (with_eng e sv) = e" "sv_cfg (with_eng e sv) = sv_cfg sv" "sv_scanner (with_eng e sv) = sv_scanner sv"
  "sv_settings (with_eng e sv) = sv_settings sv" "sv_files (with_eng e sv) = sv_files sv"
  "sv_low_disk (with_eng e sv) = sv_low_disk sv" "sv_stop (with_eng e sv) = sv_stop sv"
  "sv_started (with_eng e sv) = sv_started sv" "sv_pid_held (with_eng e sv) = sv_pid_held sv"
  by (simp_all add: with_eng_def)

lemma with_store_sel [simp]: "sv_store (with_store s sv) = s" "sv_cfg (with_store s sv) = sv_cfg sv"
  "sv_settings (with_store s sv) = sv_settings sv"
  by (simp_all add: with_store_def)

subsection \<open>Engine\<close>

interpretation progress_live: table_step "ProgressLive h cfg" for h cfg
  by unfold_locales (auto simp: ProgressLive_def intro: table_fold progress.wf)

interpretation poll_convert: table_step "PollConvert h cfg" for h cfg
  by unfold_locales (auto simp: PollConvert_def intro: table_fold poll.wf)

lemma unmount_loop_keeps:
  assumes "I e" and "\<And>rec e. rec \<in> set recs \<Longrightarrow> unmountable (a_status rec) \<Longrightarrow> I e \<Longrightarrow> I (snd (Unmount h (a_archive_id rec) False e))"
  shows "I (snd (unmount_loop h recs e))"
  using assms
proof (induction recs arbitrary: e)
  case (Cons rec recs)
  obtain r e1 where b: "Unmount h (a_archive_id rec) False e = (r, e1)" by fastforce
  have "unmountable (a_status rec) \<Longrightarrow> I e1" using Cons.prems(2) [of rec e] Cons.prems(1) b by simp
  moreover have "I (snd (unmount_loop h recs e'))" if "I e'" for e' by (rule Cons.IH [OF that]) (simp add: Cons.prems(2))
  ultimately show ?case using Cons.prems(1) by (simp add: b case_prod_beta Let_def)
qed simp

interpretation unmounted: table_step "\<lambda>e. snd (unmount_loop h recs e)" for h recs
  by unfold_locales (rule unmount_loop_keeps, auto intro: unmounting.wf)

text \<open>What every BeginMount on a listed row keeps, the loops of startPendingWork keep.\<close>

lemma index_loop_keeps:
  assumes "I e" and "\<And>rec e. rec \<in> set recs \<Longrightarrow> I e \<Longrightarrow> I (snd (BeginMount h cfg rec (Some True) e))"
  shows "I (snd (index_loop h cfg steady recs c e))"
  using assms
proof (induction recs arbitrary: c e)
  case (Cons rec recs)
  obtain i m v where c: "c = (i, m, v)" by (metis prod_cases3)
  obtain r e1 where b: "BeginMount h cfg rec (Some True) e = (r, e1)" by fastforce
  have e1: "I e1" using Cons.prems(2) [of rec e] Cons.prems(1) b by simp
  have "I (snd (index_loop h cfg steady recs c' e'))" if "I e'" for c' e' by (rule Cons.IH [OF that]) (simp add: Cons.prems(2))
  then show ?case using e1 Cons.prems(1) by (simp add: c b split: sum.split option.split)
qed simp

lemma remount_loop_keeps:
  assumes "I e" and "\<And>rec e. rec \<in> set recs \<Longrightarrow> I e \<Longrightarrow> I (snd (BeginMount h cfg rec (Some False) e))"
  shows "I (snd (remount_loop h cfg recs c e))"
  using assms
proof (induction recs arbitrary: c e)
  case (Cons rec recs)
  obtain i m v where c: "c = (i, m, v)" by (metis prod_cases3)
  obtain r e1 where b: "BeginMount h cfg rec (Some False) e = (r, e1)" by fastforce
  have e1: "I e1" using Cons.prems(2) [of rec e] Cons.prems(1) b by simp
  have "I (snd (remount_loop h cfg recs c' e'))" if "I e'" for c' e' by (rule Cons.IH [OF that]) (simp add: Cons.prems(2))
  then show ?case using e1 Cons.prems(1) by (simp add: c b Let_def split: sum.split option.split)
qed simp

lemma retry_keeps:
  assumes "I e" and "\<And>rec e. rec \<in> set recs \<Longrightarrow> I e \<Longrightarrow> I (snd (BeginMount h cfg rec (Some (a_first_mounted_at rec = None)) e))"
  shows "I (fold (retry_stuck_one h cfg) recs e)"
  using assms by (induction recs arbitrary: e) (simp_all add: retry_stuck_one_def)

interpretation indexed: table_step "\<lambda>e. snd (index_loop h cfg steady recs c e)" for h cfg steady recs c
  by unfold_locales (rule index_loop_keeps, auto intro: begin_mount.wf)

interpretation remounted: table_step "\<lambda>e. snd (remount_loop h cfg recs c e)" for h cfg recs c
  by unfold_locales (rule remount_loop_keeps, auto intro: begin_mount.wf)

interpretation retried: table_step "retryStuckIndexWork h cfg" for h cfg
  by unfold_locales (auto simp: retryStuckIndexWork_def Let_def intro!: retry_keeps begin_mount.wf)

lemma startPendingWork_wf: "store_wf (sv_store sv) \<Longrightarrow> store_wf (sv_store (startPendingWork sh sv))"
  by (auto simp: startPendingWork_def Let_def case_prod_beta intro!: remounted.keeps indexed.keeps retried.keeps)

subsection \<open>Hooks\<close>

definition hooks_wf :: "hooks_state \<Rightarrow> hooks_state \<Rightarrow> bool" where
  "hooks_wf st st' \<longleftrightarrow> (store_wf (hs_store st) \<longrightarrow> store_wf (hs_store st'))"

lemma hooks_wf_bind: "hooks_wf st (snd (m st)) \<Longrightarrow> (\<And>x st1. m st = (Inr x, st1) \<Longrightarrow> hooks_wf st1 (snd (f x st1))) \<Longrightarrow>
    hooks_wf st (snd (bindE m f st))"
  by (cases "m st"; cases "fst (m st)") (auto simp: bindE_def hooks_wf_def)

lemma hooks_wf_refl [simp]: "hooks_wf st st" "hooks_wf st (snd (ret x st))"
  by (simp_all add: hooks_wf_def)

lemma hooks_wf_seed: "hooks_wf st (snd (hook_store_do (SeedHooks aid names s) st))"
  by (simp add: hooks_wf_def hook_store_do_sel snd_SeedHooks wf_seed_loop)

lemma hooks_wf_transition: "hooks_wf st (snd (hook_transition h aid to ex p st))"
  unfolding hook_transition_def
  by (rule hooks_wf_bind) (auto simp: hooks_wf_def hook_store_do_sel transition.wf ret_def throw_def split: option.split)

lemma hooks_wf_enter: "hooks_wf st (snd (enterHooksRunning h rec names st))"
  unfolding enterHooksRunning_def
  by (rule hooks_wf_bind) (auto intro!: hooks_wf_bind hooks_wf_seed hooks_wf_transition)

lemma hooks_wf_end: "hooks_wf st (snd (cycle_end h rec aid p results st))"
  unfolding cycle_end_def by (intro hooks_wf_bind hooks_wf_transition) simp

lemma hooks_wf_finish:
  "hooks_wf st (snd (finishSuccess h rec results st))" "hooks_wf st (snd (finishRetry h rec results st))"
  "hooks_wf st (snd (finishFailed h rec reason results st))"
proof -
  show "hooks_wf st (snd (finishSuccess h rec results st))" "hooks_wf st (snd (finishRetry h rec results st))"
    by (simp_all add: finishSuccess_def finishRetry_def Let_def hooks_wf_end)
  have "hooks_wf st st'" if "hook_transition h aid to ex p st = (x, st')" for aid to ex p x st'
    using hooks_wf_transition [of st h aid to ex p] that by simp
  then show "hooks_wf st (snd (finishFailed h rec reason results st))"
    using hooks_wf_end by (fastforce simp: finishFailed_def Let_def hooks_wf_def split: sum.split option.split prod.split)
qed

lemma hooks_wf_aggregate: "hooks_wf st (snd (aggregateAndFinish h rec results st))"
  by (simp add: aggregateAndFinish_def hooks_wf_finish split: hooks_status.split)

lemma hooks_wf_run: "hooks_wf st (snd (RunForArchive h cfg p sched aid force st))"
proof -
  have run: "hooks_wf st1 (snd (aggregateAndFinish h r rs st2))"
    if "runParallel h cfg sched r safe st1 = (rs, st2) \<or> runSequential h cfg r False safe st1 = (rs, st2)" for st1 st2 r safe rs
  proof -
    have "keeps_archives st1 st2"
      using that runParallel_keeps [of st1 h cfg sched r safe] runSequential_keeps [of st1 h cfg r False safe] by auto
    then show ?thesis using hooks_wf_aggregate [of st2 h r rs] by (auto simp: hooks_wf_def keeps_archives_def)
  qed
  show ?thesis
    unfolding RunForArchive_def
    by (auto intro!: hooks_wf_bind hooks_wf_enter hooks_wf_finish intro: run split: option.split sum.split prod.split)
qed

interpretation hooked: table_step "\<lambda>e. snd (run_hooks sh cfg aid force e)" for sh cfg aid force
proof
  fix e :: engine
  assume "store_wf (en_store e)"
  then show "store_wf (en_store (snd (run_hooks sh cfg aid force e)))"
    using hooks_wf_run [of "\<lparr>hs_store = en_store e, hs_world = en_world e\<rparr>" "sh_hooks sh" cfg "sh_policy sh" "sh_sched sh" aid force]
    by (simp add: run_hooks_def on_hooks_def Let_def case_prod_beta hooks_wf_def)
qed

interpretation hooks_ran: table_step "\<lambda>e. snd (hooks_loop sh cfg recs e)" for sh cfg recs
proof
  fix e :: engine
  assume "store_wf (en_store e)"
  then show "store_wf (en_store (snd (hooks_loop sh cfg recs e)))"
  proof (induction recs arbitrary: e)
    case (Cons rec recs)
    obtain r e1 where run: "run_hooks sh cfg (a_archive_id rec) False e = (r, e1)" by fastforce
    have "store_wf (en_store e1)" using hooked.keeps [OF Cons.prems, of sh cfg "a_archive_id rec" False] run by simp
    then show ?case using Cons by (simp add: run case_prod_beta Let_def split: sum.split)
  qed simp
qed

subsection \<open>Scan, reconcile, clean\<close>

lemma reconcile_one_wf:
  "store_wf (fst st) \<Longrightarrow> store_wf (fst (reconcileObservation cfg nowISO uuid obs st))"
proof -
  assume wf: "store_wf (fst st)"
  obtain s r where st: "st = (s, r)" by fastforce
  have "store_wf (snd (snd (reconcile_op cfg nowISO uuid obs s)))"
    using wf by (simp add: st reconcile_op_def Let_def wf_InsertDiscovered reappear.wf content_change.wf touch_seen.wf split: option.split)
  then show ?thesis
    by (cases "reconcile_op cfg nowISO uuid obs s") (auto simp: st reconcileObservation_def split: sum.split option.split)
qed

lemma reconcile_all_wf: "store_wf (fst st) \<Longrightarrow> store_wf (fst (reconcile_all cfg nowISO ids k os st))"
  by (induction os arbitrary: k st) (simp_all add: reconcile_one_wf)

lemma mark_missing_wf: "store_wf (fst st) \<Longrightarrow> store_wf (fst (mark_missing cwd cfg d nowISO seen rec st))"
proof -
  assume wf: "store_wf (fst st)"
  obtain s g r where st: "st = (s, g, r)" by (metis prod_cases3)
  show ?thesis
    using mark_absent.wf [of s nowISO "a_archive_id rec" nowISO None] wf
    by (auto simp: st mark_missing_def split: prod.split sum.split option.split)
qed

lemma Scan_wf:
  assumes "store_wf s" "Scan cwd cfg sha d now nowISO ids asm (sc, s) = (r, sc', s')"
  shows "store_wf s'"
proof -
  have all: "store_wf (fst (fold (mark_missing cwd cfg d nowISO seen) recs st))" if "store_wf (fst st)" for seen recs st
    using that by (induction recs arbitrary: st) (simp_all add: mark_missing_wf)
  obtain os g r0 where o: "observe_sources cwd cfg sha d sc now asm (sc_mapped sc) (sc_gate sc, empty_result asm) = (os, g, r0)"
    by (metis prod_cases3)
  define m where "m = reconcile_all cfg nowISO ids 0 os (s, r0\<lparr>sr_observations := os\<rparr>)"
  have m: "store_wf (fst m)" unfolding m_def by (rule reconcile_all_wf) (simp add: assms(1))
  have "s' = fst (fold (mark_missing cwd cfg d nowISO (map ob_path os)) (active_rows (fst m)) (fst m, ForgetMissing (map ob_path os) g, snd m))"
    using assms(2) by (simp add: Scan_def Let_def o m_def case_prod_beta)
  then show ?thesis using all m by simp
qed

lemma doScan_wf: "store_wf (sv_store sv) \<Longrightarrow> store_wf (sv_store (snd (doScan sh asm sv)))"
proof -
  assume wf: "store_wf (sv_store sv)"
  let ?s = "snd (ResetAllPresentAttempts (sh_utc sh) '''' (sv_store sv))"
  obtain r sc s' where scan: "Scan (sh_cwd sh) (sv_base sv) (h_sha (sh_engine sh)) (sh_disk sh (en_world (sv_eng sv))) (sh_now sh)
      (sh_utc sh) (sh_ids sh) asm (sv_scanner sv, ?s) = (r, sc, s')" by (metis prod_cases3)
  then show ?thesis using Scan_wf [OF wf_ResetAll [OF wf] scan] by (simp add: doScan_def with_store_def)
qed

lemma of_rstate_store [simp]: "en_store (of_rstate st) = fst st"
  by (simp add: of_rstate_def)

lemma doReconcile_wf: "store_wf (sv_store sv) \<Longrightarrow> store_wf (sv_store (snd (doReconcile sh sv)))"
  by (simp add: doReconcile_def case_prod_beta Let_def Reconcile_def applied.pass_wf to_rstate_def)

text \<open>A step of the cleaner.\<close>

definition clean_wf :: "cleaner_state \<Rightarrow> cleaner_state \<Rightarrow> bool" where
  "clean_wf st st' \<longleftrightarrow> (store_wf (en_store (cl_eng st)) \<longrightarrow> store_wf (en_store (cl_eng st')))"

lemma purge_one_wf: "clean_wf st (snd (Cleaner_PurgeArchive h cfg (Some (engine_unmounter eh)) aid b st))"
  using engine_um.purge_effect [where st = st and h = h and cfg = cfg and eh = eh and aid = aid and unmount = b] by (auto simp: clean_wf_def split: prod.splits)

lemma purge_all_wf: "clean_wf st (snd (purge_all h cfg (Some (engine_unmounter eh)) aids st))"
proof (induction aids arbitrary: st)
  case (Cons a aids)
  then show ?case using purge_one_wf [of st h cfg eh a True] by (simp add: case_prod_beta Let_def clean_wf_def)
qed (simp add: clean_wf_def)

lemma prune_store: "en_store (cl_eng (snd (PruneQuarantine h od retain cap st))) = en_store (cl_eng st)"
  "en_store (cl_eng (snd (CleanupStaleMountDirs h cfg live st))) = en_store (cl_eng st)"
  "en_store (cl_eng (snd (PruneNonsolidCache h dir age live st))) = en_store (cl_eng st)"
  "en_store (cl_eng (snd (Cleaner_PruneOrphanRatarmountTemps h st))) = en_store (cl_eng st)"
proof -
  have aged: "en_store (cl_eng (snd (prune_aged h dir age ns st))) = en_store (cl_eng st)" for dir age ns st
    by (induction ns arbitrary: st) (simp_all add: Let_def case_prod_beta)
  show "en_store (cl_eng (snd (PruneQuarantine h od retain cap st))) = en_store (cl_eng st)"
    by (simp add: PruneQuarantine_def Let_def case_prod_beta aged)
qed (simp_all add: CleanupStaleMountDirs_def PruneNonsolidCache_def Cleaner_PruneOrphanRatarmountTemps_def Let_def case_prod_beta)

lemma Cleaner_Run_wf: "clean_wf st (snd (Cleaner_Run h cfg (Some (engine_unmounter eh)) st))"
  using purge_all_wf [of st h cfg eh] by (simp add: Cleaner_Run_def PurgeAbsentPastGrace_def case_prod_beta Let_def clean_wf_def prune_store)

lemma doCleanup_wf: "store_wf (sv_store sv) \<Longrightarrow> store_wf (sv_store (snd (doCleanup sh sv)))"
  using Cleaner_Run_wf [of "sv_clean sv"] by (simp add: doCleanup_def case_prod_beta Let_def clean_wf_def)

end
