(* ===== verification/ServiceProps.thy ===== *)
theory ServiceProps
  imports ServiceFacts
begin

text \<open>
  The properties of the service as a whole: the invariant of its reachable states, what a start
  repairs, the limits and the low-disk rule of the work a tick starts, refused requests, an applied
  configuration, and what a shutdown leaves.
\<close>

subsection \<open>The invariant\<close>

text \<open>The tables are well formed, the configuration in force is well typed, and the reconciler works
  with its settings.\<close>

definition service_ok :: "load_env \<Rightarrow> service \<Rightarrow> bool" where
  "service_ok env sv \<longleftrightarrow> store_wf (sv_store sv) \<and> well_typed env (sv_cfg sv)
     \<and> set_mount_ready_timeout (sv_settings sv) = c_mount_ready_timeout (sv_cfg sv)
     \<and> set_max_attempts (sv_settings sv) = c_max_mount_attempts (sv_cfg sv)"

text \<open>Steps that leave configuration and settings alone.\<close>

definition same_cfg :: "service \<Rightarrow> service \<Rightarrow> bool" where
  "same_cfg sv sv' \<longleftrightarrow> sv_cfg sv' = sv_cfg sv \<and> sv_settings sv' = sv_settings sv
     \<and> (store_wf (sv_store sv) \<longrightarrow> store_wf (sv_store sv'))"

lemma same_cfg_ok: "same_cfg sv sv' \<Longrightarrow> service_ok env sv \<Longrightarrow> service_ok env sv'"
  by (simp add: same_cfg_def service_ok_def)

lemma same_cfg_trans: "same_cfg sv sv1 \<Longrightarrow> same_cfg sv1 sv2 \<Longrightarrow> same_cfg sv sv2"
  by (simp add: same_cfg_def)

lemma same_cfg_eng: "(store_wf (sv_store sv) \<Longrightarrow> store_wf (en_store e)) \<Longrightarrow> same_cfg sv (with_eng e sv)"
  by (simp add: same_cfg_def)

lemma same_cfg_refl [simp]: "same_cfg sv sv"
  by (simp add: same_cfg_def)

lemma flags_ok [simp]:
  "service_ok env (NotifyChange sv) = service_ok env sv" "service_ok env (Stop sv) = service_ok env sv"
  "service_ok env (RequestReload sv) = service_ok env sv" "service_ok env (RequestRescan b sv) = service_ok env sv"
  "service_ok env (releasePidfile sv) = service_ok env sv" "service_ok env (syncInotify sh sv) = service_ok env sv"
  by (simp_all add: service_ok_def NotifyChange_def Stop_def RequestReload_def RequestRescan_def releasePidfile_def syncInotify_def)

subsection \<open>Reload\<close>

lemma apply_ok: "store_wf (sv_store sv) \<Longrightarrow> well_typed env cfg \<Longrightarrow> service_ok env (applyReloadedConfig sh cfg sv)"
  by (simp add: applyReloadedConfig_def Let_def) (simp add: service_ok_def)

lemma config_Load_typed: "config_Load sh p fs = Inr cfg \<Longrightarrow> well_typed (sh_load_env sh) cfg \<and> c_config_path cfg = p"
  by (auto simp: config_Load_def intro: FromMap_types FromMap_path split: option.splits sum.splits)

lemma doReload_ok: "service_ok (sh_load_env sh) sv \<Longrightarrow> service_ok (sh_load_env sh) (doReload sh sv)"
  using config_Load_typed apply_ok [of sv]
  by (fastforce simp: doReload_def Let_def service_ok_def split: sum.split)

subsection \<open>Requests\<close>

lemma opRescan_ok: "service_ok env sv \<Longrightarrow> service_ok env (snd (opRescan sh req sv))"
proof -
  assume ok: "service_ok env sv"
  have "same_cfg sv (snd (doScan sh asm sv))" for asm
    using doScan_wf [of sv sh asm] by (simp add: same_cfg_def) (simp add: doScan_def case_prod_beta Let_def)
  then have "service_ok env (snd (doScan sh asm sv))" for asm using ok by (rule same_cfg_ok)
  then show ?thesis by (simp add: opRescan_def case_prod_beta Let_def) (simp add: service_ok_def)
qed

lemma opRetry_same: "same_cfg sv (snd (opRetry sh req sv))"
proof -
  have "same_cfg sv (with_store s sv)" if "ResetMountAttempts (sh_utc sh) aid True '''' (sv_store sv) = (x, s)" for x s aid
    using reset_attempts.wf [of "sv_store sv" "sh_utc sh" aid True "''''"] that by (simp add: same_cfg_def)
  then show ?thesis by (auto simp: opRetry_def Let_def bad_request_def not_found_def split: option.split prod.split sum.split)
qed

lemma opUnmount_same: "same_cfg sv (snd (opUnmount sh req sv))"
proof -
  have one: "same_cfg sv (with_eng en sv)" if "Unmount (sh_engine sh) aid False (sv_eng sv) = (x, en)" for x en aid
    using unmounting.wf [of "sv_eng sv" "sh_engine sh" aid False] that by (intro same_cfg_eng) simp
  have all: "same_cfg sv (with_eng en sv)" if "unmount_loop (sh_engine sh) recs (sv_eng sv) = (x, en)" for x en recs
    using unmounted.keeps [of "sv_eng sv" "sh_engine sh" recs] that by (intro same_cfg_eng) simp
  show ?thesis by (auto simp: opUnmount_def Let_def bad_request_def intro: one all split: option.split prod.split sum.split)
qed

lemma opPurge_same: "same_cfg sv (snd (opPurge sh req sv))"
proof -
  have "same_cfg sv (sv\<lparr>sv_clean := st\<rparr>)"
    if "Cleaner_PurgeArchive (sh_cleaner sh) cfg (Some (engine_unmounter (sh_engine sh))) aid True (sv_clean sv) = (x, st)" for x st aid cfg
    using purge_one_wf [of "sv_clean sv" "sh_cleaner sh" cfg "sh_engine sh" aid True] that by (simp add: same_cfg_def clean_wf_def)
  then show ?thesis by (auto simp: opPurge_def Let_def bad_request_def split: option.split prod.split)
qed

lemma opHooksRun_same: "same_cfg sv (snd (opHooksRun sh req sv))"
proof -
  have "same_cfg sv (with_eng en sv)" if "run_hooks sh cfg aid b (sv_eng sv) = (x, en)" for x en aid b cfg
    using hooked.keeps [of "sv_eng sv" sh cfg aid b] that by (intro same_cfg_eng) simp
  then show ?thesis by (auto simp: opHooksRun_def Let_def bad_request_def not_found_def split: option.split prod.split sum.split)
qed

lemma mount_row_same: "same_cfg sv (snd (mount_row sh p fi sv))"
proof -
  have "store_wf (sv_store sv) \<Longrightarrow> store_wf s" if "InsertDiscovered utc uuid ps (sv_store sv) = (x, s)" for x s utc uuid ps
    using wf_InsertDiscovered [of "sv_store sv" utc uuid ps] that by simp
  then show ?thesis by (auto simp: mount_row_def same_cfg_def split: option.split prod.split sum.split)
qed

lemma opMount_same: "same_cfg sv (snd (opMount sh req sv))"
proof -
  have row: "same_cfg sv sv1" if "mount_row sh p fi sv = (x, sv1)" for x sv1 p fi
    using mount_row_same [of sv sh p fi] that by simp
  have started: "same_cfg sv1 (with_eng en sv1)" if "BeginMount h cfg rec f (sv_eng sv1) = (x, en)" for x en h cfg rec f sv1
    using begin_mount.wf [of "sv_eng sv1" h cfg rec f] that by (intro same_cfg_eng) simp
  show ?thesis
    by (auto simp: opMount_def Let_def bad_request_def intro: row same_cfg_trans [OF row started]
        split: option.split prod.split sum.split)
qed

lemma opConfigSet_ok:
  assumes ok: "service_ok (sh_load_env sh) sv"
  shows "service_ok (sh_load_env sh) (snd (opConfigSet sh req sv))"
proof -
  have files: "service_ok (sh_load_env sh) (sv\<lparr>sv_files := fs\<rparr>)" for fs using ok by (simp add: service_ok_def)
  have again: "service_ok (sh_load_env sh) (doReload sh (sv\<lparr>sv_files := fs, sv_cfg := newCfg\<rparr>))"
    if "config_Load sh p fs = Inr newCfg" "p \<noteq> ''''" for fs newCfg p
    using config_Load_typed [OF that(1)] that ok
    by (simp add: doReload_def Let_def service_ok_def [of _ sv]) (rule apply_ok, simp_all)
  show ?thesis
    unfolding opConfigSet_def Let_def
    by (auto intro: files again doReload_ok split: option.split prod.split sum.split)
qed

lemma handleRequest_ok:
  assumes "service_ok (sh_load_env sh) sv"
  shows "service_ok (sh_load_env sh) (snd (handleRequest sh answer req sv))"
proof -
  note same = same_cfg_ok [OF _ assms]
  have "service_ok (sh_load_env sh) (snd (notify_ok rs))" if "service_ok (sh_load_env sh) (snd rs)" for rs
    using that by (simp add: notify_ok_def)
  note ok = this [OF opConfigSet_ok [OF assms]] this [OF same [OF opRetry_same]] this [OF same [OF opUnmount_same]]
    this [OF same [OF opPurge_same]] this [OF same [OF opHooksRun_same]] this [OF same [OF opMount_same]]
  show ?thesis using assms ok opRescan_ok [OF assms] by (simp add: handleRequest_def Let_def)
qed

subsection \<open>Tick, start, shutdown\<close>

lemma serve_ready_ok:
  "service_ok (sh_load_env sh) sv \<Longrightarrow> service_ok (sh_load_env sh) (snd (serve_ready sh answer reqs sv))"
  by (induction reqs arbitrary: sv) (simp_all add: case_prod_beta Let_def handleRequest_ok)

lemma tick_stage_same:
  "same_cfg sv (snd (doScan sh asm sv))" "same_cfg sv (snd (doReconcile sh sv))" "same_cfg sv (snd (doCleanup sh sv))"
  "same_cfg sv (startPendingWork sh sv)" "same_cfg sv (snd (runPendingHooks sh sv))"
proof -
  show "same_cfg sv (snd (doScan sh asm sv))"
    using doScan_wf [of sv sh asm] by (simp add: same_cfg_def) (simp add: doScan_def case_prod_beta Let_def)
  show "same_cfg sv (snd (doReconcile sh sv))"
    using doReconcile_wf [of sv sh] by (simp add: same_cfg_def) (simp add: doReconcile_def case_prod_beta Let_def)
  show "same_cfg sv (snd (doCleanup sh sv))"
    using doCleanup_wf [of sv sh] by (simp add: same_cfg_def) (simp add: doCleanup_def case_prod_beta Let_def)
  show "same_cfg sv (startPendingWork sh sv)"
    using startPendingWork_wf [of sv sh] by (simp add: same_cfg_def) (simp add: startPendingWork_def case_prod_beta Let_def)
  show "same_cfg sv (snd (runPendingHooks sh sv))"
    unfolding runPendingHooks_def case_prod_beta Let_def snd_conv by (rule same_cfg_eng) (rule hooks_ran.keeps)
qed

lemma tick_ok:
  assumes "service_ok (sh_load_env sh) sv"
  shows "service_ok (sh_load_env sh) (snd (tick_reload sh sv))" "service_ok (sh_load_env sh) (snd (tick_requests sh answer reqs sv))"
    "service_ok (sh_load_env sh) (tick_inotify b sv)" "service_ok (sh_load_env sh) (snd (tick_scan sh sv))"
    "service_ok (sh_load_env sh) (snd (tick_reconcile sh sv))" "service_ok (sh_load_env sh) (snd (tick_cleanup sh sv))"
    "service_ok (sh_load_env sh) (snd (tick_work sh sv))" "service_ok (sh_load_env sh) (when_dirty b sv)"
proof -
  let ?env = "sh_load_env sh"
  have upd: "service_ok ?env (s\<lparr>sv_last_reconcile := t\<rparr>) = service_ok ?env s" "service_ok ?env (s\<lparr>sv_last_cleanup := t\<rparr>) = service_ok ?env s"
    "service_ok ?env (s\<lparr>sv_last_scan := t, sv_scan_result := r\<rparr>) = service_ok ?env s"
    "service_ok ?env (s\<lparr>sv_rescan := a, sv_assume := b\<rparr>) = service_ok ?env s" "service_ok ?env (s\<lparr>sv_reload := a\<rparr>) = service_ok ?env s"
    for s t r a b by (simp_all add: service_ok_def)
  note stage = tick_stage_same [THEN same_cfg_ok]
  show "service_ok ?env (snd (tick_reload sh sv))" by (simp add: tick_reload_def doReload_ok upd assms)
  show "service_ok ?env (snd (tick_requests sh answer reqs sv))" by (simp add: tick_requests_def serve_ready_ok assms)
  show "service_ok ?env (tick_inotify b sv)" "service_ok ?env (when_dirty b sv)" by (simp_all add: tick_inotify_def when_dirty_def assms)
  show "service_ok ?env (snd (tick_scan sh sv))" by (simp add: tick_scan_def Let_def case_prod_beta upd stage assms)
  show "service_ok ?env (snd (tick_reconcile sh sv))" "service_ok ?env (snd (tick_cleanup sh sv))"
    by (simp_all add: tick_reconcile_def tick_cleanup_def upd stage assms)
  show "service_ok ?env (snd (tick_work sh sv))"
    unfolding tick_work_def Let_def case_prod_beta snd_conv
    by (intro stage same_cfg_ok [OF same_cfg_eng assms] poll_convert.keeps progress_live.keeps)
qed

lemma Tick_ok: "service_ok (sh_load_env sh) sv \<Longrightarrow> service_ok (sh_load_env sh) (snd (Tick sh answer reqs active sv))"
  by (simp add: Tick_def Let_def case_prod_beta tick_ok)

lemma cleanup_loop_wf: "store_wf (fst st) \<Longrightarrow> store_wf (fst (snd (cleanup_loop utc recs n st)))"
proof (induction utc recs n st rule: cleanup_loop.induct)
  case (2 utc rec recs n s w)
  then show ?case
    using transition.wf [of s utc "a_archive_id rec" "a_status rec" "Expect [a_status rec]" "no_fields\<lparr>p_index_path := Some None\<rparr>" "''''"]
    by (auto simp: Let_def split: prod.split sum.split)
qed simp

lemma boot_clean_same: "same_cfg sv (boot_clean sh sv)"
proof -
  obtain x s w where c: "CleanupPartialIndexes (sh_utc sh) (sv_store sv, en_world (sv_eng sv)) = (x, s, w)" by (metis prod_cases3)
  have "store_wf (sv_store sv) \<Longrightarrow> store_wf s"
    using cleanup_loop_wf [of "(sv_store sv, en_world (sv_eng sv))" "sh_utc sh" "all_archives (sv_store sv)" 0] c
    by (simp add: CleanupPartialIndexes_def)
  then show ?thesis by (simp add: boot_clean_def Let_def c same_cfg_def prune_store)
qed

text \<open>The tables after the boot pass: what Boot leaves, nothing else.\<close>

lemma boot_rows_store: "sv_store (boot_rows sh sv) =
    fst (snd (Boot (sh_utc sh) (sv_settings sv) (service_probes sh) service_callbacks (to_rstate (sv_eng sv))))"
  by (simp add: boot_rows_def Let_def prune_store ReconcileOrphanMounts_def case_prod_beta)

lemma boot_rows_sel [simp]: "sv_cfg (boot_rows sh sv) = sv_cfg sv" "sv_settings (boot_rows sh sv) = sv_settings sv"
  "sv_pid_held (boot_rows sh sv) = sv_pid_held sv" "sv_control (boot_rows sh sv) = sv_control sv"
  by (simp_all add: boot_rows_def Let_def with_eng_def)

lemma boot_rows_same: "same_cfg sv (boot_rows sh sv)"
  by (simp add: same_cfg_def boot_rows_store Boot_def applied.pass_wf to_rstate_def)

lemma started_ok [simp]: "service_ok env (sv\<lparr>sv_started := b\<rparr>) = service_ok env sv" "service_ok env (sv\<lparr>sv_control := b\<rparr>) = service_ok env sv"
  "service_ok env (sv\<lparr>sv_pid_held := b\<rparr>) = service_ok env sv" "service_ok env (sv\<lparr>sv_control := b, sv_watch := ws\<rparr>) = service_ok env sv"
  "service_ok env (sv\<lparr>sv_files := fs\<rparr>) = service_ok env sv"
  by (simp_all add: service_ok_def)

lemma Start_ok:
  assumes ok: "service_ok env sv"
  shows "service_ok env (snd (Start sh st sv))"
proof -
  have acq: "service_ok env sv1" if "Acquire st sv = (x, sv1)" for x sv1
    using that ok by (auto simp: Acquire_def split: if_splits)
  have eng: "service_ok env (with_eng (on_world f (sv_eng s)) s)" if "service_ok env s" for f s
    using that by (intro same_cfg_ok [OF same_cfg_eng]) simp_all
  have ctl: "service_ok env sv2" if "open_control st (boot_clean sh s) = (x, sv2)" "service_ok env s" for x sv2 s
    using that same_cfg_ok [OF boot_clean_same that(2), of sh] by (auto simp: open_control_def split: if_splits)
  have web: "service_ok env (snd (start_web st (boot_rows sh (syncInotify sh s))))" if "service_ok env s" for s
    using same_cfg_ok [OF boot_rows_same, of env "syncInotify sh s" sh] that by (simp add: start_web_def)
  show ?thesis
    unfolding Start_def
    by (auto simp: ok split: option.split prod.split intro: acq eng web [OF ctl [OF _ eng [OF acq]]] ctl [OF _ eng [OF acq]])
qed

lemma Shutdown_ok: "service_ok env sv \<Longrightarrow> service_ok env (Shutdown sh sv)"
  unfolding Shutdown_def Let_def started_ok flags_ok
  by (rule same_cfg_ok [OF same_cfg_eng]) (simp_all add: unmounted.keeps)

text \<open>
  The transitions of a running service, with what happens beside it: the operating system changes
  files, mounts and processes, a child ends, a conversion started earlier finishes, an
  administrator edits the configuration file, a signal arrives.  The environment that decides which
  patterns compile is the same throughout.
\<close>

inductive service_step :: "load_env \<Rightarrow> service \<Rightarrow> service \<Rightarrow> bool" for env where
  Ticked: "sh_load_env sh = env \<Longrightarrow> service_step env sv (snd (Tick sh answer reqs active sv))"
| Requested: "sh_load_env sh = env \<Longrightarrow> service_step env sv (snd (handleRequest sh answer req sv))"
| Started: "service_step env sv (snd (Start sh st sv))"
| Stopped: "service_step env sv (Shutdown sh sv)"
| Signalled: "service_step env sv (Stop sv)" 
| Hangup: "service_step env sv (RequestReload sv)"
| WorldChanged: "service_step env sv (with_eng (on_world f (sv_eng sv)) sv)"
| ChildEnded: "service_step env sv (with_eng ((sv_eng sv)\<lparr>en_exits := xs\<rparr>) sv)"
| Converted: "service_step env sv (with_eng (run_convert h cfg aid (sv_eng sv)) sv)"
| Edited: "service_step env sv (sv\<lparr>sv_files := fs\<rparr>)"

lemma service_step_ok: "service_step env sv sv' \<Longrightarrow> service_ok env sv \<Longrightarrow> service_ok env sv'"
proof (induction rule: service_step.induct)
  case (Converted sv h cfg aid)
  then show ?case
    using touches_wf [OF run_convert_touches, of "sv_eng sv" h cfg aid] by (intro same_cfg_ok [OF same_cfg_eng]) auto
qed (auto intro: Tick_ok handleRequest_ok Start_ok Shutdown_ok same_cfg_ok [OF same_cfg_eng])

text \<open>C24. In every state the service can reach - by ticks, control requests, start and shutdown, signals,
  finished conversions, edits of the configuration file and whatever the operating system does to
  files and processes - the state database is well formed (unique identifiers and paths, legal
  statuses and counters, hook rows that belong to an archive), the configuration in force is well
  typed, and the reconciler works with its timeout and attempt limit.\<close>

theorem service_invariant:
  assumes "(service_step env)\<^sup>*\<^sup>* sv0 sv" and "service_ok env sv0"
  shows "service_ok env sv"
  using assms by (induction rule: rtranclp_induct) (auto intro: service_step_ok)

subsection \<open>Starting\<close>

text \<open>What the cleanup of partial indexes leaves of a row.\<close>

definition same_life :: "archive \<Rightarrow> archive \<Rightarrow> bool" where
  "same_life r r' \<longleftrightarrow> a_archive_id r' = a_archive_id r \<and> a_status r' = a_status r
     \<and> a_hooks_status r' = a_hooks_status r \<and> a_mount_pid r' = a_mount_pid r"

lemma same_life_booted: "same_life r r1 \<Longrightarrow> booted r1 row \<Longrightarrow> booted r row"
  by (simp add: same_life_def booted_def)

lemma forget_index_life:
  assumes get: "GetArchive s k = Some r" and p: "p_hooks_status p = None" "p_mount_pid p = None"
  shows "\<exists>r'. GetArchive (snd (Transition utc aid st (Expect [st]) p '''' s)) k = Some r' \<and> same_life r r'"
proof (cases rule: Transition_cases [of s aid st "Expect [st]" p utc "''''"])
  case (ok rec)
  note id = GetArchive_id [OF ok(1)]
  have st: "a_status rec = st" using ok(2) by (auto simp: enabled_def check_expected_def split: if_splits)
  have "GetArchive (snd (Transition utc aid st (Expect [st]) p '''' s)) k =
      (if k = aid then Some (transition_row rec st (ts_of utc '''') p) else Some r)"
    using ok(1,3) get id by (auto simp: GetArchive_put_row)
  then show ?thesis using ok(1) get id st p by (auto simp: same_life_def patched_hooks_status_def)
next
  case (err e)
  then show ?thesis using get by (simp add: same_life_def)
qed

lemma no_hooks [simp]: "p_hooks_status no_fields = None"
  by (simp add: no_fields_def)

lemma cleanup_loop_life:
  "GetArchive (fst st) k = Some r \<Longrightarrow>
   \<exists>r'. GetArchive (fst (snd (cleanup_loop utc recs n st))) k = Some r' \<and> same_life r r'"
proof (induction utc recs n st arbitrary: r rule: cleanup_loop.induct)
  case (1 utc n st)
  then show ?case by (simp add: same_life_def)
next
  case (2 utc rec recs n s w)
  obtain r1 where r1: "GetArchive (snd (Transition utc (a_archive_id rec) (a_status rec) (Expect [a_status rec])
      (no_fields\<lparr>p_index_path := Some None\<rparr>) '''' s)) k = Some r1" "same_life r r1"
    using forget_index_life [of s k r "no_fields\<lparr>p_index_path := Some None\<rparr>" utc "a_archive_id rec" "a_status rec"] "2.prems"
    by (auto simp: no_hooks)
  have later: "\<exists>r'. P r' \<and> same_life r1 r' \<Longrightarrow> \<exists>r'. P r' \<and> same_life r r'" for P
    using r1(2) by (auto simp: same_life_def)
  show ?case
    using 2 r1 later by (auto simp: Let_def split: prod.split sum.split)
qed

lemma boot_clean_life:
  assumes "GetArchive (sv_store sv) k = Some r"
  shows "\<exists>r'. GetArchive (sv_store (boot_clean sh sv)) k = Some r' \<and> same_life r r'"
  using cleanup_loop_life [of "(sv_store sv, en_world (sv_eng sv))" k r "sh_utc sh" "all_archives (sv_store sv)" 0] assms
  by (simp add: boot_clean_def Let_def case_prod_beta prune_store CleanupPartialIndexes_def)

lemma boot_rows_booted:
  assumes "store_wf (sv_store sv)" "GetArchive (sv_store sv) k = Some r"
  shows "\<exists>row. GetArchive (sv_store (boot_rows sh sv)) k = Some row \<and> booted r row"
proof -
  have "r \<in> set (s_archives (sv_store sv))" "a_archive_id r = k" using assms(2) by (auto dest: GetArchive_mem GetArchive_id)
  then show ?thesis
    using Boot_clears [OF assms(1), of r "sh_utc sh" "sv_settings sv" "service_probes sh" service_callbacks "(sv_eng sv, en_world (sv_eng sv))"]
    by (auto simp: boot_rows_store to_rstate_def)
qed

lemma boot_clean_sel [simp]: "sv_pid_held (boot_clean sh sv) = sv_pid_held sv" "sv_started (boot_clean sh sv) = sv_started sv"
  "sv_control (boot_clean sh sv) = sv_control sv"
  by (simp_all add: boot_clean_def Let_def case_prod_beta with_eng_def)

text \<open>C25. A start that succeeds repairs what a crash left: the service holds the pid file lock (unless told
  to skip it), and every row is in discovered, index_failed, mount_failed or absent, no row that was
  not absent keeps a PID of the dead process, and what was mounted is queued for remount or absent.
  A start that fails - lock held, a directory that cannot be made, no socket, no HTTP listener -
  leaves the service stopped, without the lock and with the socket closed.\<close>

theorem Start_recovers:
  assumes wf: "store_wf (sv_store sv)" and fresh: "\<not> sv_started sv" "\<not> sv_pid_held sv" "\<not> sv_control sv"
    and run: "Start sh st sv = (err, sv')"
  shows "case err of
      Some e \<Rightarrow> \<not> sv_started sv' \<and> \<not> sv_pid_held sv' \<and> \<not> sv_control sv'
    | None \<Rightarrow> sv_started sv' \<and> (sv_pid_held sv' \<or> st_skip_pidfile st)
        \<and> (\<forall>k r. GetArchive (sv_store sv) k = Some r \<longrightarrow> (\<exists>row. GetArchive (sv_store sv') k = Some row \<and> booted r row))"
proof -
  obtain x sv1 where acq: "Acquire st sv = (x, sv1)" by fastforce
  have s1: "sv_store sv1 = sv_store sv" "\<not> sv_started sv1" "\<not> sv_control sv1" "x \<noteq> None \<Longrightarrow> \<not> sv_pid_held sv1"
      "x = None \<Longrightarrow> sv_pid_held sv1 \<or> st_skip_pidfile st"
    using acq fresh by (auto simp: Acquire_def split: if_splits)
  obtain d w where dirs: "EnsureServiceDirectories (sh_engine sh) (service_dirs (sv_cfg sv1)) (en_world (sv_eng sv1)) = (d, w)" by fastforce
  define sva where "sva = with_eng (on_world (\<lambda>_. w) (sv_eng sv1)) sv1"
  have sa: "sv_store sva = sv_store sv" "\<not> sv_started sva" "\<not> sv_control sva" "sv_pid_held sva = sv_pid_held sv1"
    using s1 by (simp_all add: sva_def) (simp add: with_eng_def)
  obtain y sv2 where ctl: "open_control st (boot_clean sh sva) = (y, sv2)" by fastforce
  have s2: "sv_store sv2 = sv_store (boot_clean sh sva)" "\<not> sv_started sv2" "y \<noteq> None \<Longrightarrow> \<not> sv_pid_held sv2 \<and> \<not> sv_control sv2"
      "y = None \<Longrightarrow> sv_pid_held sv2 = sv_pid_held sva"
    using ctl sa by (auto simp: open_control_def releasePidfile_def split: if_splits)
  define svb where "svb = syncInotify sh sv2"
  have sb: "sv_store svb = sv_store sv2" "sv_pid_held svb = sv_pid_held sv2" "\<not> sv_started svb" using s2 by (simp_all add: svb_def syncInotify_def)
  have wf2: "store_wf (sv_store svb)" using boot_clean_same [of sva sh] sa wf by (simp add: sb s2 same_cfg_def)
  have started: "sv_started (boot_rows sh svb) = sv_started svb" by (simp add: boot_rows_def Let_def)
  have rows: "\<exists>row. GetArchive (sv_store (boot_rows sh svb)) k = Some row \<and> booted r row"
    if r: "GetArchive (sv_store sv) k = Some r" for k r
  proof -
    have "GetArchive (sv_store sva) k = Some r" using r sa by simp
    then obtain r1 where r1: "GetArchive (sv_store svb) k = Some r1" "same_life r r1"
      using boot_clean_life [of sva k r sh] by (auto simp: sb s2)
    show ?thesis using boot_rows_booted [OF wf2 r1(1), of sh] same_life_booted [OF r1(2)] by blast
  qed
  have eq: "Start sh st sv = (case x of Some e \<Rightarrow> (Some e, sv1) | None \<Rightarrow>
      (case d of Some d' \<Rightarrow> (Some (ServiceDirs d'), releasePidfile sva)
       | None \<Rightarrow> (case y of Some e \<Rightarrow> (Some e, sv2) | None \<Rightarrow> start_web st (boot_rows sh svb))))"
    using fresh by (simp add: Start_def acq dirs ctl [unfolded sva_def] sva_def svb_def split: option.split)
  show ?thesis
    using run s1 s2 sa sb started rows unfolding eq
    by (auto simp: start_web_def releasePidfile_def split: option.splits if_splits)
qed

subsection \<open>Work started by a tick\<close>

lemma rows_with_mem:
  assumes "store_wf (en_store e)" "rec \<in> set (rows_with st e)"
  shows "GetArchive (en_store e) (a_archive_id rec) = Some rec \<and> a_status rec = st"
proof -
  have "rec \<in> set (s_archives (en_store e)) \<and> a_status rec = st"
    using assms(2) by (auto simp: rows_with_def split: if_splits)
  then show ?thesis using wf_GetArchive [OF assms(1)] by blast
qed

definition within_work :: "config \<Rightarrow> engine \<Rightarrow> engine \<Rightarrow> bool" where
  "within_work cfg e0 e \<longleftrightarrow> store_wf (en_store e) \<and> pids_backed e \<and> within_limits cfg e0 e
     \<and> (\<forall>k. GetArchive (en_store e) k = None \<longleftrightarrow> GetArchive (en_store e0) k = None)"

lemma within_work_begin:
  assumes "within_work cfg e0 e" "GetArchive (en_store e0) (a_archive_id rec) \<noteq> None"
  shows "within_work cfg e0 (snd (BeginMount h cfg rec first e))"
proof -
  let ?e = "snd (BeginMount h cfg rec first e)"
  have w: "within_limits cfg e ?e" using assms by (intro BeginMount_within) (auto simp: within_work_def)
  have "GetArchive (en_store ?e) k = None \<longleftrightarrow> GetArchive (en_store e) k = None" for k
    by (rule touches_known [OF begin_mount.on_one])
  then show ?thesis
    using assms(1) w begin_mount.wf [of e h cfg rec first]
    by (auto simp: within_work_def within_limits_def)
qed

lemma within_work_rows:
  assumes "within_work cfg e0 e" "rec \<in> set (rows_with st e)"
  shows "GetArchive (en_store e0) (a_archive_id rec) \<noteq> None"
proof -
  have "GetArchive (en_store e) (a_archive_id rec) \<noteq> None" using assms rows_with_mem [OF _ assms(2)] by (simp add: within_work_def)
  moreover have "GetArchive (en_store e) (a_archive_id rec) = None \<longleftrightarrow> GetArchive (en_store e0) (a_archive_id rec) = None"
    using assms(1) by (simp add: within_work_def)
  ultimately show ?thesis by simp
qed

lemma set_insert_stable [simp]: "set (insert_stable r rs) = insert r (set rs)"
  by (induction rs) auto

lemma set_SortArchives [simp]: "set (SortArchivesForIndex rs b) = set rs"
  by (induction rs) (auto simp: SortArchivesForIndex_def)

text \<open>Whatever BeginMount keeps on listed rows, the work of a tick keeps.\<close>

lemma startPendingWork_keeps:
  assumes start: "I (sv_eng sv)"
    and step: "\<And>st rec e1 e first. I e1 \<Longrightarrow> I e \<Longrightarrow> rec \<in> set (rows_with st e1) \<Longrightarrow> st \<noteq> StatusDiscovered \<or> \<not> sv_low_disk sv
      \<Longrightarrow> I (snd (BeginMount (sh_engine sh) (sv_base sv) rec first e))"
  shows "I (sv_eng (startPendingWork sh sv))"
proof -
  let ?h = "sh_engine sh" and ?cfg = "sv_base sv"
  have retry: "I (fold (retry_stuck_one ?h ?cfg) (rows_with st e) e)" if "I e" "st \<noteq> StatusDiscovered" for st e
    using that(2) by (intro retry_keeps [OF that(1) step [OF that(1)]]) blast+
  have e1: "I (retryStuckIndexWork ?h ?cfg (sv_eng sv))"
    unfolding retryStuckIndexWork_def Let_def by (intro retry start) simp_all
  have index: "I (snd (index_loop ?h ?cfg steady (SortArchivesForIndex (rows_with StatusDiscovered e) b) c e))"
    if "I e" "\<not> sv_low_disk sv" for steady b c e
    by (rule index_loop_keeps [OF that(1) step [OF that(1)]]) (use that(2) in simp_all)
  have remount: "I (snd (remount_loop ?h ?cfg (rows_with StatusMountFailed e) c e))" if "I e" for c e
  proof (rule remount_loop_keeps [where I = I])
    show "I e" by (rule that)
  next
    fix rec e2 assume "rec \<in> set (rows_with StatusMountFailed e)" "I e2"
    then show "I (snd (BeginMount ?h ?cfg rec (Some False) e2))" using step [OF that, of e2 rec StatusMountFailed] by simp
  qed
  have none: "sv_low_disk sv \<Longrightarrow> \<not> ActiveIndexCount (sv_eng sv) < 0" by (simp add: ActiveIndexCount_def)
  show ?thesis
    using e1 none by (auto simp: startPendingWork_def Let_def case_prod_beta intro!: remount intro: index)
qed


text \<open>On a full disk nothing new is indexed: while the low-disk flag is set, the work of a tick leaves every
  discovered archive exactly as it is, its row and its (absent) child. Retries and remounts of
  other archives still start.\<close>

theorem low_disk_holds_new:
  assumes "sv_low_disk sv" "store_wf (sv_store sv)" "GetArchive (sv_store sv) k = Some r" "a_status r = StatusDiscovered"
  shows "GetArchive (sv_store (startPendingWork sh sv)) k = Some r
    \<and> live_get k (sv_eng (startPendingWork sh sv)) = live_get k (sv_eng sv)"
proof -
  define I where "I e \<longleftrightarrow> store_wf (en_store e) \<and> GetArchive (en_store e) k = Some r \<and> live_get k e = live_get k (sv_eng sv)" for e
  have "I (sv_eng (startPendingWork sh sv))"
  proof (rule startPendingWork_keeps)
    fix st rec e1 e first
    assume I: "I e1" "I e" and rec: "rec \<in> set (rows_with st e1)" "st \<noteq> StatusDiscovered \<or> \<not> sv_low_disk sv"
    have "k \<noteq> a_archive_id rec" using rows_with_mem [OF _ rec(1)] I(1) rec(2) assms(1,4) by (auto simp: I_def)
    then show "I (snd (BeginMount (sh_engine sh) (sv_base sv) rec first e))"
      using I(2) begin_mount.other_rows begin_mount.other_children begin_mount.wf by (auto simp: I_def)
  qed (use assms in \<open>simp add: I_def\<close>)
  then show ?thesis by (simp add: I_def)
qed

subsection \<open>Requests that change nothing\<close>

definition refused :: "response \<Rightarrow> bool" where
  "refused r \<longleftrightarrow> (\<exists>why c. r = ErrResponse why c \<and> (c = ''BAD_REQUEST'' \<or> c = ''NOT_FOUND''))"

definition read_only_ops :: "string list" where
  "read_only_ops = [''status'', ''metrics'', ''config_get'', ''hooks_list'', ''hooks_status'']"

lemma refused_simps [simp]: "\<not> refused (OKResponse p)" "refused (ErrResponse why c) \<longleftrightarrow> c = ''BAD_REQUEST'' \<or> c = ''NOT_FOUND''"
  by (auto simp: refused_def)


lemma mount_row_codes: "mount_row sh p fi sv = (Inl r, sv1) \<Longrightarrow> \<not> refused r"
  by (auto simp: mount_row_def split: option.splits prod.splits sum.splits)

definition inert :: "service \<Rightarrow> response \<times> service \<Rightarrow> bool" where
  "inert sv rs \<longleftrightarrow> (refused (fst rs) \<longrightarrow> snd rs = sv)"

lemma inert_pair [simp]: "inert sv (r, sv') \<longleftrightarrow> (refused r \<longrightarrow> sv' = sv)"
  by (simp add: inert_def)

lemma inert_if: "inert sv x \<Longrightarrow> inert sv y \<Longrightarrow> inert sv (if c then x else y)"
  by simp

lemma inert_notify: "inert sv rs \<Longrightarrow> inert sv (notify_ok rs)"
  by (cases "fst rs") (simp_all add: notify_ok_def inert_def)

lemma ops_inert: "inert sv (opConfigSet sh req sv)" "inert sv (opRetry sh req sv)" "inert sv (opUnmount sh req sv)"
  "inert sv (opPurge sh req sv)" "inert sv (opHooksRun sh req sv)" "inert sv (opRescan sh req sv)"
  by (simp_all add: opConfigSet_def opRetry_def opUnmount_def opPurge_def opHooksRun_def opRescan_def Let_def
      split: prod.split sum.split option.split)

lemma opMount_inert: "inert sv (opMount sh req sv)"
proof -
  have row: "inert sv (case mount_row sh p fi sv of (Inl resp, sv1) \<Rightarrow> (resp, sv1) | (Inr rec, sv1) \<Rightarrow> f rec sv1)"
    if "\<And>rec sv1. inert sv (f rec sv1)" for p fi f
    using that mount_row_codes by (auto split: prod.split sum.split)
  show ?thesis
    unfolding opMount_def Let_def
    by (simp add: bad_request_def split: option.split if_split, intro allI impI row) (simp split: prod.split sum.split option.split)
qed

text \<open>C27. A control request that is refused (BAD_REQUEST or NOT_FOUND: an unknown operation, a missing
  argument, an unknown archive or file, a purge that is not confirmed, hooks for an archive that is not
  mounted) changes nothing at all, and neither do the requests that only read.\<close>

theorem refused_changes_nothing:
  assumes "handleRequest sh answer req sv = (r, sv')"
    and "refused r \<or> str_arg (map_of req ''op'') \<in> set read_only_ops"
  shows "sv' = sv"
proof -
  have "snd (handleRequest sh answer req sv) = sv" if op: "str_arg (map_of req ''op'') \<in> set read_only_ops"
  proof -
    consider "str_arg (map_of req ''op'') = ''status''" | "str_arg (map_of req ''op'') = ''metrics''"
      | "str_arg (map_of req ''op'') = ''config_get''" | "str_arg (map_of req ''op'') = ''hooks_list''"
      | "str_arg (map_of req ''op'') = ''hooks_status''" using op unfolding read_only_ops_def by auto
    then show ?thesis by cases (simp_all add: handleRequest_def)
  qed
  moreover have "inert sv (handleRequest sh answer req sv)"
    unfolding handleRequest_def Let_def
    by (intro inert_if inert_notify ops_inert opMount_inert) (simp_all add: bad_request_def)
  ultimately show ?thesis using assms by (auto simp: inert_def)
qed

subsection \<open>An applied configuration\<close>

text \<open>C28. A configuration set over the control plane is the one in force. For a YAML library that reads back
  what it wrote, a config_set that is answered OK either was a dry run and changed nothing, or wrote
  the file and reloaded it: for durations that are published exactly the configuration in force is
  then the validated one, with no unknown keys, and the reconciler works with its settings.\<close>

theorem config_set_in_force:
  fixes sh :: service_host
  assumes tmp: "\<And>t. wh_tmp (sh_write sh) = Some t \<Longrightarrow> t \<noteq> c_config_path (sv_cfg sv) \<and> sv_files sv t = None"
    and yaml: "\<And>cfg txt. ToYAML (sh_dump sh) (sh_load_env sh) cfg = Some txt \<Longrightarrow>
        sh_parse sh (with_newline txt) = Some (ToPublicMap (sh_load_env sh) cfg)"
    and run: "opConfigSet sh req sv = (OKResponse (PUpdate u reload sched), sv')"
  shows "\<exists>new. FromMap (sh_load_env sh) (update_raw (sh_load_env sh) (sv_cfg sv) (map_arg (map_of req ''patch'')) (map_arg (map_of req ''config'')))
        (c_config_path (sv_cfg sv)) = Inr new
    \<and> (if \<not> boolField req ''apply'' True then sv' = sv
       else reads_back (sh_load_env sh) (c_cleanup_after new) \<and> reads_back (sh_load_env sh) (c_quarantine_retain new) \<longrightarrow>
         reload = Some None \<and> sv_cfg sv' = new\<lparr>c_unknown_keys := [], c_config_path := c_config_path (sv_cfg sv)\<rparr>
         \<and> set_mount_ready_timeout (sv_settings sv') = c_mount_ready_timeout new
         \<and> set_max_attempts (sv_settings sv') = c_max_mount_attempts new)"
proof -
  let ?env = "sh_load_env sh" and ?path = "c_config_path (sv_cfg sv)" and ?apply = "boolField req ''apply'' True"
  let ?patch = "map_arg (map_of req ''patch'')" and ?full = "map_arg (map_of req ''config'')"
  have path: "update_path (sv_cfg sv) ?path = ?path" by (simp add: update_path_def)
  obtain x fs where upd: "ApplyUpdate ?env (sh_dump sh) (sh_write sh) (sv_cfg sv) ?patch ?full ?apply ?path (sv_files sv) = (x, fs)" by fastforce
  have x: "x = Inr u" using run upd by (auto simp: opConfigSet_def Let_def split: sum.splits if_splits)
  obtain new where new: "FromMap ?env (update_raw ?env (sv_cfg sv) ?patch ?full) ?path = Inr new" "well_typed ?env new"
      "ur_written u = ?apply" "\<not> ?apply \<Longrightarrow> fs = sv_files sv"
    and done1: "?apply \<Longrightarrow> \<exists>written txt. FromMap ?env (ToPublicMap ?env new) ?path = Inr written
        \<and> ToYAML (sh_dump sh) ?env written = Some txt \<and> fs = (sv_files sv)(?path := Some (with_newline txt))
        \<and> (reads_back ?env (c_cleanup_after new) \<and> reads_back ?env (c_quarantine_retain new)
             \<longrightarrow> written = new\<lparr>c_unknown_keys := [], c_config_path := ?path\<rparr>)"
    using ApplyUpdate_run [OF _ upd [unfolded x]] tmp by (simp add: path) blast
  note ran = run [unfolded opConfigSet_def Let_def upd x prod.case sum.case]
  show ?thesis
  proof (cases ?apply)
    case False
    then show ?thesis using ran new by auto
  next
    case True
    have nopath: "?path \<noteq> ''''"
    proof
      assume "?path = ''''"
      then show False using upd x True by (auto simp: ApplyUpdate_def update_path_def Let_def split: if_splits)
    qed
    obtain written body where w: "FromMap ?env (ToPublicMap ?env new) ?path = Inr written"
        "ToYAML (sh_dump sh) ?env written = Some body" "fs = (sv_files sv)(?path := Some (with_newline body))"
      and exact: "reads_back ?env (c_cleanup_after new) \<and> reads_back ?env (c_quarantine_retain new)
             \<longrightarrow> written = new\<lparr>c_unknown_keys := [], c_config_path := ?path\<rparr>"
      using done1 True by blast
    have "reload = Some None \<and> sv_cfg sv' = new\<lparr>c_unknown_keys := [], c_config_path := ?path\<rparr>
         \<and> set_mount_ready_timeout (sv_settings sv') = c_mount_ready_timeout new
         \<and> set_max_attempts (sv_settings sv') = c_max_mount_attempts new"
      if rb: "reads_back ?env (c_cleanup_after new)" "reads_back ?env (c_quarantine_retain new)"
    proof -
      note written = exact [rule_format, OF conjI, OF rb]
      let ?cfg = "new\<lparr>c_unknown_keys := [], c_config_path := ?path\<rparr>"
      have "FromMap ?env (ToPublicMap ?env ?cfg) ?path = Inr ?cfg"
        using reload_typed [OF FromMap_types [OF w(1)], of ?path] rb by (simp add: written)
      then have load: "config_Load sh ?path fs = Inr ?cfg"
        using yaml [OF w(2)] by (simp add: config_Load_def w(3) written)
      then show ?thesis
        using ran True new(3) nopath by (auto simp: doReload_def Let_def applyReloadedConfig_def syncInotify_def)
    qed
    then show ?thesis using new(1) True by auto
  qed
qed

subsection \<open>Shutdown\<close>

lemma unmount_loop_each:
  assumes "store_wf (en_store e)" "kdistinct a_archive_id recs" "\<forall>r \<in> set recs. GetArchive (en_store e) (a_archive_id r) = Some r"
  shows "\<forall>r \<in> set recs. if unmountable (a_status r)
      then (\<exists>r'. GetArchive (en_store (snd (unmount_loop h recs e))) (a_archive_id r) = Some r' \<and> a_status r' = StatusUnmounting \<and> a_mount_pid r' = None)
        \<and> live_get (a_archive_id r) (snd (unmount_loop h recs e)) = None
      else GetArchive (en_store (snd (unmount_loop h recs e))) (a_archive_id r) = Some r"
  using assms
proof (induction recs arbitrary: e)
  case (Cons rec recs)
  let ?k = "a_archive_id rec"
  define e1 where "e1 = (if unmountable (a_status rec) then snd (Unmount h ?k False e) else e)"
  have loop: "snd (unmount_loop h (rec # recs) e) = snd (unmount_loop h recs e1)" by (simp add: e1_def case_prod_beta Let_def)
  have t: "touches ?k e e1" using unmounting.on_one [of ?k e h False] by (simp add: e1_def)
  have apart: "\<forall>r \<in> set recs. a_archive_id r \<noteq> ?k" "kdistinct a_archive_id recs"
    using Cons.prems(2) by (simp_all add: kdistinct_def) (metis image_eqI)
  have wf1: "store_wf (en_store e1)" using touches_wf [OF t] Cons.prems(1) .
  have rest: "\<forall>r \<in> set recs. GetArchive (en_store e1) (a_archive_id r) = Some r"
    using t apart Cons.prems(3) by (auto simp: touches_def)
  have frame: "GetArchive (en_store (snd (unmount_loop h recs e1))) ?k = GetArchive (en_store e1) ?k
      \<and> live_get ?k (snd (unmount_loop h recs e1)) = live_get ?k e1"
    by (rule unmount_loop_keeps [where I = "\<lambda>x. GetArchive (en_store x) ?k = GetArchive (en_store e1) ?k \<and> live_get ?k x = live_get ?k e1"])
      (use apart unmounting.other_rows unmounting.other_children in \<open>fastforce\<close>)+
  have own: "if unmountable (a_status rec)
      then (\<exists>r'. GetArchive (en_store e1) ?k = Some r' \<and> a_status r' = StatusUnmounting \<and> a_mount_pid r' = None) \<and> live_get ?k e1 = None
      else GetArchive (en_store e1) ?k = Some rec"
  proof (cases "unmountable (a_status rec)")
    case True
    have rec: "GetArchive (en_store e) ?k = Some rec" using Cons.prems(3) by simp
    have "validate_transition (a_status rec) StatusUnmounting = None"
      using True by (auto simp: unmountable_def validate_transition_def)
    from Unmount_run [OF Cons.prems(1) rec _ this, of h] True obtain r' where
      r': "a_archive_id r' = ?k" "a_status r' = StatusUnmounting" "a_mount_pid r' = None"
      "e1 = dropLive ?k (on_world (\<lambda>w. snd (UnmountSequence h (map_option mm_pid (live_get ?k e)) 0
          (case live_get ?k e of Some m \<Rightarrow> mr_mount_path (mm_request m) | None \<Rightarrow> strPtr (a_mount_path rec)) w))
        (e\<lparr>en_store := put_row r' (en_store e)\<rparr>))"
      by (auto simp: e1_def unmountable_def)
    then have "GetArchive (en_store e1) ?k = Some r'" using rec by (simp add: GetArchive_put_row)
    moreover have "live_get ?k e1 = None" by (simp add: r'(4) live_get_drop)
    ultimately show ?thesis using True r' by simp
  next
    case False
    then show ?thesis using Cons.prems(3) by (simp add: e1_def)
  qed
  show ?case
    unfolding loop using Cons.IH [OF wf1 apart(2) rest] frame own by simp
qed simp


subsection \<open>An example\<close>

definition sample_cfg :: full_config where
  "sample_cfg = sample_loaded\<lparr>c_unknown_keys := [], c_config_path := ''/c''\<rparr>"

definition sample_doc :: "raw \<Rightarrow> string option" where
  "sample_doc m = (if m = ToPublicMap sample_env sample_cfg then Some ''y'' else None)"

definition sample_service_host :: service_host where
  "sample_service_host = \<lparr>sh_now = 1000, sh_engine = sample_host, sh_cleaner = sample_cleaner_host, sh_hooks = sample_hook_host,
     sh_policy = DefaultSecurityPolicy 0, sh_sched = [], sh_disk = (\<lambda>_. sample_disk), sh_ids = digits_of, sh_load_env = sample_env,
     sh_dump = sample_doc, sh_parse = (\<lambda>s. if s = with_newline ''y'' then Some (ToPublicMap sample_env sample_cfg) else None),
     sh_write = sample_writer\<lparr>wh_partial := None\<rparr>, sh_compile = (\<lambda>_. None), sh_dflt = '''', sh_wslpath = Some, sh_watch = (\<lambda>_. None),
     sh_uuid = ''u''\<rparr>"

definition sample_service :: "full_config \<Rightarrow> engine \<Rightarrow> service" where
  "sample_service cfg e = \<lparr>sv_cfg = cfg, sv_clean = \<lparr>cl_eng = e, cl_mtime = (\<lambda>_. 0)\<rparr>, sv_scanner = sample_scanner,
     sv_settings = \<lparr>set_mount_ready_timeout = c_mount_ready_timeout cfg, set_max_attempts = c_max_mount_attempts cfg, set_timeout_text = ''''\<rparr>,
     sv_files = Map.empty, sv_stop = False, sv_reload = False, sv_rescan = False, sv_assume = False, sv_last_scan = 0, sv_last_reconcile = 0,
     sv_last_cleanup = 0, sv_scan_result = None, sv_scan_iso = '''', sv_cleanup_result = None, sv_low_disk = True, sv_started = False,
     sv_changed = False, sv_pid_held = False, sv_control = False, sv_watch = None\<rparr>"

lemma sample_service_sel [simp]: "sv_store (sample_service cfg e) = en_store e" "sv_eng (sample_service cfg e) = e" "sv_cfg (sample_service cfg e) = cfg"
  "sv_files (sample_service cfg e) = Map.empty" "sv_low_disk (sample_service cfg e)" "\<not> sv_started (sample_service cfg e)"
  "\<not> sv_pid_held (sample_service cfg e)" "\<not> sv_control (sample_service cfg e)"
  by (simp_all add: sample_service_def)

lemma sample_cfg_typed: "well_typed sample_env sample_cfg" "FromMap sample_env (ToPublicMap sample_env sample_cfg) ''/c'' = Inr sample_cfg"
proof -
  have "FromMap sample_env (ToPublicMap sample_env sample_loaded) ''/c'' = Inr sample_cfg"
    using reload_typed [OF FromMap_types [OF sample_loads] sample_reads_back, of "''/c''"] by (simp add: sample_cfg_def)
  note t = FromMap_types [OF this]
  show "well_typed sample_env sample_cfg" by (rule t)
  show "FromMap sample_env (ToPublicMap sample_env sample_cfg) ''/c'' = Inr sample_cfg"
    using reload_typed [OF t, of "''/c''"] sample_reads_back by (simp add: sample_cfg_def)
qed

abbreviation sample_idle :: service where
  "sample_idle \<equiv> sample_service sample_cfg (sample_engine sample_row [] (one_file ''/in/a.tar''))"

lemma sample_idle_ok: "service_ok sample_env sample_idle"
  by (simp add: service_ok_def sample_cfg_typed sample_engine_wf) (simp add: sample_service_def)

theorem service_invariant_witness:
  "service_ok sample_env (snd (Tick sample_service_host (OKResponse PMetrics) [[(''op'', AStr ''reload'')]] True
     (snd (Start sample_service_host \<lparr>st_lock = True, st_socket = True, st_http = True, st_skip_pidfile = False, st_skip_control = False, st_skip_web = True\<rparr>
        sample_idle))))"
proof (rule service_invariant [OF _ sample_idle_ok])
  have "sh_load_env sample_service_host = sample_env" by (simp add: sample_service_host_def)
  note steps = service_step.Started [of sample_env sample_idle] service_step.Ticked [OF this]
  show "(service_step sample_env)\<^sup>*\<^sup>* sample_idle (snd (Tick sample_service_host (OKResponse PMetrics) [[(''op'', AStr ''reload'')]] True
     (snd (Start sample_service_host \<lparr>st_lock = True, st_socket = True, st_http = True, st_skip_pidfile = False, st_skip_control = False, st_skip_web = True\<rparr>
        sample_idle))))"
    by (rule rtranclp.rtrancl_into_rtrancl, rule r_into_rtranclp, rule steps(1), rule steps(2))
qed

theorem Start_recovers_witness:
  "\<not> sv_pid_held (snd (Start sample_service_host \<lparr>st_lock = False, st_socket = True, st_http = True, st_skip_pidfile = False, st_skip_control = False, st_skip_web = True\<rparr>
      sample_idle))"
proof -
  let ?st = "\<lparr>st_lock = False, st_socket = True, st_http = True, st_skip_pidfile = False, st_skip_control = False, st_skip_web = True\<rparr>"
  obtain err sv' where run: "Start sample_service_host ?st sample_idle = (err, sv')" by fastforce
  then have "err \<noteq> None" by (auto simp: Start_def Acquire_def)
  then show ?thesis using Start_recovers [OF _ _ _ _ run] by (auto simp: run sample_engine_wf)
qed

lemma sample_idle_backed: "pids_backed (sv_eng sample_idle)"
  by (auto simp: pids_backed_def sample_engine_def GetArchive_def split: if_splits)


theorem low_disk_holds_new_witness:
  "GetArchive (sv_store (startPendingWork sample_service_host sample_idle)) ''x'' = Some sample_row"
  using low_disk_holds_new [of sample_idle "''x''" sample_row sample_service_host]
  by (simp add: sample_engine_wf)

theorem refused_changes_nothing_witness:
  "snd (handleRequest sample_service_host (OKResponse PMetrics) [(''op'', AStr ''purge''), (''archive_id'', AStr ''x''), (''yes'', ABool False)] sample_idle)
     = sample_idle"
proof -
  let ?req = "[(''op'', AStr ''purge''), (''archive_id'', AStr ''x''), (''yes'', ABool False)]"
  obtain r sv' where run: "handleRequest sample_service_host (OKResponse PMetrics) ?req sample_idle = (r, sv')" by fastforce
  then have "refused r" by (auto simp: handleRequest_def opPurge_def notify_ok_def bad_request_def)
  then show ?thesis using refused_changes_nothing [OF run] by (simp add: run)
qed


theorem config_set_in_force_witness:
  "sv_cfg (snd (opConfigSet sample_service_host [(''config'', AMap (ToPublicMap sample_env sample_cfg))]
     (sample_service (sample_cfg\<lparr>c_max_mount_attempts := 7\<rparr>) (sample_engine sample_row [] (one_file ''/in/a.tar''))))) = sample_cfg"
proof -
  let ?req = "[(''config'', AMap (ToPublicMap sample_env sample_cfg))]"
  let ?sv = "sample_service (sample_cfg\<lparr>c_max_mount_attempts := 7\<rparr>) (sample_engine sample_row [] (one_file ''/in/a.tar''))"
  have path: "c_config_path sample_cfg = ''/c''" "c_unknown_keys sample_cfg = []" by (simp_all add: sample_cfg_def)
  have host: "sh_load_env sample_service_host = sample_env" "sh_dump sample_service_host = sample_doc"
    "wh_tmp (sh_write sample_service_host) = Some ''/.c.1.tmp''" by (simp_all add: sample_service_host_def sample_writer_def)
  have "hasKey (ToPublicMap sample_env sample_cfg) ''version''" by (simp add: ToPublicMap_def hasKey_def public_paths_def raw_get_def)
  then have raw: "update_raw sample_env (sample_cfg\<lparr>c_max_mount_attempts := 7\<rparr>) None (Some (ToPublicMap sample_env sample_cfg)) = ToPublicMap sample_env sample_cfg"
    by (simp add: update_raw_def)
  obtain u fs where upd: "ApplyUpdate sample_env sample_doc (sh_write sample_service_host) (sample_cfg\<lparr>c_max_mount_attempts := 7\<rparr>) None
      (Some (ToPublicMap sample_env sample_cfg)) True ''/c'' Map.empty = (Inr u, fs)"
  proof -
    let ?w = "sh_write sample_service_host"
    have w: "wh_mkdir ?w" "wh_tmp ?w = Some ''/.c.1.tmp''" "wh_partial ?w = None" "wh_sync ?w" "wh_close ?w" "wh_rename ?w"
      by (simp_all add: sample_service_host_def sample_writer_def)
    have yaml: "ToYAML sample_doc sample_env sample_cfg = Some ''y''" by (simp add: ToYAML_def sample_doc_def)
    obtain fs where wrote: "WriteFile ?w sample_doc sample_env ''/c'' sample_cfg True Map.empty = (None, fs)"
      by (simp add: WriteFile_def yaml w Let_def)
    have p: "update_path (sample_cfg\<lparr>c_max_mount_attempts := 7\<rparr>) ''/c'' = ''/c''" by (simp add: update_path_def)
    have "\<exists>u fs. ApplyUpdate sample_env sample_doc ?w (sample_cfg\<lparr>c_max_mount_attempts := 7\<rparr>) None
      (Some (ToPublicMap sample_env sample_cfg)) True ''/c'' Map.empty = (Inr u, fs)"
      unfolding ApplyUpdate_def Let_def p raw sample_cfg_typed(2) sum.case wrote case_prod_beta by simp
    then show ?thesis using that by blast
  qed
  obtain reload sched sv' where run: "opConfigSet sample_service_host ?req ?sv = (OKResponse (PUpdate u reload sched), sv')"
  proof -
    have args: "boolField ?req ''apply'' True" "map_arg (map_of ?req ''patch'') = None"
      "map_arg (map_of ?req ''config'') = Some (ToPublicMap sample_env sample_cfg)" by (simp_all add: boolField_def)
    have cfg: "sv_cfg ?sv = sample_cfg\<lparr>c_max_mount_attempts := 7\<rparr>" "c_config_path (sample_cfg\<lparr>c_max_mount_attempts := 7\<rparr>) = ''/c''"
      "sv_files ?sv = Map.empty" by (simp_all add: path)
    have "\<exists>reload sched. fst (opConfigSet sample_service_host ?req ?sv) = OKResponse (PUpdate u reload sched)"
      unfolding opConfigSet_def Let_def args(2,3) cfg host(1,2) eqTrueI [OF args(1)] upd prod.case sum.case
      by (cases "config_Load sample_service_host ''/c'' fs") simp_all
    then show ?thesis using that by (metis prod.collapse)
  qed
  have rb: "reads_back sample_env (c_cleanup_after sample_cfg)" "reads_back sample_env (c_quarantine_retain sample_cfg)"
    using sample_reads_back by (simp_all add: sample_cfg_def)
  have yaml: "sh_parse sample_service_host (with_newline body) = Some (ToPublicMap (sh_load_env sample_service_host) cfg)"
    if "ToYAML (sh_dump sample_service_host) (sh_load_env sample_service_host) cfg = Some body" for cfg body
    using that by (auto simp: ToYAML_def sample_doc_def sample_service_host_def split: if_splits)
  from config_set_in_force [OF _ yaml run] show ?thesis
    by (simp add: host path raw sample_cfg_typed rb boolField_def run)
qed

end
