(* ===== verification/Metrics.thy ===== *)
theory Metrics
  imports Cleaner Reconcile
begin

text \<open>
  The size metrics of src/internal/metrics: the analysis of a ratarmount index
  (index_analysis.go), the walk of a mount (extracted.go), sizes on disk (sizes.go), the memory of
  a child (process_mem.go), the metrics of one archive (compute.go, formulas.go), the cache with a
  time to live (cache.go) and the collector over it (collector.go), with the adapters of
  src/internal/service (metrics_source.go, convert_meta.go).  SQLite, the file system and /proc are
  the fields of \<open>metric_host\<close>.  Sums of int64 wrap.
\<close>

subsection \<open>Index analysis\<close>

record index_row =
  ir_path :: string
  ir_name :: string
  ir_size :: int
  ir_depth :: int
  ir_dir :: bool

record analysis =
  ia_naive :: "int option"
  ia_shallow :: "int option"
  ia_deep :: "int option"
  ia_complete :: bool
  ia_opaque :: int
  ia_opaque_bytes :: int
  ia_has_depth :: bool
  ia_err :: string

definition failed_analysis :: "string \<Rightarrow> analysis" where
  "failed_analysis msg =
    \<lparr>ia_naive = None, ia_shallow = None, ia_deep = None, ia_complete = False, ia_opaque = 0, ia_opaque_bytes = 0,
     ia_has_depth = False, ia_err = msg\<rparr>"

definition Primary :: "analysis \<Rightarrow> int option" where
  "Primary a =
    (if ia_err a \<noteq> '''' then None else if ia_complete a \<and> ia_deep a \<noteq> None then ia_deep a else ia_shallow a)"

definition NestingLabel :: "analysis \<Rightarrow> string" where
  "NestingLabel a =
    (if ia_err a \<noteq> '''' then '''' else if ia_complete a then ''deep''
     else if ia_deep a \<noteq> None \<and> ia_opaque a > 0 then ''deep_incomplete'' else ''shallow'')"

definition nestedArchiveSuffixes :: "string list" where
  "nestedArchiveSuffixes =
    [''.tar.gz'', ''.tgz'', ''.tar.bz2'', ''.tbz2'', ''.tbz'', ''.tar.xz'', ''.txz'', ''.tar.zst'',
     ''.tar.zstd'', ''.tzst'', ''.tar'', ''.zip'', ''.jar'', ''.7z'', ''.rar'', ''.cab'', ''.ar'', ''.a'',
     ''.cpio'', ''.sqlar'', ''.squashfs'', ''.asar'', ''.xar'', ''.warc'']"

definition LooksLikeNestedArchiveName :: "string \<Rightarrow> bool" where
  "LooksLikeNestedArchiveName nm =
    (let base = path_base (to_slashes nm) in
     if base = '''' \<or> base = ''.'' \<or> base = ''..'' then False
     else list_ex (has_suffix (to_lower base)) nestedArchiveSuffixes)"

text \<open>The full path of a row, in the style of ratarmount.\<close>

definition joinIndexPath :: "string \<Rightarrow> string \<Rightarrow> string" where
  "joinIndexPath p0 n0 =
    (let p = to_slashes p0; n = to_slashes n0 in
     if p = '''' \<or> p = ''/'' then (if n = '''' then '''' else if has_prefix n ''/'' then n else ''/'' @ n)
     else (let p1 = trim_suffix (if has_prefix p ''/'' then p else ''/'' @ p) ''/'' in
           if n = '''' then p1 else p1 @ ''/'' @ n))"

definition full_path :: "index_row \<Rightarrow> string" where
  "full_path r = joinIndexPath (ir_path r) (ir_name r)"

text \<open>
  A member is an expanded container when some row lies below it, by its full path or by the path
  its directory column holds.
\<close>

definition expanded_container :: "index_row list \<Rightarrow> string \<Rightarrow> bool" where
  "expanded_container rows fp \<longleftrightarrow>
    list_ex (\<lambda>r. full_path r \<noteq> fp \<and> has_prefix (full_path r) (fp @ ''/'')) rows
    \<or> list_ex (\<lambda>r. (ir_path r = fp \<or> has_prefix (ir_path r) (fp @ ''/'')) \<and> full_path r \<noteq> fp) rows"

definition sum64 :: "int list \<Rightarrow> int" where
  "sum64 xs = wrap64 (sum_list xs)"

definition analyzeIndexRows :: "index_row list \<Rightarrow> bool \<Rightarrow> analysis" where
  "analyzeIndexRows rows hasDepth =
    (let fs = filter (\<lambda>r. \<not> ir_dir r) rows;
         plain = filter (\<lambda>r. \<not> expanded_container rows (full_path r)) fs;
         opaque = filter (\<lambda>r. LooksLikeNestedArchiveName (ir_name r)) plain;
         leaves = filter (\<lambda>r. \<not> LooksLikeNestedArchiveName (ir_name r)) plain in
     \<lparr>ia_naive = Some (sum64 (map ir_size fs)),
      ia_shallow = Some (sum64 (map ir_size (filter (\<lambda>r. \<not> hasDepth \<or> ir_depth r = 0) fs))),
      ia_deep = Some (sum64 (map ir_size leaves)), ia_complete = (opaque = []),
      ia_opaque = int (length opaque), ia_opaque_bytes = sum64 (map ir_size opaque),
      ia_has_depth = hasDepth, ia_err = ''''\<rparr>)"

text \<open>
  The database: \<open>db_files\<close> says whether the table files exists, \<open>db_columns\<close> what PRAGMA
  table_info lists, \<open>db_rows\<close> what the query returns; each of the three can fail with a message.
  A column that is not there leaves the zero value.
\<close>

record db_row =
  dr_size :: int
  dr_path :: string
  dr_name :: string
  dr_mode :: "int option"
  dr_depth :: "int option"

record index_db =
  db_files :: "string + bool"
  db_columns :: "string + string list"
  db_rows :: "string + db_row list"

definition index_row_of :: "string list \<Rightarrow> db_row \<Rightarrow> index_row" where
  "index_row_of cols r =
    \<lparr>ir_path = (if ''path'' \<in> set cols then dr_path r else ''''),
     ir_name = (if ''name'' \<in> set cols then dr_name r else ''''),
     ir_size = dr_size r,
     ir_depth = (if ''recursiondepth'' \<in> set cols then (case dr_depth r of Some d \<Rightarrow> d | None \<Rightarrow> 0) else 0),
     ir_dir = (''mode'' \<in> set cols \<and> (case dr_mode r of Some m \<Rightarrow> (m div 16384) mod 2 = 1 | None \<Rightarrow> False))\<rparr>"

text \<open>\<open>opened\<close> is what sql.Open and the ping answer, with the read-only retry behind them.\<close>

definition AnalyzeIndexExtracted :: "world \<Rightarrow> (path \<Rightarrow> string + index_db) \<Rightarrow> path \<Rightarrow> analysis" where
  "AnalyzeIndexExtracted w opened p =
    (if p = '''' then failed_analysis ''no index_path''
     else if \<not> is_file w p then failed_analysis ''index file missing''
     else (case opened p of
        Inl e \<Rightarrow> failed_analysis (''cannot open index: '' @ e)
      | Inr db \<Rightarrow>
         (case db_files db of
            Inl e \<Rightarrow> failed_analysis (''index query failed: '' @ e)
          | Inr there \<Rightarrow>
             (if \<not> there then failed_analysis ''index has no files table''
              else (case db_columns db of
                 Inl e \<Rightarrow> failed_analysis (''index query failed: '' @ e)
               | Inr cols \<Rightarrow>
                  (if ''size'' \<notin> set cols then failed_analysis ''files table has no size column''
                   else (case db_rows db of
                      Inl e \<Rightarrow> failed_analysis (''index query failed: '' @ e)
                    | Inr rows \<Rightarrow> analyzeIndexRows (map (index_row_of cols) rows) (''recursiondepth'' \<in> set cols))))))))"

definition ExtractedSizeFromIndex :: "world \<Rightarrow> (path \<Rightarrow> string + index_db) \<Rightarrow> path \<Rightarrow> int option \<times> string" where
  "ExtractedSizeFromIndex w opened p =
    (let a = AnalyzeIndexExtracted w opened p in if ia_err a \<noteq> '''' then (None, ia_err a) else (Primary a, ''''))"

subsection \<open>Walk of a mount\<close>

text \<open>
  The callbacks of filepath.WalkDir in order: \<open>we_err\<close> an unreadable entry, \<open>we_late\<close> whether the
  timeout had passed, \<open>we_file\<close> the size of a regular file.
\<close>

record walk_entry =
  we_err :: bool
  we_late :: bool
  we_dir :: bool
  we_file :: "int option"

datatype walk_stop = MountTimeout | MountMaxFiles

fun mount_walk :: "int \<Rightarrow> walk_entry list \<Rightarrow> int \<Rightarrow> int \<Rightarrow> walk_stop + int" where
  "mount_walk maxFiles [] n acc = Inr acc"
| "mount_walk maxFiles (x # xs) n acc =
    (if we_err x then mount_walk maxFiles xs n acc
     else if we_late x then Inl MountTimeout
     else if we_dir x then mount_walk maxFiles xs n acc
     else (case we_file x of
        None \<Rightarrow> mount_walk maxFiles xs n acc
      | Some sz \<Rightarrow> if n + 1 > maxFiles then Inl MountMaxFiles else mount_walk maxFiles xs (n + 1) (wrap64 (acc + sz))))"

definition default_max_files :: int where
  "default_max_files = 500000"

definition extractedSizeFromMount :: "world \<Rightarrow> (path \<Rightarrow> walk_entry list) \<Rightarrow> int \<Rightarrow> path \<Rightarrow> int option \<times> string" where
  "extractedSizeFromMount w walked maxFiles p =
    (if p = '''' then (None, ''no mount_path'')
     else if \<not> is_dir w p then (None, ''mount path not a directory'')
     else (case mount_walk maxFiles (walked p) 0 0 of
        Inl MountTimeout \<Rightarrow> (None, ''mount walk timed out after 30s'')
      | Inl MountMaxFiles \<Rightarrow> (None, ''mount walk exceeded max_files='' @ itoa maxFiles)
      | Inr bytes \<Rightarrow> (Some bytes, '''')))"

subsection \<open>Sizes on disk and process memory\<close>

definition pathSizeBytes :: "world \<Rightarrow> path \<Rightarrow> int option" where
  "pathSizeBytes w p = (if p = '''' then None else file_size w p)"

definition index_files :: "path \<Rightarrow> path list" where
  "index_files p = [p, p @ ''.bak'', p @ ''-journal'', p @ ''-wal'', p @ ''-shm'']"

definition indexSizeBytes :: "world \<Rightarrow> path \<Rightarrow> int option" where
  "indexSizeBytes w p = (if p = '''' then None else Some (sum64 (List.map_filter (file_size w) (index_files p))))"

text \<open>strings.Fields, strings.Cut at a colon, and strconv.ParseInt of a 64-bit decimal.\<close>

fun str_fields :: "string \<Rightarrow> string \<Rightarrow> string list" where
  "str_fields [] w = (if w = [] then [] else [rev w])"
| "str_fields (c # cs) w =
    (if is_space c then (if w = [] then str_fields cs [] else rev w # str_fields cs []) else str_fields cs (c # w))"

definition cut_colon :: "string \<Rightarrow> (string \<times> string) option" where
  "cut_colon s =
    (if CHR '':'' \<in> set s then Some (takeWhile (\<lambda>c. c \<noteq> CHR '':'') s, drop 1 (dropWhile (\<lambda>c. c \<noteq> CHR '':'') s)) else None)"

definition parse_int64 :: "string \<Rightarrow> int option" where
  "parse_int64 s =
    (let neg = has_prefix s ''-''; ds = (if neg \<or> has_prefix s ''+'' then drop 1 s else s) in
     if ds = '''' \<or> \<not> list_all is_digit ds then None
     else (let n = (if neg then - int (digit_val ds) else int (digit_val ds)) in
           if - (2 ^ 63) \<le> n \<and> n < 2 ^ 63 then Some n else None))"

definition mem_line :: "string \<Rightarrow> (string \<times> int) option" where
  "mem_line line =
    (case cut_colon line of
       None \<Rightarrow> None
     | Some (key, rest) \<Rightarrow>
        (case str_fields rest [] of
           [] \<Rightarrow> None
         | v # _ \<Rightarrow> (case parse_int64 v of
              None \<Rightarrow> None
            | Some n \<Rightarrow> if n < 0 then None else Some (trim_space key, n))))"

text \<open>VmRSS and VmHWM of the last line that has them, -1 when there is none.\<close>

fun mem_lines :: "string list \<Rightarrow> int \<times> int \<Rightarrow> int \<times> int" where
  "mem_lines [] acc = acc"
| "mem_lines (l # ls) acc =
    mem_lines ls (case mem_line l of
       Some (key, n) \<Rightarrow> if key = ''VmRSS'' then (n, snd acc) else if key = ''VmHWM'' then (fst acc, n) else acc
     | None \<Rightarrow> acc)"

definition parseProcStatusMem :: "string \<Rightarrow> int \<times> int" where
  "parseProcStatusMem content = mem_lines (split_on CHR 0x0A content) (-1, -1)"

text \<open>On Linux; \<open>proc\<close> is the content of /proc/pid/status.\<close>

definition readProcessRSSBytes :: "(int \<Rightarrow> string option) \<Rightarrow> int \<Rightarrow> int option" where
  "readProcessRSSBytes proc pid =
    (if pid \<le> 0 then None
     else (case proc pid of
        None \<Rightarrow> None
      | Some txt \<Rightarrow> (let kb = fst (parseProcStatusMem txt) in if kb < 0 then None else Some (wrap64 (kb * 1024)))))"

definition readProcessRSSPeakBytes :: "(int \<Rightarrow> string option) \<Rightarrow> int \<Rightarrow> int option" where
  "readProcessRSSPeakBytes proc pid =
    (if pid \<le> 0 then None
     else (case proc pid of
        None \<Rightarrow> None
      | Some txt \<Rightarrow> (let kb = snd (parseProcStatusMem txt) in if kb < 0 then None else Some (wrap64 (kb * 1024)))))"

subsection \<open>Formulas\<close>

definition ComputeSpaceSaved :: "int option \<Rightarrow> int option \<Rightarrow> int option \<Rightarrow> int option \<times> int option" where
  "ComputeSpaceSaved extracted index archive =
    ((case (extracted, index) of
        (Some e, Some i) \<Rightarrow> (let v = wrap64 (e - i) in Some (if v < 0 then 0 else v))
      | _ \<Rightarrow> None),
     (case (extracted, archive, index) of
        (Some e, Some a, Some i) \<Rightarrow> (let v = wrap64 (wrap64 (e - a) - i) in Some (if v < 0 then 0 else v))
      | _ \<Rightarrow> None))"

definition ConvertSizeDeltaBytes :: "int option \<Rightarrow> int option \<Rightarrow> int option" where
  "ConvertSizeDeltaBytes archiveSize convertSource =
    (case (archiveSize, convertSource) of (Some a, Some c) \<Rightarrow> Some (wrap64 (a - c)) | _ \<Rightarrow> None)"

definition ResolveConvertFields ::
  "int option \<Rightarrow> int option \<Rightarrow> rat option \<Rightarrow> metadata option \<Rightarrow> int option \<times> int option \<times> rat option" where
  "ResolveConvertFields archiveSize src dur meta =
    (if src = None \<or> dur = None
     then (case meta of
        None \<Rightarrow> (src, None, dur)
      | Some m \<Rightarrow>
          (if src = None then Some (cm_original m) else src, if src = None then Some (cm_delta m) else None,
           if dur = None then cm_duration m else dur))
     else (src, if archiveSize = None then None else ConvertSizeDeltaBytes archiveSize src, dur))"

subsection \<open>One archive\<close>

record archive_input =
  ai_id :: string
  ai_path :: path
  ai_basename :: string
  ai_status :: string
  ai_mount_path :: path
  ai_index_path :: path
  ai_mount_pid :: int
  ai_convert_source :: "int option"
  ai_convert_duration :: "rat option"

record archive_metrics =
  am_id :: string
  am_path :: path
  am_basename :: string
  am_status :: string
  am_mount_path :: path
  am_archive_size :: "int option"
  am_index_size :: "int option"
  am_extracted :: "int option"
  am_shallow :: "int option"
  am_deep :: "int option"
  am_saved :: "int option"
  am_saved_vs_archive :: "int option"
  am_convert_source :: "int option"
  am_convert_delta :: "int option"
  am_convert_duration :: "rat option"
  am_index_path :: path
  am_index_present :: bool
  am_source :: string
  am_nesting :: string
  am_deep_complete :: "bool option"
  am_opaque :: int
  am_opaque_bytes :: int
  am_rss :: "int option"
  am_rss_peak :: "int option"
  am_pid :: int
  am_error :: string

text \<open>
  The providers ComputeArchiveMetrics takes.  \<open>pv_analyze\<close> is None for a provider that is not an
  IndexAnalyzer; \<open>pv_stat\<close> answers os.Stat of a mount path (None: it failed; otherwise whether it is
  a directory) and \<open>pv_is_mount\<close> isMountPoint.
\<close>

record providers =
  pv_file_size :: "path \<Rightarrow> int option"
  pv_index_size :: "path \<Rightarrow> int option"
  pv_index_present :: "path \<Rightarrow> bool"
  pv_analyze :: "(path \<Rightarrow> analysis) option"
  pv_from_index :: "path \<Rightarrow> int option \<times> string"
  pv_from_mount :: "path \<Rightarrow> int option \<times> string"
  pv_meta :: "path \<Rightarrow> metadata option"
  pv_rss :: "int \<Rightarrow> int option"
  pv_rss_peak :: "int \<Rightarrow> int option"
  pv_stat :: "path \<Rightarrow> bool option"
  pv_is_mount :: "path \<Rightarrow> bool"

definition statusLikelyMounted :: "string \<Rightarrow> bool" where
  "statusLikelyMounted st \<longleftrightarrow> st = ''mounted'' \<or> st = ''hooks_running''"

definition shouldWalkMount :: "providers \<Rightarrow> path \<Rightarrow> bool \<Rightarrow> bool \<Rightarrow> bool" where
  "shouldWalkMount pv p preferMount promoteIncomplete =
    (if p = '''' then False
     else (case pv_stat pv p of
        None \<Rightarrow> preferMount \<or> promoteIncomplete
      | Some dir \<Rightarrow> if \<not> dir then False else if preferMount \<or> promoteIncomplete then True else pv_is_mount pv p))"

text \<open>What is known of the extracted size while the sources are tried one after the other.\<close>

record extraction =
  ex_size :: "int option"
  ex_shallow :: "int option"
  ex_deep :: "int option"
  ex_source :: string
  ex_nesting :: string
  ex_complete :: "bool option"
  ex_opaque :: int
  ex_opaque_bytes :: int
  ex_err :: string

definition no_extraction :: extraction where
  "no_extraction =
    \<lparr>ex_size = None, ex_shallow = None, ex_deep = None, ex_source = '''', ex_nesting = '''', ex_complete = None,
     ex_opaque = 0, ex_opaque_bytes = 0, ex_err = ''''\<rparr>"

definition scalar_analysis :: "int \<Rightarrow> analysis" where
  "scalar_analysis sz =
    \<lparr>ia_naive = Some sz, ia_shallow = Some sz, ia_deep = Some sz, ia_complete = True, ia_opaque = 0,
     ia_opaque_bytes = 0, ia_has_depth = False, ia_err = ''''\<rparr>"

definition index_analysis :: "providers \<Rightarrow> path \<Rightarrow> bool \<Rightarrow> analysis option \<times> string" where
  "index_analysis pv p present =
    (if \<not> present then (None, '''')
     else (case pv_analyze pv of
        Some f \<Rightarrow> (let a = f p in if ia_err a \<noteq> '''' then (None, ia_err a) else (Some a, ''''))
      | None \<Rightarrow> (case pv_from_index pv p of (Some sz, _) \<Rightarrow> (Some (scalar_analysis sz), '''') | (None, e) \<Rightarrow> (None, e))))"

definition start_extraction :: "analysis option \<times> string \<Rightarrow> extraction" where
  "start_extraction ae =
    (case ae of
       (None, e) \<Rightarrow> no_extraction\<lparr>ex_err := e\<rparr>
     | (Some a, e) \<Rightarrow> no_extraction\<lparr>ex_shallow := ia_shallow a, ex_deep := ia_deep a, ex_complete := Some (ia_complete a),
         ex_opaque := ia_opaque a, ex_opaque_bytes := ia_opaque_bytes a, ex_err := e\<rparr>)"

definition add_err :: "string \<Rightarrow> extraction \<Rightarrow> extraction" where
  "add_err e x = (if ex_err x = '''' then x\<lparr>ex_err := e\<rparr> else x)"

definition take_index :: "int option \<Rightarrow> string \<Rightarrow> extraction \<Rightarrow> extraction" where
  "take_index sz nesting x = x\<lparr>ex_size := sz, ex_source := ''index'', ex_nesting := nesting, ex_err := ''''\<rparr>"

definition try_mount :: "providers \<Rightarrow> path \<Rightarrow> bool \<Rightarrow> bool \<Rightarrow> bool \<Rightarrow> extraction \<Rightarrow> extraction" where
  "try_mount pv p walks prefer promote x =
    (if walks \<and> p \<noteq> '''' \<and> shouldWalkMount pv p prefer promote
     then (case pv_from_mount pv p of
        (Some sz, _) \<Rightarrow> x\<lparr>ex_size := Some sz, ex_source := ''mount'', ex_nesting := ''mount'', ex_complete := Some True, ex_err := ''''\<rparr>
      | (None, e) \<Rightarrow> add_err e x)
     else x)"

text \<open>The default path: the index when it is complete, a live mount before the shallow size.\<close>

definition try_analysis :: "providers \<Rightarrow> path \<Rightarrow> bool \<Rightarrow> bool \<Rightarrow> analysis \<Rightarrow> extraction \<Rightarrow> extraction" where
  "try_analysis pv p walks promote a x =
    (if ia_complete a then take_index (ia_deep a) ''deep'' x
     else (let x1 = try_mount pv p walks False promote x in
           if ex_size x1 = None then take_index (ia_shallow a) (NestingLabel a) x1 else x1))"

definition try_scalar_index :: "providers \<Rightarrow> path \<Rightarrow> extraction \<Rightarrow> extraction" where
  "try_scalar_index pv p x =
    (case pv_from_index pv p of
       (Some sz, _) \<Rightarrow> (take_index (Some sz) ''deep'' x)\<lparr>ex_complete := Some True, ex_shallow := Some sz, ex_deep := Some sz\<rparr>
     | (None, e) \<Rightarrow> add_err e x)"

definition fallback_index :: "analysis \<Rightarrow> extraction \<Rightarrow> extraction" where
  "fallback_index a x =
    (if Primary a = None then x else take_index (Primary a) (NestingLabel a) x)"

definition fallback_scalar :: "providers \<Rightarrow> path \<Rightarrow> extraction \<Rightarrow> extraction" where
  "fallback_scalar pv p x =
    (case pv_from_index pv p of (Some sz, _) \<Rightarrow> take_index (Some sz) ''deep'' x | (None, e) \<Rightarrow> add_err e x)"

definition if_unknown :: "(extraction \<Rightarrow> extraction) \<Rightarrow> extraction \<Rightarrow> extraction" where
  "if_unknown f x = (if ex_size x = None then f x else x)"

definition extract_size :: "providers \<Rightarrow> archive_input \<Rightarrow> bool \<Rightarrow> bool \<Rightarrow> extraction" where
  "extract_size pv ai prefer walks =
    (let present = (ai_index_path ai \<noteq> '''' \<and> pv_index_present pv (ai_index_path ai));
         (ma, e) = index_analysis pv (ai_index_path ai) present;
         promote = ((case ma of Some a \<Rightarrow> \<not> ia_complete a | None \<Rightarrow> False) \<and> statusLikelyMounted (ai_status ai));
         x0 = start_extraction (ma, e);
         x1 = (if prefer then try_mount pv (ai_mount_path ai) walks True False x0 else x0);
         x2 = (if \<not> prefer then
                 (case ma of
                    Some a \<Rightarrow> if_unknown (try_analysis pv (ai_mount_path ai) walks promote a) x1
                  | None \<Rightarrow> if present then if_unknown (try_scalar_index pv (ai_index_path ai)) x1 else x1)
               else x1);
         x3 = if_unknown (try_mount pv (ai_mount_path ai) walks prefer promote) x2 in
     if prefer then
       (case ma of
          Some a \<Rightarrow> if_unknown (fallback_index a) x3
        | None \<Rightarrow> if present then if_unknown (fallback_scalar pv (ai_index_path ai)) x3 else x3)
     else x3)"

definition ComputeArchiveMetrics :: "providers \<Rightarrow> archive_input \<Rightarrow> bool \<Rightarrow> bool option \<Rightarrow> archive_metrics" where
  "ComputeArchiveMetrics pv ai prefer mountWalk =
    (let archSize = pv_file_size pv (ai_path ai);
         idxSize = pv_index_size pv (ai_index_path ai);
         present = (ai_index_path ai \<noteq> '''' \<and> pv_index_present pv (ai_index_path ai));
         x = extract_size pv ai prefer (case mountWalk of None \<Rightarrow> True | Some b \<Rightarrow> b);
         indexForSaved = (if idxSize = None \<and> present then Some 0 else idxSize);
         (saved, savedVs) = ComputeSpaceSaved (ex_size x) indexForSaved archSize;
         meta = (if ai_convert_source ai = None \<or> ai_convert_duration ai = None then pv_meta pv (ai_path ai) else None);
         (src, delta, dur) = ResolveConvertFields archSize (ai_convert_source ai) (ai_convert_duration ai) meta in
     \<lparr>am_id = ai_id ai, am_path = ai_path ai, am_basename = ai_basename ai, am_status = ai_status ai,
      am_mount_path = ai_mount_path ai, am_archive_size = archSize,
      am_index_size = (if ai_index_path ai \<noteq> '''' \<and> idxSize = None then Some 0 else idxSize),
      am_extracted = ex_size x, am_shallow = ex_shallow x, am_deep = ex_deep x,
      am_saved = saved, am_saved_vs_archive = savedVs,
      am_convert_source = src, am_convert_delta = delta, am_convert_duration = dur,
      am_index_path = ai_index_path ai, am_index_present = present,
      am_source = ex_source x, am_nesting = ex_nesting x, am_deep_complete = ex_complete x,
      am_opaque = ex_opaque x, am_opaque_bytes = ex_opaque_bytes x,
      am_rss = (if ai_mount_pid ai > 0 then pv_rss pv (ai_mount_pid ai) else None),
      am_rss_peak = (if ai_mount_pid ai > 0 then pv_rss_peak pv (ai_mount_pid ai) else None),
      am_pid = ai_mount_pid ai, am_error = ex_err x\<rparr>)"

subsection \<open>Summary\<close>

record summary =
  su_count :: int
  su_with_extracted :: int
  su_with_convert :: int
  su_with_rss :: int
  su_archive :: int
  su_index :: int
  su_extracted :: int
  su_saved :: int
  su_rss :: int
  su_rss_peak :: int
  su_convert_source :: "int option"
  su_convert_delta :: "int option"
  su_with_duration :: "int option"
  su_max_duration :: "rat option"

definition known :: "(archive_metrics \<Rightarrow> 'a option) \<Rightarrow> archive_metrics list \<Rightarrow> 'a list" where
  "known f ms = List.map_filter f ms"

definition or_none :: "'a::zero \<Rightarrow> 'a option" where
  "or_none x = (if x = 0 then None else Some x)"

definition Summarize :: "archive_metrics list \<Rightarrow> summary" where
  "Summarize ms =
    \<lparr>su_count = int (length ms), su_with_extracted = int (length (known am_extracted ms)),
     su_with_convert = int (length (known am_convert_source ms)), su_with_rss = int (length (known am_rss ms)),
     su_archive = sum64 (known am_archive_size ms), su_index = sum64 (known am_index_size ms),
     su_extracted = sum64 (known am_extracted ms), su_saved = sum64 (known am_saved ms),
     su_rss = sum64 (known am_rss ms), su_rss_peak = sum64 (known am_rss_peak ms),
     su_convert_source = or_none (sum64 (known am_convert_source ms)),
     su_convert_delta = or_none (sum64 (known am_convert_delta ms)),
     su_with_duration = or_none (int (length (known am_convert_duration ms))),
     su_max_duration = or_none (fold max (known am_convert_duration ms) 0)\<rparr>"

subsection \<open>Cache\<close>

text \<open>Times in nanoseconds; the keys of the entries are the archive and the preference.\<close>

record cache_entry =
  ce_id :: string
  ce_prefer :: bool
  ce_at :: int
  ce_value :: archive_metrics

record mcache =
  mc_ttl :: int
  mc_entries :: "cache_entry list"

definition entry_key :: "cache_entry \<Rightarrow> string \<times> bool" where
  "entry_key x = (ce_id x, ce_prefer x)"

definition NewCache :: "rat \<Rightarrow> mcache" where
  "NewCache ttlSeconds = \<lparr>mc_ttl = (let n = ttlSeconds * 10 ^ 9 in if n < 0 then - \<lfloor>- n\<rfloor> else \<lfloor>n\<rfloor>), mc_entries = []\<rparr>"

definition cache_expired :: "mcache \<Rightarrow> int \<Rightarrow> cache_entry \<Rightarrow> bool" where
  "cache_expired c now x \<longleftrightarrow> mc_ttl c \<le> 0 \<or> now - ce_at x > mc_ttl c"

definition cache_get :: "int \<Rightarrow> string \<Rightarrow> bool \<Rightarrow> mcache \<Rightarrow> archive_metrics option \<times> mcache" where
  "cache_get now aid prefer c =
    (case kfind entry_key (aid, prefer) (mc_entries c) of
       None \<Rightarrow> (None, c)
     | Some x \<Rightarrow>
        (if cache_expired c now x then (None, c\<lparr>mc_entries := kremove entry_key (aid, prefer) (mc_entries c)\<rparr>)
         else (Some (ce_value x), c)))"

definition cache_put :: "int \<Rightarrow> archive_metrics \<Rightarrow> bool \<Rightarrow> mcache \<Rightarrow> mcache" where
  "cache_put now m prefer c =
    c\<lparr>mc_entries := kput entry_key \<lparr>ce_id = am_id m, ce_prefer = prefer, ce_at = now, ce_value = m\<rparr> (mc_entries c)\<rparr>"

definition cache_invalidate :: "string \<Rightarrow> mcache \<Rightarrow> mcache" where
  "cache_invalidate aid c =
    c\<lparr>mc_entries := (if aid = '''' then [] else filter (\<lambda>x. ce_id x \<noteq> aid) (mc_entries c))\<rparr>"

subsection \<open>Collector\<close>

text \<open>
  The source of the collector: one archive by its identifier, and the list.  Both can fail with the
  error of the store.
\<close>

record collector =
  co_get :: "string \<Rightarrow> string + archive_input option"
  co_list :: "string + archive_input list"
  co_providers :: providers

definition collector_compute :: "collector \<Rightarrow> archive_input \<Rightarrow> bool \<Rightarrow> archive_metrics" where
  "collector_compute co ai prefer = ComputeArchiveMetrics (co_providers co) ai prefer None"

definition use_cache :: "bool option \<Rightarrow> bool" where
  "use_cache opt = (case opt of None \<Rightarrow> True | Some b \<Rightarrow> b)"

definition cache_lookup :: "bool option \<Rightarrow> int \<Rightarrow> string \<Rightarrow> bool \<Rightarrow> mcache \<Rightarrow> archive_metrics option \<times> mcache" where
  "cache_lookup useCache now aid prefer c = (if use_cache useCache then cache_get now aid prefer c else (None, c))"

definition GetOne :: "collector \<Rightarrow> int \<Rightarrow> string \<Rightarrow> bool \<Rightarrow> bool option \<Rightarrow> mcache \<Rightarrow> (string + archive_metrics option) \<times> mcache" where
  "GetOne co now aid prefer useCache c =
    (let (hit, c1) = cache_lookup useCache now aid prefer c in
     case hit of
       Some m \<Rightarrow> (Inr (Some m), c1)
     | None \<Rightarrow>
        (case co_get co aid of
           Inl e \<Rightarrow> (Inl e, c1)
         | Inr None \<Rightarrow> (Inr None, c1)
         | Inr (Some ai) \<Rightarrow> (let m = collector_compute co ai prefer in (Inr (Some m), cache_put now m prefer c1))))"

fun get_inputs :: "collector \<Rightarrow> int \<Rightarrow> bool \<Rightarrow> bool option \<Rightarrow> archive_input list \<Rightarrow> mcache \<Rightarrow> archive_metrics list \<times> mcache" where
  "get_inputs co now prefer useCache [] c = ([], c)"
| "get_inputs co now prefer useCache (ai # ais) c =
    (let (hit, c1) = cache_lookup useCache now (ai_id ai) prefer c;
         (m, c2) = (case hit of
            Some m \<Rightarrow> (m, c1)
          | None \<Rightarrow> (let m = collector_compute co ai prefer in (m, cache_put now m prefer c1)));
         (ms, c3) = get_inputs co now prefer useCache ais c2 in
     (m # ms, c3))"

definition GetAll :: "collector \<Rightarrow> int \<Rightarrow> bool \<Rightarrow> bool option \<Rightarrow> mcache \<Rightarrow> (string + archive_metrics list) \<times> mcache" where
  "GetAll co now prefer useCache c =
    (case co_list co of
       Inl e \<Rightarrow> (Inl e, c)
     | Inr ais \<Rightarrow> (let (ms, c1) = get_inputs co now prefer useCache ais c in (Inr ms, c1)))"

definition collector_Summary ::
  "collector \<Rightarrow> int \<Rightarrow> archive_metrics list option \<Rightarrow> bool \<Rightarrow> bool option \<Rightarrow> mcache \<Rightarrow> (string + summary) \<times> mcache" where
  "collector_Summary co now items prefer useCache c =
    (case items of
       Some ms \<Rightarrow> (Inr (Summarize ms), c)
     | None \<Rightarrow> (case GetAll co now prefer useCache c of
          (Inl e, c1) \<Rightarrow> (Inl e, c1)
        | (Inr ms, c1) \<Rightarrow> (Inr (Summarize ms), c1)))"

subsection \<open>The providers of the service\<close>

text \<open>
  \<open>mh_open\<close> opens an index, \<open>mh_walk\<close> walks a mount, \<open>mh_device\<close> is the device of a path,
  \<open>mh_proc\<close> the content of /proc/pid/status, \<open>mh_js\<close> decodes a sidecar.
\<close>

record metric_host =
  mh_world :: world
  mh_open :: "path \<Rightarrow> string + index_db"
  mh_walk :: "path \<Rightarrow> walk_entry list"
  mh_device :: "path \<Rightarrow> int"
  mh_proc :: "int \<Rightarrow> string option"
  mh_js :: "path \<Rightarrow> jobject option"
  mh_tools :: tools
  mh_cache :: cache_env

definition isMountPoint :: "metric_host \<Rightarrow> path \<Rightarrow> bool" where
  "isMountPoint mh p \<longleftrightarrow> path_exists (mh_world mh) p \<and> path_exists (mh_world mh) (path_dir p)
     \<and> mh_device mh p \<noteq> mh_device mh (path_dir p)"

text \<open>The sidecar next to the archive, then the one next to its copy in the cache.\<close>

definition sidecar_meta :: "metric_host \<Rightarrow> config \<Rightarrow> path \<Rightarrow> metadata option" where
  "sidecar_meta mh cfg p =
    (case ReadConvertMetadata (mh_js mh) p of
       Some m \<Rightarrow> Some m
     | None \<Rightarrow>
        (if p = '''' then None
         else (let cachePath = ResolveMountArchivePath (mh_tools mh) (mh_cache mh) cfg (mh_world mh) p in
               if cachePath = '''' \<or> cachePath = p then None else ReadConvertMetadata (mh_js mh) cachePath)))"

definition default_providers :: "metric_host \<Rightarrow> config \<Rightarrow> providers" where
  "default_providers mh cfg =
    (let w = mh_world mh in
     \<lparr>pv_file_size = pathSizeBytes w, pv_index_size = indexSizeBytes w, pv_index_present = is_file w,
      pv_analyze = Some (AnalyzeIndexExtracted w (mh_open mh)), pv_from_index = ExtractedSizeFromIndex w (mh_open mh),
      pv_from_mount = extractedSizeFromMount w (mh_walk mh) default_max_files, pv_meta = sidecar_meta mh cfg,
      pv_rss = readProcessRSSBytes (mh_proc mh), pv_rss_peak = readProcessRSSPeakBytes (mh_proc mh),
      pv_stat = (\<lambda>p. if path_exists w p then Some (is_dir w p) else None), pv_is_mount = isMountPoint mh\<rparr>)"

definition archiveRecordToInput :: "archive \<Rightarrow> archive_input" where
  "archiveRecordToInput rec =
    \<lparr>ai_id = a_archive_id rec, ai_path = a_archive_path rec, ai_basename = a_archive_basename rec,
     ai_status = status_str (a_status rec), ai_mount_path = strPtr (a_mount_path rec),
     ai_index_path = strPtr (a_index_path rec),
     ai_mount_pid = (case a_mount_pid rec of Some p \<Rightarrow> if p > 0 then p else 0 | None \<Rightarrow> 0),
     ai_convert_source = a_convert_source_size_bytes rec,
     ai_convert_duration = map_option (\<lambda>ms. of_int ms / 1000) (a_convert_duration_ms rec)\<rparr>"

definition store_collector :: "metric_host \<Rightarrow> config \<Rightarrow> store \<Rightarrow> collector" where
  "store_collector mh cfg s =
    \<lparr>co_get = (\<lambda>aid. Inr (map_option archiveRecordToInput (GetArchive s aid))),
     co_list = Inr (map archiveRecordToInput (all_archives s)), co_providers = default_providers mh cfg\<rparr>"

end
