(* ===== verification/MetricsProps.thy ===== *)
theory MetricsProps
  imports Metrics ConvertProps StoreProps
begin

text \<open>
  What the metrics promise: the analysis of an index counts no byte twice, an extracted size always
  comes from the source it names, the cache answers what was last stored and is not too old, and
  the cached answers are the computed ones.
\<close>

subsection \<open>Sums without overflow\<close>

lemma sum_list_part: "sum_list (map f (filter p xs)) + sum_list (map f (filter (\<lambda>x. \<not> p x) xs)) = (sum_list (map f xs) :: int)"
  by (induction xs) auto

lemma sum_list_nonneg_map: "(\<And>x. x \<in> set xs \<Longrightarrow> 0 \<le> f x) \<Longrightarrow> 0 \<le> (sum_list (map f xs) :: int)"
  by (induction xs) auto

lemma sum_list_filter_le: "(\<And>x. x \<in> set xs \<Longrightarrow> 0 \<le> f x) \<Longrightarrow> (sum_list (map f (filter p xs)) :: int) \<le> sum_list (map f xs)"
proof (induction xs)
  case (Cons x xs)
  have "0 \<le> f x" "sum_list (map f (filter p xs)) \<le> sum_list (map f xs)" using Cons by simp_all
  then show ?case by simp
qed simp

lemma sum64_id: "0 \<le> sum_list xs \<Longrightarrow> sum_list xs < 2 ^ 63 \<Longrightarrow> sum64 xs = sum_list xs"
  by (simp add: sum64_def wrap64_id)

lemma sum64_filter:
  assumes "\<And>x. x \<in> set xs \<Longrightarrow> 0 \<le> f x" "sum_list (map f xs) < 2 ^ 63"
  shows "sum64 (map f (filter p xs)) = sum_list (map f (filter p xs))"
proof (rule sum64_id)
  show "0 \<le> sum_list (map f (filter p xs))" by (rule sum_list_nonneg_map) (simp add: assms(1))
  show "sum_list (map f (filter p xs)) < 2 ^ 63"
    using sum_list_filter_le [of xs f p] assms by force
qed

subsection \<open>Index analysis\<close>

definition content_leaf :: "index_row list \<Rightarrow> index_row \<Rightarrow> bool" where
  "content_leaf rows r \<longleftrightarrow> \<not> ir_dir r \<and> \<not> expanded_container rows (full_path r) \<and> \<not> LooksLikeNestedArchiveName (ir_name r)"

definition packed_leaf :: "index_row list \<Rightarrow> index_row \<Rightarrow> bool" where
  "packed_leaf rows r \<longleftrightarrow> \<not> ir_dir r \<and> \<not> expanded_container rows (full_path r) \<and> LooksLikeNestedArchiveName (ir_name r)"

definition container_row :: "index_row list \<Rightarrow> index_row \<Rightarrow> bool" where
  "container_row rows r \<longleftrightarrow> \<not> ir_dir r \<and> expanded_container rows (full_path r)"

definition size_of :: "(index_row \<Rightarrow> bool) \<Rightarrow> index_row list \<Rightarrow> int" where
  "size_of p rows = sum_list (map ir_size (filter p rows))"

lemma size_of_sum64:
  assumes "\<And>r. r \<in> set rows \<Longrightarrow> 0 \<le> ir_size r" "sum_list (map ir_size rows) < 2 ^ 63"
  shows "sum64 (map ir_size (filter p rows)) = size_of p rows"
  using sum64_filter [OF assms] by (simp add: size_of_def)

lemma size_of_split:
  "size_of p rows = size_of (\<lambda>r. p r \<and> q r) rows + size_of (\<lambda>r. p r \<and> \<not> q r) rows"
  using sum_list_part [of ir_size q "filter p rows"] by (simp add: size_of_def conj_commute)

lemma not_below_leaf:
  assumes "\<not> expanded_container rows (full_path r)" "r' \<in> set rows"
  shows "\<not> has_prefix (full_path r') (full_path r @ ''/'')"
proof
  assume below: "has_prefix (full_path r') (full_path r @ ''/'')"
  then have "full_path r' \<noteq> full_path r" by (auto dest!: has_prefixD)
  then show False using assms below by (auto simp: expanded_container_def list_ex_iff)
qed

text \<open>C30. The analysis of an index counts no byte twice and invents none: as long as the sizes are not negative
  and their sum fits in 64 bits, the bytes of all members are the bytes of the leaves, of the nested archives
  left packed, and of the containers the index expands; no two leaves lie one inside the other; the analysis is
  complete exactly when no nested archive is left packed, and then its primary size is that of the leaves,
  otherwise the one-level size.\<close>

theorem index_sizes_exact:
  assumes nn: "\<And>r. r \<in> set rows \<Longrightarrow> 0 \<le> ir_size r" and fits: "sum_list (map ir_size rows) < 2 ^ 63"
    and a: "a = analyzeIndexRows rows hasDepth"
  shows "ia_naive a = Some (size_of (content_leaf rows) rows + size_of (packed_leaf rows) rows + size_of (container_row rows) rows)
    \<and> ia_deep a = Some (size_of (content_leaf rows) rows) \<and> ia_opaque_bytes a = size_of (packed_leaf rows) rows
    \<and> (\<forall>r \<in> set rows. \<forall>r' \<in> set rows. content_leaf rows r \<longrightarrow> \<not> has_prefix (full_path r') (full_path r @ ''/''))
    \<and> (ia_complete a \<longleftrightarrow> (\<forall>r \<in> set rows. \<not> packed_leaf rows r))
    \<and> Primary a = Some (if ia_complete a then size_of (content_leaf rows) rows
        else size_of (\<lambda>r. \<not> ir_dir r \<and> (\<not> hasDepth \<or> ir_depth r = 0)) rows)"
proof -
  have leaf: "filter (\<lambda>r. \<not> LooksLikeNestedArchiveName (ir_name r)) (filter (\<lambda>r. \<not> expanded_container rows (full_path r)) (filter (\<lambda>r. \<not> ir_dir r) rows))
      = filter (content_leaf rows) rows"
    by (simp add: content_leaf_def [abs_def] conj_ac)
  have packed: "filter (\<lambda>r. LooksLikeNestedArchiveName (ir_name r)) (filter (\<lambda>r. \<not> expanded_container rows (full_path r)) (filter (\<lambda>r. \<not> ir_dir r) rows))
      = filter (packed_leaf rows) rows"
    by (simp add: packed_leaf_def [abs_def] conj_ac)
  have shallow: "filter (\<lambda>r. \<not> hasDepth \<or> ir_depth r = 0) (filter (\<lambda>r. \<not> ir_dir r) rows)
      = filter (\<lambda>r. \<not> ir_dir r \<and> (\<not> hasDepth \<or> ir_depth r = 0)) rows"
    by (simp add: conj_commute)
  note sums = size_of_sum64 [OF nn fits]
  have naive: "size_of (\<lambda>r. \<not> ir_dir r) rows = size_of (container_row rows) rows + (size_of (packed_leaf rows) rows + size_of (content_leaf rows) rows)"
    using size_of_split [of "\<lambda>r. \<not> ir_dir r" rows "\<lambda>r. expanded_container rows (full_path r)"]
      size_of_split [of "\<lambda>r. \<not> ir_dir r \<and> \<not> expanded_container rows (full_path r)" rows "\<lambda>r. LooksLikeNestedArchiveName (ir_name r)"]
    by (simp add: container_row_def [abs_def] packed_leaf_def [abs_def] content_leaf_def [abs_def] conj_assoc)
  have vals: "a = \<lparr>ia_naive = Some (size_of (\<lambda>r. \<not> ir_dir r) rows),
      ia_shallow = Some (size_of (\<lambda>r. \<not> ir_dir r \<and> (\<not> hasDepth \<or> ir_depth r = 0)) rows),
      ia_deep = Some (size_of (content_leaf rows) rows), ia_complete = (filter (packed_leaf rows) rows = []),
      ia_opaque = int (length (filter (packed_leaf rows) rows)), ia_opaque_bytes = size_of (packed_leaf rows) rows,
      ia_has_depth = hasDepth, ia_err = ''''\<rparr>"
    unfolding a analyzeIndexRows_def Let_def leaf packed shallow by (simp add: sums)
  show ?thesis
    using not_below_leaf by (auto simp: vals naive Primary_def content_leaf_def filter_empty_conv)
qed

theorem index_sizes_exact_witness:
  "ia_deep (analyzeIndexRows
     [\<lparr>ir_path = '''', ir_name = ''in.tar'', ir_size = 10, ir_depth = 0, ir_dir = False\<rparr>,
      \<lparr>ir_path = ''/in.tar'', ir_name = ''a'', ir_size = 7, ir_depth = 1, ir_dir = False\<rparr>] True) = Some 7"
proof -
  let ?rows = "[\<lparr>ir_path = '''', ir_name = ''in.tar'', ir_size = 10, ir_depth = 0, ir_dir = False\<rparr>,
      \<lparr>ir_path = ''/in.tar'', ir_name = ''a'', ir_size = 7, ir_depth = 1, ir_dir = False\<rparr>]"
  have "size_of (content_leaf ?rows) ?rows = 7" by code_simp
  moreover have "ia_deep (analyzeIndexRows ?rows True) = Some (size_of (content_leaf ?rows) ?rows)"
    by (rule index_sizes_exact [THEN conjunct2, THEN conjunct1]) auto
  ultimately show ?thesis by simp
qed

subsection \<open>One archive\<close>

text \<open>Where a size came from: what holds of the extraction whenever a size is known.\<close>

definition sourced :: "providers \<Rightarrow> archive_input \<Rightarrow> extraction \<Rightarrow> bool" where
  "sourced pv ai x \<longleftrightarrow>
    (case ex_size x of
       None \<Rightarrow> True
     | Some n \<Rightarrow> ex_err x = ''''
         \<and> (if ex_source x = ''mount''
            then fst (pv_from_mount pv (ai_mount_path ai)) = Some n \<and> ex_complete x = Some True
            else ex_source x = ''index'' \<and> ai_index_path ai \<noteq> '''' \<and> pv_index_present pv (ai_index_path ai)
              \<and> (case fst (index_analysis pv (ai_index_path ai) True) of
                   Some a \<Rightarrow> Primary a = Some n \<and> ex_complete x = Some (ia_complete a)
                 | None \<Rightarrow> fst (pv_from_index pv (ai_index_path ai)) = Some n)))"

lemma index_analysis_no_err: "fst (index_analysis pv p b) = Some a \<Longrightarrow> ia_err a = ''''"
  by (auto simp: index_analysis_def Let_def scalar_analysis_def split: if_splits option.splits prod.splits)

lemma try_mount_sourced: "ex_size x = None \<Longrightarrow> sourced pv ai (try_mount pv (ai_mount_path ai) w p q x)"
  by (auto simp: sourced_def try_mount_def add_err_def split: option.splits prod.splits if_splits)

lemma try_mount_complete:
  "ex_size (try_mount pv p w f q x) = None \<Longrightarrow> ex_complete (try_mount pv p w f q x) = ex_complete x"
  by (auto simp: try_mount_def add_err_def split: option.splits prod.splits if_splits)

lemma if_unknown_sourced:
  "sourced pv ai x \<Longrightarrow> (ex_size x = None \<Longrightarrow> sourced pv ai (f x)) \<Longrightarrow> sourced pv ai (if_unknown f x)"
  by (simp add: if_unknown_def)

lemma take_primary_sourced:
  assumes "fst (index_analysis pv (ai_index_path ai) True) = Some a" "ai_index_path ai \<noteq> ''''" "pv_index_present pv (ai_index_path ai)"
    "ex_complete x = Some (ia_complete a)" "sz \<noteq> None \<longrightarrow> Primary a = sz"
  shows "sourced pv ai (take_index sz nest x)"
  using assms by (auto simp: sourced_def take_index_def split: option.splits)

lemma scalar_sourced:
  assumes "fst (index_analysis pv (ai_index_path ai) True) = None" "ai_index_path ai \<noteq> ''''" "pv_index_present pv (ai_index_path ai)"
    "ex_size x = None"
  shows "sourced pv ai (try_scalar_index pv (ai_index_path ai) x)" "sourced pv ai (fallback_scalar pv (ai_index_path ai) x)"
  using assms by (auto simp: sourced_def try_scalar_index_def fallback_scalar_def take_index_def add_err_def split: option.splits prod.splits)

lemma try_analysis_sourced:
  assumes a: "fst (index_analysis pv (ai_index_path ai) True) = Some a" "ai_index_path ai \<noteq> ''''" "pv_index_present pv (ai_index_path ai)"
    and x: "ex_complete x = Some (ia_complete a)" "ex_size x = None"
  shows "sourced pv ai (try_analysis pv (ai_mount_path ai) w q a x)"
proof (cases "ia_complete a")
  case True
  then show ?thesis
    using take_primary_sourced [OF a x(1), of "ia_deep a"] index_analysis_no_err [OF a(1)] by (auto simp: try_analysis_def Primary_def)
next
  case False
  let ?x = "try_mount pv (ai_mount_path ai) w False q x"
  show ?thesis
  proof (cases "ex_size ?x = None")
    case True
    then show ?thesis
      using take_primary_sourced [OF a, of ?x "ia_shallow a"] index_analysis_no_err [OF a(1)] try_mount_complete [OF True] x(1) False
      by (auto simp: try_analysis_def Primary_def Let_def)
  next
    case known: False
    then have "try_analysis pv (ai_mount_path ai) w q a x = ?x" using False by (auto simp: try_analysis_def Let_def)
    then show ?thesis using try_mount_sourced [OF x(2)] by simp
  qed
qed

lemma start_sourced: "sourced pv ai (start_extraction ae)" "ex_size (start_extraction ae) = None"
  "fst ae = Some a \<Longrightarrow> ex_complete (start_extraction ae) = Some (ia_complete a)"
  by (auto simp: sourced_def start_extraction_def no_extraction_def split: prod.splits option.splits)

lemma extract_size_sourced: "sourced pv ai (extract_size pv ai pref w)"
proof -
  define present where "present \<longleftrightarrow> ai_index_path ai \<noteq> '''' \<and> pv_index_present pv (ai_index_path ai)"
  obtain ma e where ae: "index_analysis pv (ai_index_path ai) present = (ma, e)" by fastforce
  have some: "fst (index_analysis pv (ai_index_path ai) True) = Some a" "ai_index_path ai \<noteq> ''''" "pv_index_present pv (ai_index_path ai)"
    if "ma = Some a" for a
    using ae that by (auto simp: present_def index_analysis_def split: if_splits)
  have none: "fst (index_analysis pv (ai_index_path ai) True) = None" "ai_index_path ai \<noteq> ''''" "pv_index_present pv (ai_index_path ai)"
    if "ma = None" present
    using ae that by (auto simp: present_def)
  define x0 where "x0 = start_extraction (ma, e)"
  have x0: "sourced pv ai x0" "ex_size x0 = None" "\<And>a. ma = Some a \<Longrightarrow> ex_complete x0 = Some (ia_complete a)"
    by (simp_all add: x0_def start_sourced)
  show ?thesis
  proof (cases pref)
    case True
    define q where "q \<longleftrightarrow> (case ma of Some a \<Rightarrow> \<not> ia_complete a | None \<Rightarrow> False) \<and> statusLikelyMounted (ai_status ai)"
    define x1 where "x1 = try_mount pv (ai_mount_path ai) w True False x0"
    define x3 where "x3 = if_unknown (try_mount pv (ai_mount_path ai) w True q) x1"
    have x3: "sourced pv ai x3" unfolding x3_def x1_def by (intro if_unknown_sourced try_mount_sourced x0(2))
    have comp: "ex_complete x3 = Some (ia_complete a)" if "ma = Some a" "ex_size x3 = None" for a
    proof -
      have "ex_size x1 = None" using that(2) by (auto simp: x3_def if_unknown_def split: if_splits)
      moreover from this have "ex_complete x3 = ex_complete x1"
        using that(2) try_mount_complete [of pv "ai_mount_path ai" w True q x1] by (simp add: x3_def if_unknown_def)
      ultimately show ?thesis using x0(3) [OF that(1)] try_mount_complete [of pv "ai_mount_path ai" w True False x0] by (simp add: x1_def)
    qed
    have "extract_size pv ai pref w =
        (case ma of Some a \<Rightarrow> if_unknown (fallback_index a) x3
         | None \<Rightarrow> if present then if_unknown (fallback_scalar pv (ai_index_path ai)) x3 else x3)"
      by (simp only: extract_size_def Let_def ae present_def [symmetric] prod.case x3_def x1_def x0_def q_def True if_True not_True_eq_False if_False)
    moreover have "sourced pv ai (if_unknown (fallback_index a) x3)" if "ma = Some a" for a
      using take_primary_sourced [OF some [OF that] comp [OF that]] x3
      by (intro if_unknown_sourced) (auto simp: fallback_index_def)
    moreover have "sourced pv ai (if_unknown (fallback_scalar pv (ai_index_path ai)) x3)" if "ma = None" present
      by (rule if_unknown_sourced [OF x3 scalar_sourced(2) [OF none [OF that]]])
    ultimately show ?thesis using x3 by (auto split: option.splits)
  next
    case False
    define q where "q \<longleftrightarrow> (case ma of Some a \<Rightarrow> \<not> ia_complete a | None \<Rightarrow> False) \<and> statusLikelyMounted (ai_status ai)"
    define x2 where "x2 = (case ma of Some a \<Rightarrow> if_unknown (try_analysis pv (ai_mount_path ai) w q a) x0
        | None \<Rightarrow> if present then if_unknown (try_scalar_index pv (ai_index_path ai)) x0 else x0)"
    have "sourced pv ai x2"
      using try_analysis_sourced [OF some x0(3) x0(2)] scalar_sourced(1) [OF none x0(2)] x0(1)
      by (auto simp: x2_def intro!: if_unknown_sourced split: option.split)
    moreover have "extract_size pv ai pref w = if_unknown (try_mount pv (ai_mount_path ai) w False q) x2"
      by (simp only: extract_size_def Let_def ae present_def [symmetric] prod.case x2_def x0_def q_def False if_True not_False_eq_True if_False)
    ultimately show ?thesis by (simp add: if_unknown_sourced try_mount_sourced)
  qed
qed

text \<open>A reported size is never invented. Whenever ComputeArchiveMetrics reports an extracted size it reports
  no error, and the size is either the one the walk of the mount returned, then marked complete, or the primary
  size of the analysis of an index that is present, marked complete exactly when the analysis is; without an
  analysis it is what the provider read from the index. The space saved is never negative and is reported
  exactly when the extracted size and the size of the index are both known.\<close>

theorem extracted_size_honest:
  assumes "m = ComputeArchiveMetrics pv ai pref mountWalk"
  shows "(case am_extracted m of
      None \<Rightarrow> am_saved m = None \<and> am_saved_vs_archive m = None
    | Some n \<Rightarrow> am_error m = ''''
        \<and> (if am_source m = ''mount''
           then fst (pv_from_mount pv (ai_mount_path ai)) = Some n \<and> am_deep_complete m = Some True
           else am_source m = ''index'' \<and> am_index_present m
             \<and> (case fst (index_analysis pv (ai_index_path ai) True) of
                  Some a \<Rightarrow> Primary a = Some n \<and> am_deep_complete m = Some (ia_complete a)
                | None \<Rightarrow> fst (pv_from_index pv (ai_index_path ai)) = Some n))
        \<and> (am_saved m = None \<longleftrightarrow> pv_index_size pv (ai_index_path ai) = None \<and> \<not> am_index_present m))
    \<and> (\<forall>s. am_saved m = Some s \<or> am_saved_vs_archive m = Some s \<longrightarrow> 0 \<le> s)"
proof -
  define x where "x = extract_size pv ai pref (case mountWalk of None \<Rightarrow> True | Some b \<Rightarrow> b)"
  define present where "present \<longleftrightarrow> ai_index_path ai \<noteq> '''' \<and> pv_index_present pv (ai_index_path ai)"
  define i where "i = (if pv_index_size pv (ai_index_path ai) = None \<and> present then Some 0 else pv_index_size pv (ai_index_path ai))"
  have saved: "am_saved m = fst (ComputeSpaceSaved (ex_size x) i (pv_file_size pv (ai_path ai)))"
    "am_saved_vs_archive m = snd (ComputeSpaceSaved (ex_size x) i (pv_file_size pv (ai_path ai)))"
    by (simp_all add: assms ComputeArchiveMetrics_def Let_def split_beta x_def i_def present_def)
  have rest: "am_extracted m = ex_size x" "am_error m = ex_err x" "am_source m = ex_source x" "am_deep_complete m = ex_complete x"
    "am_index_present m = present"
    by (simp_all add: assms ComputeArchiveMetrics_def Let_def split_beta x_def present_def)
  have nonneg: "0 \<le> s" if "am_saved m = Some s \<or> am_saved_vs_archive m = Some s" for s
    using that by (auto simp: saved ComputeSpaceSaved_def Let_def split: option.splits if_splits)
  have sx: "sourced pv ai x" by (simp add: x_def extract_size_sourced)
  show ?thesis
  proof (cases "ex_size x")
    case None
    then show ?thesis using nonneg by (simp add: rest saved ComputeSpaceSaved_def)
  next
    case (Some n)
    have "am_saved m = None \<longleftrightarrow> i = None" by (simp add: saved ComputeSpaceSaved_def Some Let_def split: option.split)
    then have "am_saved m = None \<longleftrightarrow> pv_index_size pv (ai_index_path ai) = None \<and> \<not> present" by (auto simp: i_def)
    moreover note sx [unfolded sourced_def Some option.case]
    ultimately show ?thesis
      using nonneg by (simp only: rest Some option.case present_def if_bool_eq_disj) blast
  qed
qed

text \<open>A host with one index that has an opaque member, and no mount.\<close>

definition sample_metric_input :: archive_input where
  "sample_metric_input =
    \<lparr>ai_id = ''x'', ai_path = ''/in/a.tar'', ai_basename = ''a.tar'', ai_status = ''mounted'', ai_mount_path = '''',
     ai_index_path = ''/idx/x'', ai_mount_pid = 0, ai_convert_source = None, ai_convert_duration = None\<rparr>"

definition sample_providers :: providers where
  "sample_providers =
    \<lparr>pv_file_size = (\<lambda>_. Some 100), pv_index_size = (\<lambda>_. Some 5), pv_index_present = (\<lambda>_. True),
     pv_analyze = Some (\<lambda>_. analyzeIndexRows
       [\<lparr>ir_path = '''', ir_name = ''n.zip'', ir_size = 10, ir_depth = 0, ir_dir = False\<rparr>,
        \<lparr>ir_path = '''', ir_name = ''b'', ir_size = 30, ir_depth = 0, ir_dir = False\<rparr>] True),
     pv_from_index = (\<lambda>_. (None, ''no'')), pv_from_mount = (\<lambda>_. (None, ''no'')), pv_meta = (\<lambda>_. None),
     pv_rss = (\<lambda>_. None), pv_rss_peak = (\<lambda>_. None), pv_stat = (\<lambda>_. None), pv_is_mount = (\<lambda>_. False)\<rparr>"

theorem extracted_size_honest_witness:
  "am_extracted (ComputeArchiveMetrics sample_providers sample_metric_input False None) = Some 40
    \<and> am_error (ComputeArchiveMetrics sample_providers sample_metric_input False None) = ''''"
proof -
  let ?m = "ComputeArchiveMetrics sample_providers sample_metric_input False None"
  have size: "am_extracted ?m = Some 40" by code_simp
  then show ?thesis using extracted_size_honest [OF refl, of sample_providers sample_metric_input False None] by simp
qed

subsection \<open>The cache against its history\<close>

datatype cache_op = PutOp int archive_metrics bool | GetOp int string bool | InvalidateOp string

fun op_time :: "cache_op \<Rightarrow> int option" where
  "op_time (PutOp t _ _) = Some t"
| "op_time (GetOp t _ _) = Some t"
| "op_time (InvalidateOp _) = None"

fun cache_step :: "cache_op \<Rightarrow> mcache \<Rightarrow> mcache" where
  "cache_step (PutOp t m p) c = cache_put t m p c"
| "cache_step (GetOp t aid p) c = snd (cache_get t aid p c)"
| "cache_step (InvalidateOp aid) c = cache_invalidate aid c"

text \<open>What the history of operations, newest first, last stored under a key.\<close>

fun last_stored :: "cache_op list \<Rightarrow> string \<Rightarrow> bool \<Rightarrow> (int \<times> archive_metrics) option" where
  "last_stored [] aid p = None"
| "last_stored (PutOp t m q # ops) aid p = (if am_id m = aid \<and> q = p then Some (t, m) else last_stored ops aid p)"
| "last_stored (GetOp t a q # ops) aid p = last_stored ops aid p"
| "last_stored (InvalidateOp a # ops) aid p = (if a = '''' \<or> a = aid then None else last_stored ops aid p)"

text \<open>The operations that told the time did so before \<open>now\<close>.\<close>

fun chronological :: "cache_op list \<Rightarrow> int \<Rightarrow> bool" where
  "chronological [] now \<longleftrightarrow> True"
| "chronological (x # ops) now \<longleftrightarrow> (case op_time x of Some t \<Rightarrow> t \<le> now \<and> chronological ops t | None \<Rightarrow> chronological ops now)"

definition fresh_answer :: "mcache \<Rightarrow> int \<Rightarrow> (int \<times> archive_metrics) option \<Rightarrow> archive_metrics option" where
  "fresh_answer c now stored =
    (case stored of Some (t, m) \<Rightarrow> if mc_ttl c > 0 \<and> now - t \<le> mc_ttl c then Some m else None | None \<Rightarrow> None)"

lemma cache_step_ttl [simp]: "mc_ttl (cache_step x c) = mc_ttl c"
  by (cases x) (auto simp: cache_put_def cache_get_def cache_invalidate_def split: option.split)

definition entry_of :: "string \<Rightarrow> bool \<Rightarrow> mcache \<Rightarrow> (int \<times> archive_metrics) option" where
  "entry_of aid p c = map_option (\<lambda>x. (ce_at x, ce_value x)) (kfind entry_key (aid, p) (mc_entries c))"

lemma cache_get_entry: "fst (cache_get now aid p c) = fresh_answer c now (entry_of aid p c)"
  by (auto simp: cache_get_def entry_of_def fresh_answer_def cache_expired_def split: option.split)

lemma kfind_filter_entries:
  "(\<And>x. key x = k \<Longrightarrow> P x) \<Longrightarrow> kfind key k (filter P xs) = kfind key k xs"
  by (induction xs) auto

lemma entry_of_step:
  "entry_of aid p (cache_step x c) =
    (case x of
       PutOp t m q \<Rightarrow> if am_id m = aid \<and> q = p then Some (t, m) else entry_of aid p c
     | GetOp t a q \<Rightarrow> if a = aid \<and> q = p \<and> fresh_answer c t (entry_of aid p c) = None then None else entry_of aid p c
     | InvalidateOp a \<Rightarrow> if a = '''' \<or> a = aid then None else entry_of aid p c)"
proof (cases x)
  case (InvalidateOp a)
  have "kfind entry_key (aid, p) (filter (\<lambda>y. ce_id y \<noteq> aid) xs) = None" for xs
    by (auto simp: kfind_None_iff entry_key_def)
  moreover have "kfind entry_key (aid, p) (filter (\<lambda>y. ce_id y \<noteq> a) xs) = kfind entry_key (aid, p) xs" if "a \<noteq> aid" for xs
    using that by (intro kfind_filter_entries) (auto simp: entry_key_def)
  ultimately show ?thesis using InvalidateOp by (auto simp: entry_of_def cache_invalidate_def)
qed (auto simp: entry_of_def cache_put_def cache_get_def kfind_kput kfind_kremove entry_key_def fresh_answer_def cache_expired_def
       split: option.split)

text \<open>The entry is the last one stored, or it was dropped when it had already been too old.\<close>

lemma entry_of_history:
  assumes "chronological ops now"
  shows "entry_of aid p (foldr cache_step ops \<lparr>mc_ttl = ttl, mc_entries = []\<rparr>) = last_stored ops aid p
    \<or> entry_of aid p (foldr cache_step ops \<lparr>mc_ttl = ttl, mc_entries = []\<rparr>) = None
      \<and> (\<exists>t m. last_stored ops aid p = Some (t, m) \<and> \<not> (ttl > 0 \<and> now - t \<le> ttl))"
  using assms
proof (induction ops arbitrary: now)
  case Nil
  then show ?case by (simp add: entry_of_def)
next
  case (Cons x ops)
  let ?c = "foldr cache_step ops \<lparr>mc_ttl = ttl, mc_entries = []\<rparr>"
  have ttl: "mc_ttl ?c = ttl" by (induction ops) simp_all
  show ?case
  proof (cases x)
    case (PutOp t m q)
    then show ?thesis using Cons.prems Cons.IH [of t] by (auto simp: entry_of_step simp del: cache_step.simps)
  next
    case (GetOp t a q)
    then have "t \<le> now" "chronological ops t" using Cons.prems by simp_all
    then show ?thesis using Cons.IH [of t] by (auto simp: entry_of_step GetOp fresh_answer_def ttl simp del: cache_step.simps split: option.split)
  next
    case (InvalidateOp a)
    then show ?thesis using Cons.prems Cons.IH [of now] by (auto simp: entry_of_step simp del: cache_step.simps)
  qed
qed

text \<open>C31. The metrics cache refines its history. For a clock that does not run backwards, after any sequence of
  stores, lookups and invalidations the cache answers a lookup with the metrics stored last under that archive
  and preference, provided no invalidation of the archive or of everything came after and they are not older
  than the time to live; otherwise, and always when the time to live is not positive, it misses.\<close>

theorem cache_refines_history:
  assumes "chronological ops now"
  shows "fst (cache_get now aid p (foldr cache_step ops (NewCache ttlSeconds)))
    = fresh_answer (NewCache ttlSeconds) now (last_stored ops aid p)"
proof -
  define ttl where "ttl = mc_ttl (NewCache ttlSeconds)"
  have new: "NewCache ttlSeconds = \<lparr>mc_ttl = ttl, mc_entries = []\<rparr>" by (simp add: ttl_def NewCache_def)
  have "mc_ttl (foldr cache_step ops \<lparr>mc_ttl = ttl, mc_entries = []\<rparr>) = ttl" by (induction ops) simp_all
  then show ?thesis
    using entry_of_history [OF assms, of aid p ttl] unfolding cache_get_entry new
    by (elim disjE) (auto simp: fresh_answer_def split: option.split)
qed

definition sample_metrics :: archive_metrics where
  "sample_metrics = ComputeArchiveMetrics sample_providers sample_metric_input False None"

theorem cache_refines_history_witness:
  "fst (cache_get 9 ''x'' False (foldr cache_step [GetOp 8 ''x'' True, PutOp 3 sample_metrics False] (NewCache 1)))
    = Some sample_metrics"
proof -
  have "am_id sample_metrics = ''x''"
    by (simp add: sample_metrics_def ComputeArchiveMetrics_def Let_def split_beta sample_metric_input_def)
  then show ?thesis
    using cache_refines_history [of "[GetOp 8 ''x'' True, PutOp 3 sample_metrics False]" 9 "''x''" False 1]
    by (simp add: fresh_answer_def NewCache_def)
qed

subsection \<open>The collector over the store\<close>

text \<open>Every entry under a listed archive is what computing its metrics would give now.\<close>

definition cache_current :: "metric_host \<Rightarrow> config \<Rightarrow> store \<Rightarrow> mcache \<Rightarrow> bool" where
  "cache_current mh cfg s c \<longleftrightarrow>
    (\<forall>rec p x. rec \<in> set (all_archives s) \<longrightarrow> kfind entry_key (a_archive_id rec, p) (mc_entries c) = Some x \<longrightarrow>
       ce_value x = ComputeArchiveMetrics (default_providers mh cfg) (archiveRecordToInput rec) p None)"

lemma am_id_compute [simp]: "am_id (ComputeArchiveMetrics pv ai p w) = ai_id ai"
  by (simp add: ComputeArchiveMetrics_def Let_def split_beta)

lemma ai_id_record [simp]: "ai_id (archiveRecordToInput rec) = a_archive_id rec"
  by (simp add: archiveRecordToInput_def)

lemma cache_current_get:
  assumes "cache_current mh cfg s c"
  shows "cache_current mh cfg s (snd (cache_get now aid p c))"
    "rec \<in> set (all_archives s) \<Longrightarrow> fst (cache_get now (a_archive_id rec) p c) = Some m \<Longrightarrow>
      m = ComputeArchiveMetrics (default_providers mh cfg) (archiveRecordToInput rec) p None"
  using assms by (auto simp: cache_current_def cache_get_def kfind_kremove split: option.splits if_splits)

lemma cache_current_lookup:
  assumes "cache_current mh cfg s c" and look: "cache_lookup uc now (a_archive_id rec) p c = (hit, c1)"
  shows "cache_current mh cfg s c1"
    "rec \<in> set (all_archives s) \<Longrightarrow> hit = Some m \<Longrightarrow>
      m = ComputeArchiveMetrics (default_providers mh cfg) (archiveRecordToInput rec) p None"
proof -
  have c1: "c1 = snd (cache_lookup uc now (a_archive_id rec) p c)" and hit: "hit = fst (cache_lookup uc now (a_archive_id rec) p c)"
    by (simp_all add: look)
  show "cache_current mh cfg s c1" using cache_current_get(1) [OF assms(1)] assms(1) by (simp add: c1 cache_lookup_def)
  show "m = ComputeArchiveMetrics (default_providers mh cfg) (archiveRecordToInput rec) p None"
    if "rec \<in> set (all_archives s)" "hit = Some m"
    using cache_current_get(2) [OF assms(1) that(1), of now p m] that(2) by (simp add: hit cache_lookup_def split: if_splits)
qed

lemma cache_current_put:
  assumes wf: "store_wf s" and cur: "cache_current mh cfg s c" and rec: "rec \<in> set (all_archives s)"
  shows "cache_current mh cfg s (cache_put now (ComputeArchiveMetrics (default_providers mh cfg) (archiveRecordToInput rec) p None) p c)"
proof -
  have "rec' = rec" if "rec' \<in> set (all_archives s)" "a_archive_id rec' = a_archive_id rec" for rec'
  proof -
    have "rec \<in> set (s_archives s)" "rec' \<in> set (s_archives s)" using rec that(1) by (simp_all add: all_archives_def)
    then have "Some rec = Some rec'"
      using wf that(2) kfind_in_distinct [of a_archive_id "s_archives s" rec] kfind_in_distinct [of a_archive_id "s_archives s" rec']
      by (simp add: store_wf_def)
    then show ?thesis by simp
  qed
  then show ?thesis using cur by (auto simp: cache_current_def cache_put_def kfind_kput entry_key_def split: if_splits)
qed

lemma get_inputs_current:
  assumes "store_wf s" "cache_current mh cfg s c" "set recs \<subseteq> set (all_archives s)"
  shows "fst (get_inputs (store_collector mh cfg s) now p uc (map archiveRecordToInput recs) c)
      = map (\<lambda>rec. ComputeArchiveMetrics (default_providers mh cfg) (archiveRecordToInput rec) p None) recs
    \<and> cache_current mh cfg s (snd (get_inputs (store_collector mh cfg s) now p uc (map archiveRecordToInput recs) c))"
  using assms(2,3)
proof (induction recs arbitrary: c)
  case (Cons rec recs)
  let ?co = "store_collector mh cfg s" and ?m = "ComputeArchiveMetrics (default_providers mh cfg) (archiveRecordToInput rec) p None"
  obtain hit c1 where look: "cache_lookup uc now (a_archive_id rec) p c = (hit, c1)" by fastforce
  have rec: "rec \<in> set (all_archives s)" using Cons.prems by simp
  note c1 = cache_current_lookup [OF Cons.prems(1) look] cache_current_lookup(2) [OF Cons.prems(1) look rec]
  have comp: "collector_compute ?co (archiveRecordToInput rec) p = ?m"
    by (simp add: collector_compute_def store_collector_def)
  have c2: "cache_current mh cfg s (cache_put now ?m p c1)" by (rule cache_current_put [OF assms(1) c1(1) rec])
  show ?case
    using Cons.IH [OF c1(1)] Cons.IH [OF c2] Cons.prems(2) c1(3)
    by (cases hit) (simp_all add: Let_def split_beta look comp)
qed simp

text \<open>The cache does not change what the collector answers. Over well-formed tables, with a cache whose
  entries are current, GetAll and GetOne answer with the cache exactly what they compute without it - GetAll one
  item for each row in the order of the list, GetOne the item of that row or nothing for an unknown archive -
  and they leave the cache current.\<close>

theorem collector_cached_eq:
  assumes "store_wf s" "cache_current mh cfg s c" and co: "co = store_collector mh cfg s"
  shows "fst (GetAll co now pref uc c)
      = Inr (map (\<lambda>rec. ComputeArchiveMetrics (default_providers mh cfg) (archiveRecordToInput rec) pref None) (all_archives s))
    \<and> cache_current mh cfg s (snd (GetAll co now pref uc c))
    \<and> (GetArchive s aid = Some rec \<longrightarrow>
        fst (GetOne co now aid pref uc c) = Inr (Some (ComputeArchiveMetrics (default_providers mh cfg) (archiveRecordToInput rec) pref None))
        \<and> cache_current mh cfg s (snd (GetOne co now aid pref uc c)))
    \<and> (GetArchive s aid = None \<and> \<not> use_cache uc \<longrightarrow> fst (GetOne co now aid pref uc c) = Inr None)"
proof -
  have all: "co_list co = Inr (map archiveRecordToInput (all_archives s))" by (simp add: co store_collector_def)
  have getall: "fst (GetAll co now pref uc c)
      = Inr (map (\<lambda>rec. ComputeArchiveMetrics (default_providers mh cfg) (archiveRecordToInput rec) pref None) (all_archives s))
    \<and> cache_current mh cfg s (snd (GetAll co now pref uc c))"
    using get_inputs_current [OF assms(1,2) order.refl, of now pref uc] by (simp add: GetAll_def all [unfolded co] co split_beta)
  have one: "fst (GetOne co now aid pref uc c) = Inr (Some (ComputeArchiveMetrics (default_providers mh cfg) (archiveRecordToInput rec) pref None))
        \<and> cache_current mh cfg s (snd (GetOne co now aid pref uc c))" if get: "GetArchive s aid = Some rec"
  proof -
    have rec: "rec \<in> set (all_archives s)" "a_archive_id rec = aid" using get by (auto simp: all_archives_def dest: GetArchive_mem GetArchive_id)
    obtain hit c1 where look: "cache_lookup uc now aid pref c = (hit, c1)" by fastforce
    note c1 = cache_current_lookup(1) [OF assms(2) look [folded rec(2)]] cache_current_lookup(2) [OF assms(2) look [folded rec(2)] rec(1)]
    show ?thesis
      using c1 cache_current_put [OF assms(1) c1(1) rec(1)] get
      by (cases hit) (simp_all add: GetOne_def look co collector_compute_def store_collector_def Let_def)
  qed
  have "fst (GetOne co now aid pref uc c) = Inr None" if "GetArchive s aid = None" "\<not> use_cache uc"
    using that by (simp add: GetOne_def cache_lookup_def co store_collector_def)
  with getall one show ?thesis by blast
qed

definition sample_metric_host :: metric_host where
  "sample_metric_host =
    \<lparr>mh_world = \<lparr>w_files = [(''/in/a.tar'', 9)], w_dirs = [], w_mounts = [], w_alive = [], w_locked = []\<rparr>, mh_open = (\<lambda>_. Inl ''no''),
     mh_walk = (\<lambda>_. []), mh_device = (\<lambda>_. 0), mh_proc = (\<lambda>_. None), mh_js = (\<lambda>_. None), mh_tools = sample_tools,
     mh_cache = \<lparr>ca_sha = (\<lambda>s. s), ca_mtime = (\<lambda>_. 0), ca_home = '''', ca_tmp = ''/tmp''\<rparr>\<rparr>"

theorem collector_cached_eq_witness:
  "fst (GetOne (store_collector sample_metric_host sample_config \<lparr>s_archives = [sample_row], s_hooks = [], s_meta = []\<rparr>) 5 ''x'' False None
     (NewCache 60)) = Inr (Some (ComputeArchiveMetrics (default_providers sample_metric_host sample_config) (archiveRecordToInput sample_row) False None))"
proof -
  let ?s = "\<lparr>s_archives = [sample_row], s_hooks = [], s_meta = []\<rparr>"
  have "store_wf ?s" by (simp add: store_wf_def kdistinct_def sample_row_def discovered_row_def)
  moreover have "cache_current sample_metric_host sample_config ?s (NewCache 60)" by (simp add: cache_current_def NewCache_def)
  moreover have "GetArchive ?s ''x'' = Some sample_row" by (simp add: GetArchive_def sample_row_def discovered_row_def)
  ultimately show ?thesis using collector_cached_eq [OF _ _ refl] by blast
qed

end
