(* ===== verification/StatusDoc.thy ===== *)
theory StatusDoc
  imports Service Metrics
begin

text \<open>
  The status document of src/internal/status: Build with the rows, the jobs in progress, the recent
  errors and the sizes (build.go, archive.go, helpers.go), and what the service feeds it
  (statusOptions of service/status.go).  The fields of ArchiveInput and ArchiveDict that only copy
  the row are the row itself.  The JSON of the last scan and the last cleanup is passed through.
\<close>

subsection \<open>Helpers\<close>

definition inProgressStatuses :: "string list" where
  "inProgressStatuses = [''converting'', ''indexing'', ''mounting'']"

definition errorStatuses :: "string list" where
  "errorStatuses = [''index_failed'', ''mount_failed'']"

definition countStatusKeys :: "string list" where
  "countStatusKeys = [''discovered'', ''converting'', ''indexing'', ''index_failed'', ''mounting'', ''mount_failed'', ''mounted'',
     ''hooks_running'', ''unmounting'', ''absent'']"

definition isInProgress :: "string \<Rightarrow> bool" where
  "isInProgress st \<longleftrightarrow> st \<in> set inProgressStatuses"

definition isErrorStatus :: "string \<Rightarrow> bool" where
  "isErrorStatus st \<longleftrightarrow> st \<in> set errorStatuses"

text \<open>\<open>clock\<close> is the time of the system, which the code asks when it is given no time.\<close>

definition ElapsedSeconds :: "string \<Rightarrow> rat \<Rightarrow> rat \<Rightarrow> rat option" where
  "ElapsedSeconds startedISO now clock =
    (case parseISOToEpoch startedISO of
       None \<Rightarrow> None
     | Some started \<Rightarrow> (let elapsed = (if now = 0 then clock else now) - started in Some (if elapsed < 0 then 0 else elapsed)))"

text \<open>math.Round rounds halves away from zero.\<close>

definition Round1 :: "rat \<Rightarrow> rat" where
  "Round1 v = of_int (if v \<ge> 0 then \<lfloor>v * 10 + 1 / 2\<rfloor> else \<lceil>v * 10 - 1 / 2\<rceil>) / 10"

definition SourceFSLabel :: "path \<Rightarrow> string" where
  "SourceFSLabel p = (if trim_space p = '''' then ''unknown'' else if IsDrvFsPath p then ''drvfs'' else ''linux'')"

definition ShouldLogIndexProgress :: "rat option \<Rightarrow> rat \<Rightarrow> rat \<Rightarrow> bool" where
  "ShouldLogIndexProgress lastLogAt now interval =
    (case lastLogAt of None \<Rightarrow> True | Some t \<Rightarrow> now - t \<ge> (if interval \<le> 0 then 60 else interval))"

definition pidAliveCheck :: "(int \<Rightarrow> bool) option \<Rightarrow> int option \<Rightarrow> bool" where
  "pidAliveCheck fn mountPID =
    (case mountPID of None \<Rightarrow> False | Some pid \<Rightarrow> (case fn of None \<Rightarrow> pid > 0 | Some f \<Rightarrow> f pid))"

subsection \<open>Rows\<close>

record live_mount =
  lm_pid :: int
  lm_phase :: string
  lm_first_index :: bool
  lm_skips :: int
  lm_skip_summary :: string

text \<open>ArchiveInput: the row, and what the service knows of skipped nested mounts.\<close>

record status_row =
  st_rec :: archive
  st_skips :: "int option"
  st_skip_summary :: string

definition FromStateRecord :: "archive \<Rightarrow> status_row" where
  "FromStateRecord rec = \<lparr>st_rec = rec, st_skips = None, st_skip_summary = ''''\<rparr>"

abbreviation st_status :: "status_row \<Rightarrow> string" where
  "st_status r \<equiv> status_str (a_status (st_rec r))"

definition progressLabel :: "string \<Rightarrow> live_mount option \<Rightarrow> string" where
  "progressLabel st lm =
    (if map_option lm_phase lm = Some ''index_only'' then ''building index''
     else if map_option lm_phase lm = Some ''mount'' then ''mounting FUSE''
     else if st = ''converting'' then ''converting to non-solid''
     else if st = ''indexing'' then ''indexing''
     else if st = ''mounting'' then ''mounting''
     else if st = ''hooks_running'' then ''hooks''
     else '''')"

record status_dict =
  sd_rec :: archive
  sd_source_fs :: string
  sd_pid_alive :: bool
  sd_is_mounted :: "bool option"
  sd_skips :: "int option"
  sd_skip_summary :: string
  sd_elapsed :: "rat option"
  sd_label :: string
  sd_live_pid :: "int option"
  sd_first_index :: "bool option"
  sd_phase :: string
  sd_metrics :: "archive_metrics option"

definition row_elapsed :: "archive \<Rightarrow> rat \<Rightarrow> rat \<Rightarrow> rat option" where
  "row_elapsed rec now clock =
    map_option Round1 (ElapsedSeconds (case a_index_started_at rec of Some t \<Rightarrow> t | None \<Rightarrow> '''') now clock)"

definition ArchiveToDict ::
  "status_row \<Rightarrow> rat \<Rightarrow> rat \<Rightarrow> (string \<times> live_mount) list \<Rightarrow> (int \<Rightarrow> bool) option \<Rightarrow> (path \<Rightarrow> bool) option \<Rightarrow> status_dict" where
  "ArchiveToDict r now clock live pidAlive isMount =
    (let rec = st_rec r; lm = map_of live (a_archive_id rec);
         d0 = \<lparr>sd_rec = rec, sd_source_fs = SourceFSLabel (a_archive_path rec), sd_pid_alive = pidAliveCheck pidAlive (a_mount_pid rec),
               sd_is_mounted = map_option (\<lambda>f. case a_mount_path rec of Some p \<Rightarrow> p \<noteq> '''' \<and> f p | None \<Rightarrow> False) isMount,
               sd_skips = None, sd_skip_summary = '''', sd_elapsed = None, sd_label = '''', sd_live_pid = None, sd_first_index = None,
               sd_phase = '''', sd_metrics = None\<rparr>;
         d1 = (case st_skips r of
                 Some n \<Rightarrow> if n > 0 then d0\<lparr>sd_skips := Some n, sd_skip_summary := st_skip_summary r\<rparr> else d0
               | None \<Rightarrow> d0);
         d2 = (case lm of
                 Some m \<Rightarrow>
                   if lm_skips m > 0
                   then d1\<lparr>sd_skips := Some (lm_skips m),
                           sd_skip_summary := (if lm_skip_summary m \<noteq> '''' then lm_skip_summary m else sd_skip_summary d1)\<rparr>
                   else d1
               | None \<Rightarrow> d1) in
     if isInProgress (st_status r)
     then (let d3 = d2\<lparr>sd_elapsed := row_elapsed rec now clock, sd_label := progressLabel (st_status r) lm\<rparr> in
           case lm of
             Some m \<Rightarrow> d3\<lparr>sd_live_pid := Some (lm_pid m), sd_first_index := Some (lm_first_index m), sd_phase := lm_phase m\<rparr>
           | None \<Rightarrow> d3)
     else if st_status r = ''hooks_running'' then d2\<lparr>sd_label := ''hooks''\<rparr>
     else d2)"

subsection \<open>Jobs in progress and recent errors\<close>

record indexing_job =
  ij_rec :: archive
  ij_elapsed :: "rat option"
  ij_source_fs :: string
  ij_pid_alive :: bool
  ij_live_pid :: "int option"
  ij_phase :: string
  ij_label :: string

definition indexing_job_of ::
  "rat \<Rightarrow> rat \<Rightarrow> (string \<times> live_mount) list \<Rightarrow> (int \<Rightarrow> bool) option \<Rightarrow> status_row \<Rightarrow> indexing_job" where
  "indexing_job_of now clock live pidAlive r =
    (let rec = st_rec r; lm = map_of live (a_archive_id rec) in
     \<lparr>ij_rec = rec, ij_elapsed = row_elapsed rec now clock, ij_source_fs = SourceFSLabel (a_archive_path rec),
      ij_pid_alive = pidAliveCheck pidAlive (a_mount_pid rec), ij_live_pid = map_option lm_pid lm,
      ij_phase = (case lm of Some m \<Rightarrow> lm_phase m | None \<Rightarrow> ''''), ij_label = progressLabel (st_status r) lm\<rparr>)"

text \<open>The stable sorts compare by these keys: the longest first, unknown times last; failures first,
  then by attempts.\<close>

definition elapsed_key :: "indexing_job \<Rightarrow> nat \<times> rat" where
  "elapsed_key j = (case ij_elapsed j of Some x \<Rightarrow> (0, - x) | None \<Rightarrow> (1, 0))"

definition BuildIndexingArchives ::
  "status_row list \<Rightarrow> rat \<Rightarrow> rat \<Rightarrow> (string \<times> live_mount) list \<Rightarrow> (int \<Rightarrow> bool) option \<Rightarrow> indexing_job list" where
  "BuildIndexingArchives rows now clock live pidAlive =
    sort_key elapsed_key (map (indexing_job_of now clock live pidAlive) (filter (\<lambda>r. isInProgress (st_status r)) rows))"

record error_entry =
  ee_rec :: archive
  ee_stuck :: bool

definition row_stuck :: "int \<Rightarrow> archive \<Rightarrow> bool" where
  "row_stuck maxAttempts rec \<longleftrightarrow> \<not> a_mount_retryable rec \<or> a_mount_attempts rec \<ge> maxAttempts"

definition error_key :: "error_entry \<Rightarrow> nat \<times> int" where
  "error_key e = (if isErrorStatus (status_str (a_status (ee_rec e))) then 0 else 1, - a_mount_attempts (ee_rec e))"

definition BuildErrorsRecent :: "status_row list \<Rightarrow> int \<Rightarrow> int \<Rightarrow> error_entry list" where
  "BuildErrorsRecent rows maxAttempts limit0 =
    (let limit = (if limit0 \<le> 0 then 20 else limit0) in
     take (nat limit) (sort_key error_key
       (map (\<lambda>r. \<lparr>ee_rec = st_rec r, ee_stuck = row_stuck maxAttempts (st_rec r)\<rparr>)
         (filter (\<lambda>r. isErrorStatus (st_status r) \<or> row_stuck maxAttempts (st_rec r)) rows))))"

subsection \<open>The document\<close>

type_synonym json_text = string

record status_options =
  op_version :: string
  op_pid :: int
  op_config_path :: path
  op_overlay_dir :: path
  op_index_dir :: path
  op_min_free :: int
  op_max_attempts :: int
  op_rows :: "status_row list"
  op_live :: "(string \<times> live_mount) list"
  op_last_scan :: "json_text option"
  op_scan_duration :: "rat option"
  op_last_cleanup :: "json_text option"
  op_last_scan_at :: string
  op_low_disk :: bool
  op_now :: rat
  op_clock :: rat
  op_pid_alive :: "(int \<Rightarrow> bool) option"
  op_free :: "(path \<Rightarrow> int \<times> bool) option"
  op_is_mount :: "(path \<Rightarrow> bool) option"
  op_include_sizes :: bool
  op_generated :: string
  op_utc :: string

record status_payload =
  pl_version :: string
  pl_pid :: int
  pl_config_path :: path
  pl_mounted :: nat
  pl_indexing :: nat
  pl_mounting :: nat
  pl_absent :: nat
  pl_mount_failed :: nat
  pl_index_failed :: nat
  pl_discovered :: nat
  pl_hooks_running :: nat
  pl_counts :: "(string \<times> nat) list"
  pl_indexing_archives :: "indexing_job list"
  pl_errors :: "error_entry list"
  pl_last_scan_at :: string
  pl_scan_duration :: "rat option"
  pl_last_scan :: "json_text option"
  pl_last_cleanup :: "json_text option"
  pl_disk_free :: "int option"
  pl_low_disk :: bool
  pl_min_free :: int
  pl_live :: "string list"
  pl_archives :: "status_dict list"
  pl_generated :: string
  pl_summary :: "summary option"

definition bump :: "string \<Rightarrow> (string \<times> nat) list \<Rightarrow> (string \<times> nat) list" where
  "bump k cs = (if k \<in> fst ` set cs then map (\<lambda>(k', n). (k', if k' = k then n + 1 else n)) cs else cs @ [(k, 1)])"

definition status_counts :: "status_row list \<Rightarrow> (string \<times> nat) list" where
  "status_counts rows = fold (\<lambda>r. bump (st_status r)) rows (map (\<lambda>k. (k, 0)) countStatusKeys)"

definition count_of :: "(string \<times> nat) list \<Rightarrow> string \<Rightarrow> nat" where
  "count_of cs k = (case map_of cs k of Some n \<Rightarrow> n | None \<Rightarrow> 0)"

definition free_probe :: "status_options \<Rightarrow> int option" where
  "free_probe opts =
    (case op_free opts of
       None \<Rightarrow> None
     | Some f \<Rightarrow>
        (let (n, ok) = f (op_overlay_dir opts); (n', ok') = (if \<not> ok \<or> n < 0 then f (op_index_dir opts) else (n, ok)) in
         if ok' then Some n' else None))"

definition mergeSizes :: "collector \<Rightarrow> int \<Rightarrow> mcache \<Rightarrow> status_payload \<Rightarrow> status_payload \<times> mcache" where
  "mergeSizes co now c p =
    (case GetAll co now False None c of
       (Inl _, c1) \<Rightarrow> (p, c1)
     | (Inr items, c1) \<Rightarrow>
        (let by_id = map_of (rev (map (\<lambda>m. (am_id m, m)) items));
             p1 = p\<lparr>pl_archives := map (\<lambda>d. case by_id (a_archive_id (sd_rec d)) of
                                           Some m \<Rightarrow> d\<lparr>sd_metrics := Some m\<rparr> | None \<Rightarrow> d) (pl_archives p)\<rparr> in
         case collector_Summary co now (Some items) False None c1 of
           (Inl _, c2) \<Rightarrow> (p1, c2)
         | (Inr sm, c2) \<Rightarrow> (p1\<lparr>pl_summary := Some sm\<rparr>, c2)))"

text \<open>\<open>provider\<close>: the metrics collector with the time of its cache, if the service has one.\<close>

definition Build :: "status_options \<Rightarrow> (collector \<times> int) option \<Rightarrow> mcache \<Rightarrow> status_payload \<times> mcache" where
  "Build opts provider c =
    (let now = (if op_now opts = 0 then op_clock opts else op_now opts); rows = op_rows opts; live = op_live opts;
         counts = status_counts rows;
         p = \<lparr>pl_version = op_version opts, pl_pid = op_pid opts, pl_config_path = op_config_path opts,
              pl_mounted = count_of counts ''mounted'', pl_indexing = count_of counts ''indexing'',
              pl_mounting = count_of counts ''mounting'', pl_absent = count_of counts ''absent'',
              pl_mount_failed = count_of counts ''mount_failed'', pl_index_failed = count_of counts ''index_failed'',
              pl_discovered = count_of counts ''discovered'', pl_hooks_running = count_of counts ''hooks_running'',
              pl_counts = counts,
              pl_indexing_archives = BuildIndexingArchives rows now (op_clock opts) live (op_pid_alive opts),
              pl_errors = BuildErrorsRecent rows (op_max_attempts opts) 20,
              pl_last_scan_at = op_last_scan_at opts, pl_scan_duration = op_scan_duration opts, pl_last_scan = op_last_scan opts,
              pl_last_cleanup = op_last_cleanup opts, pl_disk_free = free_probe opts, pl_low_disk = op_low_disk opts,
              pl_min_free = op_min_free opts, pl_live = sort (map fst live),
              pl_archives = map (\<lambda>r. ArchiveToDict r now (op_clock opts) live (op_pid_alive opts) (op_is_mount opts)) rows,
              pl_generated = (if op_generated opts = '''' then op_utc opts else op_generated opts), pl_summary = None\<rparr> in
     case provider of
       Some (co, t) \<Rightarrow> if op_include_sizes opts then mergeSizes co t c p else (p, c)
     | None \<Rightarrow> (p, c))"

subsection \<open>What the service feeds it\<close>

definition phase_str :: "EngineState.phase \<Rightarrow> string" where
  "phase_str ph = (case ph of EngineState.PhaseIndexOnly \<Rightarrow> ''index_only'' | EngineState.PhaseMount \<Rightarrow> ''mount'')"

definition live_mount_of :: "managed \<Rightarrow> live_mount" where
  "live_mount_of m =
    \<lparr>lm_pid = mm_pid m, lm_phase = phase_str (mm_phase m), lm_first_index = mm_first_index m, lm_skips = int (length (mm_skips m)),
     lm_skip_summary = (if mm_skips m = [] then '''' else FormatNestedSkipSummary (mm_skips m) 3)\<rparr>"

text \<open>A live child overrides the process id and the mount path of its row.\<close>

definition overlay_live :: "managed \<Rightarrow> status_row \<Rightarrow> status_row" where
  "overlay_live m r =
    (let rec = (st_rec r)\<lparr>a_mount_pid := Some (mm_pid m)\<rparr>; mp = mr_mount_path (mm_request m);
         r1 = r\<lparr>st_rec := (if mp \<noteq> '''' then rec\<lparr>a_mount_path := Some mp\<rparr> else rec)\<rparr> in
     if mm_skips m = [] then r1
     else r1\<lparr>st_skips := Some (int (length (mm_skips m))), st_skip_summary := FormatNestedSkipSummary (mm_skips m) 3\<rparr>)"

definition fallback_skips :: "status_row \<Rightarrow> status_row" where
  "fallback_skips r =
    (case (st_skips r, a_last_error (st_rec r)) of
       (None, Some err) \<Rightarrow>
         (let (sm, n) = ExtractNestedSkipSummary err in if n > 0 then r\<lparr>st_skips := Some (int n), st_skip_summary := sm\<rparr> else r)
     | _ \<Rightarrow> r)"

definition status_row_of :: "engine \<Rightarrow> archive \<Rightarrow> status_row" where
  "status_row_of e rec =
    (let r = FromStateRecord rec in
     fallback_skips (case find (\<lambda>m. mm_archive_id m = a_archive_id rec) (en_live e) of Some m \<Rightarrow> overlay_live m r | None \<Rightarrow> r))"

definition status_rows :: "engine \<Rightarrow> status_row list" where
  "status_rows e = map (status_row_of e) (all_archives (en_store e))"

text \<open>\<open>docs\<close>: the maps the last scan and the last cleanup left, and the duration in the former.\<close>

definition statusOptions ::
  "service_host \<Rightarrow> string \<Rightarrow> int \<Rightarrow> json_text option \<times> rat option \<times> json_text option \<Rightarrow> bool \<Rightarrow> service \<Rightarrow> status_options" where
  "statusOptions sh version pid docs includeSizes sv =
    (let cfg = sv_cfg sv; e = sv_eng sv; w = en_world e in
     \<lparr>op_version = version, op_pid = pid, op_config_path = c_config_path cfg, op_overlay_dir = c_overlay_dir cfg,
      op_index_dir = c_index_dir cfg, op_min_free = c_min_free_bytes cfg, op_max_attempts = c_max_mount_attempts cfg,
      op_rows = status_rows e, op_live = map (\<lambda>m. (mm_archive_id m, live_mount_of m)) (en_live e),
      op_last_scan = fst docs, op_scan_duration = fst (snd docs), op_last_cleanup = snd (snd docs),
      op_last_scan_at = sv_scan_iso sv, op_low_disk = sv_low_disk sv, op_now = sh_now sh, op_clock = sh_now sh,
      op_pid_alive = Some (\<lambda>pid. pid > 0 \<and> pid_alive w pid),
      op_free = Some (\<lambda>p. case diskFreeBytes (sh_cleaner sh) w p of Some n \<Rightarrow> (n, True) | None \<Rightarrow> (0, False)),
      op_is_mount = Some (is_mount w), op_include_sizes = includeSizes, op_generated = '''', op_utc = sh_utc sh\<rparr>)"

definition StatusPayloadOpts ::
  "service_host \<Rightarrow> string \<Rightarrow> int \<Rightarrow> json_text option \<times> rat option \<times> json_text option \<Rightarrow> (collector \<times> int) option \<Rightarrow> bool \<Rightarrow> mcache
    \<Rightarrow> service \<Rightarrow> status_payload \<times> mcache" where
  "StatusPayloadOpts sh version pid docs provider includeSizes c sv = Build (statusOptions sh version pid docs includeSizes sv) provider c"

end
