(* ===== verification/StatusProps.thy ===== *)
theory StatusProps
  imports StatusDoc ServiceProps
begin

text \<open>
  The status document accounts for every archive: each row once, the counts of the statuses, all
  jobs in progress with the longest first, and the recent errors with the failures first.
\<close>

subsection \<open>What the service adds to a row\<close>

lemma FromStateRecord_rec [simp]: "st_rec (FromStateRecord rec) = rec" "st_skips (FromStateRecord rec) = None"
  by (simp_all add: FromStateRecord_def)

lemma overlay_live_rec [simp]:
  "a_archive_id (st_rec (overlay_live m r)) = a_archive_id (st_rec r)" "a_status (st_rec (overlay_live m r)) = a_status (st_rec r)"
  "a_mount_attempts (st_rec (overlay_live m r)) = a_mount_attempts (st_rec r)"
  "a_mount_retryable (st_rec (overlay_live m r)) = a_mount_retryable (st_rec r)"
  by (simp_all add: overlay_live_def Let_def)

lemma fallback_skips_rec [simp]: "st_rec (fallback_skips r) = st_rec r"
  by (simp add: fallback_skips_def split: option.split prod.split)

lemma status_row_of_rec [simp]:
  "a_archive_id (st_rec (status_row_of e rec)) = a_archive_id rec" "a_status (st_rec (status_row_of e rec)) = a_status rec"
  "a_mount_attempts (st_rec (status_row_of e rec)) = a_mount_attempts rec"
  "a_mount_retryable (st_rec (status_row_of e rec)) = a_mount_retryable rec"
  by (simp_all add: status_row_of_def Let_def split: option.split)

subsection \<open>Counts\<close>

lemma bump_keys: "k \<in> fst ` set cs \<Longrightarrow> map fst (bump k cs) = map fst cs"
  by (simp add: bump_def comp_def split_beta)

lemma bump_count: "k \<in> fst ` set cs \<Longrightarrow> count_of (bump k cs) k' = count_of cs k' + (if k' = k then 1 else 0)"
proof -
  assume k: "k \<in> fst ` set cs"
  have upd: "map_of (map (\<lambda>(k', n). (k', if k' = k then n + 1 else n)) xs) k' = map_option (\<lambda>n. if k' = k then n + 1 else n) (map_of xs k')"
    for xs :: "(string \<times> nat) list" by (induction xs) auto
  obtain n where "map_of cs k = Some n" using k by (metis map_of_eq_None_iff not_None_eq)
  then show ?thesis using k by (cases "map_of cs k'") (auto simp: bump_def count_of_def upd)
qed

lemma bump_sum: "distinct (map fst cs) \<Longrightarrow> k \<in> fst ` set cs \<Longrightarrow> sum_list (map snd (bump k cs)) = Suc (sum_list (map snd cs))"
proof -
  assume d: "distinct (map fst cs)" and k: "k \<in> fst ` set cs"
  have "k \<notin> fst ` set xs \<Longrightarrow> sum_list (map (snd \<circ> (\<lambda>(k', n). (k', if k' = k then n + 1 else n))) xs) = sum_list (map snd xs)"
    for xs :: "(string \<times> nat) list" by (induction xs) auto
  note other = this
  have "sum_list (map (snd \<circ> (\<lambda>(k', n). (k', if k' = k then n + 1 else n))) cs) = Suc (sum_list (map snd cs))"
    using d k
  proof (induction cs)
    case (Cons c cs)
    show ?case
    proof (cases "fst c = k")
      case True
      then show ?thesis using Cons.prems other [of cs] by (simp add: split_beta comp_def)
    next
      case False
      then show ?thesis using Cons by (simp add: split_beta)
    qed
  qed simp
  then show ?thesis using k by (simp add: bump_def)
qed

lemma countStatusKeys_all: "status_str st \<in> set countStatusKeys"
  by (cases st) (simp_all add: countStatusKeys_def)

lemma bumps:
  assumes "distinct (map fst cs)" "set countStatusKeys \<subseteq> fst ` set cs"
  shows "count_of (fold (\<lambda>r. bump (st_status r)) rows cs) k = count_of cs k + length (filter (\<lambda>r. st_status r = k) rows)
    \<and> sum_list (map snd (fold (\<lambda>r. bump (st_status r)) rows cs)) = sum_list (map snd cs) + length rows"
  using assms
proof (induction rows arbitrary: cs)
  case (Cons r rows)
  have k: "st_status r \<in> fst ` set cs" using Cons.prems(2) countStatusKeys_all by blast
  have keys: "map fst (bump (st_status r) cs) = map fst cs" by (rule bump_keys [OF k])
  then have "fst ` set (bump (st_status r) cs) = fst ` set cs" by (metis list.set_map)
  then show ?case
    using Cons.IH [of "bump (st_status r) cs"] Cons.prems keys bump_count [OF k] bump_sum [OF Cons.prems(1) k] by auto
qed simp

lemma status_counts_exact:
  "count_of (status_counts rows) k = length (filter (\<lambda>r. st_status r = k) rows)"
  "sum_list (map snd (status_counts rows)) = length rows"
proof -
  let ?cs = "map (\<lambda>k. (k, 0 :: nat)) countStatusKeys"
  have "distinct (map fst ?cs)" by (simp add: comp_def countStatusKeys_def)
  moreover have "set countStatusKeys \<subseteq> fst ` set ?cs" by (auto simp: image_iff)
  moreover have "count_of ?cs k = 0" by (simp add: count_of_def countStatusKeys_def)
  moreover have "sum_list (map snd ?cs) = 0" by (simp add: countStatusKeys_def)
  ultimately show "count_of (status_counts rows) k = length (filter (\<lambda>r. st_status r = k) rows)"
    "sum_list (map snd (status_counts rows)) = length rows"
    using bumps [of ?cs rows k] by (simp_all add: status_counts_def)
qed

subsection \<open>The lists\<close>

lemma ArchiveToDict_rec [simp]: "sd_rec (ArchiveToDict r now clock live pa im) = st_rec r"
  by (simp add: ArchiveToDict_def Let_def split: option.split)

definition longer_first :: "indexing_job \<Rightarrow> indexing_job \<Rightarrow> bool" where
  "longer_first i j \<longleftrightarrow> (case (ij_elapsed i, ij_elapsed j) of (Some a, Some b) \<Rightarrow> b \<le> a | (None, Some _) \<Rightarrow> False | _ \<Rightarrow> True)"

lemma elapsed_key_order: "elapsed_key i \<le> elapsed_key j \<longleftrightarrow> longer_first i j"
  by (auto simp: elapsed_key_def longer_first_def less_eq_prod_def split: option.split)

lemma jobs_sorted: "sorted_wrt longer_first (BuildIndexingArchives rows now clock live pa)"
proof -
  have "sorted (map elapsed_key (BuildIndexingArchives rows now clock live pa))" by (simp add: BuildIndexingArchives_def)
  then show ?thesis by (simp add: sorted_map elapsed_key_order)
qed

lemma ij_rec_of [simp]: "ij_rec (indexing_job_of now clock live pa r) = st_rec r"
  by (simp add: indexing_job_of_def Let_def)

lemma jobs_all:
  "mset (map ij_rec (BuildIndexingArchives rows now clock live pa)) = mset (map st_rec (filter (\<lambda>r. isInProgress (st_status r)) rows))"
proof -
  have "mset (map ij_rec (BuildIndexingArchives rows now clock live pa))
      = image_mset ij_rec (mset (map (indexing_job_of now clock live pa) (filter (\<lambda>r. isInProgress (st_status r)) rows)))"
    by (simp only: BuildIndexingArchives_def mset_map mset_sort)
  also have "\<dots> = mset (map st_rec (filter (\<lambda>r. isInProgress (st_status r)) rows))"
    by (simp add: multiset.map_comp comp_def)
  finally show ?thesis .
qed

text \<open>Failures before archives that are merely stuck, then the more attempts the earlier.\<close>

definition worse :: "error_entry \<Rightarrow> error_entry \<Rightarrow> bool" where
  "worse a b \<longleftrightarrow>
    (let fa = isErrorStatus (status_str (a_status (ee_rec a))); fb = isErrorStatus (status_str (a_status (ee_rec b))) in
     fa \<and> \<not> fb \<or> fa = fb \<and> a_mount_attempts (ee_rec b) \<le> a_mount_attempts (ee_rec a))"

lemma error_key_order: "error_key a \<le> error_key b \<longleftrightarrow> worse a b"
  by (auto simp: error_key_def worse_def less_eq_prod_def Let_def)

lemma take_sorted:
  assumes "sorted_wrt R s" "e \<in> set s" "e \<notin> set (take n s)"
  shows "length (take n s) = n \<and> (\<forall>x \<in> set (take n s). R x e)"
proof -
  obtain i where i: "i < length s" "s ! i = e" using assms(2) by (auto simp: in_set_conv_nth)
  have "n \<le> i"
  proof (rule ccontr)
    assume "\<not> n \<le> i"
    then have "take n s ! i = e" "i < length (take n s)" using i by auto
    then show False using assms(3) nth_mem by blast
  qed
  then show ?thesis using i assms(1) by (auto simp: in_set_conv_nth sorted_wrt_iff_nth_less)
qed

lemma errors_complete:
  fixes rows maxAttempts
  defines "es \<equiv> BuildErrorsRecent rows maxAttempts 20"
  assumes r: "r \<in> set rows" "isErrorStatus (st_status r) \<or> row_stuck maxAttempts (st_rec r)"
  shows "\<exists>e. ee_rec e = st_rec r \<and> (e \<in> set es \<or> length es = 20 \<and> (\<forall>e' \<in> set es. worse e' e))"
proof -
  let ?all = "map (\<lambda>r. \<lparr>ee_rec = st_rec r, ee_stuck = row_stuck maxAttempts (st_rec r)\<rparr>)
    (filter (\<lambda>r. isErrorStatus (st_status r) \<or> row_stuck maxAttempts (st_rec r)) rows)"
  let ?s = "sort_key error_key ?all" and ?e = "\<lparr>ee_rec = st_rec r, ee_stuck = row_stuck maxAttempts (st_rec r)\<rparr>"
  have es: "es = take 20 ?s" by (simp add: es_def BuildErrorsRecent_def)
  have "?e \<in> set ?all" using r by auto
  then have e: "?e \<in> set ?s" by simp
  have "sorted (map error_key ?s)" by simp
  then have sorted: "sorted_wrt worse ?s" by (simp add: sorted_map error_key_order)
  show ?thesis
  proof (cases "?e \<in> set es")
    case False
    then have "length es = 20 \<and> (\<forall>e' \<in> set es. worse e' ?e)" using take_sorted [OF sorted e, of 20] unfolding es by blast
    then show ?thesis by (intro exI [of _ ?e]) simp
  qed (intro exI [of _ ?e], simp)
qed

lemma errors_listed:
  assumes "e \<in> set (BuildErrorsRecent rows maxAttempts 20)"
  shows "\<exists>r \<in> set rows. ee_rec e = st_rec r \<and> (isErrorStatus (st_status r) \<or> row_stuck maxAttempts (st_rec r))"
proof -
  have "set (BuildErrorsRecent rows maxAttempts 20)
      \<subseteq> set (map (\<lambda>r. \<lparr>ee_rec = st_rec r, ee_stuck = row_stuck maxAttempts (st_rec r)\<rparr>)
        (filter (\<lambda>r. isErrorStatus (st_status r) \<or> row_stuck maxAttempts (st_rec r)) rows))"
    unfolding BuildErrorsRecent_def Let_def by (rule subset_trans [OF set_take_subset]) simp
  then have "e \<in> set (map (\<lambda>r. \<lparr>ee_rec = st_rec r, ee_stuck = row_stuck maxAttempts (st_rec r)\<rparr>)
      (filter (\<lambda>r. isErrorStatus (st_status r) \<or> row_stuck maxAttempts (st_rec r)) rows))" using assms by (rule subsetD)
  then show ?thesis by auto
qed

subsection \<open>The document\<close>

lemma mergeSizes_keeps:
  "pl_counts (fst (mergeSizes co t c p)) = pl_counts p" "pl_indexing_archives (fst (mergeSizes co t c p)) = pl_indexing_archives p"
  "pl_errors (fst (mergeSizes co t c p)) = pl_errors p"
  "map (\<lambda>d. a_archive_id (sd_rec d)) (pl_archives (fst (mergeSizes co t c p))) = map (\<lambda>d. a_archive_id (sd_rec d)) (pl_archives p)"
  by (auto simp: mergeSizes_def Let_def split: prod.split sum.split option.split)


lemma Build_fields:
  fixes opts provider c
  defines "p \<equiv> fst (Build opts provider c)" and "now \<equiv> (if op_now opts = 0 then op_clock opts else op_now opts)"
  shows "pl_counts p = status_counts (op_rows opts)"
    "pl_indexing_archives p = BuildIndexingArchives (op_rows opts) now (op_clock opts) (op_live opts) (op_pid_alive opts)"
    "pl_errors p = BuildErrorsRecent (op_rows opts) (op_max_attempts opts) 20"
    "map (\<lambda>d. a_archive_id (sd_rec d)) (pl_archives p) = map (\<lambda>r. a_archive_id (st_rec r)) (op_rows opts)"
  by (simp_all add: p_def now_def Build_def Let_def mergeSizes_keeps comp_def split: option.split prod.split)

text \<open>C32. The status document accounts for every archive. Whatever the service is doing, the count of each status
  is the number of rows in it, and the counts sum up to the number of archives; every archive appears
  once, in the order of the store; the jobs in progress are exactly the rows that are converting,
  indexing or mounting, the longest first; the recent errors are failed rows or rows that will not be
  tried again, and such a row is only missing when twenty at least as bad are listed.\<close>

theorem status_accounts:
  fixes sh version pid docs provider sizes c sv
  defines "p \<equiv> fst (StatusPayloadOpts sh version pid docs provider sizes c sv)" and "rows \<equiv> all_archives (sv_store sv)"
  shows "(\<forall>st. count_of (pl_counts p) (status_str st) = length (filter (\<lambda>rec. a_status rec = st) rows))
    \<and> sum_list (map snd (pl_counts p)) = length rows
    \<and> map (\<lambda>d. a_archive_id (sd_rec d)) (pl_archives p) = map a_archive_id rows
    \<and> mset (map (\<lambda>j. a_archive_id (ij_rec j)) (pl_indexing_archives p))
        = mset (map a_archive_id (filter (\<lambda>rec. a_status rec \<in> {StatusConverting, StatusIndexing, StatusMounting}) rows))
    \<and> sorted_wrt longer_first (pl_indexing_archives p)
    \<and> (\<forall>rec \<in> set rows. a_status rec \<in> {StatusIndexFailed, StatusMountFailed} \<or> row_stuck (c_max_mount_attempts (sv_cfg sv)) rec \<longrightarrow>
         (\<exists>e. a_archive_id (ee_rec e) = a_archive_id rec
            \<and> (e \<in> set (pl_errors p) \<or> length (pl_errors p) = 20 \<and> (\<forall>e' \<in> set (pl_errors p). worse e' e))))
    \<and> (\<forall>e \<in> set (pl_errors p). \<exists>rec \<in> set rows. a_archive_id (ee_rec e) = a_archive_id rec
         \<and> (a_status rec \<in> {StatusIndexFailed, StatusMountFailed} \<or> row_stuck (c_max_mount_attempts (sv_cfg sv)) rec))"
proof -
  let ?opts = "statusOptions sh version pid docs sizes sv" and ?max = "c_max_mount_attempts (sv_cfg sv)"
  note fields = Build_fields [of ?opts provider c, folded StatusPayloadOpts_def p_def]
  have opts: "op_rows ?opts = map (status_row_of (sv_eng sv)) rows" "op_max_attempts ?opts = ?max"
    by (simp_all add: statusOptions_def Let_def status_rows_def rows_def)
  have err: "isErrorStatus (status_str st) \<longleftrightarrow> st \<in> {StatusIndexFailed, StatusMountFailed}" for st
    by (cases st) (simp_all add: isErrorStatus_def errorStatuses_def)
  have prog: "isInProgress (status_str st) \<longleftrightarrow> st \<in> {StatusConverting, StatusIndexing, StatusMounting}" for st
    by (cases st) (simp_all add: isInProgress_def inProgressStatuses_def)
  have stuck: "row_stuck ?max (st_rec (status_row_of (sv_eng sv) rec)) = row_stuck ?max rec" for rec by (simp add: row_stuck_def)
  have inj: "(status_str st = status_str st') = (st = st')" for st st' by (cases st; cases st') simp_all
  have "count_of (pl_counts p) (status_str st) = length (filter (\<lambda>rec. a_status rec = st) rows)" for st
    by (simp add: fields opts status_counts_exact filter_map comp_def inj)
  moreover have "sum_list (map snd (pl_counts p)) = length rows" by (simp add: fields opts status_counts_exact)
  moreover have "map (\<lambda>d. a_archive_id (sd_rec d)) (pl_archives p) = map a_archive_id rows" by (simp add: fields opts comp_def)
  moreover have "mset (map (\<lambda>j. a_archive_id (ij_rec j)) (pl_indexing_archives p))
        = mset (map a_archive_id (filter (\<lambda>rec. a_status rec \<in> {StatusConverting, StatusIndexing, StatusMounting}) rows))"
  proof -
    have "mset (map (\<lambda>j. a_archive_id (ij_rec j)) (pl_indexing_archives p)) = image_mset a_archive_id (mset (map ij_rec (pl_indexing_archives p)))"
      by (simp add: multiset.map_comp comp_def)
    also have "mset (map ij_rec (pl_indexing_archives p)) = mset (map st_rec (filter (\<lambda>r. isInProgress (st_status r)) (op_rows ?opts)))"
      unfolding fields by (rule jobs_all)
    finally show ?thesis unfolding opts by (simp add: filter_map comp_def prog multiset.map_comp)
  qed
  moreover have "sorted_wrt longer_first (pl_indexing_archives p)" unfolding fields by (rule jobs_sorted)
  moreover have "\<exists>e. a_archive_id (ee_rec e) = a_archive_id rec
      \<and> (e \<in> set (pl_errors p) \<or> length (pl_errors p) = 20 \<and> (\<forall>e' \<in> set (pl_errors p). worse e' e))"
    if "rec \<in> set rows" "a_status rec \<in> {StatusIndexFailed, StatusMountFailed} \<or> row_stuck ?max rec" for rec
  proof -
    let ?r = "status_row_of (sv_eng sv) rec"
    have "?r \<in> set (op_rows ?opts)" "isErrorStatus (st_status ?r) \<or> row_stuck ?max (st_rec ?r)"
      using that by (simp_all add: opts err stuck)
    from errors_complete [OF this] obtain e where e: "ee_rec e = st_rec ?r"
      "e \<in> set (pl_errors p) \<or> length (pl_errors p) = 20 \<and> (\<forall>e' \<in> set (pl_errors p). worse e' e)"
      unfolding fields opts(2) by blast
    then have "a_archive_id (ee_rec e) = a_archive_id rec" by simp
    then show ?thesis using e(2) by blast
  qed
  moreover have "\<exists>rec \<in> set rows. a_archive_id (ee_rec e) = a_archive_id rec
      \<and> (a_status rec \<in> {StatusIndexFailed, StatusMountFailed} \<or> row_stuck ?max rec)" if "e \<in> set (pl_errors p)" for e
  proof -
    have "e \<in> set (BuildErrorsRecent (op_rows ?opts) ?max 20)" using that unfolding fields opts(2) .
    from errors_listed [OF this] obtain r where "r \<in> set (op_rows ?opts)" "ee_rec e = st_rec r"
      "isErrorStatus (st_status r) \<or> row_stuck ?max (st_rec r)" by blast
    then obtain rec where "rec \<in> set rows" "ee_rec e = st_rec (status_row_of (sv_eng sv) rec)"
      "isErrorStatus (status_str (a_status rec)) \<or> row_stuck ?max rec"
      unfolding opts by (auto simp: stuck)
    then show ?thesis unfolding err by (intro bexI [of _ rec]) simp_all
  qed
  ultimately show ?thesis by blast
qed

theorem status_accounts_witness:
  "map (\<lambda>d. a_archive_id (sd_rec d))
     (pl_archives (fst (StatusPayloadOpts sample_service_host ''1'' 7 (None, None, None) None False (NewCache 30) sample_idle))) = [''x'']"
proof -
  have "map a_archive_id (all_archives (sv_store sample_idle)) = [''x'']" by code_simp
  then show ?thesis
    using status_accounts [of sample_service_host "''1''" 7 "(None, None, None)" None False "NewCache 30" sample_idle] by simp
qed

end
