(* ===== verification/Control.thy ===== *)
theory Control
  imports ServiceProps Metrics
begin

text \<open>
  The control plane of src/internal/control: the request line (server.go), its parser
  (protocol.go), the authorization of the peer (auth.go) and the handling of one connection, on top
  of the dispatcher of the service.  The JSON decoder is an argument; what it returns is a value of
  \<open>json\<close>, with the keys of an object distinct.  Both users of the decoder, this one and the HTTP
  API, call UseNumber, so that numbers arrive as json.Number.
\<close>

subsection \<open>Documents\<close>

datatype json = JsNull | JsBool bool | JsNumber string | JsString string | JsArray "json list" | JsObject "(string \<times> json) list"

text \<open>
  The dynamic type of a decoded value as the configuration sees it: json.Number is a type of its
  own that none of its type switches has.
\<close>

fun json_yval :: "json \<Rightarrow> yval" where
  "json_yval JsNull = YNull"
| "json_yval (JsBool b) = YBool b"
| "json_yval (JsNumber s) = YOther s"
| "json_yval (JsString s) = YStr s"
| "json_yval (JsArray xs) = YList (map json_yval xs)"
| "json_yval (JsObject fs) = YOther ''map''"

definition json_raw :: "(string \<times> json) list \<Rightarrow> raw" where
  "json_raw fs = map (\<lambda>(k, v). (k, json_yval v)) fs"

text \<open>json.Number.Int64 is strconv.ParseInt of the text.\<close>

fun json_arg :: "json \<Rightarrow> arg" where
  "json_arg JsNull = ANull"
| "json_arg (JsBool b) = ABool b"
| "json_arg (JsNumber s) = ANum (parse_int64 s)"
| "json_arg (JsString s) = AStr s"
| "json_arg (JsArray xs) = AOther"
| "json_arg (JsObject fs) = AMap (json_raw fs)"

definition json_request :: "(string \<times> json) list \<Rightarrow> request" where
  "json_request fs = map (\<lambda>(k, v). (k, json_arg v)) fs"

subsection \<open>Requests\<close>

text \<open>A control error: its message and its code.\<close>

datatype control_error = CtlError string string

type_synonym decoder = "string \<Rightarrow> string + json"

fun version_of :: "arg option \<Rightarrow> int option" where
  "version_of None = Some 1"
| "version_of (Some (ANum (Some n))) = Some n"
| "version_of (Some _) = None"

definition ParseRequest :: "decoder \<Rightarrow> string \<Rightarrow> control_error + request" where
  "ParseRequest dec line0 =
    (let line = trim_space line0 in
     if line = '''' then Inl (CtlError ''empty request'' ''BAD_REQUEST'')
     else (case dec line of
        Inl e \<Rightarrow> Inl (CtlError (''invalid JSON: '' @ e) ''BAD_REQUEST'')
      | Inr (JsObject fs) \<Rightarrow>
         (let req = json_request fs; op = str_arg (map_of req ''op'') in
          if version_of (map_of req ''v'') \<noteq> Some 1 then Inl (CtlError ''unsupported protocol version'' ''UNSUPPORTED_VERSION'')
          else if trim_space op = '''' then Inl (CtlError ''missing op'' ''BAD_REQUEST'')
          else Inr ((''v'', ANum (Some 1)) # (''op'', AStr op) # req))
      | Inr _ \<Rightarrow> Inl (CtlError ''request must be a JSON object'' ''BAD_REQUEST'')))"

subsection \<open>Authorization\<close>

text \<open>
  The system databases behind os/user: the gid of a group, the primary and supplementary groups of
  a user.
\<close>

record user_db =
  ud_group :: "string \<Rightarrow> string option"
  ud_primary :: "int \<Rightarrow> string option"
  ud_groups :: "int \<Rightarrow> string list option"

definition UserInGroup :: "user_db \<Rightarrow> int \<Rightarrow> string \<Rightarrow> bool" where
  "UserInGroup db uid grp =
    (if uid = 0 then True
     else if grp = '''' then False
     else (case ud_group db grp of
        None \<Rightarrow> False
      | Some want \<Rightarrow>
         (case ud_primary db uid of
            None \<Rightarrow> False
          | Some gid \<Rightarrow>
             (if gid = want then True
              else (case ud_groups db uid of None \<Rightarrow> False | Some ids \<Rightarrow> want \<in> set ids)))))"

definition DefaultAuthGroup :: string where
  "DefaultAuthGroup = ''mount-wrapper''"

record auth_opts =
  au_allow_all :: bool
  au_group :: string
  au_users :: user_db
  au_allow_unauth :: bool

text \<open>\<open>peer\<close> is the uid the kernel reports for the socket, if it does.\<close>

definition AuthorizePeer :: "auth_opts \<Rightarrow> int option \<Rightarrow> bool \<times> string" where
  "AuthorizePeer opts peer =
    (if au_allow_all opts then (True, ''auth_disabled'')
     else (let grp = (if au_group opts = '''' then DefaultAuthGroup else au_group opts) in
       case peer of
         None \<Rightarrow> (if au_allow_unauth opts then (True, ''MOUNT_WRAPPER_CONTROL_ALLOW_UNAUTH'') else (False, ''peer credentials unavailable''))
       | Some uid \<Rightarrow>
          (if uid = 0 then (True, ''root'')
           else if UserInGroup (au_users opts) uid grp then (True, ''group:'' @ grp)
           else (False, ''uid '' @ itoa uid @ '' is not root or in group '' @ grp))))"

subsection \<open>One connection\<close>

text \<open>How the stream ends after its bytes.\<close>

datatype stream_end = StreamEOF | StreamTimeout | StreamBroken

datatype line_error = LineEOF | LineTimeout | LineBroken | LineTooLarge

definition MaxRequestBytes :: nat where
  "MaxRequestBytes = 1000000"

definition chomp_cr :: "string \<Rightarrow> string" where
  "chomp_cr s = (if s \<noteq> '''' \<and> last s = CHR 0x0D then butlast s else s)"

text \<open>
  The size is checked after each chunk, so the line is too large exactly when its bytes with the
  newline, or all bytes when there is none, exceed the bound.
\<close>

definition readRequestLine :: "nat \<Rightarrow> string \<Rightarrow> stream_end \<Rightarrow> line_error + string" where
  "readRequestLine maxBytes bytes fin =
    (let line = takeWhile (\<lambda>c. c \<noteq> CHR 0x0A) bytes; found = (CHR 0x0A \<in> set bytes) in
     if found then (if length line + 1 > maxBytes then Inl LineTooLarge else Inr (chomp_cr line))
     else if length bytes > maxBytes then Inl LineTooLarge
     else (case fin of
        StreamEOF \<Rightarrow> if bytes = '''' then Inl LineEOF else Inr bytes
      | StreamTimeout \<Rightarrow> Inl LineTimeout
      | StreamBroken \<Rightarrow> Inl LineBroken))"

definition permission_denied :: "auth_opts \<Rightarrow> string \<Rightarrow> response" where
  "permission_denied opts why =
    ErrResponse (Message (''permission denied: user must be root or in group ''
       @ (if au_group opts = '''' then DefaultAuthGroup else au_group opts) @ '' ('' @ why @ '')'')) ''PERMISSION_DENIED''"

text \<open>
  The response written, if any, and what became of the service.  \<open>handler\<close> is the dispatcher; the
  recovery from a panic of the handler has no counterpart, the handler of the model being total.
\<close>

definition handleConnection ::
  "auth_opts \<Rightarrow> decoder \<Rightarrow> (request \<Rightarrow> 's \<Rightarrow> response \<times> 's) \<Rightarrow> int option \<Rightarrow> string \<Rightarrow> stream_end \<Rightarrow> 's \<Rightarrow> response option \<times> 's" where
  "handleConnection opts dec handler peer bytes fin s =
    (case readRequestLine MaxRequestBytes bytes fin of
       Inl LineTooLarge \<Rightarrow> (Some (ErrResponse (Message ''request too large'') ''BAD_REQUEST''), s)
     | Inl _ \<Rightarrow> (None, s)
     | Inr line \<Rightarrow>
        (if line = '''' then (None, s)
         else (let (allowed, why) = AuthorizePeer opts peer in
           if \<not> allowed then (Some (permission_denied opts why), s)
           else (case ParseRequest dec line of
              Inl (CtlError msg code) \<Rightarrow> (Some (ErrResponse (Message msg) code), s)
            | Inr req \<Rightarrow> (let (resp, s') = handler req s in (Some resp, s'))))))"

text \<open>ServeReady: the connections that are pending, one after the other.\<close>

type_synonym connection = "int option \<times> string \<times> stream_end"

fun ServeReady ::
  "auth_opts \<Rightarrow> decoder \<Rightarrow> (request \<Rightarrow> 's \<Rightarrow> response \<times> 's) \<Rightarrow> connection list \<Rightarrow> 's \<Rightarrow> response option list \<times> 's" where
  "ServeReady opts dec handler [] s = ([], s)"
| "ServeReady opts dec handler ((peer, bytes, fin) # cs) s =
    (let (r, s1) = handleConnection opts dec handler peer bytes fin s; (rs, s2) = ServeReady opts dec handler cs s1 in
     (r # rs, s2))"

end
