(* ===== verification/Http.thy ===== *)
theory Http
  imports Control
begin

text \<open>
  The HTTP API of src/internal/api: authentication (auth.go), the limiter of destructive actions
  (ratelimit.go), the handlers that turn a request into a control operation (handlers.go,
  jsonutil.go), the routes (server.go) and the pages of the web interface (static.go).  net/http
  parses the request; its fields are those of \<open>http_request\<close>, and its mux redirects a path that
  is not clean before a handler sees it.  The documents that health, doctor,
  wsl-info, archives, events and metrics assemble are not built: they only read, and their bodies
  are \<open>HDocument\<close> with the path.
\<close>

subsection \<open>Requests and replies\<close>

text \<open>\<open>BadBody\<close>: what the decoder of the body reports; an empty body is the empty object.\<close>

datatype http_body = BodyEmpty | BodyTooLarge | BadBody string | BodyJson json

record http_request =
  hq_method :: string
  hq_path :: string
  hq_remote :: string
  hq_auth :: string
  hq_query :: "(string \<times> string) list"
  hq_body :: http_body

datatype http_data =
    HData payload | HError reason string | HText string | HDocument string | HIndex "string option" | HAsset string
  | HNotFound

type_synonym http_reply = "int \<times> http_data"

definition query_get :: "http_request \<Rightarrow> string \<Rightarrow> string" where
  "query_get r k = (case map_of (hq_query r) k of Some v \<Rightarrow> v | None \<Rightarrow> '''')"

definition http_error :: "int \<Rightarrow> string \<Rightarrow> string \<Rightarrow> http_reply" where
  "http_error status msg code = (status, HError (Message msg) code)"

definition method_not_allowed :: http_reply where
  "method_not_allowed = http_error 405 ''method not allowed'' ''BAD_REQUEST''"

fun unwrapControl :: "response \<Rightarrow> http_reply" where
  "unwrapControl (OKResponse p) = (200, HData p)"
| "unwrapControl (ErrResponse msg code0) =
    (let code = (if code0 = '''' then ''ERROR'' else code0); why = (if msg = Message '''' then Message ''request failed'' else msg) in
     (if code = ''UNAVAILABLE'' then 503 else if code = ''PERMISSION_DENIED'' then 403 else if code = ''NOT_FOUND'' then 404 else 400,
      HError why code))"

definition readJSONObject :: "http_body \<Rightarrow> (int \<times> string) + (string \<times> json) list" where
  "readJSONObject b =
    (case b of
       BodyEmpty \<Rightarrow> Inr []
     | BodyTooLarge \<Rightarrow> Inl (413, ''request body too large'')
     | BadBody e \<Rightarrow> Inl (400, ''invalid JSON: '' @ e)
     | BodyJson (JsObject fs) \<Rightarrow> Inr fs
     | BodyJson JsNull \<Rightarrow> Inr []
     | BodyJson _ \<Rightarrow> Inl (400, ''invalid JSON: cannot unmarshal''))"

definition true_words :: "string list" where
  "true_words = [''1'', ''true'', ''True'', ''TRUE'', ''yes'', ''on'']"

definition false_words :: "string list" where
  "false_words = [''0'', ''false'', ''False'', ''FALSE'', ''no'', ''off'', '''']"

definition asBool :: "json option \<Rightarrow> bool \<Rightarrow> bool" where
  "asBool v def =
    (case v of
       Some (JsBool b) \<Rightarrow> b
     | Some (JsString s) \<Rightarrow> if s \<in> set true_words then True else if s \<in> set false_words then False else def
     | Some (JsNumber n) \<Rightarrow> (case parse_int64 n of Some i \<Rightarrow> i \<noteq> 0 | None \<Rightarrow> def)
     | _ \<Rightarrow> def)"

fun asString :: "json option \<Rightarrow> string" where
  "asString (Some (JsString s)) = s"
| "asString _ = ''''"

subsection \<open>Authentication\<close>

definition bearer :: "string \<Rightarrow> string \<Rightarrow> bool" where
  "bearer auth tok \<longleftrightarrow> auth = ''Bearer '' @ tok
     \<or> has_prefix auth ''Bearer '' \<and> trim_space (drop (length ''Bearer '') auth) = tok"

definition checkToken :: "string \<Rightarrow> http_request \<Rightarrow> bool" where
  "checkToken tok r = (if tok = '''' then True else bearer (hq_auth r) tok \<or> query_get r ''token'' = tok)"

text \<open>net.SplitHostPort, and the address without its port.\<close>

definition index_of :: "char \<Rightarrow> string \<Rightarrow> nat option" where
  "index_of c s = (if c \<in> set s then Some (length (takeWhile (\<lambda>x. x \<noteq> c) s)) else None)"

definition last_index_of :: "char \<Rightarrow> string \<Rightarrow> nat option" where
  "last_index_of c s = map_option (\<lambda>i. length s - 1 - i) (index_of c (rev s))"

definition SplitHostPort :: "string \<Rightarrow> (string \<times> string) option" where
  "SplitHostPort s =
    (case last_index_of CHR '':'' s of
       None \<Rightarrow> None
     | Some i \<Rightarrow>
        (if s ! 0 = CHR ''[''
         then (case index_of CHR '']'' s of
            None \<Rightarrow> None
          | Some e \<Rightarrow>
             (if e + 1 \<noteq> i \<or> CHR ''['' \<in> set (drop 1 s) \<or> CHR '']'' \<in> set (drop (e + 1) s) then None
              else Some (take (e - 1) (drop 1 s), drop (i + 1) s)))
         else if CHR '':'' \<in> set (take i s) \<or> CHR ''['' \<in> set s \<or> CHR '']'' \<in> set s then None
         else Some (take i s, drop (i + 1) s)))"

definition clientKey :: "http_request \<Rightarrow> string" where
  "clientKey r =
    (let host = trim_space (case SplitHostPort (hq_remote r) of Some (h, _) \<Rightarrow> h | None \<Rightarrow> hq_remote r) in
     if host = '''' then ''unknown'' else host)"

definition bindHost :: "string \<Rightarrow> string" where
  "bindHost addr = (case SplitHostPort addr of Some (h, _) \<Rightarrow> h | None \<Rightarrow> trim_space addr)"

text \<open>\<open>loopback_ip\<close> is net.ParseIP with IsLoopback.\<close>

definition isLoopbackHost :: "(string \<Rightarrow> bool) \<Rightarrow> string \<Rightarrow> bool" where
  "isLoopbackHost loopback_ip host =
    (let h = trim_space (to_lower host); bracket = (\<lambda>c. c = CHR ''['' \<or> c = CHR '']'');
         h' = trim_right bracket (trim_left bracket h) in
     if h \<in> {''127.0.0.1'', ''localhost'', ''::1'', ''''} then True else if h' = ''::1'' then True else loopback_ip h')"

subsection \<open>Limiter\<close>

record limiter =
  li_gap :: int
  li_last :: "(string \<times> int) list"
  li_max :: nat

definition newActionLimiter :: "int \<Rightarrow> limiter" where
  "newActionLimiter minGap = \<lparr>li_gap = (if minGap \<le> 0 then 2 * 10 ^ 9 else minGap), li_last = [], li_max = 4096\<rparr>"

definition allow :: "int \<Rightarrow> string \<Rightarrow> limiter \<Rightarrow> bool \<times> limiter" where
  "allow now key0 l =
    (let key = (if key0 = '''' then ''unknown'' else key0) in
     if (case kfind fst key (li_last l) of Some (_, prev) \<Rightarrow> now - prev < li_gap l | None \<Rightarrow> False) then (False, l)
     else (True, l\<lparr>li_last := kput fst (key, now) (if length (li_last l) \<ge> li_max l then [] else li_last l)\<rparr>))"

subsection \<open>Handlers\<close>

text \<open>
  The server: its limiter (nil when it is switched off), token and bind address, the files of the
  web interface; what it meets during a request.
\<close>

record web =
  wb_limit :: "limiter option"
  wb_token :: string
  wb_bind :: string

record web_host =
  wh_service :: service_host
  wh_answer :: response
  wh_mono :: int
  wh_loopback :: "string \<Rightarrow> bool"
  wh_assets :: "string \<Rightarrow> bool"

type_synonym 'a handling = "web \<times> service \<Rightarrow> 'a \<times> (web \<times> service)"

definition backend :: "web_host \<Rightarrow> request \<Rightarrow> http_reply handling" where
  "backend wh req st =
    (let (resp, sv) = handleRequest (wh_service wh) (wh_answer wh) req (snd st) in (unwrapControl resp, fst st, sv))"

definition allowed :: "web_host \<Rightarrow> http_request \<Rightarrow> string \<Rightarrow> bool handling" where
  "allowed wh r action st =
    (case wb_limit (fst st) of
       None \<Rightarrow> (True, st)
     | Some l \<Rightarrow> (let (ok, l') = allow (wh_mono wh) (clientKey r @ ''|'' @ action) l in (ok, (fst st)\<lparr>wb_limit := Some l'\<rparr>, snd st)))"

definition rate_limited :: http_reply where
  "rate_limited = http_error 429 ''rate limited; retry after a short delay'' ''RATE_LIMITED''"

definition limited :: "web_host \<Rightarrow> http_request \<Rightarrow> string \<Rightarrow> http_reply handling \<Rightarrow> http_reply handling" where
  "limited wh r action h st = (let (ok, st') = allowed wh r action st in if ok then h st' else (rate_limited, st'))"

definition with_body :: "http_request \<Rightarrow> ((string \<times> json) list \<Rightarrow> http_reply handling) \<Rightarrow> http_reply handling" where
  "with_body r h st =
    (case readJSONObject (hq_body r) of Inl (status, msg) \<Rightarrow> (http_error status msg ''BAD_REQUEST'', st) | Inr fs \<Rightarrow> h fs st)"

definition only :: "string \<Rightarrow> http_request \<Rightarrow> http_reply handling \<Rightarrow> http_reply handling" where
  "only method r h st = (if hq_method r \<noteq> method then (method_not_allowed, st) else h st)"

definition is_one :: "string \<Rightarrow> bool" where
  "is_one v \<longleftrightarrow> v = ''1'' \<or> v = ''true''"

definition handleStatus :: "web_host \<Rightarrow> http_request \<Rightarrow> http_reply handling" where
  "handleStatus wh r = only ''GET'' r
    (backend wh [(''op'', AStr ''status''), (''include_sizes'', ABool (has_suffix (hq_path r) ''/sizes'' \<or> is_one (query_get r ''include_sizes'')))])"

definition handleMetrics :: "web_host \<Rightarrow> http_request \<Rightarrow> http_reply handling" where
  "handleMetrics wh r = only ''GET'' r
    (backend wh ([(''op'', AStr ''metrics''), (''no_cache'', ABool (is_one (query_get r ''no_cache''))),
        (''prefer_mount'', ABool (is_one (query_get r ''prefer_mount'')))]
      @ (if query_get r ''archive_id'' \<noteq> '''' then [(''archive_id'', AStr (query_get r ''archive_id''))] else [])))"

definition object_field :: "(string \<times> json) list \<Rightarrow> string \<Rightarrow> request" where
  "object_field fs k = (case map_of fs k of Some (JsObject d) \<Rightarrow> [(k, AMap (json_raw d))] | _ \<Rightarrow> [])"

text \<open>Without config and patch the whole body but apply is the configuration.\<close>

definition config_fields :: "(string \<times> json) list \<Rightarrow> request" where
  "config_fields fs =
    (let given = object_field fs ''config'' @ object_field fs ''patch'' in
     [(''op'', AStr ''config_set''), (''apply'', ABool (asBool (map_of fs ''apply'') True))]
       @ (if given \<noteq> [] then given else [(''config'', AMap (json_raw (filter (\<lambda>e. fst e \<noteq> ''apply'') fs)))]))"

definition handleConfig :: "web_host \<Rightarrow> http_request \<Rightarrow> http_reply handling" where
  "handleConfig wh r st =
    (if hq_method r = ''GET'' then backend wh [(''op'', AStr ''config_get'')] st
     else if hq_method r = ''POST'' then with_body r (\<lambda>fs. backend wh (config_fields fs)) st
     else (method_not_allowed, st))"

definition handleRescan :: "web_host \<Rightarrow> http_request \<Rightarrow> http_reply handling" where
  "handleRescan wh r = only ''POST'' r (limited wh r ''rescan'' (with_body r (\<lambda>fs.
     backend wh [(''op'', AStr ''rescan''), (''assume_stable'', ABool (asBool (map_of fs ''assume_stable'') False))])))"

definition handleUnmount :: "web_host \<Rightarrow> http_request \<Rightarrow> http_reply handling" where
  "handleUnmount wh r = only ''POST'' r (with_body r (\<lambda>fs.
     if asBool (map_of fs ''all'') False
     then limited wh r ''unmount-all'' (backend wh [(''op'', AStr ''unmount''), (''all'', ABool True)])
     else if asString (map_of fs ''target'') \<noteq> '''' then backend wh [(''op'', AStr ''unmount''), (''target'', AStr (asString (map_of fs ''target'')))]
     else if asString (map_of fs ''archive_id'') \<noteq> ''''
     then backend wh [(''op'', AStr ''unmount''), (''target'', AStr (asString (map_of fs ''archive_id'')))]
     else (\<lambda>st. (http_error 400 ''target, archive_id, or all required'' ''BAD_REQUEST'', st))))"

definition need_id :: "(string \<times> json) list \<Rightarrow> (string \<Rightarrow> http_reply handling) \<Rightarrow> http_reply handling" where
  "need_id fs h st =
    (let aid = asString (map_of fs ''archive_id'') in
     if aid = '''' then (http_error 400 ''archive_id required'' ''BAD_REQUEST'', st) else h aid st)"

definition handleRetry :: "web_host \<Rightarrow> http_request \<Rightarrow> http_reply handling" where
  "handleRetry wh r = only ''POST'' r (with_body r (\<lambda>fs. need_id fs (\<lambda>aid.
     backend wh [(''op'', AStr ''retry''), (''archive_id'', AStr aid)])))"

definition handlePurge :: "web_host \<Rightarrow> http_request \<Rightarrow> http_reply handling" where
  "handlePurge wh r = only ''POST'' r (with_body r (\<lambda>fs. need_id fs (\<lambda>aid.
     if \<not> asBool (map_of fs ''yes'') False then (\<lambda>st. (http_error 400 ''purge requires yes: true'' ''BAD_REQUEST'', st))
     else limited wh r ''purge'' (backend wh [(''op'', AStr ''purge''), (''archive_id'', AStr aid), (''yes'', ABool True)]))))"

definition handleHooks :: "web_host \<Rightarrow> http_request \<Rightarrow> http_reply handling" where
  "handleHooks wh r st =
    (if hq_method r = ''GET''
     then (let aid = trim_space (query_get r ''archive_id'') in
           if aid = '''' then backend wh [(''op'', AStr ''hooks_list'')] st
           else backend wh [(''op'', AStr ''hooks_status''), (''archive_id'', AStr aid)] st)
     else if hq_method r = ''POST''
     then with_body r (\<lambda>fs. need_id fs (\<lambda>aid.
            backend wh [(''op'', AStr ''hooks_run''), (''archive_id'', AStr aid), (''force'', ABool (asBool (map_of fs ''force'') False))])) st
     else (method_not_allowed, st))"

text \<open>health, archives, doctor, wsl-info and events: GET requests that only read.\<close>

definition handleDocument :: "http_request \<Rightarrow> http_reply handling" where
  "handleDocument r = only ''GET'' r (\<lambda>st. ((200, HDocument (hq_path r)), st))"

definition handlePrometheus :: "http_request \<Rightarrow> http_reply handling" where
  "handlePrometheus r st =
    (if hq_method r \<noteq> ''GET'' \<and> hq_method r \<noteq> ''HEAD'' then ((405, HText ''method not allowed''), st)
     else ((200, HDocument (hq_path r)), st))"

definition withAPIAuth :: "http_request \<Rightarrow> http_reply handling \<Rightarrow> http_reply handling" where
  "withAPIAuth r h st = (if \<not> checkToken (wb_token (fst st)) r then (http_error 401 ''unauthorized'' ''UNAUTHORIZED'', st) else h st)"

definition withMetricsAuth :: "web_host \<Rightarrow> http_request \<Rightarrow> http_reply handling \<Rightarrow> http_reply handling" where
  "withMetricsAuth wh r h st =
    (if isLoopbackHost (wh_loopback wh) (bindHost (wb_bind (fst st))) then h st
     else if \<not> checkToken (wb_token (fst st)) r then ((401, HText ''unauthorized''), st) else h st)"

subsection \<open>Pages\<close>

text \<open>index.html is served with the token written into it.\<close>

definition spaHandler :: "web_host \<Rightarrow> string \<Rightarrow> http_request \<Rightarrow> http_reply" where
  "spaHandler wh tok r =
    (let p = (if hq_path r = '''' then ''/'' else hq_path r);
         index = (200, HIndex (if tok = '''' then None else Some tok));
         nm = (let c = path_clean p in if has_prefix c ''/'' then drop 1 c else c) in
     if has_prefix (hq_path r) ''/api/'' \<or> hq_path r = ''/metrics'' then (404, HNotFound)
     else if p \<in> {''/'', ''/index.html'', ''/settings'', ''/settings.html''} then index
     else if nm = '''' \<or> nm = ''.'' then index
     else if str_contains nm ''..'' then (400, HError (Message ''bad path'') '''')
     else if wh_assets wh nm then (200, HAsset nm)
     else index)"

subsection \<open>Routes\<close>

definition api_routes :: "(string \<times> (web_host \<Rightarrow> http_request \<Rightarrow> http_reply handling)) list" where
  "api_routes =
    [(''/api/health'', \<lambda>_. handleDocument), (''/api/status'', handleStatus), (''/api/status/sizes'', handleStatus),
     (''/api/archives'', \<lambda>_. handleDocument), (''/api/metrics'', handleMetrics), (''/api/config'', handleConfig),
     (''/api/rescan'', handleRescan), (''/api/unmount'', handleUnmount), (''/api/retry'', handleRetry),
     (''/api/purge'', handlePurge), (''/api/hooks'', handleHooks), (''/api/doctor'', \<lambda>_. handleDocument),
     (''/api/wsl-info'', \<lambda>_. handleDocument), (''/api/events'', \<lambda>_. handleDocument)]"

definition serveHTTP :: "web_host \<Rightarrow> http_request \<Rightarrow> http_reply handling" where
  "serveHTTP wh r st =
    (case map_of api_routes (hq_path r) of
       Some h \<Rightarrow> withAPIAuth r (h wh r) st
     | None \<Rightarrow>
        (if hq_path r = ''/metrics'' then withMetricsAuth wh r (handlePrometheus r) st
         else (spaHandler wh (wb_token (fst st)) r, st)))"

end
