(* ===== verification/ControlProps.thy ===== *)
theory ControlProps
  imports Control
begin

text \<open>
  The control plane lets nobody through it should not: only the requests of authorized peers reach
  the dispatcher, in the order of the connections.
\<close>

text \<open>The request a connection hands to the dispatcher, if it does.\<close>

definition accepted :: "auth_opts \<Rightarrow> decoder \<Rightarrow> connection \<Rightarrow> request option" where
  "accepted opts dec c =
    (case c of (peer, bytes, fin) \<Rightarrow>
       (case readRequestLine MaxRequestBytes bytes fin of
          Inl _ \<Rightarrow> None
        | Inr line \<Rightarrow>
           (if line = '''' \<or> \<not> fst (AuthorizePeer opts peer) then None
            else (case ParseRequest dec line of Inl _ \<Rightarrow> None | Inr req \<Rightarrow> Some req))))"

text \<open>Who may use the socket, written out.\<close>

definition entitled :: "auth_opts \<Rightarrow> int option \<Rightarrow> bool" where
  "entitled opts peer \<longleftrightarrow> au_allow_all opts
    \<or> (case peer of
         None \<Rightarrow> au_allow_unauth opts
       | Some uid \<Rightarrow> uid = 0
           \<or> (\<exists>gid. ud_group (au_users opts) (if au_group opts = '''' then ''mount-wrapper'' else au_group opts) = Some gid
                \<and> (ud_primary (au_users opts) uid = Some gid
                   \<or> (\<exists>p ids. ud_primary (au_users opts) uid = Some p \<and> ud_groups (au_users opts) uid = Some ids \<and> gid \<in> set ids))))"

lemma AuthorizePeer_entitled: "fst (AuthorizePeer opts peer) \<longleftrightarrow> entitled opts peer"
  by (auto simp: AuthorizePeer_def entitled_def UserInGroup_def DefaultAuthGroup_def Let_def split: option.splits)

lemma handleConnection_accepted:
  "snd (handleConnection opts dec handler peer bytes fin s) =
    (case accepted opts dec (peer, bytes, fin) of Some req \<Rightarrow> snd (handler req s) | None \<Rightarrow> s)"
  by (auto simp: handleConnection_def accepted_def Let_def split_beta split: sum.splits line_error.splits control_error.splits)

lemma ServeReady_accepted:
  "snd (ServeReady opts dec (handleRequest sh answer) cs sv) = snd (serve_ready sh answer (List.map_filter (accepted opts dec) cs) sv)"
proof (induction cs arbitrary: sv)
  case (Cons c cs)
  obtain peer bytes fin where c: "c = (peer, bytes, fin)" by (cases c) auto
  show ?case
    using Cons.IH handleConnection_accepted [of opts dec "handleRequest sh answer" peer bytes fin sv]
    by (cases "accepted opts dec c") (auto simp: c map_filter_simps split_beta Let_def)
qed (simp add: map_filter_simps)

lemma version_of_arg: "version_of a = Some n \<Longrightarrow> a = None \<and> n = 1 \<or> a = Some (ANum (Some n))"
  by (cases a rule: version_of.cases) auto

lemma ParseRequest_ok:
  assumes "ParseRequest dec line = Inr req"
  shows "trim_space (str_arg (map_of req ''op'')) \<noteq> '''' \<and> map_of req ''v'' = Some (ANum (Some 1))
    \<and> (\<exists>fs. dec (trim_space line) = Inr (JsObject fs) \<and> (\<forall>k. k \<noteq> ''v'' \<and> k \<noteq> ''op'' \<longrightarrow> map_of req k = map_of (json_request fs) k))"
  using assms by (auto simp: ParseRequest_def Let_def split: if_splits sum.splits json.splits)

text \<open>C33. Only entitled peers act on the service. Handling the pending connections leaves the service as the
  dispatcher leaves it after the accepted requests alone, in their order; an accepted request comes from a
  peer that is root, in the group of the socket, or let in by one of the two switches, and is an object with
  an operation and version 1; every other connection changes nothing and, if it is a complete line from a peer
  that is not entitled, is answered PERMISSION_DENIED before its content is looked at.\<close>

theorem control_plane_gated:
  "snd (ServeReady opts dec (handleRequest sh answer) cs sv) = snd (serve_ready sh answer (List.map_filter (accepted opts dec) cs) sv)
   \<and> (\<forall>peer bytes fin.
        (case accepted opts dec (peer, bytes, fin) of
           Some req \<Rightarrow> entitled opts peer \<and> trim_space (str_arg (map_of req ''op'')) \<noteq> '''' \<and> map_of req ''v'' = Some (ANum (Some 1))
         | None \<Rightarrow> snd (handleConnection opts dec (handleRequest sh answer) peer bytes fin sv) = sv)
        \<and> (\<not> entitled opts peer \<and> (\<exists>line. readRequestLine MaxRequestBytes bytes fin = Inr line \<and> line \<noteq> '''') \<longrightarrow>
             (\<exists>why. fst (handleConnection opts dec (handleRequest sh answer) peer bytes fin sv)
                = Some (ErrResponse why ''PERMISSION_DENIED''))))"
proof (intro conjI allI)
  fix peer bytes fin
  show "case accepted opts dec (peer, bytes, fin) of
      Some req \<Rightarrow> entitled opts peer \<and> trim_space (str_arg (map_of req ''op'')) \<noteq> '''' \<and> map_of req ''v'' = Some (ANum (Some 1))
    | None \<Rightarrow> snd (handleConnection opts dec (handleRequest sh answer) peer bytes fin sv) = sv"
  proof (cases "accepted opts dec (peer, bytes, fin)")
    case None
    then show ?thesis using handleConnection_accepted [of opts dec "handleRequest sh answer" peer bytes fin sv] by simp
  next
    case (Some req)
    then obtain line where "ParseRequest dec line = Inr req" "fst (AuthorizePeer opts peer)"
      by (auto simp: accepted_def split: sum.splits if_splits)
    then show ?thesis using Some ParseRequest_ok [of dec line req] by (simp add: AuthorizePeer_entitled)
  qed
  show "\<not> entitled opts peer \<and> (\<exists>line. readRequestLine MaxRequestBytes bytes fin = Inr line \<and> line \<noteq> '''') \<longrightarrow>
      (\<exists>why. fst (handleConnection opts dec (handleRequest sh answer) peer bytes fin sv) = Some (ErrResponse why ''PERMISSION_DENIED''))"
    unfolding AuthorizePeer_entitled [symmetric] by (auto simp: handleConnection_def permission_denied_def split_beta)
qed (rule ServeReady_accepted)

text \<open>A host with one group, of which user 1000 is a member.\<close>

definition sample_auth :: auth_opts where
  "sample_auth =
    \<lparr>au_allow_all = False, au_group = '''',
     au_users = \<lparr>ud_group = (\<lambda>g. if g = ''mount-wrapper'' then Some ''77'' else None), ud_primary = (\<lambda>u. Some ''100''),
       ud_groups = (\<lambda>u. Some (if u = 1000 then [''100'', ''77''] else [''100'']))\<rparr>, au_allow_unauth = False\<rparr>"

theorem control_plane_gated_witness:
  "snd (handleConnection sample_auth (\<lambda>_. Inr (JsObject [(''op'', JsString ''stop'')])) (handleRequest sample_service_host (OKResponse PMetrics))
     (Some 1001) (''stop'' @ [CHR 0x0A]) StreamEOF sample_idle) = sample_idle
   \<and> (\<exists>why. fst (handleConnection sample_auth (\<lambda>_. Inr (JsObject [(''op'', JsString ''stop'')])) (handleRequest sample_service_host (OKResponse PMetrics))
     (Some 1001) (''stop'' @ [CHR 0x0A]) StreamEOF sample_idle) = Some (ErrResponse why ''PERMISSION_DENIED''))"
proof -
  let ?dec = "\<lambda>_. Inr (JsObject [(''op'', JsString ''stop'')])" and ?bytes = "''stop'' @ [CHR 0x0A]"
  have out: "\<not> entitled sample_auth (Some 1001)" by (simp add: entitled_def sample_auth_def)
  have line: "readRequestLine MaxRequestBytes ?bytes StreamEOF = Inr ''stop''"
    by (simp add: readRequestLine_def MaxRequestBytes_def chomp_cr_def)
  have "accepted sample_auth ?dec (Some 1001, ?bytes, StreamEOF) = None"
    using out by (simp only: accepted_def prod.case line sum.case AuthorizePeer_entitled simp_thms if_True)
  then show ?thesis
    using control_plane_gated [of sample_auth ?dec sample_service_host "OKResponse PMetrics" "[]" sample_idle] out line by fastforce
qed

end
