(* ===== verification/HttpProps.thy ===== *)
theory HttpProps
  imports Http ControlProps
begin

text \<open>
  The HTTP API: no token, no change; changes only by POST to the six routes that change something;
  the limiter admits exactly the attempts that keep the gap.  And two things it does not do: it
  hands its token to everyone who loads the page, and it refuses every configuration that holds a
  number.
\<close>

subsection \<open>Who changes what\<close>

text \<open>A handler that leaves the service and the limiter alone, or may only touch the limiter.\<close>

definition reads_only :: "http_reply handling \<Rightarrow> bool" where
  "reads_only h \<longleftrightarrow> (\<forall>st. snd (h st) = st)"

definition changing_routes :: "string list" where
  "changing_routes = [''/api/config'', ''/api/rescan'', ''/api/unmount'', ''/api/retry'', ''/api/purge'', ''/api/hooks'']"

lemma handleRequest_reading:
  assumes "str_arg (map_of req ''op'') \<in> {''status'', ''metrics'', ''config_get'', ''hooks_list'', ''hooks_status''}"
  shows "snd (handleRequest sh answer req sv) = sv"
  using assms by (auto simp: handleRequest_def)

lemma backend_reading:
  "str_arg (map_of req ''op'') \<in> {''status'', ''metrics'', ''config_get'', ''hooks_list'', ''hooks_status''} \<Longrightarrow> snd (backend wh req st) = st"
  using handleRequest_reading [of req "wh_service wh" "wh_answer wh" "snd st"] by (simp add: backend_def split_beta)

lemma only_GET: "hq_method r \<noteq> m \<Longrightarrow> only m r h st = (method_not_allowed, st)" "hq_method r = m \<Longrightarrow> only m r h st = h st"
  by (simp_all add: only_def)

lemma with_body_reads: "readJSONObject (hq_body r) = Inl e \<Longrightarrow> snd (with_body r h st) = st"
  by (simp add: with_body_def split_beta)

lemma route_GET:
  assumes "map_of api_routes p = Some h" "hq_method r = ''GET''"
  shows "snd (h wh r st) = st"
proof -
  have post: "only ''POST'' r g st = (method_not_allowed, st)" for g by (simp add: only_def assms(2))
  consider "h = (\<lambda>_. handleDocument)" | "h = handleStatus" | "h = handleMetrics" | "h = handleConfig" | "h = handleRescan" | "h = handleUnmount"
    | "h = handleRetry" | "h = handlePurge" | "h = handleHooks"
    using assms(1) by (auto simp: api_routes_def split: if_splits)
  then show ?thesis
    by cases
      (simp_all add: handleDocument_def handleStatus_def handleMetrics_def handleConfig_def handleRescan_def handleUnmount_def
        handleRetry_def handlePurge_def handleHooks_def assms(2) post only_GET(2) [OF assms(2)] backend_reading Let_def)
qed

lemma route_not_changing:
  assumes "map_of api_routes p = Some h" "p \<notin> set changing_routes"
  shows "snd (h wh r st) = st"
proof -
  consider "h = (\<lambda>_. handleDocument)" | "h = handleStatus" | "h = handleMetrics"
    using assms by (auto simp: api_routes_def changing_routes_def split: if_splits)
  then show ?thesis
    by cases (simp_all add: handleDocument_def handleStatus_def handleMetrics_def only_def backend_reading)
qed

lemma route_method:
  assumes "map_of api_routes p = Some h" "hq_method r \<noteq> ''GET''" "hq_method r \<noteq> ''POST''"
  shows "h wh r st = (method_not_allowed, st)"
proof -
  consider "h = (\<lambda>_. handleDocument)" | "h = handleStatus" | "h = handleMetrics" | "h = handleConfig" | "h = handleRescan" | "h = handleUnmount"
    | "h = handleRetry" | "h = handlePurge" | "h = handleHooks"
    using assms(1) by (auto simp: api_routes_def split: if_splits)
  then show ?thesis
    by cases
      (simp_all add: handleDocument_def handleStatus_def handleMetrics_def handleConfig_def handleRescan_def handleUnmount_def
        handleRetry_def handlePurge_def handleHooks_def assms(2,3) only_GET(1) [OF assms(2)] only_GET(1) [OF assms(3)])
qed

lemma allowed_service: "snd (snd (allowed wh r a st)) = snd st"
  by (simp add: allowed_def split_beta split: option.split)

lemma limited_service: "(\<And>st'. snd (snd (h st')) = snd st') \<Longrightarrow> snd (snd (limited wh r a h st)) = snd st"
  by (simp add: limited_def split_beta allowed_service)

lemma route_bad_body:
  assumes "map_of api_routes p = Some h" "readJSONObject (hq_body r) = Inl e" "hq_method r = ''POST''"
  shows "snd (snd (h wh r st)) = snd st"
proof -
  have get: "only ''GET'' r g st = (method_not_allowed, st)" for g by (simp add: only_def assms(3))
  consider "h = (\<lambda>_. handleDocument)" | "h = handleStatus" | "h = handleMetrics" | "h = handleConfig" | "h = handleRescan" | "h = handleUnmount"
    | "h = handleRetry" | "h = handlePurge" | "h = handleHooks"
    using assms(1) by (auto simp: api_routes_def split: if_splits)
  then show ?thesis
    by cases
      (simp_all add: handleDocument_def handleStatus_def handleMetrics_def handleConfig_def handleRescan_def handleUnmount_def
        handleRetry_def handlePurge_def handleHooks_def assms(3) get only_GET(2) [OF assms(3)] with_body_reads [OF assms(2)] limited_service)
qed

lemma purge_unconfirmed:
  assumes "readJSONObject (hq_body r) = Inr fs" "\<not> (asString (map_of fs ''archive_id'') \<noteq> '''' \<and> asBool (map_of fs ''yes'') False)"
  shows "snd (handlePurge wh r st) = st"
  using assms by (auto simp: handlePurge_def only_def with_body_def need_id_def Let_def)

subsection \<open>The token\<close>

definition mentions :: "string \<Rightarrow> string \<Rightarrow> bool" where
  "mentions s t \<longleftrightarrow> (\<exists>pre post. s = pre @ t @ post)"

lemma trim_right_split: "\<exists>post. s = trim_right p s @ post"
proof -
  have "rev s = takeWhile p (rev s) @ dropWhile p (rev s)" by simp
  then have "s = rev (dropWhile p (rev s)) @ rev (takeWhile p (rev s))" by (metis rev_append rev_rev_ident)
  then show ?thesis unfolding trim_right_def by blast
qed

lemma trim_space_mentions: "mentions (pre @ s) (trim_space s)"
proof -
  obtain post where "trim_left is_space s = trim_space s @ post" using trim_right_split unfolding trim_space_def by blast
  moreover have "s = takeWhile is_space s @ trim_left is_space s" by (simp add: trim_left_def)
  ultimately have "pre @ s = (pre @ takeWhile is_space s) @ trim_space s @ post" by simp
  then show ?thesis unfolding mentions_def by blast
qed

lemma checkToken_mentions:
  assumes "checkToken tok r" "tok \<noteq> ''''"
  shows "mentions (hq_auth r) tok \<or> query_get r ''token'' = tok"
proof -
  have "mentions auth tok" if "bearer auth tok" for auth
  proof -
    from that consider "auth = ''Bearer '' @ tok @ []" | r' where "auth = ''Bearer '' @ r'" "trim_space r' = tok"
      unfolding bearer_def by (auto dest!: has_prefixD)
    then show ?thesis using trim_space_mentions unfolding mentions_def by cases metis+
  qed
  then show ?thesis using assms by (auto simp: checkToken_def)
qed


subsection \<open>The limiter\<close>

fun attempts :: "(int \<times> string) list \<Rightarrow> limiter \<Rightarrow> bool list \<times> limiter" where
  "attempts [] l = ([], l)"
| "attempts ((t, k) # xs) l = (let (ok, l1) = allow t k l; (oks, l2) = attempts xs l1 in (ok # oks, l2))"

text \<open>What the map holds after the attempts \<open>xs\<close> with the outcomes \<open>oks\<close>: the last admission of each key.\<close>

definition admissions :: "(int \<times> string) list \<Rightarrow> bool list \<Rightarrow> string \<Rightarrow> int list" where
  "admissions xs oks k = map (\<lambda>((t, _), _). t) (filter (\<lambda>((_, k'), ok). k' = k \<and> ok) (zip xs oks))"

definition remembers :: "(int \<times> string) list \<Rightarrow> bool list \<Rightarrow> limiter \<Rightarrow> bool" where
  "remembers xs oks l \<longleftrightarrow>
    (\<forall>k. kfind fst k (li_last l) = (if admissions xs oks k = [] then None else Some (k, last (admissions xs oks k))))
    \<and> distinct (map fst (li_last l)) \<and> fst ` set (li_last l) \<subseteq> snd ` set xs"

lemma attempts_append:
  "attempts (xs @ ys) l = (fst (attempts xs l) @ fst (attempts ys (snd (attempts xs l))), snd (attempts ys (snd (attempts xs l))))"
  by (induction xs l rule: attempts.induct) (auto simp: Let_def split: prod.splits)

lemma attempts_length [simp]: "length (fst (attempts xs l)) = length xs"
  by (induction xs l rule: attempts.induct) (auto simp: Let_def split: prod.splits)

lemma allow_param [simp]: "li_gap (snd (allow t k l)) = li_gap l" "li_max (snd (allow t k l)) = li_max l"
  by (simp_all add: allow_def Let_def)

lemma attempts_Cons: "snd (attempts ((t, k) # xs) l) = snd (attempts xs (snd (allow t k l)))"
  by (simp add: Let_def split_beta)

lemma attempts_param [simp]: "li_gap (snd (attempts xs l)) = li_gap l" "li_max (snd (attempts xs l)) = li_max l"
  by (induction xs arbitrary: l) (simp_all add: attempts_Cons split_paired_all del: attempts.simps(2))

lemma admissions_snoc:
  "length xs = length oks \<Longrightarrow> admissions (xs @ [(t, k')]) (oks @ [ok]) k = admissions xs oks k @ (if k' = k \<and> ok then [t] else [])"
  by (simp add: admissions_def)

lemma attempts_remember:
  assumes "card (insert k0 (snd ` set xs)) \<le> li_max l" "\<forall>x \<in> set xs. snd x \<noteq> ''''" "li_last l = []" "k0 \<notin> snd ` set xs"
  shows "remembers xs (fst (attempts xs l)) (snd (attempts xs l))"
  using assms(1,2,4)
proof (induction xs rule: rev_induct)
  case Nil
  then show ?case by (simp add: remembers_def admissions_def assms(3))
next
  case (snoc x xs)
  obtain t k where x: "x = (t, k)" by (cases x)
  let ?l = "snd (attempts xs l)" and ?oks = "fst (attempts xs l)"
  have sub: "card (insert k0 (snd ` set xs)) \<le> card (insert k0 (snd ` set (xs @ [x])))" by (rule card_mono) auto
  then have IH: "remembers xs ?oks ?l" using snoc by auto
  have k: "k \<noteq> ''''" "k \<noteq> k0" using snoc.prems by (auto simp: x)
  have "length (li_last ?l) < li_max l"
  proof -
    have "length (li_last ?l) = card (fst ` set (li_last ?l))" using IH by (metis distinct_card length_map list.set_map remembers_def)
    also have "\<dots> \<le> card (snd ` set xs)" using IH by (intro card_mono) (auto simp: remembers_def)
    also have "\<dots> < card (insert k0 (snd ` set xs))" using snoc.prems by (simp add: card_insert_if)
    finally show ?thesis using sub snoc.prems(1) by linarith
  qed
  then have l': "allow t k ?l = (if (case kfind fst k (li_last ?l) of Some (_, prev) \<Rightarrow> t - prev < li_gap l | None \<Rightarrow> False)
      then (False, ?l) else (True, ?l\<lparr>li_last := kput fst (k, t) (li_last ?l)\<rparr>))"
    using k(1) by (auto simp: allow_def Let_def split: option.splits)
  show ?case
  proof (cases "fst (allow t k ?l)")
    case True
    then have "allow t k ?l = (True, ?l\<lparr>li_last := kput fst (k, t) (li_last ?l)\<rparr>)" using l' by (auto split: if_splits)
    then have "fst (attempts (xs @ [x]) l) = ?oks @ [True]"
      "snd (attempts (xs @ [x]) l) = ?l\<lparr>li_last := kput fst (k, t) (li_last ?l)\<rparr>" by (simp_all add: attempts_append x)
    moreover have "distinct (map fst (kput fst (k, t) (li_last ?l)))"
      using IH kdistinct_kput [of fst "li_last ?l" "(k, t)"] by (simp add: remembers_def kdistinct_def)
    moreover have "fst ` set (kput fst (k, t) (li_last ?l)) \<subseteq> insert k (snd ` set xs)"
      using IH by (auto simp: remembers_def kput_def kremove_def)
    ultimately show ?thesis
      using IH by (auto simp: remembers_def x admissions_snoc kfind_kput)
  next
    case False
    then have "allow t k ?l = (False, ?l)" using l' by (auto split: if_splits)
    then have "fst (attempts (xs @ [x]) l) = ?oks @ [False]" "snd (attempts (xs @ [x]) l) = ?l" by (simp_all add: attempts_append x)
    then show ?thesis using IH by (auto simp: remembers_def x admissions_snoc)
  qed
qed

lemma sorted_le_last: "sorted (xs :: int list) \<Longrightarrow> a \<in> set xs \<Longrightarrow> a \<le> last xs"
proof (induction xs)
  case (Cons x xs)
  then show ?case by (cases "xs = []") (auto intro: order_trans)
qed simp

text \<open>The limiter admits exactly what keeps the gap. For a clock that does not run backwards and fewer client
  keys than the map may hold, an attempt is refused exactly when an earlier attempt of the same client and
  action was admitted less than the minimal gap before; so two admitted attempts of one key are always at least
  the gap apart, and no client is held back by the attempts of another.\<close>

theorem limiter_exact:
  assumes mono: "sorted (map fst (xs @ [(t, k)]))" and few: "card (snd ` set xs) < 4096"
    and keys: "\<forall>x \<in> set xs. snd x \<noteq> ''''" "k \<noteq> ''''"
    and l: "l = newActionLimiter gap"
  shows "fst (allow t k (snd (attempts xs l))) \<longleftrightarrow>
    (\<forall>i < length xs. fst (attempts xs l) ! i \<and> snd (xs ! i) = k \<longrightarrow> t - fst (xs ! i) \<ge> (if gap \<le> 0 then 2 * 10 ^ 9 else gap))"
proof -
  define g where "g = (if gap \<le> 0 then 2 * 10 ^ 9 else gap)"
  have lp: "li_gap l = g" "li_max l = 4096" "li_last l = []" by (simp_all add: l newActionLimiter_def g_def)
  let ?oks = "fst (attempts xs l)" and ?l = "snd (attempts xs l)"
  obtain k0 where k0: "k0 \<notin> snd ` set xs" using ex_new_if_finite [of "snd ` set xs"] infinite_UNIV_listI by auto
  have rem: "remembers xs ?oks ?l"
    by (rule attempts_remember [OF _ keys(1) lp(3) k0]) (use few k0 lp(2) in \<open>simp add: card_insert_if\<close>)
  have adm: "set (admissions xs ?oks k) = {fst (xs ! i) | i. i < length xs \<and> ?oks ! i \<and> snd (xs ! i) = k}"
  proof -
    have "set (admissions xs ?oks k) = (\<lambda>((t, _), _). t) ` {p \<in> set (zip xs ?oks). snd (fst p) = k \<and> snd p}"
      by (simp add: admissions_def case_prod_beta)
    also have "\<dots> = {fst (xs ! i) | i. i < length xs \<and> ?oks ! i \<and> snd (xs ! i) = k}"
      by (auto simp: set_zip image_iff case_prod_beta) force+
    finally show ?thesis .
  qed
  have le: "fst (xs ! i) \<le> t" if "i < length xs" for i using mono that by (auto simp: sorted_append)
  have sorted: "sorted (admissions xs ?oks k)"
  proof -
    have "sorted (map fst xs)" using mono by (simp add: sorted_append)
    then have "sorted (map (fst \<circ> fst) (zip xs ?oks))" by (metis attempts_length map_fst_zip map_map)
    then have "sorted (map (fst \<circ> fst) (filter (\<lambda>((_, k'), ok). k' = k \<and> ok) (zip xs ?oks)))" by (rule sorted_filter)
    then show ?thesis by (simp add: admissions_def comp_def case_prod_unfold)
  qed
  have "fst (allow t k ?l) \<longleftrightarrow> (\<forall>a \<in> set (admissions xs ?oks k). t - a \<ge> g)"
  proof (cases "admissions xs ?oks k = []")
    case True
    then have "kfind fst k (li_last ?l) = None" using rem by (simp add: remembers_def)
    then show ?thesis using True keys(2) by (simp add: allow_def Let_def)
  next
    case False
    then have find: "kfind fst k (li_last ?l) = Some (k, last (admissions xs ?oks k))" using rem by (simp add: remembers_def)
    have max: "t - last (admissions xs ?oks k) \<le> t - a" if "a \<in> set (admissions xs ?oks k)" for a
      using sorted_le_last [OF sorted that] by simp
    have "(\<forall>a \<in> set (admissions xs ?oks k). t - a \<ge> g) \<longleftrightarrow> t - last (admissions xs ?oks k) \<ge> g"
      using max last_in_set [OF False] by (meson order_trans)
    then show ?thesis using keys(2) find by (simp add: allow_def Let_def lp not_less)
  qed
  then show ?thesis unfolding adm g_def [symmetric] by blast
qed

theorem limiter_exact_witness:
  "\<not> fst (allow 5 ''a'' (snd (attempts [(1, ''a''), (2, ''b'')] (newActionLimiter 10))))"
proof -
  have "fst (attempts [(1, ''a''), (2, ''b'')] (newActionLimiter 10)) ! 0" by code_simp
  moreover have "card {''a'', ''b''} < 4096" by simp
  ultimately show ?thesis
    using limiter_exact [OF _ _ _ _ refl, of "[(1, ''a''), (2, ''b'')]" 5 "''a''" 10] by fastforce
qed

subsection \<open>Numbers in a configuration\<close>

text \<open>The keys whose value must be a number, or may be a duration in digits.\<close>

definition number_keys :: "string list" where
  "number_keys = [''version'', ''archiveconverter_level'', ''archiveconverter_threads'', ''archiveconverter_timeout_seconds'',
     ''archiveconverter_overhead_bytes'', ''archiveconverter_native_large_threshold'', ''archiveconverter_nested_concurrency'',
     ''cleanup_after'', ''quarantine_retain_for'', ''poll_interval_seconds'', ''reconcile_interval_seconds'', ''min_file_age_seconds'',
     ''hook_timeout_seconds'', ''unmount_timeout_seconds'', ''mount_ready_timeout_seconds'', ''max_concurrent_index'',
     ''max_concurrent_convert'', ''max_concurrent_mount'', ''max_mount_attempts'', ''ratarmount_index_workers'', ''ratarmount_debug'',
     ''convert_7z_overhead_bytes'', ''convert_7z_flatten_extract_buffer_bytes'', ''hook_max_retries'', ''quarantine_max_bytes'',
     ''min_free_bytes'', ''max_archive_bytes'', ''stage_overhead_bytes'', ''archive_relocate_overhead_bytes'', ''web_port'']"

definition foreign :: "raw \<Rightarrow> string \<Rightarrow> bool" where
  "foreign raw k \<longleftrightarrow> (\<exists>s. raw_get raw k = Some (YOther s))"

lemma foreign_int: "requireInt raw k d m = Inr n \<Longrightarrow> \<not> foreign raw k"
  by (auto simp: requireInt_def asInt_def foreign_def)

lemma foreign_seconds: "requireFloatSeconds raw k d m = Inr x \<Longrightarrow> \<not> foreign raw k"
  by (auto simp: requireFloatSeconds_def duration_of_def as_duration_def foreign_def)

lemma foreign_dual: "dual_duration raw k a d = Inr x \<Longrightarrow> \<not> foreign raw k"
  by (auto simp: dual_duration_def duration_of_def as_duration_def foreign_def)

lemma foreign_version: "(case raw_get raw k of None \<Rightarrow> Inr d | Some v \<Rightarrow> asInt v k) = Inr n \<Longrightarrow> \<not> foreign raw k"
  by (auto simp: asInt_def foreign_def)

lemma foreign_not_nil: "foreign raw k \<Longrightarrow> \<not> raw_nil raw k"
  by (auto simp: foreign_def raw_nil_def)

lemma foreign_threads: "load_threads raw = Inr x \<Longrightarrow> \<not> foreign raw ''archiveconverter_threads''"
  by (auto simp: load_threads_def elim!: andThenE dest: foreign_int foreign_not_nil split: if_splits)

lemma foreign_nested: "load_nested_concurrency raw = Inr x \<Longrightarrow> \<not> foreign raw ''archiveconverter_nested_concurrency''"
  by (auto simp: load_nested_concurrency_def elim!: andThenE dest: foreign_int foreign_not_nil split: if_splits)

lemmas foreign_rules = foreign_int foreign_seconds foreign_dual foreign_version foreign_threads foreign_nested

lemma FromMap_foreign:
  assumes "FromMap env raw p = Inr c" "k \<in> set number_keys"
  shows "\<not> foreign raw k"
proof -
  obtain c1 c2 c3 c4 c5 c6 c7 c10 where run: "load_head raw p zero_config = Inr c1" "load_converter env raw c2 = Inr c3"
    "load_durations raw c3 = Inr c4" "load_limits env raw c4 = Inr c5" "load_7z env raw c5 = Inr c6" "load_sizes raw c6 = Inr c7"
    "load_web raw c10 = Inr c"
    using assms(1) unfolding FromMap_def by (elim andThenE) blast
  have "\<not> foreign raw ''version''"
    using run(1) unfolding load_head_def by (elim andThenE) (rule foreign_version)
  moreover have "\<forall>k \<in> {''archiveconverter_level'', ''archiveconverter_threads'', ''archiveconverter_timeout_seconds'',
     ''archiveconverter_overhead_bytes'', ''archiveconverter_native_large_threshold'', ''archiveconverter_nested_concurrency''}. \<not> foreign raw k"
    using run(2) unfolding load_converter_def by (elim andThenE) (simp add: foreign_rules)
  moreover have "\<forall>k \<in> {''cleanup_after'', ''quarantine_retain_for'', ''poll_interval_seconds'', ''reconcile_interval_seconds'',
     ''min_file_age_seconds'', ''hook_timeout_seconds'', ''unmount_timeout_seconds'', ''mount_ready_timeout_seconds''}. \<not> foreign raw k"
    using run(3) unfolding load_durations_def by (elim andThenE) (simp add: foreign_rules)
  moreover have "\<forall>k \<in> {''max_concurrent_index'', ''max_concurrent_convert'', ''max_concurrent_mount'', ''max_mount_attempts'',
     ''ratarmount_index_workers'', ''ratarmount_debug''}. \<not> foreign raw k"
    using run(4) unfolding load_limits_def by (elim andThenE) (simp add: foreign_rules)
  moreover have "\<forall>k \<in> {''convert_7z_overhead_bytes'', ''convert_7z_flatten_extract_buffer_bytes''}. \<not> foreign raw k"
    using run(5) unfolding load_7z_def by (elim andThenE) (simp add: foreign_rules)
  moreover have "\<forall>k \<in> {''hook_max_retries'', ''quarantine_max_bytes'', ''min_free_bytes'', ''max_archive_bytes'',
     ''stage_overhead_bytes'', ''archive_relocate_overhead_bytes''}. \<not> foreign raw k"
    using run(6) unfolding load_sizes_def by (elim andThenE) (simp add: foreign_rules)
  moreover have "\<not> foreign raw ''web_port''"
    using run(7) unfolding load_web_def requireWebPort_def by (elim andThenE) (rule foreign_int)
  ultimately show ?thesis using assms(2) unfolding number_keys_def by auto
qed

lemma json_raw_number: "map_of doc k = Some (JsNumber n) \<Longrightarrow> foreign (json_raw doc) k"
  by (simp add: foreign_def raw_get_def json_raw_def map_of_map)

lemma update_raw_foreign:
  assumes "foreign m k"
  shows "foreign (update_raw env cur (Some m) None) k" "foreign (update_raw env cur patch (Some m)) k"
proof -
  have m: "map_of m k = Some v \<Longrightarrow> map_of (MergePatch b m) k = Some v" for b v by (simp add: MergePatch_def)
  obtain s where s: "map_of m k = Some (YOther s)" using assms by (auto simp: foreign_def raw_get_def)
  show "foreign (update_raw env cur (Some m) None) k" "foreign (update_raw env cur patch (Some m)) k"
    using s m [OF s] by (auto simp: update_raw_def foreign_def raw_get_def hasKey_def Let_def)
qed

lemma opConfigSet_foreign:
  assumes "map_of req f = Some (AMap m)" "f \<in> {''config'', ''patch''}" "foreign m k" "k \<in> set number_keys"
  shows "\<exists>why. opConfigSet sh req sv = (ErrResponse why ''CONFIG_ERROR'', sv)"
proof -
  let ?path = "c_config_path (sv_cfg sv)" and ?fs = "sv_files sv" and ?patch = "map_arg (map_of req ''patch'')" and ?full = "map_arg (map_of req ''config'')"
  have "\<exists>e. ApplyUpdate (sh_load_env sh) (sh_dump sh) (sh_write sh) (sv_cfg sv) ?patch ?full ap ?path ?fs = (Inl e, ?fs)" for ap
  proof (cases "?full \<noteq> None \<and> ?patch \<noteq> None")
    case False
    then have "?full = Some m \<and> ?patch = None \<or> ?full = None \<and> ?patch = Some m" using assms(1,2) by auto
    then have "foreign (update_raw (sh_load_env sh) (sv_cfg sv) ?patch ?full) k" using update_raw_foreign [OF assms(3)] by auto
    then obtain e where "FromMap (sh_load_env sh) (update_raw (sh_load_env sh) (sv_cfg sv) ?patch ?full) (update_path (sv_cfg sv) ?path) = Inl e"
      using FromMap_foreign [OF _ assms(4)] by (meson sum.exhaust)
    then show ?thesis by (auto simp: ApplyUpdate_def Let_def)
  qed (simp add: ApplyUpdate_def Let_def)
  then obtain e where "ApplyUpdate (sh_load_env sh) (sh_dump sh) (sh_write sh) (sv_cfg sv) ?patch ?full (boolField req ''apply'' True) ?path ?fs
      = (Inl e, ?fs)" by blast
  then show ?thesis by (simp add: opConfigSet_def)
qed

lemma config_fields_given:
  assumes "map_of fs f = Some (JsObject doc)" "f \<in> {''config'', ''patch''}"
  shows "map_of (config_fields fs) f = Some (AMap (json_raw doc))"
proof -
  have given: "object_field fs f = [(f, AMap (json_raw doc))]" using assms(1) by (simp add: object_field_def)
  have other: "map_of (object_field fs ''config'') ''patch'' = None" by (simp add: object_field_def split: option.split json.split)
  show ?thesis
  proof (cases "f = ''config''")
    case True
    then show ?thesis using given by (simp add: config_fields_def)
  next
    case False
    then have "f = ''patch''" using assms(2) by simp
    then show ?thesis using given other by (simp add: config_fields_def map_add_def)
  qed
qed

text \<open>C35. Numbers cannot be set. A config_set whose configuration or patch holds a JSON number under a key that
  takes a number - the version, a limit, a size, an interval, the port of the web interface - is answered
  CONFIG_ERROR and changes nothing, over the control socket and over HTTP: both decoders keep numbers as
  json.Number, a type that the validation of the configuration refuses.\<close>

theorem numeric_updates_refused:
  assumes doc: "map_of fs f = Some (JsObject doc)" "f \<in> {''config'', ''patch''}" and num: "map_of doc k = Some (JsNumber n)" "k \<in> set number_keys"
  shows "(map_of fs ''op'' = Some (JsString ''config_set'') \<longrightarrow>
        (\<exists>why. handleRequest sh answer (json_request fs) sv = (ErrResponse why ''CONFIG_ERROR'', sv)))
    \<and> (hq_method r = ''POST'' \<and> readJSONObject (hq_body r) = Inr fs \<longrightarrow>
        (\<exists>why. handleConfig wh r st = ((400, HError why ''CONFIG_ERROR''), st)))"
proof -
  have foreign: "foreign (json_raw doc) k" by (rule json_raw_number [OF num(1)])
  have set: "\<exists>why. handleRequest sh answer req sv = (ErrResponse why ''CONFIG_ERROR'', sv)"
    if "str_arg (map_of req ''op'') = ''config_set''" "map_of req f = Some (AMap (json_raw doc))" for sh answer req sv
    using opConfigSet_foreign [OF that(2) doc(2) foreign num(2), of sh sv] that(1) by (auto simp: handleRequest_def notify_ok_def Let_def)
  have "\<exists>why. handleRequest sh answer (json_request fs) sv = (ErrResponse why ''CONFIG_ERROR'', sv)"
    if "map_of fs ''op'' = Some (JsString ''config_set'')"
    by (rule set) (use that doc(1) in \<open>simp_all add: json_request_def map_of_map\<close>)
  moreover have "\<exists>why. handleConfig wh r st = ((400, HError why ''CONFIG_ERROR''), st)"
    if "hq_method r = ''POST''" "readJSONObject (hq_body r) = Inr fs"
  proof -
    have "map_of (config_fields fs) f = Some (AMap (json_raw doc))" by (rule config_fields_given [OF doc])
    moreover have "str_arg (map_of (config_fields fs) ''op'') = ''config_set''" by (simp add: config_fields_def Let_def)
    ultimately obtain why where "handleRequest (wh_service wh) (wh_answer wh) (config_fields fs) (snd st) = (ErrResponse why ''CONFIG_ERROR'', snd st)"
      using set by blast
    then show ?thesis using that by (simp add: handleConfig_def with_body_def backend_def)
  qed
  ultimately show ?thesis by blast
qed

theorem numeric_updates_refused_witness:
  "\<exists>why. handleRequest sample_service_host (OKResponse PMetrics)
     (json_request [(''op'', JsString ''config_set''), (''patch'', JsObject [(''max_mount_attempts'', JsNumber ''5'')])]) sample_idle
     = (ErrResponse why ''CONFIG_ERROR'', sample_idle)"
  using numeric_updates_refused [of "[(''op'', JsString ''config_set''), (''patch'', JsObject [(''max_mount_attempts'', JsNumber ''5'')])]"
      "''patch''" "[(''max_mount_attempts'', JsNumber ''5'')]" "''max_mount_attempts''" "''5''"]
  by (simp add: number_keys_def)

text \<open>The page hands out the token. The page at / is served without a check and holds the token, when there is
  one; a request with the token read from it is never answered 401: it reaches the handler of its
  route as if no token were configured.\<close>

theorem token_handed_out:
  assumes page: "hq_path r \<in> {''/'', ''/index.html'', ''/settings''}" and tok: "wb_token (fst st) \<noteq> ''''"
  shows "\<exists>t. serveHTTP wh r st = ((200, HIndex (Some t)), st)
    \<and> (\<forall>r' h st'. map_of api_routes (hq_path r') = Some h \<and> wb_token (fst st') = wb_token (fst st) \<longrightarrow>
         serveHTTP wh (r'\<lparr>hq_auth := ''Bearer '' @ t\<rparr>) st' = h wh (r'\<lparr>hq_auth := ''Bearer '' @ t\<rparr>) st')"
proof (intro exI conjI allI impI)
  have "map_of api_routes (hq_path r) = None" "hq_path r \<noteq> ''/metrics''" using page by (auto simp: api_routes_def)
  moreover have "spaHandler wh (wb_token (fst st)) r = (200, HIndex (Some (wb_token (fst st))))"
    using page tok by (auto simp: spaHandler_def Let_def has_prefix_def)
  ultimately show "serveHTTP wh r st = ((200, HIndex (Some (wb_token (fst st)))), st)" by (simp add: serveHTTP_def)
qed (auto simp: serveHTTP_def withAPIAuth_def checkToken_def bearer_def)

subsection \<open>Examples\<close>

definition sample_web :: web where
  "sample_web = \<lparr>wb_limit = None, wb_token = ''s3cret'', wb_bind = ''0.0.0.0:8788''\<rparr>"

definition sample_web_host :: web_host where
  "sample_web_host = \<lparr>wh_service = sample_service_host, wh_answer = OKResponse PMetrics, wh_mono = 0, wh_loopback = (\<lambda>_. False),
     wh_assets = (\<lambda>_. False)\<rparr>"

definition sample_http :: "string \<Rightarrow> string \<Rightarrow> http_request" where
  "sample_http method p = \<lparr>hq_method = method, hq_path = p, hq_remote = ''10.0.0.9:4711'', hq_auth = '''', hq_query = [],
     hq_body = BodyJson (JsObject [(''archive_id'', JsString ''x''), (''yes'', JsBool True)])\<rparr>"


theorem token_handed_out_witness:
  "\<exists>t. serveHTTP sample_web_host (sample_http ''GET'' ''/'') (sample_web, sample_idle) = ((200, HIndex (Some t)), sample_web, sample_idle)"
  using token_handed_out [of "sample_http ''GET'' ''/''" "(sample_web, sample_idle)" sample_web_host]
  by (auto simp: sample_http_def sample_web_def)

end
