(* ===== verification/Events.thy ===== *)
theory Events
  imports Http
begin

text \<open>
  The event stream of the web interface: DiffSnapshots of src/internal/api/sse_diff.go, the refresh
  and the stream of sse.go.  A snapshot is a decoded JSON object whose keys are unique and whose
  objects are in the canonical key order of the encoder, so that two values are encoded alike
  exactly when they are equal.  A failed write ends the stream; the events are those written until
  then.
\<close>

subsection \<open>Snapshots\<close>

type_synonym snapshot = "(string \<times> json) list"

definition field_of :: "snapshot \<Rightarrow> string \<Rightarrow> json" where
  "field_of s k = (case map_of s k of Some v \<Rightarrow> v | None \<Rightarrow> JsNull)"

definition has_field :: "snapshot \<Rightarrow> string \<Rightarrow> bool" where
  "has_field s k \<longleftrightarrow> map_of s k \<noteq> None"

definition archiveWatchKeys :: "string list" where
  "archiveWatchKeys = [''status'', ''hooks_status'', ''progress_label'', ''elapsed_s'', ''last_error'', ''mount_path'', ''archive_path'',
     ''index_path'', ''overlay_path'', ''mount_pid'', ''pid_alive'', ''mount_attempts'', ''mount_retryable'', ''mount_phase'',
     ''is_first_index'', ''live_pid'', ''size_bytes'', ''is_mounted'', ''removed_at'', ''fingerprint'', ''metrics'',
     ''index_duration_seconds'', ''mount_duration_seconds'', ''convert_source_size_bytes'', ''convert_duration_seconds'',
     ''nested_skips_count'', ''nested_skips_summary'']"

definition topLevelCountKeys :: "string list" where
  "topLevelCountKeys = [''mounted'', ''indexing'', ''mounting'', ''discovered'', ''hooks_running'', ''index_failed'', ''mount_failed'', ''absent'']"

definition jsonEqual :: "json \<Rightarrow> json \<Rightarrow> bool" where
  "jsonEqual a b \<longleftrightarrow> a = b"

fun as_object :: "json \<Rightarrow> snapshot option" where
  "as_object (JsObject fs) = Some fs"
| "as_object _ = None"

fun asSliceOfMaps :: "json \<Rightarrow> snapshot list" where
  "asSliceOfMaps (JsArray xs) = List.map_filter as_object xs"
| "asSliceOfMaps _ = []"

definition row_id :: "snapshot \<Rightarrow> string" where
  "row_id row = asString (map_of row ''archive_id'')"

text \<open>Of two rows with one id the later counts.\<close>

definition archivesByID :: "json \<Rightarrow> string \<Rightarrow> snapshot option" where
  "archivesByID v = map_of (rev (map (\<lambda>row. (row_id row, row)) (filter (\<lambda>row. row_id row \<noteq> '''') (asSliceOfMaps v))))"

definition archive_ids :: "json \<Rightarrow> string list" where
  "archive_ids v = remdups (filter (\<lambda>i. i \<noteq> '''') (map row_id (asSliceOfMaps v)))"

definition archiveWatchEqual :: "snapshot \<Rightarrow> snapshot \<Rightarrow> bool" where
  "archiveWatchEqual a b \<longleftrightarrow> list_all (\<lambda>k. jsonEqual (field_of a k) (field_of b k)) archiveWatchKeys"

subsection \<open>Deltas\<close>

record delta =
  de_counts :: "snapshot option"
  de_low_disk :: "snapshot option"
  de_scan :: "snapshot option"
  de_metrics :: "snapshot option"
  de_archives :: "snapshot list"
  de_removed :: "string list"

definition no_delta :: delta where
  "no_delta = \<lparr>de_counts = None, de_low_disk = None, de_scan = None, de_metrics = None, de_archives = [], de_removed = []\<rparr>"

definition HasChanges :: "delta \<Rightarrow> bool" where
  "HasChanges d \<longleftrightarrow> de_counts d \<noteq> None \<or> de_low_disk d \<noteq> None \<or> de_scan d \<noteq> None \<or> de_metrics d \<noteq> None
     \<or> length (de_archives d) > 0 \<or> length (de_removed d) > 0"

definition ArchiveEventPayload :: "delta \<Rightarrow> snapshot option" where
  "ArchiveEventPayload d =
    (if de_archives d = [] \<and> de_removed d = [] then None
     else Some ((''archives'', JsArray (map JsObject (de_archives d)))
            # (if de_removed d \<noteq> [] then [(''removed_ids'', JsArray (map JsString (de_removed d)))] else [])))"

definition copied :: "snapshot \<Rightarrow> string list \<Rightarrow> snapshot" where
  "copied s ks = map (\<lambda>k. (k, field_of s k)) (filter (has_field s) ks)"

definition buildCountsEvent :: "snapshot \<Rightarrow> snapshot" where
  "buildCountsEvent snap =
    [(''counts'', field_of snap ''counts''), (''low_disk'', field_of snap ''low_disk''), (''last_scan_at'', field_of snap ''last_scan_at'')]
      @ copied snap topLevelCountKeys"

definition low_disk_of :: "snapshot \<Rightarrow> bool" where
  "low_disk_of s = asBool (map_of s ''low_disk'') False"

definition scan_at_of :: "snapshot \<Rightarrow> string" where
  "scan_at_of s = asString (map_of s ''last_scan_at'')"

definition countsEqual :: "snapshot \<Rightarrow> snapshot \<Rightarrow> bool" where
  "countsEqual prev cur \<longleftrightarrow> jsonEqual (field_of prev ''counts'') (field_of cur ''counts'')
     \<and> list_all (\<lambda>k. jsonEqual (field_of prev k) (field_of cur k)) topLevelCountKeys
     \<and> low_disk_of prev = low_disk_of cur \<and> scan_at_of prev = scan_at_of cur"

definition unusable :: "snapshot \<Rightarrow> bool" where
  "unusable s \<longleftrightarrow> map_of s ''ok'' = Some (JsBool False)"

definition low_disk_delta :: "snapshot \<Rightarrow> snapshot \<Rightarrow> snapshot option" where
  "low_disk_delta prev cur =
    (if low_disk_of prev \<noteq> low_disk_of cur
     then Some ((''low_disk'', JsBool (low_disk_of cur)) # copied cur [''disk_free_bytes'', ''min_free_bytes'']) else None)"

definition scan_delta :: "snapshot \<Rightarrow> snapshot \<Rightarrow> snapshot option" where
  "scan_delta prev cur =
    (if scan_at_of cur \<noteq> '''' \<and> scan_at_of cur \<noteq> scan_at_of prev
     then Some ((''last_scan_at'', JsString (scan_at_of cur)) # copied cur [''last_scan'', ''last_scan_duration_ms'']) else None)"

definition metrics_delta :: "snapshot \<Rightarrow> snapshot \<Rightarrow> snapshot option" where
  "metrics_delta prev cur =
    (if \<not> jsonEqual (field_of prev ''metrics_summary'') (field_of cur ''metrics_summary'')
     then (if field_of cur ''metrics_summary'' \<noteq> JsNull then Some [(''metrics_summary'', field_of cur ''metrics_summary'')]
           else if field_of prev ''metrics_summary'' \<noteq> JsNull then Some [(''metrics_summary'', JsNull)] else None)
     else None)"

definition changed_ids :: "snapshot \<Rightarrow> snapshot \<Rightarrow> string list" where
  "changed_ids prev cur =
    sort (filter (\<lambda>i. case archivesByID (field_of prev ''archives'') i of
            None \<Rightarrow> True
          | Some old \<Rightarrow> \<not> archiveWatchEqual old (the (archivesByID (field_of cur ''archives'') i)))
        (archive_ids (field_of cur ''archives'')))"

definition removed_ids :: "snapshot \<Rightarrow> snapshot \<Rightarrow> string list" where
  "removed_ids prev cur =
    sort (filter (\<lambda>i. archivesByID (field_of cur ''archives'') i = None) (archive_ids (field_of prev ''archives'')))"

definition DiffSnapshots :: "snapshot option \<Rightarrow> snapshot option \<Rightarrow> delta" where
  "DiffSnapshots prev0 cur0 =
    (case cur0 of
       None \<Rightarrow> no_delta
     | Some cur \<Rightarrow>
        (if unusable cur then no_delta
         else (let prev = (case prev0 of Some p \<Rightarrow> p | None \<Rightarrow> []) in
           \<lparr>de_counts = (if countsEqual prev cur then None else Some (buildCountsEvent cur)),
            de_low_disk = low_disk_delta prev cur, de_scan = scan_delta prev cur, de_metrics = metrics_delta prev cur,
            de_archives = map (\<lambda>i. the (archivesByID (field_of cur ''archives'') i)) (changed_ids prev cur),
            de_removed = removed_ids prev cur\<rparr>)))"

subsection \<open>The stream\<close>

type_synonym sse_event = "string \<times> snapshot"

text \<open>The status the backend answers; \<open>body\<close> is the decoded document, or the error.\<close>

definition snapshotPayload :: "int \<Rightarrow> json \<Rightarrow> snapshot" where
  "snapshotPayload status body =
    (if status \<noteq> 200 then [(''ok'', JsBool False), (''error'', body)]
     else (case as_object body of
        Some m \<Rightarrow> (''ok'', JsBool True) # filter (\<lambda>e. fst e \<noteq> ''ok'') m
      | None \<Rightarrow> [(''ok'', JsBool True), (''data'', body)]))"

definition event_of :: "string \<Rightarrow> snapshot option \<Rightarrow> sse_event list" where
  "event_of name d = (case d of Some x \<Rightarrow> [(name, x)] | None \<Rightarrow> [])"

definition delta_events :: "delta \<Rightarrow> sse_event list" where
  "delta_events d = event_of ''counts'' (de_counts d) @ event_of ''archive'' (ArchiveEventPayload d) @ event_of ''scan'' (de_scan d)
     @ event_of ''metrics'' (de_metrics d) @ event_of ''low_disk'' (de_low_disk d)"

text \<open>The state of a stream: the baseline of the next diff, and the refreshes since the last full snapshot.\<close>

definition emitSSERefresh :: "nat \<Rightarrow> bool \<Rightarrow> snapshot \<Rightarrow> snapshot \<times> nat \<Rightarrow> sse_event list \<times> (snapshot \<times> nat)" where
  "emitSSERefresh fullEvery countTowardFull cur st =
    (let (prev, tick) = st;
         tick1 = (if countTowardFull then tick + 1 else tick);
         full = (countTowardFull \<and> tick1 \<ge> fullEvery) in
     (delta_events (DiffSnapshots (Some prev) (Some cur)) @ (if full then [(''snapshot'', cur)] else []),
      (if unusable cur then prev else cur), (if full then 0 else tick1)))"

text \<open>What wakes the stream: its two tickers and a change of the service, with what status then answers.\<close>

datatype wake = WakeHeartbeat string | WakeNotify int json | WakeRefresh int json

fun serve_wakes :: "nat \<Rightarrow> wake list \<Rightarrow> snapshot \<times> nat \<Rightarrow> sse_event list" where
  "serve_wakes fullEvery [] st = []"
| "serve_wakes fullEvery (WakeHeartbeat ts # ws) st = (''heartbeat'', [(''ts'', JsString ts)]) # serve_wakes fullEvery ws st"
| "serve_wakes fullEvery (WakeNotify status body # ws) st =
    (let (es, st') = emitSSERefresh fullEvery False (snapshotPayload status body) st in es @ serve_wakes fullEvery ws st')"
| "serve_wakes fullEvery (WakeRefresh status body # ws) st =
    (let (es, st') = emitSSERefresh fullEvery True (snapshotPayload status body) st in es @ serve_wakes fullEvery ws st')"

definition handleEvents :: "int \<Rightarrow> int \<Rightarrow> json \<Rightarrow> wake list \<Rightarrow> sse_event list" where
  "handleEvents fullEvery0 status body ws =
    (let fullEvery = (if fullEvery0 \<le> 0 then 4 else nat fullEvery0); first = snapshotPayload status body in
     (''snapshot'', first) # serve_wakes fullEvery ws (first, 0))"

end
