(* ===== verification/EventProps.thy ===== *)
theory EventProps
  imports Events
begin

text \<open>
  The event stream keeps a client in step: whoever applies the events sees, in every field the
  stream watches, the last status the service gave.
\<close>

subsection \<open>What a client sees\<close>

record view =
  vw_counts :: "string \<Rightarrow> json"
  vw_low :: bool
  vw_scan :: string
  vw_metrics :: json
  vw_rows :: "string \<Rightarrow> (string \<Rightarrow> json) option"

definition shown :: "snapshot \<Rightarrow> string \<Rightarrow> json" where
  "shown s k = (if k \<in> set (''counts'' # topLevelCountKeys) then field_of s k else JsNull)"

definition watched :: "snapshot \<Rightarrow> string \<Rightarrow> json" where
  "watched row k = (if k \<in> set archiveWatchKeys then field_of row k else JsNull)"

definition rows_of :: "snapshot \<Rightarrow> string \<Rightarrow> (string \<Rightarrow> json) option" where
  "rows_of s i = map_option watched (archivesByID (field_of s ''archives'') i)"

definition view_of :: "snapshot \<Rightarrow> view" where
  "view_of s = \<lparr>vw_counts = shown s, vw_low = low_disk_of s, vw_scan = scan_at_of s, vw_metrics = field_of s ''metrics_summary'',
     vw_rows = rows_of s\<rparr>"

fun strings_of :: "json \<Rightarrow> json list" where
  "strings_of (JsArray xs) = xs"
| "strings_of _ = []"

definition patch_rows :: "snapshot \<Rightarrow> (string \<Rightarrow> (string \<Rightarrow> json) option) \<Rightarrow> string \<Rightarrow> (string \<Rightarrow> json) option" where
  "patch_rows data old i =
    (case rows_of data i of
       Some row \<Rightarrow> Some row
     | None \<Rightarrow> if JsString i \<in> set (strings_of (field_of data ''removed_ids'')) then None else old i)"

definition apply_event :: "sse_event \<Rightarrow> view \<Rightarrow> view" where
  "apply_event e v =
    (let (name, data) = e in
     if name = ''snapshot'' then (if unusable data then v else view_of data)
     else if name = ''counts'' then v\<lparr>vw_counts := shown data, vw_low := low_disk_of data, vw_scan := scan_at_of data\<rparr>
     else if name = ''archive'' then v\<lparr>vw_rows := patch_rows data (vw_rows v)\<rparr>
     else if name = ''scan'' then v\<lparr>vw_scan := scan_at_of data\<rparr>
     else if name = ''metrics'' then v\<lparr>vw_metrics := field_of data ''metrics_summary''\<rparr>
     else if name = ''low_disk'' then v\<lparr>vw_low := low_disk_of data\<rparr>
     else v)"

subsection \<open>Rows by id\<close>

lemma archivesByID_id: "archivesByID v i = Some row \<Longrightarrow> row_id row = i \<and> i \<noteq> ''''"
  unfolding archivesByID_def by (drule map_of_SomeD) auto

lemma archive_ids_iff: "i \<in> set (archive_ids v) \<longleftrightarrow> archivesByID v i \<noteq> None"
  unfolding archivesByID_def archive_ids_def map_of_eq_None_iff by (auto simp: image_iff)

lemma as_object_rows [simp]: "asSliceOfMaps (JsArray (map JsObject rows)) = rows"
  by (induction rows) (simp_all add: map_filter_simps)

lemma archivesByID_rows:
  assumes "\<And>i. i \<in> set is \<Longrightarrow> archivesByID v i \<noteq> None"
  shows "archivesByID (JsArray (map JsObject (map (\<lambda>i. the (archivesByID v i)) is))) j = (if j \<in> set is then archivesByID v j else None)"
proof -
  let ?rows = "map (\<lambda>i. the (archivesByID v i)) is"
  have ids: "row_id (the (archivesByID v i)) = i \<and> i \<noteq> ''''" if "i \<in> set is" for i
    using assms [OF that] archivesByID_id by fastforce
  have "filter (\<lambda>row. row_id row \<noteq> '''') ?rows = ?rows" using ids by (auto intro!: filter_True)
  moreover have "map (\<lambda>row. (row_id row, row)) ?rows = map (\<lambda>i. (i, the (archivesByID v i))) is" using ids by simp
  moreover have "map_of (rev (map (\<lambda>i. (i, the (archivesByID v i))) is)) j = (if j \<in> set is then Some (the (archivesByID v j)) else None)"
    unfolding rev_map by (simp add: map_of_map_restrict restrict_map_def)
  ultimately have "archivesByID (JsArray (map JsObject ?rows)) j = (if j \<in> set is then Some (the (archivesByID v j)) else None)"
    by (simp only: archivesByID_def [of "JsArray _"] as_object_rows)
  then show ?thesis using assms by auto
qed

lemma watched_eq: "archiveWatchEqual a b \<longleftrightarrow> watched a = watched b"
  by (auto simp: archiveWatchEqual_def jsonEqual_def watched_def list_all_iff fun_eq_iff)

subsection \<open>A delta carries the difference\<close>

lemma field_of_copied: "field_of (copied s ks) k = (if k \<in> set ks then field_of s k else JsNull)"
  by (auto simp: field_of_def copied_def has_field_def map_of_map_restrict restrict_map_def)

lemma counts_shown: "shown (buildCountsEvent s) = shown s"
proof
  fix k
  have "field_of (buildCountsEvent s) k = (if k = ''counts'' then field_of s k else field_of (copied s topLevelCountKeys) k)"
    if "k \<in> set (''counts'' # topLevelCountKeys)"
    using that by (auto simp: buildCountsEvent_def field_of_def topLevelCountKeys_def)
  then show "shown (buildCountsEvent s) k = shown s k" by (auto simp: shown_def field_of_copied)
qed

lemma asBool_null: "asBool (Some (case m of Some v \<Rightarrow> v | None \<Rightarrow> JsNull)) False = asBool m False"
  by (cases m) (simp_all add: asBool_def)

lemma asString_null: "asString (Some (case m of Some v \<Rightarrow> v | None \<Rightarrow> JsNull)) = asString m"
  by (cases m) simp_all

lemma counts_flags: "low_disk_of (buildCountsEvent s) = low_disk_of s" "scan_at_of (buildCountsEvent s) = scan_at_of s"
  by (simp_all add: low_disk_of_def scan_at_of_def buildCountsEvent_def field_of_def asBool_null asString_null)

lemma countsEqual_view: "countsEqual p s \<longleftrightarrow> shown p = shown s \<and> low_disk_of p = low_disk_of s \<and> scan_at_of p = scan_at_of s"
  by (auto simp: countsEqual_def jsonEqual_def shown_def list_all_iff fun_eq_iff)

lemma changed_ids_iff:
  "i \<in> set (changed_ids p s) \<longleftrightarrow> rows_of s i \<noteq> None \<and> rows_of p i \<noteq> rows_of s i"
proof -
  have "i \<in> set (changed_ids p s) \<longleftrightarrow> archivesByID (field_of s ''archives'') i \<noteq> None
      \<and> (case archivesByID (field_of p ''archives'') i of
           None \<Rightarrow> True | Some old \<Rightarrow> \<not> archiveWatchEqual old (the (archivesByID (field_of s ''archives'') i)))"
    by (auto simp: changed_ids_def archive_ids_iff)
  then show ?thesis by (auto simp: rows_of_def watched_eq split: option.splits)
qed

lemma removed_ids_iff: "i \<in> set (removed_ids p s) \<longleftrightarrow> rows_of s i = None \<and> rows_of p i \<noteq> None"
  by (auto simp: removed_ids_def archive_ids_iff rows_of_def)

definition row_delta :: "snapshot \<Rightarrow> snapshot \<Rightarrow> snapshot" where
  "row_delta p s = (''archives'', JsArray (map JsObject (map (\<lambda>i. the (archivesByID (field_of s ''archives'') i)) (changed_ids p s))))
     # (if removed_ids p s \<noteq> [] then [(''removed_ids'', JsArray (map JsString (removed_ids p s)))] else [])"

lemma row_delta_patches: "patch_rows (row_delta p s) (rows_of p) = rows_of s"
proof
  fix i
  have changed: "archivesByID (field_of s ''archives'') j \<noteq> None" if "j \<in> set (changed_ids p s)" for j
    using that by (simp add: changed_ids_iff rows_of_def)
  have "field_of (row_delta p s) ''archives''
      = JsArray (map JsObject (map (\<lambda>i. the (archivesByID (field_of s ''archives'') i)) (changed_ids p s)))"
    by (simp add: row_delta_def field_of_def)
  then have rows: "rows_of (row_delta p s) i = (if i \<in> set (changed_ids p s) then rows_of s i else None)"
    using archivesByID_rows [of "changed_ids p s" "field_of s ''archives''" i] changed by (simp add: rows_of_def)
  have "strings_of (field_of (row_delta p s) ''removed_ids'') = map JsString (removed_ids p s)"
    by (simp add: row_delta_def field_of_def)
  then have gone: "JsString i \<in> set (strings_of (field_of (row_delta p s) ''removed_ids'')) \<longleftrightarrow> i \<in> set (removed_ids p s)" by auto
  show "patch_rows (row_delta p s) (rows_of p) i = rows_of s i"
    unfolding patch_rows_def rows gone by (auto simp: changed_ids_iff removed_ids_iff split: option.split)
qed

lemma no_row_delta: "changed_ids p s = [] \<Longrightarrow> removed_ids p s = [] \<Longrightarrow> rows_of p = rows_of s"
proof
  fix i
  assume "changed_ids p s = []" "removed_ids p s = []"
  then show "rows_of p i = rows_of s i" using changed_ids_iff [of i p s] removed_ids_iff [of i p s] by auto
qed

definition apply_all :: "sse_event list \<Rightarrow> view \<Rightarrow> view" where
  "apply_all es v = fold apply_event es v"

lemma apply_all_append [simp]: "apply_all (xs @ ys) v = apply_all ys (apply_all xs v)" "apply_all [] v = v"
  "apply_all (e # es) v = apply_all es (apply_event e v)"
  by (simp_all add: apply_all_def)

lemma diff_applies:
  assumes "\<not> unusable s"
  shows "apply_all (delta_events (DiffSnapshots (Some p) (Some s))) (view_of p) = view_of s"
proof -
  let ?d = "DiffSnapshots (Some p) (Some s)"
  have d: "de_counts ?d = (if countsEqual p s then None else Some (buildCountsEvent s))" "de_low_disk ?d = low_disk_delta p s"
    "de_scan ?d = scan_delta p s" "de_metrics ?d = metrics_delta p s"
    "ArchiveEventPayload ?d = (if changed_ids p s = [] \<and> removed_ids p s = [] then None else Some (row_delta p s))"
    using assms by (simp_all add: DiffSnapshots_def ArchiveEventPayload_def row_delta_def)
  define v1 where "v1 = (view_of p)\<lparr>vw_counts := shown s, vw_low := low_disk_of s, vw_scan := scan_at_of s\<rparr>"
  have counts: "apply_all (event_of ''counts'' (de_counts ?d)) (view_of p) = v1"
    by (simp add: d event_of_def apply_event_def counts_shown counts_flags v1_def) (simp add: countsEqual_view view_of_def)
  have rows: "apply_all (event_of ''archive'' (ArchiveEventPayload ?d)) v1 = v1\<lparr>vw_rows := rows_of s\<rparr>"
  proof (cases "changed_ids p s = [] \<and> removed_ids p s = []")
    case True
    then have "rows_of p = rows_of s" by (simp add: no_row_delta)
    then show ?thesis unfolding d using True by (simp add: event_of_def v1_def view_of_def)
  next
    case False
    then have "ArchiveEventPayload ?d = Some (row_delta p s)" unfolding d by (rule if_not_P)
    then show ?thesis by (simp add: event_of_def apply_event_def v1_def view_of_def row_delta_patches)
  qed
  have scan: "apply_all (event_of ''scan'' (de_scan ?d)) v = v" if "vw_scan v = scan_at_of s" for v
    using that unfolding d scan_delta_def by (simp add: event_of_def apply_event_def scan_at_of_def)
  have low: "apply_all (event_of ''low_disk'' (de_low_disk ?d)) v = v" if "vw_low v = low_disk_of s" for v
    using that unfolding d low_disk_delta_def by (simp add: event_of_def apply_event_def low_disk_of_def asBool_def)
  have metrics: "apply_all (event_of ''metrics'' (de_metrics ?d)) v = v\<lparr>vw_metrics := field_of s ''metrics_summary''\<rparr>"
    if "vw_metrics v = field_of p ''metrics_summary''" for v
    using that unfolding d metrics_delta_def by (auto simp: event_of_def apply_event_def jsonEqual_def field_of_def)
  show ?thesis
    unfolding delta_events_def apply_all_append counts rows
    by (subst scan, simp add: v1_def view_of_def, subst metrics, simp add: v1_def view_of_def, subst low, simp add: v1_def view_of_def)
      (simp add: v1_def view_of_def)
qed

subsection \<open>The stream\<close>

fun payloads :: "wake list \<Rightarrow> snapshot list" where
  "payloads [] = []"
| "payloads (WakeHeartbeat ts # ws) = payloads ws"
| "payloads (WakeNotify status body # ws) = snapshotPayload status body # payloads ws"
| "payloads (WakeRefresh status body # ws) = snapshotPayload status body # payloads ws"

definition last_usable :: "snapshot \<Rightarrow> snapshot list \<Rightarrow> snapshot" where
  "last_usable s xs = fold (\<lambda>x p. if unusable x then p else x) xs s"

fun refreshes :: "wake list \<Rightarrow> nat" where
  "refreshes [] = 0"
| "refreshes (WakeRefresh status body # ws) = Suc (refreshes ws)"
| "refreshes (_ # ws) = refreshes ws"

definition full_events :: "sse_event list \<Rightarrow> nat" where
  "full_events es = length (filter (\<lambda>e. fst e = ''snapshot'') es)"

lemma full_events_append [simp]: "full_events (xs @ ys) = full_events xs + full_events ys" "full_events [] = 0"
  "full_events (e # es) = (if fst e = ''snapshot'' then Suc (full_events es) else full_events es)"
  by (simp_all add: full_events_def)

lemma no_full_delta [simp]: "full_events (delta_events d) = 0"
  by (auto simp: delta_events_def event_of_def split: option.split)

lemma delta_unusable: "unusable s \<Longrightarrow> delta_events (DiffSnapshots p (Some s)) = []"
  by (simp add: DiffSnapshots_def no_delta_def delta_events_def event_of_def ArchiveEventPayload_def)

lemma refresh_step:
  assumes "emitSSERefresh n full s (p, tick) = (es, p', tick')"
  shows "apply_all es (view_of p) = view_of p' \<and> p' = (if unusable s then p else s)"
proof -
  have "apply_all (delta_events (DiffSnapshots (Some p) (Some s))) (view_of p) = view_of (if unusable s then p else s)"
    using diff_applies [of s p] by (simp add: delta_unusable)
  then show ?thesis using assms by (auto simp: emitSSERefresh_def Let_def apply_event_def)
qed

lemma serve_wakes_step:
  "apply_all (serve_wakes n ws (p, tick)) (view_of p) = view_of (last_usable p (payloads ws))"
proof (induction ws arbitrary: p tick)
  case (Cons w ws)
  show ?case
  proof (cases w)
    case (WakeHeartbeat ts)
    then show ?thesis using Cons by (simp add: apply_event_def)
  next
    case (WakeNotify status body)
    obtain es p' t' where run: "emitSSERefresh n False (snapshotPayload status body) (p, tick) = (es, p', t')" by (metis prod_cases3)
    then show ?thesis using refresh_step [OF run] Cons [of p' t'] by (simp add: WakeNotify last_usable_def)
  next
    case (WakeRefresh status body)
    obtain es p' t' where run: "emitSSERefresh n True (snapshotPayload status body) (p, tick) = (es, p', t')" by (metis prod_cases3)
    then show ?thesis using refresh_step [OF run] Cons [of p' t'] by (simp add: WakeRefresh last_usable_def)
  qed
qed (simp add: last_usable_def)

lemma serve_wakes_full:
  assumes "tick < n"
  shows "full_events (serve_wakes n ws (p, tick)) = (tick + refreshes ws) div n"
  using assms
proof (induction ws arbitrary: p tick)
  case (Cons w ws)
  show ?case
  proof (cases w)
    case (WakeHeartbeat ts)
    then show ?thesis using Cons by simp
  next
    case (WakeNotify status body)
    then show ?thesis using Cons by (simp add: emitSSERefresh_def Let_def)
  next
    case (WakeRefresh status body)
    show ?thesis
    proof (cases "tick + 1 \<ge> n")
      case True
      then have "tick + 1 = n" using Cons.prems by simp
      then have "(tick + refreshes (w # ws)) div n = Suc (refreshes ws div n)"
        using WakeRefresh by (metis add.commute add_Suc_right div_add_self1 Suc_eq_plus1 add_Suc refreshes.simps(2) zero_less_Suc neq0_conv)
      then show ?thesis using Cons.IH [of 0] Cons.prems True WakeRefresh by (simp add: emitSSERefresh_def Let_def)
    next
      case False
      then show ?thesis using Cons.IH [of "tick + 1"] WakeRefresh by (simp add: emitSSERefresh_def Let_def)
    qed
  qed
qed simp

lemma view_of_unusable: "view_of (last_usable [] [snapshotPayload status body]) = view_of (snapshotPayload status body)"
proof (cases "status = 200")
  case True
  then have "\<not> unusable (snapshotPayload status body)" by (simp add: snapshotPayload_def unusable_def split: option.split)
  then show ?thesis by (simp add: last_usable_def)
next
  case False
  then show ?thesis
    by (auto simp: last_usable_def snapshotPayload_def unusable_def view_of_def shown_def topLevelCountKeys_def field_of_def
        low_disk_of_def scan_at_of_def asBool_def rows_of_def archivesByID_def fun_eq_iff)
qed

text \<open>C36. The event stream keeps a client in step. A client that starts with nothing and applies the events in
  their order - replacing everything on a full snapshot, patching rows by id, counts, scan time, disk
  flag and sizes on the others, ignoring a snapshot that reports an error - sees after any wakes, in every
  field the stream watches, exactly the last status the service gave; errors in between lose nothing.  Full
  snapshots come at the start and with every n-th refresh, however often changes of the service wake the
  stream in between.\<close>

theorem sse_in_step:
  "apply_all (handleEvents n status body ws) (view_of []) = view_of (last_usable [] (snapshotPayload status body # payloads ws))
   \<and> full_events (handleEvents n status body ws) = 1 + refreshes ws div (if n \<le> 0 then 4 else nat n)"
proof -
  let ?n = "if n \<le> 0 then 4 else nat n" and ?s = "snapshotPayload status body"
  have "apply_event (''snapshot'', ?s) (view_of []) = view_of ?s"
    using view_of_unusable [of status body] by (auto simp: apply_event_def last_usable_def split: if_splits)
  then have "apply_all (handleEvents n status body ws) (view_of []) = view_of (last_usable ?s (payloads ws))"
    by (simp add: handleEvents_def Let_def serve_wakes_step)
  moreover have "view_of (last_usable ?s xs) = view_of (last_usable (last_usable [] [?s]) xs)" for xs
    using view_of_unusable [of status body]
  proof (induction xs)
    case (Cons x xs)
    then show ?case by (cases "unusable x") (simp_all add: last_usable_def)
  qed (simp add: last_usable_def)
  moreover have "last_usable (last_usable [] [?s]) xs = last_usable [] (?s # xs)" for xs by (simp add: last_usable_def)
  moreover have "full_events (handleEvents n status body ws) = 1 + refreshes ws div ?n"
    using serve_wakes_full [of 0 ?n ws ?s] by (simp add: handleEvents_def Let_def)
  ultimately show ?thesis by metis
qed

end
