(* ===== verification/Platform.thy ===== *)
theory Platform
  imports MountPolicy
begin

text \<open>
  The host platform of src/internal/platform: its label, FUSE and the unmount tool (fuse.go), WSL
  (detect.go), the default paths (paths.go) and the mechanism of the peer credentials.  An empty
  platform argument, which stands for the running host, is resolved by the caller.
\<close>

definition HostPlatformOf :: "string \<Rightarrow> string" where
  "HostPlatformOf goos =
    (let p = to_lower (trim_space goos) in
     if has_prefix p ''linux'' then ''linux'' else if p = ''darwin'' then ''darwin'' else ''other'')"

definition IsLinux :: "string \<Rightarrow> bool" where
  "IsLinux plat \<longleftrightarrow> HostPlatformOf plat = ''linux''"

definition IsDarwin :: "string \<Rightarrow> bool" where
  "IsDarwin plat \<longleftrightarrow> HostPlatformOf plat = ''darwin''"

text \<open>\<open>version\<close> is the text of /proc/version, if it can be read.\<close>

definition isWSL :: "string \<Rightarrow> (string \<Rightarrow> string) \<Rightarrow> string option \<Rightarrow> bool" where
  "isWSL plat getenv version =
    (if HostPlatformOf plat \<noteq> ''linux'' then False
     else if getenv ''WSL_DISTRO_NAME'' \<noteq> '''' \<or> getenv ''WSL_INTEROP'' \<noteq> '''' then True
     else (case version of
        None \<Rightarrow> False
      | Some text \<Rightarrow> str_contains (to_lower text) ''microsoft'' \<or> str_contains (to_lower text) ''wsl''))"

subsection \<open>FUSE\<close>

definition FuseDeviceCandidates :: "string \<Rightarrow> path list" where
  "FuseDeviceCandidates plat =
    (if HostPlatformOf plat = ''darwin''
     then [''/Library/Filesystems/macfuse.fs'', ''/Library/Filesystems/osxfuse.fs'', ''/dev/macfuse0'', ''/dev/osxfuse0'', ''/dev/fuse'']
     else [''/dev/fuse''])"

definition UnmountToolName :: "string \<Rightarrow> string" where
  "UnmountToolName plat = (if HostPlatformOf plat = ''darwin'' then ''umount (macFUSE)'' else ''fusermount3/fusermount'')"

definition UnmountCommand :: "path \<Rightarrow> bool \<Rightarrow> string \<Rightarrow> (string \<Rightarrow> path) \<Rightarrow> string list option" where
  "UnmountCommand mountPath lazy plat which =
    (if HostPlatformOf plat = ''darwin''
     then (if which ''umount'' \<noteq> '''' then Some ([which ''umount''] @ (if lazy then [''-f''] else []) @ [mountPath])
           else if which ''diskutil'' \<noteq> ''''
           then (if lazy then Some [which ''diskutil'', ''unmount'', ''force'', mountPath] else Some [which ''diskutil'', ''unmount'', mountPath])
           else None)
     else (case find (\<lambda>b. which b \<noteq> '''') [''fusermount3'', ''fusermount''] of
        Some b \<Rightarrow> Some ([which b, ''-u''] @ (if lazy then [''-z''] else []) @ [mountPath])
      | None \<Rightarrow>
         (if which ''umount'' \<noteq> '''' then Some ([which ''umount''] @ (if lazy then [''-l''] else []) @ [mountPath]) else None)))"

definition UnmountFuse :: "path \<Rightarrow> bool \<Rightarrow> string \<Rightarrow> (string list \<Rightarrow> int) \<Rightarrow> (string \<Rightarrow> path) \<Rightarrow> int" where
  "UnmountFuse mountPath lazy plat runner which =
    (case UnmountCommand mountPath lazy plat which of None \<Rightarrow> 127 | Some cmd \<Rightarrow> runner cmd)"

record fuse_probe =
  fp_platform :: string
  fp_candidates :: "path list"
  fp_found :: "path list"
  fp_ok :: bool
  fp_hint :: string

definition ProbeFusePresence :: "string \<Rightarrow> (path \<Rightarrow> bool) \<Rightarrow> fuse_probe" where
  "ProbeFusePresence platform pathExists =
    (let plat = HostPlatformOf platform; candidates = FuseDeviceCandidates plat; found = filter pathExists candidates;
         ok = (found \<noteq> []) in
     \<lparr>fp_platform = plat, fp_candidates = candidates, fp_found = found, fp_ok = ok,
      fp_hint = (if ok then ''''
        else if plat = ''darwin'' then ''Install macFUSE (https://macfuse.github.io/) then re-run doctor''
        else if plat = ''linux'' then ''Install fuse3 package if mounts fail'' else '''')\<rparr>)"

record unmount_probe =
  up_platform :: string
  up_tool :: string
  up_template :: "string list option"
  up_ok :: bool

definition ProbeUnmountTool :: "string \<Rightarrow> (string \<Rightarrow> path) \<Rightarrow> unmount_probe" where
  "ProbeUnmountTool platform which =
    (let plat = HostPlatformOf platform; cmd = UnmountCommand ''/tmp/fake-mount'' False plat which in
     \<lparr>up_platform = plat, up_tool = UnmountToolName plat, up_template = cmd, up_ok = (cmd \<noteq> None)\<rparr>)"

subsection \<open>Defaults\<close>

record default_paths =
  dp_mount_root :: path
  dp_index_dir :: path
  dp_overlay_dir :: path
  dp_state_db :: path
  dp_hooks_dir :: path
  dp_ratarmount_bin :: path
  dp_control_socket :: path
  dp_pid_file :: path
  dp_converter_output_dir :: path

definition LinuxDefaultPaths :: default_paths where
  "LinuxDefaultPaths =
    (let root = ''/var/lib/mount-wrapper''; run = ''/run/mount-wrapper'' in
     \<lparr>dp_mount_root = path_join root ''mounts'', dp_index_dir = path_join root ''indexes'', dp_overlay_dir = path_join root ''overlays'',
      dp_state_db = path_join root ''state.db'', dp_hooks_dir = ''/etc/mount-wrapper/hooks.d'', dp_ratarmount_bin = ''ratarmount-rs'',
      dp_control_socket = path_join run ''control.sock'', dp_pid_file = path_join run ''mount-wrapper.pid'',
      dp_converter_output_dir = path_join root ''converted''\<rparr>)"

text \<open>\<open>user_home\<close> is os.UserHomeDir.\<close>

definition DarwinDefaultPaths :: "path \<Rightarrow> path option \<Rightarrow> default_paths" where
  "DarwinDefaultPaths home0 user_home =
    (let home = (if home0 = '''' then (case user_home of Some h \<Rightarrow> h | None \<Rightarrow> '''') else home0);
         support = path_join (path_join (path_join home ''Library'') ''Application Support'') ''mount-wrapper'';
         run = path_join (path_join (path_join (path_join home ''Library'') ''Caches'') ''mount-wrapper'') ''run'' in
     \<lparr>dp_mount_root = path_join support ''mounts'', dp_index_dir = path_join support ''indexes'', dp_overlay_dir = path_join support ''overlays'',
      dp_state_db = path_join support ''state.db'', dp_hooks_dir = path_join support ''hooks.d'', dp_ratarmount_bin = ''ratarmount-rs'',
      dp_control_socket = path_join run ''control.sock'', dp_pid_file = path_join run ''mount-wrapper.pid'',
      dp_converter_output_dir = path_join support ''converted''\<rparr>)"

definition DefaultPathsFor :: "string \<Rightarrow> path option \<Rightarrow> default_paths" where
  "DefaultPathsFor plat user_home = (if HostPlatformOf plat = ''darwin'' then DarwinDefaultPaths '''' user_home else LinuxDefaultPaths)"

definition DefaultWindowsVisible :: "string \<Rightarrow> bool" where
  "DefaultWindowsVisible plat \<longleftrightarrow> HostPlatformOf plat \<noteq> ''darwin''"

definition DefaultUseInotify :: "string \<Rightarrow> bool" where
  "DefaultUseInotify plat \<longleftrightarrow> HostPlatformOf plat = ''linux''"

definition ControlAllowUnauthEnv :: string where
  "ControlAllowUnauthEnv = ''MOUNT_WRAPPER_CONTROL_ALLOW_UNAUTH''"

definition ControlAllowUnauth :: "(string \<Rightarrow> string) \<Rightarrow> bool" where
  "ControlAllowUnauth getenv \<longleftrightarrow> getenv ControlAllowUnauthEnv = ''1''"

definition PeercredBackendLabel :: "string \<Rightarrow> string" where
  "PeercredBackendLabel plat = (if HostPlatformOf plat = ''darwin'' then ''LOCAL_PEERCRED (best-effort)'' else ''SO_PEERCRED'')"

end
