(* ===== verification/Doctor.thy ===== *)
theory Doctor
  imports Http Platform
begin

text \<open>
  The diagnostics of src/internal/doctor: the checks (checks.go), their order and the verdict (run.go,
  types.go, inventory.go, format.go), and the systemd drop-in that --fix-systemd writes (systemd.go).
  What the probes of options.go answer is the record \<open>doctor_env\<close>; the Details maps, which repeat
  what a message says for the JSON output, are left out.
\<close>

subsection \<open>Results and probes\<close>

datatype severity = SevInfo | SevWarn | SevError

record check =
  ck_name :: string
  ck_ok :: bool
  ck_severity :: severity
  ck_message :: string

definition infoCheck :: "string \<Rightarrow> string \<Rightarrow> check" where
  "infoCheck name msg = \<lparr>ck_name = name, ck_ok = True, ck_severity = SevInfo, ck_message = msg\<rparr>"

definition warnCheck :: "string \<Rightarrow> bool \<Rightarrow> string \<Rightarrow> check" where
  "warnCheck name ok msg = \<lparr>ck_name = name, ck_ok = ok, ck_severity = SevWarn, ck_message = msg\<rparr>"

definition errorCheck :: "string \<Rightarrow> bool \<Rightarrow> string \<Rightarrow> check" where
  "errorCheck name ok msg = \<lparr>ck_name = name, ck_ok = ok, ck_severity = (if ok then SevInfo else SevError), ck_message = msg\<rparr>"

definition HardFail :: "check list \<Rightarrow> bool" where
  "HardFail cs \<longleftrightarrow> list_ex (\<lambda>c. \<not> ck_ok c \<and> ck_severity c = SevError) cs"

text \<open>
  \<open>dr_run\<close> runs a binary with one argument: its output and whether it failed.  \<open>dr_control\<close> asks
  the control socket for its status: the error, or the answer if there is one.  \<open>dr_quote\<close> and
  \<open>dr_fixed1\<close> are the formats %q and %.1f; \<open>dr_path_error\<close> the text of a path error.
\<close>

record doctor_env =
  dr_cfg :: "full_config option"
  dr_platform :: string
  dr_fix_systemd :: bool
  dr_dry_run :: bool
  dr_dropin :: path
  dr_service_user :: string
  dr_fuse_conf :: path
  dr_min_free_warn :: int
  dr_go_version :: string
  dr_wsl :: bool
  dr_getenv :: "string \<Rightarrow> string"
  dr_which :: "string \<Rightarrow> path"
  dr_exists :: "path \<Rightarrow> bool"
  dr_executable :: "path \<Rightarrow> bool"
  dr_is_dir :: "path \<Rightarrow> bool"
  dr_writable :: "path \<Rightarrow> bool"
  dr_free :: "path \<Rightarrow> int option"
  dr_mode :: "path \<Rightarrow> nat option"
  dr_has_user :: "string \<Rightarrow> bool"
  dr_read :: "path \<Rightarrow> string + string"
  dr_run :: "path \<Rightarrow> string \<Rightarrow> string \<times> bool"
  dr_control :: "path \<Rightarrow> string + (string \<times> json) list option"
  dr_systemctl :: "string \<Rightarrow> string \<times> string option"
  dr_launchctl :: "string \<Rightarrow> string \<times> string option"
  dr_alive :: "int \<Rightarrow> bool"
  dr_pid1 :: "string option"
  dr_mkdir :: "path \<Rightarrow> string option"
  dr_write :: "path \<Rightarrow> string \<Rightarrow> string option"
  dr_load :: load_env
  dr_cache :: cache_env
  dr_wslpath :: "string \<Rightarrow> string option"
  dr_path_error :: "path_error \<Rightarrow> string"
  dr_loopback :: "string \<Rightarrow> bool"
  dr_quote :: "string \<Rightarrow> string"
  dr_fixed1 :: "rat \<Rightarrow> string"

definition dash :: string where
  "dash = '' '' @ [CHR 0xE2, CHR 0x80, CHR 0x94] @ '' ''"

definition arrow :: string where
  "arrow = '' '' @ [CHR 0xE2, CHR 0x86, CHR 0x92] @ '' ''"

definition backslash :: string where
  "backslash = [CHR 0x5C]"

definition newline :: string where
  "newline = [CHR 0x0A]"

definition trim_prefix :: "string \<Rightarrow> string \<Rightarrow> string" where
  "trim_prefix p s = (if has_prefix s p then drop (length p) s else s)"

definition dr_base :: "doctor_env \<Rightarrow> config option" where
  "dr_base e = map_option config.truncate (dr_cfg e)"

subsection \<open>Helpers\<close>

definition firstLine :: "string \<Rightarrow> string" where
  "firstLine s0 = (let s = trim_space s0 in if CHR 0x0A \<in> set s then trim_space (takeWhile (\<lambda>c. c \<noteq> CHR 0x0A) s) else s)"

definition truncate_text :: "string \<Rightarrow> nat \<Rightarrow> string" where
  "truncate_text s n = (if length s \<le> n then s else take n s)"

definition probeBinVersion :: "doctor_env \<Rightarrow> path \<Rightarrow> string" where
  "probeBinVersion e p = (let (out, failed) = dr_run e p ''--version'' in
     if failed \<and> out = '''' then '''' else truncate_text (firstLine out) 120)"

definition probeSupportsForeground :: "doctor_env \<Rightarrow> path \<Rightarrow> bool option" where
  "probeSupportsForeground e p = (let (out, failed) = dr_run e p ''--help'' in
     if failed \<and> out = '''' then None else Some (str_contains (to_lower out) ''-f'' \<or> str_contains (to_lower out) ''foreground''))"

definition via_which :: "doctor_env \<Rightarrow> path \<Rightarrow> path" where
  "via_which e p = (if CHR ''/'' \<notin> set p \<and> \<not> has_prefix p ''.'' \<and> dr_which e p \<noteq> '''' then dr_which e p else p)"

definition add_new :: "string \<Rightarrow> string list \<Rightarrow> string list" where
  "add_new s ss = (if s \<in> set ss then ss else ss @ [s])"

fun scale_units :: "rat \<Rightarrow> string list \<Rightarrow> rat \<times> string" where
  "scale_units v [u] = (v, u)"
| "scale_units v (u # us) = (if v \<ge> 1024 then scale_units (v / 1024) us else (v, u))"
| "scale_units v [] = (v, '''')"

definition humanBytes :: "doctor_env \<Rightarrow> int \<Rightarrow> string" where
  "humanBytes e n =
    (if n < 0 then itoa n @ '' B''
     else (let (v, u) = scale_units (of_int n) [''B'', ''KiB'', ''MiB'', ''GiB'', ''TiB''] in
       if u = ''B'' then itoa n @ '' B'' else dr_fixed1 e v @ '' '' @ u))"

definition resolveParent :: "path \<Rightarrow> (path \<Rightarrow> bool) \<Rightarrow> path" where
  "resolveParent p ex = (if ex p then p else path_dir p)"

subsection \<open>The host\<close>

definition checkGoVersion :: "doctor_env \<Rightarrow> check" where
  "checkGoVersion e =
    (let ver = dr_go_version e; shown = trim_prefix ''go'' ver;
         minor = (if has_prefix ver ''go1.'' then digit_val (takeWhile is_digit (drop 4 ver)) else 0);
         ok = (minor = 0 \<or> minor \<ge> 21) in
     \<lparr>ck_name = ''go_version'', ck_ok = ok, ck_severity = (if ok then SevInfo else SevError),
      ck_message = (if ok then ''Go '' @ shown else ''Go '' @ shown @ dash @ ''require Go 1.21+'')\<rparr>)"

definition checkHostPlatform :: "doctor_env \<Rightarrow> check" where
  "checkHostPlatform e =
    (let plat = dr_platform e;
         notes = (if IsDarwin plat then [''macOS first-step support active; see docs/macos.md''] else [])
           @ (if dr_wsl e then [''WSL detected''] else []) in
     infoCheck ''host_platform'' (''platform='' @ plat @ (if notes \<noteq> [] then '' ('' @ join_with ''; '' notes @ '')'' else '''')))"

definition checkPeercred :: "doctor_env \<Rightarrow> check" where
  "checkPeercred e =
    infoCheck ''peercred'' (''control socket peer credentials via '' @ PeercredBackendLabel (dr_platform e)
      @ (if ControlAllowUnauth (dr_getenv e) then dash @ ControlAllowUnauthEnv @ ''=1 (unauthenticated control allowed)'' else '''')
      @ (case dr_cfg e of Some cfg \<Rightarrow> if c_control_socket cfg \<noteq> '''' then ''; socket path '' @ c_control_socket cfg else '''' | None \<Rightarrow> ''''))"

definition checkFuseDevice :: "doctor_env \<Rightarrow> check" where
  "checkFuseDevice e =
    (let pr = ProbeFusePresence (dr_platform e) (dr_exists e) in
     \<lparr>ck_name = ''fuse_device'', ck_ok = fp_ok pr, ck_severity = (if fp_ok pr then SevInfo else SevWarn),
      ck_message = (if fp_ok pr then (case fp_found pr of f # _ \<Rightarrow> ''FUSE present ('' @ f @ '')'' | [] \<Rightarrow> ''FUSE present'')
        else ''FUSE not detected'' @ dash @ (if fp_hint pr = '''' then ''FUSE not detected'' else fp_hint pr))\<rparr>)"

definition checkFusermount :: "doctor_env \<Rightarrow> check" where
  "checkFusermount e =
    (let pr = ProbeUnmountTool (dr_platform e) (dr_which e) in
     case up_template pr of
       Some cmd \<Rightarrow> infoCheck ''fusermount'' (''unmount tool ready: '' @ up_tool pr @ '' (''
         @ (if length cmd \<ge> 2 then join_with '' '' (take 2 cmd) else if length cmd = 1 then hd cmd else up_tool pr) @ '')'')
     | None \<Rightarrow> warnCheck ''fusermount'' False (up_tool pr @ '' not found on PATH''))"

text \<open>The option must stand on a line of its own that is not a comment.\<close>

definition fuse_conf_allows :: "string \<Rightarrow> bool" where
  "fuse_conf_allows text \<longleftrightarrow>
    list_ex (\<lambda>l. let s = trim_space l in \<not> has_prefix s ''#'' \<and> s = ''user_allow_other'') (split_on CHR 0x0A text)"

definition checkUserAllowOther :: "doctor_env \<Rightarrow> check" where
  "checkUserAllowOther e =
    (let visible = (case dr_cfg e of Some cfg \<Rightarrow> c_windows_visible cfg | None \<Rightarrow> DefaultWindowsVisible (dr_platform e)) in
     if IsDarwin (dr_platform e)
     then infoCheck ''user_allow_other'' (''macOS: user_allow_other / windows_visible are WSL-oriented; ''
       @ ''keep windows_visible: false for single-user mounts'')
     else (let enabled = (case dr_read e (dr_fuse_conf e) of Inr text \<Rightarrow> fuse_conf_allows text | Inl _ \<Rightarrow> False) in
       if visible \<and> \<not> enabled
       then warnCheck ''user_allow_other'' False (''windows_visible is true but user_allow_other is not set in '' @ dr_fuse_conf e
         @ ''; Windows may not see FUSE mounts via '' @ backslash @ backslash @ ''wsl.localhost'' @ backslash @ ''...'')
       else infoCheck ''user_allow_other''
         (if enabled then ''user_allow_other enabled'' else ''user_allow_other not required (windows_visible=false)'')))"

subsection \<open>The tools\<close>

definition ratarmount_candidates :: "doctor_env \<Rightarrow> string \<Rightarrow> string list" where
  "ratarmount_candidates e bk =
    (let configured = (case dr_cfg e of Some cfg \<Rightarrow> c_ratarmount_bin cfg | None \<Rightarrow> '''');
         c0 = (case dr_base e of
                 Some cfg \<Rightarrow> (let eff = EffectiveRatarmountBin cfg in [eff] @ (if configured \<noteq> '''' \<and> configured \<noteq> eff then [configured] else []))
               | None \<Rightarrow> []);
         c1 = add_new (DefaultRatarmountBin bk) c0; p = dr_which e ''ratarmount-rs'' in
     if p \<noteq> '''' then add_new p c1 else c1)"

definition ratarmount_found :: "doctor_env \<Rightarrow> string \<Rightarrow> path \<Rightarrow> check" where
  "ratarmount_found e label p =
    (let version = probeBinVersion e p; hasF = probeSupportsForeground e p; missing = (hasF = Some False) in
     \<lparr>ck_name = ''ratarmount_bin'', ck_ok = \<not> missing, ck_severity = (if missing then SevError else SevInfo),
      ck_message = label @ '': found executable '' @ p @ (if version \<noteq> '''' then '' ('' @ version @ '')'' else '''')
        @ (if missing then dash @ ''missing -f/--foreground support'' else '''')\<rparr>)"

fun try_ratarmount :: "doctor_env \<Rightarrow> string \<Rightarrow> path list \<Rightarrow> path list \<Rightarrow> check" where
  "try_ratarmount e label seen [] =
    warnCheck ''ratarmount_bin'' False (''ratarmount-rs not found (tried ratarmount-rs, PATH). ''
      @ ''Build/install ratarmount-rs and ensure it is on PATH, or set ratarmount_bin to the binary path. ''
      @ ''Python ratarmount is not supported.'')"
| "try_ratarmount e label seen (c # cs) =
    (if c = '''' \<or> c \<in> set seen then try_ratarmount e label seen cs
     else (let p = via_which e c in
       if dr_executable e p then ratarmount_found e label p
       else if dr_exists e p then warnCheck ''ratarmount_bin'' False (label @ '': '' @ p @ '' exists but is not executable'')
       else try_ratarmount e label (c # seen) cs))"

definition effective_backend :: "doctor_env \<Rightarrow> string" where
  "effective_backend e =
    (let b0 = (case dr_cfg e of Some cfg \<Rightarrow> if c_mount_backend cfg = '''' then ''rust'' else c_mount_backend cfg | None \<Rightarrow> ''rust'') in
     case NormalizeMountBackend b0 of Inr b \<Rightarrow> b | Inl _ \<Rightarrow> b0)"

definition checkRatarmount :: "doctor_env \<Rightarrow> check" where
  "checkRatarmount e =
    (let bk = effective_backend e; configured = (case dr_cfg e of Some cfg \<Rightarrow> c_ratarmount_bin cfg | None \<Rightarrow> '''');
         resolved = (case ResolveRatarmountBin bk configured (dr_which e) (dr_executable e) [] '''' False of Inr r \<Rightarrow> r | Inl _ \<Rightarrow> '''') in
     try_ratarmount e (BackendLabel bk) [] ((if resolved \<noteq> '''' then [resolved] else []) @ ratarmount_candidates e bk))"

definition find_tool :: "doctor_env \<Rightarrow> string list \<Rightarrow> path option" where
  "find_tool e cs = find (dr_executable e) (map (via_which e) cs)"

definition configured_first :: "string \<Rightarrow> string list \<Rightarrow> string list" where
  "configured_first configured names = fold add_new names (if configured \<noteq> '''' then [configured] else [])"

definition checkArchiveconverter :: "doctor_env \<Rightarrow> check" where
  "checkArchiveconverter e =
    (let enabled = (case dr_cfg e of Some cfg \<Rightarrow> c_converter_enabled cfg | None \<Rightarrow> False);
         configured = (case dr_cfg e of Some cfg \<Rightarrow> trim_space (c_converter_bin cfg) | None \<Rightarrow> '''') in
     case find_tool e (configured_first configured [DefaultArchiveconverterBin (dr_load e), ''archiveconverter'']) of
       Some p \<Rightarrow>
         (let version = probeBinVersion e p in
          infoCheck ''archiveconverter'' (''archiveconverter found at '' @ p @ (if version \<noteq> '''' then '' ('' @ version @ '')'' else '''')
            @ (if \<not> enabled then dash @ ''disabled (set archiveconverter_enabled: true to convert .7z before index)'' else '''')))
     | None \<Rightarrow>
         (if enabled
          then warnCheck ''archiveconverter'' False (''archiveconverter_enabled is true but binary not found. ''
            @ ''Build sibling archiveconverter (`cargo build --release`) or set archiveconverter_bin. ''
            @ ''Without it, solid nested .7z mounts may be slow/fail.'')
          else infoCheck ''archiveconverter'' (''archiveconverter not installed (optional). Enable with archiveconverter_enabled for solid''
            @ [CHR 0xE2, CHR 0x86, CHR 0x92] @ ''non-solid .7z conversion.'')))"

definition checkSevenZipBin :: "doctor_env \<Rightarrow> check" where
  "checkSevenZipBin e =
    (let enabled = (case dr_cfg e of Some cfg \<Rightarrow> c_7z_nonsolid cfg \<or> c_zip_to_7z cfg | None \<Rightarrow> False);
         configured = (case dr_cfg e of Some cfg \<Rightarrow> trim_space (c_7z_bin cfg) | None \<Rightarrow> '''') in
     case find_tool e (configured_first configured [''7z'', ''7zz'', ''7za'']) of
       Some p \<Rightarrow>
         (let version = probeBinVersion e p in
          infoCheck ''sevenzip_bin'' (''7z tool found at '' @ p @ (if version \<noteq> '''' then '' ('' @ truncate_text version 80 @ '')'' else '''')
            @ (if \<not> enabled then dash @ ''convert_7z_nonsolid / convert_zip_to_7z disabled'' else '''')))
     | None \<Rightarrow>
         (if enabled
          then warnCheck ''sevenzip_bin'' False (''convert_7z_* / convert_zip_to_7z enabled but 7z binary not found on PATH. ''
            @ ''Install p7zip/7zip or set convert_7z_bin.'')
          else infoCheck ''sevenzip_bin'' ''7z not required (convert_7z_nonsolid / convert_zip_to_7z disabled)''))"

definition checkMountBackend :: "doctor_env \<Rightarrow> check" where
  "checkMountBackend e = infoCheck ''mount_backend'' (''using '' @ BackendLabel (effective_backend e) @ '' (only supported engine)'')"

subsection \<open>The service manager\<close>

definition checkSystemd :: "doctor_env \<Rightarrow> check" where
  "checkSystemd e =
    (if IsDarwin (dr_platform e)
     then infoCheck ''systemd_pid1'' (''macOS: systemd not used; run as your login user with `mount-wrapper serve` ''
       @ ''(launchd example: packaging/launchd/; docs/macos.md)'')
     else (let comm = (case dr_pid1 e of Some c \<Rightarrow> c | None \<Rightarrow> ''unknown''); yes = (comm = ''systemd'') in
       \<lparr>ck_name = ''systemd_pid1'', ck_ok = True, ck_severity = (if yes then SevInfo else SevWarn),
        ck_message = (if yes then ''systemd is PID 1''
          else ''PID 1 is '' @ dr_quote e comm @ '' (enable systemd in /etc/wsl.conf for the service unit)'')\<rparr>))"

definition DefaultSystemdUnit :: string where
  "DefaultSystemdUnit = ''mount-wrapper.service''"

text \<open>A check that does not apply is absent.\<close>

definition checkSystemdUnit :: "doctor_env \<Rightarrow> check option" where
  "checkSystemdUnit e =
    (if IsDarwin (dr_platform e) \<or> dr_pid1 e \<noteq> Some ''systemd'' then None
     else (let (active, activeErr) = dr_systemctl e ''is-active''; (enabled, enabledErr) = dr_systemctl e ''is-enabled'';
               unit = DefaultSystemdUnit; show = (\<lambda>s. if s = '''' then ''unknown'' else s) in
       Some (if active = '''' \<and> enabled = '''' \<and> (activeErr \<noteq> None \<or> enabledErr \<noteq> None)
             then warnCheck ''systemd_unit'' False (''cannot probe '' @ unit @ '' via systemctl: ''
               @ (case activeErr of Some m \<Rightarrow> m | None \<Rightarrow> (case enabledErr of Some m \<Rightarrow> m | None \<Rightarrow> ''systemctl unavailable'')))
             else if active = ''active''
             then infoCheck ''systemd_unit'' (unit @ '' is active'' @ (if enabled \<noteq> '''' then '' (enabled='' @ enabled @ '')'' else ''''))
             else warnCheck ''systemd_unit'' False
               (if active = ''failed'' then unit @ '' is failed (enabled='' @ show enabled @ ''); check journalctl -u '' @ unit
                else if active = ''not-found'' \<or> enabled = ''not-found''
                then unit @ '' unit not found; install the package or copy packaging/systemd/'' @ unit
                else unit @ '' is not active (active='' @ show active @ '', enabled='' @ show enabled @ ''); start with systemctl start ''
                  @ unit @ '' or enable --now''))))"

definition DefaultLaunchdLabel :: string where
  "DefaultLaunchdLabel = ''com.hilather.mount-wrapper''"

definition launchdOutputLooksLoaded :: "string \<Rightarrow> string \<Rightarrow> bool" where
  "launchdOutputLooksLoaded out label =
    (let trimmed = trim_space out; first = firstLine trimmed in
     if trimmed = '''' \<or> label = '''' then False
     else if str_contains trimmed (label @ '' = {'') \<or> str_contains trimmed (label @ ''={'') then True
     else if has_prefix first label then True
     else list_ex (\<lambda>f. f = label \<or> has_suffix f (''/'' @ label)) (str_fields first []))"

definition launchd_not_loaded :: "string \<Rightarrow> bool" where
  "launchd_not_loaded lower \<longleftrightarrow> str_contains lower ''could not find'' \<or> str_contains lower ''not found''
     \<or> str_contains lower ''no such process'' \<or> str_contains lower ''could not find service''"

text \<open>list first; print when list said nothing and failed.\<close>

definition launchd_probe :: "doctor_env \<Rightarrow> string \<times> string option" where
  "launchd_probe e =
    (let (out, err) = dr_launchctl e ''list'' in
     if trim_space out = '''' \<and> err \<noteq> None
     then (let (out2, err2) = dr_launchctl e ''print'' in if trim_space out2 \<noteq> '''' \<or> err2 = None then (out2, err2) else (out, err))
     else (out, err))"

definition launchd_pid :: "string \<Rightarrow> string" where
  "launchd_pid out =
    (case str_fields (firstLine out) [] of
       tok # _ \<Rightarrow> if tok \<noteq> ''-'' \<and> tok \<noteq> '''' \<and> tok \<noteq> DefaultLaunchdLabel \<and> parse_int64 tok \<noteq> None then '' (pid '' @ tok @ '')'' else ''''
     | [] \<Rightarrow> '''')"

definition checkLaunchdAgent :: "doctor_env \<Rightarrow> check option" where
  "checkLaunchdAgent e =
    (if \<not> IsDarwin (dr_platform e) then None
     else (let label = DefaultLaunchdLabel; (out, err) = launchd_probe e; blank = (trim_space out = '''');
               cannot = (\<lambda>m. warnCheck ''launchd_agent'' False (''cannot probe launchd agent '' @ label @ '' via launchctl: '' @ m)) in
       Some (case err of
          Some m \<Rightarrow>
            (if blank then cannot m
             else if launchd_not_loaded (to_lower out) then warnCheck ''launchd_agent'' False (label @ '' is not loaded; install packaging/launchd/''
               @ label @ ''.plist.example'' @ arrow @ ''~/Library/LaunchAgents/'' @ label @ ''.plist and launchctl load (see docs/macos.md)'')
             else cannot m)
        | None \<Rightarrow>
            (if launchd_not_loaded (to_lower out) \<or> blank
             then warnCheck ''launchd_agent'' False (label @ '' is not loaded; install packaging/launchd/''
               @ label @ ''.plist.example'' @ arrow @ ''~/Library/LaunchAgents/'' @ label @ ''.plist and launchctl load (see docs/macos.md)'')
             else if \<not> launchdOutputLooksLoaded out label
             then warnCheck ''launchd_agent'' False (''cannot classify launchd agent '' @ label @ '' from launchctl output (see details)'')
             else infoCheck ''launchd_agent'' (label @ '' is loaded'' @ launchd_pid out)))))"

definition checkPidfileLive :: "doctor_env \<Rightarrow> full_config \<Rightarrow> check option" where
  "checkPidfileLive e cfg =
    (let p = trim_space (c_pid_file cfg); warn = warnCheck ''pidfile_live'' False in
     if p = '''' then None
     else Some (if \<not> dr_exists e p then warn (''pidfile '' @ p @ '' not found (serve not running or path wrong)'')
       else (case dr_read e p of
          Inl err \<Rightarrow> warn (''pidfile '' @ p @ '' unreadable: '' @ err)
        | Inr content \<Rightarrow>
           (let pidStr = trim_space (firstLine content) in
            case parse_int64 pidStr of
              Some pid \<Rightarrow>
                (if pid \<le> 0 then warn (''pidfile '' @ p @ '' has invalid pid '' @ dr_quote e pidStr)
                 else if \<not> dr_alive e pid then warn (''pidfile '' @ p @ '' pid '' @ itoa pid @ '' is not running (stale pidfile?)'')
                 else infoCheck ''pidfile_live'' (''pidfile '' @ p @ '' pid '' @ itoa pid @ '' is alive''))
            | None \<Rightarrow> warn (''pidfile '' @ p @ '' has invalid pid '' @ dr_quote e pidStr)))))"

definition checkServiceUser :: "doctor_env \<Rightarrow> check" where
  "checkServiceUser e =
    (if IsDarwin (dr_platform e)
     then infoCheck ''service_user'' ''macOS first-step: run as your login user (no dedicated mount-wrapper system user yet)''
     else if dr_has_user e (dr_service_user e) then infoCheck ''service_user'' (''user '' @ dr_service_user e @ '' exists'')
     else warnCheck ''service_user'' False
       (''user '' @ dr_service_user e @ '' not found (install the package or create the service user)''))"

subsection \<open>Paths\<close>

definition checkOnePath :: "doctor_env \<Rightarrow> string \<Rightarrow> string \<Rightarrow> path \<Rightarrow> check" where
  "checkOnePath e name label p =
    (if p = '''' then warnCheck name False (label @ '' is empty'')
     else if dr_exists e p \<and> \<not> dr_is_dir e p then errorCheck name False (label @ '' exists but is not a directory: '' @ p)
     else (let parent = resolveParent p (dr_exists e); parentExists = dr_exists e parent; writable = (parentExists \<and> dr_writable e parent) in
       if dr_exists e p then infoCheck name (label @ '' exists at '' @ p)
       else if parentExists \<and> writable then infoCheck name (label @ '' does not exist yet; parent writable: true'')
       else if parentExists then warnCheck name False (label @ '' does not exist yet; parent not writable: '' @ parent)
       else warnCheck name False (label @ '' and parent missing: '' @ p)))"

definition data_dirs :: "full_config \<Rightarrow> (string \<times> path) list" where
  "data_dirs cfg = [(''mount_root'', c_mount_root cfg), (''index_dir'', c_index_dir cfg), (''overlay_dir'', c_overlay_dir cfg)]"

definition checkServicePaths :: "doctor_env \<Rightarrow> full_config \<Rightarrow> check list" where
  "checkServicePaths e cfg =
    map (\<lambda>(n, p). checkOnePath e (''path.'' @ n) n p) (data_dirs cfg)
      @ (if c_control_socket cfg \<noteq> '''' then [checkOnePath e ''path.control_socket_dir'' ''control_socket_dir'' (path_dir (c_control_socket cfg))] else [])"

text \<open>The directories from a path up to the root, whose parent is itself.\<close>

fun dirs_up :: "nat \<Rightarrow> path \<Rightarrow> path list" where
  "dirs_up 0 p = []"
| "dirs_up (Suc fuel) p = p # (if path_dir p = p then [] else dirs_up fuel (path_dir p))"

text \<open>All directories up to the root are reached with as many steps as the path has characters and one more.\<close>

lemma dirs_up_enough: "p \<noteq> '''' \<Longrightarrow> length p < fuel \<Longrightarrow> dirs_up (Suc fuel) p = dirs_up fuel p"
proof (induction fuel arbitrary: p)
  case (Suc fuel)
  have dot: "dirs_up (Suc n) ''.'' = [''.'']" for n by (simp add: path_dir_dot)
  have up: "dirs_up (Suc fuel) (path_dir p) = dirs_up fuel (path_dir p)" if "path_dir p \<noteq> p"
    using path_dir_shorter [of p] that
  proof (elim disjE)
    assume "path_dir p = ''.''"
    moreover obtain n where "fuel = Suc n" using Suc.prems by (cases fuel; cases p) auto
    ultimately show ?thesis using dot [of fuel] dot [of n] by simp
  next
    assume "length (path_dir p) < length p"
    then show ?thesis using Suc.IH [OF path_dir_nonempty] Suc.prems(2) by simp
  qed simp
  show ?case unfolding dirs_up.simps(2) [of "Suc fuel" p] dirs_up.simps(2) [of fuel p] using up by (simp del: dirs_up.simps)
qed simp

definition checkWindowsVisibleParentOX :: "doctor_env \<Rightarrow> full_config \<Rightarrow> check" where
  "checkWindowsVisibleParentOX e cfg =
    (let name = ''windows_visible_parent_ox''; root = trim_space (c_mount_root cfg) in
     if IsDarwin (dr_platform e)
     then infoCheck name (''macOS: parent o+x traverse is for Windows/WSL UNC with windows_visible; ''
       @ ''keep windows_visible: false for single-user mounts'')
     else if \<not> c_windows_visible cfg
     then infoCheck name ''windows_visible is false; parent o+x (other-execute) not required for UNC traverse''
     else if root = ''''
     then warnCheck name False (''windows_visible is true but mount_root is empty'' @ dash @ ''set mount_root and ensure ''
       @ ''every ancestor has o+x (chmod o+x) for Windows UNC traverse (docs/architecture.md)'')
     else (let p0 = path_clean root; checked = filter (\<lambda>p. dr_mode e p \<noteq> None) (dirs_up (Suc (length p0)) p0);
               missing = filter (\<lambda>p. even (the (dr_mode e p))) checked in
       if checked = []
       then warnCheck name False (''windows_visible is true but no existing ancestors of mount_root '' @ dr_quote e root
         @ '' could be inspected for o+x; create the path and run chmod o+x on each directory from / through mount_root ''
         @ ''so Windows UNC can traverse (docs/architecture.md, docs/install.md)'')
       else if missing \<noteq> []
       then warnCheck name False (''windows_visible is true but path(s) lack o+x (other-execute) needed for Windows UNC traverse: ''
         @ join_with '', '' missing @ dash @ ''fix: chmod o+x '' @ join_with '' '' missing
         @ '' (see docs/architecture.md / docs/install.md; create-user.sh sets o+x on packaged /var/lib/mount-wrapper paths only)'')
       else infoCheck name (''mount_root ancestors have o+x for windows_visible UNC traverse (''
         @ itoa (int (length checked)) @ '' path(s))'')))"

definition check_source :: "doctor_env \<Rightarrow> nat \<Rightarrow> string \<Rightarrow> check" where
  "check_source e i src =
    (let name = ''source_dirs['' @ itoa (int i) @ '']'' in
     case ToWSLPath (dr_wslpath e) src of
       Inl err \<Rightarrow> errorCheck name False (dr_quote e src @ '': '' @ dr_path_error e err)
     | Inr mapped \<Rightarrow>
        (let ex = dr_is_dir e mapped in
         \<lparr>ck_name = name, ck_ok = True, ck_severity = (if ex then SevInfo else SevWarn),
          ck_message = dr_quote e src @ arrow @ mapped @ '' ('' @ (if IsDrvFsPath mapped then ''DrvFs'' else ''Linux FS'') @ ''; ''
            @ (if ex then ''directory exists'' else ''mapped path not found or not a directory'') @ '')''\<rparr>))"

definition checkSourceDirs :: "doctor_env \<Rightarrow> full_config \<Rightarrow> check list" where
  "checkSourceDirs e cfg =
    (if c_source_dirs cfg = [] then [warnCheck ''source_dirs'' False ''no source_dirs configured'']
     else map (\<lambda>(i, src). check_source e i src) (zip [0..<length (c_source_dirs cfg)] (c_source_dirs cfg)))"

definition checkIndexLayout :: "doctor_env \<Rightarrow> full_config \<Rightarrow> check" where
  "checkIndexLayout e cfg =
    (let on = IsDrvFsPath (c_index_dir cfg) in
     if on \<and> \<not> c_allow_drvfs cfg
     then warnCheck ''index_layout'' False (''index_dir '' @ dr_quote e (c_index_dir cfg)
       @ '' appears to be on DrvFs; keep indexes on the Linux filesystem or set allow_indexes_on_drvfs: true'')
     else infoCheck ''index_layout''
       (if on then ''index_dir on DrvFs allowed (allow_indexes_on_drvfs=true)'' else ''index_dir on Linux filesystem''))"

definition check_free :: "doctor_env \<Rightarrow> int \<Rightarrow> string \<Rightarrow> path \<Rightarrow> check" where
  "check_free e threshold n p =
    (case dr_free e p of
       None \<Rightarrow> infoCheck (''disk.'' @ n) (''free space for '' @ n @ '' unavailable'')
     | Some free \<Rightarrow>
        (if threshold > 0 \<and> free < threshold
         then warnCheck (''disk.'' @ n) False (n @ '' low disk: '' @ humanBytes e free @ '' free (threshold '' @ humanBytes e threshold @ '')'')
         else infoCheck (''disk.'' @ n) (n @ '' free space: '' @ humanBytes e free)))"

fun check_free_all :: "doctor_env \<Rightarrow> int \<Rightarrow> path list \<Rightarrow> (string \<times> path) list \<Rightarrow> check list" where
  "check_free_all e threshold seen [] = []"
| "check_free_all e threshold seen ((n, p) # items) =
    (if p = '''' \<or> path_clean p \<in> set seen then check_free_all e threshold seen items
     else check_free e threshold n p # check_free_all e threshold (path_clean p # seen) items)"

definition checkFreeSpace :: "doctor_env \<Rightarrow> full_config \<Rightarrow> check list" where
  "checkFreeSpace e cfg =
    check_free_all e (if c_min_free_bytes cfg \<le> 0 \<and> dr_min_free_warn e > 0 then dr_min_free_warn e else c_min_free_bytes cfg) [] (data_dirs cfg)"

definition checkConvertDirs :: "doctor_env \<Rightarrow> full_config \<Rightarrow> check list" where
  "checkConvertDirs e cfg =
    (if c_7z_nonsolid cfg \<or> c_zip_to_7z cfg
     then [checkOnePath e ''convert_cache_dir'' ''convert_7z_cache_dir'' (DefaultNonsolidCacheDir (dr_cache e) (config.truncate cfg))] else [])
    @ (if c_converter_enabled cfg \<and> trim_space (c_converter_output_dir cfg) \<noteq> ''''
       then [checkOnePath e ''path.archiveconverter_output_dir'' ''archiveconverter_output_dir'' (trim_space (c_converter_output_dir cfg))]
       else [])"

subsection \<open>The configuration, the web interface and the control socket\<close>

definition checkConfig :: "full_config \<Rightarrow> check" where
  "checkConfig cfg = infoCheck ''config'' (''config schema version '' @ itoa (c_version cfg) @ '' loaded'')"

definition checkWebBindSecurity :: "doctor_env \<Rightarrow> full_config \<Rightarrow> check" where
  "checkWebBindSecurity e cfg =
    (let name = ''web_bind_security''; host = trim_space (c_web_host cfg); tokenSet = (trim_space (c_web_token cfg) \<noteq> '''');
         display = (if host = '''' then ''127.0.0.1'' else host) in
     if \<not> c_web_enabled cfg then infoCheck name ''web disabled (web_enabled: false); bind security not applicable''
     else if isLoopbackHost (dr_loopback e) host
     then infoCheck name (''web bind '' @ display @ (if tokenSet then '' is loopback with web_token set'' else '' is loopback; web_token optional''))
     else if \<not> tokenSet
     then warnCheck name False (''web_host '' @ dr_quote e display @ '' is not loopback and web_token is empty'' @ dash
       @ ''API/dashboard are open to any client that can reach the bind address; ''
       @ ''set web_token or bind loopback (see docs/security.md)'')
     else infoCheck name (''web bind '' @ display @ '' is non-loopback with web_token set''))"

definition checkControlSocketLive :: "doctor_env \<Rightarrow> full_config \<Rightarrow> check option" where
  "checkControlSocketLive e cfg =
    (let sock = trim_space (c_control_socket cfg); warn = warnCheck ''control_socket_live'' False in
     if sock = '''' then None
     else Some (if \<not> dr_exists e sock then warn (''control socket '' @ sock @ '' not found (serve not running or path wrong)'')
       else (case dr_control e sock of
          Inl err \<Rightarrow> warn (''control socket '' @ sock @ '' not reachable (serve not running?): '' @ err)
        | Inr None \<Rightarrow> warn (''control socket '' @ sock @ '' returned empty status response'')
        | Inr (Some resp) \<Rightarrow>
           (if map_of resp ''ok'' \<noteq> Some (JsBool True)
            then (let msg = (let m = asString (map_of resp ''error'') in if m = '''' then ''request failed'' else m) in
                  if asString (map_of resp ''code'') = ''PERMISSION_DENIED''
                  then warn (''control socket reachable but auth denied'' @ dash @ ''run as root or member of group ''
                    @ DefaultAuthGroup @ '' ('' @ msg @ '')'')
                  else warn (''control socket status failed: '' @ msg))
            else (let version = (case map_of resp ''data'' of Some (JsObject d) \<Rightarrow> asString (map_of d ''version'') | _ \<Rightarrow> '''') in
                  infoCheck ''control_socket_live'' (''control socket reachable at '' @ sock
                    @ (if version \<noteq> '''' then '' (serve '' @ version @ '')'' else '''')))))))"

definition checkControlSocketPathLength :: "doctor_env \<Rightarrow> full_config \<Rightarrow> check option" where
  "checkControlSocketPathLength e cfg =
    (let name = ''control_socket_path_length''; sock = trim_space (c_control_socket cfg); n = int (length sock) in
     if \<not> IsDarwin (dr_platform e) then None
     else Some (if sock = '''' then infoCheck name ''macOS: control_socket empty (set a short path under Caches; see docs/macos.md)''
       else if n > 100
       then warnCheck name False (''control_socket path is '' @ itoa n @ '' bytes (warn > 100); macOS sun_path is ~104 including NUL'' @ dash
         @ ''bind may fail with '' @ [CHR 0x22] @ ''filename too long'' @ [CHR 0x22] @ ''; keep socket under ~/Library/Caches/mount-wrapper/run/ (docs/macos.md)'')
       else infoCheck name (''control_socket path length '' @ itoa n @ '' is within macOS sun_path limit'')))"

subsection \<open>The systemd drop-in\<close>

definition pathAlreadyCovered :: "path list \<Rightarrow> path \<Rightarrow> bool" where
  "pathAlreadyCovered ps p0 =
    (let p = path_clean p0 in
     list_ex (\<lambda>q0. let q = path_clean q0 in p = q \<or> q \<noteq> ''/'' \<and> has_prefix p (q @ ''/'')) ps)"

definition appendUncoveredPath :: "doctor_env \<Rightarrow> string \<Rightarrow> path list \<Rightarrow> path list" where
  "appendUncoveredPath e raw0 ps =
    (let raw = trim_space raw0 in
     if raw = '''' then ps
     else (case ToWSLPath (dr_wslpath e) raw of
        Inl _ \<Rightarrow> ps
      | Inr m \<Rightarrow> (let mapped = path_clean m in
          if \<not> has_prefix mapped ''/'' then ps else if pathAlreadyCovered ps mapped then ps else ps @ [mapped])))"

definition split_parts :: "path \<Rightarrow> string list" where
  "split_parts p = (let t = trim_right (\<lambda>c. c = CHR ''/'') (trim_left (\<lambda>c. c = CHR ''/'') p) in if t = '''' then [] else split_on CHR ''/'' t)"

text \<open>A source and, when it is on a drive, the root of the drive.\<close>

definition add_source :: "doctor_env \<Rightarrow> string \<Rightarrow> path list \<Rightarrow> path list" where
  "add_source e raw ps =
    (case ToWSLPath (dr_wslpath e) raw of
       Inl _ \<Rightarrow> ps
     | Inr mapped \<Rightarrow>
        (let ps1 = add_new mapped ps in
         case split_parts mapped of
           a # b # _ \<Rightarrow> if a = ''mnt'' \<and> length b = 1 then add_new (''/mnt/'' @ b) ps1 else ps1
         | _ \<Rightarrow> ps1))"

definition packaged_dirs :: "path list" where
  "packaged_dirs = [''/var/lib/mount-wrapper'', ''/var/log/mount-wrapper'', ''/run/mount-wrapper'']"

definition dropin_read_only :: "doctor_env \<Rightarrow> full_config \<Rightarrow> path list" where
  "dropin_read_only e cfg = fold (add_source e) (c_source_dirs cfg) []"

definition data_roots :: "full_config \<Rightarrow> string list" where
  "data_roots cfg = (if trim_space (c_archives_dir cfg) \<noteq> '''' then [c_archives_dir cfg] else [])
     @ [c_mount_root cfg, c_index_dir cfg, c_overlay_dir cfg, c_7z_cache_dir cfg, c_converter_output_dir cfg]"

definition dropin_read_write :: "doctor_env \<Rightarrow> full_config \<Rightarrow> path list" where
  "dropin_read_write e cfg = fold (appendUncoveredPath e) (data_roots cfg) packaged_dirs"

definition BuildSystemdDropin :: "doctor_env \<Rightarrow> full_config \<Rightarrow> string" where
  "BuildSystemdDropin e cfg =
    ''# Generated by mount-wrapper doctor --fix-systemd'' @ newline
    @ ''# Extends ReadOnlyPaths/ReadWritePaths for configured source and data directories.'' @ newline
    @ ''[Service]'' @ newline @ ''DeviceAllow=/dev/fuse rw'' @ newline
    @ (if dropin_read_only e cfg \<noteq> [] then ''ReadOnlyPaths='' @ join_with '' '' (dropin_read_only e cfg) @ newline else '''')
    @ (if dropin_read_write e cfg \<noteq> [] then ''ReadWritePaths='' @ join_with '' '' (dropin_read_write e cfg) @ newline else '''')"

definition ApplyFixSystemd :: "doctor_env \<Rightarrow> full_config \<Rightarrow> bool \<times> string" where
  "ApplyFixSystemd e cfg =
    (let p = (if dr_dropin e = '''' then ''/etc/systemd/system/mount-wrapper.service.d/sources.conf'' else dr_dropin e) in
     if dr_dry_run e then (True, ''dry-run: would write '' @ p)
     else (case dr_mkdir e (path_dir p) of
        Some err \<Rightarrow> (False, ''cannot write '' @ p @ '': '' @ err)
      | None \<Rightarrow>
         (case dr_write e p (BuildSystemdDropin e cfg) of
            Some err \<Rightarrow> (False, ''cannot write '' @ p @ '': '' @ err)
          | None \<Rightarrow> (True, ''wrote '' @ p))))"

subsection \<open>The report\<close>

record doctor_report =
  rp_ok :: bool
  rp_checks :: "check list"
  rp_config_path :: path
  rp_notes :: "string list"
  rp_fixes :: "string list"

definition CoreCheckNames :: "string list" where
  "CoreCheckNames = [''go_version'', ''host_platform'', ''peercred'', ''fuse_device'', ''fusermount'', ''user_allow_other'', ''ratarmount_bin'',
     ''archiveconverter'', ''sevenzip_bin'', ''mount_backend'', ''systemd_pid1'', ''service_user'']"

definition host_checks :: "doctor_env \<Rightarrow> check list" where
  "host_checks e =
    [checkGoVersion e, checkHostPlatform e, checkPeercred e, checkFuseDevice e, checkFusermount e, checkUserAllowOther e, checkRatarmount e,
     checkArchiveconverter e, checkSevenZipBin e, checkMountBackend e, checkSystemd e, checkServiceUser e]"

definition opt_check :: "check option \<Rightarrow> check list" where
  "opt_check c = (case c of Some x \<Rightarrow> [x] | None \<Rightarrow> [])"

definition config_checks :: "doctor_env \<Rightarrow> full_config \<Rightarrow> check list" where
  "config_checks e cfg =
    checkServicePaths e cfg @ [checkWindowsVisibleParentOX e cfg] @ checkSourceDirs e cfg @ [checkIndexLayout e cfg]
      @ checkFreeSpace e cfg @ [checkWebBindSecurity e cfg] @ checkConvertDirs e cfg @ opt_check (checkControlSocketPathLength e cfg)
      @ opt_check (checkControlSocketLive e cfg) @ opt_check (checkPidfileLive e cfg) @ [checkConfig cfg]"

text \<open>The check, the notes and the fixes of --fix-systemd.\<close>

definition fix_systemd :: "doctor_env \<Rightarrow> check list \<times> string list \<times> string list" where
  "fix_systemd e =
    (if \<not> dr_fix_systemd e then ([], [], [])
     else (case dr_cfg e of
        None \<Rightarrow> ([warnCheck ''fix_systemd'' False ''no config loaded; cannot write systemd drop-in''],
                 [''--fix-systemd requires a readable config file''], [])
      | Some cfg \<Rightarrow>
         (let (ok, msg) = ApplyFixSystemd e cfg; ck = (\<lambda>m. \<lparr>ck_name = ''fix_systemd'', ck_ok = ok, ck_severity = (if ok then SevInfo else SevError), ck_message = m\<rparr>) in
          if ok \<and> dr_dry_run e
          then ([ck msg], [msg @ '' (not written)'', trim_right (\<lambda>c. c = CHR 0x0A) (BuildSystemdDropin e cfg)], [])
          else if ok
          then (let m = msg @ ''; run: systemctl daemon-reload && systemctl restart mount-wrapper'' in ([ck m], [], [m]))
          else ([ck msg], [''Could not write systemd drop-in (need root?). Preview with: mount-wrapper doctor --fix-systemd --dry-run''], []))))"

definition Doctor_Run :: "doctor_env \<Rightarrow> doctor_report" where
  "Doctor_Run e =
    (let (fix_checks, notes, fixes) = fix_systemd e;
         checks = host_checks e @ opt_check (checkSystemdUnit e) @ opt_check (checkLaunchdAgent e)
           @ (case dr_cfg e of Some cfg \<Rightarrow> config_checks e cfg | None \<Rightarrow> []) @ fix_checks in
     \<lparr>rp_ok = \<not> HardFail checks, rp_checks = checks, rp_config_path = (case dr_cfg e of Some cfg \<Rightarrow> c_config_path cfg | None \<Rightarrow> ''''),
      rp_notes = notes, rp_fixes = fixes\<rparr>)"

definition markFor :: "check \<Rightarrow> string" where
  "markFor c = (if \<not> ck_ok c \<and> ck_severity c = SevError then ''[FAIL]'' else if \<not> ck_ok c \<or> ck_severity c = SevWarn then ''[WARN]'' else ''[ OK ]'')"

text \<open>The numbers of checks that are fine, warn, and fail in FormatText.\<close>

fun count_checks :: "check list \<Rightarrow> nat \<times> nat \<times> nat" where
  "count_checks [] = (0, 0, 0)"
| "count_checks (c # cs) =
    (let (k, w, f) = count_checks cs in
     if \<not> ck_ok c \<and> ck_severity c = SevError then (k, w, f + 1)
     else if \<not> ck_ok c \<and> ck_severity c = SevWarn \<or> ck_severity c = SevWarn \<and> ck_ok c then (k, w + 1, f)
     else if ck_ok c then (k + 1, w, f) else (k, w + 1, f))"

definition pad_right :: "nat \<Rightarrow> string \<Rightarrow> string" where
  "pad_right n s = s @ replicate (n - length s) CHR '' ''"

definition FormatText :: "doctor_report \<Rightarrow> string" where
  "FormatText r =
    (let (k, w, f) = count_checks (rp_checks r); num = (\<lambda>n. itoa (int n)) in
     ''mount-wrapper doctor: '' @ (if rp_ok r then ''OK'' else ''FAIL'') @ newline
     @ (if rp_config_path r \<noteq> '''' then ''config: '' @ rp_config_path r @ newline else '''') @ newline
     @ ''checks: '' @ num k @ '' ok, '' @ num w @ '' warn, '' @ num f @ '' error (total '' @ num (length (rp_checks r)) @ '')'' @ newline @ newline
     @ concat (map (\<lambda>c. ''  '' @ markFor c @ '' '' @ pad_right 22 (ck_name c) @ '' '' @ ck_message c @ newline) (rp_checks r))
     @ (if rp_notes r \<noteq> [] then newline @ ''notes:'' @ newline @ concat (map (\<lambda>n. ''  - '' @ n @ newline) (rp_notes r)) else '''')
     @ (if rp_fixes r \<noteq> [] then newline @ ''fixes applied:'' @ newline @ concat (map (\<lambda>n. ''  - '' @ n @ newline) (rp_fixes r)) else ''''))"

end
