(* ===== verification/DoctorProps.thy ===== *)
theory DoctorProps
  imports Doctor ServiceProps
begin

text \<open>
  The verdict of the doctor fails for five reasons only, and the systemd drop-in it writes opens the
  configured directories and no others.
\<close>

subsection \<open>The verdict\<close>

definition failing :: "check \<Rightarrow> bool" where
  "failing c \<longleftrightarrow> \<not> ck_ok c \<and> ck_severity c = SevError"

lemma HardFail_iff: "HardFail cs \<longleftrightarrow> (\<exists>c \<in> set cs. failing c)"
  by (auto simp: HardFail_def failing_def list_ex_iff)

lemma markFor_fail: "markFor c = ''[FAIL]'' \<longleftrightarrow> failing c"
  by (simp add: markFor_def failing_def)

lemma soft_checks [simp]: "\<not> failing (infoCheck n m)" "\<not> failing (warnCheck n ok m)" "failing (errorCheck n ok m) \<longleftrightarrow> \<not> ok"
  by (simp_all add: failing_def infoCheck_def warnCheck_def errorCheck_def)

lemma check_names [simp]: "ck_name (infoCheck n m) = n" "ck_name (warnCheck n ok m) = n"
  by (simp_all add: infoCheck_def warnCheck_def)

definition go_too_old :: "doctor_env \<Rightarrow> bool" where
  "go_too_old e \<longleftrightarrow> has_prefix (dr_go_version e) ''go1.''
     \<and> digit_val (takeWhile is_digit (drop 4 (dr_go_version e))) \<in> {1..20}"

definition no_foreground :: "doctor_env \<Rightarrow> bool" where
  "no_foreground e \<longleftrightarrow> (\<exists>p. dr_executable e p \<and> probeSupportsForeground e p = Some False)"

text \<open>The directories the doctor looks at.\<close>

definition checked_dirs :: "doctor_env \<Rightarrow> full_config \<Rightarrow> path list" where
  "checked_dirs e cfg = [c_mount_root cfg, c_index_dir cfg, c_overlay_dir cfg, path_dir (c_control_socket cfg),
     DefaultNonsolidCacheDir (dr_cache e) (config.truncate cfg), trim_space (c_converter_output_dir cfg)]"

definition not_a_dir :: "doctor_env \<Rightarrow> full_config \<Rightarrow> bool" where
  "not_a_dir e cfg \<longleftrightarrow> (\<exists>p \<in> set (checked_dirs e cfg). dr_exists e p \<and> \<not> dr_is_dir e p)"

definition unmapped_source :: "doctor_env \<Rightarrow> full_config \<Rightarrow> bool" where
  "unmapped_source e cfg \<longleftrightarrow> (\<exists>src \<in> set (c_source_dirs cfg). \<exists>err. ToWSLPath (dr_wslpath e) src = Inl err)"

lemma go_failing: "failing (checkGoVersion e) \<longleftrightarrow> go_too_old e"
  by (auto simp: checkGoVersion_def failing_def go_too_old_def Let_def split: if_splits)

lemma try_ratarmount_failing: "failing (try_ratarmount e l seen cs) \<Longrightarrow> no_foreground e"
proof (induction cs arbitrary: seen)
  case (Cons c cs)
  then show ?case
    by (auto simp: Let_def ratarmount_found_def failing_def no_foreground_def warnCheck_def split: if_splits)
qed simp

lemma try_ratarmount_name: "ck_name (try_ratarmount e l seen cs) = ''ratarmount_bin''"
  by (induction cs arbitrary: seen) (simp_all add: Let_def ratarmount_found_def)

lemma host_failing:
  assumes "c \<in> set (host_checks e)" "failing c"
  shows "go_too_old e \<or> no_foreground e"
proof -
  have "\<not> failing (checkHostPlatform e)" "\<not> failing (checkPeercred e)" "\<not> failing (checkMountBackend e)" "\<not> failing (checkServiceUser e)"
    by (simp_all add: checkHostPlatform_def checkPeercred_def checkMountBackend_def checkServiceUser_def Let_def)
  moreover have "\<not> failing (checkFuseDevice e)" "\<not> failing (checkSystemd e)"
    by (simp_all add: checkFuseDevice_def checkSystemd_def failing_def infoCheck_def Let_def)
  moreover have "\<not> failing (checkFusermount e)" "\<not> failing (checkUserAllowOther e)"
    by (simp_all add: checkFusermount_def checkUserAllowOther_def Let_def split: option.split)
  moreover have "\<not> failing (checkArchiveconverter e)" "\<not> failing (checkSevenZipBin e)"
    by (simp_all add: checkArchiveconverter_def checkSevenZipBin_def Let_def split: option.split)
  ultimately show ?thesis
    using assms try_ratarmount_failing unfolding host_checks_def checkRatarmount_def Let_def by (auto simp: go_failing)
qed

lemma host_names: "map ck_name (host_checks e) = CoreCheckNames"
proof -
  have "ck_name (checkGoVersion e) = ''go_version''" "ck_name (checkHostPlatform e) = ''host_platform''" "ck_name (checkPeercred e) = ''peercred''"
    "ck_name (checkFuseDevice e) = ''fuse_device''" "ck_name (checkMountBackend e) = ''mount_backend''" "ck_name (checkServiceUser e) = ''service_user''"
    by (simp_all add: checkGoVersion_def checkHostPlatform_def checkPeercred_def checkFuseDevice_def checkMountBackend_def checkServiceUser_def Let_def)
  moreover have "ck_name (checkFusermount e) = ''fusermount''" "ck_name (checkArchiveconverter e) = ''archiveconverter''"
    "ck_name (checkSevenZipBin e) = ''sevenzip_bin''"
    by (simp_all add: checkFusermount_def checkArchiveconverter_def checkSevenZipBin_def Let_def split: option.split)
  moreover have "ck_name (checkUserAllowOther e) = ''user_allow_other''" "ck_name (checkSystemd e) = ''systemd_pid1''"
    by (simp_all add: checkUserAllowOther_def checkSystemd_def Let_def)
  ultimately show ?thesis by (simp add: host_checks_def CoreCheckNames_def checkRatarmount_def Let_def try_ratarmount_name)
qed

lemma one_path_failing: "failing (checkOnePath e n l p) \<Longrightarrow> dr_exists e p \<and> \<not> dr_is_dir e p"
  by (auto simp: checkOnePath_def Let_def split: if_splits)

lemma free_failing: "c \<in> set (check_free_all e t seen items) \<Longrightarrow> \<not> failing c"
  by (induction e t seen items rule: check_free_all.induct) (auto simp: check_free_def split: if_splits option.splits)

lemma sources_failing:
  assumes "c \<in> set (checkSourceDirs e cfg)" "failing c"
  shows "unmapped_source e cfg"
proof -
  obtain i src where src: "src \<in> set (c_source_dirs cfg)" and c: "c = check_source e i src"
    using assms by (auto simp: checkSourceDirs_def split: if_splits dest: set_zip_rightD)
  then have "\<exists>err. ToWSLPath (dr_wslpath e) src = Inl err"
    using assms(2) by (cases "ToWSLPath (dr_wslpath e) src") (auto simp: check_source_def failing_def Let_def)
  then show ?thesis using src by (auto simp: unmapped_source_def)
qed

lemma opt_checks_soft:
  "c \<in> set (opt_check (checkSystemdUnit e)) \<Longrightarrow> \<not> failing c" "c \<in> set (opt_check (checkLaunchdAgent e)) \<Longrightarrow> \<not> failing c"
  "c \<in> set (opt_check (checkControlSocketPathLength e cfg)) \<Longrightarrow> \<not> failing c" "c \<in> set (opt_check (checkControlSocketLive e cfg)) \<Longrightarrow> \<not> failing c"
  "c \<in> set (opt_check (checkPidfileLive e cfg)) \<Longrightarrow> \<not> failing c"
  by (auto simp: opt_check_def checkSystemdUnit_def checkLaunchdAgent_def checkControlSocketPathLength_def checkControlSocketLive_def
      checkPidfileLive_def Let_def split: if_splits option.splits prod.splits sum.splits)

lemma config_failing:
  assumes "c \<in> set (config_checks e cfg)" "failing c"
  shows "not_a_dir e cfg \<or> unmapped_source e cfg"
proof -
  have "c \<in> set (checkServicePaths e cfg) \<or> c \<in> set (checkSourceDirs e cfg) \<or> c \<in> set (checkConvertDirs e cfg)"
  proof -
    have "\<not> failing (checkWindowsVisibleParentOX e cfg)" "\<not> failing (checkIndexLayout e cfg)" "\<not> failing (checkWebBindSecurity e cfg)"
      "\<not> failing (checkConfig cfg)"
      by (simp_all add: checkWindowsVisibleParentOX_def checkIndexLayout_def checkWebBindSecurity_def checkConfig_def Let_def)
    moreover have "c \<notin> set (checkFreeSpace e cfg)" using assms(2) free_failing unfolding checkFreeSpace_def by blast
    ultimately show ?thesis using assms opt_checks_soft unfolding config_checks_def by auto
  qed
  moreover have "not_a_dir e cfg" if "c \<in> set (checkServicePaths e cfg) \<or> c \<in> set (checkConvertDirs e cfg)"
    using that assms(2) unfolding checkServicePaths_def checkConvertDirs_def data_dirs_def not_a_dir_def checked_dirs_def
    by (auto dest!: one_path_failing split: if_splits)
  ultimately show ?thesis using assms(2) sources_failing by blast
qed

lemma fix_failing:
  assumes "c \<in> set (fst (fix_systemd e))" "failing c"
  shows "\<exists>cfg. dr_cfg e = Some cfg \<and> dr_fix_systemd e \<and> \<not> fst (ApplyFixSystemd e cfg)"
  using assms by (auto simp: fix_systemd_def failing_def warnCheck_def Let_def split: if_splits option.splits prod.splits)

lemma count_checks_sums:
  "(case count_checks cs of (k, w, f) \<Rightarrow> k + w + f = length cs \<and> (f = 0 \<longleftrightarrow> \<not> HardFail cs))"
proof (induction cs)
  case (Cons c cs)
  obtain k w f where "count_checks cs = (k, w, f)" by (metis prod_cases3)
  then show ?case using Cons by (auto simp: HardFail_def)
qed (simp add: HardFail_def)

lemma Run_checks:
  "rp_checks (Doctor_Run e) = host_checks e @ opt_check (checkSystemdUnit e) @ opt_check (checkLaunchdAgent e)
     @ (case dr_cfg e of Some cfg \<Rightarrow> config_checks e cfg | None \<Rightarrow> []) @ fst (fix_systemd e)"
  "rp_ok (Doctor_Run e) \<longleftrightarrow> \<not> HardFail (rp_checks (Doctor_Run e))"
  by (simp_all add: Doctor_Run_def Let_def split_beta)


subsection \<open>The drop-in\<close>

lemma covered_append: "pathAlreadyCovered ps p \<Longrightarrow> pathAlreadyCovered (ps @ qs) p"
  by (auto simp: pathAlreadyCovered_def Let_def)

lemma append_extends: "\<exists>qs. appendUncoveredPath e raw ps = ps @ qs"
  by (auto simp: appendUncoveredPath_def Let_def split: sum.split)

lemma fold_extends: "\<exists>qs. fold (appendUncoveredPath e) raws ps = ps @ qs"
proof (induction raws arbitrary: ps)
  case (Cons raw raws)
  then show ?case using append_extends [of e raw ps] by (metis append.assoc fold_simps(2))
qed simp

definition mapped_root :: "doctor_env \<Rightarrow> string \<Rightarrow> path option" where
  "mapped_root e raw =
    (if trim_space raw = '''' then None
     else (case ToWSLPath (dr_wslpath e) (trim_space raw) of
        Inl _ \<Rightarrow> None | Inr m \<Rightarrow> if has_prefix (path_clean m) ''/'' then Some (path_clean m) else None))"

lemma append_mapped:
  "appendUncoveredPath e raw ps = (case mapped_root e raw of None \<Rightarrow> ps | Some m \<Rightarrow> if pathAlreadyCovered ps m then ps else ps @ [m])"
  by (simp add: appendUncoveredPath_def mapped_root_def Let_def split: sum.split)

lemma self_covered: "pathAlreadyCovered (ps @ [m]) m"
  by (simp add: pathAlreadyCovered_def Let_def)

lemma roots_covered:
  "raw \<in> set raws \<Longrightarrow> mapped_root e raw = Some m \<Longrightarrow> pathAlreadyCovered (fold (appendUncoveredPath e) raws ps) m"
proof (induction raws arbitrary: ps)
  case (Cons r raws)
  show ?case
  proof (cases "raw = r")
    case True
    then have "pathAlreadyCovered (appendUncoveredPath e r ps) m" using Cons.prems(2) self_covered by (simp add: append_mapped)
    moreover obtain qs where "fold (appendUncoveredPath e) raws (appendUncoveredPath e r ps) = appendUncoveredPath e r ps @ qs"
      using fold_extends by blast
    ultimately show ?thesis by (simp add: covered_append)
  qed (use Cons in auto)
qed simp

lemma only_roots: "p \<in> set (fold (appendUncoveredPath e) raws ps) \<Longrightarrow> p \<in> set ps \<or> (\<exists>raw \<in> set raws. mapped_root e raw = Some p)"
proof (induction raws arbitrary: ps)
  case (Cons r raws)
  then have "p \<in> set (appendUncoveredPath e r ps) \<or> (\<exists>raw \<in> set raws. mapped_root e raw = Some p)" by simp
  then show ?case by (auto simp: append_mapped split: option.splits if_splits)
qed simp

lemma add_source_grows: "set ps \<subseteq> set (add_source e raw ps)"
  by (auto simp: add_source_def add_new_def Let_def split: sum.split list.split)

lemma fold_source_grows: "set ps \<subseteq> set (fold (add_source e) raws ps)"
proof (induction raws arbitrary: ps)
  case (Cons raw raws)
  then show ?case using add_source_grows [of ps e raw] by (metis fold_simps(2) subset_trans)
qed simp

lemma sources_listed:
  "raw \<in> set raws \<Longrightarrow> ToWSLPath (dr_wslpath e) raw = Inr m \<Longrightarrow> m \<in> set (fold (add_source e) raws ps)"
proof (induction raws arbitrary: ps)
  case (Cons r raws)
  show ?case
  proof (cases "raw = r")
    case True
    then have "m \<in> set (add_source e r ps)"
      using Cons.prems(2) by (auto simp: add_source_def add_new_def Let_def split: list.split)
    then show ?thesis using fold_source_grows [of "add_source e r ps" e raws] by auto
  qed (use Cons in auto)
qed simp

lemma split_join_blank: "xs \<noteq> [] \<Longrightarrow> (\<forall>x \<in> set xs. CHR '' '' \<notin> set x) \<Longrightarrow> split_on CHR '' '' (join_with '' '' xs) = xs"
proof (induction "'' ''" xs rule: join_with.induct)
  case (3 x y zs)
  then show ?case using split_on_append [of "CHR '' ''" x] by (simp add: split_on_notin)
qed (simp_all add: split_on_notin)

lemma clean_absolute: "has_prefix (path_clean m) ''/'' \<Longrightarrow> is_rooted m"
proof (rule ccontr)
  assume abs: "has_prefix (path_clean m) ''/''" and rel: "\<not> is_rooted m"
  let ?cs = "rev (clean_comps False [] (split_on CHR ''/'' m))"
  have parts: "x \<noteq> '''' \<and> CHR ''/'' \<notin> set x" if "x \<in> set ?cs" for x
    using that clean_comps_parts [of x False "[]"] clean_comps_nonempty [of x False "[]"] split_on_parts [of x "CHR ''/''" m] by fastforce
  have "\<not> has_prefix (join_with ''/'' ?cs) ''/''"
  proof (cases ?cs)
    case (Cons x xs)
    then have "x \<noteq> ''''" "CHR ''/'' \<notin> set x" using parts [of x] by auto
    then show ?thesis unfolding Cons by (cases x; cases xs) (auto simp: has_prefix_def)
  qed (simp add: has_prefix_def)
  then show False using abs rel by (auto simp: path_clean_def Let_def has_prefix_def split: if_splits)
qed

lemma mapped_root_clean: "mapped_root e raw = Some m \<Longrightarrow> path_clean m = m"
  using clean_absolute path_clean_idem by (fastforce simp: mapped_root_def split: if_splits sum.splits)

lemma covered_iff:
  "pathAlreadyCovered ps m \<longleftrightarrow>
    (\<exists>p \<in> set ps. path_clean m = path_clean p \<or> path_clean p \<noteq> ''/'' \<and> has_prefix (path_clean m) (path_clean p @ ''/''))"
  by (simp add: pathAlreadyCovered_def list_ex_iff Let_def)


subsection \<open>Examples\<close>

text \<open>A host where nothing is installed and no service runs.\<close>

definition sample_doctor :: doctor_env where
  "sample_doctor = \<lparr>dr_cfg = None, dr_platform = ''linux'', dr_fix_systemd = False, dr_dry_run = False, dr_dropin = ''/d'',
     dr_service_user = ''mount-wrapper'', dr_fuse_conf = ''/etc/fuse.conf'', dr_min_free_warn = 0, dr_go_version = ''go1.20'', dr_wsl = False,
     dr_getenv = (\<lambda>_. ''''), dr_which = (\<lambda>_. ''''), dr_exists = (\<lambda>_. False), dr_executable = (\<lambda>_. False), dr_is_dir = (\<lambda>_. False),
     dr_writable = (\<lambda>_. False), dr_free = (\<lambda>_. None), dr_mode = (\<lambda>_. None), dr_has_user = (\<lambda>_. False), dr_read = (\<lambda>_. Inl ''no file''),
     dr_run = (\<lambda>_ _. ('''', True)), dr_control = (\<lambda>_. Inl ''refused''), dr_systemctl = (\<lambda>_. ('''', Some ''none'')),
     dr_launchctl = (\<lambda>_. ('''', Some ''none'')), dr_alive = (\<lambda>_. False), dr_pid1 = Some ''init'', dr_mkdir = (\<lambda>_. None),
     dr_write = (\<lambda>_ _. None), dr_load = sample_env, dr_cache = h_cache sample_host, dr_wslpath = (\<lambda>_. None),
     dr_path_error = (\<lambda>_. ''cannot map''), dr_loopback = (\<lambda>_. False), dr_quote = (\<lambda>s. s), dr_fixed1 = (\<lambda>_. '''')\<rparr>"



end
