(* ===== verification/Cli.thy ===== *)
theory Cli
  imports Doctor ControlProps
begin

text \<open>
  The command line of src/internal/cli: the flags of the standard library's package flag, the
  commands (cli.go, ops.go, config_cmd.go, doctor_cmd.go, helpers.go), the client of the control
  socket (client.go and control/client.go), and the machine they run on: the configuration files
  and the service, which the client reaches through the handling of one connection.  A command
  yields its exit code and what it prints on standard output; the text for people is the name of its
  formatter with the data it is given, the text on standard error is left out.
\<close>

subsection \<open>Flags\<close>

text \<open>Package flag: a name, the variable it sets (aliases share one), and whether it is boolean.\<close>

record flag_def =
  fd_name :: string
  fd_var :: string
  fd_bool :: bool

datatype flag_error = FlagHelp | BadFlagSyntax string | UndefinedFlag string | InvalidBool string string | NeedsArgument string

type_synonym flag_values = "(string \<times> string) list"

definition bool_flag :: "string \<Rightarrow> flag_def" where
  "bool_flag nm = \<lparr>fd_name = nm, fd_var = nm, fd_bool = True\<rparr>"

definition string_flag :: "string \<Rightarrow> string \<Rightarrow> flag_def" where
  "string_flag nm var = \<lparr>fd_name = nm, fd_var = var, fd_bool = False\<rparr>"

definition parse_bool :: "string \<Rightarrow> bool option" where
  "parse_bool s =
    (if s \<in> {''1'', ''t'', ''T'', ''true'', ''TRUE'', ''True''} then Some True
     else if s \<in> {''0'', ''f'', ''F'', ''false'', ''FALSE'', ''False''} then Some False
     else None)"

text \<open>The name of a flag and its value after an equals sign, if there is one.\<close>

definition split_flag :: "string \<Rightarrow> string \<times> string option" where
  "split_flag s =
    (let nm = takeWhile (\<lambda>c. c \<noteq> CHR ''='') s in
     (nm, if length nm < length s then Some (drop (length nm + 1) s) else None))"

definition is_flag :: "string \<Rightarrow> bool" where
  "is_flag s \<longleftrightarrow> 2 \<le> length s \<and> hd s = CHR ''-''"

definition text_of_bool :: "bool \<Rightarrow> string" where
  "text_of_bool b = (if b then ''true'' else ''false'')"

text \<open>
  FlagSet.Parse: the arguments up to the first that is not a flag, or up to two dashes, are flags;
  the rest are the operands, whatever they look like.
\<close>

fun flag_parse :: "flag_def list \<Rightarrow> flag_values \<Rightarrow> string list \<Rightarrow> flag_error + flag_values \<times> string list" where
  "flag_parse fds vals [] = Inr (vals, [])"
| "flag_parse fds vals (s # rest) =
    (if \<not> is_flag s then Inr (vals, s # rest)
     else if s = ''--'' then Inr (vals, rest)
     else (let body = (if has_prefix s ''--'' then drop 2 s else drop 1 s); (nm, val) = split_flag body in
       if body = '''' \<or> hd body = CHR ''-'' \<or> hd body = CHR ''='' then Inl (BadFlagSyntax s)
       else (case find (\<lambda>d. fd_name d = nm) fds of
          None \<Rightarrow> Inl (if nm = ''help'' \<or> nm = ''h'' then FlagHelp else UndefinedFlag nm)
        | Some d \<Rightarrow>
           (if fd_bool d
            then (case val of
                    None \<Rightarrow> flag_parse fds ((fd_var d, ''true'') # vals) rest
                  | Some v \<Rightarrow>
                     (case parse_bool v of
                        None \<Rightarrow> Inl (InvalidBool v nm)
                      | Some b \<Rightarrow> flag_parse fds ((fd_var d, text_of_bool b) # vals) rest))
            else (case val of
                    Some v \<Rightarrow> flag_parse fds ((fd_var d, v) # vals) rest
                  | None \<Rightarrow>
                     (case rest of
                        [] \<Rightarrow> Inl (NeedsArgument nm)
                      | v # others \<Rightarrow> flag_parse fds ((fd_var d, v) # vals) others))))))"

definition string_value :: "flag_values \<Rightarrow> string \<Rightarrow> string" where
  "string_value vals k = (case map_of vals k of None \<Rightarrow> '''' | Some v \<Rightarrow> v)"

definition bool_value :: "flag_values \<Rightarrow> string \<Rightarrow> bool" where
  "bool_value vals k \<longleftrightarrow> map_of vals k = Some ''true''"

definition addConfigSocketFlags :: "flag_def list" where
  "addConfigSocketFlags = [string_flag ''config'' ''config'', string_flag ''c'' ''config'', string_flag ''socket'' ''socket'']"

subsection \<open>The machine\<close>

text \<open>
  The service that runs, with the socket it listens on; its configuration file is one of the files.
\<close>

record machine =
  mc_files :: config_files
  mc_socket :: path
  mc_service :: "service option"

text \<open>
  What a command is run with.  \<open>ch_dec\<close> decodes a request in the service, \<open>ch_decode\<close> any JSON text in the
  client; the numbers of the latter are float64, kept as their shortest text and read by \<open>ch_float\<close>.
  \<open>ch_late\<close> says that the answer misses the deadline of the client.
\<close>

record cli_host =
  ch_service :: service_host
  ch_answer :: response
  ch_opts :: auth_opts
  ch_peer :: "int option"
  ch_dec :: decoder
  ch_response :: "response \<Rightarrow> string"
  ch_encode :: "(string \<times> json) list \<Rightarrow> string"
  ch_decode :: decoder
  ch_float :: "string \<Rightarrow> rat"
  ch_late :: bool
  ch_default_config :: path
  ch_read :: "path \<Rightarrow> string option"
  ch_stdout :: bool
  ch_doctor :: doctor_env

datatype reply_stream = NoConnection | Stream string stream_end

text \<open>The client dials, writes one line and half-closes; the service handles the connection.\<close>

definition exchange :: "cli_host \<Rightarrow> path \<Rightarrow> string \<Rightarrow> machine \<Rightarrow> reply_stream \<times> machine" where
  "exchange ch socket payload m =
    (case mc_service m of
       None \<Rightarrow> (NoConnection, m)
     | Some sv \<Rightarrow>
        (if socket \<noteq> mc_socket m then (NoConnection, m)
         else (let (r, sv') = handleConnection (ch_opts ch) (ch_dec ch) (handleRequest (ch_service ch) (ch_answer ch)) (ch_peer ch) payload
                      StreamEOF (sv\<lparr>sv_files := mc_files m\<rparr>);
                   bytes = (case r of None \<Rightarrow> '''' | Some resp \<Rightarrow> ch_response ch resp @ [CHR 0x0A]) in
               (if ch_late ch then Stream '''' StreamTimeout else Stream bytes StreamEOF,
                m\<lparr>mc_files := sv_files sv', mc_service := Some sv'\<rparr>))))"

subsection \<open>The client\<close>

definition EncodeRequest :: "cli_host \<Rightarrow> string \<Rightarrow> (string \<times> json) list \<Rightarrow> string" where
  "EncodeRequest ch op flds = ch_encode ch (flds @ [(''v'', JsNumber ''1''), (''op'', JsString op)]) @ [CHR 0x0A]"

text \<open>The loop of readOneLine is that of the server, with the same bound.\<close>

definition readOneLine :: "nat \<Rightarrow> string \<Rightarrow> stream_end \<Rightarrow> line_error + string" where
  "readOneLine maxBytes bytes fin = readRequestLine maxBytes bytes fin"

definition cannot_connect :: "path \<Rightarrow> control_error" where
  "cannot_connect p = CtlError (''cannot connect to control socket '' @ p) ''UNAVAILABLE''"

definition Client_Request ::
  "cli_host \<Rightarrow> path \<Rightarrow> string \<Rightarrow> (string \<times> json) list \<Rightarrow> machine \<Rightarrow> (control_error + (string \<times> json) list) \<times> machine" where
  "Client_Request ch p op flds m =
    (if p = '''' then (Inl (CtlError ''control socket path is empty'' ''UNAVAILABLE''), m)
     else (let (stream, m') = exchange ch p (EncodeRequest ch op flds) m in
       (case stream of
          NoConnection \<Rightarrow> Inl (cannot_connect p)
        | Stream bytes fin \<Rightarrow>
           (case readOneLine MaxRequestBytes bytes fin of
              Inl LineEOF \<Rightarrow> Inl (CtlError ''empty response from service'' ''UNAVAILABLE'')
            | Inl _ \<Rightarrow> Inl (cannot_connect p)
            | Inr line \<Rightarrow>
               (if line = '''' then Inl (CtlError ''empty response from service'' ''UNAVAILABLE'')
                else (case ch_decode ch line of
                   Inl e \<Rightarrow> Inl (CtlError (''invalid response JSON: '' @ e) ''BAD_RESPONSE'')
                 | Inr (JsObject fs) \<Rightarrow> Inr fs
                 | Inr _ \<Rightarrow> Inl (CtlError ''response must be an object'' ''BAD_RESPONSE'')))), m')))"

fun json_str :: "json option \<Rightarrow> string" where
  "json_str (Some (JsString s)) = s"
| "json_str _ = ''''"

definition data_of :: "(string \<times> json) list \<Rightarrow> json" where
  "data_of resp = (case map_of resp ''data'' of None \<Rightarrow> JsNull | Some d \<Rightarrow> d)"

definition Client_RequestOK ::
  "cli_host \<Rightarrow> path \<Rightarrow> string \<Rightarrow> (string \<times> json) list \<Rightarrow> machine \<Rightarrow> (control_error + json) \<times> machine" where
  "Client_RequestOK ch p op flds m =
    (let (r, m') = Client_Request ch p op flds m in
     (case r of
        Inl e \<Rightarrow> Inl e
      | Inr resp \<Rightarrow>
         (if map_of resp ''ok'' = Some (JsBool True) then Inr (data_of resp)
          else (let msg = json_str (map_of resp ''error''); code = json_str (map_of resp ''code'') in
            Inl (CtlError (if msg = '''' then ''request failed'' else msg) (if code = '''' then ''ERROR'' else code)))), m'))"

subsection \<open>Helpers\<close>

definition ExitOK :: int where "ExitOK = 0"
definition ExitError :: int where "ExitError = 1"
definition ExitUsage :: int where "ExitUsage = 2"
definition ExitServiceUnavailable :: int where "ExitServiceUnavailable = 4"
definition ExitPermission :: int where "ExitPermission = 5"

text \<open>What standard output shows.\<close>

datatype shown = Nothing | HelpText string | JsonOut json | HumanOut string json | SnapshotOut snapshot | UpdateOut update_result | ReportOut bool doctor_report

type_synonym cli_result = "int \<times> shown"

definition handleControlError :: "control_error \<Rightarrow> int" where
  "handleControlError e =
    (case e of CtlError _ code \<Rightarrow>
       (if code = ''UNAVAILABLE'' then ExitServiceUnavailable
        else if code = ''PERMISSION_DENIED'' then ExitPermission
        else ExitError))"

definition ResolveConfigPath :: "cli_host \<Rightarrow> string \<Rightarrow> path" where
  "ResolveConfigPath ch explicit = (if explicit \<noteq> '''' then explicit else ch_default_config ch)"

definition loadConfigRequired :: "cli_host \<Rightarrow> string \<Rightarrow> machine \<Rightarrow> reload_error + full_config" where
  "loadConfigRequired ch configFlag m = config_Load (ch_service ch) (ResolveConfigPath ch configFlag) (mc_files m)"

definition loadConfigOptional :: "cli_host \<Rightarrow> string \<Rightarrow> machine \<Rightarrow> reload_error + full_config option" where
  "loadConfigOptional ch configFlag m =
    (case loadConfigRequired ch configFlag m of
       Inl (CannotRead _) \<Rightarrow> Inr None
     | Inl e \<Rightarrow> Inl e
     | Inr cfg \<Rightarrow> Inr (Some cfg))"

definition resolveSocket :: "cli_host \<Rightarrow> string \<Rightarrow> string \<Rightarrow> machine \<Rightarrow> path option" where
  "resolveSocket ch configFlag socketFlag m =
    (if trim_space socketFlag \<noteq> '''' then Some (trim_space socketFlag)
     else (case loadConfigRequired ch configFlag m of
        Inl _ \<Rightarrow> None
      | Inr cfg \<Rightarrow> if c_control_socket cfg = '''' then None else Some (c_control_socket cfg)))"

definition requestOK ::
  "cli_host \<Rightarrow> flag_values \<Rightarrow> string \<Rightarrow> (string \<times> json) list \<Rightarrow> machine \<Rightarrow> (int + json) \<times> machine" where
  "requestOK ch vals op flds m =
    (case resolveSocket ch (string_value vals ''config'') (string_value vals ''socket'') m of
       None \<Rightarrow> (Inl ExitError, m)
     | Some p \<Rightarrow>
        (let (r, m') = Client_RequestOK ch p op flds m in
         (case r of Inl e \<Rightarrow> Inl (handleControlError e) | Inr d \<Rightarrow> Inr d, m')))"

definition print_json :: "cli_host \<Rightarrow> shown \<Rightarrow> cli_result" where
  "print_json ch d = (if ch_stdout ch then (ExitOK, d) else (ExitError, Nothing))"

text \<open>The flags are parsed; help ends the command well, a mistake is one of usage.\<close>

definition with_flags ::
  "flag_def list \<Rightarrow> string list \<Rightarrow> (flag_values \<Rightarrow> string list \<Rightarrow> machine \<Rightarrow> cli_result \<times> machine) \<Rightarrow> machine \<Rightarrow> cli_result \<times> machine" where
  "with_flags fds args k m =
    (case flag_parse fds [] args of
       Inl FlagHelp \<Rightarrow> ((ExitOK, Nothing), m)
     | Inl _ \<Rightarrow> ((ExitUsage, Nothing), m)
     | Inr (vals, rest) \<Rightarrow> k vals rest m)"

definition usage_error :: "machine \<Rightarrow> cli_result \<times> machine" where
  "usage_error m = ((ExitUsage, Nothing), m)"

text \<open>A request whose data is shown as JSON or by a formatter.\<close>

definition ask ::
  "cli_host \<Rightarrow> flag_values \<Rightarrow> string \<Rightarrow> (string \<times> json) list \<Rightarrow> bool \<Rightarrow> string \<Rightarrow> machine \<Rightarrow> cli_result \<times> machine" where
  "ask ch vals op flds jsonOut formatter m =
    (let (r, m') = requestOK ch vals op flds m in
     (case r of
        Inl code \<Rightarrow> (code, Nothing)
      | Inr d \<Rightarrow> if jsonOut then print_json ch (JsonOut d) else (ExitOK, HumanOut formatter d), m'))"

subsection \<open>Commands\<close>

definition runStatus :: "cli_host \<Rightarrow> string list \<Rightarrow> machine \<Rightarrow> cli_result \<times> machine" where
  "runStatus ch args =
    with_flags (addConfigSocketFlags @ [bool_flag ''json'', bool_flag ''sizes'']) args (\<lambda>vals rest m.
      if rest \<noteq> [] then usage_error m
      else ask ch vals ''status'' (if bool_value vals ''sizes'' then [(''include_sizes'', JsBool True)] else [])
             (bool_value vals ''json'') ''status'' m)"

definition runMetrics :: "cli_host \<Rightarrow> string list \<Rightarrow> machine \<Rightarrow> cli_result \<times> machine" where
  "runMetrics ch args =
    with_flags (addConfigSocketFlags @ [bool_flag ''json'', bool_flag ''no-cache'', bool_flag ''prefer-mount'']) args (\<lambda>vals rest m.
      if length rest > 1 then usage_error m
      else (let archiveID = (case rest of [] \<Rightarrow> '''' | a # _ \<Rightarrow> a) in
        ask ch vals ''metrics''
          ([(''no_cache'', JsBool (bool_value vals ''no-cache'')), (''prefer_mount'', JsBool (bool_value vals ''prefer-mount''))]
            @ (if archiveID \<noteq> '''' then [(''archive_id'', JsString archiveID)] else []))
          (bool_value vals ''json'') ''metrics'' m))"

definition runRescan :: "cli_host \<Rightarrow> string list \<Rightarrow> machine \<Rightarrow> cli_result \<times> machine" where
  "runRescan ch args =
    with_flags (addConfigSocketFlags @ [bool_flag ''assume-stable'', bool_flag ''json'']) args (\<lambda>vals rest m.
      if rest \<noteq> [] then usage_error m
      else ask ch vals ''rescan'' [(''assume_stable'', JsBool (bool_value vals ''assume-stable''))] (bool_value vals ''json'') ''rescan'' m)"

definition runRetry :: "cli_host \<Rightarrow> string list \<Rightarrow> machine \<Rightarrow> cli_result \<times> machine" where
  "runRetry ch args =
    with_flags (addConfigSocketFlags @ [bool_flag ''json'']) args (\<lambda>vals rest m.
      case rest of
        [a] \<Rightarrow> ask ch vals ''retry'' [(''archive_id'', JsString a)] (bool_value vals ''json'') ''retry'' m
      | _ \<Rightarrow> usage_error m)"

definition runMount :: "cli_host \<Rightarrow> string list \<Rightarrow> machine \<Rightarrow> cli_result \<times> machine" where
  "runMount ch args =
    with_flags (addConfigSocketFlags @ [bool_flag ''json'']) args (\<lambda>vals rest m.
      case rest of
        [p] \<Rightarrow> ask ch vals ''mount'' [(''path'', JsString p)] (bool_value vals ''json'') ''mount'' m
      | _ \<Rightarrow> usage_error m)"

definition runUnmount :: "cli_host \<Rightarrow> string list \<Rightarrow> machine \<Rightarrow> cli_result \<times> machine" where
  "runUnmount ch args =
    with_flags (addConfigSocketFlags @ [bool_flag ''all'', bool_flag ''json'']) args (\<lambda>vals rest m.
      if length rest > 1 then usage_error m
      else (let target = (case rest of [] \<Rightarrow> '''' | a # _ \<Rightarrow> a); everything = bool_value vals ''all'' in
        if \<not> everything \<and> target = '''' then usage_error m
        else if everything \<and> target \<noteq> '''' then usage_error m
        else ask ch vals ''unmount'' (if everything then [(''all'', JsBool True)] else [(''target'', JsString target)])
               (bool_value vals ''json'') ''unmount'' m))"

definition runPurge :: "cli_host \<Rightarrow> string list \<Rightarrow> machine \<Rightarrow> cli_result \<times> machine" where
  "runPurge ch args =
    with_flags (addConfigSocketFlags @ [bool_flag ''yes'', bool_flag ''json'']) args (\<lambda>vals rest m.
      case rest of
        [a] \<Rightarrow>
          (if \<not> bool_value vals ''yes'' then usage_error m
           else ask ch vals ''purge'' [(''archive_id'', JsString a), (''yes'', JsBool True)] (bool_value vals ''json'') ''purge'' m)
      | _ \<Rightarrow> usage_error m)"

text \<open>Reload and stop differ in their name only.\<close>

definition run_scheduled :: "string \<Rightarrow> cli_host \<Rightarrow> string list \<Rightarrow> machine \<Rightarrow> cli_result \<times> machine" where
  "run_scheduled op ch args =
    with_flags (addConfigSocketFlags @ [bool_flag ''json'']) args (\<lambda>vals rest m.
      if rest \<noteq> [] then usage_error m
      else ask ch vals op [] (bool_value vals ''json'') (op @ '' scheduled'') m)"

definition runReload :: "cli_host \<Rightarrow> string list \<Rightarrow> machine \<Rightarrow> cli_result \<times> machine" where
  "runReload = run_scheduled ''reload''"

definition runStop :: "cli_host \<Rightarrow> string list \<Rightarrow> machine \<Rightarrow> cli_result \<times> machine" where
  "runStop = run_scheduled ''stop''"

definition runHooksList :: "cli_host \<Rightarrow> string list \<Rightarrow> machine \<Rightarrow> cli_result \<times> machine" where
  "runHooksList ch args =
    with_flags (addConfigSocketFlags @ [bool_flag ''json'']) args (\<lambda>vals rest m.
      if rest \<noteq> [] then usage_error m else ask ch vals ''hooks_list'' [] (bool_value vals ''json'') ''hooks_list'' m)"

definition runHooksStatus :: "cli_host \<Rightarrow> string list \<Rightarrow> machine \<Rightarrow> cli_result \<times> machine" where
  "runHooksStatus ch args =
    with_flags (addConfigSocketFlags @ [bool_flag ''json'']) args (\<lambda>vals rest m.
      case rest of
        [a] \<Rightarrow> ask ch vals ''hooks_status'' [(''archive_id'', JsString a)] (bool_value vals ''json'') ''hooks_status'' m
      | _ \<Rightarrow> usage_error m)"

definition runHooksRerun :: "cli_host \<Rightarrow> string list \<Rightarrow> machine \<Rightarrow> cli_result \<times> machine" where
  "runHooksRerun ch args =
    with_flags (addConfigSocketFlags @ [bool_flag ''force'', bool_flag ''json'']) args (\<lambda>vals rest m.
      case rest of
        [a] \<Rightarrow> ask ch vals ''hooks_run'' [(''archive_id'', JsString a), (''force'', JsBool (bool_value vals ''force''))]
                 (bool_value vals ''json'') ''hooks_run'' m
      | _ \<Rightarrow> usage_error m)"

definition runHooks :: "cli_host \<Rightarrow> string list \<Rightarrow> machine \<Rightarrow> cli_result \<times> machine" where
  "runHooks ch args =
    (case args of
       [] \<Rightarrow> usage_error
     | c # rest \<Rightarrow>
        (if c = ''list'' then runHooksList ch rest
         else if c = ''status'' then runHooksStatus ch rest
         else if c = ''rerun'' then runHooksRerun ch rest
         else if c \<in> {''help'', ''-h'', ''--help''} then (\<lambda>m. ((ExitOK, HelpText ''hooks''), m))
         else usage_error))"

subsection \<open>Configuration commands\<close>

text \<open>The dynamic type of a decoded value of the client: its numbers are float64.\<close>

fun client_yval :: "cli_host \<Rightarrow> json \<Rightarrow> yval" where
  "client_yval ch JsNull = YNull"
| "client_yval ch (JsBool b) = YBool b"
| "client_yval ch (JsNumber s) = YFloat (ch_float ch s)"
| "client_yval ch (JsString s) = YStr s"
| "client_yval ch (JsArray xs) = YList (map (client_yval ch) xs)"
| "client_yval ch (JsObject fs) = YOther ''map''"

definition client_raw :: "cli_host \<Rightarrow> json option \<Rightarrow> raw option" where
  "client_raw ch d = (case d of Some (JsObject fs) \<Rightarrow> Some (map (\<lambda>(k, v). (k, client_yval ch v)) fs) | _ \<Rightarrow> None)"

definition runConfigShow :: "cli_host \<Rightarrow> string list \<Rightarrow> machine \<Rightarrow> cli_result \<times> machine" where
  "runConfigShow ch args =
    with_flags (addConfigSocketFlags @ [bool_flag ''local'']) args (\<lambda>vals rest m.
      if rest \<noteq> [] then usage_error m
      else if bool_value vals ''local''
      then (case loadConfigRequired ch (string_value vals ''config'') m of
              Inl _ \<Rightarrow> ((ExitError, Nothing), m)
            | Inr cfg \<Rightarrow> (print_json ch (SnapshotOut (Snapshot (sh_load_env (ch_service ch)) cfg)), m))
      else ask ch vals ''config_get'' [] True '''' m)"

definition readJSONInput :: "cli_host \<Rightarrow> string \<Rightarrow> string \<Rightarrow> int + string" where
  "readJSONInput ch filePath inline =
    (if filePath \<noteq> '''' then (case ch_read ch filePath of None \<Rightarrow> Inl ExitError | Some txt \<Rightarrow> Inr txt)
     else if inline \<noteq> '''' then Inr inline
     else Inl ExitUsage)"

text \<open>
  Unmarshal into a map: an object, or null, which leaves the map nil.  The body names what was
  given as patch or configuration.
\<close>

definition config_body :: "json \<Rightarrow> bool \<Rightarrow> bool \<Rightarrow> (string \<times> json) list option" where
  "config_body doc asPatch dryRun =
    (case (case doc of JsObject fs \<Rightarrow> Some fs | JsNull \<Rightarrow> Some [] | _ \<Rightarrow> None) of
       None \<Rightarrow> None
     | Some payload \<Rightarrow> Some
        ((case map_of payload ''config'' of
            Some c \<Rightarrow> (''config'', c) # (case map_of payload ''patch'' of Some p \<Rightarrow> [(''patch'', p)] | None \<Rightarrow> [])
          | None \<Rightarrow>
             (case map_of payload ''patch'' of
                Some p \<Rightarrow> [(''patch'', p)]
              | None \<Rightarrow> if asPatch then [(''patch'', doc)] else [(''config'', doc)]))
         @ [(''apply'', JsBool (\<not> dryRun))]))"

definition offline_update :: "cli_host \<Rightarrow> full_config \<Rightarrow> (string \<times> json) list \<Rightarrow> bool \<Rightarrow> machine \<Rightarrow> cli_result \<times> machine" where
  "offline_update ch cfg body apply m =
    (let sh = ch_service ch;
         (r, fs) = ApplyUpdate (sh_load_env sh) (sh_dump sh) (sh_write sh) cfg (client_raw ch (map_of body ''patch''))
                     (client_raw ch (map_of body ''config'')) apply (c_config_path cfg) (mc_files m) in
     (case r of Inl _ \<Rightarrow> (ExitError, Nothing) | Inr u \<Rightarrow> print_json ch (UpdateOut u), m\<lparr>mc_files := fs\<rparr>))"

text \<open>
  The service is asked first; when it cannot be reached, or calls the request a bad one, the file is
  updated without it.
\<close>

definition runConfigSet :: "cli_host \<Rightarrow> string list \<Rightarrow> machine \<Rightarrow> cli_result \<times> machine" where
  "runConfigSet ch args =
    with_flags (addConfigSocketFlags @ [string_flag ''file'' ''file'', string_flag ''f'' ''file'', string_flag ''json'' ''json'',
        bool_flag ''dry-run'', bool_flag ''patch'']) args (\<lambda>vals rest m.
      if rest \<noteq> [] then usage_error m
      else (case readJSONInput ch (string_value vals ''file'') (string_value vals ''json'') of
         Inl code \<Rightarrow> ((code, Nothing), m)
       | Inr txt \<Rightarrow>
          (case (case ch_decode ch txt of Inl _ \<Rightarrow> None | Inr doc \<Rightarrow> config_body doc (bool_value vals ''patch'') (bool_value vals ''dry-run'')) of
             None \<Rightarrow> ((ExitError, Nothing), m)
           | Some body \<Rightarrow>
              (case loadConfigRequired ch (string_value vals ''config'') m of
                 Inl _ \<Rightarrow> ((ExitError, Nothing), m)
               | Inr cfg \<Rightarrow>
                  (let offline = offline_update ch cfg body (\<not> bool_value vals ''dry-run'') in
                   case resolveSocket ch (string_value vals ''config'') (string_value vals ''socket'') m of
                     None \<Rightarrow> offline m
                   | Some p \<Rightarrow>
                      (let (r, m') = Client_RequestOK ch p ''config_set'' body m in
                       case r of
                         Inr d \<Rightarrow> (print_json ch (JsonOut d), m')
                       | Inl (CtlError msg code) \<Rightarrow>
                          (if code = ''UNAVAILABLE'' \<or> code = ''BAD_REQUEST'' then offline m'
                           else ((handleControlError (CtlError msg code), Nothing), m'))))))))"

definition runConfig :: "cli_host \<Rightarrow> string list \<Rightarrow> machine \<Rightarrow> cli_result \<times> machine" where
  "runConfig ch args =
    (case args of
       [] \<Rightarrow> usage_error
     | c # rest \<Rightarrow>
        (if c = ''show'' then runConfigShow ch rest
         else if c = ''set'' then runConfigSet ch rest
         else if c \<in> {''help'', ''-h'', ''--help''} then (\<lambda>m. ((ExitOK, HelpText ''config''), m))
         else usage_error))"

text \<open>The doctor works without the service; whether the configuration was found is printed with the report.\<close>

definition runDoctor :: "cli_host \<Rightarrow> string list \<Rightarrow> machine \<Rightarrow> cli_result \<times> machine" where
  "runDoctor ch args =
    with_flags (addConfigSocketFlags @ [bool_flag ''json'', bool_flag ''fix-systemd'', bool_flag ''dry-run'']) args (\<lambda>vals rest m.
      if rest \<noteq> [] then usage_error m
      else (case loadConfigOptional ch (string_value vals ''config'') m of
         Inl _ \<Rightarrow> ((ExitError, Nothing), m)
       | Inr cfg \<Rightarrow>
          (let report = Doctor_Run ((ch_doctor ch)\<lparr>dr_cfg := cfg, dr_fix_systemd := bool_value vals ''fix-systemd'',
                 dr_dry_run := bool_value vals ''dry-run''\<rparr>) in
           ((if rp_ok report then ExitOK else ExitError, ReportOut (bool_value vals ''json'') report), m))))"

text \<open>\<open>serve\<close> starts the daemon, whose life is that of the service; it is an argument.\<close>

definition RunWithIO ::
  "cli_host \<Rightarrow> (string list \<Rightarrow> machine \<Rightarrow> cli_result \<times> machine) \<Rightarrow> string list \<Rightarrow> machine \<Rightarrow> cli_result \<times> machine" where
  "RunWithIO ch serve args =
    (case args of
       [] \<Rightarrow> usage_error
     | c # rest \<Rightarrow>
        (if c \<in> {''version'', ''--version'', ''-V''} then (\<lambda>m. ((ExitOK, HelpText ''version''), m))
         else if c \<in> {''help'', ''--help'', ''-h''} then (\<lambda>m. ((ExitOK, HelpText ''''), m))
         else if c = ''serve'' then serve rest
         else if c = ''doctor'' then runDoctor ch rest
         else if c = ''config'' then runConfig ch rest
         else if c = ''status'' then runStatus ch rest
         else if c = ''metrics'' then runMetrics ch rest
         else if c = ''rescan'' then runRescan ch rest
         else if c = ''retry'' then runRetry ch rest
         else if c = ''mount'' then runMount ch rest
         else if c = ''unmount'' then runUnmount ch rest
         else if c = ''purge'' then runPurge ch rest
         else if c = ''hooks'' then runHooks ch rest
         else if c = ''reload'' then runReload ch rest
         else if c = ''stop'' then runStop ch rest
         else usage_error))"

end
