(* ===== verification/CliProps.thy ===== *)
theory CliProps
  imports Cli DoctorProps
begin

text \<open>
  The command line end to end: a command that is written as its help shows it reaches the service,
  does there what the request stands for and reports how it went; a mistake of usage touches
  nothing; and the usage lines that put the operand first are such mistakes.
\<close>

subsection \<open>From a command to the dispatcher\<close>

text \<open>An operation looks at the fields it asks for, so that order and the version do not matter.\<close>

lemma boolField_cong: "map_of r key = map_of r' key \<Longrightarrow> boolField r key def = boolField r' key def"
  by (simp add: boolField_def)

lemma handleRequest_cong:
  assumes "\<And>k. k \<noteq> ''v'' \<Longrightarrow> map_of r k = map_of r' k"
  shows "handleRequest sh answer r sv = handleRequest sh answer r' sv"
proof -
  have b: "boolField r key def = boolField r' key def" if "key \<noteq> ''v''" for key def
    by (rule boolField_cong) (rule assms [OF that])
  show ?thesis
    by (simp add: handleRequest_def assms b opConfigSet_def opRescan_def opRetry_def opUnmount_def opPurge_def opHooksStatus_def
        opHooksRun_def opMount_def cong: if_cong)
qed

text \<open>What is required of the two JSON codecs, at one request and one response.\<close>

definition request_text :: "cli_host \<Rightarrow> string \<Rightarrow> (string \<times> json) list \<Rightarrow> string" where
  "request_text ch op flds = ch_encode ch (flds @ [(''v'', JsNumber ''1''), (''op'', JsString op)])"

definition one_line :: "string \<Rightarrow> bool" where
  "one_line s \<longleftrightarrow> s \<noteq> '''' \<and> CHR 0x0A \<notin> set s \<and> last s \<noteq> CHR 0x0D"

definition request_arrives :: "cli_host \<Rightarrow> string \<Rightarrow> (string \<times> json) list \<Rightarrow> bool" where
  "request_arrives ch op flds \<longleftrightarrow>
    one_line (request_text ch op flds) \<and> length (request_text ch op flds) < MaxRequestBytes \<and> trim_space (request_text ch op flds) \<noteq> ''''
    \<and> ch_dec ch (trim_space (request_text ch op flds)) = Inr (JsObject (flds @ [(''v'', JsNumber ''1''), (''op'', JsString op)]))"

definition reads_as :: "cli_host \<Rightarrow> response \<Rightarrow> bool" where
  "reads_as ch resp \<longleftrightarrow> one_line (ch_response ch resp)
    \<and> (\<exists>fs. ch_decode ch (ch_response ch resp) = Inr (JsObject fs) \<and> map_of fs ''ok'' = Some (JsBool (respOK resp))
        \<and> (\<forall>why code. resp = ErrResponse why code \<longrightarrow> map_of fs ''code'' = Some (JsString code)))"

lemma read_one_line:
  assumes "one_line s"
  shows "readRequestLine n (s @ [CHR 0x0A]) fin = (if length s + 1 > n then Inl LineTooLarge else Inr s)"
proof -
  have "takeWhile (\<lambda>c. c \<noteq> CHR 0x0A) (s @ [CHR 0x0A]) = s @ takeWhile (\<lambda>c. c \<noteq> CHR 0x0A) [CHR 0x0A]"
    by (rule takeWhile_append2) (use assms in \<open>auto simp: one_line_def\<close>)
  then show ?thesis using assms by (simp add: readRequestLine_def Let_def one_line_def chomp_cr_def)
qed

text \<open>The service after a request, and the exit code for its answer.\<close>

definition dispatched :: "cli_host \<Rightarrow> string \<Rightarrow> (string \<times> json) list \<Rightarrow> config_files \<Rightarrow> service \<Rightarrow> response \<times> service" where
  "dispatched ch op flds fs sv =
    handleRequest (ch_service ch) (ch_answer ch) ((''op'', AStr op) # json_request flds) (sv\<lparr>sv_files := fs\<rparr>)"

definition exit_code :: "cli_host \<Rightarrow> response \<Rightarrow> int" where
  "exit_code ch resp =
    (if length (ch_response ch resp) + 1 > 1000000 then 4
     else (case resp of
        OKResponse _ \<Rightarrow> 0
      | ErrResponse _ code \<Rightarrow> if code = ''UNAVAILABLE'' then 4 else if code = ''PERMISSION_DENIED'' then 5 else 1))"

lemma exchange_served:
  assumes m: "mc_service m = Some sv" "mc_socket m = sock" "\<not> ch_late ch" "entitled (ch_opts ch) (ch_peer ch)"
    and req: "request_arrives ch op flds" "op \<noteq> ''''" "trim_space op = op" "map_of flds ''op'' = None" "map_of flds ''v'' = None"
    and d: "dispatched ch op flds (mc_files m) sv = (resp, sv')"
  shows "exchange ch sock (EncodeRequest ch op flds) m =
    (Stream (ch_response ch resp @ [CHR 0x0A]) StreamEOF, m\<lparr>mc_files := sv_files sv', mc_service := Some sv'\<rparr>)"
proof -
  let ?t = "request_text ch op flds" and ?fs = "flds @ [(''v'', JsNumber ''1''), (''op'', JsString op)]"
  let ?sv = "sv\<lparr>sv_files := mc_files m\<rparr>"
  have line: "readRequestLine MaxRequestBytes (EncodeRequest ch op flds) StreamEOF = Inr ?t"
    using req(1) read_one_line [of ?t] by (simp add: EncodeRequest_def request_arrives_def request_text_def)
  have get: "map_of (json_request xs) k = map_option json_arg (map_of xs k)" for xs k by (simp add: json_request_def map_of_map)
  have one: "parse_int64 ''1'' = Some 1" by code_simp
  have req_ok: "ParseRequest (ch_dec ch) ?t = Inr ((''v'', ANum (Some 1)) # (''op'', AStr op) # json_request ?fs)"
    using req by (simp add: ParseRequest_def request_arrives_def Let_def get map_add_def one)
  have same: "handleRequest sh a ((''v'', ANum (Some 1)) # (''op'', AStr op) # json_request ?fs) sv0
      = handleRequest sh a ((''op'', AStr op) # json_request flds) sv0" for sh a sv0
    by (rule handleRequest_cong) (simp add: get map_add_def split: option.split)
  have "?t \<noteq> ''''" using req(1) by (simp add: request_arrives_def one_line_def)
  then have "handleConnection (ch_opts ch) (ch_dec ch) (handleRequest (ch_service ch) (ch_answer ch)) (ch_peer ch) (EncodeRequest ch op flds) StreamEOF ?sv
      = (Some resp, sv')"
    using m(4) d by (simp add: handleConnection_def line req_ok same dispatched_def split_beta AuthorizePeer_entitled)
  then show ?thesis using m by (simp add: exchange_def)
qed

lemma requestOK_served:
  assumes m: "mc_service m = Some sv" "mc_socket m = sock" "\<not> ch_late ch" "entitled (ch_opts ch) (ch_peer ch)"
    and sock: "sock \<noteq> ''''" "trim_space sock = sock" "string_value vals ''socket'' = sock"
    and req: "request_arrives ch op flds" "op \<noteq> ''''" "trim_space op = op" "map_of flds ''op'' = None" "map_of flds ''v'' = None"
    and d: "dispatched ch op flds (mc_files m) sv = (resp, sv')" "reads_as ch resp"
  shows "\<exists>out. ask ch vals op flds False f m = ((exit_code ch resp, out), m\<lparr>mc_files := sv_files sv', mc_service := Some sv'\<rparr>)
    \<and> (exit_code ch resp = 0 \<longrightarrow> (\<exists>d. out = HumanOut f d))"
proof -
  obtain fs where fs: "ch_decode ch (ch_response ch resp) = Inr (JsObject fs)" "map_of fs ''ok'' = Some (JsBool (respOK resp))"
    "\<And>why code. resp = ErrResponse why code \<Longrightarrow> map_of fs ''code'' = Some (JsString code)"
    using d(2) by (auto simp: reads_as_def)
  have one: "one_line (ch_response ch resp)" using d(2) by (simp add: reads_as_def)
  then have "ch_response ch resp \<noteq> ''''" by (simp add: one_line_def)
  with fs one sock exchange_served [OF m req d(1)] show ?thesis
    by (cases resp)
      (auto simp: ask_def requestOK_def resolveSocket_def Client_RequestOK_def Client_Request_def readOneLine_def read_one_line exit_code_def
        MaxRequestBytes_def cannot_connect_def handleControlError_def ExitServiceUnavailable_def ExitPermission_def ExitError_def ExitOK_def Let_def)
qed

subsection \<open>The commands\<close>

text \<open>
  The commands as their help lists them, the flags before the operand, with the operation and the
  fields each stands for.
\<close>

definition command_lines :: "path \<Rightarrow> string \<Rightarrow> (string list \<times> string \<times> (string \<times> json) list) list" where
  "command_lines sock x =
    [([''status'', ''--socket'', sock], ''status'', []),
     ([''status'', ''--sizes'', ''--socket'', sock], ''status'', [(''include_sizes'', JsBool True)]),
     ([''rescan'', ''--socket'', sock], ''rescan'', [(''assume_stable'', JsBool False)]),
     ([''rescan'', ''--assume-stable'', ''--socket'', sock], ''rescan'', [(''assume_stable'', JsBool True)]),
     ([''retry'', ''--socket'', sock, x], ''retry'', [(''archive_id'', JsString x)]),
     ([''mount'', ''--socket'', sock, x], ''mount'', [(''path'', JsString x)]),
     ([''unmount'', ''--socket'', sock, x], ''unmount'', [(''target'', JsString x)]),
     ([''unmount'', ''--all'', ''--socket'', sock], ''unmount'', [(''all'', JsBool True)]),
     ([''purge'', ''--yes'', ''--socket'', sock, x], ''purge'', [(''archive_id'', JsString x), (''yes'', JsBool True)]),
     ([''hooks'', ''list'', ''--socket'', sock], ''hooks_list'', []),
     ([''hooks'', ''status'', ''--socket'', sock, x], ''hooks_status'', [(''archive_id'', JsString x)]),
     ([''hooks'', ''rerun'', ''--socket'', sock, x], ''hooks_run'', [(''archive_id'', JsString x), (''force'', JsBool False)]),
     ([''hooks'', ''rerun'', ''--force'', ''--socket'', sock, x], ''hooks_run'', [(''archive_id'', JsString x), (''force'', JsBool True)]),
     ([''reload'', ''--socket'', sock], ''reload'', []),
     ([''stop'', ''--socket'', sock], ''stop'', [])]"

lemmas flag_simps = is_flag_def has_prefix_def split_flag_def bool_flag_def string_flag_def addConfigSocketFlags_def Let_def

lemma ask_exists:
  "string_value vals ''socket'' = sock \<Longrightarrow>
    \<exists>vals'. string_value vals' ''socket'' = sock \<and> (\<exists>f'. ask ch vals op flds False f m = ask ch vals' op flds False f' m)"
  by blast

lemmas command_defs = RunWithIO_def runStatus_def runRescan_def runRetry_def runMount_def runUnmount_def runPurge_def runReload_def
  runStop_def run_scheduled_def runHooks_def runHooksList_def runHooksStatus_def runHooksRerun_def with_flags_def

lemma command_asks:
  assumes "(args, op, flds) \<in> set (command_lines sock x)" "x \<noteq> ''''" "\<not> is_flag x"
  shows "\<exists>vals f. string_value vals ''socket'' = sock \<and> RunWithIO ch serve args m = ask ch vals op flds False f m"
proof -
  have x: "\<not> (2 \<le> length x \<and> hd x = CHR ''-'')" using assms(3) by (simp add: is_flag_def)
  show ?thesis
    using assms(1) unfolding command_lines_def list.set insert_iff empty_iff prod.inject
    by (elim disjE conjE)
      (simp_all add: command_defs flag_simps bool_value_def assms(2) x, (rule ask_exists, simp add: string_value_def)+)
qed


subsection \<open>Usage\<close>

lemma ask_not_usage: "fst (fst (ask ch vals op flds j f m)) \<noteq> 2"
  by (auto simp: ask_def requestOK_def Client_RequestOK_def handleControlError_def print_json_def split_beta Let_def ExitOK_def ExitError_def
      ExitServiceUnavailable_def ExitPermission_def split: option.splits sum.splits control_error.splits)

text \<open>A command that ends with the exit code of a usage error has changed nothing.\<close>

definition usage_harmless :: "(machine \<Rightarrow> cli_result \<times> machine) \<Rightarrow> bool" where
  "usage_harmless k \<longleftrightarrow> (\<forall>m. fst (fst (k m)) = 2 \<longrightarrow> snd (k m) = m)"

lemma harmless_flags: "(\<And>vals rest. usage_harmless (k vals rest)) \<Longrightarrow> usage_harmless (with_flags fds args k)"
  by (auto simp: usage_harmless_def with_flags_def split: sum.splits flag_error.splits)

lemma harmless_if: "(b \<Longrightarrow> usage_harmless f) \<Longrightarrow> (\<not> b \<Longrightarrow> usage_harmless g) \<Longrightarrow> usage_harmless (\<lambda>m. if b then f m else g m)"
  by (simp add: usage_harmless_def)

lemma harmless_one:
  "usage_harmless g \<Longrightarrow> (\<And>a. usage_harmless (f a)) \<Longrightarrow> usage_harmless (\<lambda>m. case xs of [a] \<Rightarrow> f a m | _ \<Rightarrow> g m)"
  by (simp add: usage_harmless_def split: list.split)

lemma harmless_basic: "usage_harmless usage_error" "usage_harmless (ask ch vals op flds j f)"
  by (simp_all add: usage_harmless_def usage_error_def ask_not_usage)

lemma error_codes: "handleControlError e \<noteq> 2" "fst (print_json ch d) \<noteq> 2"
  by (simp_all add: handleControlError_def print_json_def ExitServiceUnavailable_def ExitPermission_def ExitError_def ExitOK_def split: control_error.split)

lemma harmless_status: "usage_harmless (runStatus ch args)" "usage_harmless (runMetrics ch args)" "usage_harmless (runRescan ch args)"
    "usage_harmless (runRetry ch args)" "usage_harmless (runMount ch args)" "usage_harmless (runPurge ch args)"
    "usage_harmless (run_scheduled op ch args)" "usage_harmless (runHooksList ch args)" "usage_harmless (runHooksStatus ch args)"
    "usage_harmless (runHooksRerun ch args)" "usage_harmless (runUnmount ch args)"
  unfolding runStatus_def runMetrics_def runRescan_def runRetry_def runMount_def runPurge_def run_scheduled_def runHooksList_def
    runHooksStatus_def runHooksRerun_def runUnmount_def Let_def
  by (intro harmless_flags harmless_if harmless_one harmless_basic)+

lemma harmless_hooks: "usage_harmless (runHooks ch args)"
  using harmless_status harmless_basic(1)
  by (auto simp: runHooks_def usage_harmless_def ExitOK_def split: list.split)

lemma harmless_doctor: "usage_harmless (runDoctor ch args)"
  unfolding runDoctor_def
  by (intro harmless_flags harmless_if harmless_basic) (auto simp: usage_harmless_def ExitOK_def ExitError_def Let_def split: sum.split)

lemma harmless_show: "usage_harmless (runConfigShow ch args)"
  unfolding runConfigShow_def
  by (intro harmless_flags harmless_if harmless_basic) (auto simp: usage_harmless_def error_codes ExitError_def split: sum.split)

lemma harmless_set: "usage_harmless (runConfigSet ch args)"
proof -
  have not2: "fst (fst (offline_update ch cfg body ap m)) \<noteq> 2" for cfg body ap m
    by (auto simp: offline_update_def print_json_def split_beta Let_def ExitOK_def ExitError_def split: sum.splits)
  show ?thesis
    unfolding runConfigSet_def
    by (intro harmless_flags harmless_if harmless_basic)
      (auto simp: usage_harmless_def error_codes not2 ExitError_def Let_def split_beta split: sum.split option.split control_error.split)
qed

lemma harmless_config: "usage_harmless (runConfig ch args)"
  using harmless_show harmless_set harmless_basic(1)
  by (auto simp: runConfig_def usage_harmless_def ExitOK_def split: list.split)

lemma harmless_command: "args = [] \<or> hd args \<noteq> ''serve'' \<Longrightarrow> usage_harmless (RunWithIO ch serve args)"
proof (cases args)
  case Nil
  then show ?thesis by (simp add: RunWithIO_def harmless_basic)
next
  case (Cons c rest)
  moreover assume "args = [] \<or> hd args \<noteq> ''serve''"
  moreover have "usage_harmless (\<lambda>m. ((ExitOK, HelpText s), m))" for s by (simp add: usage_harmless_def ExitOK_def)
  ultimately show ?thesis
    by (simp add: RunWithIO_def runReload_def runStop_def harmless_status harmless_hooks harmless_config harmless_doctor harmless_basic)
qed

text \<open>C40. Mistakes of usage are harmless, and the documented order is one. A command line other than serve that
  ends with the exit code of a usage error has neither changed a file nor reached the service. Flags
  count before the operand only: a retry, mount, purge, hooks status or hooks rerun whose operand is
  followed by anything - in particular the documented purge ARCHIVE_ID --yes and retry ARCHIVE_ID
  --json - ends with a usage error, and so does an unmount or metrics with a flag behind its operand.\<close>

theorem operand_before_flags:
  assumes x: "\<not> is_flag x" and cmd: "cmd \<in> {[''retry''], [''mount''], [''purge''], [''unmount''], [''metrics''], [''hooks'', ''status''], [''hooks'', ''rerun'']}"
  shows "RunWithIO ch serve (cmd @ x # y # ys) m = ((2, Nothing), m)
    \<and> (args = [] \<or> hd args \<noteq> ''serve'' \<longrightarrow>
        (fst (fst (RunWithIO ch serve args m)) = 2 \<longrightarrow> snd (RunWithIO ch serve args m) = m))"
proof
  have "flag_parse fds [] (x # y # ys) = Inr ([], x # y # ys)" for fds using x by simp
  then show "RunWithIO ch serve (cmd @ x # y # ys) m = ((2, Nothing), m)"
    using cmd by (auto simp: command_defs runMetrics_def usage_error_def ExitUsage_def)
  show "args = [] \<or> hd args \<noteq> ''serve'' \<longrightarrow>
        (fst (fst (RunWithIO ch serve args m)) = 2 \<longrightarrow> snd (RunWithIO ch serve args m) = m)"
    using harmless_command by (auto simp: usage_harmless_def)
qed

subsection \<open>Examples\<close>

definition sample_cli :: cli_host where
  "sample_cli = \<lparr>ch_service = sample_service_host, ch_answer = OKResponse PMetrics, ch_opts = sample_auth, ch_peer = Some 0,
     ch_dec = (\<lambda>_. Inr (JsObject [(''v'', JsNumber ''1''), (''op'', JsString ''stop'')])), ch_response = (\<lambda>_. ''R''), ch_encode = (\<lambda>_. ''Q''),
     ch_decode = (\<lambda>_. Inr (JsObject [(''ok'', JsBool True)])), ch_float = (\<lambda>_. 0), ch_late = False, ch_default_config = ''/c'',
     ch_read = (\<lambda>_. None), ch_stdout = True, ch_doctor = sample_doctor\<rparr>"

definition sample_machine :: machine where
  "sample_machine = \<lparr>mc_files = (\<lambda>_. None), mc_socket = ''/s'', mc_service = Some sample_idle\<rparr>"


theorem operand_before_flags_witness:
  "RunWithIO sample_cli (\<lambda>_. usage_error) [''purge'', ''a1'', ''--yes''] sample_machine = ((2, Nothing), sample_machine)"
  using operand_before_flags [of "''a1''" "[''purge'']" sample_cli "\<lambda>_. usage_error" "''--yes''" "[]" sample_machine] by (simp add: is_flag_def)

end
